(* ===== verification/Prelude.thy ===== *)
theory Prelude
  imports Main "HOL-Library.Word"
begin

text \<open>
  Shared vocabulary of the development: machine integer types, the ways in which the C++
  code can fail, the result type with its sequencing operator, and the byte-level
  representation of machine words together with the lemmas the components share.

  A method that can throw, abort or run into undefined behaviour returns a value of
  \<open>'a result\<close>.  The left summand names the failure:
  \<^item> \<open>ByteBufferException\<close> is the exception of the same name of
    src/src/shared/ByteBuffer.h, with its constructor arguments;
  \<^item> \<open>AssertFailed\<close> is a failed \<open>MANGOS_ASSERT\<close>, which aborts the process;
  \<^item> \<open>Undefined\<close> is undefined behaviour of C++ (access outside an array or outside the
    storage of a vector, a shift by at least the width of the operand).
  The C++ code leaves a partially updated object behind when it throws; no operation of
  this development looks at such an object, so the left summand carries no state.
\<close>

unbundle bit_operations_syntax

type_synonym uint8 = "8 word"
type_synonym uint16 = "16 word"
type_synonym uint32 = "32 word"
type_synonym uint64 = "64 word"

text \<open>\<open>std::string\<close> and C strings are the lists of their bytes, without the terminating zero.\<close>

type_synonym cstring = "uint8 list"

datatype fault =
    ByteBufferException bool nat nat nat
  | AssertFailed
  | Undefined

text \<open>
  Collections: \<open>early_exit\<close> unfolds the answers with which handlers end early, \<open>keeps\<close> has the
  lemmas that an operation keeps an invariant.
\<close>

named_theorems early_exit "the answers that end a handler early"
named_theorems keeps "operations keep the invariant of their component"

type_synonym 'a result = "fault + 'a"

definition bindR :: "'a result \<Rightarrow> ('a \<Rightarrow> 'b result) \<Rightarrow> 'b result" where
  "bindR r f = (case r of Inl e \<Rightarrow> Inl e | Inr x \<Rightarrow> f x)"

lemma bindR_simps [simp]:
  "bindR (Inl e) f = Inl e"
  "bindR (Inr x) f = f x"
  by (simp_all add: bindR_def)

lemma bindR_eq_Inr [simp]:
  "bindR r f = Inr y \<longleftrightarrow> (\<exists>x. r = Inr x \<and> f x = Inr y)"
  by (cases r) simp_all

lemma bindR_assoc: "bindR (bindR r f) g = bindR r (\<lambda>x. bindR (f x) g)"
  by (cases r) simp_all

lemma bindR_cong [fundef_cong]:
  "r = r' \<Longrightarrow> (\<And>x. r' = Inr x \<Longrightarrow> f x = f' x) \<Longrightarrow> bindR r f = bindR r' f'"
  by (cases r') simp_all

text \<open>An operation run over a list of arguments, stopping at the first failure.\<close>

fun foldR :: "('i \<Rightarrow> 'm \<Rightarrow> 'm result) \<Rightarrow> 'i list \<Rightarrow> 'm \<Rightarrow> 'm result" where
  "foldR f [] m = Inr m"
| "foldR f (i # is) m = bindR (f i m) (foldR f is)"

text \<open>
  Positions are \<open>size_t\<close>: 64-bit unsigned, so sums wrap.
\<close>

definition size_add :: "nat \<Rightarrow> nat \<Rightarrow> nat" where
  "size_add a b = (a + b) mod 2 ^ 64"

definition size_dec :: "nat \<Rightarrow> nat" where
  "size_dec a = (a + (2 ^ 64 - 1)) mod 2 ^ 64"

lemma size_add_small: "a + b < 2 ^ 64 \<Longrightarrow> size_add a b = a + b"
  by (simp add: size_add_def)

lemma size_dec_pos: "0 < a \<Longrightarrow> a < 2 ^ 64 \<Longrightarrow> size_dec a = a - 1"
proof -
  assume a: "0 < a" "a < 2 ^ 64"
  have "a + (2 ^ 64 - 1) = (a - 1) + 2 ^ 64" using a by simp
  then show ?thesis using a by (simp only: size_dec_def mod_add_self2) simp
qed

text \<open>
  The bytes of a word in little-endian order, which is the order of \<open>EndianConvert\<close>
  (src/src/framework/Utilities/ByteConverter.h) on every host: the conversion swaps the
  bytes on a big-endian host and does nothing on a little-endian one.
\<close>

definition word_byte :: "'a::len word \<Rightarrow> nat \<Rightarrow> uint8" where
  "word_byte w k = ucast (drop_bit (8 * k) w)"

lemma word_byte_0 [simp]: "word_byte 0 k = 0"
  by (simp add: word_byte_def)

definition le_bytes :: "'a::len word \<Rightarrow> uint8 list" where
  "le_bytes w = map (word_byte w) [0..<LENGTH('a) div 8]"

fun le_word :: "uint8 list \<Rightarrow> 'a::len word" where
  "le_word [] = 0"
| "le_word (b # bs) = ucast b OR push_bit 8 (le_word bs)"

lemma bit_word_byte: "bit (word_byte w k) i \<longleftrightarrow> i < 8 \<and> bit w (8 * k + i)"
  by (auto simp add: word_byte_def bit_simps dest: bit_imp_le_length)

lemma bit_le_word:
  "bit (le_word bs :: 'a::len word) i \<longleftrightarrow>
     i < LENGTH('a) \<and> i div 8 < length bs \<and> bit (bs ! (i div 8)) (i mod 8)"
proof (induction bs arbitrary: i)
  case Nil
  then show ?case by simp
next
  case (Cons b bs)
  show ?case
  proof (cases "i < 8")
    case True
    then show ?thesis by (auto simp add: bit_simps dest: bit_imp_le_length)
  next
    case False
    then obtain j where i: "i = 8 + j" using le_Suc_ex not_less by blast
    have nb: "\<not> bit b i" using False by (auto dest: bit_imp_le_length)
    have d: "(8 + j) div 8 = Suc (j div 8)" by simp
    show ?thesis using nb Cons.IH[of j] d
      by (auto simp add: i bit_simps simp del: div_add_self1 dest: bit_imp_le_length)
  qed
qed

lemma length_le_bytes [simp]: "length (le_bytes (w :: 'a::len word)) = LENGTH('a) div 8"
  by (simp add: le_bytes_def)

lemma le_bytes_nonempty:
  assumes "8 dvd LENGTH('a)"
  shows "le_bytes (w :: 'a::len word) \<noteq> []"
proof
  assume "le_bytes w = []"
  then have "length (le_bytes w) = 0" by simp
  moreover have "8 \<le> LENGTH('a)" using assms by (simp add: dvd_imp_le)
  ultimately show False by simp
qed

lemma le_word_le_bytes:
  assumes "8 dvd LENGTH('a)"
  shows "le_word (le_bytes w) = (w :: 'a::len word)"
proof (rule bit_word_eqI)
  fix i assume i: "i < LENGTH('a)"
  from assms i have "i div 8 < LENGTH('a) div 8"
    by (metis dvd_mult_div_cancel less_mult_imp_div_less mult.commute)
  then show "bit (le_word (le_bytes w) :: 'a word) i = bit w i"
    using i by (simp add: bit_le_word le_bytes_def bit_word_byte mult_div_mod_eq)
qed

lemma word_byte_le_word:
  assumes "k < length bs" "8 * k + 8 \<le> LENGTH('a)"
  shows "word_byte (le_word bs :: 'a::len word) k = bs ! k"
proof (rule bit_word_eqI)
  fix i assume i: "i < LENGTH(8)"
  then have "(8 * k + i) div 8 = k" "(8 * k + i) mod 8 = i" by simp_all
  then show "bit (word_byte (le_word bs :: 'a word) k) i = bit (bs ! k) i"
    using i assms by (simp add: bit_word_byte bit_le_word)
qed

lemma word_eq_by_bytes:
  fixes v w :: "'a::len word"
  assumes "8 dvd LENGTH('a)" and "\<And>k. k < LENGTH('a) div 8 \<Longrightarrow> word_byte v k = word_byte w k"
  shows "v = w"
proof -
  have "le_bytes v = le_bytes w" using assms(2) by (simp add: le_bytes_def)
  then have "le_word (le_bytes v) = (le_word (le_bytes w) :: 'a word)" by simp
  then show ?thesis using assms(1) by (simp add: le_word_le_bytes)
qed

text \<open>Numeric bounds as bit facts, and masks as truncations.\<close>

lemma word_less_not_bit:
  fixes w :: "'a::len word"
  assumes "unat w < 2 ^ n" "n \<le> i"
  shows "\<not> bit w i"
proof -
  have "take_bit n (unat w) = unat w" using assms(1) by (simp add: take_bit_nat_eq_self)
  then have "\<not> bit (unat w) i" using assms(2) by (metis bit_take_bit_iff not_less)
  then show ?thesis by (auto simp add: bit_unsigned_iff dest: bit_imp_le_length)
qed

lemma word_bit_bound: "unat (w :: 'a::len word) < 2 ^ n \<Longrightarrow> bit w i \<Longrightarrow> i < n"
  using word_less_not_bit not_le by blast

lemma and_mask_take_bit:
  "(w :: 'a::len word) AND 0xF = take_bit 4 w"
  "(w :: 'a::len word) AND 0x3F = take_bit 6 w"
  "(w :: 'a::len word) AND 0xFF = take_bit 8 w"
  "(w :: 'a::len word) AND 0xFFF = take_bit 12 w"
  "(w :: 'a::len word) AND 0xFFFF = take_bit 16 w"
  "(w :: 'a::len word) AND 0xFFFFF = take_bit 20 w"
  "(w :: 'a::len word) AND 0xFFFFFFFF = take_bit 32 w"
  by (simp_all add: take_bit_eq_mask mask_eq_exp_minus_1)

text \<open>Testing a flag.\<close>

lemma and_push_bit_nonzero:
  fixes c :: "'a::len word"
  assumes "k < LENGTH('a)"
  shows "c AND push_bit k 1 \<noteq> 0 \<longleftrightarrow> bit c k"
proof -
  have "c AND push_bit k 1 \<noteq> 0 \<longleftrightarrow> (\<exists>n. bit (c AND push_bit k 1) n)"
    by (metis bit_0_eq bit_eqI bot_apply bot_bool_def)
  then show ?thesis using assms by (auto simp add: bit_simps)
qed

end
