(* ===== verification/MovementTables.thy ===== *)
theory MovementTables
  imports Prelude
begin

text \<open>
  The packet layout tables of src/src/game/MovementStructures.h: the enumeration of
  movement status elements, one sequence of elements per movement packet, and the lookup
  by opcode.  \<open>mse_ord\<close> is the value of an enumerator; the order of the enumeration, which
  the codec uses for its range tests, is the order of these values.  An opcode is the
  position of its enumerator in \<open>enum Opcodes\<close> (src/src/game/Opcodes.h), which assigns no
  explicit values.
\<close>

section \<open>The enumeration\<close>

datatype (plugins only: size) MovementStatusElements =
    MSEFlags | MSEFlags2 | MSETimestamp | MSEHasPitch | MSEGuidBit0 | MSEGuidBit1
  | MSEGuidBit2 | MSEGuidBit3 | MSEGuidBit4 | MSEGuidBit5 | MSEGuidBit6 | MSEGuidBit7
  | MSEGuid2Bit0 | MSEGuid2Bit1 | MSEGuid2Bit2 | MSEGuid2Bit3 | MSEGuid2Bit4 | MSEGuid2Bit5
  | MSEGuid2Bit6 | MSEGuid2Bit7 | MSEHasUnknownBit | MSEHasMovementFlags
  | MSEHasMovementFlags2 | MSEHasTimestamp | MSEHasOrientation | MSEHasFallData
  | MSEHasFallDirection | MSEHasTransportData | MSEHasTransportTime2 | MSEHasTransportTime3
  | MSETransportGuidBit0 | MSETransportGuidBit1 | MSETransportGuidBit2
  | MSETransportGuidBit3 | MSETransportGuidBit4 | MSETransportGuidBit5
  | MSETransportGuidBit6 | MSETransportGuidBit7 | MSEHasSpline | MSEHasSplineElevation
  | MSEPositionX | MSEPositionY | MSEPositionZ | MSEPositionO | MSEGuidByte0 | MSEGuidByte1
  | MSEGuidByte2 | MSEGuidByte3 | MSEGuidByte4 | MSEGuidByte5 | MSEGuidByte6 | MSEGuidByte7
  | MSEGuid2Byte0 | MSEGuid2Byte1 | MSEGuid2Byte2 | MSEGuid2Byte3 | MSEGuid2Byte4
  | MSEGuid2Byte5 | MSEGuid2Byte6 | MSEGuid2Byte7 | MSEPitch | MSEFallTime
  | MSETransportGuidByte0 | MSETransportGuidByte1 | MSETransportGuidByte2
  | MSETransportGuidByte3 | MSETransportGuidByte4 | MSETransportGuidByte5
  | MSETransportGuidByte6 | MSETransportGuidByte7 | MSESplineElevation
  | MSEFallHorizontalSpeed | MSEFallVerticalSpeed | MSEFallCosAngle | MSEFallSinAngle
  | MSETransportSeat | MSETransportPositionO | MSETransportPositionX | MSETransportPositionY
  | MSETransportPositionZ | MSETransportTime | MSETransportTime2 | MSETransportTime3
  | MSEMovementCounter | MSEByteParam | MSEEnd

definition mse_ord :: "MovementStatusElements \<Rightarrow> nat" where
  "mse_ord e = (case e of
      MSEFlags \<Rightarrow> 0
   | MSEFlags2 \<Rightarrow> 1
   | MSETimestamp \<Rightarrow> 2
   | MSEHasPitch \<Rightarrow> 3
   | MSEGuidBit0 \<Rightarrow> 4
   | MSEGuidBit1 \<Rightarrow> 5
   | MSEGuidBit2 \<Rightarrow> 6
   | MSEGuidBit3 \<Rightarrow> 7
   | MSEGuidBit4 \<Rightarrow> 8
   | MSEGuidBit5 \<Rightarrow> 9
   | MSEGuidBit6 \<Rightarrow> 10
   | MSEGuidBit7 \<Rightarrow> 11
   | MSEGuid2Bit0 \<Rightarrow> 12
   | MSEGuid2Bit1 \<Rightarrow> 13
   | MSEGuid2Bit2 \<Rightarrow> 14
   | MSEGuid2Bit3 \<Rightarrow> 15
   | MSEGuid2Bit4 \<Rightarrow> 16
   | MSEGuid2Bit5 \<Rightarrow> 17
   | MSEGuid2Bit6 \<Rightarrow> 18
   | MSEGuid2Bit7 \<Rightarrow> 19
   | MSEHasUnknownBit \<Rightarrow> 20
   | MSEHasMovementFlags \<Rightarrow> 21
   | MSEHasMovementFlags2 \<Rightarrow> 22
   | MSEHasTimestamp \<Rightarrow> 23
   | MSEHasOrientation \<Rightarrow> 24
   | MSEHasFallData \<Rightarrow> 25
   | MSEHasFallDirection \<Rightarrow> 26
   | MSEHasTransportData \<Rightarrow> 27
   | MSEHasTransportTime2 \<Rightarrow> 28
   | MSEHasTransportTime3 \<Rightarrow> 29
   | MSETransportGuidBit0 \<Rightarrow> 30
   | MSETransportGuidBit1 \<Rightarrow> 31
   | MSETransportGuidBit2 \<Rightarrow> 32
   | MSETransportGuidBit3 \<Rightarrow> 33
   | MSETransportGuidBit4 \<Rightarrow> 34
   | MSETransportGuidBit5 \<Rightarrow> 35
   | MSETransportGuidBit6 \<Rightarrow> 36
   | MSETransportGuidBit7 \<Rightarrow> 37
   | MSEHasSpline \<Rightarrow> 38
   | MSEHasSplineElevation \<Rightarrow> 39
   | MSEPositionX \<Rightarrow> 40
   | MSEPositionY \<Rightarrow> 41
   | MSEPositionZ \<Rightarrow> 42
   | MSEPositionO \<Rightarrow> 43
   | MSEGuidByte0 \<Rightarrow> 44
   | MSEGuidByte1 \<Rightarrow> 45
   | MSEGuidByte2 \<Rightarrow> 46
   | MSEGuidByte3 \<Rightarrow> 47
   | MSEGuidByte4 \<Rightarrow> 48
   | MSEGuidByte5 \<Rightarrow> 49
   | MSEGuidByte6 \<Rightarrow> 50
   | MSEGuidByte7 \<Rightarrow> 51
   | MSEGuid2Byte0 \<Rightarrow> 52
   | MSEGuid2Byte1 \<Rightarrow> 53
   | MSEGuid2Byte2 \<Rightarrow> 54
   | MSEGuid2Byte3 \<Rightarrow> 55
   | MSEGuid2Byte4 \<Rightarrow> 56
   | MSEGuid2Byte5 \<Rightarrow> 57
   | MSEGuid2Byte6 \<Rightarrow> 58
   | MSEGuid2Byte7 \<Rightarrow> 59
   | MSEPitch \<Rightarrow> 60
   | MSEFallTime \<Rightarrow> 61
   | MSETransportGuidByte0 \<Rightarrow> 62
   | MSETransportGuidByte1 \<Rightarrow> 63
   | MSETransportGuidByte2 \<Rightarrow> 64
   | MSETransportGuidByte3 \<Rightarrow> 65
   | MSETransportGuidByte4 \<Rightarrow> 66
   | MSETransportGuidByte5 \<Rightarrow> 67
   | MSETransportGuidByte6 \<Rightarrow> 68
   | MSETransportGuidByte7 \<Rightarrow> 69
   | MSESplineElevation \<Rightarrow> 70
   | MSEFallHorizontalSpeed \<Rightarrow> 71
   | MSEFallVerticalSpeed \<Rightarrow> 72
   | MSEFallCosAngle \<Rightarrow> 73
   | MSEFallSinAngle \<Rightarrow> 74
   | MSETransportSeat \<Rightarrow> 75
   | MSETransportPositionO \<Rightarrow> 76
   | MSETransportPositionX \<Rightarrow> 77
   | MSETransportPositionY \<Rightarrow> 78
   | MSETransportPositionZ \<Rightarrow> 79
   | MSETransportTime \<Rightarrow> 80
   | MSETransportTime2 \<Rightarrow> 81
   | MSETransportTime3 \<Rightarrow> 82
   | MSEMovementCounter \<Rightarrow> 83
   | MSEByteParam \<Rightarrow> 84
   | MSEEnd \<Rightarrow> 85)"

definition MSE_COUNT :: nat where "MSE_COUNT = 86"

definition mse_all :: "MovementStatusElements list" where
  "mse_all =
    [MSEFlags, MSEFlags2, MSETimestamp, MSEHasPitch, MSEGuidBit0, MSEGuidBit1, MSEGuidBit2,
     MSEGuidBit3, MSEGuidBit4, MSEGuidBit5, MSEGuidBit6, MSEGuidBit7, MSEGuid2Bit0,
     MSEGuid2Bit1, MSEGuid2Bit2, MSEGuid2Bit3, MSEGuid2Bit4, MSEGuid2Bit5, MSEGuid2Bit6,
     MSEGuid2Bit7, MSEHasUnknownBit, MSEHasMovementFlags, MSEHasMovementFlags2,
     MSEHasTimestamp, MSEHasOrientation, MSEHasFallData, MSEHasFallDirection,
     MSEHasTransportData, MSEHasTransportTime2, MSEHasTransportTime3, MSETransportGuidBit0,
     MSETransportGuidBit1, MSETransportGuidBit2, MSETransportGuidBit3, MSETransportGuidBit4,
     MSETransportGuidBit5, MSETransportGuidBit6, MSETransportGuidBit7, MSEHasSpline,
     MSEHasSplineElevation, MSEPositionX, MSEPositionY, MSEPositionZ, MSEPositionO,
     MSEGuidByte0, MSEGuidByte1, MSEGuidByte2, MSEGuidByte3, MSEGuidByte4, MSEGuidByte5,
     MSEGuidByte6, MSEGuidByte7, MSEGuid2Byte0, MSEGuid2Byte1, MSEGuid2Byte2, MSEGuid2Byte3,
     MSEGuid2Byte4, MSEGuid2Byte5, MSEGuid2Byte6, MSEGuid2Byte7, MSEPitch, MSEFallTime,
     MSETransportGuidByte0, MSETransportGuidByte1, MSETransportGuidByte2,
     MSETransportGuidByte3, MSETransportGuidByte4, MSETransportGuidByte5,
     MSETransportGuidByte6, MSETransportGuidByte7, MSESplineElevation, MSEFallHorizontalSpeed,
     MSEFallVerticalSpeed, MSEFallCosAngle, MSEFallSinAngle, MSETransportSeat,
     MSETransportPositionO, MSETransportPositionX, MSETransportPositionY,
     MSETransportPositionZ, MSETransportTime, MSETransportTime2, MSETransportTime3,
     MSEMovementCounter, MSEByteParam, MSEEnd]"

lemma nth_mse_ord: "mse_all ! mse_ord e = e"
  by (cases e) (simp_all add: mse_all_def mse_ord_def)

lemma mse_ord_simps:
  "mse_ord MSEFlags = 0"
  "mse_ord MSEFlags2 = 1"
  "mse_ord MSETimestamp = 2"
  "mse_ord MSEHasPitch = 3"
  "mse_ord MSEGuidBit0 = 4"
  "mse_ord MSEGuidBit1 = 5"
  "mse_ord MSEGuidBit2 = 6"
  "mse_ord MSEGuidBit3 = 7"
  "mse_ord MSEGuidBit4 = 8"
  "mse_ord MSEGuidBit5 = 9"
  "mse_ord MSEGuidBit6 = 10"
  "mse_ord MSEGuidBit7 = 11"
  "mse_ord MSEGuid2Bit0 = 12"
  "mse_ord MSEGuid2Bit1 = 13"
  "mse_ord MSEGuid2Bit2 = 14"
  "mse_ord MSEGuid2Bit3 = 15"
  "mse_ord MSEGuid2Bit4 = 16"
  "mse_ord MSEGuid2Bit5 = 17"
  "mse_ord MSEGuid2Bit6 = 18"
  "mse_ord MSEGuid2Bit7 = 19"
  "mse_ord MSEHasUnknownBit = 20"
  "mse_ord MSEHasMovementFlags = 21"
  "mse_ord MSEHasMovementFlags2 = 22"
  "mse_ord MSEHasTimestamp = 23"
  "mse_ord MSEHasOrientation = 24"
  "mse_ord MSEHasFallData = 25"
  "mse_ord MSEHasFallDirection = 26"
  "mse_ord MSEHasTransportData = 27"
  "mse_ord MSEHasTransportTime2 = 28"
  "mse_ord MSEHasTransportTime3 = 29"
  "mse_ord MSETransportGuidBit0 = 30"
  "mse_ord MSETransportGuidBit1 = 31"
  "mse_ord MSETransportGuidBit2 = 32"
  "mse_ord MSETransportGuidBit3 = 33"
  "mse_ord MSETransportGuidBit4 = 34"
  "mse_ord MSETransportGuidBit5 = 35"
  "mse_ord MSETransportGuidBit6 = 36"
  "mse_ord MSETransportGuidBit7 = 37"
  "mse_ord MSEHasSpline = 38"
  "mse_ord MSEHasSplineElevation = 39"
  "mse_ord MSEPositionX = 40"
  "mse_ord MSEPositionY = 41"
  "mse_ord MSEPositionZ = 42"
  "mse_ord MSEPositionO = 43"
  "mse_ord MSEGuidByte0 = 44"
  "mse_ord MSEGuidByte1 = 45"
  "mse_ord MSEGuidByte2 = 46"
  "mse_ord MSEGuidByte3 = 47"
  "mse_ord MSEGuidByte4 = 48"
  "mse_ord MSEGuidByte5 = 49"
  "mse_ord MSEGuidByte6 = 50"
  "mse_ord MSEGuidByte7 = 51"
  "mse_ord MSEGuid2Byte0 = 52"
  "mse_ord MSEGuid2Byte1 = 53"
  "mse_ord MSEGuid2Byte2 = 54"
  "mse_ord MSEGuid2Byte3 = 55"
  "mse_ord MSEGuid2Byte4 = 56"
  "mse_ord MSEGuid2Byte5 = 57"
  "mse_ord MSEGuid2Byte6 = 58"
  "mse_ord MSEGuid2Byte7 = 59"
  "mse_ord MSEPitch = 60"
  "mse_ord MSEFallTime = 61"
  "mse_ord MSETransportGuidByte0 = 62"
  "mse_ord MSETransportGuidByte1 = 63"
  "mse_ord MSETransportGuidByte2 = 64"
  "mse_ord MSETransportGuidByte3 = 65"
  "mse_ord MSETransportGuidByte4 = 66"
  "mse_ord MSETransportGuidByte5 = 67"
  "mse_ord MSETransportGuidByte6 = 68"
  "mse_ord MSETransportGuidByte7 = 69"
  "mse_ord MSESplineElevation = 70"
  "mse_ord MSEFallHorizontalSpeed = 71"
  "mse_ord MSEFallVerticalSpeed = 72"
  "mse_ord MSEFallCosAngle = 73"
  "mse_ord MSEFallSinAngle = 74"
  "mse_ord MSETransportSeat = 75"
  "mse_ord MSETransportPositionO = 76"
  "mse_ord MSETransportPositionX = 77"
  "mse_ord MSETransportPositionY = 78"
  "mse_ord MSETransportPositionZ = 79"
  "mse_ord MSETransportTime = 80"
  "mse_ord MSETransportTime2 = 81"
  "mse_ord MSETransportTime3 = 82"
  "mse_ord MSEMovementCounter = 83"
  "mse_ord MSEByteParam = 84"
  "mse_ord MSEEnd = 85"
  by (simp_all add: mse_ord_def)

lemma mse_ord_less: "mse_ord e < MSE_COUNT"
  by (cases e) (simp_all add: MSE_COUNT_def mse_ord_def)

lemma mse_ord_inject: "mse_ord d = mse_ord e \<longleftrightarrow> d = e"
  by (metis nth_mse_ord)

text \<open>The order of the enumeration.\<close>

instantiation MovementStatusElements :: linorder
begin

definition less_eq_MovementStatusElements :: "MovementStatusElements \<Rightarrow> MovementStatusElements \<Rightarrow> bool" where
  "less_eq_MovementStatusElements d e \<longleftrightarrow> mse_ord d \<le> mse_ord e"

definition less_MovementStatusElements :: "MovementStatusElements \<Rightarrow> MovementStatusElements \<Rightarrow> bool" where
  "less_MovementStatusElements d e \<longleftrightarrow> mse_ord d < mse_ord e"

instance
  by standard
    (auto simp add: less_eq_MovementStatusElements_def less_MovementStatusElements_def mse_ord_inject)

end

section \<open>The sequences\<close>

definition PlayerMoveSequence :: "MovementStatusElements list" where
  "PlayerMoveSequence =
    [MSEHasFallData, MSEGuidBit3, MSEGuidBit6, MSEHasMovementFlags2, MSEHasSpline,
     MSEHasTimestamp, MSEGuidBit0, MSEGuidBit1, MSEFlags2, MSEGuidBit7, MSEHasMovementFlags,
     MSEHasOrientation, MSEGuidBit2, MSEHasSplineElevation, MSEHasUnknownBit, MSEGuidBit4,
     MSEHasFallDirection, MSEGuidBit5, MSEHasTransportData, MSEFlags, MSETransportGuidBit3,
     MSEHasTransportTime3, MSETransportGuidBit6, MSETransportGuidBit1, MSETransportGuidBit7,
     MSETransportGuidBit0, MSETransportGuidBit4, MSEHasTransportTime2, MSETransportGuidBit5,
     MSETransportGuidBit2, MSEHasPitch, MSEGuidByte5, MSEFallHorizontalSpeed, MSEFallCosAngle,
     MSEFallSinAngle, MSEFallVerticalSpeed, MSEFallTime, MSESplineElevation, MSEGuidByte7,
     MSEPositionY, MSEGuidByte3, MSETransportTime3, MSETransportGuidByte6, MSETransportSeat,
     MSETransportGuidByte5, MSETransportPositionX, MSETransportGuidByte1,
     MSETransportPositionO, MSETransportGuidByte2, MSETransportTime2, MSETransportGuidByte0,
     MSETransportPositionZ, MSETransportGuidByte7, MSETransportGuidByte4,
     MSETransportGuidByte3, MSETransportPositionY, MSETransportTime, MSEGuidByte4,
     MSEPositionX, MSEGuidByte6, MSEPositionZ, MSETimestamp, MSEGuidByte2, MSEPitch,
     MSEGuidByte0, MSEPositionO, MSEGuidByte1, MSEEnd]"

definition MovementFallLandSequence :: "MovementStatusElements list" where
  "MovementFallLandSequence =
    [MSEPositionX, MSEPositionY, MSEPositionZ, MSEHasTransportData, MSEGuidBit7, MSEGuidBit1,
     MSEHasMovementFlags2, MSEGuidBit3, MSEHasSplineElevation, MSEHasOrientation, MSEGuidBit6,
     MSEHasTimestamp, MSEHasUnknownBit, MSEHasPitch, MSEGuidBit4, MSEHasSpline, MSEGuidBit5,
     MSEHasMovementFlags, MSEHasFallData, MSEGuidBit0, MSEGuidBit2, MSETransportGuidBit0,
     MSETransportGuidBit5, MSETransportGuidBit3, MSETransportGuidBit2, MSEHasTransportTime3,
     MSEHasTransportTime2, MSETransportGuidBit6, MSETransportGuidBit4, MSETransportGuidBit1,
     MSETransportGuidBit7, MSEFlags2, MSEFlags, MSEHasFallDirection, MSEGuidByte1,
     MSEGuidByte7, MSEGuidByte4, MSEGuidByte3, MSEGuidByte6, MSEGuidByte0, MSEGuidByte2,
     MSEGuidByte5, MSETransportTime, MSETransportPositionZ, MSETransportPositionY,
     MSETransportPositionX, MSETransportGuidByte5, MSETransportTime3, MSETransportGuidByte1,
     MSETransportSeat, MSETransportTime2, MSETransportGuidByte4, MSETransportPositionO,
     MSETransportGuidByte0, MSETransportGuidByte7, MSETransportGuidByte3,
     MSETransportGuidByte6, MSETransportGuidByte2, MSEFallVerticalSpeed, MSEFallTime,
     MSEFallCosAngle, MSEFallHorizontalSpeed, MSEFallSinAngle, MSESplineElevation,
     MSETimestamp, MSEPitch, MSEPositionO, MSEEnd]"

definition MovementHeartBeatSequence :: "MovementStatusElements list" where
  "MovementHeartBeatSequence =
    [MSEPositionZ, MSEPositionX, MSEPositionY, MSEHasPitch, MSEHasTimestamp, MSEHasFallData,
     MSEHasMovementFlags2, MSEHasTransportData, MSEGuidBit7, MSEGuidBit1, MSEGuidBit0,
     MSEGuidBit4, MSEGuidBit2, MSEHasOrientation, MSEGuidBit5, MSEGuidBit3,
     MSEHasSplineElevation, MSEHasSpline, MSEHasUnknownBit, MSEGuidBit6, MSEHasMovementFlags,
     MSEHasTransportTime3, MSETransportGuidBit4, MSETransportGuidBit2, MSEHasTransportTime2,
     MSETransportGuidBit5, MSETransportGuidBit7, MSETransportGuidBit6, MSETransportGuidBit0,
     MSETransportGuidBit3, MSETransportGuidBit1, MSEHasFallDirection, MSEFlags, MSEFlags2,
     MSEGuidByte3, MSEGuidByte6, MSEGuidByte1, MSEGuidByte7, MSEGuidByte2, MSEGuidByte5,
     MSEGuidByte0, MSEGuidByte4, MSETransportPositionZ, MSETransportSeat,
     MSETransportPositionO, MSETransportGuidByte4, MSETransportPositionY, MSETransportTime,
     MSETransportPositionX, MSETransportGuidByte5, MSETransportGuidByte1,
     MSETransportGuidByte3, MSETransportGuidByte7, MSETransportTime3, MSETransportTime2,
     MSETransportGuidByte2, MSETransportGuidByte0, MSETransportGuidByte6, MSEPositionO,
     MSEFallVerticalSpeed, MSEFallTime, MSEFallHorizontalSpeed, MSEFallSinAngle,
     MSEFallCosAngle, MSEPitch, MSESplineElevation, MSETimestamp, MSEEnd]"

definition MovementJumpSequence :: "MovementStatusElements list" where
  "MovementJumpSequence =
    [MSEPositionY, MSEPositionX, MSEPositionZ, MSEHasTimestamp, MSEGuidBit5,
     MSEHasMovementFlags, MSEGuidBit4, MSEGuidBit6, MSEHasMovementFlags2, MSEGuidBit0,
     MSEHasTransportData, MSEGuidBit3, MSEHasPitch, MSEGuidBit7, MSEHasFallData, MSEHasSpline,
     MSEHasOrientation, MSEGuidBit1, MSEHasSplineElevation, MSEHasUnknownBit, MSEGuidBit2,
     MSETransportGuidBit3, MSETransportGuidBit7, MSETransportGuidBit6, MSETransportGuidBit0,
     MSETransportGuidBit5, MSETransportGuidBit1, MSETransportGuidBit4, MSEHasTransportTime3,
     MSEHasTransportTime2, MSETransportGuidBit2, MSEHasFallDirection, MSEFlags, MSEFlags2,
     MSEGuidByte6, MSEGuidByte5, MSEGuidByte4, MSEGuidByte0, MSEGuidByte2, MSEGuidByte3,
     MSEGuidByte7, MSEGuidByte1, MSETransportGuidByte1, MSETransportGuidByte7,
     MSETransportPositionX, MSETransportGuidByte4, MSETransportTime3, MSETransportGuidByte0,
     MSETransportPositionO, MSETransportTime2, MSETransportTime, MSETransportGuidByte6,
     MSETransportPositionZ, MSETransportSeat, MSETransportPositionY, MSETransportGuidByte3,
     MSETransportGuidByte2, MSETransportGuidByte5, MSEPitch, MSETimestamp, MSEFallCosAngle,
     MSEFallSinAngle, MSEFallHorizontalSpeed, MSEFallVerticalSpeed, MSEFallTime,
     MSESplineElevation, MSEPositionO, MSEEnd]"

definition MovementSetFacingSequence :: "MovementStatusElements list" where
  "MovementSetFacingSequence =
    [MSEPositionX, MSEPositionY, MSEPositionZ, MSEGuidBit6, MSEHasTransportData, MSEGuidBit4,
     MSEHasSpline, MSEGuidBit0, MSEHasOrientation, MSEHasTimestamp, MSEHasPitch,
     MSEHasMovementFlags2, MSEGuidBit5, MSEGuidBit7, MSEGuidBit2, MSEHasFallData,
     MSEHasSplineElevation, MSEHasMovementFlags, MSEGuidBit3, MSEHasUnknownBit, MSEGuidBit1,
     MSEHasTransportTime3, MSETransportGuidBit3, MSETransportGuidBit7, MSETransportGuidBit5,
     MSETransportGuidBit2, MSETransportGuidBit6, MSETransportGuidBit0, MSEHasTransportTime2,
     MSETransportGuidBit4, MSETransportGuidBit1, MSEHasFallDirection, MSEFlags2, MSEFlags,
     MSEGuidByte6, MSEGuidByte7, MSEGuidByte2, MSEGuidByte0, MSEGuidByte4, MSEGuidByte1,
     MSEGuidByte5, MSEGuidByte3, MSETransportGuidByte0, MSETransportPositionX,
     MSETransportGuidByte1, MSETransportTime2, MSETransportGuidByte4, MSETransportPositionZ,
     MSETransportPositionO, MSETransportGuidByte2, MSETransportTime3, MSETransportGuidByte3,
     MSETransportSeat, MSETransportPositionY, MSETransportGuidByte5, MSETransportGuidByte6,
     MSETransportTime, MSETransportGuidByte7, MSEFallHorizontalSpeed, MSEFallSinAngle,
     MSEFallCosAngle, MSEFallTime, MSEFallVerticalSpeed, MSESplineElevation, MSEPositionO,
     MSETimestamp, MSEPitch, MSEEnd]"

definition MovementSetPitchSequence :: "MovementStatusElements list" where
  "MovementSetPitchSequence =
    [MSEPositionX, MSEPositionZ, MSEPositionY, MSEHasFallData, MSEHasMovementFlags,
     MSEGuidBit1, MSEHasOrientation, MSEGuidBit7, MSEGuidBit3, MSEHasMovementFlags2,
     MSEHasTransportData, MSEHasSplineElevation, MSEGuidBit6, MSEHasPitch, MSEGuidBit4,
     MSEHasSpline, MSEGuidBit2, MSEHasUnknownBit, MSEHasTimestamp, MSEGuidBit0, MSEGuidBit5,
     MSETransportGuidBit3, MSETransportGuidBit6, MSETransportGuidBit2, MSETransportGuidBit4,
     MSETransportGuidBit0, MSETransportGuidBit1, MSETransportGuidBit5, MSEHasTransportTime3,
     MSETransportGuidBit7, MSEHasTransportTime2, MSEFlags2, MSEFlags, MSEHasFallDirection,
     MSEGuidByte3, MSEGuidByte7, MSEGuidByte1, MSEGuidByte6, MSEGuidByte0, MSEGuidByte5,
     MSEGuidByte2, MSEGuidByte4, MSETransportGuidByte4, MSETransportGuidByte3,
     MSETransportGuidByte6, MSETransportPositionO, MSETransportGuidByte1, MSETransportTime3,
     MSETransportTime, MSETransportGuidByte2, MSETransportPositionZ, MSETransportGuidByte0,
     MSETransportTime2, MSETransportPositionY, MSETransportGuidByte5, MSETransportSeat,
     MSETransportGuidByte7, MSETransportPositionX, MSEFallVerticalSpeed, MSEFallTime,
     MSEFallHorizontalSpeed, MSEFallCosAngle, MSEFallSinAngle, MSEPitch, MSESplineElevation,
     MSETimestamp, MSEPositionO, MSEEnd]"

definition MovementStartBackwardSequence :: "MovementStatusElements list" where
  "MovementStartBackwardSequence =
    [MSEPositionX, MSEPositionZ, MSEPositionY, MSEHasTransportData, MSEGuidBit3, MSEGuidBit0,
     MSEGuidBit2, MSEHasTimestamp, MSEGuidBit7, MSEHasPitch, MSEHasUnknownBit,
     MSEHasMovementFlags, MSEHasOrientation, MSEHasSpline, MSEHasMovementFlags2,
     MSEHasFallData, MSEGuidBit5, MSEGuidBit1, MSEGuidBit4, MSEGuidBit6,
     MSEHasSplineElevation, MSETransportGuidBit3, MSETransportGuidBit1, MSEHasTransportTime2,
     MSETransportGuidBit2, MSETransportGuidBit7, MSETransportGuidBit0, MSETransportGuidBit6,
     MSETransportGuidBit5, MSETransportGuidBit4, MSEHasTransportTime3, MSEFlags, MSEFlags2,
     MSEHasFallDirection, MSEGuidByte6, MSEGuidByte7, MSEGuidByte4, MSEGuidByte1,
     MSEGuidByte5, MSEGuidByte0, MSEGuidByte2, MSEGuidByte3, MSETransportPositionZ,
     MSETransportGuidByte2, MSETransportTime3, MSETransportGuidByte0, MSETransportGuidByte5,
     MSETransportPositionY, MSETransportGuidByte1, MSETransportPositionX, MSETransportTime2,
     MSETransportGuidByte4, MSETransportPositionO, MSETransportSeat, MSETransportGuidByte7,
     MSETransportTime, MSETransportGuidByte6, MSETransportGuidByte3, MSEPitch, MSETimestamp,
     MSEFallHorizontalSpeed, MSEFallSinAngle, MSEFallCosAngle, MSEFallVerticalSpeed,
     MSEFallTime, MSEPositionO, MSESplineElevation, MSEEnd]"

definition MovementStartForwardSequence :: "MovementStatusElements list" where
  "MovementStartForwardSequence =
    [MSEPositionY, MSEPositionZ, MSEPositionX, MSEGuidBit5, MSEGuidBit2, MSEGuidBit0,
     MSEHasUnknownBit, MSEHasMovementFlags, MSEGuidBit7, MSEGuidBit3, MSEGuidBit1,
     MSEHasOrientation, MSEGuidBit6, MSEHasSpline, MSEHasSplineElevation, MSEGuidBit4,
     MSEHasTransportData, MSEHasTimestamp, MSEHasPitch, MSEHasMovementFlags2, MSEHasFallData,
     MSEFlags, MSETransportGuidBit3, MSETransportGuidBit4, MSETransportGuidBit6,
     MSETransportGuidBit2, MSETransportGuidBit5, MSETransportGuidBit0, MSETransportGuidBit7,
     MSETransportGuidBit1, MSEHasTransportTime3, MSEHasTransportTime2, MSEHasFallDirection,
     MSEFlags2, MSEGuidByte2, MSEGuidByte4, MSEGuidByte6, MSEGuidByte1, MSEGuidByte7,
     MSEGuidByte3, MSEGuidByte5, MSEGuidByte0, MSEFallVerticalSpeed, MSEFallHorizontalSpeed,
     MSEFallCosAngle, MSEFallSinAngle, MSEFallTime, MSETransportGuidByte3,
     MSETransportPositionY, MSETransportPositionZ, MSETransportGuidByte1,
     MSETransportGuidByte4, MSETransportGuidByte7, MSETransportPositionO,
     MSETransportGuidByte2, MSETransportPositionX, MSETransportGuidByte5, MSETransportTime3,
     MSETransportTime, MSETransportGuidByte6, MSETransportGuidByte0, MSETransportSeat,
     MSETransportTime2, MSESplineElevation, MSEPitch, MSEPositionO, MSETimestamp, MSEEnd]"

definition MovementStartStrafeLeftSequence :: "MovementStatusElements list" where
  "MovementStartStrafeLeftSequence =
    [MSEPositionZ, MSEPositionX, MSEPositionY, MSEHasSplineElevation, MSEGuidBit5,
     MSEHasPitch, MSEGuidBit6, MSEHasTimestamp, MSEGuidBit1, MSEHasUnknownBit, MSEGuidBit4,
     MSEGuidBit0, MSEGuidBit2, MSEHasFallData, MSEHasOrientation, MSEGuidBit3,
     MSEHasMovementFlags2, MSEGuidBit7, MSEHasSpline, MSEHasMovementFlags,
     MSEHasTransportData, MSEHasFallDirection, MSEHasTransportTime2, MSETransportGuidBit7,
     MSEHasTransportTime3, MSETransportGuidBit3, MSETransportGuidBit1, MSETransportGuidBit6,
     MSETransportGuidBit5, MSETransportGuidBit2, MSETransportGuidBit4, MSETransportGuidBit0,
     MSEFlags, MSEFlags2, MSEGuidByte2, MSEGuidByte6, MSEGuidByte3, MSEGuidByte1,
     MSEGuidByte0, MSEGuidByte7, MSEGuidByte4, MSEGuidByte5, MSEFallSinAngle,
     MSEFallHorizontalSpeed, MSEFallCosAngle, MSEFallTime, MSEFallVerticalSpeed,
     MSETransportSeat, MSETransportGuidByte2, MSETransportTime2, MSETransportGuidByte3,
     MSETransportPositionZ, MSETransportTime3, MSETransportGuidByte0, MSETransportGuidByte7,
     MSETransportPositionY, MSETransportGuidByte5, MSETransportGuidByte1,
     MSETransportPositionO, MSETransportTime, MSETransportGuidByte6, MSETransportGuidByte4,
     MSETransportPositionX, MSETimestamp, MSEPositionO, MSEPitch, MSESplineElevation, MSEEnd]"

definition MovementStartStrafeRightSequence :: "MovementStatusElements list" where
  "MovementStartStrafeRightSequence =
    [MSEPositionY, MSEPositionX, MSEPositionZ, MSEHasPitch, MSEGuidBit1, MSEHasOrientation,
     MSEGuidBit4, MSEHasSpline, MSEHasUnknownBit, MSEGuidBit5, MSEHasFallData,
     MSEHasSplineElevation, MSEHasTimestamp, MSEHasMovementFlags, MSEGuidBit2, MSEGuidBit7,
     MSEGuidBit6, MSEGuidBit3, MSEHasMovementFlags2, MSEHasTransportData, MSEGuidBit0,
     MSETransportGuidBit7, MSETransportGuidBit2, MSETransportGuidBit3, MSETransportGuidBit5,
     MSETransportGuidBit0, MSEHasTransportTime2, MSETransportGuidBit6, MSETransportGuidBit1,
     MSETransportGuidBit4, MSEHasTransportTime3, MSEFlags2, MSEFlags, MSEHasFallDirection,
     MSEGuidByte7, MSEGuidByte5, MSEGuidByte3, MSEGuidByte1, MSEGuidByte2, MSEGuidByte4,
     MSEGuidByte6, MSEGuidByte0, MSETransportGuidByte5, MSETransportGuidByte1,
     MSETransportGuidByte6, MSETransportPositionY, MSETransportPositionO,
     MSETransportGuidByte0, MSETransportGuidByte2, MSETransportSeat, MSETransportPositionX,
     MSETransportTime3, MSETransportTime, MSETransportGuidByte4, MSETransportGuidByte7,
     MSETransportTime2, MSETransportPositionZ, MSETransportGuidByte3, MSEPitch, MSEPositionO,
     MSEFallCosAngle, MSEFallSinAngle, MSEFallHorizontalSpeed, MSEFallTime,
     MSEFallVerticalSpeed, MSETimestamp, MSESplineElevation, MSEEnd]"

definition MovementStartTurnLeftSequence :: "MovementStatusElements list" where
  "MovementStartTurnLeftSequence =
    [MSEPositionY, MSEPositionX, MSEPositionZ, MSEHasUnknownBit, MSEGuidBit1,
     MSEHasOrientation, MSEHasSpline, MSEHasMovementFlags, MSEGuidBit4, MSEGuidBit2,
     MSEHasMovementFlags2, MSEGuidBit5, MSEGuidBit7, MSEHasTransportData, MSEGuidBit6,
     MSEHasSplineElevation, MSEGuidBit0, MSEGuidBit3, MSEHasPitch, MSEHasTimestamp,
     MSEHasFallData, MSEFlags2, MSETransportGuidBit3, MSETransportGuidBit1,
     MSETransportGuidBit0, MSEHasTransportTime2, MSETransportGuidBit2, MSEHasTransportTime3,
     MSETransportGuidBit4, MSETransportGuidBit7, MSETransportGuidBit5, MSETransportGuidBit6,
     MSEHasFallDirection, MSEFlags, MSEGuidByte0, MSEGuidByte4, MSEGuidByte7, MSEGuidByte5,
     MSEGuidByte6, MSEGuidByte3, MSEGuidByte2, MSEGuidByte1, MSEFallSinAngle, MSEFallCosAngle,
     MSEFallHorizontalSpeed, MSEFallVerticalSpeed, MSEFallTime, MSETransportGuidByte0,
     MSETransportPositionX, MSETransportTime, MSETransportSeat, MSETransportPositionZ,
     MSETransportGuidByte4, MSETransportPositionO, MSETransportGuidByte2,
     MSETransportGuidByte6, MSETransportGuidByte1, MSETransportGuidByte3,
     MSETransportPositionY, MSETransportTime3, MSETransportTime2, MSETransportGuidByte5,
     MSETransportGuidByte7, MSETimestamp, MSEPitch, MSEPositionO, MSESplineElevation, MSEEnd]"

definition MovementStartTurnRightSequence :: "MovementStatusElements list" where
  "MovementStartTurnRightSequence =
    [MSEPositionX, MSEPositionZ, MSEPositionY, MSEGuidBit3, MSEGuidBit5, MSEHasMovementFlags,
     MSEHasSpline, MSEGuidBit0, MSEHasOrientation, MSEHasTransportData, MSEGuidBit7,
     MSEHasUnknownBit, MSEHasMovementFlags2, MSEGuidBit1, MSEHasTimestamp, MSEGuidBit6,
     MSEGuidBit2, MSEGuidBit4, MSEHasSplineElevation, MSEHasPitch, MSEHasFallData,
     MSETransportGuidBit1, MSEHasTransportTime2, MSETransportGuidBit6, MSETransportGuidBit0,
     MSETransportGuidBit3, MSETransportGuidBit5, MSETransportGuidBit2, MSETransportGuidBit4,
     MSETransportGuidBit7, MSEHasTransportTime3, MSEFlags2, MSEFlags, MSEHasFallDirection,
     MSEGuidByte5, MSEGuidByte0, MSEGuidByte7, MSEGuidByte3, MSEGuidByte2, MSEGuidByte1,
     MSEGuidByte4, MSEGuidByte6, MSETransportPositionY, MSETransportGuidByte0,
     MSETransportGuidByte4, MSETransportGuidByte1, MSETransportGuidByte6,
     MSETransportGuidByte2, MSETransportSeat, MSETransportPositionO, MSETransportGuidByte5,
     MSETransportTime3, MSETransportPositionZ, MSETransportPositionX, MSETransportTime,
     MSETransportGuidByte7, MSETransportGuidByte3, MSETransportTime2, MSEFallHorizontalSpeed,
     MSEFallSinAngle, MSEFallCosAngle, MSEFallTime, MSEFallVerticalSpeed, MSEPitch,
     MSEPositionO, MSESplineElevation, MSETimestamp, MSEEnd]"

definition MovementStopSequence :: "MovementStatusElements list" where
  "MovementStopSequence =
    [MSEPositionX, MSEPositionY, MSEPositionZ, MSEGuidBit3, MSEGuidBit6,
     MSEHasSplineElevation, MSEHasSpline, MSEHasOrientation, MSEGuidBit7, MSEHasMovementFlags,
     MSEGuidBit5, MSEHasFallData, MSEHasMovementFlags2, MSEHasTransportData, MSEHasTimestamp,
     MSEGuidBit4, MSEGuidBit1, MSEHasUnknownBit, MSEGuidBit2, MSEGuidBit0, MSEHasPitch,
     MSETransportGuidBit7, MSETransportGuidBit4, MSETransportGuidBit1, MSETransportGuidBit5,
     MSEHasTransportTime2, MSEHasTransportTime3, MSETransportGuidBit3, MSETransportGuidBit6,
     MSETransportGuidBit0, MSETransportGuidBit2, MSEFlags, MSEFlags2, MSEHasFallDirection,
     MSEGuidByte6, MSEGuidByte3, MSEGuidByte0, MSEGuidByte4, MSEGuidByte2, MSEGuidByte1,
     MSEGuidByte5, MSEGuidByte7, MSETransportGuidByte4, MSETransportGuidByte7,
     MSETransportTime, MSETransportSeat, MSETransportPositionZ, MSETransportTime3,
     MSETransportGuidByte2, MSETransportGuidByte0, MSETransportPositionY,
     MSETransportGuidByte1, MSETransportGuidByte3, MSETransportTime2, MSETransportPositionX,
     MSETransportPositionO, MSETransportGuidByte5, MSETransportGuidByte6, MSETimestamp,
     MSEPositionO, MSEPitch, MSESplineElevation, MSEFallCosAngle, MSEFallSinAngle,
     MSEFallHorizontalSpeed, MSEFallVerticalSpeed, MSEFallTime, MSEEnd]"

definition MovementStopStrafeSequence :: "MovementStatusElements list" where
  "MovementStopStrafeSequence =
    [MSEPositionY, MSEPositionZ, MSEPositionX, MSEHasPitch, MSEHasTimestamp, MSEGuidBit2,
     MSEHasFallData, MSEGuidBit7, MSEHasSplineElevation, MSEGuidBit3, MSEHasOrientation,
     MSEHasMovementFlags2, MSEHasTransportData, MSEHasMovementFlags, MSEHasSpline,
     MSEGuidBit0, MSEHasUnknownBit, MSEGuidBit6, MSEGuidBit5, MSEGuidBit1, MSEGuidBit4,
     MSETransportGuidBit7, MSETransportGuidBit0, MSETransportGuidBit4, MSETransportGuidBit2,
     MSETransportGuidBit6, MSETransportGuidBit5, MSEHasTransportTime2, MSETransportGuidBit1,
     MSETransportGuidBit3, MSEHasTransportTime3, MSEFlags, MSEHasFallDirection, MSEFlags2,
     MSEGuidByte2, MSEGuidByte7, MSEGuidByte3, MSEGuidByte4, MSEGuidByte5, MSEGuidByte6,
     MSEGuidByte1, MSEGuidByte0, MSETransportSeat, MSETransportGuidByte6,
     MSETransportPositionZ, MSETransportTime3, MSETransportGuidByte1, MSETransportGuidByte3,
     MSETransportGuidByte2, MSETransportGuidByte4, MSETransportGuidByte5, MSETransportTime,
     MSETransportPositionO, MSETransportPositionX, MSETransportGuidByte0,
     MSETransportPositionY, MSETransportTime2, MSETransportGuidByte7, MSEFallCosAngle,
     MSEFallHorizontalSpeed, MSEFallSinAngle, MSEFallTime, MSEFallVerticalSpeed,
     MSESplineElevation, MSEPositionO, MSEPitch, MSETimestamp, MSEEnd]"

definition MovementStopTurnSequence :: "MovementStatusElements list" where
  "MovementStopTurnSequence =
    [MSEPositionX, MSEPositionZ, MSEPositionY, MSEGuidBit5, MSEGuidBit4, MSEHasFallData,
     MSEHasUnknownBit, MSEGuidBit1, MSEGuidBit0, MSEHasSpline, MSEHasMovementFlags,
     MSEGuidBit2, MSEGuidBit6, MSEHasPitch, MSEHasTransportData, MSEGuidBit3,
     MSEHasSplineElevation, MSEHasTimestamp, MSEHasMovementFlags2, MSEHasOrientation,
     MSEGuidBit7, MSETransportGuidBit2, MSETransportGuidBit7, MSEHasTransportTime3,
     MSETransportGuidBit4, MSEHasTransportTime2, MSETransportGuidBit5, MSETransportGuidBit0,
     MSETransportGuidBit3, MSETransportGuidBit6, MSETransportGuidBit1, MSEHasFallDirection,
     MSEFlags, MSEFlags2, MSEGuidByte3, MSEGuidByte2, MSEGuidByte6, MSEGuidByte4,
     MSEGuidByte0, MSEGuidByte7, MSEGuidByte1, MSEGuidByte5, MSESplineElevation,
     MSETransportPositionX, MSETransportGuidByte5, MSETransportSeat, MSETransportGuidByte2,
     MSETransportGuidByte3, MSETransportPositionO, MSETransportTime2, MSETransportTime3,
     MSETransportGuidByte7, MSETransportGuidByte1, MSETransportGuidByte0,
     MSETransportGuidByte4, MSETransportPositionY, MSETransportPositionZ, MSETransportTime,
     MSETransportGuidByte6, MSEFallTime, MSEFallHorizontalSpeed, MSEFallCosAngle,
     MSEFallSinAngle, MSEFallVerticalSpeed, MSETimestamp, MSEPitch, MSEPositionO, MSEEnd]"

definition MovementStartAscendSequence :: "MovementStatusElements list" where
  "MovementStartAscendSequence =
    [MSEPositionX, MSEPositionY, MSEPositionZ, MSEGuidBit0, MSEGuidBit1, MSEGuidBit7,
     MSEHasUnknownBit, MSEGuidBit5, MSEHasTransportData, MSEGuidBit2, MSEHasSplineElevation,
     MSEHasFallData, MSEHasSpline, MSEGuidBit3, MSEHasMovementFlags2, MSEGuidBit6,
     MSEHasMovementFlags, MSEHasPitch, MSEHasTimestamp, MSEHasOrientation, MSEGuidBit4,
     MSEFlags, MSETransportGuidBit0, MSETransportGuidBit2, MSEHasTransportTime3,
     MSETransportGuidBit6, MSETransportGuidBit1, MSETransportGuidBit4, MSEHasTransportTime2,
     MSETransportGuidBit5, MSETransportGuidBit3, MSETransportGuidBit7, MSEFlags2,
     MSEHasFallDirection, MSEGuidByte6, MSEGuidByte3, MSEGuidByte1, MSEGuidByte4,
     MSEGuidByte2, MSEGuidByte0, MSEGuidByte5, MSEGuidByte7, MSETransportGuidByte3,
     MSETransportGuidByte5, MSETransportGuidByte4, MSETransportSeat, MSETransportGuidByte2,
     MSETransportPositionO, MSETransportPositionY, MSETransportGuidByte7, MSETransportTime2,
     MSETransportPositionZ, MSETransportTime3, MSETransportGuidByte6, MSETransportTime,
     MSETransportGuidByte0, MSETransportGuidByte1, MSETransportPositionX, MSEFallCosAngle,
     MSEFallSinAngle, MSEFallHorizontalSpeed, MSEFallTime, MSEFallVerticalSpeed, MSEPositionO,
     MSEPitch, MSETimestamp, MSESplineElevation, MSEEnd]"

definition MovementStartDescendSequence :: "MovementStatusElements list" where
  "MovementStartDescendSequence =
    [MSEPositionY, MSEPositionZ, MSEPositionX, MSEGuidBit0, MSEHasPitch, MSEHasFallData,
     MSEGuidBit4, MSEHasOrientation, MSEHasTimestamp, MSEHasMovementFlags2,
     MSEHasMovementFlags, MSEGuidBit6, MSEHasUnknownBit, MSEGuidBit1, MSEHasTransportData,
     MSEHasSpline, MSEHasSplineElevation, MSEGuidBit5, MSEGuidBit3, MSEGuidBit7, MSEGuidBit2,
     MSETransportGuidBit0, MSETransportGuidBit1, MSETransportGuidBit2, MSEHasTransportTime3,
     MSETransportGuidBit7, MSETransportGuidBit4, MSETransportGuidBit6, MSEHasTransportTime2,
     MSETransportGuidBit3, MSETransportGuidBit5, MSEFlags2, MSEFlags, MSEHasFallDirection,
     MSEGuidByte2, MSEGuidByte7, MSEGuidByte6, MSEGuidByte0, MSEGuidByte1, MSEGuidByte5,
     MSEGuidByte4, MSEGuidByte3, MSEPitch, MSETransportPositionZ, MSETransportSeat,
     MSETransportTime3, MSETransportGuidByte6, MSETransportTime2, MSETransportGuidByte1,
     MSETransportTime, MSETransportGuidByte4, MSETransportPositionY, MSETransportPositionX,
     MSETransportGuidByte7, MSETransportGuidByte3, MSETransportGuidByte5,
     MSETransportGuidByte2, MSETransportPositionO, MSETransportGuidByte0, MSEFallTime,
     MSEFallSinAngle, MSEFallCosAngle, MSEFallHorizontalSpeed, MSEFallVerticalSpeed,
     MSETimestamp, MSEPositionO, MSESplineElevation, MSEEnd]"

definition MovementStartSwimSequence :: "MovementStatusElements list" where
  "MovementStartSwimSequence =
    [MSEPositionZ, MSEPositionX, MSEPositionY, MSEGuidBit3, MSEHasSplineElevation,
     MSEGuidBit4, MSEGuidBit7, MSEHasUnknownBit, MSEHasPitch, MSEGuidBit0, MSEHasOrientation,
     MSEHasMovementFlags, MSEHasFallData, MSEGuidBit5, MSEHasTransportData,
     MSEHasMovementFlags2, MSEHasTimestamp, MSEGuidBit6, MSEGuidBit1, MSEHasSpline,
     MSEGuidBit2, MSETransportGuidBit2, MSETransportGuidBit3, MSETransportGuidBit7,
     MSETransportGuidBit5, MSETransportGuidBit4, MSETransportGuidBit0, MSEHasTransportTime2,
     MSETransportGuidBit6, MSETransportGuidBit1, MSEHasTransportTime3, MSEFlags,
     MSEHasFallDirection, MSEFlags2, MSEGuidByte0, MSEGuidByte2, MSEGuidByte1, MSEGuidByte5,
     MSEGuidByte4, MSEGuidByte6, MSEGuidByte3, MSEGuidByte7, MSEPitch, MSETransportTime2,
     MSETransportGuidByte2, MSETransportPositionY, MSETransportGuidByte3, MSETransportTime,
     MSETransportPositionX, MSETransportPositionO, MSETransportTime3, MSETransportGuidByte6,
     MSETransportGuidByte5, MSETransportGuidByte4, MSETransportPositionZ,
     MSETransportGuidByte1, MSETransportGuidByte7, MSETransportGuidByte0, MSETransportSeat,
     MSEFallCosAngle, MSEFallHorizontalSpeed, MSEFallSinAngle, MSEFallVerticalSpeed,
     MSEFallTime, MSEPositionO, MSETimestamp, MSESplineElevation, MSEEnd]"

definition MovementStopSwimSequence :: "MovementStatusElements list" where
  "MovementStopSwimSequence =
    [MSEPositionX, MSEPositionY, MSEPositionZ, MSEHasSpline, MSEHasPitch, MSEGuidBit5,
     MSEGuidBit3, MSEGuidBit7, MSEHasSplineElevation, MSEHasMovementFlags, MSEGuidBit4,
     MSEHasMovementFlags2, MSEGuidBit2, MSEGuidBit6, MSEHasTransportData, MSEHasOrientation,
     MSEHasUnknownBit, MSEHasTimestamp, MSEGuidBit1, MSEGuidBit0, MSEHasFallData,
     MSEHasTransportTime3, MSETransportGuidBit4, MSETransportGuidBit6, MSETransportGuidBit3,
     MSETransportGuidBit7, MSETransportGuidBit1, MSETransportGuidBit0, MSEHasTransportTime2,
     MSETransportGuidBit2, MSETransportGuidBit5, MSEFlags, MSEFlags2, MSEHasFallDirection,
     MSEGuidByte0, MSEGuidByte4, MSEGuidByte3, MSEGuidByte6, MSEGuidByte7, MSEGuidByte1,
     MSEGuidByte5, MSEGuidByte2, MSETransportTime3, MSETransportGuidByte4, MSETransportTime,
     MSETransportPositionZ, MSETransportSeat, MSETransportGuidByte3, MSETransportGuidByte2,
     MSETransportPositionY, MSETransportGuidByte7, MSETransportGuidByte1,
     MSETransportGuidByte6, MSETransportGuidByte5, MSETransportTime2, MSETransportPositionX,
     MSETransportGuidByte0, MSETransportPositionO, MSEFallVerticalSpeed, MSEFallCosAngle,
     MSEFallHorizontalSpeed, MSEFallSinAngle, MSEFallTime, MSETimestamp, MSEPitch,
     MSEPositionO, MSESplineElevation, MSEEnd]"

definition MovementStopAscendSequence :: "MovementStatusElements list" where
  "MovementStopAscendSequence =
    [MSEPositionZ, MSEPositionY, MSEPositionX, MSEGuidBit3, MSEGuidBit2, MSEHasFallData,
     MSEGuidBit7, MSEHasOrientation, MSEHasPitch, MSEHasSpline, MSEHasUnknownBit, MSEGuidBit1,
     MSEGuidBit4, MSEHasMovementFlags, MSEGuidBit0, MSEGuidBit6, MSEHasSplineElevation,
     MSEHasTransportData, MSEHasMovementFlags2, MSEHasTimestamp, MSEGuidBit5,
     MSEHasTransportTime2, MSEHasTransportTime3, MSETransportGuidBit1, MSETransportGuidBit3,
     MSETransportGuidBit2, MSETransportGuidBit5, MSETransportGuidBit7, MSETransportGuidBit4,
     MSETransportGuidBit6, MSETransportGuidBit0, MSEFlags2, MSEFlags, MSEHasFallDirection,
     MSEGuidByte7, MSEGuidByte5, MSEGuidByte4, MSEGuidByte3, MSEGuidByte2, MSEGuidByte1,
     MSEGuidByte0, MSEGuidByte6, MSETransportGuidByte5, MSETransportPositionY,
     MSETransportGuidByte7, MSETransportGuidByte2, MSETransportGuidByte6, MSETransportTime2,
     MSETransportTime3, MSETransportPositionO, MSETransportGuidByte3, MSETransportGuidByte4,
     MSETransportSeat, MSETransportGuidByte1, MSETransportTime, MSETransportGuidByte0,
     MSETransportPositionX, MSETransportPositionZ, MSEFallTime, MSEFallVerticalSpeed,
     MSEFallCosAngle, MSEFallSinAngle, MSEFallHorizontalSpeed, MSEPitch, MSESplineElevation,
     MSETimestamp, MSEPositionO, MSEEnd]"

definition MovementStopPitchSequence :: "MovementStatusElements list" where
  "MovementStopPitchSequence =
    [MSEPositionX, MSEPositionZ, MSEPositionY, MSEGuidBit0, MSEGuidBit5, MSEGuidBit3,
     MSEHasFallData, MSEGuidBit2, MSEGuidBit4, MSEGuidBit7, MSEHasPitch, MSEHasSpline,
     MSEHasOrientation, MSEHasUnknownBit, MSEHasMovementFlags2, MSEHasSplineElevation,
     MSEGuidBit6, MSEGuidBit1, MSEHasTimestamp, MSEHasTransportData, MSEHasMovementFlags,
     MSETransportGuidBit7, MSETransportGuidBit0, MSETransportGuidBit5, MSETransportGuidBit2,
     MSEHasTransportTime3, MSETransportGuidBit6, MSETransportGuidBit3, MSEHasTransportTime2,
     MSETransportGuidBit4, MSETransportGuidBit1, MSEHasFallDirection, MSEFlags2, MSEFlags,
     MSEGuidByte1, MSEGuidByte7, MSEGuidByte0, MSEGuidByte6, MSEGuidByte4, MSEGuidByte3,
     MSEGuidByte5, MSEGuidByte2, MSETimestamp, MSEFallHorizontalSpeed, MSEFallSinAngle,
     MSEFallCosAngle, MSEFallVerticalSpeed, MSEFallTime, MSETransportGuidByte5,
     MSETransportGuidByte2, MSETransportTime2, MSETransportPositionX, MSETransportPositionO,
     MSETransportGuidByte6, MSETransportGuidByte3, MSETransportGuidByte1,
     MSETransportPositionZ, MSETransportTime3, MSETransportGuidByte0, MSETransportGuidByte4,
     MSETransportTime, MSETransportPositionY, MSETransportSeat, MSETransportGuidByte7,
     MSESplineElevation, MSEPositionO, MSEPitch, MSEEnd]"

definition MovementStartPitchDownSequence :: "MovementStatusElements list" where
  "MovementStartPitchDownSequence =
    [MSEPositionX, MSEPositionZ, MSEPositionY, MSEHasMovementFlags, MSEGuidBit7, MSEGuidBit6,
     MSEHasPitch, MSEHasUnknownBit, MSEGuidBit1, MSEGuidBit4, MSEHasTimestamp,
     MSEHasSplineElevation, MSEHasMovementFlags2, MSEHasTransportData, MSEGuidBit0,
     MSEGuidBit5, MSEGuidBit3, MSEHasSpline, MSEHasOrientation, MSEHasFallData, MSEGuidBit2,
     MSETransportGuidBit1, MSETransportGuidBit5, MSEHasTransportTime3, MSETransportGuidBit7,
     MSETransportGuidBit4, MSETransportGuidBit6, MSEHasTransportTime2, MSETransportGuidBit0,
     MSETransportGuidBit3, MSETransportGuidBit2, MSEFlags2, MSEHasFallDirection, MSEFlags,
     MSEGuidByte3, MSEGuidByte7, MSEGuidByte0, MSEGuidByte5, MSEGuidByte2, MSEGuidByte6,
     MSEGuidByte4, MSEGuidByte1, MSETransportTime3, MSETransportGuidByte3, MSETransportTime2,
     MSETransportGuidByte5, MSETransportGuidByte1, MSETransportPositionY,
     MSETransportGuidByte6, MSETransportGuidByte4, MSETransportTime, MSETransportPositionZ,
     MSETransportPositionX, MSETransportGuidByte0, MSETransportSeat, MSETransportGuidByte2,
     MSETransportGuidByte7, MSETransportPositionO, MSEFallSinAngle, MSEFallHorizontalSpeed,
     MSEFallCosAngle, MSEFallVerticalSpeed, MSEFallTime, MSEPitch, MSEPositionO,
     MSESplineElevation, MSETimestamp, MSEEnd]"

definition MovementStartPitchUpSequence :: "MovementStatusElements list" where
  "MovementStartPitchUpSequence =
    [MSEPositionZ, MSEPositionY, MSEPositionX, MSEGuidBit4, MSEHasMovementFlags,
     MSEHasMovementFlags2, MSEHasSpline, MSEGuidBit2, MSEGuidBit6, MSEGuidBit3,
     MSEHasUnknownBit, MSEHasSplineElevation, MSEHasFallData, MSEGuidBit0,
     MSEHasTransportData, MSEGuidBit1, MSEGuidBit5, MSEHasPitch, MSEHasTimestamp,
     MSEHasOrientation, MSEGuidBit7, MSEFlags2, MSETransportGuidBit7, MSETransportGuidBit3,
     MSETransportGuidBit1, MSEHasTransportTime2, MSETransportGuidBit4, MSEHasTransportTime3,
     MSETransportGuidBit0, MSETransportGuidBit6, MSETransportGuidBit5, MSETransportGuidBit2,
     MSEFlags, MSEHasFallDirection, MSEGuidByte0, MSEGuidByte3, MSEGuidByte4, MSEGuidByte6,
     MSEGuidByte7, MSEGuidByte1, MSEGuidByte5, MSEGuidByte2, MSETransportPositionX,
     MSETransportGuidByte1, MSETransportGuidByte3, MSETransportGuidByte2,
     MSETransportGuidByte0, MSETransportTime, MSETransportPositionZ, MSETransportPositionO,
     MSETransportGuidByte7, MSETransportTime2, MSETransportSeat, MSETransportGuidByte6,
     MSETransportGuidByte5, MSETransportTime3, MSETransportPositionY, MSETransportGuidByte4,
     MSEFallTime, MSEFallCosAngle, MSEFallSinAngle, MSEFallHorizontalSpeed,
     MSEFallVerticalSpeed, MSEPositionO, MSESplineElevation, MSEPitch, MSETimestamp, MSEEnd]"

definition MovementChngTransportSequence :: "MovementStatusElements list" where
  "MovementChngTransportSequence =
    [MSEPositionY, MSEPositionX, MSEPositionZ, MSEGuidBit4, MSEGuidBit0, MSEGuidBit2,
     MSEHasTransportData, MSEHasSpline, MSEHasOrientation, MSEGuidBit6, MSEHasTimestamp,
     MSEGuidBit5, MSEGuidBit7, MSEHasPitch, MSEHasUnknownBit, MSEGuidBit3,
     MSEHasSplineElevation, MSEGuidBit1, MSEHasFallData, MSEHasMovementFlags,
     MSEHasMovementFlags2, MSETransportGuidBit3, MSEHasTransportTime3, MSETransportGuidBit4,
     MSETransportGuidBit1, MSETransportGuidBit6, MSETransportGuidBit2, MSEHasTransportTime2,
     MSETransportGuidBit0, MSETransportGuidBit7, MSETransportGuidBit5, MSEFlags, MSEFlags2,
     MSEHasFallDirection, MSEGuidByte7, MSEGuidByte5, MSEGuidByte1, MSEGuidByte2,
     MSEGuidByte6, MSEGuidByte4, MSEGuidByte0, MSEGuidByte3, MSETransportPositionY,
     MSETransportSeat, MSETransportGuidByte1, MSETransportGuidByte0, MSETransportGuidByte2,
     MSETransportGuidByte3, MSETransportGuidByte6, MSETransportPositionZ,
     MSETransportPositionX, MSETransportTime3, MSETransportTime, MSETransportGuidByte7,
     MSETransportGuidByte5, MSETransportGuidByte4, MSETransportPositionO, MSETransportTime2,
     MSEFallTime, MSEFallHorizontalSpeed, MSEFallCosAngle, MSEFallSinAngle,
     MSEFallVerticalSpeed, MSEPositionO, MSEPitch, MSESplineElevation, MSETimestamp, MSEEnd]"

definition MovementSetRunModeSequence :: "MovementStatusElements list" where
  "MovementSetRunModeSequence =
    [MSEPositionY, MSEPositionX, MSEPositionZ, MSEHasTimestamp, MSEHasMovementFlags2,
     MSEGuidBit1, MSEHasSpline, MSEHasMovementFlags, MSEGuidBit7, MSEHasTransportData,
     MSEHasUnknownBit, MSEGuidBit0, MSEGuidBit3, MSEHasSplineElevation, MSEGuidBit5,
     MSEHasPitch, MSEGuidBit6, MSEGuidBit4, MSEHasFallData, MSEHasOrientation, MSEGuidBit2,
     MSETransportGuidBit6, MSETransportGuidBit4, MSEHasTransportTime3, MSETransportGuidBit5,
     MSETransportGuidBit3, MSETransportGuidBit1, MSEHasTransportTime2, MSETransportGuidBit7,
     MSETransportGuidBit0, MSETransportGuidBit2, MSEHasFallDirection, MSEFlags2, MSEFlags,
     MSEGuidByte3, MSEGuidByte6, MSEGuidByte0, MSEGuidByte7, MSEGuidByte4, MSEGuidByte1,
     MSEGuidByte5, MSEGuidByte2, MSEPitch, MSETransportTime2, MSETransportGuidByte3,
     MSETransportPositionX, MSETransportSeat, MSETransportGuidByte5, MSETransportGuidByte1,
     MSETransportPositionZ, MSETransportGuidByte2, MSETransportGuidByte7,
     MSETransportPositionO, MSETransportGuidByte4, MSETransportTime, MSETransportTime3,
     MSETransportGuidByte0, MSETransportPositionY, MSETransportGuidByte6, MSEFallSinAngle,
     MSEFallHorizontalSpeed, MSEFallCosAngle, MSEFallTime, MSEFallVerticalSpeed,
     MSESplineElevation, MSETimestamp, MSEPositionO, MSEEnd]"

definition MovementSetWalkModeSequence :: "MovementStatusElements list" where
  "MovementSetWalkModeSequence =
    [MSEPositionY, MSEPositionX, MSEPositionZ, MSEGuidBit6, MSEHasSpline, MSEHasTimestamp,
     MSEGuidBit0, MSEGuidBit1, MSEHasMovementFlags, MSEHasPitch, MSEGuidBit7,
     MSEHasSplineElevation, MSEGuidBit4, MSEHasOrientation, MSEHasTransportData, MSEGuidBit2,
     MSEGuidBit5, MSEGuidBit3, MSEHasUnknownBit, MSEHasMovementFlags2, MSEHasFallData,
     MSETransportGuidBit2, MSETransportGuidBit0, MSETransportGuidBit6, MSETransportGuidBit1,
     MSETransportGuidBit3, MSEHasTransportTime2, MSETransportGuidBit5, MSEHasTransportTime3,
     MSETransportGuidBit4, MSETransportGuidBit7, MSEHasFallDirection, MSEFlags, MSEFlags2,
     MSEGuidByte5, MSEGuidByte6, MSEGuidByte4, MSEGuidByte7, MSEGuidByte3, MSEGuidByte0,
     MSEGuidByte2, MSEGuidByte1, MSETransportGuidByte2, MSETransportGuidByte5,
     MSETransportSeat, MSETransportPositionZ, MSETransportGuidByte3, MSETransportGuidByte6,
     MSETransportGuidByte0, MSETransportTime, MSETransportGuidByte4, MSETransportTime2,
     MSETransportPositionO, MSETransportPositionX, MSETransportTime3, MSETransportGuidByte7,
     MSETransportPositionY, MSETransportGuidByte1, MSEFallCosAngle, MSEFallHorizontalSpeed,
     MSEFallSinAngle, MSEFallVerticalSpeed, MSEFallTime, MSESplineElevation, MSEPitch,
     MSETimestamp, MSEPositionO, MSEEnd]"

definition MovementFallResetSequence :: "MovementStatusElements list" where
  "MovementFallResetSequence =
    [MSEPositionZ, MSEPositionX, MSEPositionY, MSEGuidBit1, MSEHasTimestamp,
     MSEHasMovementFlags, MSEHasUnknownBit, MSEGuidBit6, MSEHasSplineElevation, MSEHasPitch,
     MSEGuidBit3, MSEHasTransportData, MSEGuidBit2, MSEHasMovementFlags2, MSEHasOrientation,
     MSEGuidBit4, MSEGuidBit5, MSEHasSpline, MSEGuidBit7, MSEGuidBit0, MSEHasFallData,
     MSETransportGuidBit0, MSETransportGuidBit1, MSETransportGuidBit5, MSETransportGuidBit4,
     MSEHasTransportTime2, MSETransportGuidBit2, MSEHasTransportTime3, MSETransportGuidBit6,
     MSETransportGuidBit7, MSETransportGuidBit3, MSEHasFallDirection, MSEFlags2, MSEFlags,
     MSEGuidByte4, MSEGuidByte0, MSEGuidByte1, MSEGuidByte7, MSEGuidByte5, MSEGuidByte2,
     MSEGuidByte3, MSEGuidByte6, MSETransportPositionX, MSETransportGuidByte7,
     MSETransportGuidByte2, MSETransportGuidByte3, MSETransportGuidByte5,
     MSETransportPositionY, MSETransportPositionZ, MSETransportSeat, MSETransportTime2,
     MSETransportGuidByte6, MSEHasTransportTime3, MSETransportGuidByte0,
     MSETransportPositionO, MSETransportGuidByte4, MSETransportGuidByte1,
     MSEFallVerticalSpeed, MSEFallCosAngle, MSEFallSinAngle, MSEFallHorizontalSpeed,
     MSEFallTime, MSEPositionO, MSETimestamp, MSESplineElevation, MSEPitch, MSEEnd]"

definition MovementSetCanFlyAckSequence :: "MovementStatusElements list" where
  "MovementSetCanFlyAckSequence =
    [MSEPositionY, MSEMovementCounter, MSEPositionX, MSEPositionZ, MSEGuidBit3,
     MSEHasTimestamp, MSEGuidBit4, MSEGuidBit0, MSEHasOrientation, MSEHasFallData,
     MSEGuidBit2, MSEGuidBit5, MSEHasSplineElevation, MSEHasMovementFlags2, MSEHasUnknownBit,
     MSEGuidBit7, MSEHasSpline, MSEGuidBit6, MSEGuidBit1, MSEHasMovementFlags,
     MSEHasTransportData, MSEHasPitch, MSETransportGuidBit3, MSETransportGuidBit1,
     MSETransportGuidBit2, MSEHasTransportTime3, MSEHasTransportTime2, MSETransportGuidBit0,
     MSETransportGuidBit5, MSETransportGuidBit7, MSETransportGuidBit4, MSETransportGuidBit6,
     MSEFlags2, MSEFlags, MSEHasFallDirection, MSEGuidByte1, MSEGuidByte0, MSEGuidByte2,
     MSEGuidByte3, MSEGuidByte7, MSEGuidByte6, MSEGuidByte4, MSEGuidByte5, MSETransportTime2,
     MSETransportGuidByte6, MSETransportTime, MSETransportTime3, MSETransportGuidByte7,
     MSETransportPositionZ, MSETransportGuidByte3, MSETransportPositionY,
     MSETransportGuidByte5, MSETransportPositionX, MSETransportGuidByte2,
     MSETransportPositionO, MSETransportSeat, MSETransportGuidByte1, MSETransportGuidByte0,
     MSETransportGuidByte4, MSEFallTime, MSEFallCosAngle, MSEFallHorizontalSpeed,
     MSEFallSinAngle, MSEFallVerticalSpeed, MSEPitch, MSEPositionO, MSETimestamp,
     MSESplineElevation, MSEEnd]"

definition MovementCastSpellSequence :: "MovementStatusElements list" where
  "MovementCastSpellSequence =
    [MSEPositionZ, MSEPositionY, MSEPositionX, MSEHasFallData, MSEHasTimestamp,
     MSEHasOrientation, MSEHasSpline, MSEHasUnknownBit, MSEGuidBit6, MSEGuidBit4,
     MSEHasMovementFlags2, MSEGuidBit3, MSEGuidBit5, MSEHasSplineElevation, MSEHasPitch,
     MSEGuidBit7, MSEHasTransportData, MSEGuidBit2, MSEHasMovementFlags, MSEGuidBit1,
     MSEGuidBit0, MSETransportGuidBit6, MSETransportGuidBit2, MSETransportGuidBit5,
     MSEHasTransportTime2, MSETransportGuidBit7, MSETransportGuidBit4, MSEHasTransportTime3,
     MSETransportGuidBit0, MSETransportGuidBit1, MSETransportGuidBit3, MSEFlags2, MSEFlags,
     MSEHasFallDirection, MSEGuidByte1, MSEGuidByte4, MSEGuidByte7, MSEGuidByte3,
     MSEGuidByte0, MSEGuidByte2, MSEGuidByte5, MSEGuidByte6, MSETransportSeat,
     MSETransportPositionO, MSETransportTime, MSETransportGuidByte6, MSETransportGuidByte5,
     MSETransportTime3, MSETransportPositionX, MSETransportGuidByte4, MSETransportPositionZ,
     MSETransportGuidByte2, MSETransportGuidByte0, MSETransportTime2, MSETransportGuidByte1,
     MSETransportGuidByte3, MSETransportPositionY, MSETransportGuidByte7, MSEPositionO,
     MSESplineElevation, MSEFallTime, MSEFallHorizontalSpeed, MSEFallCosAngle,
     MSEFallSinAngle, MSEFallVerticalSpeed, MSETimestamp, MSEPitch, MSEEnd]"

definition MovementSplineDoneSequence :: "MovementStatusElements list" where
  "MovementSplineDoneSequence =
    [MSEMovementCounter, MSEPositionY, MSEPositionX, MSEPositionZ, MSEGuidBit6,
     MSEHasOrientation, MSEHasFallData, MSEHasTimestamp, MSEGuidBit2, MSEHasSplineElevation,
     MSEGuidBit4, MSEHasTransportData, MSEGuidBit3, MSEHasMovementFlags, MSEGuidBit0,
     MSEHasUnknownBit, MSEGuidBit1, MSEGuidBit5, MSEHasPitch, MSEHasSpline,
     MSEHasMovementFlags2, MSEGuidBit7, MSETransportGuidBit1, MSETransportGuidBit7,
     MSETransportGuidBit5, MSETransportGuidBit3, MSETransportGuidBit4, MSETransportGuidBit6,
     MSEHasTransportTime2, MSETransportGuidBit2, MSEHasTransportTime3, MSETransportGuidBit0,
     MSEHasFallDirection, MSEFlags2, MSEFlags, MSEGuidByte7, MSEGuidByte4, MSEGuidByte5,
     MSEGuidByte6, MSEGuidByte0, MSEGuidByte1, MSEGuidByte2, MSEGuidByte3,
     MSEFallVerticalSpeed, MSEFallSinAngle, MSEFallCosAngle, MSEFallHorizontalSpeed,
     MSEFallTime, MSEPitch, MSEPositionO, MSETransportGuidByte1, MSETransportTime3,
     MSETransportGuidByte7, MSETransportTime, MSETransportPositionY, MSETransportPositionX,
     MSETransportPositionZ, MSETransportSeat, MSETransportPositionO, MSETransportGuidByte0,
     MSETransportTime2, MSETransportGuidByte2, MSETransportGuidByte3, MSETransportGuidByte5,
     MSETransportGuidByte6, MSETransportGuidByte4, MSETimestamp, MSESplineElevation, MSEEnd]"

definition DismissControlledVehicleSequence :: "MovementStatusElements list" where
  "DismissControlledVehicleSequence =
    [MSEPositionY, MSEPositionZ, MSEPositionX, MSEHasSplineElevation, MSEHasFallData,
     MSEHasTransportData, MSEGuidBit4, MSEGuidBit7, MSEHasMovementFlags2, MSEGuidBit2,
     MSEHasOrientation, MSEGuidBit0, MSEGuidBit6, MSEHasPitch, MSEHasTimestamp, MSEGuidBit1,
     MSEHasUnknownBit, MSEHasSpline, MSEGuidBit3, MSEHasMovementFlags, MSEGuidBit5,
     MSETransportGuidBit5, MSEHasTransportTime3, MSETransportGuidBit2, MSETransportGuidBit0,
     MSETransportGuidBit7, MSETransportGuidBit3, MSETransportGuidBit4, MSETransportGuidBit1,
     MSETransportGuidBit6, MSEHasTransportTime2, MSEFlags2, MSEHasFallDirection, MSEFlags,
     MSEGuidByte6, MSEGuidByte3, MSEGuidByte1, MSEGuidByte5, MSEGuidByte2, MSEGuidByte4,
     MSEGuidByte7, MSEGuidByte0, MSETimestamp, MSETransportTime3, MSETransportGuidByte4,
     MSETransportGuidByte7, MSETransportTime2, MSETransportGuidByte6, MSETransportTime,
     MSETransportPositionZ, MSETransportGuidByte0, MSETransportPositionX,
     MSETransportGuidByte3, MSETransportSeat, MSETransportPositionY, MSETransportPositionO,
     MSETransportGuidByte1, MSETransportGuidByte5, MSETransportGuidByte2, MSEFallTime,
     MSEFallHorizontalSpeed, MSEFallSinAngle, MSEFallCosAngle, MSEFallVerticalSpeed,
     MSEPositionO, MSESplineElevation, MSEPitch, MSEEnd]"

definition ChangeSeatsOnControlledVehicleSequence :: "MovementStatusElements list" where
  "ChangeSeatsOnControlledVehicleSequence =
    [MSEPositionY, MSEPositionX, MSEPositionZ, MSEByteParam, MSEHasMovementFlags,
     MSEHasTransportData, MSEGuidBit2, MSEGuidBit6, MSEGuidBit4, MSEGuid2Bit2, MSEGuid2Bit4,
     MSEHasOrientation, MSEHasUnknownBit, MSEGuid2Bit7, MSEGuidBit7, MSEGuid2Bit6,
     MSEHasTimestamp, MSEHasSplineElevation, MSEGuidBit5, MSEGuid2Bit5, MSEHasMovementFlags2,
     MSEHasPitch, MSEGuid2Bit0, MSEGuidBit0, MSEGuid2Bit1, MSEHasFallData, MSEGuidBit1,
     MSEHasSpline, MSEFlags, MSEGuid2Bit3, MSEGuidBit3, MSETransportGuidBit3,
     MSETransportGuidBit0, MSETransportGuidBit7, MSETransportGuidBit5, MSEHasTransportTime3,
     MSETransportGuidBit1, MSETransportGuidBit2, MSEHasTransportTime2, MSETransportGuidBit4,
     MSETransportGuidBit6, MSEFlags2, MSEHasFallDirection, MSEGuid2Byte6, MSEGuidByte7,
     MSEGuidByte5, MSEGuid2Byte1, MSEGuid2Byte2, MSEGuidByte6, MSEGuid2Byte5, MSEGuid2Byte3,
     MSEGuidByte3, MSEGuid2Byte0, MSEGuidByte0, MSEGuid2Byte4, MSEGuidByte4, MSEGuidByte1,
     MSEGuid2Byte7, MSEGuidByte2, MSEPitch, MSEFallSinAngle, MSEFallCosAngle,
     MSEFallHorizontalSpeed, MSEFallTime, MSEFallVerticalSpeed, MSETransportGuidByte2,
     MSETransportTime2, MSETransportTime3, MSETransportGuidByte0, MSETransportTime,
     MSETransportSeat, MSETransportPositionX, MSETransportPositionO, MSETransportGuidByte7,
     MSETransportGuidByte4, MSETransportGuidByte3, MSETransportGuidByte5,
     MSETransportPositionZ, MSETransportGuidByte1, MSETransportGuidByte6,
     MSETransportPositionY, MSESplineElevation, MSEPositionO, MSETimestamp, MSEEnd]"

definition MoveKnockbackAckSequence :: "MovementStatusElements list" where
  "MoveKnockbackAckSequence =
    [MSEPositionY, MSEPositionZ, MSEMovementCounter, MSEPositionX, MSEGuidBit6,
     MSEHasOrientation, MSEHasPitch, MSEHasSplineElevation, MSEGuidBit3, MSEGuidBit4,
     MSEGuidBit1, MSEGuidBit2, MSEHasSpline, MSEGuidBit7, MSEHasUnknownBit,
     MSEHasMovementFlags2, MSEHasTimestamp, MSEGuidBit0, MSEHasMovementFlags,
     MSEHasTransportData, MSEGuidBit5, MSEHasFallData, MSEFlags, MSETransportGuidBit4,
     MSETransportGuidBit1, MSEHasTransportTime2, MSETransportGuidBit0, MSEHasTransportTime3,
     MSETransportGuidBit6, MSETransportGuidBit2, MSETransportGuidBit3, MSETransportGuidBit5,
     MSETransportGuidBit7, MSEFlags2, MSEHasFallDirection, MSEGuidByte4, MSEGuidByte5,
     MSEGuidByte1, MSEGuidByte6, MSEGuidByte0, MSEGuidByte3, MSEGuidByte2, MSEGuidByte7,
     MSEFallCosAngle, MSEFallHorizontalSpeed, MSEFallSinAngle, MSEFallTime,
     MSEFallVerticalSpeed, MSETimestamp, MSETransportPositionY, MSETransportGuidByte4,
     MSETransportTime2, MSETransportGuidByte7, MSETransportPositionO, MSETransportGuidByte6,
     MSETransportTime, MSETransportGuidByte3, MSETransportGuidByte1, MSETransportTime3,
     MSETransportGuidByte2, MSETransportPositionZ, MSETransportGuidByte0,
     MSETransportGuidByte5, MSETransportPositionX, MSETransportSeat, MSEPitch,
     MSESplineElevation, MSEPositionO, MSEEnd]"

definition MoveUpdateKnockBackSequence :: "MovementStatusElements list" where
  "MoveUpdateKnockBackSequence =
    [MSEHasUnknownBit, MSEGuidBit4, MSEHasMovementFlags, MSEHasPitch, MSEHasTimestamp,
     MSEGuidBit1, MSEGuidBit0, MSEGuidBit3, MSEGuidBit2, MSEGuidBit7, MSEHasSpline,
     MSEHasTransportData, MSETransportGuidBit7, MSETransportGuidBit5, MSETransportGuidBit1,
     MSETransportGuidBit6, MSEHasTransportTime2, MSETransportGuidBit2, MSETransportGuidBit4,
     MSETransportGuidBit0, MSEHasTransportTime3, MSETransportGuidBit3, MSEGuidBit5,
     MSEHasSplineElevation, MSEHasMovementFlags2, MSEGuidBit6, MSEFlags, MSEHasFallData,
     MSEHasFallDirection, MSEHasOrientation, MSEFlags2, MSEPositionO, MSEFallCosAngle,
     MSEFallHorizontalSpeed, MSEFallSinAngle, MSEFallTime, MSEFallVerticalSpeed,
     MSESplineElevation, MSEGuidByte3, MSETransportGuidByte5, MSETransportTime3,
     MSETransportGuidByte7, MSETransportSeat, MSETransportGuidByte3, MSETransportGuidByte6,
     MSETransportPositionZ, MSETransportGuidByte1, MSETransportPositionY,
     MSETransportPositionX, MSETransportGuidByte2, MSETransportGuidByte0,
     MSETransportPositionO, MSETransportTime, MSETransportGuidByte4, MSETransportTime2,
     MSEPitch, MSEPositionZ, MSETimestamp, MSEPositionX, MSEGuidByte4, MSEGuidByte6,
     MSEGuidByte7, MSEGuidByte2, MSEGuidByte1, MSEPositionY, MSEGuidByte0, MSEGuidByte5,
     MSEEnd]"

definition MoveNotActiveMoverSequence :: "MovementStatusElements list" where
  "MoveNotActiveMoverSequence =
    [MSEPositionZ, MSEPositionX, MSEPositionY, MSEHasMovementFlags2, MSEHasTransportData,
     MSEGuidBit6, MSEHasSplineElevation, MSEGuidBit3, MSEHasUnknownBit, MSEHasTimestamp,
     MSEGuidBit0, MSEHasOrientation, MSEGuidBit5, MSEHasPitch, MSEGuidBit1, MSEGuidBit4,
     MSEGuidBit7, MSEHasSpline, MSEGuidBit2, MSEHasFallData, MSEHasMovementFlags,
     MSETransportGuidBit4, MSETransportGuidBit0, MSETransportGuidBit1, MSETransportGuidBit6,
     MSETransportGuidBit2, MSEHasTransportTime3, MSETransportGuidBit5, MSETransportGuidBit7,
     MSEHasTransportTime2, MSETransportGuidBit3, MSEHasFallDirection, MSEFlags, MSEFlags2,
     MSEGuidByte1, MSEGuidByte0, MSEGuidByte4, MSEGuidByte2, MSEGuidByte7, MSEGuidByte5,
     MSEGuidByte6, MSEGuidByte3, MSEFallVerticalSpeed, MSEFallCosAngle, MSEFallSinAngle,
     MSEFallHorizontalSpeed, MSEFallTime, MSETransportTime3, MSETransportGuidByte1,
     MSETransportTime2, MSETransportPositionO, MSETransportGuidByte0, MSETransportSeat,
     MSETransportGuidByte4, MSETransportGuidByte6, MSETransportGuidByte3,
     MSETransportGuidByte5, MSETransportPositionY, MSETransportPositionX,
     MSETransportGuidByte2, MSETransportPositionZ, MSETransportGuidByte7, MSETransportTime,
     MSETimestamp, MSESplineElevation, MSEPitch, MSEPositionO, MSEEnd]"

section \<open>Lookup by opcode\<close>

abbreviation (input) CMSG_CAST_SPELL :: uint16 where "CMSG_CAST_SPELL \<equiv> 100"
abbreviation (input) CMSG_PET_CAST_SPELL :: uint16 where "CMSG_PET_CAST_SPELL \<equiv> 486"
abbreviation (input) CMSG_USE_ITEM :: uint16 where "CMSG_USE_ITEM \<equiv> 698"
abbreviation (input) CMSG_MOVE_CHNG_TRANSPORT :: uint16 where "CMSG_MOVE_CHNG_TRANSPORT \<equiv> 425"
abbreviation (input) CMSG_MOVE_FALL_LAND :: uint16 where "CMSG_MOVE_FALL_LAND \<equiv> 426"
abbreviation (input) CMSG_MOVE_FALL_RESET :: uint16 where "CMSG_MOVE_FALL_RESET \<equiv> 427"
abbreviation (input) CMSG_MOVE_JUMP :: uint16 where "CMSG_MOVE_JUMP \<equiv> 432"
abbreviation (input) CMSG_MOVE_SET_CAN_FLY_ACK :: uint16 where "CMSG_MOVE_SET_CAN_FLY_ACK \<equiv> 435"
abbreviation (input) CMSG_MOVE_SET_FACING :: uint16 where "CMSG_MOVE_SET_FACING \<equiv> 438"
abbreviation (input) CMSG_MOVE_SET_PITCH :: uint16 where "CMSG_MOVE_SET_PITCH \<equiv> 440"
abbreviation (input) CMSG_MOVE_SET_RUN_MODE :: uint16 where "CMSG_MOVE_SET_RUN_MODE \<equiv> 442"
abbreviation (input) CMSG_MOVE_SET_WALK_MODE :: uint16 where "CMSG_MOVE_SET_WALK_MODE \<equiv> 444"
abbreviation (input) CMSG_MOVE_SPLINE_DONE :: uint16 where "CMSG_MOVE_SPLINE_DONE \<equiv> 445"
abbreviation (input) CMSG_MOVE_START_BACKWARD :: uint16 where "CMSG_MOVE_START_BACKWARD \<equiv> 447"
abbreviation (input) CMSG_MOVE_START_FORWARD :: uint16 where "CMSG_MOVE_START_FORWARD \<equiv> 449"
abbreviation (input) CMSG_MOVE_START_STRAFE_LEFT :: uint16 where "CMSG_MOVE_START_STRAFE_LEFT \<equiv> 452"
abbreviation (input) CMSG_MOVE_START_STRAFE_RIGHT :: uint16 where "CMSG_MOVE_START_STRAFE_RIGHT \<equiv> 453"
abbreviation (input) CMSG_MOVE_START_TURN_LEFT :: uint16 where "CMSG_MOVE_START_TURN_LEFT \<equiv> 456"
abbreviation (input) CMSG_MOVE_START_TURN_RIGHT :: uint16 where "CMSG_MOVE_START_TURN_RIGHT \<equiv> 457"
abbreviation (input) CMSG_MOVE_STOP :: uint16 where "CMSG_MOVE_STOP \<equiv> 458"
abbreviation (input) CMSG_MOVE_STOP_STRAFE :: uint16 where "CMSG_MOVE_STOP_STRAFE \<equiv> 461"
abbreviation (input) CMSG_MOVE_STOP_TURN :: uint16 where "CMSG_MOVE_STOP_TURN \<equiv> 464"
abbreviation (input) CMSG_MOVE_START_ASCEND :: uint16 where "CMSG_MOVE_START_ASCEND \<equiv> 446"
abbreviation (input) CMSG_MOVE_START_DESCEND :: uint16 where "CMSG_MOVE_START_DESCEND \<equiv> 448"
abbreviation (input) CMSG_MOVE_START_SWIM :: uint16 where "CMSG_MOVE_START_SWIM \<equiv> 454"
abbreviation (input) CMSG_MOVE_STOP_SWIM :: uint16 where "CMSG_MOVE_STOP_SWIM \<equiv> 462"
abbreviation (input) CMSG_MOVE_STOP_ASCEND :: uint16 where "CMSG_MOVE_STOP_ASCEND \<equiv> 459"
abbreviation (input) CMSG_MOVE_START_PITCH_DOWN :: uint16 where "CMSG_MOVE_START_PITCH_DOWN \<equiv> 450"
abbreviation (input) CMSG_MOVE_START_PITCH_UP :: uint16 where "CMSG_MOVE_START_PITCH_UP \<equiv> 451"
abbreviation (input) CMSG_MOVE_STOP_PITCH :: uint16 where "CMSG_MOVE_STOP_PITCH \<equiv> 460"
abbreviation MSG_MOVE_HEARTBEAT :: uint16 where "MSG_MOVE_HEARTBEAT \<equiv> 734"
abbreviation (input) SMSG_PLAYER_MOVE :: uint16 where "SMSG_PLAYER_MOVE \<equiv> 1219"
abbreviation (input) CMSG_DISMISS_CONTROLLED_VEHICLE :: uint16 where "CMSG_DISMISS_CONTROLLED_VEHICLE \<equiv> 192"
abbreviation (input) CMSG_CHANGE_SEATS_ON_CONTROLLED_VEHICLE :: uint16 where "CMSG_CHANGE_SEATS_ON_CONTROLLED_VEHICLE \<equiv> 104"
abbreviation (input) CMSG_MOVE_KNOCK_BACK_ACK :: uint16 where "CMSG_MOVE_KNOCK_BACK_ACK \<equiv> 433"
abbreviation (input) SMSG_MOVE_UPDATE_KNOCK_BACK :: uint16 where "SMSG_MOVE_UPDATE_KNOCK_BACK \<equiv> 1169"
abbreviation (input) CMSG_MOVE_NOT_ACTIVE_MOVER :: uint16 where "CMSG_MOVE_NOT_ACTIVE_MOVER \<equiv> 434"

definition GetMovementStatusElementsSequence :: "uint16 \<Rightarrow> MovementStatusElements list option" where
  "GetMovementStatusElementsSequence opcode =
     (if opcode = CMSG_CAST_SPELL \<or> opcode = CMSG_PET_CAST_SPELL \<or> opcode = CMSG_USE_ITEM
        then Some MovementCastSpellSequence
      else if opcode = CMSG_MOVE_CHNG_TRANSPORT
        then Some MovementChngTransportSequence
      else if opcode = CMSG_MOVE_FALL_LAND
        then Some MovementFallLandSequence
      else if opcode = CMSG_MOVE_FALL_RESET
        then Some MovementFallResetSequence
      else if opcode = CMSG_MOVE_JUMP
        then Some MovementJumpSequence
      else if opcode = CMSG_MOVE_SET_CAN_FLY_ACK
        then Some MovementSetCanFlyAckSequence
      else if opcode = CMSG_MOVE_SET_FACING
        then Some MovementSetFacingSequence
      else if opcode = CMSG_MOVE_SET_PITCH
        then Some MovementSetPitchSequence
      else if opcode = CMSG_MOVE_SET_RUN_MODE
        then Some MovementSetRunModeSequence
      else if opcode = CMSG_MOVE_SET_WALK_MODE
        then Some MovementSetWalkModeSequence
      else if opcode = CMSG_MOVE_SPLINE_DONE
        then Some MovementSplineDoneSequence
      else if opcode = CMSG_MOVE_START_BACKWARD
        then Some MovementStartBackwardSequence
      else if opcode = CMSG_MOVE_START_FORWARD
        then Some MovementStartForwardSequence
      else if opcode = CMSG_MOVE_START_STRAFE_LEFT
        then Some MovementStartStrafeLeftSequence
      else if opcode = CMSG_MOVE_START_STRAFE_RIGHT
        then Some MovementStartStrafeRightSequence
      else if opcode = CMSG_MOVE_START_TURN_LEFT
        then Some MovementStartTurnLeftSequence
      else if opcode = CMSG_MOVE_START_TURN_RIGHT
        then Some MovementStartTurnRightSequence
      else if opcode = CMSG_MOVE_STOP
        then Some MovementStopSequence
      else if opcode = CMSG_MOVE_STOP_STRAFE
        then Some MovementStopStrafeSequence
      else if opcode = CMSG_MOVE_STOP_TURN
        then Some MovementStopTurnSequence
      else if opcode = CMSG_MOVE_START_ASCEND
        then Some MovementStartAscendSequence
      else if opcode = CMSG_MOVE_START_DESCEND
        then Some MovementStartDescendSequence
      else if opcode = CMSG_MOVE_START_SWIM
        then Some MovementStartSwimSequence
      else if opcode = CMSG_MOVE_STOP_SWIM
        then Some MovementStopSwimSequence
      else if opcode = CMSG_MOVE_STOP_ASCEND
        then Some MovementStopAscendSequence
      else if opcode = CMSG_MOVE_START_PITCH_DOWN
        then Some MovementStartPitchDownSequence
      else if opcode = CMSG_MOVE_START_PITCH_UP
        then Some MovementStartPitchUpSequence
      else if opcode = CMSG_MOVE_STOP_PITCH
        then Some MovementStopPitchSequence
      else if opcode = MSG_MOVE_HEARTBEAT
        then Some MovementHeartBeatSequence
      else if opcode = SMSG_PLAYER_MOVE
        then Some PlayerMoveSequence
      else if opcode = CMSG_DISMISS_CONTROLLED_VEHICLE
        then Some DismissControlledVehicleSequence
      else if opcode = CMSG_CHANGE_SEATS_ON_CONTROLLED_VEHICLE
        then Some ChangeSeatsOnControlledVehicleSequence
      else if opcode = CMSG_MOVE_KNOCK_BACK_ACK
        then Some MoveKnockbackAckSequence
      else if opcode = SMSG_MOVE_UPDATE_KNOCK_BACK
        then Some MoveUpdateKnockBackSequence
      else if opcode = CMSG_MOVE_NOT_ACTIVE_MOVER
        then Some MoveNotActiveMoverSequence
      else None)"

definition all_sequences :: "MovementStatusElements list list" where
  "all_sequences =
    [PlayerMoveSequence, MovementFallLandSequence, MovementHeartBeatSequence,
     MovementJumpSequence, MovementSetFacingSequence, MovementSetPitchSequence,
     MovementStartBackwardSequence, MovementStartForwardSequence,
     MovementStartStrafeLeftSequence, MovementStartStrafeRightSequence,
     MovementStartTurnLeftSequence, MovementStartTurnRightSequence, MovementStopSequence,
     MovementStopStrafeSequence, MovementStopTurnSequence, MovementStartAscendSequence,
     MovementStartDescendSequence, MovementStartSwimSequence, MovementStopSwimSequence,
     MovementStopAscendSequence, MovementStopPitchSequence, MovementStartPitchDownSequence,
     MovementStartPitchUpSequence, MovementChngTransportSequence, MovementSetRunModeSequence,
     MovementSetWalkModeSequence, MovementFallResetSequence, MovementSetCanFlyAckSequence,
     MovementCastSpellSequence, MovementSplineDoneSequence, DismissControlledVehicleSequence,
     ChangeSeatsOnControlledVehicleSequence, MoveKnockbackAckSequence,
     MoveUpdateKnockBackSequence, MoveNotActiveMoverSequence]"

end
