(* ===== verification/ByteBuffer.thy ===== *)
theory ByteBuffer
  imports Prelude
begin

text \<open>
  The packet buffer of src/src/shared/ByteBuffer.h: a growing byte vector with separate
  read and write positions and a one-byte bit accumulator that the bit reader and the bit
  writer share.  One definition per method, named as the method; overloads of
  \<open>append\<close>, \<open>read\<close> and \<open>put\<close> get a suffix (\<open>_T\<close> for the template over an unsigned
  machine type, whose \<open>sizeof\<close> is a function of the word type).

  \<open>size_t\<close> arithmetic in the bounds checks wraps at 64 bits (\<open>size_add\<close>); an access that
  passes a wrapped check is \<open>Undefined\<close>.  Allocation failure is not modelled.
\<close>

section \<open>State\<close>

record ByteBuffer =
  rpos :: nat
  wpos :: nat
  bitpos :: nat
  curbitval :: uint8
  storage :: "uint8 list"

abbreviation bb_size :: "ByteBuffer \<Rightarrow> nat" where
  "bb_size b \<equiv> length (storage b)"

definition bb_new :: ByteBuffer where
  "bb_new = \<lparr>rpos = 0, wpos = 0, bitpos = 8, curbitval = 0, storage = []\<rparr>"

definition bb_clear :: "ByteBuffer \<Rightarrow> ByteBuffer" where
  "bb_clear b = b\<lparr>storage := [], rpos := 0, wpos := 0, curbitval := 0, bitpos := 8\<rparr>"

definition sizeof :: "'a::len itself \<Rightarrow> nat" where
  "sizeof t = LENGTH('a) div 8"

section \<open>Writing\<close>

definition append_bytes :: "uint8 list \<Rightarrow> ByteBuffer \<Rightarrow> ByteBuffer result" where
  "append_bytes src b =
     (if src = [] then Inr b
      else if \<not> bb_size b < 10000000 then Inl AssertFailed
      else
        let cnt = length src;
            need = size_add (wpos b) cnt;
            st = (if bb_size b < need then storage b @ replicate (need - bb_size b) 0
                  else storage b)
        in if length st < wpos b + cnt then Inl Undefined
           else Inr (b\<lparr>storage := take (wpos b) st @ src @ drop (wpos b + cnt) st,
                       wpos := wpos b + cnt\<rparr>))"

definition FlushBits :: "ByteBuffer \<Rightarrow> ByteBuffer result" where
  "FlushBits b =
     (if bitpos b = 8 then Inr b
      else bindR (append_bytes [curbitval b] b)
             (\<lambda>b. Inr (b\<lparr>curbitval := 0, bitpos := 8\<rparr>)))"

definition append_T :: "'a::len word \<Rightarrow> ByteBuffer \<Rightarrow> ByteBuffer result" where
  "append_T v b = bindR (FlushBits b) (append_bytes (le_bytes v))"

definition WriteBit :: "bool \<Rightarrow> ByteBuffer \<Rightarrow> ByteBuffer result" where
  "WriteBit x b =
     (let bp = size_dec (bitpos b)
      in if x \<and> 32 \<le> bp then Inl Undefined
         else
           let cur = (if x then set_bit bp (curbitval b) else curbitval b);
               b = b\<lparr>bitpos := bp, curbitval := cur\<rparr>
           in if bp = 0
              then bindR (append_bytes [cur] (b\<lparr>bitpos := 8\<rparr>))
                     (\<lambda>b. Inr (b\<lparr>curbitval := 0\<rparr>))
              else Inr b)"

fun WriteBits :: "'a::len word \<Rightarrow> nat \<Rightarrow> ByteBuffer \<Rightarrow> ByteBuffer result" where
  "WriteBits v 0 b = Inr b"
| "WriteBits v (Suc i) b =
     (if max 32 LENGTH('a) \<le> i then Inl Undefined
      else bindR (WriteBit (bit v i) b) (WriteBits v i))"

definition WriteByteSeq :: "uint8 \<Rightarrow> ByteBuffer \<Rightarrow> ByteBuffer result" where
  "WriteByteSeq c b = (if c \<noteq> 0 then append_T (c XOR 1) b else Inr b)"

text \<open>
  \<open>put\<close> overwrites bytes at a position without moving the write position.
\<close>

definition put_bytes :: "nat \<Rightarrow> uint8 list \<Rightarrow> ByteBuffer \<Rightarrow> ByteBuffer result" where
  "put_bytes pos src b =
     (let cnt = length src
      in if bb_size b < size_add pos cnt
         then Inl (ByteBufferException True pos cnt (bb_size b))
         else if bb_size b < pos + cnt then Inl Undefined
         else Inr (b\<lparr>storage := take pos (storage b) @ src @ drop (pos + cnt) (storage b)\<rparr>))"

definition put_T :: "nat \<Rightarrow> 'a::len word \<Rightarrow> ByteBuffer \<Rightarrow> ByteBuffer result" where
  "put_T pos v b = put_bytes pos (le_bytes v) b"

definition append_buffer :: "ByteBuffer \<Rightarrow> ByteBuffer \<Rightarrow> ByteBuffer result" where
  "append_buffer src b =
     (if wpos src \<noteq> 0
      then if bb_size src < wpos src then Inl Undefined
           else append_bytes (take (wpos src) (storage src)) b
      else Inr b)"

definition resize :: "nat \<Rightarrow> ByteBuffer \<Rightarrow> ByteBuffer" where
  "resize n b = b\<lparr>storage := take n (storage b) @ replicate (n - bb_size b) 0,
                  rpos := 0, wpos := n\<rparr>"

section \<open>Reading\<close>

definition ResetBitReader :: "ByteBuffer \<Rightarrow> ByteBuffer" where
  "ResetBitReader b = b\<lparr>bitpos := 8\<rparr>"

definition read_at :: "nat \<Rightarrow> ByteBuffer \<Rightarrow> 'a::len word result" where
  "read_at pos b =
     (let n = sizeof TYPE('a)
      in if bb_size b < size_add pos n then Inl (ByteBufferException False pos n (bb_size b))
         else if bb_size b < pos + n then Inl Undefined
         else Inr (le_word (take n (drop pos (storage b)))))"

definition read_T :: "ByteBuffer \<Rightarrow> ('a::len word \<times> ByteBuffer) result" where
  "read_T b =
     (let b = ResetBitReader b
      in bindR (read_at (rpos b) b)
           (\<lambda>r. Inr (r, b\<lparr>rpos := rpos b + sizeof TYPE('a)\<rparr>)))"

definition read_skip :: "nat \<Rightarrow> ByteBuffer \<Rightarrow> ByteBuffer result" where
  "read_skip skip b =
     (let b = ResetBitReader b
      in if bb_size b < size_add (rpos b) skip
         then Inl (ByteBufferException False (rpos b) skip (bb_size b))
         else Inr (b\<lparr>rpos := size_add (rpos b) skip\<rparr>))"

definition read_bytes :: "nat \<Rightarrow> ByteBuffer \<Rightarrow> (uint8 list \<times> ByteBuffer) result" where
  "read_bytes len b =
     (let b = ResetBitReader b
      in if bb_size b < size_add (rpos b) len
         then Inl (ByteBufferException False (rpos b) len (bb_size b))
         else if bb_size b < rpos b + len then Inl Undefined
         else Inr (take len (drop (rpos b) (storage b)), b\<lparr>rpos := rpos b + len\<rparr>))"

definition ReadBit :: "ByteBuffer \<Rightarrow> (bool \<times> ByteBuffer) result" where
  "ReadBit b =
     (let bp = size_add (bitpos b) 1
      in if 7 < bp
         then bindR (read_T (b\<lparr>bitpos := bp\<rparr>))
                (\<lambda>(c, b). Inr (bit c 7, b\<lparr>curbitval := c, bitpos := 0\<rparr>))
         else Inr (bit (curbitval b) (7 - bp), b\<lparr>bitpos := bp\<rparr>))"

fun ReadBits_from :: "uint32 \<Rightarrow> nat \<Rightarrow> ByteBuffer \<Rightarrow> (uint32 \<times> ByteBuffer) result" where
  "ReadBits_from v 0 b = Inr (v, b)"
| "ReadBits_from v (Suc i) b =
     bindR (ReadBit b)
       (\<lambda>(x, b). if x \<and> 32 \<le> i then Inl Undefined
                 else ReadBits_from (if x then v OR push_bit i 1 else v) i b)"

definition ReadBits :: "nat \<Rightarrow> ByteBuffer \<Rightarrow> (uint32 \<times> ByteBuffer) result" where
  "ReadBits n b = ReadBits_from 0 n b"

definition ReadByteSeq :: "uint8 \<Rightarrow> ByteBuffer \<Rightarrow> (uint8 \<times> ByteBuffer) result" where
  "ReadByteSeq c b =
     (if c \<noteq> 0 then bindR (read_T b) (\<lambda>(r, b). Inr (c XOR r, b)) else Inr (c, b))"

text \<open>
  The two ways to read a truth value: \<open>operator>>(bool&)\<close> reads a \<open>char\<close>, which is signed
  on the platforms the server is built for, and \<open>ReadBoolean\<close> reads a \<open>uint8\<close>.
\<close>

definition read_bool :: "ByteBuffer \<Rightarrow> (bool \<times> ByteBuffer) result" where
  "read_bool b = bindR (read_T b) (\<lambda>(c :: uint8, b). Inr (0 < sint c, b))"

definition ReadBoolean :: "ByteBuffer \<Rightarrow> (bool \<times> ByteBuffer) result" where
  "ReadBoolean b = bindR (read_T b) (\<lambda>(c :: uint8, b). Inr (0 < c, b))"

end
