(* ===== verification/BitWire.thy ===== *)
theory BitWire
  imports ByteBuffer
begin

text \<open>
  The wire contract of the packet buffer.  A packet is a sequence of tokens, single bits
  and byte groups; \<open>wire_bytes\<close> is the abstract specification of the bytes it occupies:
  bits are collected most significant first, a byte group pads a started byte with zero
  bits.  The locale \<open>bit_wire\<close> states what a client of the buffer relies on (a writer that
  accumulates tokens, a reader that replays them), proves the client lemmas for whole
  token lists and multi-bit fields, and is interpreted on the methods of \<open>ByteBuffer\<close>.
\<close>

section \<open>Abstract specification\<close>

datatype tok = TBit bool | TBytes "uint8 list"

definition byte_of :: "bool list \<Rightarrow> uint8" where
  "byte_of p = horner_sum of_bool 2 (rev (take 8 (p @ replicate 8 False)))"

definition pad :: "bool list \<Rightarrow> uint8 list" where
  "pad p = (if p = [] then [] else [byte_of p])"

fun wire_from :: "bool list \<Rightarrow> tok list \<Rightarrow> uint8 list" where
  "wire_from p [] = pad p"
| "wire_from p (TBit x # ts) =
     (if length p = 7 then byte_of (p @ [x]) # wire_from [] ts else wire_from (p @ [x]) ts)"
| "wire_from p (TBytes bs # ts) = pad p @ bs @ wire_from [] ts"

abbreviation wire_bytes :: "tok list \<Rightarrow> uint8 list" where
  "wire_bytes \<equiv> wire_from []"

fun tok_cost :: "tok \<Rightarrow> nat" where
  "tok_cost (TBit x) = 1"
| "tok_cost (TBytes bs) = 1 + length bs"

fun tok_ok :: "tok \<Rightarrow> bool" where
  "tok_ok (TBit x) \<longleftrightarrow> True"
| "tok_ok (TBytes bs) \<longleftrightarrow> bs \<noteq> []"

lemma bit_byte_of:
  "length p \<le> 8 \<Longrightarrow> bit (byte_of p) i \<longleftrightarrow> i < 8 \<and> 7 - i < length p \<and> p ! (7 - i)"
  by (auto simp add: byte_of_def bit_horner_sum_bit_iff rev_nth nth_append)

lemma byte_of_snoc:
  assumes "length p < 8"
  shows "byte_of (p @ [x]) = (if x then set_bit (7 - length p) (byte_of p) else byte_of p)"
  by (rule bit_word_eqI)
     (use assms in \<open>auto simp add: bit_byte_of bit_set_bit_iff nth_append less_Suc_eq\<close>)

lemma byte_of_Nil [simp]: "byte_of [] = 0"
  by (rule bit_word_eqI) (simp add: bit_byte_of)

text \<open>Bits already collected are the top bits of the first byte still to come.\<close>

lemma wire_from_hd:
  assumes "length p < 8" "p \<noteq> []"
  shows "\<exists>c cs. wire_from p ts = c # cs \<and> (\<forall>i < length p. bit c (7 - i) = p ! i)"
  using assms
proof (induction ts arbitrary: p)
  case Nil
  then show ?case by (auto simp add: pad_def bit_byte_of)
next
  case (Cons t ts)
  show ?case
  proof (cases t)
    case (TBytes bs)
    then show ?thesis using Cons.prems by (auto simp add: pad_def bit_byte_of)
  next
    case t: (TBit x)
    show ?thesis
    proof (cases "length p = 7")
      case True
      then show ?thesis using t by (auto simp add: bit_byte_of nth_append)
    next
      case False
      then have "length (p @ [x]) < 8" using Cons.prems by simp
      from Cons.IH[OF this] obtain c cs where
        *: "wire_from (p @ [x]) ts = c # cs" "\<forall>i < length (p @ [x]). bit c (7 - i) = (p @ [x]) ! i"
        by auto
      have "bit c (7 - i) = p ! i" if "i < length p" for i
        using *(2)[rule_format, of i] that by (simp add: nth_append)
      then show ?thesis using t False *(1) by auto
    qed
  qed
qed

section \<open>The interface\<close>

definition seq_tok ::
  "(bool \<Rightarrow> 'w \<Rightarrow> 'w result) \<Rightarrow> (uint8 list \<Rightarrow> 'w \<Rightarrow> 'w result) \<Rightarrow> tok \<Rightarrow> 'w \<Rightarrow> 'w result" where
  "seq_tok wbit wbytes t w = (case t of TBit x \<Rightarrow> wbit x w | TBytes bs \<Rightarrow> wbytes bs w)"

fun seq_toks ::
  "(bool \<Rightarrow> 'w \<Rightarrow> 'w result) \<Rightarrow> (uint8 list \<Rightarrow> 'w \<Rightarrow> 'w result) \<Rightarrow> tok list \<Rightarrow> 'w \<Rightarrow> 'w result" where
  "seq_toks wbit wbytes [] w = Inr w"
| "seq_toks wbit wbytes (t # ts) w = bindR (seq_tok wbit wbytes t w) (seq_toks wbit wbytes ts)"

text \<open>Reading back the shape of a token list, without looking at its values.\<close>

fun replay_toks ::
  "('r \<Rightarrow> (bool \<times> 'r) result) \<Rightarrow> (nat \<Rightarrow> 'r \<Rightarrow> (uint8 list \<times> 'r) result) \<Rightarrow>
   tok list \<Rightarrow> 'r \<Rightarrow> (tok list \<times> 'r) result" where
  "replay_toks rbit rbytes [] r = Inr ([], r)"
| "replay_toks rbit rbytes (t # ts) r =
     bindR (case t of TBit _ \<Rightarrow> bindR (rbit r) (\<lambda>(x, r). Inr (TBit x, r))
            | TBytes bs \<Rightarrow> bindR (rbytes (length bs) r) (\<lambda>(cs, r). Inr (TBytes cs, r)))
       (\<lambda>(t', r). bindR (replay_toks rbit rbytes ts r) (\<lambda>(ts', r). Inr (t' # ts', r)))"

locale bit_wire =
  fixes wbit :: "bool \<Rightarrow> 'w \<Rightarrow> 'w result"
    and wbytes :: "uint8 list \<Rightarrow> 'w \<Rightarrow> 'w result"
    and flush :: "'w \<Rightarrow> 'w result"
    and rbit :: "'r \<Rightarrow> (bool \<times> 'r) result"
    and rbytes :: "nat \<Rightarrow> 'r \<Rightarrow> (uint8 list \<times> 'r) result"
    and written :: "'o \<Rightarrow> nat \<Rightarrow> tok list \<Rightarrow> 'w \<Rightarrow> bool"
    and sent :: "'o \<Rightarrow> uint8 list \<Rightarrow> 'w \<Rightarrow> bool"
    and unread :: "uint8 list \<Rightarrow> 'r \<Rightarrow> bool"
    and remaining :: "'r \<Rightarrow> uint8 list"
    and feeds :: "uint8 list \<Rightarrow> tok list \<Rightarrow> 'r \<Rightarrow> bool"
  assumes wbit_written:
      "written org (Suc k) ts w \<Longrightarrow> \<exists>w'. wbit x w = Inr w' \<and> written org k (ts @ [TBit x]) w'"
    and wbytes_written:
      "written org (1 + length bs + k) ts w \<Longrightarrow> bs \<noteq> [] \<Longrightarrow>
        \<exists>w'. wbytes bs w = Inr w' \<and> written org k (ts @ [TBytes bs]) w'"
    and written_less: "written org k ts w \<Longrightarrow> j \<le> k \<Longrightarrow> written org j ts w"
    and flush_sent:
      "written org (Suc k) ts w \<Longrightarrow> \<exists>w'. flush w = Inr w' \<and> sent org (wire_bytes ts) w'"
    and unread_feeds: "unread (wire_bytes ts @ rest) r \<Longrightarrow> feeds rest ts r"
    and rbit_feeds:
      "feeds rest (TBit x # ts) r \<Longrightarrow> \<exists>r'. rbit r = Inr (x, r') \<and> feeds rest ts r'"
    and rbytes_feeds:
      "feeds rest (TBytes bs # ts) r \<Longrightarrow> bs \<noteq> [] \<Longrightarrow>
        \<exists>r'. rbytes (length bs) r = Inr (bs, r') \<and> feeds rest ts r'"
    and feeds_done: "feeds rest [] r \<Longrightarrow> remaining r = rest"
begin

lemma seq_tok_written:
  assumes "written org (tok_cost t + k) ts w" "tok_ok t"
  shows "\<exists>w'. seq_tok wbit wbytes t w = Inr w' \<and> written org k (ts @ [t]) w'"
  using assms wbit_written wbytes_written by (cases t) (auto simp add: seq_tok_def)

lemma seq_toks_written:
  assumes "written org (sum_list (map tok_cost us) + k) ts w" "list_all tok_ok us"
  shows "\<exists>w'. seq_toks wbit wbytes us w = Inr w' \<and> written org k (ts @ us) w'"
  using assms
proof (induction us arbitrary: ts w)
  case Nil
  then show ?case by simp
next
  case (Cons u us)
  then have "written org (tok_cost u + (sum_list (map tok_cost us) + k)) ts w" "tok_ok u"
    by (simp_all add: add.assoc)
  from seq_tok_written[OF this] obtain w1 where
    w1: "seq_tok wbit wbytes u w = Inr w1" "written org (sum_list (map tok_cost us) + k) (ts @ [u]) w1"
    by blast
  from Cons.IH[OF w1(2)] Cons.prems show ?case by (simp add: w1(1))
qed

lemma replay_feeds:
  assumes "feeds rest (us @ ts) r" "list_all tok_ok us"
  shows "\<exists>r'. replay_toks rbit rbytes us r = Inr (us, r') \<and> feeds rest ts r'"
  using assms
proof (induction us arbitrary: r)
  case Nil
  then show ?case by simp
next
  case (Cons u us)
  show ?case
  proof (cases u)
    case (TBit x)
    then have "feeds rest (TBit x # us @ ts) r" using Cons.prems by simp
    from rbit_feeds[OF this] Cons.IH Cons.prems(2) TBit show ?thesis by fastforce
  next
    case (TBytes bs)
    then have "feeds rest (TBytes bs # us @ ts) r" "bs \<noteq> []" using Cons.prems by simp_all
    from rbytes_feeds[OF this] Cons.IH Cons.prems(2) TBytes show ?thesis by fastforce
  qed
qed

text \<open>Whatever token list is written and flushed is read back token by token.\<close>

lemma wire_roundtrip:
  assumes "written org (Suc (sum_list (map tok_cost us))) [] w" "list_all tok_ok us"
  shows "\<exists>w1 w2 bs. seq_toks wbit wbytes us w = Inr w1 \<and> flush w1 = Inr w2 \<and> sent org bs w2 \<and>
    (\<forall>r rest. unread (bs @ rest) r \<longrightarrow> 
      (\<exists>r'. replay_toks rbit rbytes us r = Inr (us, r') \<and> remaining r' = rest))"
proof -
  have "written org (sum_list (map tok_cost us) + 1) [] w" using assms(1) by simp
  from seq_toks_written[OF this assms(2)] obtain w1 where
    w1: "seq_toks wbit wbytes us w = Inr w1" "written org (Suc 0) us w1" by auto
  from flush_sent[OF w1(2)] obtain w2 where
    w2: "flush w1 = Inr w2" "sent org (wire_bytes us) w2" by blast
  have "\<exists>r'. replay_toks rbit rbytes us r = Inr (us, r') \<and> remaining r' = rest"
    if "unread (wire_bytes us @ rest) r" for r rest
    using replay_feeds[of rest us "[]" r] unread_feeds[OF that] assms(2) feeds_done by auto
  with w1(1) w2 show ?thesis by blast
qed

end

section \<open>The packet buffer as a provider\<close>

fun wire_step :: "uint8 list \<times> bool list \<Rightarrow> tok \<Rightarrow> uint8 list \<times> bool list" where
  "wire_step (out, p) (TBit x) =
     (if length p = 7 then (out @ [byte_of (p @ [x])], []) else (out, p @ [x]))"
| "wire_step (out, p) (TBytes bs) = (out @ pad p @ bs, [])"

definition wire_run :: "tok list \<Rightarrow> uint8 list \<times> bool list" where
  "wire_run ts = foldl wire_step ([], []) ts"

lemma wire_run_snoc [simp]: "wire_run (ts @ [t]) = wire_step (wire_run ts) t"
  by (simp add: wire_run_def)

lemma wire_run_pending: "length (snd (wire_run ts)) < 8"
proof (induction ts rule: rev_induct)
  case Nil
  then show ?case by (simp add: wire_run_def)
next
  case (snoc t ts)
  then show ?case by (cases t; cases "wire_run ts") auto
qed

lemma foldl_wire_step:
  "fst (foldl wire_step (out, p) ts) @ pad (snd (foldl wire_step (out, p) ts)) =
     out @ wire_from p ts"
proof (induction ts arbitrary: out p)
  case Nil
  then show ?case by simp
next
  case (Cons t ts)
  then show ?case by (cases t) auto
qed

lemma wire_run_bytes: "fst (wire_run ts) @ pad (snd (wire_run ts)) = wire_bytes ts"
  using foldl_wire_step[of "[]" "[]" ts] by (simp add: wire_run_def)

definition bb_written :: "uint8 list \<Rightarrow> nat \<Rightarrow> tok list \<Rightarrow> ByteBuffer \<Rightarrow> bool" where
  "bb_written org k ts b \<longleftrightarrow>
     storage b = org @ fst (wire_run ts) \<and> wpos b = length org + length (fst (wire_run ts)) \<and>
     bitpos b = 8 - length (snd (wire_run ts)) \<and> curbitval b = byte_of (snd (wire_run ts)) \<and>
     length org + length (fst (wire_run ts)) + k \<le> 10000000"

definition bb_sent :: "uint8 list \<Rightarrow> uint8 list \<Rightarrow> ByteBuffer \<Rightarrow> bool" where
  "bb_sent org bs b \<longleftrightarrow> storage b = org @ bs \<and> wpos b = bb_size b \<and> bitpos b = 8 \<and> curbitval b = 0"

definition bb_unread :: "uint8 list \<Rightarrow> ByteBuffer \<Rightarrow> bool" where
  "bb_unread bs b \<longleftrightarrow>
     drop (rpos b) (storage b) = bs \<and> rpos b \<le> bb_size b \<and> bb_size b < 2 ^ 64 \<and> bitpos b = 8"

definition bb_rest :: "ByteBuffer \<Rightarrow> uint8 list" where
  "bb_rest b = drop (rpos b) (storage b)"

definition bb_feeds :: "uint8 list \<Rightarrow> tok list \<Rightarrow> ByteBuffer \<Rightarrow> bool" where
  "bb_feeds rest ts b \<longleftrightarrow> rpos b \<le> bb_size b \<and> bb_size b < 2 ^ 64 \<and>
     (\<exists>p. length p < 8 \<and>
       (if p = [] then (bitpos b = 7 \<or> bitpos b = 8) \<and>
                       drop (rpos b) (storage b) = wire_bytes ts @ rest
        else bitpos b = length p - 1 \<and>
             wire_from p ts @ rest = curbitval b # drop (rpos b) (storage b)))"

definition write_bytes :: "uint8 list \<Rightarrow> ByteBuffer \<Rightarrow> ByteBuffer result" where
  "write_bytes bs b = bindR (FlushBits b) (append_bytes bs)"

lemma append_T_write_bytes: "append_T v b = write_bytes (le_bytes v) b"
  by (simp add: append_T_def write_bytes_def)

lemma append_bytes_end:
  assumes "wpos b = bb_size b" "bb_size b < 10000000" "length src \<le> 10000000"
  shows "append_bytes src b =
    Inr (b\<lparr>storage := storage b @ src, wpos := bb_size b + length src\<rparr>)"
proof -
  have "size_add (wpos b) (length src) = bb_size b + length src"
    using assms by (simp add: size_add_small)
  then show ?thesis using assms by (simp add: append_bytes_def Let_def)
qed

lemma bb_written_WriteBit:
  assumes "bb_written org (Suc k) ts b"
  shows "\<exists>b'. WriteBit x b = Inr b' \<and> bb_written org k (ts @ [TBit x]) b'"
proof -
  obtain out p where run: "wire_run ts = (out, p)" by (cases "wire_run ts")
  have p: "length p < 8" using wire_run_pending[of ts] run by simp
  from assms have b: "storage b = org @ out" "wpos b = length org + length out"
    "bitpos b = 8 - length p" "curbitval b = byte_of p"
    "length org + length out + Suc k \<le> 10000000"
    by (simp_all add: bb_written_def run)
  have dec: "size_dec (bitpos b) = 7 - length p" using b(3) p by (simp add: size_dec_pos)
  show ?thesis
  proof (cases "length p = 7")
    case True
    then show ?thesis using b dec byte_of_snoc[of p x] p
      by (auto simp add: WriteBit_def Let_def bb_written_def run append_bytes_end)
  next
    case False
    then show ?thesis using b dec byte_of_snoc[of p x] p
      by (auto simp add: WriteBit_def Let_def bb_written_def run)
  qed
qed

lemma bb_written_FlushBits:
  assumes "bb_written org (Suc k) ts b"
  shows "\<exists>b'. FlushBits b = Inr b' \<and> bb_sent org (wire_bytes ts) b' \<and> bb_size b' \<le> Suc (bb_size b)"
proof -
  obtain out p where run: "wire_run ts = (out, p)" by (cases "wire_run ts")
  have p: "length p < 8" using wire_run_pending[of ts] run by simp
  have w: "wire_bytes ts = out @ pad p" using wire_run_bytes[of ts] run by simp
  have e: "8 - length p = 8 \<longleftrightarrow> p = []" using p by (cases p) auto
  show ?thesis using assms e
    by (auto simp add: FlushBits_def bb_written_def run w pad_def bb_sent_def append_bytes_end)
qed

lemma bb_written_write_bytes:
  assumes "bb_written org (1 + length bs + k) ts b" "bs \<noteq> []"
  shows "\<exists>b'. write_bytes bs b = Inr b' \<and> bb_written org k (ts @ [TBytes bs]) b'"
proof -
  from assms have "bb_written org (Suc (length bs + k)) ts b" by simp
  from bb_written_FlushBits[OF this] obtain b1 where
    b1: "FlushBits b = Inr b1" "bb_sent org (wire_bytes ts) b1" "bb_size b1 \<le> Suc (bb_size b)"
    by blast
  have "bb_size b1 + length bs + k \<le> 10000000"
    using b1(3) assms(1) by (auto simp add: bb_written_def)
  moreover have "0 < length bs" using assms(2) by simp
  ultimately have l: "bb_size b1 < 10000000" "length bs \<le> 10000000"
    "bb_size b1 + length bs + k \<le> 10000000" by linarith+
  obtain out p where run: "wire_run ts = (out, p)" by (cases "wire_run ts")
  then have w: "wire_bytes ts = out @ pad p" using wire_run_bytes[of ts] by simp
  show ?thesis using b1(1,2) l
    by (auto simp add: write_bytes_def bb_sent_def append_bytes_end bb_written_def run w)
qed

lemma read_T_byte:
  assumes "drop (rpos b) (storage b) = c # cs" "rpos b \<le> bb_size b" "bb_size b < 2 ^ 64"
  shows "(read_T b :: (uint8 \<times> ByteBuffer) result) =
    Inr (c, b\<lparr>bitpos := 8, rpos := Suc (rpos b)\<rparr>)"
    and "drop (Suc (rpos b)) (storage b) = cs" and "Suc (rpos b) \<le> bb_size b"
proof -
  have "length (drop (rpos b) (storage b)) = Suc (length cs)" using assms(1) by simp
  then have l: "Suc (rpos b) \<le> bb_size b" by simp
  then have "size_add (rpos b) 1 = Suc (rpos b)" using assms(3) by (simp add: size_add_small)
  then show "(read_T b :: (uint8 \<times> ByteBuffer) result) =
      Inr (c, b\<lparr>bitpos := 8, rpos := Suc (rpos b)\<rparr>)"
    using l assms(1)
    by (simp add: read_T_def read_at_def ResetBitReader_def Let_def sizeof_def)
  show "drop (Suc (rpos b)) (storage b) = cs" using assms(1)
    by (metis drop_Suc list.sel(3) tl_drop)
  show "Suc (rpos b) \<le> bb_size b" by (rule l)
qed

lemma bb_unread_feeds:
  assumes "bb_unread (wire_bytes ts @ rest) b"
  shows "bb_feeds rest ts b"
proof -
  have "length ([] :: bool list) < 8 \<and> (if ([] :: bool list) = [] then (bitpos b = 7 \<or> bitpos b = 8) \<and>
      drop (rpos b) (storage b) = wire_bytes ts @ rest
      else bitpos b = length ([] :: bool list) - 1 \<and>
        wire_from [] ts @ rest = curbitval b # drop (rpos b) (storage b))"
    using assms by (simp add: bb_unread_def)
  then show ?thesis using assms unfolding bb_feeds_def bb_unread_def by blast
qed

lemma bb_feeds_ReadBit:
  assumes "bb_feeds rest (TBit x # ts) b"
  shows "\<exists>b'. ReadBit b = Inr (x, b') \<and> bb_feeds rest ts b'"
proof -
  from assms obtain p where p: "length p < 8" and sz: "rpos b \<le> bb_size b" "bb_size b < 2 ^ 64"
    and d: "if p = [] then (bitpos b = 7 \<or> bitpos b = 8) \<and>
                drop (rpos b) (storage b) = wire_bytes (TBit x # ts) @ rest
            else bitpos b = length p - 1 \<and>
                wire_from p (TBit x # ts) @ rest = curbitval b # drop (rpos b) (storage b)"
    unfolding bb_feeds_def by blast
  show ?thesis
  proof (cases "p = []")
    case True
    obtain c cs where w: "wire_from [x] ts = c # cs" "bit c 7 = x"
      using wire_from_hd[of "[x]" ts] by auto
    from d True have bp: "bitpos b = 7 \<or> bitpos b = 8"
      and dr: "drop (rpos b) (storage b) = c # (cs @ rest)" by (simp_all add: w)
    have dr': "drop (rpos (b\<lparr>bitpos := size_add (bitpos b) 1\<rparr>)) (storage (b\<lparr>bitpos := size_add (bitpos b) 1\<rparr>))
        = c # (cs @ rest)" using dr by simp
    have "7 < size_add (bitpos b) 1" using bp by (auto simp add: size_add_small)
    then have rb: "ReadBit b = Inr (x, b\<lparr>rpos := Suc (rpos b), curbitval := c, bitpos := 0\<rparr>)"
      using read_T_byte(1)[OF dr'] sz by (simp add: ReadBit_def Let_def w(2))
    have "bb_feeds rest ts (b\<lparr>rpos := Suc (rpos b), curbitval := c, bitpos := 0\<rparr>)"
      unfolding bb_feeds_def
      using read_T_byte(2,3)[OF dr sz] sz w(1) by (intro conjI exI[of _ "[x]"]) simp_all
    with rb show ?thesis by blast
  next
    case False
    then obtain c cs where w: "wire_from p (TBit x # ts) = c # cs" using wire_from_hd[OF p] by blast
    from d False have bp: "bitpos b = length p - 1" and c: "c = curbitval b"
      and dr: "drop (rpos b) (storage b) = cs @ rest"
      by (simp_all add: w del: wire_from.simps)
    have sa: "size_add (bitpos b) (Suc 0) = length p" using bp p False by (simp add: size_add_small)
    define b' where "b' = b\<lparr>bitpos := length p\<rparr>"
    have rb: "ReadBit b = Inr (bit c (7 - length p), b')"
      using p by (simp add: ReadBit_def Let_def sa c b'_def)
    show ?thesis
    proof (cases "length p = 7")
      case True
      then have eq: "c = byte_of (p @ [x])" "cs = wire_bytes ts" using w by simp_all
      have "bb_feeds rest ts b'" unfolding bb_feeds_def b'_def
        using sz dr eq(2) True by (intro conjI exI[of _ "[]"]) simp_all
      moreover have "bit c (7 - length p) = x" by (simp add: eq(1) bit_byte_of True nth_append)
      ultimately show ?thesis using rb by simp
    next
      case False
      then have w': "wire_from (p @ [x]) ts = c # cs" using w by simp
      have l: "length (p @ [x]) < 8" using False p by simp
      have "bit c (7 - length p) = x"
        using wire_from_hd[OF l, of ts] w' by (auto simp add: nth_append)
      moreover have "bb_feeds rest ts b'" unfolding bb_feeds_def b'_def
        using sz dr w' l c by (intro conjI exI[of _ "p @ [x]"]) simp_all
      ultimately show ?thesis using rb by simp
    qed
  qed
qed

lemma read_bytes_take:
  assumes "drop (rpos b) (storage b) = bs @ rest" "rpos b \<le> bb_size b" "bb_size b < 2 ^ 64"
  shows "read_bytes (length bs) b = Inr (bs, b\<lparr>bitpos := 8, rpos := rpos b + length bs\<rparr>)"
    and "drop (rpos b + length bs) (storage b) = rest" and "rpos b + length bs \<le> bb_size b"
proof -
  have "length (drop (rpos b) (storage b)) = length bs + length rest" using assms(1) by simp
  then have l: "rpos b + length bs \<le> bb_size b" using assms(2) by simp
  then have "size_add (rpos b) (length bs) = rpos b + length bs" using assms(3)
    by (simp add: size_add_small)
  then show "read_bytes (length bs) b = Inr (bs, b\<lparr>bitpos := 8, rpos := rpos b + length bs\<rparr>)"
    using l assms(1) by (simp add: read_bytes_def ResetBitReader_def Let_def)
  show "drop (rpos b + length bs) (storage b) = rest"
    using assms(1) by (metis add.commute append_eq_conv_conj drop_drop)
  show "rpos b + length bs \<le> bb_size b" by (rule l)
qed

lemma bb_feeds_read_bytes:
  assumes "bb_feeds rest (TBytes bs # ts) b" "bs \<noteq> []"
  shows "\<exists>b'. read_bytes (length bs) b = Inr (bs, b') \<and> bb_feeds rest ts b'"
proof -
  from assms(1) obtain p where sz: "rpos b \<le> bb_size b" "bb_size b < 2 ^ 64"
    and d: "if p = [] then (bitpos b = 7 \<or> bitpos b = 8) \<and>
                drop (rpos b) (storage b) = wire_bytes (TBytes bs # ts) @ rest
            else bitpos b = length p - 1 \<and>
                wire_from p (TBytes bs # ts) @ rest = curbitval b # drop (rpos b) (storage b)"
    unfolding bb_feeds_def by blast
  then have dr: "drop (rpos b) (storage b) = bs @ (wire_bytes ts @ rest)"
    by (cases "p = []") (simp_all add: pad_def)
  have "bb_feeds rest ts (b\<lparr>bitpos := 8, rpos := rpos b + length bs\<rparr>)"
    unfolding bb_feeds_def using read_bytes_take(2,3)[OF dr sz] sz
    by (intro conjI exI[of _ "[]"]) simp_all
  then show ?thesis using read_bytes_take(1)[OF dr sz] by blast
qed

lemma bb_written_less: "bb_written org k ts w \<Longrightarrow> j \<le> k \<Longrightarrow> bb_written org j ts w"
  by (auto simp add: bb_written_def)

lemma bb_flush_sent:
  "bb_written org (Suc k) ts w \<Longrightarrow> \<exists>w'. FlushBits w = Inr w' \<and> bb_sent org (wire_bytes ts) w'"
  using bb_written_FlushBits by blast

lemma bb_feeds_done: "bb_feeds rest [] b \<Longrightarrow> bb_rest b = rest"
  by (auto simp add: bb_feeds_def bb_rest_def pad_def split: if_splits)

interpretation bb: bit_wire WriteBit write_bytes FlushBits ReadBit read_bytes
  bb_written bb_sent bb_unread bb_rest bb_feeds
  by unfold_locales
    (fact bb_written_WriteBit bb_written_write_bytes bb_written_less bb_flush_sent
       bb_unread_feeds bb_feeds_ReadBit bb_feeds_read_bytes bb_feeds_done)+

section \<open>Typed values and multi-bit fields over the interface\<close>

lemma read_T_read_bytes:
  "(read_T b :: ('a::len word \<times> ByteBuffer) result) =
     bindR (read_bytes (sizeof TYPE('a)) b) (\<lambda>(bs, b). Inr (le_word bs, b))"
  by (simp add: read_T_def read_at_def read_bytes_def ResetBitReader_def Let_def)

lemma bb_written_append_T:
  fixes v :: "'a::len word"
  assumes "bb_written org (1 + sizeof TYPE('a) + k) ts b" "8 dvd LENGTH('a)"
  shows "\<exists>b'. append_T v b = Inr b' \<and> bb_written org k (ts @ [TBytes (le_bytes v)]) b'"
proof -
  show ?thesis using le_bytes_nonempty[OF assms(2), of v] bb.wbytes_written[of org "le_bytes v" k ts b] assms(1)
    by (simp add: append_T_write_bytes sizeof_def)
qed

lemma bb_feeds_read_T:
  fixes v :: "'a::len word"
  assumes "bb_feeds rest (TBytes (le_bytes v) # ts) b" "8 dvd LENGTH('a)"
  shows "\<exists>b'. read_T b = Inr (v, b') \<and> bb_feeds rest ts b'"
proof -
  show ?thesis using le_bytes_nonempty[OF assms(2), of v] bb.rbytes_feeds[OF assms(1)] assms(2)
    by (auto simp add: read_T_read_bytes sizeof_def le_word_le_bytes)
qed

definition bits_toks :: "'a::len word \<Rightarrow> nat \<Rightarrow> tok list" where
  "bits_toks v n = map (\<lambda>i. TBit (bit v i)) (rev [0..<n])"

lemma bits_toks_Suc [simp]:
  "bits_toks v 0 = []" "bits_toks v (Suc n) = TBit (bit v n) # bits_toks v n"
  by (simp_all add: bits_toks_def)

lemma bb_written_WriteBits:
  fixes v :: "'a::len word"
  assumes "bb_written org (n + k) ts b" "n \<le> 32"
  shows "\<exists>b'. WriteBits v n b = Inr b' \<and> bb_written org k (ts @ bits_toks v n) b'"
  using assms
proof (induction n arbitrary: ts b)
  case 0
  then show ?case by simp
next
  case (Suc n)
  from bb.wbit_written[of org "n + k" ts b "bit v n"] Suc.prems obtain b1 where
    b1: "WriteBit (bit v n) b = Inr b1" "bb_written org (n + k) (ts @ [TBit (bit v n)]) b1" by auto
  from Suc.IH[OF b1(2)] Suc.prems(2) show ?case by (auto simp add: b1(1))
qed

lemma bb_feeds_ReadBits_from:
  assumes "bb_feeds rest (bits_toks v n @ ts) b" "n \<le> 32"
  shows "\<exists>b'. ReadBits_from acc n b = Inr (acc OR take_bit n (v :: uint32), b') \<and> bb_feeds rest ts b'"
  using assms
proof (induction n arbitrary: acc b)
  case 0
  then show ?case by simp
next
  case (Suc n)
  from Suc.prems have "bb_feeds rest (TBit (bit v n) # bits_toks v n @ ts) b" by simp
  from bb.rbit_feeds[OF this] obtain b1 where
    b1: "ReadBit b = Inr (bit v n, b1)" "bb_feeds rest (bits_toks v n @ ts) b1" by blast
  let ?a = "if bit v n then acc OR push_bit n 1 else acc"
  have "?a OR take_bit n v = acc OR take_bit (Suc n) v"
    by (rule bit_word_eqI) (auto simp add: bit_simps less_Suc_eq)
  then show ?case using Suc.IH[OF b1(2), of ?a] Suc.prems(2) by (auto simp add: b1(1))
qed

lemma bb_feeds_ReadBits:
  assumes "bb_feeds rest (bits_toks v n @ ts) b" "n \<le> 32"
  shows "\<exists>b'. ReadBits n b = Inr (take_bit n (v :: uint32), b') \<and> bb_feeds rest ts b'"
  using bb_feeds_ReadBits_from[OF assms, of 0] by (simp add: ReadBits_def)

section \<open>Properties\<close>

text \<open>
  C7. Any interleaving of bit writes and byte writes is read back exactly: whatever sequence of
  \<open>WriteBit\<close> and byte-aligned appends is made on a flushed packet, after \<open>FlushBits\<close> the same
  sequence of \<open>ReadBit\<close> and byte reads returns the same values and stops at the end of the
  written bytes, whatever follows them. (\<open>10000000\<close> is the size the packet asserts on.)
\<close>

theorem packet_tokens_roundtrip:
  assumes "bb_sent org [] b" "list_all tok_ok us"
    "length org + sum_list (map tok_cost us) + 1 \<le> 10000000"
  shows "\<exists>b1 b2 bs. seq_toks WriteBit write_bytes us b = Inr b1 \<and> FlushBits b1 = Inr b2 \<and>
    bb_sent org bs b2 \<and>
    (\<forall>r rest. bb_unread (bs @ rest) r \<longrightarrow>
      (\<exists>r'. replay_toks ReadBit read_bytes us r = Inr (us, r') \<and> bb_rest r' = rest))"
proof -
  have "bb_written org (Suc (sum_list (map tok_cost us))) [] b"
    using assms(1,3) by (simp add: bb_written_def bb_sent_def wire_run_def)
  from bb.wire_roundtrip[OF this assms(2)] show ?thesis .
qed

lemma packet_tokens_roundtrip_witness:
  "\<exists>b1 b2 bs. seq_toks WriteBit write_bytes
      [TBit True, TBit False, TBytes [7, 8], TBit True, TBytes [255]] bb_new = Inr b1 \<and>
    FlushBits b1 = Inr b2 \<and> bb_sent [] bs b2 \<and>
    (\<forall>r rest. bb_unread (bs @ rest) r \<longrightarrow>
      (\<exists>r'. replay_toks ReadBit read_bytes
          [TBit True, TBit False, TBytes [7, 8], TBit True, TBytes [255]] r =
        Inr ([TBit True, TBit False, TBytes [7, 8], TBit True, TBytes [255]], r') \<and>
        bb_rest r' = rest))"
  by (rule packet_tokens_roundtrip) (simp_all add: bb_sent_def bb_new_def)

text \<open>
  A bit field of \<open>n \<le> 32\<close> bits keeps its value: \<open>WriteBits v n\<close> appended after any bits
  already pending, flushed, is read by \<open>ReadBits n\<close> (after the same bits) as the low \<open>n\<close> bits
  of \<open>v\<close>; higher bits of \<open>v\<close> are dropped without an error.
\<close>

theorem bit_field_roundtrip:
  fixes v :: uint32
  assumes "bb_sent org [] b" "n \<le> 32" "k \<le> 32" "length org + n + k + 1 \<le> 10000000"
  shows "\<exists>b1 b2 b3 bs. WriteBits u k b = Inr b1 \<and> WriteBits v n b1 = Inr b2 \<and>
    FlushBits b2 = Inr b3 \<and> bb_sent org bs b3 \<and>
    (\<forall>r rest. bb_unread (bs @ rest) r \<longrightarrow>
      (\<exists>r1 r2. ReadBits k r = Inr (take_bit k (u :: uint32), r1) \<and>
               ReadBits n r1 = Inr (take_bit n v, r2) \<and> bb_rest r2 = rest))"
proof -
  have "bb_written org (k + (n + 1)) [] b"
    using assms(1,4) by (simp add: bb_written_def bb_sent_def wire_run_def)
  from bb_written_WriteBits[OF this, of u] assms(3) obtain b1 where
    b1: "WriteBits u k b = Inr b1" "bb_written org (n + 1) (bits_toks u k) b1" by auto
  from bb_written_WriteBits[OF b1(2), of v] assms(2) obtain b2 where
    b2: "WriteBits v n b1 = Inr b2" "bb_written org 1 (bits_toks u k @ bits_toks v n) b2" by auto
  from bb.flush_sent[of org 0] b2(2) obtain b3 where
    b3: "FlushBits b2 = Inr b3" "bb_sent org (wire_bytes (bits_toks u k @ bits_toks v n)) b3" by auto
  have "\<exists>r1 r2. ReadBits k r = Inr (take_bit k u, r1) \<and> ReadBits n r1 = Inr (take_bit n v, r2) \<and>
      bb_rest r2 = rest"
    if "bb_unread (wire_bytes (bits_toks u k @ bits_toks v n) @ rest) r" for r rest
  proof -
    from bb_feeds_ReadBits[OF bb.unread_feeds[OF that] assms(3)] obtain r1 where
      r1: "ReadBits k r = Inr (take_bit k u, r1)" "bb_feeds rest (bits_toks v n) r1" by blast
    then have "bb_feeds rest (bits_toks v n @ []) r1" by simp
    from bb_feeds_ReadBits[OF this assms(2)] obtain r2 where
      "ReadBits n r1 = Inr (take_bit n v, r2)" "bb_feeds rest [] r2" by blast
    with r1 bb.feeds_done show ?thesis by blast
  qed
  with b1(1) b2(1) b3 show ?thesis by blast
qed

lemma bit_field_roundtrip_witness:
  "\<exists>b1 b2 b3 bs. WriteBits (5 :: uint32) 3 bb_new = Inr b1 \<and> WriteBits (0xABC :: uint32) 30 b1 = Inr b2 \<and>
    FlushBits b2 = Inr b3 \<and> bb_sent [] bs b3 \<and>
    (\<forall>r rest. bb_unread (bs @ rest) r \<longrightarrow>
      (\<exists>r1 r2. ReadBits 3 r = Inr (take_bit 3 (5 :: uint32), r1) \<and>
               ReadBits 30 r1 = Inr (take_bit 30 (0xABC :: uint32), r2) \<and> bb_rest r2 = rest))"
  by (rule bit_field_roundtrip) (simp_all add: bb_sent_def bb_new_def)

end
