(* ===== verification/ObjectGuid.thy ===== *)
theory ObjectGuid
  imports BitWire
begin

text \<open>
  Object identifiers: src/src/game/ObjectGuid.h and ObjectGuid.cpp, and the packed form of
  a guid in src/src/shared/ByteBuffer.h.  A guid is the raw 64-bit value \<open>m_guid\<close>; the
  byte view of the union is \<open>word_byte\<close> (\<open>operator[]\<close> hides the host's byte order).
  \<open>HighGuid\<close> values are cast from arbitrary bits of a guid, so the C++ enumeration is
  modelled by its underlying integer.
\<close>

section \<open>High parts\<close>

type_synonym HighGuid = uint32
type_synonym ObjectGuid = uint64

abbreviation (input) HIGHGUID_ITEM :: HighGuid where "HIGHGUID_ITEM \<equiv> 0x470"
abbreviation (input) HIGHGUID_CONTAINER :: HighGuid where "HIGHGUID_CONTAINER \<equiv> 0x470"
abbreviation (input) HIGHGUID_PLAYER :: HighGuid where "HIGHGUID_PLAYER \<equiv> 0x000"
abbreviation (input) HIGHGUID_GAMEOBJECT :: HighGuid where "HIGHGUID_GAMEOBJECT \<equiv> 0xF11"
abbreviation (input) HIGHGUID_TRANSPORT :: HighGuid where "HIGHGUID_TRANSPORT \<equiv> 0xF12"
abbreviation (input) HIGHGUID_UNIT :: HighGuid where "HIGHGUID_UNIT \<equiv> 0xF13"
abbreviation (input) HIGHGUID_PET :: HighGuid where "HIGHGUID_PET \<equiv> 0xF14"
abbreviation (input) HIGHGUID_VEHICLE :: HighGuid where "HIGHGUID_VEHICLE \<equiv> 0xF15"
abbreviation (input) HIGHGUID_DYNAMICOBJECT :: HighGuid where "HIGHGUID_DYNAMICOBJECT \<equiv> 0xF10"
abbreviation (input) HIGHGUID_CORPSE :: HighGuid where "HIGHGUID_CORPSE \<equiv> 0xF101"
abbreviation (input) HIGHGUID_BATTLEGROUND :: HighGuid where "HIGHGUID_BATTLEGROUND \<equiv> 0x1F1"
abbreviation (input) HIGHGUID_MO_TRANSPORT :: HighGuid where "HIGHGUID_MO_TRANSPORT \<equiv> 0x1FC"
abbreviation (input) HIGHGUID_INSTANCE :: HighGuid where "HIGHGUID_INSTANCE \<equiv> 0x1F4"
abbreviation (input) HIGHGUID_GROUP :: HighGuid where "HIGHGUID_GROUP \<equiv> 0x1F5"
abbreviation (input) HIGHGUID_GUILD :: HighGuid where "HIGHGUID_GUILD \<equiv> 0x1FF7"
abbreviation (input) HIGHGUID_EVENT :: HighGuid where "HIGHGUID_EVENT \<equiv> 0xA01"
abbreviation (input) HIGHGUID_OBJECTEVENT :: HighGuid where "HIGHGUID_OBJECTEVENT \<equiv> 0xA02"
abbreviation (input) HIGHGUID_MAPEVENT :: HighGuid where "HIGHGUID_MAPEVENT \<equiv> 0xA03"
abbreviation (input) HIGHGUID_CALENDAR_EVENT :: HighGuid where "HIGHGUID_CALENDAR_EVENT \<equiv> 0xA06"
abbreviation (input) HIGHGUID_INVITE :: HighGuid where "HIGHGUID_INVITE \<equiv> 0xA07"
abbreviation (input) HIGHGUID_AREATRIGGER :: HighGuid where "HIGHGUID_AREATRIGGER \<equiv> 0xA10"
abbreviation (input) HIGHGUID_WORLDLOCATION :: HighGuid where "HIGHGUID_WORLDLOCATION \<equiv> 0xA11"
abbreviation (input) HIGHGUID_WORLDSTATE :: HighGuid where "HIGHGUID_WORLDSTATE \<equiv> 0xA12"

definition all_high_guids :: "HighGuid list" where
  "all_high_guids =
    [HIGHGUID_ITEM, HIGHGUID_CONTAINER, HIGHGUID_PLAYER, HIGHGUID_GAMEOBJECT,
     HIGHGUID_TRANSPORT, HIGHGUID_UNIT, HIGHGUID_PET, HIGHGUID_VEHICLE,
     HIGHGUID_DYNAMICOBJECT, HIGHGUID_CORPSE, HIGHGUID_BATTLEGROUND, HIGHGUID_MO_TRANSPORT,
     HIGHGUID_INSTANCE, HIGHGUID_GROUP, HIGHGUID_GUILD, HIGHGUID_EVENT,
     HIGHGUID_OBJECTEVENT, HIGHGUID_MAPEVENT, HIGHGUID_CALENDAR_EVENT, HIGHGUID_INVITE,
     HIGHGUID_AREATRIGGER, HIGHGUID_WORLDLOCATION, HIGHGUID_WORLDSTATE]"

datatype TypeID =
    TYPEID_OBJECT | TYPEID_ITEM | TYPEID_CONTAINER | TYPEID_UNIT | TYPEID_PLAYER
  | TYPEID_GAMEOBJECT | TYPEID_DYNAMICOBJECT | TYPEID_CORPSE | TYPEID_AIGROUP
  | TYPEID_AREATRIGGER

definition IsLargeHigh :: "HighGuid \<Rightarrow> bool" where
  "IsLargeHigh high \<longleftrightarrow> high = HIGHGUID_GUILD \<or> high = HIGHGUID_CORPSE"

definition HasEntry_high :: "HighGuid \<Rightarrow> bool" where
  "HasEntry_high high \<longleftrightarrow>
     high \<notin> {HIGHGUID_ITEM, HIGHGUID_PLAYER, HIGHGUID_DYNAMICOBJECT, HIGHGUID_CORPSE,
              HIGHGUID_MO_TRANSPORT, HIGHGUID_INSTANCE, HIGHGUID_GROUP, HIGHGUID_GUILD,
              HIGHGUID_AREATRIGGER, HIGHGUID_WORLDLOCATION, HIGHGUID_CALENDAR_EVENT,
              HIGHGUID_INVITE}"

definition GetTypeId_high :: "HighGuid \<Rightarrow> TypeID" where
  "GetTypeId_high high =
     (if high = HIGHGUID_ITEM then TYPEID_ITEM
      else if high = HIGHGUID_UNIT then TYPEID_UNIT
      else if high = HIGHGUID_PET then TYPEID_UNIT
      else if high = HIGHGUID_PLAYER then TYPEID_PLAYER
      else if high = HIGHGUID_GAMEOBJECT then TYPEID_GAMEOBJECT
      else if high = HIGHGUID_DYNAMICOBJECT then TYPEID_DYNAMICOBJECT
      else if high = HIGHGUID_CORPSE then TYPEID_CORPSE
      else if high = HIGHGUID_MO_TRANSPORT then TYPEID_GAMEOBJECT
      else if high = HIGHGUID_VEHICLE then TYPEID_UNIT
      else if high = HIGHGUID_CALENDAR_EVENT \<or> high = HIGHGUID_INVITE \<or>
              high = HIGHGUID_EVENT \<or> high = HIGHGUID_OBJECTEVENT \<or>
              high = HIGHGUID_MAPEVENT then TYPEID_AIGROUP
      else if high = HIGHGUID_AREATRIGGER \<or> high = HIGHGUID_WORLDLOCATION
           then TYPEID_AREATRIGGER
      else TYPEID_OBJECT)"

section \<open>Construction and access\<close>

definition high_shift :: "HighGuid \<Rightarrow> nat" where
  "high_shift hi = (if IsLargeHigh hi then 48 else 52)"

definition ObjectGuid_entry :: "HighGuid \<Rightarrow> uint32 \<Rightarrow> uint32 \<Rightarrow> ObjectGuid" where
  "ObjectGuid_entry hi entry counter =
     (if counter \<noteq> 0
      then ucast counter OR push_bit 32 (ucast entry) OR push_bit (high_shift hi) (ucast hi)
      else 0)"

definition ObjectGuid_counter :: "HighGuid \<Rightarrow> uint32 \<Rightarrow> ObjectGuid" where
  "ObjectGuid_counter hi counter =
     (if counter \<noteq> 0 then ucast counter OR push_bit (high_shift hi) (ucast hi) else 0)"

definition GetHigh :: "ObjectGuid \<Rightarrow> HighGuid" where
  "GetHigh g =
     (let high = ucast (drop_bit 48 g AND 0xFFFF)
      in if IsLargeHigh high then high else ucast (drop_bit 52 g AND 0xFFF))"

definition HasEntry :: "ObjectGuid \<Rightarrow> bool" where
  "HasEntry g = HasEntry_high (GetHigh g)"

definition GetEntry :: "ObjectGuid \<Rightarrow> uint32" where
  "GetEntry g =
     (if \<not> HasEntry g then 0
      else ucast (drop_bit 32 g AND (if IsLargeHigh (GetHigh g) then 0xFFFF else 0xFFFFF)))"

definition GetCounter :: "ObjectGuid \<Rightarrow> uint32" where
  "GetCounter g =
     (if HasEntry g then ucast (g AND 0x00000000FFFFFFFF) else ucast (g AND 0x00000000FFFFFFFF))"

definition GetMaxCounter :: "HighGuid \<Rightarrow> uint32" where
  "GetMaxCounter high = (if HasEntry_high high then 0xFFFFFFFF else 0xFFFFFFFF)"

definition GetTypeId :: "ObjectGuid \<Rightarrow> TypeID" where
  "GetTypeId g = GetTypeId_high (GetHigh g)"

definition IsEmpty :: "ObjectGuid \<Rightarrow> bool" where "IsEmpty g \<longleftrightarrow> g = 0"
definition IsCreature :: "ObjectGuid \<Rightarrow> bool" where "IsCreature g \<longleftrightarrow> GetHigh g = HIGHGUID_UNIT"
definition IsPet :: "ObjectGuid \<Rightarrow> bool" where "IsPet g \<longleftrightarrow> GetHigh g = HIGHGUID_PET"
definition IsVehicle :: "ObjectGuid \<Rightarrow> bool" where "IsVehicle g \<longleftrightarrow> GetHigh g = HIGHGUID_VEHICLE"
definition IsAnyTypeCreature :: "ObjectGuid \<Rightarrow> bool" where
  "IsAnyTypeCreature g \<longleftrightarrow> IsCreature g \<or> IsPet g \<or> IsVehicle g"
definition IsPlayer :: "ObjectGuid \<Rightarrow> bool" where
  "IsPlayer g \<longleftrightarrow> \<not> IsEmpty g \<and> GetHigh g = HIGHGUID_PLAYER"
definition IsUnit :: "ObjectGuid \<Rightarrow> bool" where
  "IsUnit g \<longleftrightarrow> IsAnyTypeCreature g \<or> IsPlayer g"

section \<open>The parts of a constructed guid\<close>

lemma GetHigh_small:
  assumes g: "\<And>i. i < 12 \<Longrightarrow> bit g (52 + i) = bit hi i" and hi: "unat hi < 2 ^ 12" "hi \<noteq> 0x1FF"
    and c: "hi = 0xF10 \<Longrightarrow> \<not> bit g 48"
  shows "GetHigh g = hi"
proof -
  define h where "h = (ucast (drop_bit 48 g AND 0xFFFF) :: uint32)"
  have bh: "bit h i \<longleftrightarrow> i < 16 \<and> bit g (48 + i)" for i
    by (auto simp add: h_def and_mask_take_bit bit_simps dest: bit_imp_le_length)
  have nb: "bit hi i \<Longrightarrow> i < 12" for i using word_bit_bound[OF hi(1)] .
  have hb: "bit h (4 + i) = bit hi i" for i
    using g[of i] nb[of i] by (cases "i < 12") (auto simp add: bh add.commute)
  have d: "drop_bit 4 h = hi" by (rule bit_word_eqI) (simp add: bit_drop_bit_eq hb)
  have "h \<noteq> HIGHGUID_GUILD" using d hi(2) by auto
  moreover have "h \<noteq> HIGHGUID_CORPSE" using d c bh[of 0] by auto
  ultimately have "\<not> IsLargeHigh h" by (simp add: IsLargeHigh_def)
  moreover have "(ucast (drop_bit 52 g AND 0xFFF) :: uint32) = hi"
    by (rule bit_word_eqI) (use g in \<open>auto simp add: and_mask_take_bit bit_simps dest: nb\<close>)
  ultimately show ?thesis by (simp add: GetHigh_def Let_def h_def)
qed

lemma GetHigh_large:
  assumes "\<And>i. i < 16 \<Longrightarrow> bit g (48 + i) = bit hi i" "IsLargeHigh hi"
  shows "GetHigh g = hi"
proof -
  have "unat hi < 2 ^ 16" using assms(2) by (auto simp add: IsLargeHigh_def)
  then have nb: "bit hi i \<Longrightarrow> i < 16" for i using word_bit_bound by blast
  have "(ucast (drop_bit 48 g AND 0xFFFF) :: uint32) = hi"
    by (rule bit_word_eqI) (use assms(1) in \<open>auto simp add: and_mask_take_bit bit_simps dest: nb\<close>)
  then show ?thesis using assms(2) by (simp add: GetHigh_def)
qed

lemma all_high_guids_cases:
  assumes "hi \<in> set all_high_guids"
  shows "IsLargeHigh hi \<and> \<not> HasEntry_high hi \<or>
    \<not> IsLargeHigh hi \<and> unat hi < 2 ^ 12 \<and> hi \<noteq> 0x1FF \<and> (HasEntry_high hi \<longrightarrow> hi \<noteq> 0xF10)"
  using assms by (auto simp add: all_high_guids_def IsLargeHigh_def HasEntry_high_def)

lemma bit_guid_entry:
  assumes "counter \<noteq> 0"
  shows "bit (ObjectGuid_entry hi entry counter) i \<longleftrightarrow> i < 64 \<and>
    (i < 32 \<and> bit counter i \<or> 32 \<le> i \<and> bit entry (i - 32) \<or>
     high_shift hi \<le> i \<and> bit hi (i - high_shift hi))"
  using assms by (auto simp add: ObjectGuid_entry_def bit_simps dest: bit_imp_le_length)

lemma GetCounter_low: "bit (GetCounter g) i \<longleftrightarrow> i < 32 \<and> bit g i"
  by (auto simp add: GetCounter_def and_mask_take_bit bit_simps)

lemma guid_counter_entry: "ObjectGuid_counter hi counter = ObjectGuid_entry hi 0 counter"
  by (simp add: ObjectGuid_counter_def ObjectGuid_entry_def)

lemma GetHigh_guid_entry:
  assumes hi: "hi \<in> set all_high_guids" and "counter \<noteq> 0" and e: "unat entry < 2 ^ 20"
    and "HasEntry_high hi \<or> entry = 0"
  shows "GetHigh (ObjectGuid_entry hi entry counter) = hi"
proof -
  have ne: "bit entry i \<Longrightarrow> i < 20" for i using word_bit_bound[OF e] .
  from all_high_guids_cases[OF hi] show ?thesis
  proof (elim disjE conjE)
    assume l: "IsLargeHigh hi" "\<not> HasEntry_high hi"
    then have "entry = 0" using assms(4) by simp
    then show ?thesis using l assms(2)
      by (intro GetHigh_large) (auto simp add: bit_guid_entry high_shift_def)
  next
    assume s: "\<not> IsLargeHigh hi" "unat hi < 2 ^ 12" "hi \<noteq> 0x1FF"
      "HasEntry_high hi \<longrightarrow> hi \<noteq> 0xF10"
    show ?thesis
    proof (rule GetHigh_small)
      show "bit (ObjectGuid_entry hi entry counter) (52 + i) = bit hi i" if "i < 12" for i
        using s(1) that assms(2)
        by (auto simp add: bit_guid_entry high_shift_def dest: ne)
      show "\<not> bit (ObjectGuid_entry hi entry counter) 48" if "hi = 0xF10"
        using s that assms by (auto simp add: bit_guid_entry high_shift_def)
    qed (use s in auto)
  qed
qed

lemma GetCounter_guid_entry:
  assumes "counter \<noteq> 0"
  shows "GetCounter (ObjectGuid_entry hi entry counter) = counter"
  by (rule bit_word_eqI)
    (use assms in \<open>auto simp add: GetCounter_low bit_guid_entry high_shift_def\<close>)

lemma GetEntry_guid_entry:
  assumes "hi \<in> set all_high_guids" "HasEntry_high hi" "counter \<noteq> 0" "unat entry < 2 ^ 20"
  shows "GetEntry (ObjectGuid_entry hi entry counter) = entry"
proof -
  have h: "GetHigh (ObjectGuid_entry hi entry counter) = hi"
    using assms by (intro GetHigh_guid_entry) auto
  have s: "\<not> IsLargeHigh hi" "unat hi < 2 ^ 12" using all_high_guids_cases[OF assms(1)] assms(2) by auto
  have ne: "bit entry i \<Longrightarrow> i < 20" for i using word_bit_bound[OF assms(4)] .
  have "(ucast (drop_bit 32 (ObjectGuid_entry hi entry counter) AND 0xFFFFF) :: uint32) = entry"
    by (rule bit_word_eqI)
      (use s assms(3) in \<open>auto simp add: and_mask_take_bit bit_simps bit_guid_entry high_shift_def
        dest: ne word_bit_bound\<close>)
  then show ?thesis using s h assms(2) by (simp add: GetEntry_def HasEntry_def)
qed

section \<open>Properties\<close>

text \<open>
  The parts of a guid come back: for every kind of object, a non-zero counter and an entry
  of at most 20 bits (zero for the kinds without an entry), \<open>GetHigh\<close>, \<open>GetCounter\<close> and
  \<open>GetEntry\<close> return what the constructor packed into the 64 bits.
\<close>

theorem guid_parts:
  assumes "hi \<in> set all_high_guids" "counter \<noteq> 0" "unat entry < 2 ^ 20"
    "HasEntry_high hi \<or> entry = 0"
  shows "GetHigh (ObjectGuid_entry hi entry counter) = hi \<and>
    GetCounter (ObjectGuid_entry hi entry counter) = counter \<and>
    GetEntry (ObjectGuid_entry hi entry counter) = entry"
proof -
  have h: "GetHigh (ObjectGuid_entry hi entry counter) = hi" by (rule GetHigh_guid_entry[OF assms])
  have "GetEntry (ObjectGuid_entry hi entry counter) = entry"
  proof (cases "HasEntry_high hi")
    case True
    then show ?thesis using GetEntry_guid_entry assms by blast
  next
    case False
    then show ?thesis using assms(4) h by (simp add: GetEntry_def HasEntry_def)
  qed
  then show ?thesis using h GetCounter_guid_entry[OF assms(2)] by simp
qed

lemma guid_parts_witness:
  "GetHigh (ObjectGuid_entry HIGHGUID_UNIT 12345 77) = HIGHGUID_UNIT \<and>
    GetCounter (ObjectGuid_entry HIGHGUID_UNIT 12345 77) = 77 \<and>
    GetEntry (ObjectGuid_entry HIGHGUID_UNIT 12345 77) = 12345"
  by (rule guid_parts) (simp_all add: all_high_guids_def HasEntry_high_def)

text \<open>
  Equal guids come from equal parts: two constructor calls with legal arguments give the
  same 64 bits only if kind, entry and counter agree, so a guid identifies its object.
\<close>

theorem guid_injective:
  assumes "hi \<in> set all_high_guids" "counter \<noteq> 0" "unat entry < 2 ^ 20" "HasEntry_high hi \<or> entry = 0"
    "hi' \<in> set all_high_guids" "counter' \<noteq> 0" "unat entry' < 2 ^ 20" "HasEntry_high hi' \<or> entry' = 0"
    "ObjectGuid_entry hi entry counter = ObjectGuid_entry hi' entry' counter'"
  shows "hi = hi' \<and> entry = entry' \<and> counter = counter'"
proof -
  have h: "hi = hi'"
    using GetHigh_guid_entry[OF assms(1-4)] GetHigh_guid_entry[OF assms(5-8)] assms(9) by simp
  have "counter = counter'"
    using GetCounter_guid_entry[OF assms(2)] GetCounter_guid_entry[OF assms(6)] assms(9) by metis
  moreover have "entry = entry'"
    using GetEntry_guid_entry[OF assms(1) _ assms(2,3)] GetEntry_guid_entry[OF assms(5) _ assms(6,7)]
      assms(4,8,9) h by metis
  ultimately show ?thesis using h by simp
qed

lemma guid_injective_witness:
  "HIGHGUID_UNIT = (0xF13 :: HighGuid) \<and> (12 :: uint32) = 0xC \<and> (77 :: uint32) = 0x4D"
  by (rule guid_injective) (simp_all add: all_high_guids_def HasEntry_high_def)

end
