(* ===== verification/WireCodecs.thy ===== *)
theory WireCodecs
  imports BitWire
begin

text \<open>
  The byte-oriented operators of src/src/shared/ByteBuffer.h: strings, counted strings,
  containers, packed guids and packed times.  What they share is an interface, the
  locale \<open>byte_codec\<close>: an encoder that appends the representation of a value to a buffer
  with no started bit group, and a decoder that consumes that representation.  Sequences
  of codecs and the container operators are proved once over the interface; the typed
  operators, strings and packed guids are its interpretations.

  \<open>std::string\<close> is the list of its bytes.
\<close>

section \<open>The codec interface\<close>

definition appendable :: "nat \<Rightarrow> ByteBuffer \<Rightarrow> bool" where
  "appendable n b \<longleftrightarrow> wpos b = bb_size b \<and> bitpos b = 8 \<and> bb_size b + n \<le> 10000000"

definition appended :: "uint8 list \<Rightarrow> ByteBuffer \<Rightarrow> ByteBuffer" where
  "appended bs b = b\<lparr>storage := storage b @ bs, wpos := bb_size b + length bs\<rparr>"

lemma appendable_appended [simp]:
  "appendable n (appended bs b) \<longleftrightarrow>
     bitpos b = 8 \<and> bb_size b + length bs + n \<le> 10000000"
  by (simp add: appendable_def appended_def)

lemma appended_appended [simp]: "appended cs (appended bs b) = appended (bs @ cs) b"
  by (simp add: appended_def)

lemma append_bytes_appended:
  assumes "appendable (length bs) b" "bs \<noteq> []"
  shows "append_bytes bs b = Inr (appended bs b)"
proof -
  have "0 < length bs" using assms(2) by simp
  then have "bb_size b < 10000000" using assms(1) unfolding appendable_def by linarith
  then show ?thesis using assms(1) by (simp add: append_bytes_end appendable_def appended_def)
qed

lemma append_T_appended:
  fixes v :: "'a::len word"
  assumes "appendable (length (le_bytes v)) b" "8 dvd LENGTH('a)"
  shows "append_T v b = Inr (appended (le_bytes v) b)"
  using assms append_bytes_appended[OF assms(1) le_bytes_nonempty[OF assms(2)]]
  by (simp add: append_T_def FlushBits_def appendable_def)

lemma read_T_unread:
  fixes v :: "'a::len word"
  assumes "bb_unread (le_bytes v @ rest) b" "8 dvd LENGTH('a)"
  shows "\<exists>b'. read_T b = Inr (v, b') \<and> bb_unread rest b'"
proof -
  from assms(1) have d: "drop (rpos b) (storage b) = le_bytes v @ rest"
    and s: "rpos b \<le> bb_size b" "bb_size b < 2 ^ 64" by (simp_all add: bb_unread_def)
  note t = read_bytes_take[OF d s]
  show ?thesis using t s assms(2)
    by (simp add: read_T_read_bytes sizeof_def bb_unread_def le_word_le_bytes)
qed

locale byte_codec =
  fixes enc :: "'a \<Rightarrow> ByteBuffer \<Rightarrow> ByteBuffer result"
    and dec :: "ByteBuffer \<Rightarrow> ('a \<times> ByteBuffer) result"
    and repr :: "'a \<Rightarrow> uint8 list"
    and valid :: "'a \<Rightarrow> bool"
  assumes enc_law: "valid x \<Longrightarrow> appendable (length (repr x)) b \<Longrightarrow> enc x b = Inr (appended (repr x) b)"
    and dec_law: "valid x \<Longrightarrow> bb_unread (repr x @ rest) b \<Longrightarrow> \<exists>b'. dec b = Inr (x, b') \<and> bb_unread rest b'"

interpretation u8: byte_codec "append_T :: uint8 \<Rightarrow> _" read_T le_bytes "\<lambda>_. True"
  by unfold_locales (simp_all add: append_T_appended read_T_unread)

interpretation u16: byte_codec "append_T :: uint16 \<Rightarrow> _" read_T le_bytes "\<lambda>_. True"
  by unfold_locales (simp_all add: append_T_appended read_T_unread)

interpretation u32: byte_codec "append_T :: uint32 \<Rightarrow> _" read_T le_bytes "\<lambda>_. True"
  by unfold_locales (simp_all add: append_T_appended read_T_unread)

interpretation u64: byte_codec "append_T :: uint64 \<Rightarrow> _" read_T le_bytes "\<lambda>_. True"
  by unfold_locales (simp_all add: append_T_appended read_T_unread)

section \<open>Strings\<close>

definition write_string :: "cstring \<Rightarrow> ByteBuffer \<Rightarrow> ByteBuffer result" where
  "write_string s b = bindR (append_bytes s b) (append_T (0 :: uint8))"

lemma read_T_uint8_steps:
  assumes "read_T b = Inr (c :: uint8, b')"
  shows "rpos b' = Suc (rpos b) \<and> storage b' = storage b"
  using assms by (auto simp add: read_T_def ResetBitReader_def Let_def sizeof_def)

function read_string_loop :: "cstring \<Rightarrow> ByteBuffer \<Rightarrow> (cstring \<times> ByteBuffer) result" where
  "read_string_loop acc b =
     (if rpos b < bb_size b
      then bindR (read_T b)
             (\<lambda>p. if fst p = 0 then Inr (acc, snd p)
                  else read_string_loop (acc @ [fst p]) (snd p))
      else Inr (acc, b))"
  by pat_completeness auto
termination
proof (relation "measure (\<lambda>(acc, b). bb_size b - rpos b)", goal_cases)
  case (2 acc b p)
  then show ?case using read_T_uint8_steps[of b "fst p" "snd p"] by (simp add: diff_less_mono2)
qed simp

declare read_string_loop.simps [simp del]

definition read_string :: "ByteBuffer \<Rightarrow> (cstring \<times> ByteBuffer) result" where
  "read_string b = read_string_loop [] b"

text \<open>
  \<open>ReadString(count)\<close> computes its end position in 32-bit arithmetic.
\<close>

function read_count_loop ::
  "nat \<Rightarrow> cstring \<Rightarrow> ByteBuffer \<Rightarrow> (cstring \<times> ByteBuffer) result" where
  "read_count_loop lim out b =
     (if rpos b < bb_size b \<and> rpos b < lim
      then bindR (read_T b) (\<lambda>p. read_count_loop lim (out @ [fst p]) (snd p))
      else Inr (out, b))"
  by pat_completeness auto
termination
proof (relation "measure (\<lambda>(lim, out, b). bb_size b - rpos b)", goal_cases)
  case (2 lim out b p)
  then show ?case using read_T_uint8_steps[of b "fst p" "snd p"] by (simp add: diff_less_mono2)
qed simp

declare read_count_loop.simps [simp del]

definition ReadString :: "uint32 \<Rightarrow> ByteBuffer \<Rightarrow> (cstring \<times> ByteBuffer) result" where
  "ReadString count b =
     (let start = of_nat (rpos b) :: uint32 in read_count_loop (unat (start + count)) [] b)"

definition WriteStringData :: "cstring \<Rightarrow> ByteBuffer \<Rightarrow> ByteBuffer result" where
  "WriteStringData s b = bindR (FlushBits b) (append_bytes s)"

definition WriteString :: "cstring \<Rightarrow> ByteBuffer \<Rightarrow> ByteBuffer result" where
  "WriteString s b = append_bytes s b"

lemma read_string_loop_unread:
  assumes "bb_unread (s @ 0 # rest) b" "0 \<notin> set s"
  shows "\<exists>b'. read_string_loop acc b = Inr (acc @ s, b') \<and> bb_unread rest b'"
  using assms
proof (induction s arbitrary: acc b)
  case Nil
  then have d: "drop (rpos b) (storage b) = 0 # rest" and s: "rpos b \<le> bb_size b" "bb_size b < 2 ^ 64"
    by (simp_all add: bb_unread_def)
  show ?case using read_T_byte[OF d s] s
    by (simp add: read_string_loop.simps[of acc b] bb_unread_def)
next
  case (Cons c cs)
  then have d: "drop (rpos b) (storage b) = c # (cs @ 0 # rest)"
    and s: "rpos b \<le> bb_size b" "bb_size b < 2 ^ 64"
    by (simp_all add: bb_unread_def)
  define b1 where "b1 = b\<lparr>bitpos := 8, rpos := Suc (rpos b)\<rparr>"
  have "bb_unread (cs @ 0 # rest) b1" using read_T_byte(2,3)[OF d s] s
    by (simp add: bb_unread_def b1_def)
  from Cons.IH[OF this, of "acc @ [c]"] Cons.prems(2) show ?case
    using read_T_byte[OF d s] by (simp add: read_string_loop.simps[of acc b] b1_def[symmetric])
qed

text \<open>Without a terminator the loop stops at the end of the packet: it never throws.\<close>

lemma read_string_loop_total:
  assumes "bb_size b < 2 ^ 64"
  shows "\<exists>b'. read_string_loop acc b =
      Inr (acc @ takeWhile (\<lambda>c. c \<noteq> 0) (drop (rpos b) (storage b)), b') \<and>
    storage b' = storage b"
  using assms
proof (induction acc b rule: read_string_loop.induct)
  case (1 acc b)
  show ?case
  proof (cases "rpos b < bb_size b")
    case False
    then show ?thesis by (simp add: read_string_loop.simps[of acc b])
  next
    case True
    then obtain c cs where d: "drop (rpos b) (storage b) = c # cs"
      by (metis Cons_nth_drop_Suc)
    note t = read_T_byte[OF d less_imp_le[OF True] "1.prems"]
    show ?thesis
    proof (cases "c = 0")
      case True
      then show ?thesis using t d \<open>rpos b < bb_size b\<close>
        by (simp add: read_string_loop.simps[of acc b])
    next
      case False
      have "\<exists>b'. read_string_loop (acc @ [c]) (b\<lparr>bitpos := 8, rpos := Suc (rpos b)\<rparr>) =
          Inr ((acc @ [c]) @ takeWhile (\<lambda>c. c \<noteq> 0) cs, b') \<and> storage b' = storage b"
        using "1.IH"[OF True t(1)] False "1.prems" t(2) by simp
      then show ?thesis using t(1) d True False
        by (auto simp add: read_string_loop.simps[of acc b])
    qed
  qed
qed

interpretation str: byte_codec write_string read_string "\<lambda>s. s @ [0]" "\<lambda>s. 0 \<notin> set s"
proof unfold_locales
  fix s :: cstring and b assume a: "0 \<notin> set s" "appendable (length (s @ [0])) b"
  have z: "le_bytes (0 :: uint8) = [0]" by (simp add: le_bytes_def word_byte_def)
  have "append_bytes s b = Inr (appended s b)"
  proof (cases "s = []")
    case True
    then show ?thesis using a(2) by (simp add: append_bytes_def appended_def appendable_def)
  next
    case False
    then show ?thesis using a(2) by (intro append_bytes_appended) (simp_all add: appendable_def)
  qed
  moreover have "appendable (length (le_bytes (0 :: uint8))) (appended s b)"
    using a(2) by (simp add: appendable_def[of _ b])
  ultimately show "write_string s b = Inr (appended (s @ [0]) b)"
    by (simp add: write_string_def append_T_appended z)
next
  fix s :: cstring and rest b assume "0 \<notin> set s" "bb_unread ((s @ [0]) @ rest) b"
  then show "\<exists>b'. read_string b = Inr (s, b') \<and> bb_unread rest b'"
    using read_string_loop_unread[of s rest b "[]"] by (simp add: read_string_def)
qed

section \<open>Containers\<close>

text \<open>
  The template operators for \<open>std::vector\<close> and \<open>std::list\<close>: a 32-bit count and the
  elements, written and read with the operators of the element type.
\<close>

fun write_items :: "('a \<Rightarrow> ByteBuffer \<Rightarrow> ByteBuffer result) \<Rightarrow> 'a list \<Rightarrow> ByteBuffer \<Rightarrow> ByteBuffer result" where
  "write_items enc [] b = Inr b"
| "write_items enc (x # xs) b = bindR (enc x b) (write_items enc xs)"

definition write_vector :: "('a \<Rightarrow> ByteBuffer \<Rightarrow> ByteBuffer result) \<Rightarrow> 'a list \<Rightarrow> ByteBuffer \<Rightarrow> ByteBuffer result" where
  "write_vector enc v b = bindR (append_T (of_nat (length v) :: uint32) b) (write_items enc v)"

fun read_items :: "(ByteBuffer \<Rightarrow> ('a \<times> ByteBuffer) result) \<Rightarrow> nat \<Rightarrow> 'a list \<Rightarrow> ByteBuffer \<Rightarrow> ('a list \<times> ByteBuffer) result" where
  "read_items dec 0 v b = Inr (v, b)"
| "read_items dec (Suc vsize) v b =
     bindR (dec b) (\<lambda>(t, b). read_items dec vsize (v @ [t]) b)"

definition read_vector :: "(ByteBuffer \<Rightarrow> ('a \<times> ByteBuffer) result) \<Rightarrow> ByteBuffer \<Rightarrow> ('a list \<times> ByteBuffer) result" where
  "read_vector dec b = bindR (read_T b) (\<lambda>(vsize :: uint32, b). read_items dec (unat vsize) [] b)"

definition vector_repr :: "('a \<Rightarrow> uint8 list) \<Rightarrow> 'a list \<Rightarrow> uint8 list" where
  "vector_repr repr v = le_bytes (of_nat (length v) :: uint32) @ concat (map repr v)"

definition vector_valid :: "('a \<Rightarrow> bool) \<Rightarrow> 'a list \<Rightarrow> bool" where
  "vector_valid valid v \<longleftrightarrow> list_all valid v \<and> length v < 2 ^ 32"

context byte_codec
begin

lemma roundtrip:
  assumes "valid x" "appendable (length (repr x)) b"
  shows "\<exists>b'. enc x b = Inr b' \<and> storage b' = storage b @ repr x \<and>
    (\<forall>r rest. bb_unread (repr x @ rest) r \<longrightarrow> (\<exists>r'. dec r = Inr (x, r') \<and> bb_unread rest r'))"
  using enc_law[OF assms] dec_law[OF assms(1)] by (auto simp add: appended_def)

lemma write_items_appended:
  assumes "list_all valid v" "appendable (length (concat (map repr v))) b"
  shows "write_items enc v b = Inr (appended (concat (map repr v)) b)"
  using assms
proof (induction v arbitrary: b)
  case Nil
  then show ?case by (simp add: appended_def appendable_def)
next
  case (Cons x v)
  then have "appendable (length (repr x)) b" by (simp add: appendable_def)
  then have "enc x b = Inr (appended (repr x) b)" using Cons.prems(1) by (intro enc_law) simp_all
  moreover have "appendable (length (concat (map repr v))) (appended (repr x) b)"
    using Cons.prems(2) by (simp add: appendable_def[of _ b] add.assoc)
  ultimately show ?case using Cons.IH[of "appended (repr x) b"] Cons.prems(1) by simp
qed

lemma read_items_unread:
  assumes "list_all valid v" "bb_unread (concat (map repr v) @ rest) b"
  shows "\<exists>b'. read_items dec (length v) acc b = Inr (acc @ v, b') \<and> bb_unread rest b'"
  using assms
proof (induction v arbitrary: acc b)
  case Nil
  then show ?case by simp
next
  case (Cons x v)
  then have "bb_unread (repr x @ (concat (map repr v) @ rest)) b" "valid x" by simp_all
  from dec_law[OF this(2,1)] obtain b1 where
    b1: "dec b = Inr (x, b1)" "bb_unread (concat (map repr v) @ rest) b1" by blast
  from Cons.IH[OF _ b1(2), of "acc @ [x]"] Cons.prems(1) show ?case by (simp add: b1(1))
qed

text \<open>The container operators form a codec whenever those of the element type do.\<close>

lemma vector_codec:
  "byte_codec (write_vector enc) (read_vector dec) (vector_repr repr) (vector_valid valid)"
proof unfold_locales
  fix v b assume a: "vector_valid valid v" "appendable (length (vector_repr repr v)) b"
  let ?n = "of_nat (length v) :: uint32"
  have "append_T ?n b = Inr (appended (le_bytes ?n) b)"
    using a(2) by (intro append_T_appended) (simp_all add: vector_repr_def appendable_def)
  moreover have "appendable (length (concat (map repr v))) (appended (le_bytes ?n) b)"
    using a(2) by (simp add: appendable_def[of _ b] vector_repr_def add.assoc)
  ultimately show "write_vector enc v b = Inr (appended (vector_repr repr v) b)"
    using a(1) write_items_appended by (simp add: write_vector_def vector_repr_def vector_valid_def)
next
  fix v rest b assume a: "vector_valid valid v" "bb_unread (vector_repr repr v @ rest) b"
  let ?n = "of_nat (length v) :: uint32"
  from a(2) have "bb_unread (le_bytes ?n @ (concat (map repr v) @ rest)) b"
    by (simp add: vector_repr_def)
  from read_T_unread[OF this] obtain b1 where
    b1: "read_T b = Inr (?n, b1)" "bb_unread (concat (map repr v) @ rest) b1" by auto
  have "unat ?n = length v" using a(1) by (simp add: vector_valid_def unat_of_nat)
  then show "\<exists>b'. read_vector dec b = Inr (v, b') \<and> bb_unread rest b'"
    using read_items_unread[OF _ b1(2), of "[]"] a(1) b1(1)
    by (simp add: read_vector_def vector_valid_def)
qed

end

interpretation u32_vector: byte_codec "write_vector (append_T :: uint32 \<Rightarrow> _)" "read_vector read_T"
  "vector_repr le_bytes" "vector_valid (\<lambda>_. True)"
  by (rule u32.vector_codec)

interpretation str_vector: byte_codec "write_vector write_string" "read_vector read_string"
  "vector_repr (\<lambda>s. s @ [0])" "vector_valid (\<lambda>s. 0 \<notin> set s)"
  by (rule str.vector_codec)

section \<open>Properties\<close>

text \<open>
  Strings of a packet: \<open>operator<<\<close> followed by \<open>operator>>\<close> gives back every string without
  a zero byte and leaves the reader behind its terminator.
\<close>

theorem string_roundtrip:
  assumes "0 \<notin> set s" "appendable (length s + 1) b"
  shows "\<exists>b'. write_string s b = Inr b' \<and> storage b' = storage b @ s @ [0] \<and>
    (\<forall>r rest. bb_unread (s @ 0 # rest) r \<longrightarrow> (\<exists>r'. read_string r = Inr (s, r') \<and> bb_unread rest r'))"
  using str.roundtrip[of s b] assms by simp

lemma string_roundtrip_witness:
  "\<exists>b'. write_string [72, 105] bb_new = Inr b' \<and> storage b' = storage bb_new @ [72, 105] @ [0] \<and>
    (\<forall>r rest. bb_unread ([72, 105] @ 0 # rest) r \<longrightarrow>
      (\<exists>r'. read_string r = Inr ([72, 105], r') \<and> bb_unread rest r'))"
  by (rule string_roundtrip) (simp_all add: appendable_def bb_new_def)

text \<open>
  Reading a string never fails and always ends: on any packet and from any position it
  returns the bytes up to the first zero or the end of the packet, without touching the packet.
\<close>

theorem read_string_total:
  assumes "bb_size b < 2 ^ 64"
  shows "\<exists>b'. read_string b = Inr (takeWhile (\<lambda>c. c \<noteq> 0) (drop (rpos b) (storage b)), b') \<and>
    storage b' = storage b"
  using read_string_loop_total[OF assms, of "[]"] by (simp add: read_string_def)

lemma read_string_total_witness:
  "\<exists>b'. read_string (bb_new\<lparr>storage := [65, 66]\<rparr>) = Inr (takeWhile (\<lambda>c. c \<noteq> 0)
      (drop (rpos (bb_new\<lparr>storage := [65, 66]\<rparr>)) (storage (bb_new\<lparr>storage := [65, 66]\<rparr>))), b') \<and>
    storage b' = storage (bb_new\<lparr>storage := [65, 66]\<rparr>)"
  by (rule read_string_total) (simp add: bb_new_def)

text \<open>
  A vector of strings keeps its length and its elements in order, through the 32-bit length
  prefix and the element codec.
\<close>

theorem string_vector_roundtrip:
  assumes "list_all (\<lambda>s. 0 \<notin> set s) v" "length v < 2 ^ 32"
    "appendable (4 + length (concat (map (\<lambda>s. s @ [0]) v))) b"
  shows "\<exists>b' bs. write_vector write_string v b = Inr b' \<and> storage b' = storage b @ bs \<and>
    (\<forall>r rest. bb_unread (bs @ rest) r \<longrightarrow>
      (\<exists>r'. read_vector read_string r = Inr (v, r') \<and> bb_unread rest r'))"
  using str_vector.roundtrip[of v b] assms by (auto simp add: vector_valid_def vector_repr_def)

lemma string_vector_roundtrip_witness:
  "\<exists>b' bs. write_vector write_string [[72], [], [105, 33]] bb_new = Inr b' \<and>
    storage b' = storage bb_new @ bs \<and>
    (\<forall>r rest. bb_unread (bs @ rest) r \<longrightarrow>
      (\<exists>r'. read_vector read_string r = Inr ([[72], [], [105, 33]], r') \<and> bb_unread rest r'))"
  by (rule string_vector_roundtrip) (simp_all add: appendable_def bb_new_def)

end
