(* ===== verification/GuidWire.thy ===== *)
theory GuidWire
  imports ObjectGuid WireCodecs
begin

text \<open>
  Guids on the wire: the packed form (\<open>appendPackGUID\<close>, \<open>readPackGUID\<close>), the bit mask and
  byte form (\<open>WriteGuidMask\<close>, \<open>WriteGuidBytes\<close> and their readers) and the guid generator.
\<close>

section \<open>Packed guids\<close>

lemma unat_drop_bit_8: "unat (drop_bit 8 (g :: uint64)) = unat g div 256"
  by (subst unat_drop_bit_eq) (simp add: drop_bit_eq_div)

function pack_loop :: "nat \<Rightarrow> uint64 \<Rightarrow> uint8 \<Rightarrow> uint8 list \<Rightarrow> uint8 \<times> uint8 list" where
  "pack_loop i guid mark out =
     (if guid \<noteq> 0
      then let low = ucast (guid AND 0xFF)
           in if low \<noteq> 0 then pack_loop (Suc i) (drop_bit 8 guid) (mark OR push_bit i 1) (out @ [low])
              else pack_loop (Suc i) (drop_bit 8 guid) mark out
      else (mark, out))"
  by pat_completeness auto
termination
  by (relation "measure (\<lambda>(i, guid, mark, out). unat guid)")
    (auto simp add: unat_drop_bit_8 unat_gt_0 simp del: drop_bit_of_nat)

declare pack_loop.simps [simp del]

definition appendPackGUID :: "uint64 \<Rightarrow> ByteBuffer \<Rightarrow> ByteBuffer result" where
  "appendPackGUID guid b = (let (mark, out) = pack_loop 0 guid 0 [] in append_bytes (mark # out) b)"

fun unpack_loop :: "nat list \<Rightarrow> uint8 \<Rightarrow> uint64 \<Rightarrow> ByteBuffer \<Rightarrow> (uint64 \<times> ByteBuffer) result" where
  "unpack_loop [] mark guid b = Inr (guid, b)"
| "unpack_loop (i # is) mark guid b =
     (if mark AND push_bit i 1 \<noteq> 0
      then bindR (read_T b)
             (\<lambda>(c :: uint8, b). unpack_loop is mark (guid OR push_bit (i * 8) (ucast c)) b)
      else unpack_loop is mark guid b)"

definition readPackGUID :: "ByteBuffer \<Rightarrow> (uint64 \<times> ByteBuffer) result" where
  "readPackGUID b = bindR (read_T b) (\<lambda>(mark, b). unpack_loop [0..<8] mark 0 b)"

text \<open>What the packed form is: a mask of the non-zero bytes, then those bytes.\<close>

definition pack_mask :: "uint64 \<Rightarrow> uint8" where
  "pack_mask g = horner_sum of_bool 2 (map (\<lambda>k. word_byte g k \<noteq> 0) [0..<8])"

definition pack_repr :: "uint64 \<Rightarrow> uint8 list" where
  "pack_repr g = pack_mask g # filter (\<lambda>c. c \<noteq> 0) (le_bytes g)"

lemma bit_pack_mask: "bit (pack_mask g) k \<longleftrightarrow> k < 8 \<and> word_byte g k \<noteq> 0"
  by (auto simp add: pack_mask_def bit_horner_sum_bit_iff)

lemma word_byte_drop: "word_byte (drop_bit (8 * i) g) k = word_byte g (i + k)"
  by (simp add: word_byte_def algebra_simps)

lemma word_byte_high: "8 * k \<ge> LENGTH('a) \<Longrightarrow> word_byte (w :: 'a::len word) k = 0"
  by (rule bit_word_eqI) (auto simp add: bit_word_byte dest: bit_imp_le_length)

lemma low_byte_drop: "(ucast (drop_bit (8 * i) g AND 0xFF) :: uint8) = word_byte (g :: uint64) i"
proof (rule bit_word_eqI)
  fix k assume "k < LENGTH(8)"
  then show "bit (ucast (drop_bit (8 * i) g AND 0xFF) :: uint8) k = bit (word_byte g i) k"
    unfolding and_mask_take_bit(3) by (simp add: bit_ucast_iff bit_take_bit_iff word_byte_def)
qed

lemma pack_loop_drop:
  assumes "i \<le> 8" "\<And>k. bit mark k \<longleftrightarrow> k < i \<and> word_byte g k \<noteq> 0"
  shows "pack_loop i (drop_bit (8 * i) g) mark out =
     (pack_mask g, out @ filter (\<lambda>c. c \<noteq> 0) (map (word_byte g) [i..<8]))"
  using assms
proof (induction "8 - i" arbitrary: i mark out)
  case 0
  then have i: "i = 8" by simp
  have "drop_bit (8 * 8) g = 0" by (rule bit_word_eqI) (auto simp add: bit_drop_bit_eq dest: bit_imp_le_length)
  moreover have "mark = pack_mask g" by (rule bit_word_eqI) (simp add: "0.prems"(2) bit_pack_mask i)
  ultimately show ?case by (simp add: pack_loop.simps[of 8 0] i)
next
  case (Suc n)
  then have i: "i < 8" by simp
  let ?d = "drop_bit (8 * i) g"
  show ?case
  proof (cases "?d = 0")
    case True
    then have z: "word_byte g k = 0" if "i \<le> k" for k
      using word_byte_drop[of i g "k - i"] that by (simp add: word_byte_def)
    then have "mark = pack_mask g"
      by (intro bit_word_eqI) (metis Suc.prems(2) bit_pack_mask i less_trans not_le)
    moreover have "filter (\<lambda>c. c \<noteq> 0) (map (word_byte g) [i..<8]) = []"
      using z by (simp add: filter_empty_conv)
    ultimately show ?thesis using True by (simp add: pack_loop.simps[of i 0])
  next
    case False
    let ?low = "word_byte g i"
    let ?m = "if ?low \<noteq> 0 then mark OR push_bit i 1 else mark"
    have m: "bit ?m k \<longleftrightarrow> k < Suc i \<and> word_byte g k \<noteq> 0" for k
      using Suc.prems(2)[of k] i by (auto simp add: bit_simps less_Suc_eq)
    have d: "drop_bit 8 ?d = drop_bit (8 * Suc i) g" by (simp add: drop_bit_drop_bit algebra_simps)
    have "pack_loop (Suc i) (drop_bit (8 * Suc i) g) ?m (if ?low \<noteq> 0 then out @ [?low] else out) =
      (pack_mask g, (if ?low \<noteq> 0 then out @ [?low] else out) @
        filter (\<lambda>c. c \<noteq> 0) (map (word_byte g) [Suc i..<8]))"
      by (rule Suc.hyps) (use Suc.hyps(2) i m in auto)
    then show ?thesis using False i
      by (simp add: pack_loop.simps[of i ?d] low_byte_drop d upt_conv_Cons Let_def split: if_splits)
  qed
qed

lemma pack_loop_repr: "pack_loop 0 g 0 [] = (pack_mask g, filter (\<lambda>c. c \<noteq> 0) (le_bytes g))"
  using pack_loop_drop[of 0 0 g "[]"] by (simp add: le_bytes_def)

lemma pack_bit_test: "mark AND 2 ^ i \<noteq> 0 \<longleftrightarrow> bit (mark :: uint8) i"
  by (simp add: bit_iff_and_push_bit_not_eq_0)

lemma word_byte_or_push:
  "word_byte (acc OR push_bit (i * 8) (ucast c) :: uint64) k =
     (if k = i \<and> i < 8 then word_byte acc k OR c else word_byte acc k)"
proof (rule bit_word_eqI)
  fix j assume j: "j < LENGTH(8)"
  have "8 * k + j - i * 8 < 8 \<and> i * 8 \<le> 8 * k + j \<longleftrightarrow> k = i" using j by auto
  then show "bit (word_byte (acc OR push_bit (i * 8) (ucast c) :: uint64) k) j =
      bit (if k = i \<and> i < 8 then word_byte acc k OR c else word_byte acc k) j"
    using j by (auto simp add: bit_word_byte bit_or_iff bit_push_bit_iff bit_ucast_iff
        dest: bit_imp_le_length)
qed

lemma unpack_loop_unread:
  assumes "i \<le> 8" "\<And>k. word_byte acc k = (if k < i then word_byte g k else 0)"
    "bb_unread (filter (\<lambda>c. c \<noteq> 0) (map (word_byte g) [i..<8]) @ rest) b"
  shows "\<exists>b'. unpack_loop [i..<8] (pack_mask g) acc b = Inr (g, b') \<and> bb_unread rest b'"
  using assms
proof (induction "8 - i" arbitrary: i acc b)
  case 0
  then have i: "i = 8" by simp
  then have "acc = g" using "0.prems"(2) by - (rule word_eq_by_bytes, simp_all)
  then show ?case using "0.prems"(3) i by simp
next
  case (Suc n)
  then have i: "i < 8" by simp
  show ?case
  proof (cases "word_byte g i = 0")
    case True
    then have "\<exists>b'. unpack_loop [Suc i..<8] (pack_mask g) acc b = Inr (g, b') \<and> bb_unread rest b'"
      using Suc.prems Suc.hyps(2) i
      by (intro Suc.hyps(1)) (auto simp add: upt_conv_Cons less_Suc_eq)
    then show ?thesis using True i by (simp add: upt_conv_Cons pack_bit_test bit_pack_mask)
  next
    case False
    let ?rest = "filter (\<lambda>c. c \<noteq> 0) (map (word_byte g) [Suc i..<8]) @ rest"
    let ?acc = "acc OR push_bit (i * 8) (ucast (word_byte g i))"
    from Suc.prems(3) False i have "bb_unread (le_bytes (word_byte g i) @ ?rest) b"
      by (simp add: upt_conv_Cons le_bytes_def word_byte_def)
    from read_T_unread[OF this] obtain b1 where
      b1: "read_T b = Inr (word_byte g i, b1)" "bb_unread ?rest b1" by auto
    have "word_byte ?acc k = (if k < Suc i then word_byte g k else 0)" for k
      using Suc.prems(2)[of k] word_byte_or_push[of acc i "word_byte g i" k] i by auto
    then have "\<exists>b'. unpack_loop [Suc i..<8] (pack_mask g) ?acc b1 = Inr (g, b') \<and> bb_unread rest b'"
      using Suc.hyps(2) i b1(2) by (intro Suc.hyps(1)) auto
    then show ?thesis using False i b1(1) by (simp add: upt_conv_Cons pack_bit_test bit_pack_mask)
  qed
qed

interpretation packed_guid: byte_codec appendPackGUID readPackGUID pack_repr "\<lambda>_. True"
proof unfold_locales
  fix g b assume "appendable (length (pack_repr g)) b"
  then show "appendPackGUID g b = Inr (appended (pack_repr g) b)"
    using append_bytes_appended[of "pack_repr g" b]
    by (simp add: appendPackGUID_def pack_loop_repr pack_repr_def)
next
  fix g rest b assume "bb_unread (pack_repr g @ rest) b"
  then have "bb_unread (le_bytes (pack_mask g) @ (filter (\<lambda>c. c \<noteq> 0) (le_bytes g) @ rest)) b"
    by (simp add: pack_repr_def le_bytes_def word_byte_def)
  from read_T_unread[OF this] obtain b1 where
    b1: "read_T b = Inr (pack_mask g, b1)" "bb_unread (filter (\<lambda>c. c \<noteq> 0) (le_bytes g) @ rest) b1"
    by auto
  have "\<exists>b'. unpack_loop [0..<8] (pack_mask g) 0 b1 = Inr (g, b') \<and> bb_unread rest b'"
    using b1(2) by (intro unpack_loop_unread) (simp_all add: le_bytes_def word_byte_def)
  then show "\<exists>b'. readPackGUID b = Inr (g, b') \<and> bb_unread rest b'"
    by (simp add: readPackGUID_def b1(1))
qed

interpretation guid_vector: byte_codec "write_vector appendPackGUID" "read_vector readPackGUID"
  "vector_repr pack_repr" "vector_valid (\<lambda>_. True)"
  by (rule packed_guid.vector_codec)

section \<open>Guids as a bit mask and bytes\<close>

text \<open>
  \<open>operator[]\<close> of \<open>ObjectGuid\<close> asserts its index.  The template methods of ObjectGuid.h take
  the order of the bytes as template arguments, the methods of ByteBuffer.h as an array
  with a start position.
\<close>

definition guid_set_byte :: "ObjectGuid \<Rightarrow> nat \<Rightarrow> uint8 \<Rightarrow> ObjectGuid" where
  "guid_set_byte g k c = (g AND NOT (push_bit (8 * k) 0xFF)) OR push_bit (8 * k) (ucast c)"

fun WriteGuidMask :: "nat list \<Rightarrow> ObjectGuid \<Rightarrow> ByteBuffer \<Rightarrow> ByteBuffer result" where
  "WriteGuidMask [] g b = Inr b"
| "WriteGuidMask (k # ks) g b =
     (if 8 \<le> k then Inl AssertFailed
      else bindR (WriteBit (word_byte g k \<noteq> 0) b) (WriteGuidMask ks g))"

fun WriteGuidBytes :: "nat list \<Rightarrow> ObjectGuid \<Rightarrow> ByteBuffer \<Rightarrow> ByteBuffer result" where
  "WriteGuidBytes [] g b = Inr b"
| "WriteGuidBytes (k # ks) g b =
     (if 8 \<le> k then Inl AssertFailed
      else if word_byte g k \<noteq> 0
      then bindR (append_T (word_byte g k XOR 1) b) (WriteGuidBytes ks g)
      else WriteGuidBytes ks g b)"

fun ReadGuidMask :: "nat list \<Rightarrow> ObjectGuid \<Rightarrow> ByteBuffer \<Rightarrow> (ObjectGuid \<times> ByteBuffer) result" where
  "ReadGuidMask [] g b = Inr (g, b)"
| "ReadGuidMask (k # ks) g b =
     (if 8 \<le> k then Inl AssertFailed
      else bindR (ReadBit b) (\<lambda>(x, b). ReadGuidMask ks (guid_set_byte g k (of_bool x)) b))"

fun ReadGuidBytes :: "nat list \<Rightarrow> ObjectGuid \<Rightarrow> ByteBuffer \<Rightarrow> (ObjectGuid \<times> ByteBuffer) result" where
  "ReadGuidBytes [] g b = Inr (g, b)"
| "ReadGuidBytes (k # ks) g b =
     (if 8 \<le> k then Inl AssertFailed
      else if word_byte g k \<noteq> 0
      then bindR (read_T b)
             (\<lambda>(c, b). ReadGuidBytes ks (guid_set_byte g k (word_byte g k XOR c)) b)
      else ReadGuidBytes ks g b)"

text \<open>The array versions index \<open>maskOrder\<close> and \<open>byteOrder\<close> from a start position.\<close>

definition WriteGuidMask_array ::
  "uint64 \<Rightarrow> nat list \<Rightarrow> nat \<Rightarrow> nat \<Rightarrow> ByteBuffer \<Rightarrow> ByteBuffer result" where
  "WriteGuidMask_array guid maskOrder maskCount maskPos b =
     (if length maskOrder < maskPos + maskCount \<or>
         (\<exists>k \<in> set (take maskCount (drop maskPos maskOrder)). 8 \<le> k) then Inl Undefined
      else WriteGuidMask (take maskCount (drop maskPos maskOrder)) guid b)"

definition WriteGuidBytes_array ::
  "uint64 \<Rightarrow> nat list \<Rightarrow> nat \<Rightarrow> nat \<Rightarrow> ByteBuffer \<Rightarrow> ByteBuffer result" where
  "WriteGuidBytes_array guid byteOrder byteCount bytePos b =
     (if length byteOrder < bytePos + byteCount \<or>
         (\<exists>k \<in> set (take byteCount (drop bytePos byteOrder)). 8 \<le> k) then Inl Undefined
      else WriteGuidBytes (take byteCount (drop bytePos byteOrder)) guid b)"

lemma word_byte_guid_set:
  assumes "k < 8"
  shows "word_byte (guid_set_byte g k c) j = (if j = k then c else word_byte g j)"
proof (rule bit_word_eqI)
  fix i assume i: "i < LENGTH(8)"
  have M: "(0xFF :: uint64) = mask 8" by (simp add: mask_eq_exp_minus_1)
  have e: "8 * k \<le> 8 * j + i \<and> 8 * j + i - 8 * k < 8 \<longleftrightarrow> j = k" using i by auto
  show "bit (word_byte (guid_set_byte g k c) j) i = bit (if j = k then c else word_byte g j) i"
    using i e assms unfolding guid_set_byte_def M
    by (auto simp add: bit_word_byte bit_or_iff bit_and_iff bit_not_iff
        bit_push_bit_iff bit_ucast_iff bit_mask_iff dest: bit_imp_le_length)
qed

text \<open>The tokens of the two groups.\<close>

definition guid_mask_toks :: "nat list \<Rightarrow> ObjectGuid \<Rightarrow> tok list" where
  "guid_mask_toks ks g = map (\<lambda>k. TBit (word_byte g k \<noteq> 0)) ks"

definition guid_byte_toks :: "nat list \<Rightarrow> ObjectGuid \<Rightarrow> tok list" where
  "guid_byte_toks ks g = map (\<lambda>k. TBytes [word_byte g k XOR 1]) (filter (\<lambda>k. word_byte g k \<noteq> 0) ks)"

lemma le_bytes_uint8 [simp]: "le_bytes (c :: uint8) = [c]"
  by (simp add: le_bytes_def word_byte_def)

lemma WriteGuidMask_written:
  assumes "list_all (\<lambda>k. k < 8) ks" "bb_written org (length ks + n) ts b"
  shows "\<exists>b'. WriteGuidMask ks g b = Inr b' \<and> bb_written org n (ts @ guid_mask_toks ks g) b'"
  using assms
proof (induction ks arbitrary: ts b)
  case Nil
  then show ?case by (simp add: guid_mask_toks_def)
next
  case (Cons k ks)
  then have "bb_written org (Suc (length ks + n)) ts b" by simp
  from bb.wbit_written[OF this, of "word_byte g k \<noteq> 0"] obtain b1 where
    b1: "WriteBit (word_byte g k \<noteq> 0) b = Inr b1"
      "bb_written org (length ks + n) (ts @ [TBit (word_byte g k \<noteq> 0)]) b1" by blast
  from Cons.IH[OF _ b1(2)] Cons.prems(1) b1(1) show ?case by (simp add: guid_mask_toks_def)
qed

lemma WriteGuidBytes_written:
  assumes "list_all (\<lambda>k. k < 8) ks" "bb_written org (2 * length ks + n) ts b"
  shows "\<exists>b'. WriteGuidBytes ks g b = Inr b' \<and> bb_written org n (ts @ guid_byte_toks ks g) b'"
  using assms
proof (induction ks arbitrary: ts b)
  case Nil
  then show ?case by (simp add: guid_byte_toks_def)
next
  case (Cons k ks)
  show ?case
  proof (cases "word_byte g k = 0")
    case True
    have "bb_written org (2 * length ks + n) ts b" using bb.written_less[OF Cons.prems(2)] by simp
    from Cons.IH[OF _ this] Cons.prems(1) True show ?thesis by (simp add: guid_byte_toks_def)
  next
    case False
    have "bb_written org (1 + sizeof TYPE(8) + (2 * length ks + n)) ts b"
      using Cons.prems(2) by (simp add: sizeof_def)
    from bb_written_append_T[OF this] obtain b1 where
      b1: "append_T (word_byte g k XOR 1) b = Inr b1"
        "bb_written org (2 * length ks + n) (ts @ [TBytes [word_byte g k XOR 1]]) b1" by auto
    from Cons.IH[OF _ b1(2)] Cons.prems(1) b1(1) False show ?thesis by (simp add: guid_byte_toks_def)
  qed
qed

text \<open>
  The reader first learns which bytes are set, as ones, and then replaces those ones.
  \<open>seen\<close> are the positions whose bit has been read, \<open>got\<close> those whose byte has been read.
\<close>

definition guid_partial :: "nat set \<Rightarrow> nat set \<Rightarrow> ObjectGuid \<Rightarrow> ObjectGuid \<Rightarrow> bool" where
  "guid_partial seen got g h \<longleftrightarrow> (\<forall>k < 8. word_byte h k =
     (if k \<in> got then word_byte g k else if k \<in> seen then of_bool (word_byte g k \<noteq> 0) else 0))"

lemma ReadGuidMask_feeds:
  assumes "list_all (\<lambda>k. k < 8) ks" "guid_partial seen {} g h" "bb_feeds rest (guid_mask_toks ks g @ ts) b"
  shows "\<exists>h' b'. ReadGuidMask ks h b = Inr (h', b') \<and> guid_partial (seen \<union> set ks) {} g h' \<and> bb_feeds rest ts b'"
  using assms
proof (induction ks arbitrary: seen h b)
  case Nil
  then show ?case by (simp add: guid_mask_toks_def)
next
  case (Cons k ks)
  then have "bb_feeds rest (TBit (word_byte g k \<noteq> 0) # guid_mask_toks ks g @ ts) b"
    by (simp add: guid_mask_toks_def)
  from bb.rbit_feeds[OF this] obtain b1 where
    b1: "ReadBit b = Inr (word_byte g k \<noteq> 0, b1)" "bb_feeds rest (guid_mask_toks ks g @ ts) b1" by blast
  have "guid_partial (insert k seen) {} g (guid_set_byte h k (of_bool (word_byte g k \<noteq> 0)))"
    using Cons.prems(1,2) by (simp add: guid_partial_def word_byte_guid_set)
  from Cons.IH[OF _ this b1(2)] Cons.prems(1) b1(1) show ?case by simp
qed

lemma ReadGuidBytes_feeds:
  assumes "list_all (\<lambda>k. k < 8) ks" "distinct ks" "set ks \<inter> got = {}" "set ks \<subseteq> seen"
    "guid_partial seen got g h" "bb_feeds rest (guid_byte_toks ks g @ ts) b"
  shows "\<exists>h' b'. ReadGuidBytes ks h b = Inr (h', b') \<and> guid_partial seen (got \<union> set ks) g h' \<and> bb_feeds rest ts b'"
  using assms
proof (induction ks arbitrary: got h b)
  case Nil
  then show ?case by (simp add: guid_byte_toks_def)
next
  case (Cons k ks)
  then have hk: "word_byte h k = of_bool (word_byte g k \<noteq> 0)" by (simp add: guid_partial_def)
  show ?case
  proof (cases "word_byte g k = 0")
    case True
    then have "guid_partial seen (insert k got) g h"
      using Cons.prems(5) hk by (auto simp add: guid_partial_def)
    from Cons.IH[OF _ _ _ _ this, of b] Cons.prems True hk show ?thesis
      by (auto simp add: guid_byte_toks_def)
  next
    case False
    then have "bb_feeds rest (TBytes (le_bytes (word_byte g k XOR 1)) # guid_byte_toks ks g @ ts) b"
      using Cons.prems(6) by (simp add: guid_byte_toks_def)
    from bb_feeds_read_T[OF this] obtain b1 where
      b1: "read_T b = Inr (word_byte g k XOR 1, b1)" "bb_feeds rest (guid_byte_toks ks g @ ts) b1" by auto
    have x: "word_byte h k XOR (word_byte g k XOR 1) = word_byte g k"
      using hk False by (simp add: xor.left_commute[of 1])
    have "guid_partial seen (insert k got) g (guid_set_byte h k (word_byte g k))"
      using Cons.prems(1,5) by (simp add: guid_partial_def word_byte_guid_set)
    from Cons.IH[OF _ _ _ _ this b1(2)] Cons.prems b1(1) False hk x show ?thesis by auto
  qed
qed

lemma guid_partial_full:
  assumes "guid_partial seen got g h" "\<And>k. k < 8 \<Longrightarrow> k \<in> got"
  shows "h = g"
  by (rule word_eq_by_bytes) (use assms in \<open>auto simp add: guid_partial_def\<close>)

lemma guid_partial_empty: "guid_partial {} {} g 0"
  by (simp add: guid_partial_def word_byte_def)

section \<open>Generators\<close>

text \<open>
  \<open>World::StopNow\<close> requests the shutdown and returns; the flag is the second component.
\<close>

record ObjectGuidGenerator =
  m_nextGuid :: uint32

definition generator_new :: "uint32 \<Rightarrow> ObjectGuidGenerator" where
  "generator_new start = \<lparr>m_nextGuid = start\<rparr>"

definition Generate :: "HighGuid \<Rightarrow> ObjectGuidGenerator \<Rightarrow> uint32 \<times> bool \<times> ObjectGuidGenerator" where
  "Generate high gen =
     (let stop = GetMaxCounter high - 1 \<le> m_nextGuid gen
      in (m_nextGuid gen, stop, gen\<lparr>m_nextGuid := m_nextGuid gen + 1\<rparr>))"

fun Generate_n :: "nat \<Rightarrow> HighGuid \<Rightarrow> ObjectGuidGenerator \<Rightarrow> (uint32 \<times> bool) list" where
  "Generate_n 0 high gen = []"
| "Generate_n (Suc n) high gen =
     (let (g, stop, gen') = Generate high gen in (g, stop) # Generate_n n high gen')"

lemma Generate_n_nth:
  "i < n \<Longrightarrow> Generate_n n high gen ! i =
     (m_nextGuid gen + of_nat i, GetMaxCounter high - 1 \<le> m_nextGuid gen + of_nat i)"
proof (induction n arbitrary: i gen)
  case 0
  then show ?case by simp
next
  case (Suc n)
  then show ?case by (cases i) (simp_all add: Generate_def Let_def algebra_simps)
qed

lemma length_Generate_n [simp]: "length (Generate_n n high gen) = n"
  by (induction n arbitrary: gen) (simp_all add: Generate_def Let_def)

section \<open>Properties\<close>

text \<open>
  The packed form of a guid is lossless and minimal: \<open>appendPackGUID\<close> writes a mask and
  exactly the non-zero bytes, and \<open>readPackGUID\<close> rebuilds every 64-bit value from them.
\<close>

theorem packed_guid_roundtrip:
  assumes "appendable 9 b"
  shows "\<exists>b' bs. appendPackGUID g b = Inr b' \<and> storage b' = storage b @ bs \<and>
    length bs = 1 + length (filter (\<lambda>k. word_byte g k \<noteq> 0) [0..<8]) \<and>
    (\<forall>r rest. bb_unread (bs @ rest) r \<longrightarrow> (\<exists>r'. readPackGUID r = Inr (g, r') \<and> bb_unread rest r'))"
proof -
  have l: "length (pack_repr g) = 1 + length (filter (\<lambda>k. word_byte g k \<noteq> 0) [0..<8])"
    by (simp add: pack_repr_def le_bytes_def filter_map comp_def)
  also have "\<dots> \<le> 9" using length_filter_le[of "\<lambda>k. word_byte g k \<noteq> 0" "[0..<8]"] by simp
  finally have "appendable (length (pack_repr g)) b" using assms by (simp add: appendable_def)
  from packed_guid.roundtrip[OF _ this] l show ?thesis by auto
qed

lemma packed_guid_roundtrip_witness:
  "\<exists>b' bs. appendPackGUID 0xF130000C00000017 bb_new = Inr b' \<and> storage b' = storage bb_new @ bs \<and>
    length bs = 1 + length (filter (\<lambda>k. word_byte (0xF130000C00000017 :: uint64) k \<noteq> 0) [0..<8]) \<and>
    (\<forall>r rest. bb_unread (bs @ rest) r \<longrightarrow>
      (\<exists>r'. readPackGUID r = Inr (0xF130000C00000017, r') \<and> bb_unread rest r'))"
  by (rule packed_guid_roundtrip) (simp add: appendable_def bb_new_def)

text \<open>
  The bit-packed form of a guid is lossless for any layout: with a mask order and a byte
  order that are permutations of the eight byte positions, \<open>WriteGuidMask\<close>, \<open>WriteGuidBytes\<close>
  and \<open>FlushBits\<close> are inverted by \<open>ReadGuidMask\<close> and \<open>ReadGuidBytes\<close> on an empty guid.
\<close>

theorem guid_mask_bytes_roundtrip:
  assumes "set ms = {0..<8}" "distinct bs" "set bs = {0..<8}"
    "bb_sent org [] b" "length org + length ms + 17 \<le> 10000000"
  shows "\<exists>b1 b2 b3 out. WriteGuidMask ms g b = Inr b1 \<and> WriteGuidBytes bs g b1 = Inr b2 \<and>
    FlushBits b2 = Inr b3 \<and> bb_sent org out b3 \<and>
    (\<forall>r rest. bb_unread (out @ rest) r \<longrightarrow>
      (\<exists>h r1 r2. ReadGuidMask ms 0 r = Inr (h, r1) \<and> ReadGuidBytes bs h r1 = Inr (g, r2) \<and>
                 bb_rest r2 = rest))"
proof -
  have lt: "list_all (\<lambda>k. k < 8) ms" "list_all (\<lambda>k. k < 8) bs" using assms(1,3) by (auto simp add: list_all_iff)
  have "length bs = 8" using assms(2,3) distinct_card[of bs] by simp
  then have "bb_written org (length ms + (2 * length bs + 1)) [] b"
    using assms(4,5) by (simp add: bb_written_def bb_sent_def wire_run_def)
  from WriteGuidMask_written[OF lt(1) this, of g] obtain b1 where
    b1: "WriteGuidMask ms g b = Inr b1" "bb_written org (2 * length bs + 1) (guid_mask_toks ms g) b1" by auto
  let ?ts = "guid_mask_toks ms g @ guid_byte_toks bs g"
  from WriteGuidBytes_written[OF lt(2) b1(2), of g] obtain b2 where
    b2: "WriteGuidBytes bs g b1 = Inr b2" "bb_written org 1 ?ts b2" by auto
  from bb.flush_sent[of org 0] b2(2) obtain b3 where
    b3: "FlushBits b2 = Inr b3" "bb_sent org (wire_bytes ?ts) b3" by auto
  have "\<exists>h r1 r2. ReadGuidMask ms 0 r = Inr (h, r1) \<and> ReadGuidBytes bs h r1 = Inr (g, r2) \<and>
      bb_rest r2 = rest" if "bb_unread (wire_bytes ?ts @ rest) r" for r rest
  proof -
    from ReadGuidMask_feeds[OF lt(1) guid_partial_empty bb.unread_feeds[OF that]] obtain h r1 where
      r1: "ReadGuidMask ms 0 r = Inr (h, r1)" "guid_partial (set ms) {} g h"
        "bb_feeds rest (guid_byte_toks bs g @ []) r1" by auto
    from ReadGuidBytes_feeds[OF lt(2) assms(2) _ _ r1(2,3)] assms(1,3) obtain h' r2 where
      r2: "ReadGuidBytes bs h r1 = Inr (h', r2)" "guid_partial (set ms) (set bs) g h'"
        "bb_feeds rest [] r2" by auto
    have "h' = g" by (rule guid_partial_full[OF r2(2)]) (use assms(3) in auto)
    with r1(1) r2(1,3) bb.feeds_done show ?thesis by blast
  qed
  with b1(1) b2(1) b3 show ?thesis by blast
qed

lemma guid_mask_bytes_roundtrip_witness:
  "\<exists>b1 b2 b3 out. WriteGuidMask [3, 0, 2, 7, 5, 1, 4, 6] 0xF130000C00000017 bb_new = Inr b1 \<and>
    WriteGuidBytes [6, 7, 4, 1, 5, 0, 2, 3] 0xF130000C00000017 b1 = Inr b2 \<and>
    FlushBits b2 = Inr b3 \<and> bb_sent [] out b3 \<and>
    (\<forall>r rest. bb_unread (out @ rest) r \<longrightarrow>
      (\<exists>h r1 r2. ReadGuidMask [3, 0, 2, 7, 5, 1, 4, 6] 0 r = Inr (h, r1) \<and>
        ReadGuidBytes [6, 7, 4, 1, 5, 0, 2, 3] h r1 = Inr (0xF130000C00000017, r2) \<and>
        bb_rest r2 = rest))"
  by (rule guid_mask_bytes_roundtrip)
    (auto simp add: bb_sent_def bb_new_def atLeastLessThan_def lessThan_def)

lemma Generate_n_counter:
  assumes "list_all (\<lambda>p. \<not> snd p) (butlast (Generate_n n high gen))" "i < n"
  shows "unat (m_nextGuid gen + of_nat i :: uint32) = unat (m_nextGuid gen) + i"
  using assms(2)
proof (induction i)
  case (Suc i)
  let ?c = "m_nextGuid gen + of_nat i"
  have "snd (butlast (Generate_n n high gen) ! i) = False"
    using assms(1) Suc.prems by (auto simp add: list_all_length)
  then have "snd (Generate_n n high gen ! i) = False" using Suc.prems by (simp add: nth_butlast)
  then have "?c < 0xFFFFFFFE" using Suc.prems by (simp add: Generate_n_nth GetMaxCounter_def not_le)
  then have "unat (?c + 1) = Suc (unat ?c)" by (simp add: word_less_nat_alt unat_word_ariths)
  then show ?case using Suc by (simp add: algebra_simps)
qed simp

text \<open>
  A generator hands out consecutive counters and requests the shutdown of the server with
  the first one that reaches the end of the range: as long as only the last call has requested
  it, no counter is repeated, although the counter itself is a wrapping 32-bit integer.
\<close>

theorem generated_guids_distinct:
  assumes "list_all (\<lambda>p. \<not> snd p) (butlast (Generate_n n high gen))"
  shows "map (unat \<circ> fst) (Generate_n n high gen) = [unat (m_nextGuid gen)..<unat (m_nextGuid gen) + n] \<and>
    distinct (map fst (Generate_n n high gen))"
proof -
  have eq: "map (unat \<circ> fst) (Generate_n n high gen) = [unat (m_nextGuid gen)..<unat (m_nextGuid gen) + n]"
    by (rule nth_equalityI)
      (simp_all add: Generate_n_nth Generate_n_counter[OF assms] del: of_nat_add)
  then have "distinct (map unat (map fst (Generate_n n high gen)))" by (simp add: comp_def)
  then show ?thesis using eq by (simp only: distinct_map)
qed

lemma generated_guids_distinct_witness:
  "map (unat \<circ> fst) (Generate_n 3 HIGHGUID_UNIT (generator_new 7)) =
      [unat (m_nextGuid (generator_new 7))..<unat (m_nextGuid (generator_new 7)) + 3] \<and>
    distinct (map fst (Generate_n 3 HIGHGUID_UNIT (generator_new 7)))"
  by (rule generated_guids_distinct)
    (simp add: numeral_3_eq_3 generator_new_def Generate_def GetMaxCounter_def Let_def)

end
