(* ===== verification/MovementInfo.thy ===== *)
theory MovementInfo
  imports MovementTables GuidWire
begin

text \<open>
  The movement block of a packet: class \<open>MovementInfo\<close> (src/src/game/Unit.h) with its
  \<open>Read\<close> and \<open>Write\<close> (src/src/game/Unit.cpp), which interpret the sequences of
  \<open>MovementTables\<close> element by element.

  A \<open>float\<close> is its 32-bit pattern: the codec copies floats and never computes with them,
  except that \<open>Write\<close> passes orientations through \<open>NormalizeOrientation\<close> and the pitch
  through \<open>NormalizePitch\<close> (src/src/shared/Util.cpp, floating-point remainders).  These two
  functions are parameters of \<open>Write\<close>.
\<close>

section \<open>The record\<close>

type_synonym float32 = uint32
type_synonym int8 = "8 word"

record Position =
  pos_x :: float32
  pos_y :: float32
  pos_z :: float32
  pos_o :: float32

record JumpInfo =
  velocity :: float32
  sinAngle :: float32
  cosAngle :: float32
  xyspeed :: float32

record StatusInfo =
  hasFallData :: bool
  hasFallDirection :: bool
  hasOrientation :: bool
  hasPitch :: bool
  hasSpline :: bool
  hasSplineElevation :: bool
  hasTimeStamp :: bool
  hasTransportTime2 :: bool
  hasTransportTime3 :: bool

record MovementInfo =
  guid :: ObjectGuid
  guid2 :: ObjectGuid
  moveFlags :: uint32
  moveFlags2 :: uint16
  mtime :: uint32
  mpos :: Position
  t_guid :: ObjectGuid
  t_pos :: Position
  t_time :: uint32
  t_seat :: int8
  t_time2 :: uint32
  s_pitch :: float32
  fallTime :: uint32
  mjump :: JumpInfo
  splineElevation :: float32
  si :: StatusInfo
  byteParam :: int8

definition Position_new :: Position where
  "Position_new = \<lparr>pos_x = 0, pos_y = 0, pos_z = 0, pos_o = 0\<rparr>"

definition JumpInfo_new :: JumpInfo where
  "JumpInfo_new = \<lparr>velocity = 0, sinAngle = 0, cosAngle = 0, xyspeed = 0\<rparr>"

definition StatusInfo_new :: StatusInfo where
  "StatusInfo_new = \<lparr>hasFallData = False, hasFallDirection = False, hasOrientation = False,
     hasPitch = False, hasSpline = False, hasSplineElevation = False, hasTimeStamp = False,
     hasTransportTime2 = False, hasTransportTime3 = False\<rparr>"

definition MovementInfo_new :: MovementInfo where
  "MovementInfo_new = \<lparr>guid = 0, guid2 = 0, moveFlags = 0, moveFlags2 = 0, mtime = 0,
     mpos = Position_new, t_guid = 0, t_pos = Position_new, t_time = 0, t_seat = -1,
     t_time2 = 0, s_pitch = 0, fallTime = 0, mjump = JumpInfo_new, splineElevation = 0,
     si = StatusInfo_new, byteParam = 0\<rparr>"

section \<open>Read\<close>

text \<open>
  The variables of \<open>Read\<close>: the object, the packet and the three local flags.
\<close>

record MoveReader =
  info :: MovementInfo
  rdata :: ByteBuffer
  hasTransportData :: bool
  hasMovementFlags :: bool
  hasMovementFlags2 :: bool

definition rd_bit :: "(bool \<Rightarrow> MoveReader \<Rightarrow> MoveReader) \<Rightarrow> MoveReader \<Rightarrow> MoveReader result" where
  "rd_bit f r = bindR (ReadBit (rdata r)) (\<lambda>(x, b). Inr (f x (r\<lparr>rdata := b\<rparr>)))"

definition rd_val :: "('a::len word \<Rightarrow> MoveReader \<Rightarrow> MoveReader) \<Rightarrow> MoveReader \<Rightarrow> MoveReader result" where
  "rd_val f r = bindR (read_T (rdata r)) (\<lambda>(v, b). Inr (f v (r\<lparr>rdata := b\<rparr>)))"

definition rd_bits :: "nat \<Rightarrow> (uint32 \<Rightarrow> MoveReader \<Rightarrow> MoveReader) \<Rightarrow> MoveReader \<Rightarrow> MoveReader result" where
  "rd_bits n f r = bindR (ReadBits n (rdata r)) (\<lambda>(v, b). Inr (f v (r\<lparr>rdata := b\<rparr>)))"

definition rd_skip :: "nat \<Rightarrow> MoveReader \<Rightarrow> MoveReader result" where
  "rd_skip n r = bindR (read_skip n (rdata r)) (\<lambda>b. Inr (r\<lparr>rdata := b\<rparr>))"

abbreviation upd_info :: "(MovementInfo \<Rightarrow> MovementInfo) \<Rightarrow> MoveReader \<Rightarrow> MoveReader" where
  "upd_info f r \<equiv> r\<lparr>info := f (info r)\<rparr>"

abbreviation upd_si :: "(StatusInfo \<Rightarrow> StatusInfo) \<Rightarrow> MoveReader \<Rightarrow> MoveReader" where
  "upd_si f \<equiv> upd_info (\<lambda>m. m\<lparr>si := f (si m)\<rparr>)"

abbreviation upd_pos :: "(Position \<Rightarrow> Position) \<Rightarrow> MoveReader \<Rightarrow> MoveReader" where
  "upd_pos f \<equiv> upd_info (\<lambda>m. m\<lparr>mpos := f (mpos m)\<rparr>)"

abbreviation upd_tpos :: "(Position \<Rightarrow> Position) \<Rightarrow> MoveReader \<Rightarrow> MoveReader" where
  "upd_tpos f \<equiv> upd_info (\<lambda>m. m\<lparr>t_pos := f (t_pos m)\<rparr>)"

abbreviation upd_jump :: "(JumpInfo \<Rightarrow> JumpInfo) \<Rightarrow> MoveReader \<Rightarrow> MoveReader" where
  "upd_jump f \<equiv> upd_info (\<lambda>m. m\<lparr>mjump := f (mjump m)\<rparr>)"

abbreviation upd_guid :: "nat \<Rightarrow> (uint8 \<Rightarrow> uint8) \<Rightarrow> MoveReader \<Rightarrow> MoveReader" where
  "upd_guid k f \<equiv> upd_info (\<lambda>m. m\<lparr>guid := guid_set_byte (guid m) k (f (word_byte (guid m) k))\<rparr>)"

abbreviation upd_guid2 :: "nat \<Rightarrow> (uint8 \<Rightarrow> uint8) \<Rightarrow> MoveReader \<Rightarrow> MoveReader" where
  "upd_guid2 k f \<equiv> upd_info (\<lambda>m. m\<lparr>guid2 := guid_set_byte (guid2 m) k (f (word_byte (guid2 m) k))\<rparr>)"

abbreviation upd_tguid :: "nat \<Rightarrow> (uint8 \<Rightarrow> uint8) \<Rightarrow> MoveReader \<Rightarrow> MoveReader" where
  "upd_tguid k f \<equiv> upd_info (\<lambda>m. m\<lparr>t_guid := guid_set_byte (t_guid m) k (f (word_byte (t_guid m) k))\<rparr>)"

definition read_switch :: "MovementStatusElements \<Rightarrow> MoveReader \<Rightarrow> MoveReader result" where
  "read_switch e r =
     (case e of
        MSEFlags \<Rightarrow>
          if hasMovementFlags r then rd_bits 30 (\<lambda>v. upd_info (\<lambda>m. m\<lparr>moveFlags := v\<rparr>)) r else Inr r
      | MSEFlags2 \<Rightarrow>
          if hasMovementFlags2 r
          then rd_bits 12 (\<lambda>v. upd_info (\<lambda>m. m\<lparr>moveFlags2 := ucast v\<rparr>)) r else Inr r
      | MSEHasUnknownBit \<Rightarrow> rd_bit (\<lambda>x r. r) r
      | MSETimestamp \<Rightarrow>
          if hasTimeStamp (si (info r)) then rd_val (\<lambda>v. upd_info (\<lambda>m. m\<lparr>mtime := v\<rparr>)) r else Inr r
      | MSEHasTimestamp \<Rightarrow> rd_bit (\<lambda>x. upd_si (\<lambda>s. s\<lparr>hasTimeStamp := \<not> x\<rparr>)) r
      | MSEHasOrientation \<Rightarrow> rd_bit (\<lambda>x. upd_si (\<lambda>s. s\<lparr>hasOrientation := \<not> x\<rparr>)) r
      | MSEHasMovementFlags \<Rightarrow> rd_bit (\<lambda>x r. r\<lparr>hasMovementFlags := \<not> x\<rparr>) r
      | MSEHasMovementFlags2 \<Rightarrow> rd_bit (\<lambda>x r. r\<lparr>hasMovementFlags2 := \<not> x\<rparr>) r
      | MSEHasPitch \<Rightarrow> rd_bit (\<lambda>x. upd_si (\<lambda>s. s\<lparr>hasPitch := \<not> x\<rparr>)) r
      | MSEHasFallData \<Rightarrow> rd_bit (\<lambda>x. upd_si (\<lambda>s. s\<lparr>hasFallData := x\<rparr>)) r
      | MSEHasFallDirection \<Rightarrow>
          if hasFallData (si (info r))
          then rd_bit (\<lambda>x. upd_si (\<lambda>s. s\<lparr>hasFallDirection := x\<rparr>)) r else Inr r
      | MSEHasTransportData \<Rightarrow> rd_bit (\<lambda>x r. r\<lparr>hasTransportData := x\<rparr>) r
      | MSEHasTransportTime2 \<Rightarrow>
          if hasTransportData r
          then rd_bit (\<lambda>x. upd_si (\<lambda>s. s\<lparr>hasTransportTime2 := x\<rparr>)) r else Inr r
      | MSEHasTransportTime3 \<Rightarrow>
          if hasTransportData r
          then rd_bit (\<lambda>x. upd_si (\<lambda>s. s\<lparr>hasTransportTime3 := x\<rparr>)) r else Inr r
      | MSEHasSpline \<Rightarrow> rd_bit (\<lambda>x. upd_si (\<lambda>s. s\<lparr>hasSpline := x\<rparr>)) r
      | MSEHasSplineElevation \<Rightarrow> rd_bit (\<lambda>x. upd_si (\<lambda>s. s\<lparr>hasSplineElevation := \<not> x\<rparr>)) r
      | MSEPositionX \<Rightarrow> rd_val (\<lambda>v. upd_pos (\<lambda>p. p\<lparr>pos_x := v\<rparr>)) r
      | MSEPositionY \<Rightarrow> rd_val (\<lambda>v. upd_pos (\<lambda>p. p\<lparr>pos_y := v\<rparr>)) r
      | MSEPositionZ \<Rightarrow> rd_val (\<lambda>v. upd_pos (\<lambda>p. p\<lparr>pos_z := v\<rparr>)) r
      | MSEPositionO \<Rightarrow>
          if hasOrientation (si (info r)) then rd_val (\<lambda>v. upd_pos (\<lambda>p. p\<lparr>pos_o := v\<rparr>)) r else Inr r
      | MSEPitch \<Rightarrow>
          if hasPitch (si (info r)) then rd_val (\<lambda>v. upd_info (\<lambda>m. m\<lparr>s_pitch := v\<rparr>)) r else Inr r
      | MSEFallTime \<Rightarrow>
          if hasFallData (si (info r)) then rd_val (\<lambda>v. upd_info (\<lambda>m. m\<lparr>fallTime := v\<rparr>)) r else Inr r
      | MSESplineElevation \<Rightarrow>
          if hasSplineElevation (si (info r))
          then rd_val (\<lambda>v. upd_info (\<lambda>m. m\<lparr>splineElevation := v\<rparr>)) r else Inr r
      | MSEFallHorizontalSpeed \<Rightarrow>
          if hasFallData (si (info r)) \<and> hasFallDirection (si (info r))
          then rd_val (\<lambda>v. upd_jump (\<lambda>j. j\<lparr>xyspeed := v\<rparr>)) r else Inr r
      | MSEFallVerticalSpeed \<Rightarrow>
          if hasFallData (si (info r)) then rd_val (\<lambda>v. upd_jump (\<lambda>j. j\<lparr>velocity := v\<rparr>)) r else Inr r
      | MSEFallCosAngle \<Rightarrow>
          if hasFallData (si (info r)) \<and> hasFallDirection (si (info r))
          then rd_val (\<lambda>v. upd_jump (\<lambda>j. j\<lparr>cosAngle := v\<rparr>)) r else Inr r
      | MSEFallSinAngle \<Rightarrow>
          if hasFallData (si (info r)) \<and> hasFallDirection (si (info r))
          then rd_val (\<lambda>v. upd_jump (\<lambda>j. j\<lparr>sinAngle := v\<rparr>)) r else Inr r
      | MSETransportSeat \<Rightarrow>
          if hasTransportData r then rd_val (\<lambda>v. upd_info (\<lambda>m. m\<lparr>t_seat := v\<rparr>)) r else Inr r
      | MSETransportPositionO \<Rightarrow>
          if hasTransportData r then rd_val (\<lambda>v. upd_tpos (\<lambda>p. p\<lparr>pos_o := v\<rparr>)) r else Inr r
      | MSETransportPositionX \<Rightarrow>
          if hasTransportData r then rd_val (\<lambda>v. upd_tpos (\<lambda>p. p\<lparr>pos_x := v\<rparr>)) r else Inr r
      | MSETransportPositionY \<Rightarrow>
          if hasTransportData r then rd_val (\<lambda>v. upd_tpos (\<lambda>p. p\<lparr>pos_y := v\<rparr>)) r else Inr r
      | MSETransportPositionZ \<Rightarrow>
          if hasTransportData r then rd_val (\<lambda>v. upd_tpos (\<lambda>p. p\<lparr>pos_z := v\<rparr>)) r else Inr r
      | MSETransportTime \<Rightarrow>
          if hasTransportData r then rd_val (\<lambda>v. upd_info (\<lambda>m. m\<lparr>t_time := v\<rparr>)) r else Inr r
      | MSETransportTime2 \<Rightarrow>
          if hasTransportData r \<and> hasTransportTime2 (si (info r))
          then rd_val (\<lambda>v. upd_info (\<lambda>m. m\<lparr>t_time2 := v\<rparr>)) r else Inr r
      | MSETransportTime3 \<Rightarrow>
          if hasTransportData r \<and> hasTransportTime3 (si (info r))
          then rd_val (\<lambda>v. upd_info (\<lambda>m. m\<lparr>fallTime := v\<rparr>)) r else Inr r
      | MSEMovementCounter \<Rightarrow> rd_skip 4 r
      | MSEByteParam \<Rightarrow> rd_val (\<lambda>v. upd_info (\<lambda>m. m\<lparr>byteParam := v\<rparr>)) r
      | _ \<Rightarrow> Inl AssertFailed)"

definition read_element :: "MovementStatusElements \<Rightarrow> MoveReader \<Rightarrow> MoveReader result" where
  "read_element e r =
     (if MSEGuidBit0 \<le> e \<and> e \<le> MSEGuidBit7 then
        rd_bit (\<lambda>x. upd_guid (mse_ord e - mse_ord MSEGuidBit0) (\<lambda>_. of_bool x)) r
      else if MSEGuid2Bit0 \<le> e \<and> e \<le> MSEGuid2Bit7 then
        rd_bit (\<lambda>x. upd_guid2 (mse_ord e - mse_ord MSEGuid2Bit0) (\<lambda>_. of_bool x)) r
      else if MSETransportGuidBit0 \<le> e \<and> e \<le> MSETransportGuidBit7 then
        (if hasTransportData r
         then rd_bit (\<lambda>x. upd_tguid (mse_ord e - mse_ord MSETransportGuidBit0) (\<lambda>_. of_bool x)) r
         else Inr r)
      else if MSEGuidByte0 \<le> e \<and> e \<le> MSEGuidByte7 then
        (if word_byte (guid (info r)) (mse_ord e - mse_ord MSEGuidByte0) \<noteq> 0
         then rd_val (\<lambda>v. upd_guid (mse_ord e - mse_ord MSEGuidByte0) (\<lambda>c. c XOR v)) r
         else Inr r)
      else if MSEGuid2Byte0 \<le> e \<and> e \<le> MSEGuid2Byte7 then
        (if word_byte (guid2 (info r)) (mse_ord e - mse_ord MSEGuid2Byte0) \<noteq> 0
         then rd_val (\<lambda>v. upd_guid2 (mse_ord e - mse_ord MSEGuid2Byte0) (\<lambda>c. c XOR v)) r
         else Inr r)
      else if MSETransportGuidByte0 \<le> e \<and> e \<le> MSETransportGuidByte7 then
        (if hasTransportData r \<and>
            word_byte (t_guid (info r)) (mse_ord e - mse_ord MSETransportGuidByte0) \<noteq> 0
         then rd_val (\<lambda>v. upd_tguid (mse_ord e - mse_ord MSETransportGuidByte0) (\<lambda>c. c XOR v)) r
         else Inr r)
      else read_switch e r)"

text \<open>
  The loop runs at most \<open>MSE_COUNT\<close> times and leaves at \<open>MSEEnd\<close>; an array without
  \<open>MSEEnd\<close> is overrun.
\<close>

fun read_loop :: "nat \<Rightarrow> MovementStatusElements list \<Rightarrow> MoveReader \<Rightarrow> MoveReader result" where
  "read_loop 0 sequence r = Inr r"
| "read_loop (Suc n) [] r = Inl Undefined"
| "read_loop (Suc n) (e # sequence) r =
     (if e = MSEEnd then Inr r else bindR (read_element e r) (read_loop n sequence))"

definition Read :: "uint16 \<Rightarrow> MovementInfo \<Rightarrow> ByteBuffer \<Rightarrow> (MovementInfo \<times> ByteBuffer) result" where
  "Read opcode m b =
     (case GetMovementStatusElementsSequence opcode of
        None \<Rightarrow> Inr (m, b)
      | Some sequence \<Rightarrow>
          bindR (read_loop MSE_COUNT sequence
                   \<lparr>info = m, rdata = b, hasTransportData = False, hasMovementFlags = False,
                    hasMovementFlags2 = False\<rparr>)
            (\<lambda>r. Inr (info r, rdata r)))"

end
