(* ===== verification/MovementCodec.thy ===== *)
theory MovementCodec
  imports MovementInfo
begin

text \<open>
  \<open>MovementInfo::Write\<close> and the correctness of the movement codec: what \<open>Write\<close> puts on the
  wire is what \<open>Read\<close> takes from it, for every packet layout that passes a decidable check
  of its sequence.
\<close>

section \<open>Write\<close>

definition has_transport :: "MovementInfo \<Rightarrow> bool" where
  "has_transport m \<longleftrightarrow> \<not> IsEmpty (t_guid m)"

definition write_switch ::
  "(float32 \<Rightarrow> float32) \<Rightarrow> (float32 \<Rightarrow> float32) \<Rightarrow> MovementInfo \<Rightarrow> MovementStatusElements \<Rightarrow>
   ByteBuffer \<Rightarrow> ByteBuffer result" where
  "write_switch norm_o norm_p m e b =
     (case e of
        MSEHasMovementFlags \<Rightarrow> WriteBit (moveFlags m = 0) b
      | MSEHasMovementFlags2 \<Rightarrow> WriteBit (moveFlags2 m = 0) b
      | MSEFlags \<Rightarrow> if moveFlags m \<noteq> 0 then WriteBits (moveFlags m) 30 b else Inr b
      | MSEFlags2 \<Rightarrow> if moveFlags2 m \<noteq> 0 then WriteBits (moveFlags2 m) 12 b else Inr b
      | MSETimestamp \<Rightarrow> if hasTimeStamp (si m) then append_T (mtime m) b else Inr b
      | MSEHasPitch \<Rightarrow> WriteBit (\<not> hasPitch (si m)) b
      | MSEHasTimestamp \<Rightarrow> WriteBit (\<not> hasTimeStamp (si m)) b
      | MSEHasUnknownBit \<Rightarrow> WriteBit False b
      | MSEHasFallData \<Rightarrow> WriteBit (hasFallData (si m)) b
      | MSEHasFallDirection \<Rightarrow>
          if hasFallData (si m) then WriteBit (hasFallDirection (si m)) b else Inr b
      | MSEHasTransportData \<Rightarrow> WriteBit (has_transport m) b
      | MSEHasTransportTime2 \<Rightarrow>
          if has_transport m then WriteBit (hasTransportTime2 (si m)) b else Inr b
      | MSEHasTransportTime3 \<Rightarrow>
          if has_transport m then WriteBit (hasTransportTime3 (si m)) b else Inr b
      | MSEHasSpline \<Rightarrow> WriteBit (hasSpline (si m)) b
      | MSEHasSplineElevation \<Rightarrow> WriteBit (\<not> hasSplineElevation (si m)) b
      | MSEPositionX \<Rightarrow> append_T (pos_x (mpos m)) b
      | MSEPositionY \<Rightarrow> append_T (pos_y (mpos m)) b
      | MSEPositionZ \<Rightarrow> append_T (pos_z (mpos m)) b
      | MSEPositionO \<Rightarrow>
          if hasOrientation (si m) then append_T (norm_o (pos_o (mpos m))) b else Inr b
      | MSEPitch \<Rightarrow> if hasPitch (si m) then append_T (norm_p (s_pitch m)) b else Inr b
      | MSEHasOrientation \<Rightarrow> WriteBit (\<not> hasOrientation (si m)) b
      | MSEFallTime \<Rightarrow> if hasFallData (si m) then append_T (fallTime m) b else Inr b
      | MSESplineElevation \<Rightarrow>
          if hasSplineElevation (si m) then append_T (splineElevation m) b else Inr b
      | MSEFallHorizontalSpeed \<Rightarrow>
          if hasFallData (si m) \<and> hasFallDirection (si m) then append_T (xyspeed (mjump m)) b else Inr b
      | MSEFallVerticalSpeed \<Rightarrow>
          if hasFallData (si m) then append_T (velocity (mjump m)) b else Inr b
      | MSEFallCosAngle \<Rightarrow>
          if hasFallData (si m) \<and> hasFallDirection (si m) then append_T (cosAngle (mjump m)) b else Inr b
      | MSEFallSinAngle \<Rightarrow>
          if hasFallData (si m) \<and> hasFallDirection (si m) then append_T (sinAngle (mjump m)) b else Inr b
      | MSETransportSeat \<Rightarrow> if has_transport m then append_T (t_seat m) b else Inr b
      | MSETransportPositionO \<Rightarrow>
          if has_transport m then append_T (norm_o (pos_o (t_pos m))) b else Inr b
      | MSETransportPositionX \<Rightarrow> if has_transport m then append_T (pos_x (t_pos m)) b else Inr b
      | MSETransportPositionY \<Rightarrow> if has_transport m then append_T (pos_y (t_pos m)) b else Inr b
      | MSETransportPositionZ \<Rightarrow> if has_transport m then append_T (pos_z (t_pos m)) b else Inr b
      | MSETransportTime \<Rightarrow> if has_transport m then append_T (t_time m) b else Inr b
      | MSETransportTime2 \<Rightarrow>
          if has_transport m \<and> hasTransportTime2 (si m) then append_T (t_time2 m) b else Inr b
      | MSETransportTime3 \<Rightarrow>
          if has_transport m \<and> hasTransportTime3 (si m) then append_T (fallTime m) b else Inr b
      | MSEMovementCounter \<Rightarrow> append_T (0 :: uint32) b
      | _ \<Rightarrow> Inl AssertFailed)"

definition write_element ::
  "(float32 \<Rightarrow> float32) \<Rightarrow> (float32 \<Rightarrow> float32) \<Rightarrow> MovementInfo \<Rightarrow> MovementStatusElements \<Rightarrow>
   ByteBuffer \<Rightarrow> ByteBuffer result" where
  "write_element norm_o norm_p m e b =
     (if MSEGuidBit0 \<le> e \<and> e \<le> MSEGuidBit7 then
        WriteBit (word_byte (guid m) (mse_ord e - mse_ord MSEGuidBit0) \<noteq> 0) b
      else if MSETransportGuidBit0 \<le> e \<and> e \<le> MSETransportGuidBit7 then
        (if has_transport m
         then WriteBit (word_byte (t_guid m) (mse_ord e - mse_ord MSETransportGuidBit0) \<noteq> 0) b
         else Inr b)
      else if MSEGuidByte0 \<le> e \<and> e \<le> MSEGuidByte7 then
        (if word_byte (guid m) (mse_ord e - mse_ord MSEGuidByte0) \<noteq> 0
         then append_T (word_byte (guid m) (mse_ord e - mse_ord MSEGuidByte0) XOR 1) b
         else Inr b)
      else if MSETransportGuidByte0 \<le> e \<and> e \<le> MSETransportGuidByte7 then
        (if has_transport m \<and> word_byte (t_guid m) (mse_ord e - mse_ord MSETransportGuidByte0) \<noteq> 0
         then append_T (word_byte (t_guid m) (mse_ord e - mse_ord MSETransportGuidByte0) XOR 1) b
         else Inr b)
      else write_switch norm_o norm_p m e b)"

fun write_loop ::
  "(float32 \<Rightarrow> float32) \<Rightarrow> (float32 \<Rightarrow> float32) \<Rightarrow> MovementInfo \<Rightarrow> nat \<Rightarrow>
   MovementStatusElements list \<Rightarrow> ByteBuffer \<Rightarrow> ByteBuffer result" where
  "write_loop norm_o norm_p m 0 sequence b = Inr b"
| "write_loop norm_o norm_p m (Suc n) [] b = Inl Undefined"
| "write_loop norm_o norm_p m (Suc n) (e # sequence) b =
     (if e = MSEEnd then Inr b
      else bindR (write_element norm_o norm_p m e b) (write_loop norm_o norm_p m n sequence))"

definition Write ::
  "(float32 \<Rightarrow> float32) \<Rightarrow> (float32 \<Rightarrow> float32) \<Rightarrow> MovementInfo \<Rightarrow> uint16 \<Rightarrow> ByteBuffer \<Rightarrow>
   ByteBuffer result" where
  "Write norm_o norm_p m opcode b =
     (case GetMovementStatusElementsSequence opcode of
        None \<Rightarrow> Inr b
      | Some sequence \<Rightarrow> write_loop norm_o norm_p m MSE_COUNT sequence b)"

section \<open>The tokens an element stands for\<close>

definition tok_if :: "bool \<Rightarrow> 'a::len word \<Rightarrow> tok list" where
  "tok_if c v = (if c then [TBytes (le_bytes v)] else [])"

definition bit_if :: "bool \<Rightarrow> bool \<Rightarrow> tok list" where
  "bit_if c x = (if c then [TBit x] else [])"

definition mse_index :: "MovementStatusElements \<Rightarrow> MovementStatusElements \<Rightarrow> nat option" where
  "mse_index base e =
     (if mse_ord base \<le> mse_ord e \<and> mse_ord e < mse_ord base + 8
      then Some (mse_ord e - mse_ord base) else None)"

definition switch_toks ::
  "(float32 \<Rightarrow> float32) \<Rightarrow> (float32 \<Rightarrow> float32) \<Rightarrow> MovementInfo \<Rightarrow> MovementStatusElements \<Rightarrow> tok list" where
  "switch_toks norm_o norm_p m e =
     (case e of
        MSEHasMovementFlags \<Rightarrow> [TBit (moveFlags m = 0)]
      | MSEHasMovementFlags2 \<Rightarrow> [TBit (moveFlags2 m = 0)]
      | MSEFlags \<Rightarrow> if moveFlags m \<noteq> 0 then bits_toks (moveFlags m) 30 else []
      | MSEFlags2 \<Rightarrow> if moveFlags2 m \<noteq> 0 then bits_toks (ucast (moveFlags2 m) :: uint32) 12 else []
      | MSETimestamp \<Rightarrow> tok_if (hasTimeStamp (si m)) (mtime m)
      | MSEHasPitch \<Rightarrow> [TBit (\<not> hasPitch (si m))]
      | MSEHasTimestamp \<Rightarrow> [TBit (\<not> hasTimeStamp (si m))]
      | MSEHasUnknownBit \<Rightarrow> [TBit False]
      | MSEHasFallData \<Rightarrow> [TBit (hasFallData (si m))]
      | MSEHasFallDirection \<Rightarrow> bit_if (hasFallData (si m)) (hasFallDirection (si m))
      | MSEHasTransportData \<Rightarrow> [TBit (has_transport m)]
      | MSEHasTransportTime2 \<Rightarrow> bit_if (has_transport m) (hasTransportTime2 (si m))
      | MSEHasTransportTime3 \<Rightarrow> bit_if (has_transport m) (hasTransportTime3 (si m))
      | MSEHasSpline \<Rightarrow> [TBit (hasSpline (si m))]
      | MSEHasSplineElevation \<Rightarrow> [TBit (\<not> hasSplineElevation (si m))]
      | MSEPositionX \<Rightarrow> tok_if True (pos_x (mpos m))
      | MSEPositionY \<Rightarrow> tok_if True (pos_y (mpos m))
      | MSEPositionZ \<Rightarrow> tok_if True (pos_z (mpos m))
      | MSEPositionO \<Rightarrow> tok_if (hasOrientation (si m)) (norm_o (pos_o (mpos m)))
      | MSEPitch \<Rightarrow> tok_if (hasPitch (si m)) (norm_p (s_pitch m))
      | MSEHasOrientation \<Rightarrow> [TBit (\<not> hasOrientation (si m))]
      | MSEFallTime \<Rightarrow> tok_if (hasFallData (si m)) (fallTime m)
      | MSESplineElevation \<Rightarrow> tok_if (hasSplineElevation (si m)) (splineElevation m)
      | MSEFallHorizontalSpeed \<Rightarrow> tok_if (hasFallData (si m) \<and> hasFallDirection (si m)) (xyspeed (mjump m))
      | MSEFallVerticalSpeed \<Rightarrow> tok_if (hasFallData (si m)) (velocity (mjump m))
      | MSEFallCosAngle \<Rightarrow> tok_if (hasFallData (si m) \<and> hasFallDirection (si m)) (cosAngle (mjump m))
      | MSEFallSinAngle \<Rightarrow> tok_if (hasFallData (si m) \<and> hasFallDirection (si m)) (sinAngle (mjump m))
      | MSETransportSeat \<Rightarrow> tok_if (has_transport m) (t_seat m)
      | MSETransportPositionO \<Rightarrow> tok_if (has_transport m) (norm_o (pos_o (t_pos m)))
      | MSETransportPositionX \<Rightarrow> tok_if (has_transport m) (pos_x (t_pos m))
      | MSETransportPositionY \<Rightarrow> tok_if (has_transport m) (pos_y (t_pos m))
      | MSETransportPositionZ \<Rightarrow> tok_if (has_transport m) (pos_z (t_pos m))
      | MSETransportTime \<Rightarrow> tok_if (has_transport m) (t_time m)
      | MSETransportTime2 \<Rightarrow> tok_if (has_transport m \<and> hasTransportTime2 (si m)) (t_time2 m)
      | MSETransportTime3 \<Rightarrow> tok_if (has_transport m \<and> hasTransportTime3 (si m)) (fallTime m)
      | MSEMovementCounter \<Rightarrow> tok_if True (0 :: uint32)
      | _ \<Rightarrow> [])"

definition element_toks ::
  "(float32 \<Rightarrow> float32) \<Rightarrow> (float32 \<Rightarrow> float32) \<Rightarrow> MovementInfo \<Rightarrow> MovementStatusElements \<Rightarrow> tok list" where
  "element_toks norm_o norm_p m e =
     (case mse_index MSEGuidBit0 e of Some k \<Rightarrow> guid_mask_toks [k] (guid m) | None \<Rightarrow>
      case mse_index MSETransportGuidBit0 e of
        Some k \<Rightarrow> if has_transport m then guid_mask_toks [k] (t_guid m) else [] | None \<Rightarrow>
      case mse_index MSEGuidByte0 e of Some k \<Rightarrow> guid_byte_toks [k] (guid m) | None \<Rightarrow>
      case mse_index MSETransportGuidByte0 e of
        Some k \<Rightarrow> if has_transport m then guid_byte_toks [k] (t_guid m) else [] | None \<Rightarrow>
      switch_toks norm_o norm_p m e)"

text \<open>Elements \<open>Write\<close> has no case for: those of the second guid and the byte parameter.\<close>

definition writable :: "MovementStatusElements \<Rightarrow> bool" where
  "writable e \<longleftrightarrow> e \<notin> set
    [MSEByteParam, MSEEnd, MSEGuid2Bit0, MSEGuid2Bit1, MSEGuid2Bit2, MSEGuid2Bit3,
     MSEGuid2Bit4, MSEGuid2Bit5, MSEGuid2Bit6, MSEGuid2Bit7, MSEGuid2Byte0,
     MSEGuid2Byte1, MSEGuid2Byte2, MSEGuid2Byte3, MSEGuid2Byte4, MSEGuid2Byte5,
     MSEGuid2Byte6, MSEGuid2Byte7]"

lemma write_element_written:
  assumes "writable e" "bb_written org (30 + n) ts b"
  shows "\<exists>b'. write_element norm_o norm_p m e b = Inr b' \<and>
    bb_written org n (ts @ element_toks norm_o norm_p m e) b'"
proof -
  have W: "bb_written org k ts b" if "k \<le> 30 + n" for k
    using bb.written_less[OF assms(2) that] .
  have bit: "\<exists>b'. WriteBit x b = Inr b' \<and> bb_written org n (ts @ [TBit x]) b'" for x
    using bb.wbit_written[OF W[of "Suc n"]] by simp
  have val: "\<exists>b'. append_T v b = Inr b' \<and> bb_written org n (ts @ [TBytes (le_bytes v)]) b'"
    for v :: uint32 using bb_written_append_T[OF W[of "1 + sizeof TYPE(32) + n"]] by (simp add: sizeof_def)
  have val8: "\<exists>b'. append_T v b = Inr b' \<and> bb_written org n (ts @ [TBytes [v]]) b'"
    for v :: uint8 using bb_written_append_T[OF W[of "1 + sizeof TYPE(8) + n"], of v] by (simp add: sizeof_def)
  have f1: "\<exists>b'. WriteBits v 30 b = Inr b' \<and> bb_written org n (ts @ bits_toks v 30) b'" for v :: uint32
    using bb_written_WriteBits[OF W[of "30 + n"]] by simp
  have f2: "\<exists>b'. WriteBits v 12 b = Inr b' \<and> bb_written org n (ts @ bits_toks v 12) b'" for v :: uint16
    using bb_written_WriteBits[OF W[of "12 + n"]] by simp
  have u: "bits_toks (ucast v :: uint32) 12 = bits_toks (v :: uint16) 12" for v
    by (simp add: bits_toks_def bit_ucast_iff)
  have N: "\<exists>b'. Inr b = (Inr b' :: ByteBuffer result) \<and> bb_written org n ts b'" using W[of n] by simp
  show ?thesis
    using assms(1) bit val val8 f1 f2 u N
    by (cases e)
      (simp_all add: write_element_def element_toks_def write_switch_def switch_toks_def
         less_eq_MovementStatusElements_def mse_ord_def mse_index_def writable_def
         guid_mask_toks_def guid_byte_toks_def tok_if_def bit_if_def)
qed

section \<open>What a prefix of a sequence transfers\<close>

definition index_set :: "MovementStatusElements \<Rightarrow> MovementStatusElements set \<Rightarrow> nat set" where
  "index_set base S = {k. k < 8 \<and> (\<exists>e \<in> S. mse_index base e = Some k)}"

definition partial_guid :: "nat set \<Rightarrow> nat set \<Rightarrow> ObjectGuid \<Rightarrow> ObjectGuid" where
  "partial_guid seen got g = le_word (map (\<lambda>k.
     if k \<in> got then word_byte g k else if k \<in> seen then of_bool (word_byte g k \<noteq> 0) else 0) [0..<8])"

text \<open>
  The object that a reader holds once it has processed the elements \<open>S\<close> of a sequence, when
  it started from a newly constructed object and the packet was written from \<open>m\<close>.
\<close>

definition carried ::
  "(float32 \<Rightarrow> float32) \<Rightarrow> (float32 \<Rightarrow> float32) \<Rightarrow> MovementStatusElements set \<Rightarrow> MovementInfo \<Rightarrow> MovementInfo" where
  "carried norm_o norm_p S m =
     (let s = si m; T = has_transport m; D = hasFallData s \<and> hasFallDirection s
      in \<lparr>guid = partial_guid (index_set MSEGuidBit0 S) (index_set MSEGuidByte0 S) (guid m),
          guid2 = 0,
          moveFlags = (if MSEFlags \<in> S then moveFlags m else 0),
          moveFlags2 = (if MSEFlags2 \<in> S then moveFlags2 m else 0),
          mtime = (if MSETimestamp \<in> S \<and> hasTimeStamp s then mtime m else 0),
          mpos = \<lparr>pos_x = (if MSEPositionX \<in> S then pos_x (mpos m) else 0),
                  pos_y = (if MSEPositionY \<in> S then pos_y (mpos m) else 0),
                  pos_z = (if MSEPositionZ \<in> S then pos_z (mpos m) else 0),
                  pos_o = (if MSEPositionO \<in> S \<and> hasOrientation s then norm_o (pos_o (mpos m)) else 0)\<rparr>,
          t_guid = (if T then partial_guid (index_set MSETransportGuidBit0 S)
                                (index_set MSETransportGuidByte0 S) (t_guid m) else 0),
          t_pos = \<lparr>pos_x = (if MSETransportPositionX \<in> S \<and> T then pos_x (t_pos m) else 0),
                   pos_y = (if MSETransportPositionY \<in> S \<and> T then pos_y (t_pos m) else 0),
                   pos_z = (if MSETransportPositionZ \<in> S \<and> T then pos_z (t_pos m) else 0),
                   pos_o = (if MSETransportPositionO \<in> S \<and> T then norm_o (pos_o (t_pos m)) else 0)\<rparr>,
          t_time = (if MSETransportTime \<in> S \<and> T then t_time m else 0),
          t_seat = (if MSETransportSeat \<in> S \<and> T then t_seat m else -1),
          t_time2 = (if MSETransportTime2 \<in> S \<and> T \<and> hasTransportTime2 s then t_time2 m else 0),
          s_pitch = (if MSEPitch \<in> S \<and> hasPitch s then norm_p (s_pitch m) else 0),
          fallTime = (if MSEFallTime \<in> S \<and> hasFallData s \<or>
                         MSETransportTime3 \<in> S \<and> T \<and> hasTransportTime3 s then fallTime m else 0),
          mjump = \<lparr>velocity = (if MSEFallVerticalSpeed \<in> S \<and> hasFallData s then velocity (mjump m) else 0),
                   sinAngle = (if MSEFallSinAngle \<in> S \<and> D then sinAngle (mjump m) else 0),
                   cosAngle = (if MSEFallCosAngle \<in> S \<and> D then cosAngle (mjump m) else 0),
                   xyspeed = (if MSEFallHorizontalSpeed \<in> S \<and> D then xyspeed (mjump m) else 0)\<rparr>,
          splineElevation = (if MSESplineElevation \<in> S \<and> hasSplineElevation s then splineElevation m else 0),
          si = \<lparr>hasFallData = (MSEHasFallData \<in> S \<and> hasFallData s),
                hasFallDirection = (MSEHasFallDirection \<in> S \<and> D),
                hasOrientation = (MSEHasOrientation \<in> S \<and> hasOrientation s),
                hasPitch = (MSEHasPitch \<in> S \<and> hasPitch s),
                hasSpline = (MSEHasSpline \<in> S \<and> hasSpline s),
                hasSplineElevation = (MSEHasSplineElevation \<in> S \<and> hasSplineElevation s),
                hasTimeStamp = (MSEHasTimestamp \<in> S \<and> hasTimeStamp s),
                hasTransportTime2 = (MSEHasTransportTime2 \<in> S \<and> T \<and> hasTransportTime2 s),
                hasTransportTime3 = (MSEHasTransportTime3 \<in> S \<and> T \<and> hasTransportTime3 s)\<rparr>,
          byteParam = 0\<rparr>)"

definition carried_reader ::
  "(float32 \<Rightarrow> float32) \<Rightarrow> (float32 \<Rightarrow> float32) \<Rightarrow> MovementStatusElements set \<Rightarrow> MovementInfo \<Rightarrow>
   ByteBuffer \<Rightarrow> MoveReader" where
  "carried_reader norm_o norm_p S m b =
     \<lparr>info = carried norm_o norm_p S m, rdata = b,
      hasTransportData = (MSEHasTransportData \<in> S \<and> has_transport m),
      hasMovementFlags = (MSEHasMovementFlags \<in> S \<and> moveFlags m \<noteq> 0),
      hasMovementFlags2 = (MSEHasMovementFlags2 \<in> S \<and> moveFlags2 m \<noteq> 0)\<rparr>"

section \<open>Well-formed sequences\<close>

text \<open>
  The elements that must come before an element, and the elements that must not.
\<close>

definition needs :: "MovementStatusElements \<Rightarrow> MovementStatusElements list" where
  "needs e =
     (case e of
        MSEFlags \<Rightarrow> [MSEHasMovementFlags]
      | MSEFlags2 \<Rightarrow> [MSEHasMovementFlags2]
      | MSETimestamp \<Rightarrow> [MSEHasTimestamp]
      | MSEHasFallDirection \<Rightarrow> [MSEHasFallData]
      | MSEHasTransportTime2 \<Rightarrow> [MSEHasTransportData]
      | MSEHasTransportTime3 \<Rightarrow> [MSEHasTransportData]
      | MSETransportGuidBit0 \<Rightarrow> [MSEHasTransportData]
      | MSETransportGuidBit1 \<Rightarrow> [MSEHasTransportData]
      | MSETransportGuidBit2 \<Rightarrow> [MSEHasTransportData]
      | MSETransportGuidBit3 \<Rightarrow> [MSEHasTransportData]
      | MSETransportGuidBit4 \<Rightarrow> [MSEHasTransportData]
      | MSETransportGuidBit5 \<Rightarrow> [MSEHasTransportData]
      | MSETransportGuidBit6 \<Rightarrow> [MSEHasTransportData]
      | MSETransportGuidBit7 \<Rightarrow> [MSEHasTransportData]
      | MSEPositionO \<Rightarrow> [MSEHasOrientation]
      | MSEGuidByte0 \<Rightarrow> [MSEGuidBit0]
      | MSEGuidByte1 \<Rightarrow> [MSEGuidBit1]
      | MSEGuidByte2 \<Rightarrow> [MSEGuidBit2]
      | MSEGuidByte3 \<Rightarrow> [MSEGuidBit3]
      | MSEGuidByte4 \<Rightarrow> [MSEGuidBit4]
      | MSEGuidByte5 \<Rightarrow> [MSEGuidBit5]
      | MSEGuidByte6 \<Rightarrow> [MSEGuidBit6]
      | MSEGuidByte7 \<Rightarrow> [MSEGuidBit7]
      | MSEPitch \<Rightarrow> [MSEHasPitch]
      | MSEFallTime \<Rightarrow> [MSEHasFallData]
      | MSETransportGuidByte0 \<Rightarrow> [MSEHasTransportData, MSETransportGuidBit0]
      | MSETransportGuidByte1 \<Rightarrow> [MSEHasTransportData, MSETransportGuidBit1]
      | MSETransportGuidByte2 \<Rightarrow> [MSEHasTransportData, MSETransportGuidBit2]
      | MSETransportGuidByte3 \<Rightarrow> [MSEHasTransportData, MSETransportGuidBit3]
      | MSETransportGuidByte4 \<Rightarrow> [MSEHasTransportData, MSETransportGuidBit4]
      | MSETransportGuidByte5 \<Rightarrow> [MSEHasTransportData, MSETransportGuidBit5]
      | MSETransportGuidByte6 \<Rightarrow> [MSEHasTransportData, MSETransportGuidBit6]
      | MSETransportGuidByte7 \<Rightarrow> [MSEHasTransportData, MSETransportGuidBit7]
      | MSESplineElevation \<Rightarrow> [MSEHasSplineElevation]
      | MSEFallHorizontalSpeed \<Rightarrow> [MSEHasFallData, MSEHasFallDirection]
      | MSEFallVerticalSpeed \<Rightarrow> [MSEHasFallData]
      | MSEFallCosAngle \<Rightarrow> [MSEHasFallData, MSEHasFallDirection]
      | MSEFallSinAngle \<Rightarrow> [MSEHasFallData, MSEHasFallDirection]
      | MSETransportSeat \<Rightarrow> [MSEHasTransportData]
      | MSETransportPositionO \<Rightarrow> [MSEHasTransportData]
      | MSETransportPositionX \<Rightarrow> [MSEHasTransportData]
      | MSETransportPositionY \<Rightarrow> [MSEHasTransportData]
      | MSETransportPositionZ \<Rightarrow> [MSEHasTransportData]
      | MSETransportTime \<Rightarrow> [MSEHasTransportData]
      | MSETransportTime2 \<Rightarrow> [MSEHasTransportData, MSEHasTransportTime2]
      | MSETransportTime3 \<Rightarrow> [MSEHasTransportData, MSEHasTransportTime3]
      | _ \<Rightarrow> [])"

definition excludes :: "MovementStatusElements \<Rightarrow> MovementStatusElements list" where
  "excludes e =
     (case e of
        MSEGuidBit0 \<Rightarrow> [MSEGuidByte0]
      | MSEGuidBit1 \<Rightarrow> [MSEGuidByte1]
      | MSEGuidBit2 \<Rightarrow> [MSEGuidByte2]
      | MSEGuidBit3 \<Rightarrow> [MSEGuidByte3]
      | MSEGuidBit4 \<Rightarrow> [MSEGuidByte4]
      | MSEGuidBit5 \<Rightarrow> [MSEGuidByte5]
      | MSEGuidBit6 \<Rightarrow> [MSEGuidByte6]
      | MSEGuidBit7 \<Rightarrow> [MSEGuidByte7]
      | MSEGuidByte0 \<Rightarrow> [MSEGuidByte0]
      | MSEGuidByte1 \<Rightarrow> [MSEGuidByte1]
      | MSEGuidByte2 \<Rightarrow> [MSEGuidByte2]
      | MSEGuidByte3 \<Rightarrow> [MSEGuidByte3]
      | MSEGuidByte4 \<Rightarrow> [MSEGuidByte4]
      | MSEGuidByte5 \<Rightarrow> [MSEGuidByte5]
      | MSEGuidByte6 \<Rightarrow> [MSEGuidByte6]
      | MSEGuidByte7 \<Rightarrow> [MSEGuidByte7]
      | MSETransportGuidBit0 \<Rightarrow> [MSETransportGuidByte0]
      | MSETransportGuidBit1 \<Rightarrow> [MSETransportGuidByte1]
      | MSETransportGuidBit2 \<Rightarrow> [MSETransportGuidByte2]
      | MSETransportGuidBit3 \<Rightarrow> [MSETransportGuidByte3]
      | MSETransportGuidBit4 \<Rightarrow> [MSETransportGuidByte4]
      | MSETransportGuidBit5 \<Rightarrow> [MSETransportGuidByte5]
      | MSETransportGuidBit6 \<Rightarrow> [MSETransportGuidByte6]
      | MSETransportGuidBit7 \<Rightarrow> [MSETransportGuidByte7]
      | MSETransportGuidByte0 \<Rightarrow> [MSETransportGuidByte0]
      | MSETransportGuidByte1 \<Rightarrow> [MSETransportGuidByte1]
      | MSETransportGuidByte2 \<Rightarrow> [MSETransportGuidByte2]
      | MSETransportGuidByte3 \<Rightarrow> [MSETransportGuidByte3]
      | MSETransportGuidByte4 \<Rightarrow> [MSETransportGuidByte4]
      | MSETransportGuidByte5 \<Rightarrow> [MSETransportGuidByte5]
      | MSETransportGuidByte6 \<Rightarrow> [MSETransportGuidByte6]
      | MSETransportGuidByte7 \<Rightarrow> [MSETransportGuidByte7]
      | _ \<Rightarrow> [])"

fun wf_from :: "MovementStatusElements list \<Rightarrow> MovementStatusElements list \<Rightarrow> bool" where
  "wf_from seen [] \<longleftrightarrow> False"
| "wf_from seen (e # es) \<longleftrightarrow>
     (if e = MSEEnd then es = []
      else writable e \<and> list_all (\<lambda>d. d \<in> set seen) (needs e) \<and>
           list_all (\<lambda>d. d \<notin> set seen) (excludes e) \<and> wf_from (e # seen) es)"

definition wf_sequence :: "MovementStatusElements list \<Rightarrow> bool" where
  "wf_sequence es \<longleftrightarrow> length es \<le> MSE_COUNT \<and> wf_from [] es"

lemmas wf_eval =
  wf_from.simps needs_def excludes_def writable_def MovementStatusElements.case
  MovementStatusElements.distinct list.pred_inject list.set insert_iff empty_iff
  list.size add_Suc_right if_False if_True simp_thms

section \<open>Reading one element\<close>

lemma index_set_insert:
  "index_set base (insert e S) =
     (case mse_index base e of None \<Rightarrow> index_set base S | Some k \<Rightarrow> insert k (index_set base S))"
  by (auto simp add: index_set_def mse_index_def split: option.split)

lemma index_set_mem:
  assumes "mse_index base e = Some k"
  shows "k \<in> index_set base S \<longleftrightarrow> e \<in> S"
proof -
  have "d = e" if "mse_index base d = Some k" for d
  proof -
    from that assms have "mse_ord d = mse_ord e" by (auto simp add: mse_index_def split: if_splits)
    then show ?thesis by (simp only: mse_ord_inject)
  qed
  moreover have "k < 8" using assms by (auto simp add: mse_index_def split: if_splits)
  ultimately show ?thesis using assms unfolding index_set_def by blast
qed

lemma word_byte_partial_guid:
  "word_byte (partial_guid seen got g) k =
     (if k < 8 then if k \<in> got then word_byte g k
                    else if k \<in> seen then of_bool (word_byte g k \<noteq> 0) else 0
      else 0)"
proof (cases "k < 8")
  case True
  then show ?thesis unfolding partial_guid_def by (subst word_byte_le_word) simp_all
next
  case False
  then show ?thesis by (simp add: word_byte_high)
qed

lemma partial_guid_bit:
  assumes "k < 8" "k \<notin> got"
  shows "guid_set_byte (partial_guid seen got g) k (of_bool (word_byte g k \<noteq> 0)) =
    partial_guid (insert k seen) got g"
  by (rule word_eq_by_bytes)
    (use assms in \<open>simp_all add: word_byte_guid_set word_byte_partial_guid\<close>)

lemma partial_guid_byte:
  assumes "k < 8"
  shows "guid_set_byte (partial_guid seen got g) k (word_byte g k) = partial_guid seen (insert k got) g"
  by (rule word_eq_by_bytes)
    (use assms in \<open>simp_all add: word_byte_guid_set word_byte_partial_guid\<close>)

lemma partial_guid_skip:
  assumes "k < 8" "k \<in> seen" "word_byte g k = 0"
  shows "partial_guid seen (insert k got) g = partial_guid seen got g"
  by (rule word_eq_by_bytes) (use assms in \<open>simp_all add: word_byte_partial_guid\<close>)

lemma partial_guid_empty [simp]: "partial_guid {} {} g = 0"
  by (rule word_eq_by_bytes) (simp_all add: word_byte_partial_guid)

lemma partial_guid_all: "partial_guid seen {0..<8} g = g"
  by (rule word_eq_by_bytes) (simp_all add: word_byte_partial_guid)

lemma bb_feeds_read_skip:
  assumes "bb_feeds rest (TBytes (le_bytes (v :: uint32)) # ts) b"
  shows "\<exists>b'. read_skip 4 b = Inr b' \<and> bb_feeds rest ts b'"
proof -
  from bb.rbytes_feeds[OF assms] obtain b' where
    b': "read_bytes 4 b = Inr (le_bytes v, b')" "bb_feeds rest ts b'"
    using le_bytes_nonempty[of v] by auto
  have "bb_size b < 2 ^ 64" using assms by (simp add: bb_feeds_def)
  with b'(1) have "read_skip 4 b = Inr b'"
    by (auto simp add: read_bytes_def read_skip_def Let_def ResetBitReader_def size_add_def
        split: if_splits)
  then show ?thesis using b'(2) by blast
qed

text \<open>The readers of a token, as they are used by \<open>read_switch\<close>.\<close>

lemma rd_bit_feeds:
  assumes "bb_feeds rest (TBit x # ts) (rdata r)"
  shows "\<exists>b. rd_bit f r = Inr (f x (r\<lparr>rdata := b\<rparr>)) \<and> bb_feeds rest ts b"
  using bb.rbit_feeds[OF assms] by (auto simp add: rd_bit_def)

lemma rd_val_feeds:
  assumes "bb_feeds rest (TBytes (le_bytes (v :: 'a::len word)) # ts) (rdata r)" "8 dvd LENGTH('a)"
  shows "\<exists>b. rd_val f r = Inr (f v (r\<lparr>rdata := b\<rparr>)) \<and> bb_feeds rest ts b"
  using bb_feeds_read_T[OF assms] by (auto simp add: rd_val_def)

lemma rd_bits_feeds:
  assumes "bb_feeds rest (bits_toks v n @ ts) (rdata r)" "n \<le> 32"
  shows "\<exists>b. rd_bits n f r = Inr (f (take_bit n v) (r\<lparr>rdata := b\<rparr>)) \<and> bb_feeds rest ts b"
  using bb_feeds_ReadBits[OF assms] by (auto simp add: rd_bits_def)

lemma rd_skip_feeds:
  assumes "bb_feeds rest (TBytes (le_bytes (v :: uint32)) # ts) (rdata r)"
  shows "\<exists>b. rd_skip 4 r = Inr (r\<lparr>rdata := b\<rparr>) \<and> bb_feeds rest ts b"
  using bb_feeds_read_skip[OF assms] by (auto simp add: rd_skip_def)

lemma step_bit:
  assumes "bb_feeds rest (TBit x # ts) b" "rdata r = b" "\<And>b. f x (r\<lparr>rdata := b\<rparr>) = R b"
  shows "\<exists>b. rd_bit f r = Inr (R b) \<and> bb_feeds rest ts b"
  using rd_bit_feeds[of rest x ts r f] assms by auto

lemma step_bit_if:
  assumes "bb_feeds rest ((if c then [TBit x] else []) @ ts) b" "rdata r = b"
    "\<And>b. c \<Longrightarrow> f x (r\<lparr>rdata := b\<rparr>) = R b" "\<not> c \<Longrightarrow> r = R b"
  shows "\<exists>b. (if c then rd_bit f r else Inr r) = Inr (R b) \<and> bb_feeds rest ts b"
  using rd_bit_feeds[of rest x ts r f] assms by (cases c) auto

lemma step_val_if:
  fixes v :: "'a::len word"
  assumes "bb_feeds rest ((if c then [TBytes (le_bytes v)] else []) @ ts) b" "rdata r = b" "8 dvd LENGTH('a)"
    "\<And>b. c \<Longrightarrow> f v (r\<lparr>rdata := b\<rparr>) = R b" "\<not> c \<Longrightarrow> r = R b"
  shows "\<exists>b. (if c then rd_val f r else Inr r) = Inr (R b) \<and> bb_feeds rest ts b"
  using rd_val_feeds[of rest v ts r f] assms by (cases c) auto

lemma step_val:
  fixes v :: "'a::len word"
  assumes "bb_feeds rest (TBytes (le_bytes v) # ts) b" "rdata r = b" "8 dvd LENGTH('a)"
    "\<And>b. f v (r\<lparr>rdata := b\<rparr>) = R b"
  shows "\<exists>b. rd_val f r = Inr (R b) \<and> bb_feeds rest ts b"
  using step_val_if[of rest True v ts b r f R] assms by simp

lemma step_bits_if:
  assumes "bb_feeds rest ((if c then bits_toks v n else []) @ ts) b" "rdata r = b" "n \<le> 32"
    "\<And>b. c \<Longrightarrow> f (take_bit n v) (r\<lparr>rdata := b\<rparr>) = R b" "\<not> c \<Longrightarrow> r = R b"
  shows "\<exists>b. (if c then rd_bits n f r else Inr r) = Inr (R b) \<and> bb_feeds rest ts b"
  using rd_bits_feeds[of rest v n ts r f] assms by (cases c) auto

lemma step_skip:
  assumes "bb_feeds rest (TBytes (le_bytes (v :: uint32)) # ts) b" "rdata r = b" "\<And>b. r\<lparr>rdata := b\<rparr> = R b"
  shows "\<exists>b. rd_skip 4 r = Inr (R b) \<and> bb_feeds rest ts b"
  using rd_skip_feeds[of rest v ts r] assms by auto

lemmas step_rules = step_bit step_bit_if step_val step_val_if step_bits_if step_skip

lemma carried_reader_sel [simp]:
  "rdata (carried_reader norm_o norm_p S m b) = b"
  "carried_reader norm_o norm_p S m b\<lparr>rdata := b'\<rparr> = carried_reader norm_o norm_p S m b'"
  "hasTransportData (carried_reader norm_o norm_p S m b) \<longleftrightarrow> MSEHasTransportData \<in> S \<and> has_transport m"
  "hasMovementFlags (carried_reader norm_o norm_p S m b) \<longleftrightarrow> MSEHasMovementFlags \<in> S \<and> moveFlags m \<noteq> 0"
  "hasMovementFlags2 (carried_reader norm_o norm_p S m b) \<longleftrightarrow> MSEHasMovementFlags2 \<in> S \<and> moveFlags2 m \<noteq> 0"
  "info (carried_reader norm_o norm_p S m b) = carried norm_o norm_p S m"
  by (simp_all add: carried_reader_def)

lemma carried_si [simp]:
  "hasTimeStamp (si (carried norm_o norm_p S m)) \<longleftrightarrow> MSEHasTimestamp \<in> S \<and> hasTimeStamp (si m)"
  "hasOrientation (si (carried norm_o norm_p S m)) \<longleftrightarrow> MSEHasOrientation \<in> S \<and> hasOrientation (si m)"
  "hasPitch (si (carried norm_o norm_p S m)) \<longleftrightarrow> MSEHasPitch \<in> S \<and> hasPitch (si m)"
  "hasFallData (si (carried norm_o norm_p S m)) \<longleftrightarrow> MSEHasFallData \<in> S \<and> hasFallData (si m)"
  "hasFallDirection (si (carried norm_o norm_p S m)) \<longleftrightarrow>
     MSEHasFallDirection \<in> S \<and> hasFallData (si m) \<and> hasFallDirection (si m)"
  "hasSplineElevation (si (carried norm_o norm_p S m)) \<longleftrightarrow>
     MSEHasSplineElevation \<in> S \<and> hasSplineElevation (si m)"
  "hasTransportTime2 (si (carried norm_o norm_p S m)) \<longleftrightarrow>
     MSEHasTransportTime2 \<in> S \<and> has_transport m \<and> hasTransportTime2 (si m)"
  "hasTransportTime3 (si (carried norm_o norm_p S m)) \<longleftrightarrow>
     MSEHasTransportTime3 \<in> S \<and> has_transport m \<and> hasTransportTime3 (si m)"
  "guid (carried norm_o norm_p S m) =
     partial_guid (index_set MSEGuidBit0 S) (index_set MSEGuidByte0 S) (guid m)"
  "t_guid (carried norm_o norm_p S m) =
     (if has_transport m then partial_guid (index_set MSETransportGuidBit0 S)
        (index_set MSETransportGuidByte0 S) (t_guid m) else 0)"
  by (simp_all add: carried_def Let_def)

lemmas carried_eq = carried_reader_def carried_def Let_def index_set_insert mse_index_def mse_ord_def

lemmas mse_eval = read_element_def read_switch_def element_toks_def switch_toks_def
  less_eq_MovementStatusElements_def mse_ord_def mse_index_def

lemma ucast_16_32 [simp]: "ucast (ucast (x :: uint16) :: uint32) = x"
  by (rule bit_word_eqI) (auto simp add: bit_ucast_iff dest: bit_imp_le_length)

lemma read_switch_carried:
  assumes "writable e" "list_all (\<lambda>d. d \<in> S) (needs e)"
    "mse_index MSEGuidBit0 e = None" "mse_index MSETransportGuidBit0 e = None"
    "mse_index MSEGuidByte0 e = None" "mse_index MSETransportGuidByte0 e = None"
    "take_bit 30 (moveFlags m) = moveFlags m" "take_bit 12 (ucast (moveFlags2 m) :: uint32) = ucast (moveFlags2 m)"
    "bb_feeds rest (switch_toks norm_o norm_p m e @ ts) b"
  shows "\<exists>b'. read_switch e (carried_reader norm_o norm_p S m b) =
    Inr (carried_reader norm_o norm_p (insert e S) m b') \<and> bb_feeds rest ts b'"
  using assms
  apply (cases e)
  apply (simp_all only: writable_def needs_def read_switch_def switch_toks_def
      MovementStatusElements.case MovementStatusElements.distinct list.pred_inject list.set
      insert_iff empty_iff simp_thms)
  apply (simp_all only: mse_index_def mse_ord_def MovementStatusElements.case)
  apply (simp_all add: tok_if_def bit_if_def split del: if_split)
  apply (((rule step_bit | rule step_bit_if | rule step_val_if | rule step_val |
        rule step_bits_if | rule step_skip),
      assumption); auto simp add: carried_eq)+
  done

lemma mse_index_range:
  "mse_index MSEGuidBit0 e = (if MSEGuidBit0 \<le> e \<and> e \<le> MSEGuidBit7 then Some (mse_ord e - mse_ord MSEGuidBit0) else None)"
  "mse_index MSEGuid2Bit0 e = (if MSEGuid2Bit0 \<le> e \<and> e \<le> MSEGuid2Bit7 then Some (mse_ord e - mse_ord MSEGuid2Bit0) else None)"
  "mse_index MSETransportGuidBit0 e = (if MSETransportGuidBit0 \<le> e \<and> e \<le> MSETransportGuidBit7 then Some (mse_ord e - mse_ord MSETransportGuidBit0) else None)"
  "mse_index MSEGuidByte0 e = (if MSEGuidByte0 \<le> e \<and> e \<le> MSEGuidByte7 then Some (mse_ord e - mse_ord MSEGuidByte0) else None)"
  "mse_index MSEGuid2Byte0 e = (if MSEGuid2Byte0 \<le> e \<and> e \<le> MSEGuid2Byte7 then Some (mse_ord e - mse_ord MSEGuid2Byte0) else None)"
  "mse_index MSETransportGuidByte0 e = (if MSETransportGuidByte0 \<le> e \<and> e \<le> MSETransportGuidByte7 then Some (mse_ord e - mse_ord MSETransportGuidByte0) else None)"
  by (auto simp add: mse_index_def less_eq_MovementStatusElements_def mse_ord_def)

lemma mse_ord_nth: "n < MSE_COUNT \<Longrightarrow> mse_ord (mse_all ! n) = n"
proof -
  assume "n < MSE_COUNT"
  moreover have "map mse_ord mse_all = [0..<MSE_COUNT]"
    by (simp add: mse_all_def mse_ord_def MSE_COUNT_def upt_rec)
  moreover from this have "length mse_all = MSE_COUNT" by (metis length_map length_upt minus_nat.diff_0)
  ultimately show ?thesis by (metis nth_map nth_upt plus_nat.add_0)
qed

lemma index_set_nth:
  assumes "mse_ord base + 8 \<le> MSE_COUNT"
  shows "k \<in> index_set base S \<longleftrightarrow> k < 8 \<and> mse_all ! (mse_ord base + k) \<in> S"
proof (cases "k < 8")
  case True
  then have "mse_index base (mse_all ! (mse_ord base + k)) = Some k"
    using assms by (simp add: mse_index_def mse_ord_nth)
  then show ?thesis using True index_set_mem by blast
qed (simp add: index_set_def)

lemma excluded_bytes:
  assumes "list_all (\<lambda>d. d \<notin> S) (excludes e)"
  shows "mse_index MSEGuidBit0 e = Some k \<Longrightarrow> k \<notin> index_set MSEGuidByte0 S"
    "mse_index MSETransportGuidBit0 e = Some k \<Longrightarrow> k \<notin> index_set MSETransportGuidByte0 S"
    "mse_index MSEGuidByte0 e = Some k \<Longrightarrow> k \<notin> index_set MSEGuidByte0 S"
    "mse_index MSETransportGuidByte0 e = Some k \<Longrightarrow> k \<notin> index_set MSETransportGuidByte0 S"
  using assms
  by (cases e; auto simp add: excludes_def mse_index_def mse_ord_def index_set_nth MSE_COUNT_def
      mse_all_def)+

lemma needed_bits:
  assumes "list_all (\<lambda>d. d \<in> S) (needs e)"
  shows "mse_index MSEGuidByte0 e = Some k \<Longrightarrow> k \<in> index_set MSEGuidBit0 S"
    "mse_index MSETransportGuidByte0 e = Some k \<Longrightarrow> k \<in> index_set MSETransportGuidBit0 S \<and> MSEHasTransportData \<in> S"
    "mse_index MSETransportGuidBit0 e = Some k \<Longrightarrow> MSEHasTransportData \<in> S"
  using assms
  by (cases e; auto simp add: needs_def mse_index_def mse_ord_def index_set_nth MSE_COUNT_def
      mse_all_def)+

lemma guid_toks_single:
  "guid_mask_toks [k] g = [TBit (word_byte g k \<noteq> 0)]"
  "guid_byte_toks [k] g = (if word_byte g k \<noteq> 0 then [TBytes (le_bytes (word_byte g k XOR 1))] else [])"
  by (simp_all add: guid_mask_toks_def guid_byte_toks_def)


lemma xor_of_one: "c \<noteq> 0 \<Longrightarrow> 1 XOR (c XOR 1) = (c :: uint8)"
  by (simp add: xor.left_commute[of 1])

text \<open>The elements of the two guids, one by one.\<close>

lemma mse_index_disjoint:
  "mse_index A e = Some k \<Longrightarrow> mse_ord A + 8 \<le> mse_ord B \<or> mse_ord B + 8 \<le> mse_ord A \<Longrightarrow>
    mse_index B e = None"
  by (auto simp add: mse_index_def split: if_splits)

lemma read_element_index:
  "read_element e r =
    (case mse_index MSEGuidBit0 e of Some k \<Rightarrow> rd_bit (\<lambda>x. upd_guid k (\<lambda>_. of_bool x)) r | None \<Rightarrow>
     case mse_index MSEGuid2Bit0 e of Some k \<Rightarrow> rd_bit (\<lambda>x. upd_guid2 k (\<lambda>_. of_bool x)) r | None \<Rightarrow>
     case mse_index MSETransportGuidBit0 e of
       Some k \<Rightarrow> if hasTransportData r then rd_bit (\<lambda>x. upd_tguid k (\<lambda>_. of_bool x)) r else Inr r | None \<Rightarrow>
     case mse_index MSEGuidByte0 e of
       Some k \<Rightarrow> if word_byte (guid (info r)) k \<noteq> 0 then rd_val (\<lambda>v. upd_guid k (\<lambda>c. c XOR v)) r else Inr r
     | None \<Rightarrow>
     case mse_index MSEGuid2Byte0 e of
       Some k \<Rightarrow> if word_byte (guid2 (info r)) k \<noteq> 0 then rd_val (\<lambda>v. upd_guid2 k (\<lambda>c. c XOR v)) r else Inr r
     | None \<Rightarrow>
     case mse_index MSETransportGuidByte0 e of
       Some k \<Rightarrow> if hasTransportData r \<and> word_byte (t_guid (info r)) k \<noteq> 0
                 then rd_val (\<lambda>v. upd_tguid k (\<lambda>c. c XOR v)) r else Inr r
     | None \<Rightarrow> read_switch e r)"
  unfolding mse_index_range read_element_def by simp

lemma carried_insert_guid:
  assumes "mse_index B e = Some k" "B \<in> {MSEGuidBit0, MSEGuidByte0}"
  shows "carried_reader norm_o norm_p (insert e S) m b = upd_info (\<lambda>i. i
    \<lparr>guid := partial_guid (index_set MSEGuidBit0 (insert e S)) (index_set MSEGuidByte0 (insert e S)) (guid m)\<rparr>)
    (carried_reader norm_o norm_p S m b)"
proof -
  have ne: "d \<noteq> e" if "mse_ord d < mse_ord B \<or> mse_ord B + 8 \<le> mse_ord d" for d
    using assms(1) that by (auto simp add: mse_index_def split: if_splits)
  have no: "mse_index C e = None" if "C \<in> {MSETransportGuidBit0, MSETransportGuidByte0}" for C
    using assms(2) that by (auto intro!: mse_index_disjoint[OF assms(1)] simp add: mse_ord_simps)
  show ?thesis
    using assms(2) unfolding insert_iff empty_iff simp_thms
    by (elim disjE; simp add: carried_reader_def carried_def Let_def ne no index_set_insert
        mse_ord_simps)
qed

lemma carried_insert_tguid:
  assumes "mse_index B e = Some k" "B \<in> {MSETransportGuidBit0, MSETransportGuidByte0}"
  shows "carried_reader norm_o norm_p (insert e S) m b = upd_info (\<lambda>i. i
    \<lparr>t_guid := (if has_transport m then partial_guid (index_set MSETransportGuidBit0 (insert e S))
       (index_set MSETransportGuidByte0 (insert e S)) (t_guid m) else 0)\<rparr>)
    (carried_reader norm_o norm_p S m b)"
proof -
  have ne: "d \<noteq> e" if "mse_ord d < mse_ord B \<or> mse_ord B + 8 \<le> mse_ord d" for d
    using assms(1) that by (auto simp add: mse_index_def split: if_splits)
  have no: "mse_index C e = None" if "C \<in> {MSEGuidBit0, MSEGuidByte0}" for C
    using assms(2) that by (auto intro!: mse_index_disjoint[OF assms(1)] simp add: mse_ord_simps)
  show ?thesis
    using assms(2) unfolding insert_iff empty_iff simp_thms
    by (elim disjE; simp add: carried_reader_def carried_def Let_def ne no index_set_insert
        mse_ord_simps)
qed

lemma carried_guid_same:
  "G = guid (carried norm_o norm_p S m) \<Longrightarrow>
    upd_info (\<lambda>i. i\<lparr>guid := G\<rparr>) (carried_reader norm_o norm_p S m b) = carried_reader norm_o norm_p S m b"
  "G = t_guid (carried norm_o norm_p S m) \<Longrightarrow>
    upd_info (\<lambda>i. i\<lparr>t_guid := G\<rparr>) (carried_reader norm_o norm_p S m b) = carried_reader norm_o norm_p S m b"
  by (simp_all add: carried_reader_def)

lemma element_guid_bit:
  assumes k: "mse_index MSEGuidBit0 e = Some k" and "list_all (\<lambda>d. d \<notin> S) (excludes e)"
    "bb_feeds rest (element_toks norm_o norm_p m e @ ts) b"
  shows "\<exists>b'. read_element e (carried_reader norm_o norm_p S m b) =
    Inr (carried_reader norm_o norm_p (insert e S) m b') \<and> bb_feeds rest ts b'"
proof -
  have l: "k < 8" "k \<notin> index_set MSEGuidByte0 S"
    using k excluded_bytes(1)[OF assms(2) k] by (auto simp add: mse_index_def split: if_splits)
  have d: "mse_index MSETransportGuidBit0 e = None" "mse_index MSEGuidByte0 e = None" "mse_index MSETransportGuidByte0 e = None"
    "mse_index MSEGuid2Bit0 e = None" "mse_index MSEGuid2Byte0 e = None"
    by (simp_all add: mse_index_disjoint[OF k] mse_ord_simps)
  have "bb_feeds rest (TBit (word_byte (guid m) k \<noteq> 0) # ts) b"
    using assms(3) by (simp add: element_toks_def k guid_toks_single)
  then show ?thesis
    unfolding read_element_index k option.case
    by (rule step_bit)
      (simp_all add: carried_insert_guid[OF k] index_set_insert k d l partial_guid_bit)
qed

lemma element_tguid_bit:
  assumes k: "mse_index MSETransportGuidBit0 e = Some k" and "list_all (\<lambda>d. d \<in> S) (needs e)"
    "list_all (\<lambda>d. d \<notin> S) (excludes e)" "bb_feeds rest (element_toks norm_o norm_p m e @ ts) b"
  shows "\<exists>b'. read_element e (carried_reader norm_o norm_p S m b) =
    Inr (carried_reader norm_o norm_p (insert e S) m b') \<and> bb_feeds rest ts b'"
proof -
  have l: "k < 8" "k \<notin> index_set MSETransportGuidByte0 S" "MSEHasTransportData \<in> S"
    using k excluded_bytes(2)[OF assms(3) k] needed_bits(3)[OF assms(2) k]
    by (auto simp add: mse_index_def split: if_splits)
  have d: "mse_index MSEGuidBit0 e = None" "mse_index MSEGuidByte0 e = None" "mse_index MSETransportGuidByte0 e = None"
    "mse_index MSEGuid2Bit0 e = None" "mse_index MSEGuid2Byte0 e = None"
    by (simp_all add: mse_index_disjoint[OF k] mse_ord_simps)
  have "bb_feeds rest ((if has_transport m then [TBit (word_byte (t_guid m) k \<noteq> 0)] else []) @ ts) b"
    using assms(4) d k by (simp add: element_toks_def guid_toks_single split: if_splits)
  then have "\<exists>b'. (if has_transport m then rd_bit (\<lambda>x. upd_tguid k (\<lambda>_. of_bool x))
      (carried_reader norm_o norm_p S m b) else Inr (carried_reader norm_o norm_p S m b)) =
    Inr (carried_reader norm_o norm_p (insert e S) m b') \<and> bb_feeds rest ts b'"
    by (rule step_bit_if)
      (simp_all add: carried_insert_tguid[OF k] index_set_insert k d l partial_guid_bit carried_guid_same)
  then show ?thesis using k d l(3) by (simp add: read_element_index)
qed

lemma element_guid_byte:
  assumes k: "mse_index MSEGuidByte0 e = Some k" and "list_all (\<lambda>d. d \<in> S) (needs e)"
    "list_all (\<lambda>d. d \<notin> S) (excludes e)" "bb_feeds rest (element_toks norm_o norm_p m e @ ts) b"
  shows "\<exists>b'. read_element e (carried_reader norm_o norm_p S m b) =
    Inr (carried_reader norm_o norm_p (insert e S) m b') \<and> bb_feeds rest ts b'"
proof -
  have l: "k < 8" "k \<notin> index_set MSEGuidByte0 S" "k \<in> index_set MSEGuidBit0 S"
    using k excluded_bytes(3)[OF assms(3) k] needed_bits(1)[OF assms(2) k]
    by (auto simp add: mse_index_def split: if_splits)
  have d: "mse_index MSEGuidBit0 e = None" "mse_index MSETransportGuidBit0 e = None" "mse_index MSETransportGuidByte0 e = None"
    "mse_index MSEGuid2Bit0 e = None" "mse_index MSEGuid2Byte0 e = None"
    by (simp_all add: mse_index_disjoint[OF k] mse_ord_simps)
  have "bb_feeds rest ((if word_byte (guid m) k \<noteq> 0
      then [TBytes (le_bytes (word_byte (guid m) k XOR 1))] else []) @ ts) b"
    using assms(4) d k by (simp add: element_toks_def guid_toks_single split: if_splits)
  then have "\<exists>b'. (if word_byte (guid m) k \<noteq> 0 then rd_val (\<lambda>v. upd_guid k (\<lambda>c. c XOR v))
      (carried_reader norm_o norm_p S m b) else Inr (carried_reader norm_o norm_p S m b)) =
    Inr (carried_reader norm_o norm_p (insert e S) m b') \<and> bb_feeds rest ts b'"
    by (rule step_val_if)
      (simp_all add: carried_insert_guid[OF k] index_set_insert k d l word_byte_partial_guid xor_of_one
         partial_guid_byte partial_guid_skip carried_guid_same)
  then show ?thesis using k d l by (simp add: read_element_index word_byte_partial_guid)
qed

lemma element_tguid_byte:
  assumes k: "mse_index MSETransportGuidByte0 e = Some k" and "list_all (\<lambda>d. d \<in> S) (needs e)"
    "list_all (\<lambda>d. d \<notin> S) (excludes e)" "bb_feeds rest (element_toks norm_o norm_p m e @ ts) b"
  shows "\<exists>b'. read_element e (carried_reader norm_o norm_p S m b) =
    Inr (carried_reader norm_o norm_p (insert e S) m b') \<and> bb_feeds rest ts b'"
proof -
  have l: "k < 8" "k \<notin> index_set MSETransportGuidByte0 S" "k \<in> index_set MSETransportGuidBit0 S"
    "MSEHasTransportData \<in> S"
    using k excluded_bytes(4)[OF assms(3) k] needed_bits(2)[OF assms(2) k]
    by (auto simp add: mse_index_def split: if_splits)
  have d: "mse_index MSEGuidBit0 e = None" "mse_index MSETransportGuidBit0 e = None" "mse_index MSEGuidByte0 e = None"
    "mse_index MSEGuid2Bit0 e = None" "mse_index MSEGuid2Byte0 e = None"
    by (simp_all add: mse_index_disjoint[OF k] mse_ord_simps)
  have "bb_feeds rest ((if has_transport m \<and> word_byte (t_guid m) k \<noteq> 0
      then [TBytes (le_bytes (word_byte (t_guid m) k XOR 1))] else []) @ ts) b"
    using assms(4) d k by (simp add: element_toks_def guid_toks_single split: if_splits)
  then have "\<exists>b'. (if has_transport m \<and> word_byte (t_guid m) k \<noteq> 0
      then rd_val (\<lambda>v. upd_tguid k (\<lambda>c. c XOR v))
      (carried_reader norm_o norm_p S m b) else Inr (carried_reader norm_o norm_p S m b)) =
    Inr (carried_reader norm_o norm_p (insert e S) m b') \<and> bb_feeds rest ts b'"
    by (rule step_val_if)
      (auto simp add: carried_insert_tguid[OF k] index_set_insert k d l word_byte_partial_guid xor_of_one
         partial_guid_byte partial_guid_skip carried_guid_same)
  then show ?thesis
    using k d l by (simp add: read_element_index word_byte_partial_guid split: if_splits)
qed

lemma read_element_carried:
  assumes "writable e" "list_all (\<lambda>d. d \<in> S) (needs e)" "list_all (\<lambda>d. d \<notin> S) (excludes e)"
    "take_bit 30 (moveFlags m) = moveFlags m"
    "take_bit 12 (ucast (moveFlags2 m) :: uint32) = ucast (moveFlags2 m)"
    "bb_feeds rest (element_toks norm_o norm_p m e @ ts) b"
  shows "\<exists>b'. read_element e (carried_reader norm_o norm_p S m b) =
    Inr (carried_reader norm_o norm_p (insert e S) m b') \<and> bb_feeds rest ts b'"
proof (cases "mse_index MSEGuidBit0 e = None \<and> mse_index MSETransportGuidBit0 e = None \<and>
    mse_index MSEGuidByte0 e = None \<and> mse_index MSETransportGuidByte0 e = None")
  case False
  then consider k where "mse_index MSEGuidBit0 e = Some k"
    | k where "mse_index MSETransportGuidBit0 e = Some k"
    | k where "mse_index MSEGuidByte0 e = Some k"
    | k where "mse_index MSETransportGuidByte0 e = Some k"
    by auto
  then show ?thesis
    using assms(2,3,6)
    by cases (auto intro: element_guid_bit element_tguid_bit element_guid_byte element_tguid_byte)
next
  case True
  then have "mse_index MSEGuid2Bit0 e = None" "mse_index MSEGuid2Byte0 e = None"
    using assms(1) by (cases e; simp add: writable_def mse_index_def mse_ord_def)+
  then have "read_element e r = read_switch e r" for r
    using True unfolding mse_index_range by (auto simp add: read_element_def split: if_splits)
  moreover have "bb_feeds rest (switch_toks norm_o norm_p m e @ ts) b"
    using assms(6) True by (simp add: element_toks_def)
  ultimately show ?thesis using True assms(1,2,4,5) by (simp add: read_switch_carried)
qed

section \<open>The loops\<close>

definition body :: "MovementStatusElements list \<Rightarrow> MovementStatusElements list" where
  "body es = takeWhile (\<lambda>e. e \<noteq> MSEEnd) es"

definition sequence_toks ::
  "(float32 \<Rightarrow> float32) \<Rightarrow> (float32 \<Rightarrow> float32) \<Rightarrow> MovementInfo \<Rightarrow> MovementStatusElements list \<Rightarrow> tok list" where
  "sequence_toks norm_o norm_p m es = concat (map (element_toks norm_o norm_p m) (body es))"

lemma write_loop_written:
  assumes "wf_from seen es" "length es \<le> n" "bb_written org (30 * length es + k) ts b"
  shows "\<exists>b'. write_loop norm_o norm_p m n es b = Inr b' \<and>
    bb_written org k (ts @ sequence_toks norm_o norm_p m es) b'"
  using assms
proof (induction es arbitrary: seen n ts b)
  case (Cons e es)
  then obtain n' where n: "n = Suc n'" "length es \<le> n'" by (cases n) auto
  show ?case
  proof (cases "e = MSEEnd")
    case True
    then show ?thesis using Cons.prems bb.written_less[of org _ ts b k] n
      by (auto simp add: sequence_toks_def body_def)
  next
    case False
    then have w: "writable e" "wf_from (e # seen) es" using Cons.prems(1) by (auto split: if_splits)
    have "bb_written org (30 + (30 * length es + k)) ts b" using Cons.prems(3) by (simp add: algebra_simps)
    from write_element_written[OF w(1) this, of norm_o norm_p m] obtain b1 where
      b1: "write_element norm_o norm_p m e b = Inr b1"
        "bb_written org (30 * length es + k) (ts @ element_toks norm_o norm_p m e) b1" by blast
    from Cons.IH[OF w(2) n(2) b1(2)] show ?thesis
      using False n(1) b1(1) by (simp add: sequence_toks_def body_def)
  qed
qed simp

lemma read_loop_carried:
  assumes "wf_from seen es" "length es \<le> n"
    "take_bit 30 (moveFlags m) = moveFlags m"
    "take_bit 12 (ucast (moveFlags2 m) :: uint32) = ucast (moveFlags2 m)"
    "bb_feeds rest (sequence_toks norm_o norm_p m es @ ts) b"
  shows "\<exists>b'. read_loop n es (carried_reader norm_o norm_p (set seen) m b) =
    Inr (carried_reader norm_o norm_p (set seen \<union> set (body es)) m b') \<and> bb_feeds rest ts b'"
  using assms
proof (induction es arbitrary: seen n b)
  case (Cons e es)
  then obtain n' where n: "n = Suc n'" "length es \<le> n'" by (cases n) auto
  show ?case
  proof (cases "e = MSEEnd")
    case True
    then show ?thesis using Cons.prems n by (auto simp add: sequence_toks_def body_def)
  next
    case False
    then have w: "writable e" "list_all (\<lambda>d. d \<in> set seen) (needs e)"
      "list_all (\<lambda>d. d \<notin> set seen) (excludes e)" "wf_from (e # seen) es"
      using Cons.prems(1) by (auto split: if_splits)
    have "bb_feeds rest (element_toks norm_o norm_p m e @ sequence_toks norm_o norm_p m es @ ts) b"
      using Cons.prems(5) False by (simp add: sequence_toks_def body_def)
    from read_element_carried[OF w(1-3) Cons.prems(3,4) this] obtain b1 where
      b1: "read_element e (carried_reader norm_o norm_p (set seen) m b) =
          Inr (carried_reader norm_o norm_p (set (e # seen)) m b1)"
        "bb_feeds rest (sequence_toks norm_o norm_p m es @ ts) b1" by auto
    from Cons.IH[OF w(4) n(2) Cons.prems(3,4) b1(2)] show ?thesis
      using False n(1) b1(1) by (simp add: body_def)
  qed
qed simp

lemma carried_empty: "carried norm_o norm_p {} m = MovementInfo_new"
  by (simp add: carried_def Let_def index_set_def MovementInfo_new_def Position_new_def
      JumpInfo_new_def StatusInfo_new_def)

end
