(* ===== verification/MovementRoundtrip.thy ===== *)
theory MovementRoundtrip
  imports MovementCodec
begin

text \<open>
  The movement codec for every opcode. A sequence is complete when it transfers every field of
  \<open>MovementInfo\<close>; 33 of the 35 sequences are well formed and complete, and for their opcodes a
  packet written by \<open>Write\<close> and flushed is read by \<open>Read\<close> as an explicit view of the written
  object, with no condition on the object but the widths of its two flag words. The two
  others have properties of their own: the fall-reset sequence loses the transport times and
  the change-seats sequence cannot be written at all.
\<close>

section \<open>Complete sequences\<close>

definition transfer_elements :: "MovementStatusElements list" where
  "transfer_elements =
    [MSEFlags, MSEFlags2, MSETimestamp, MSEHasPitch, MSEGuidBit0, MSEGuidBit1, MSEGuidBit2,
     MSEGuidBit3, MSEGuidBit4, MSEGuidBit5, MSEGuidBit6, MSEGuidBit7, MSEHasMovementFlags,
     MSEHasMovementFlags2, MSEHasTimestamp, MSEHasOrientation, MSEHasFallData,
     MSEHasFallDirection, MSEHasTransportData, MSEHasTransportTime2, MSEHasTransportTime3,
     MSETransportGuidBit0, MSETransportGuidBit1, MSETransportGuidBit2, MSETransportGuidBit3,
     MSETransportGuidBit4, MSETransportGuidBit5, MSETransportGuidBit6, MSETransportGuidBit7,
     MSEHasSpline, MSEHasSplineElevation, MSEPositionX, MSEPositionY, MSEPositionZ,
     MSEPositionO, MSEGuidByte0, MSEGuidByte1, MSEGuidByte2, MSEGuidByte3, MSEGuidByte4,
     MSEGuidByte5, MSEGuidByte6, MSEGuidByte7, MSEPitch, MSEFallTime, MSETransportGuidByte0,
     MSETransportGuidByte1, MSETransportGuidByte2, MSETransportGuidByte3,
     MSETransportGuidByte4, MSETransportGuidByte5, MSETransportGuidByte6,
     MSETransportGuidByte7, MSESplineElevation, MSEFallHorizontalSpeed, MSEFallVerticalSpeed,
     MSEFallCosAngle, MSEFallSinAngle, MSETransportSeat, MSETransportPositionO,
     MSETransportPositionX, MSETransportPositionY, MSETransportPositionZ, MSETransportTime,
     MSETransportTime2, MSETransportTime3]"

definition complete_sequence :: "MovementStatusElements list \<Rightarrow> bool" where
  "complete_sequence es \<longleftrightarrow> wf_sequence es \<and> list_all (\<lambda>e. e \<in> set es) transfer_elements"

text \<open>What the reader of a complete packet holds.\<close>

definition wire_view ::
  "(float32 \<Rightarrow> float32) \<Rightarrow> (float32 \<Rightarrow> float32) \<Rightarrow> MovementInfo \<Rightarrow> MovementInfo" where
  "wire_view norm_o norm_p m =
     (let s = si m; T = has_transport m; D = hasFallData s \<and> hasFallDirection s
      in \<lparr>guid = guid m, guid2 = 0, moveFlags = moveFlags m, moveFlags2 = moveFlags2 m,
          mtime = (if hasTimeStamp s then mtime m else 0),
          mpos = (mpos m)\<lparr>pos_o := (if hasOrientation s then norm_o (pos_o (mpos m)) else 0)\<rparr>,
          t_guid = t_guid m,
          t_pos = (if T then (t_pos m)\<lparr>pos_o := norm_o (pos_o (t_pos m))\<rparr> else Position_new),
          t_time = (if T then t_time m else 0), t_seat = (if T then t_seat m else -1),
          t_time2 = (if T \<and> hasTransportTime2 s then t_time2 m else 0),
          s_pitch = (if hasPitch s then norm_p (s_pitch m) else 0),
          fallTime = (if hasFallData s \<or> T \<and> hasTransportTime3 s then fallTime m else 0),
          mjump = \<lparr>velocity = (if hasFallData s then velocity (mjump m) else 0),
                   sinAngle = (if D then sinAngle (mjump m) else 0),
                   cosAngle = (if D then cosAngle (mjump m) else 0),
                   xyspeed = (if D then xyspeed (mjump m) else 0)\<rparr>,
          splineElevation = (if hasSplineElevation s then splineElevation m else 0),
          si = s\<lparr>hasFallDirection := D, hasTransportTime2 := T \<and> hasTransportTime2 s,
                 hasTransportTime3 := T \<and> hasTransportTime3 s\<rparr>,
          byteParam = 0\<rparr>)"

lemma wf_from_body: "wf_from seen es \<Longrightarrow> e \<noteq> MSEEnd \<Longrightarrow> e \<in> set (body es) \<longleftrightarrow> e \<in> set es"
  by (induction seen es rule: wf_from.induct) (auto simp add: body_def split: if_splits)

lemma index_set_full:
  assumes "mse_ord base + 8 \<le> MSE_COUNT" "\<And>e. mse_index base e \<noteq> None \<Longrightarrow> e \<in> S"
  shows "index_set base S = {0..<8}"
proof -
  have "mse_index base (mse_all ! (mse_ord base + k)) = Some k" if "k < 8" for k
    using assms(1) that by (simp add: mse_index_def mse_ord_nth)
  then show ?thesis using assms by (auto simp add: index_set_nth)
qed

lemma index_transferred:
  assumes "mse_index base e \<noteq> None"
    "base \<in> {MSEGuidBit0, MSEGuidByte0, MSETransportGuidBit0, MSETransportGuidByte0}"
  shows "e \<in> set transfer_elements"
  using assms by (cases e; auto simp add: mse_index_def mse_ord_simps transfer_elements_def)

lemma no_transport_guid: "\<not> has_transport m \<Longrightarrow> t_guid m = 0"
  by (simp add: has_transport_def IsEmpty_def)

lemma complete_body:
  assumes "complete_sequence es" "e \<in> set transfer_elements"
  shows "e \<in> set (body es)"
proof -
  have "MSEEnd \<notin> set transfer_elements" by (simp add: transfer_elements_def)
  then have "e \<noteq> MSEEnd" using assms(2) by blast
  moreover have "e \<in> set es" using assms by (auto simp add: complete_sequence_def list_all_iff)
  ultimately show ?thesis
    using assms(1) wf_from_body[of "[]" es e] by (simp add: complete_sequence_def wf_sequence_def)
qed

lemma carried_complete:
  assumes "complete_sequence es"
  shows "carried norm_o norm_p (set (body es)) m = wire_view norm_o norm_p m"
proof -
  define S where "S = set (body es)"
  have S: "list_all (\<lambda>e. e \<in> S) transfer_elements"
    using complete_body[OF assms] by (simp add: S_def list_all_iff)
  have sel: "e \<in> S" if "e \<in> set transfer_elements" for e
    using S that by (simp add: list_all_iff)
  have full: "index_set MSEGuidBit0 S = {0..<8}" "index_set MSEGuidByte0 S = {0..<8}"
    "index_set MSETransportGuidBit0 S = {0..<8}" "index_set MSETransportGuidByte0 S = {0..<8}"
    by (rule index_set_full;
        use index_transferred sel in \<open>simp add: mse_ord_simps MSE_COUNT_def; blast?\<close>)+
  show ?thesis
    using S[unfolded transfer_elements_def list.pred_inject] no_transport_guid[of m]
    by (simp add: S_def[symmetric] carried_def wire_view_def Let_def full partial_guid_all
        Position_new_def)
qed

section \<open>The sequences of the tables\<close>

lemmas sequence_eval = complete_sequence_def wf_sequence_def MSE_COUNT_def transfer_elements_def

lemma complete_tables_1:
  "complete_sequence PlayerMoveSequence"
  "complete_sequence MovementFallLandSequence"
  "complete_sequence MovementHeartBeatSequence"
  "complete_sequence MovementJumpSequence"
  "complete_sequence MovementSetFacingSequence"
  "complete_sequence MovementSetPitchSequence"
  unfolding sequence_eval PlayerMoveSequence_def
    MovementFallLandSequence_def
    MovementHeartBeatSequence_def
    MovementJumpSequence_def
    MovementSetFacingSequence_def
    MovementSetPitchSequence_def
  by (simp_all only: wf_eval)

lemma complete_tables_2:
  "complete_sequence MovementStartBackwardSequence"
  "complete_sequence MovementStartForwardSequence"
  "complete_sequence MovementStartStrafeLeftSequence"
  "complete_sequence MovementStartStrafeRightSequence"
  "complete_sequence MovementStartTurnLeftSequence"
  "complete_sequence MovementStartTurnRightSequence"
  unfolding sequence_eval MovementStartBackwardSequence_def
    MovementStartForwardSequence_def
    MovementStartStrafeLeftSequence_def
    MovementStartStrafeRightSequence_def
    MovementStartTurnLeftSequence_def
    MovementStartTurnRightSequence_def
  by (simp_all only: wf_eval)

lemma complete_tables_3:
  "complete_sequence MovementStopSequence"
  "complete_sequence MovementStopStrafeSequence"
  "complete_sequence MovementStopTurnSequence"
  "complete_sequence MovementStartAscendSequence"
  "complete_sequence MovementStartDescendSequence"
  "complete_sequence MovementStartSwimSequence"
  unfolding sequence_eval MovementStopSequence_def
    MovementStopStrafeSequence_def
    MovementStopTurnSequence_def
    MovementStartAscendSequence_def
    MovementStartDescendSequence_def
    MovementStartSwimSequence_def
  by (simp_all only: wf_eval)

lemma complete_tables_4:
  "complete_sequence MovementStopSwimSequence"
  "complete_sequence MovementStopAscendSequence"
  "complete_sequence MovementStopPitchSequence"
  "complete_sequence MovementStartPitchDownSequence"
  "complete_sequence MovementStartPitchUpSequence"
  "complete_sequence MovementChngTransportSequence"
  unfolding sequence_eval MovementStopSwimSequence_def
    MovementStopAscendSequence_def
    MovementStopPitchSequence_def
    MovementStartPitchDownSequence_def
    MovementStartPitchUpSequence_def
    MovementChngTransportSequence_def
  by (simp_all only: wf_eval)

lemma complete_tables_5:
  "complete_sequence MovementSetRunModeSequence"
  "complete_sequence MovementSetWalkModeSequence"
  "complete_sequence MovementSetCanFlyAckSequence"
  "complete_sequence MovementCastSpellSequence"
  "complete_sequence MovementSplineDoneSequence"
  "complete_sequence DismissControlledVehicleSequence"
  unfolding sequence_eval MovementSetRunModeSequence_def
    MovementSetWalkModeSequence_def
    MovementSetCanFlyAckSequence_def
    MovementCastSpellSequence_def
    MovementSplineDoneSequence_def
    DismissControlledVehicleSequence_def
  by (simp_all only: wf_eval)

lemma complete_tables_6:
  "complete_sequence MoveKnockbackAckSequence"
  "complete_sequence MoveUpdateKnockBackSequence"
  "complete_sequence MoveNotActiveMoverSequence"
  unfolding sequence_eval MoveKnockbackAckSequence_def
    MoveUpdateKnockBackSequence_def
    MoveNotActiveMoverSequence_def
  by (simp_all only: wf_eval)

lemmas complete_tables = complete_tables_1 complete_tables_2 complete_tables_3
  complete_tables_4 complete_tables_5 complete_tables_6

lemma fall_reset_wf: "wf_sequence MovementFallResetSequence"
  unfolding sequence_eval MovementFallResetSequence_def by (simp_all only: wf_eval)

lemma opcode_complete:
  "GetMovementStatusElementsSequence opcode = Some es \<Longrightarrow>
    opcode \<noteq> CMSG_CHANGE_SEATS_ON_CONTROLLED_VEHICLE \<Longrightarrow> opcode \<noteq> CMSG_MOVE_FALL_RESET \<Longrightarrow>
    complete_sequence es"
  by (auto simp only: GetMovementStatusElementsSequence_def complete_tables option.inject
      option.distinct split: if_splits)

lemma sequence_nonempty: "wf_sequence es \<Longrightarrow> 30 * length es \<le> 2580"
  by (simp add: wf_sequence_def MSE_COUNT_def)

lemma take_bit_less: "unat (w :: 'a::len word) < 2 ^ n \<Longrightarrow> take_bit n w = w"
  by (rule bit_word_eqI) (auto simp add: bit_take_bit_iff dest: word_bit_bound)

lemma wf_roundtrip:
  assumes "GetMovementStatusElementsSequence opcode = Some es" "wf_sequence es"
    "unat (moveFlags m) < 2 ^ 30" "unat (moveFlags2 m) < 2 ^ 12"
    "bb_sent org [] b" "length org + 2581 \<le> 10000000"
  shows "\<exists>b1 b2 bs. Write norm_o norm_p m opcode b = Inr b1 \<and> FlushBits b1 = Inr b2 \<and>
    bb_sent org bs b2 \<and>
    (\<forall>r rest. bb_unread (bs @ rest) r \<longrightarrow>
      (\<exists>r'. Read opcode MovementInfo_new r = Inr (carried norm_o norm_p (set (body es)) m, r') \<and>
            bb_rest r' = rest))"
proof -
  have w: "bb_written org (30 * length es + 1) [] b"
    using assms(5,6) sequence_nonempty[OF assms(2)]
    by (simp add: bb_written_def bb_sent_def wire_run_def)
  have wf: "wf_from [] es" "length es \<le> MSE_COUNT" using assms(2) by (simp_all add: wf_sequence_def)
  from write_loop_written[OF wf w, of norm_o norm_p m] obtain b1 where
    b1: "write_loop norm_o norm_p m MSE_COUNT es b = Inr b1"
      "bb_written org 1 (sequence_toks norm_o norm_p m es) b1" by auto
  from bb.flush_sent[of org 0] b1(2) obtain b2 where
    b2: "FlushBits b1 = Inr b2" "bb_sent org (wire_bytes (sequence_toks norm_o norm_p m es)) b2" by auto
  have f: "take_bit 30 (moveFlags m) = moveFlags m" using assms(3) by (simp add: take_bit_less)
  have f2: "take_bit 12 (ucast (moveFlags2 m) :: uint32) = ucast (moveFlags2 m)"
    using word_bit_bound[OF assms(4)]
    by (intro bit_word_eqI) (auto simp add: bit_take_bit_iff bit_ucast_iff)
  have "\<exists>r'. Read opcode MovementInfo_new r = Inr (carried norm_o norm_p (set (body es)) m, r') \<and>
      bb_rest r' = rest"
    if "bb_unread (wire_bytes (sequence_toks norm_o norm_p m es) @ rest) r" for r rest
  proof -
    have "bb_feeds rest (sequence_toks norm_o norm_p m es @ []) r"
      using bb.unread_feeds[OF that] by simp
    from read_loop_carried[OF wf f f2 this] obtain r' where
      "read_loop MSE_COUNT es (carried_reader norm_o norm_p {} m r) =
         Inr (carried_reader norm_o norm_p (set (body es)) m r')" "bb_feeds rest [] r'" by auto
    then show ?thesis using assms(1) bb.feeds_done
      by (auto simp add: Read_def carried_reader_def carried_empty)
  qed
  then show ?thesis using assms(1) b1(1) b2 by (auto simp add: Write_def)
qed

lemma fall_reset_elements:
  "list_all (\<lambda>e. e \<in> set MovementFallResetSequence \<or> e = MSETransportTime \<or> e = MSETransportTime3)
     transfer_elements"
  "MSETransportTime \<notin> set MovementFallResetSequence"
  "MSETransportTime3 \<notin> set MovementFallResetSequence"
  unfolding transfer_elements_def MovementFallResetSequence_def by (simp_all only: wf_eval)

lemma carried_fall_reset:
  "carried norm_o norm_p (set (body MovementFallResetSequence)) m = (wire_view norm_o norm_p m)
     \<lparr>t_time := 0, fallTime := (if hasFallData (si m) then fallTime m else 0)\<rparr>"
proof -
  define S where "S = set (body MovementFallResetSequence)"
  have mem: "e \<in> S \<longleftrightarrow> e \<in> set MovementFallResetSequence" if "e \<noteq> MSEEnd" for e
    using wf_from_body[OF _ that] fall_reset_wf by (auto simp add: S_def wf_sequence_def)
  have "MSEEnd \<notin> set transfer_elements" by (simp add: transfer_elements_def)
  then have S: "list_all (\<lambda>e. e \<in> S \<or> e = MSETransportTime \<or> e = MSETransportTime3) transfer_elements"
    using fall_reset_elements(1) mem unfolding list_all_iff by metis
  have no: "MSETransportTime \<notin> S" "MSETransportTime3 \<notin> S"
    using fall_reset_elements(2,3) by (simp_all add: mem)
  have sel: "e \<in> S" if "e \<in> set transfer_elements" "e \<noteq> MSETransportTime" "e \<noteq> MSETransportTime3" for e
    using S that by (auto simp add: list_all_iff)
  have index: "e \<in> S" if "mse_index base e \<noteq> None"
    "base \<in> {MSEGuidBit0, MSEGuidByte0, MSETransportGuidBit0, MSETransportGuidByte0}" for e base
    using that by (intro sel index_transferred[OF that]) (auto simp add: mse_index_def mse_ord_simps)
  have full: "index_set MSEGuidBit0 S = {0..<8}" "index_set MSEGuidByte0 S = {0..<8}"
    "index_set MSETransportGuidBit0 S = {0..<8}" "index_set MSETransportGuidByte0 S = {0..<8}"
    by (rule index_set_full; use index in \<open>simp add: mse_ord_simps MSE_COUNT_def; blast?\<close>)+
  show ?thesis
    using S[unfolded transfer_elements_def list.pred_inject] no no_transport_guid[of m]
    by (simp add: S_def[symmetric] carried_def wire_view_def Let_def full partial_guid_all
        Position_new_def)
qed

section \<open>No sequence is overrun\<close>

definition terminated :: "MovementStatusElements list \<Rightarrow> bool" where
  "terminated es \<longleftrightarrow> length es \<le> MSE_COUNT \<and> es = body es @ [MSEEnd]"

lemma wf_from_terminated: "wf_from seen es \<Longrightarrow> es = body es @ [MSEEnd]"
  by (induction seen es rule: wf_from.induct) (auto simp add: body_def split: if_splits)

lemma change_seats_terminated: "terminated ChangeSeatsOnControlledVehicleSequence"
  by (simp add: terminated_def body_def ChangeSeatsOnControlledVehicleSequence_def MSE_COUNT_def)

lemma opcode_wf:
  assumes "GetMovementStatusElementsSequence opcode = Some es"
    "opcode \<noteq> CMSG_CHANGE_SEATS_ON_CONTROLLED_VEHICLE"
  shows "wf_sequence es"
proof (cases "opcode = CMSG_MOVE_FALL_RESET")
  case True
  then show ?thesis using assms(1) fall_reset_wf by (simp add: GetMovementStatusElementsSequence_def)
next
  case False
  then show ?thesis using opcode_complete[OF assms False] by (simp add: complete_sequence_def)
qed

lemma opcode_terminated:
  assumes "GetMovementStatusElementsSequence opcode = Some es"
  shows "terminated es"
proof (cases "opcode = CMSG_CHANGE_SEATS_ON_CONTROLLED_VEHICLE")
  case True
  then show ?thesis using assms change_seats_terminated
    by (simp add: GetMovementStatusElementsSequence_def)
next
  case False
  then show ?thesis using opcode_wf[OF assms False] wf_from_terminated
    by (auto simp add: wf_sequence_def terminated_def)
qed

section \<open>A sequence that cannot be written\<close>

lemma not_writable: "\<not> writable e \<Longrightarrow> write_element norm_o norm_p m e b = Inl AssertFailed"
  by (cases e; simp add: writable_def)
    (simp_all add: write_element_def write_switch_def less_eq_MovementStatusElements_def mse_ord_simps)

lemma write_loop_stuck:
  assumes "list_all (\<lambda>e. writable e) xs" "\<not> writable e" "e \<noteq> MSEEnd" "length xs < n"
    "bb_written org (30 * length xs + k) ts b"
  shows "write_loop norm_o norm_p m n (xs @ e # es) b = Inl AssertFailed"
  using assms
proof (induction xs arbitrary: n ts b)
  case Nil
  then show ?case by (cases n) (simp_all add: not_writable)
next
  case (Cons x xs)
  then obtain n' where n: "n = Suc n'" "length xs < n'" by (cases n) auto
  have x: "writable x" "x \<noteq> MSEEnd" using Cons.prems(1) by (auto simp add: writable_def)
  have "bb_written org (30 + (30 * length xs + k)) ts b" using Cons.prems(5) by (simp add: algebra_simps)
  from write_element_written[OF x(1) this, of norm_o norm_p m] obtain b1 where
    "write_element norm_o norm_p m x b = Inr b1"
    "bb_written org (30 * length xs + k) (ts @ element_toks norm_o norm_p m x) b1" by blast
  then show ?case using Cons.IH Cons.prems n x(2) by simp
qed

section \<open>Properties\<close>

text \<open>
  C1. For every movement opcode but two, the packet \<open>Write\<close> builds and \<open>FlushBits\<close> completes
  is read back by \<open>Read\<close> as the written object seen through its presence flags, and the reader
  stops exactly at the end of the movement block: all flags, positions, both guids, jump, fall,
  transport and spline fields survive, and fields whose flag is off come out as the
  constructor leaves them.
\<close>

theorem movement_roundtrip:
  assumes "GetMovementStatusElementsSequence opcode = Some es"
    "opcode \<noteq> CMSG_CHANGE_SEATS_ON_CONTROLLED_VEHICLE" "opcode \<noteq> CMSG_MOVE_FALL_RESET"
    "unat (moveFlags m) < 2 ^ 30" "unat (moveFlags2 m) < 2 ^ 12"
    "bb_sent org [] b" "length org + 2581 \<le> 10000000"
  shows "\<exists>b1 b2 bs. Write norm_o norm_p m opcode b = Inr b1 \<and> FlushBits b1 = Inr b2 \<and>
    bb_sent org bs b2 \<and>
    (\<forall>r rest. bb_unread (bs @ rest) r \<longrightarrow>
      (\<exists>r'. Read opcode MovementInfo_new r = Inr (wire_view norm_o norm_p m, r') \<and>
            bb_rest r' = rest))"
  using wf_roundtrip[OF assms(1) opcode_wf[OF assms(1,2)] assms(4-7), of norm_o norm_p]
  unfolding carried_complete[OF opcode_complete[OF assms(1-3)]] .

definition sample_move :: MovementInfo where
  "sample_move = MovementInfo_new\<lparr>guid := 0x0F13000CB5000A17, moveFlags := 0x1001,
     mpos := \<lparr>pos_x = 0x44FA0000, pos_y = 0xC2C80000, pos_z = 0x41200000, pos_o = 0x3F800000\<rparr>,
     t_guid := 0x1FC0000000000005, t_seat := 1, t_time := 77,
     si := StatusInfo_new\<lparr>hasOrientation := True, hasTransportTime3 := True\<rparr>\<rparr>"

lemma movement_roundtrip_witness:
  "\<exists>b1 b2 bs. Write (\<lambda>x. x) (\<lambda>x. x) sample_move CMSG_MOVE_STOP bb_new = Inr b1 \<and>
    FlushBits b1 = Inr b2 \<and> bb_sent [] bs b2 \<and>
    (\<forall>r rest. bb_unread (bs @ rest) r \<longrightarrow>
      (\<exists>r'. Read CMSG_MOVE_STOP MovementInfo_new r = Inr (wire_view (\<lambda>x. x) (\<lambda>x. x) sample_move, r') \<and>
            bb_rest r' = rest))"
  by (rule movement_roundtrip[of _ MovementStopSequence])
    (simp_all add: GetMovementStatusElementsSequence_def sample_move_def MovementInfo_new_def
       bb_sent_def bb_new_def)

text \<open>
  The fall-reset packet does not transfer \<open>t_time\<close>, and \<open>fallTime\<close> only when the fall
  data are present: its sequence repeats \<open>MSEHasTransportTime3\<close> and lists neither
  \<open>MSETransportTime\<close> nor \<open>MSETransportTime3\<close>. Every other field survives.
\<close>

theorem fall_reset_loses_transport_time:
  assumes "unat (moveFlags m) < 2 ^ 30" "unat (moveFlags2 m) < 2 ^ 12"
    "bb_sent org [] b" "length org + 2581 \<le> 10000000"
  shows "\<exists>b1 b2 bs. Write norm_o norm_p m CMSG_MOVE_FALL_RESET b = Inr b1 \<and>
    FlushBits b1 = Inr b2 \<and> bb_sent org bs b2 \<and>
    (\<forall>r rest. bb_unread (bs @ rest) r \<longrightarrow>
      (\<exists>r'. Read CMSG_MOVE_FALL_RESET MovementInfo_new r =
         Inr ((wire_view norm_o norm_p m)
                \<lparr>t_time := 0, fallTime := (if hasFallData (si m) then fallTime m else 0)\<rparr>, r') \<and>
            bb_rest r' = rest))"
proof -
  have "GetMovementStatusElementsSequence CMSG_MOVE_FALL_RESET = Some MovementFallResetSequence"
    by (simp add: GetMovementStatusElementsSequence_def)
  from wf_roundtrip[OF this fall_reset_wf assms, of norm_o norm_p]
  show ?thesis unfolding carried_fall_reset .
qed

lemma fall_reset_loses_transport_time_witness:
  "\<exists>b1 b2 bs. Write (\<lambda>x. x) (\<lambda>x. x) sample_move CMSG_MOVE_FALL_RESET bb_new = Inr b1 \<and>
    FlushBits b1 = Inr b2 \<and> bb_sent [] bs b2 \<and>
    (\<forall>r rest. bb_unread (bs @ rest) r \<longrightarrow>
      (\<exists>r'. Read CMSG_MOVE_FALL_RESET MovementInfo_new r =
         Inr ((wire_view (\<lambda>x. x) (\<lambda>x. x) sample_move)
                \<lparr>t_time := 0, fallTime := (if hasFallData (si sample_move) then fallTime sample_move else 0)\<rparr>,
              r') \<and> bb_rest r' = rest)) \<and> t_time sample_move = 77"
  using fall_reset_loses_transport_time[of sample_move "[]" bb_new "\<lambda>x. x" "\<lambda>x. x"]
  by (simp add: sample_move_def MovementInfo_new_def bb_sent_def bb_new_def)

text \<open>
  C38. The change-seats packet cannot be written: whatever the object, \<open>Write\<close> reaches
  \<open>MSEByteParam\<close>, an element it has no case for, and aborts. (\<open>Read\<close> handles the packet.)
\<close>

theorem change_seats_write_aborts:
  assumes "bb_sent org [] b" "length org + 90 \<le> 10000000"
  shows "Write norm_o norm_p m CMSG_CHANGE_SEATS_ON_CONTROLLED_VEHICLE b = Inl AssertFailed"
proof -
  define xs where "xs = [MSEPositionY, MSEPositionX, MSEPositionZ]"
  obtain es where es: "ChangeSeatsOnControlledVehicleSequence = xs @ MSEByteParam # es"
    unfolding ChangeSeatsOnControlledVehicleSequence_def xs_def by simp
  have w: "bb_written org (30 * length xs + 0) [] b"
    using assms by (simp add: bb_written_def bb_sent_def wire_run_def xs_def)
  have "write_loop norm_o norm_p m MSE_COUNT (xs @ MSEByteParam # es) b = Inl AssertFailed"
    by (rule write_loop_stuck[OF _ _ _ _ w]) (simp_all add: xs_def writable_def MSE_COUNT_def)
  then show ?thesis by (simp add: Write_def GetMovementStatusElementsSequence_def es)
qed

lemma change_seats_write_aborts_witness:
  "Write (\<lambda>x. x) (\<lambda>x. x) sample_move CMSG_CHANGE_SEATS_ON_CONTROLLED_VEHICLE bb_new = Inl AssertFailed"
  by (rule change_seats_write_aborts[of "[]"]) (simp_all add: bb_sent_def bb_new_def)

text \<open>
  No sequence is overrun: every table the opcode switch can return ends in its only
  \<open>MSEEnd\<close> and has at most \<open>MSE_COUNT\<close> entries, so the loops of \<open>Read\<close> and \<open>Write\<close> leave it
  at its end; an opcode outside the switch leaves object and packet as they are.
\<close>

theorem sequences_terminated:
  "(case GetMovementStatusElementsSequence opcode of
      Some es \<Rightarrow> length es \<le> MSE_COUNT \<and> last es = MSEEnd \<and> MSEEnd \<notin> set (butlast es) \<and> es \<noteq> []
    | None \<Rightarrow> Read opcode m b = Inr (m, b) \<and> Write norm_o norm_p m opcode b = Inr b)"
proof (cases "GetMovementStatusElementsSequence opcode")
  case None
  then show ?thesis by (simp add: Read_def Write_def)
next
  case (Some es)
  then have "length es \<le> MSE_COUNT" "es = body es @ [MSEEnd]"
    using opcode_terminated by (auto simp add: terminated_def)
  moreover have "MSEEnd \<notin> set (body es)" by (auto simp add: body_def dest: set_takeWhileD)
  ultimately have "last es = MSEEnd \<and> MSEEnd \<notin> set (butlast es) \<and> es \<noteq> []"
    by (metis append_is_Nil_conv butlast_snoc last_snoc list.distinct(1))
  with \<open>length es \<le> MSE_COUNT\<close> Some show ?thesis by simp
qed

end
