(* ===== verification/ReadSafety.thy ===== *)
theory ReadSafety
  imports MovementRoundtrip
begin

text \<open>
  Reading an arbitrary packet. The bytes of a packet come from the peer, so every reader has to
  cope with any content: it must not look outside the packet, must not abort the server, and may
  fail only with the exception the packet handlers catch. The contract is the locale
  \<open>safe_reader\<close>; every reader of the packet buffer is an instance, and \<open>MovementInfo::Read\<close>
  inherits the contract for every opcode.
\<close>

section \<open>The contract\<close>

definition bb_ok :: "ByteBuffer \<Rightarrow> bool" where
  "bb_ok b \<longleftrightarrow> rpos b \<le> bb_size b \<and> bb_size b < 2 ^ 63 \<and> bitpos b \<le> 8"

definition bb_advanced :: "ByteBuffer \<Rightarrow> ByteBuffer \<Rightarrow> bool" where
  "bb_advanced b b' \<longleftrightarrow> bb_ok b' \<and> storage b' = storage b \<and> rpos b \<le> rpos b'"

definition read_overrun :: "ByteBuffer \<Rightarrow> fault \<Rightarrow> bool" where
  "read_overrun b e \<longleftrightarrow> (\<exists>pos n. e = ByteBufferException False pos n (bb_size b) \<and> bb_size b < pos + n)"

lemma read_overrun_simps [simp]:
  "read_overrun b (ByteBufferException add pos n sz) \<longleftrightarrow> \<not> add \<and> sz = bb_size b \<and> sz < pos + n"
  "\<not> read_overrun b AssertFailed"
  "\<not> read_overrun b Undefined"
  by (auto simp add: read_overrun_def)

definition safe_outcome :: "('r \<Rightarrow> ByteBuffer) \<Rightarrow> ByteBuffer \<Rightarrow> 'r result \<Rightarrow> bool" where
  "safe_outcome buf b res \<longleftrightarrow>
     (case res of Inl e \<Rightarrow> read_overrun b e | Inr r \<Rightarrow> bb_advanced b (buf r))"

lemma bb_advanced_refl [simp]: "bb_ok b \<Longrightarrow> bb_advanced b b"
  by (simp add: bb_advanced_def)

lemma bb_advanced_trans: "bb_advanced a b \<Longrightarrow> bb_advanced b c \<Longrightarrow> bb_advanced a c"
  by (auto simp add: bb_advanced_def)

lemma safe_outcome_simps [simp]:
  "safe_outcome buf b (Inl e) \<longleftrightarrow> read_overrun b e"
  "safe_outcome buf b (Inr r) \<longleftrightarrow> bb_advanced b (buf r)"
  by (simp_all add: safe_outcome_def)

lemma safe_outcome_bind:
  assumes "safe_outcome buf b r" "\<And>x. r = Inr x \<Longrightarrow> bb_ok (buf x) \<Longrightarrow> safe_outcome buf' (buf x) (f x)"
  shows "safe_outcome buf' b (bindR r f)"
proof (cases r)
  case (Inl e)
  then show ?thesis using assms(1) by simp
next
  case (Inr x)
  then have adv: "bb_advanced b (buf x)" using assms(1) by simp
  then have "safe_outcome buf' (buf x) (f x)" using assms(2) Inr by (simp add: bb_advanced_def)
  with adv show ?thesis unfolding Inr 
    by (cases "f x") (auto intro: bb_advanced_trans simp add: read_overrun_def bb_advanced_def)
qed

locale safe_reader =
  fixes reader :: "ByteBuffer \<Rightarrow> ('a \<times> ByteBuffer) result"
  assumes safe: "bb_ok b \<Longrightarrow> safe_outcome snd b (reader b)"
begin

lemma then_safe:
  assumes "bb_ok b" "\<And>x b'. reader b = Inr (x, b') \<Longrightarrow> bb_ok b' \<Longrightarrow> safe_outcome buf b' (f (x, b'))"
  shows "safe_outcome buf b (bindR (reader b) f)"
  by (rule safe_outcome_bind[OF safe[OF assms(1)]]) (use assms(2) in auto)

lemma no_abort: "bb_ok b \<Longrightarrow> reader b \<noteq> Inl AssertFailed \<and> reader b \<noteq> Inl Undefined"
  using safe[of b] by auto

lemma within: "bb_ok b \<Longrightarrow> reader b = Inr (x, b') \<Longrightarrow> rpos b \<le> rpos b' \<and> rpos b' \<le> bb_size b"
  using safe[of b] by (auto simp add: bb_advanced_def bb_ok_def)

lemma items_safe: "bb_ok b \<Longrightarrow> safe_outcome snd b (read_items reader n v b)"
proof (induction n arbitrary: v b)
  case (Suc n)
  then show ?case by (auto intro!: then_safe split: prod.split)
qed simp

end

section \<open>The typed readers\<close>

lemma read_T_safe:
  assumes "bb_ok b" "8 dvd LENGTH('a::len)" "LENGTH('a) \<le> 64"
  shows "safe_outcome snd b (read_T b :: ('a word \<times> ByteBuffer) result)"
proof -
  have n: "sizeof TYPE('a) \<le> 8" using assms(3) by (simp add: sizeof_def)
  then have "size_add (rpos b) (sizeof TYPE('a)) = rpos b + sizeof TYPE('a)"
    using assms(1) by (simp add: bb_ok_def size_add_small)
  then show ?thesis using assms(1)
    by (auto simp add: read_T_def read_at_def ResetBitReader_def Let_def bb_advanced_def bb_ok_def)
qed

interpretation rd8: safe_reader "read_T :: ByteBuffer \<Rightarrow> (uint8 \<times> ByteBuffer) result"
  by unfold_locales (simp add: read_T_safe)

interpretation rd16: safe_reader "read_T :: ByteBuffer \<Rightarrow> (uint16 \<times> ByteBuffer) result"
  by unfold_locales (simp add: read_T_safe)

interpretation rd32: safe_reader "read_T :: ByteBuffer \<Rightarrow> (uint32 \<times> ByteBuffer) result"
  by unfold_locales (simp add: read_T_safe)

interpretation rd64: safe_reader "read_T :: ByteBuffer \<Rightarrow> (uint64 \<times> ByteBuffer) result"
  by unfold_locales (simp add: read_T_safe)

interpretation rd_bool: safe_reader read_bool
  by unfold_locales
    (auto simp add: read_bool_def intro!: rd8.then_safe split: prod.split)

interpretation rd_boolean: safe_reader ReadBoolean
  by unfold_locales
    (auto simp add: ReadBoolean_def intro!: rd8.then_safe split: prod.split)

interpretation rd_bit: safe_reader ReadBit
proof unfold_locales
  fix b assume ok: "bb_ok b"
  then have bp: "size_add (bitpos b) (Suc 0) = Suc (bitpos b)"
    by (simp add: bb_ok_def size_add_small)
  show "safe_outcome snd b (ReadBit b)"
  proof (cases "7 < Suc (bitpos b)")
    case True
    have "read_T (b\<lparr>bitpos := Suc (bitpos b)\<rparr>) = (read_T b :: (uint8 \<times> ByteBuffer) result)"
      by (simp add: read_T_def ResetBitReader_def)
    moreover have "safe_outcome snd b (bindR (read_T b)
        (\<lambda>(c :: uint8, b). Inr (bit c 7, b\<lparr>curbitval := c, bitpos := 0\<rparr>)))"
      using ok by (intro rd8.then_safe) (auto simp add: bb_advanced_def bb_ok_def)
    ultimately show ?thesis using True by (simp add: ReadBit_def Let_def bp del: bindR_simps)
  next
    case False
    then show ?thesis using ok
      by (simp add: ReadBit_def Let_def bp bb_advanced_def bb_ok_def)
  qed
qed

lemma ReadBits_from_safe: "bb_ok b \<Longrightarrow> n \<le> 32 \<Longrightarrow> safe_outcome snd b (ReadBits_from v n b)"
proof (induction n arbitrary: v b)
  case (Suc n)
  then show ?case by (auto intro!: rd_bit.then_safe split: prod.split)
qed simp

lemma ReadBits_safe: "n \<le> 32 \<Longrightarrow> safe_reader (ReadBits n)"
  by unfold_locales (simp add: ReadBits_def ReadBits_from_safe)

interpretation rd_string: safe_reader read_string
proof unfold_locales
  have "bb_ok b \<Longrightarrow> safe_outcome snd b (read_string_loop acc b)" for acc b
  proof (induction acc b rule: read_string_loop.induct)
    case (1 acc b)
    show ?case
      by (subst read_string_loop.simps)
        (use 1 in \<open>auto intro!: safe_outcome_bind[OF rd8.safe] split: prod.split\<close>)
  qed
  then show "bb_ok b \<Longrightarrow> safe_outcome snd b (read_string b)" for b by (simp add: read_string_def)
qed

interpretation rd_count: safe_reader "ReadString count"
proof unfold_locales
  have "bb_ok b \<Longrightarrow> safe_outcome snd b (read_count_loop lim out b)" for lim out b
  proof (induction lim out b rule: read_count_loop.induct)
    case (1 lim out b)
    show ?case
      by (subst read_count_loop.simps)
        (use 1 in \<open>auto intro!: safe_outcome_bind[OF rd8.safe] split: prod.split\<close>)
  qed
  then show "bb_ok b \<Longrightarrow> safe_outcome snd b (ReadString count b)" for b by (simp add: ReadString_def)
qed

lemma unpack_loop_safe: "bb_ok b \<Longrightarrow> safe_outcome snd b (unpack_loop is mark g b)"
  by (induction "is" mark g b rule: unpack_loop.induct)
    (auto intro!: rd8.then_safe split: prod.split)

interpretation rd_packed: safe_reader readPackGUID
  by unfold_locales
    (auto simp add: readPackGUID_def intro!: rd8.then_safe unpack_loop_safe split: prod.split)

lemma ReadGuidMask_safe:
  "bb_ok b \<Longrightarrow> list_all (\<lambda>k. k < 8) ks \<Longrightarrow> safe_outcome snd b (ReadGuidMask ks g b)"
  by (induction ks g b rule: ReadGuidMask.induct)
    (auto intro!: rd_bit.then_safe split: prod.split)

lemma ReadGuidBytes_safe:
  "bb_ok b \<Longrightarrow> list_all (\<lambda>k. k < 8) ks \<Longrightarrow> safe_outcome snd b (ReadGuidBytes ks g b)"
  by (induction ks g b rule: ReadGuidBytes.induct)
    (auto intro!: rd8.then_safe split: prod.split)

text \<open>A vector of any safely read element type.\<close>

context safe_reader
begin

lemma vector_safe: "safe_reader (read_vector reader)"
  by unfold_locales
    (auto simp add: read_vector_def intro!: rd32.then_safe items_safe split: prod.split)

end

section \<open>Movement packets\<close>

definition safe_move :: "MoveReader \<Rightarrow> MoveReader result \<Rightarrow> bool" where
  "safe_move r res \<longleftrightarrow> safe_outcome rdata (rdata r) res"

lemma safe_move_keep: "bb_ok (rdata r) \<Longrightarrow> safe_move r (Inr r)"
  by (simp add: safe_move_def)

lemma rd_bit_safe:
  "bb_ok (rdata r) \<Longrightarrow> (\<And>x b. rdata (f x (r\<lparr>rdata := b\<rparr>)) = b) \<Longrightarrow> safe_move r (rd_bit f r)"
  by (auto simp add: rd_bit_def safe_move_def intro!: rd_bit.then_safe)

lemma rd_val_safe:
  fixes f :: "'a::len word \<Rightarrow> MoveReader \<Rightarrow> MoveReader"
  assumes "bb_ok (rdata r)" "\<And>v b. rdata (f v (r\<lparr>rdata := b\<rparr>)) = b"
    "8 dvd LENGTH('a)" "LENGTH('a) \<le> 64"
  shows "safe_move r (rd_val f r)"
  unfolding rd_val_def safe_move_def
  by (rule safe_outcome_bind[OF read_T_safe[OF assms(1,3,4)]]) (use assms(2) in auto)

lemma rd_bits_safe:
  "bb_ok (rdata r) \<Longrightarrow> n \<le> 32 \<Longrightarrow> (\<And>v b. rdata (f v (r\<lparr>rdata := b\<rparr>)) = b) \<Longrightarrow>
    safe_move r (rd_bits n f r)"
  by (auto simp add: rd_bits_def safe_move_def intro!: safe_reader.then_safe[OF ReadBits_safe])

lemma rd_skip_safe: "bb_ok (rdata r) \<Longrightarrow> safe_move r (rd_skip 4 r)"
  by (auto simp add: rd_skip_def read_skip_def safe_move_def ResetBitReader_def Let_def
      size_add_small bb_ok_def bb_advanced_def)

lemmas move_safe = rd_bit_safe rd_val_safe rd_bits_safe rd_skip_safe safe_move_keep

lemma read_switch_safe:
  assumes "bb_ok (rdata r)" "e \<noteq> MSEEnd"
    "mse_index MSEGuidBit0 e = None" "mse_index MSEGuid2Bit0 e = None"
    "mse_index MSETransportGuidBit0 e = None" "mse_index MSEGuidByte0 e = None"
    "mse_index MSEGuid2Byte0 e = None" "mse_index MSETransportGuidByte0 e = None"
  shows "safe_move r (read_switch e r)"
  using assms
  by (cases e;
      simp only: mse_index_def mse_ord_simps read_switch_def MovementStatusElements.case;
      simp add: move_safe)

lemma read_element_safe:
  assumes "bb_ok (rdata r)" "e \<noteq> MSEEnd"
  shows "safe_move r (read_element e r)"
  unfolding read_element_index
  using assms by (auto simp add: move_safe read_switch_safe split: option.split)

lemma read_loop_safe:
  "bb_ok (rdata r) \<Longrightarrow> MSEEnd \<in> set es \<or> n \<le> length es \<Longrightarrow> safe_outcome rdata (rdata r) (read_loop n es r)"
proof (induction n es r rule: read_loop.induct)
  case (3 n e sequence r)
  then show ?case
    using read_element_safe[of r e]
    by (auto simp add: safe_move_def intro!: safe_outcome_bind[where buf = rdata])
qed auto

text \<open>
  C2. \<open>MovementInfo::Read\<close> is safe on any packet: for every opcode, every object and every
  content and read position it never reaches an assertion or reads outside a sequence or the
  packet; it either returns with a read position inside the unchanged packet or throws the
  exception of a read past the end.
\<close>

theorem movement_read_safe:
  assumes "rpos b \<le> bb_size b" "bb_size b < 2 ^ 63" "bitpos b \<le> 8"
  shows "case Read opcode m b of
      Inl e \<Rightarrow> (\<exists>pos n. e = ByteBufferException False pos n (bb_size b) \<and> bb_size b < pos + n)
    | Inr (m', b') \<Rightarrow> storage b' = storage b \<and> rpos b \<le> rpos b' \<and> rpos b' \<le> bb_size b"
proof -
  have ok: "bb_ok b" using assms by (simp add: bb_ok_def)
  have "safe_outcome snd b (Read opcode m b)"
  proof (cases "GetMovementStatusElementsSequence opcode")
    case None
    then show ?thesis using ok by (simp add: Read_def)
  next
    case (Some es)
    from opcode_terminated[OF Some] have "es = body es @ [MSEEnd]" by (simp add: terminated_def)
    then have "MSEEnd \<in> set es" by (metis in_set_conv_decomp)
    then show ?thesis using ok Some
      by (auto simp add: Read_def intro!: safe_outcome_bind[where buf = rdata]
          read_loop_safe[where r = "\<lparr>info = m, rdata = b, hasTransportData = False,
            hasMovementFlags = False, hasMovementFlags2 = False\<rparr>", simplified])
  qed
  then show ?thesis
    by (cases "Read opcode m b") (auto simp add: bb_advanced_def bb_ok_def read_overrun_def)
qed

theorem movement_read_safe_witness:
  "case Read CMSG_MOVE_STOP sample_move (bb_new\<lparr>storage := [1, 2, 3]\<rparr>) of
      Inl e \<Rightarrow> (\<exists>pos n. e = ByteBufferException False pos n (bb_size (bb_new\<lparr>storage := [1, 2, 3]\<rparr>))
        \<and> bb_size (bb_new\<lparr>storage := [1, 2, 3]\<rparr>) < pos + n)
    | Inr (m', b') \<Rightarrow> storage b' = storage (bb_new\<lparr>storage := [1, 2, 3]\<rparr>)
        \<and> rpos (bb_new\<lparr>storage := [1, 2, 3]\<rparr>) \<le> rpos b'
        \<and> rpos b' \<le> bb_size (bb_new\<lparr>storage := [1, 2, 3]\<rparr>)"
  by (rule movement_read_safe) (simp_all add: bb_new_def)

end
