(* ===== verification/UpdateMask.thy ===== *)
theory UpdateMask
  imports Prelude
begin

text \<open>
  The change mask of an object's update fields (class \<open>UpdateMask\<close> of
  src/src/game/UpdateMask.h). The blocks are 32-bit words, but bits are set and tested through
  a byte pointer to them; the memory of a word is its bytes in little-endian order, as on the
  hosts the server is built for. An access past the allocated blocks is \<open>Undefined\<close>.

  The mask is shown to be a finite set of field indices: every operation is the set operation
  its name says, for indices below the capacity. The contract is the locale \<open>field_set\<close>.
\<close>

section \<open>The class\<close>

record UpdateMask =
  m_Count :: uint32
  m_Blocks :: uint32
  m_UpdateMask :: "uint32 list"

definition UpdateMask_new :: UpdateMask where
  "UpdateMask_new = \<lparr>m_Count = 0, m_Blocks = 0, m_UpdateMask = []\<rparr>"

text \<open>The byte view \<open>(uint8*)m_UpdateMask\<close>.\<close>

definition mask_byte :: "uint32 list \<Rightarrow> nat \<Rightarrow> uint8" where
  "mask_byte ws j = word_byte (ws ! (j div 4)) (j mod 4)"

definition mask_put_byte :: "uint32 list \<Rightarrow> nat \<Rightarrow> uint8 \<Rightarrow> uint32 list" where
  "mask_put_byte ws j c =
     ws[j div 4 := (ws ! (j div 4) AND NOT (push_bit (8 * (j mod 4)) 0xFF)) OR
                   push_bit (8 * (j mod 4)) (ucast c)]"

definition SetBit :: "uint32 \<Rightarrow> UpdateMask \<Rightarrow> UpdateMask result" where
  "SetBit index m =
     (let j = unat (drop_bit 3 index); k = unat (index AND 0x7); ws = m_UpdateMask m
      in if 4 * length ws \<le> j then Inl Undefined
         else Inr (m\<lparr>m_UpdateMask := mask_put_byte ws j (mask_byte ws j OR push_bit k 1)\<rparr>))"

definition UnsetBit :: "uint32 \<Rightarrow> UpdateMask \<Rightarrow> UpdateMask result" where
  "UnsetBit index m =
     (let j = unat (drop_bit 3 index); k = unat (index AND 0x7); ws = m_UpdateMask m
      in if 4 * length ws \<le> j then Inl Undefined
         else Inr (m\<lparr>m_UpdateMask :=
                     mask_put_byte ws j (mask_byte ws j AND (0xFF XOR push_bit k 1))\<rparr>))"

definition GetBit :: "uint32 \<Rightarrow> UpdateMask \<Rightarrow> bool result" where
  "GetBit index m =
     (let j = unat (drop_bit 3 index); k = unat (index AND 0x7); ws = m_UpdateMask m
      in if 4 * length ws \<le> j then Inl Undefined
         else Inr (mask_byte ws j AND push_bit k 1 \<noteq> 0))"

definition GetLength :: "UpdateMask \<Rightarrow> uint32" where
  "GetLength m = push_bit 2 (m_Blocks m)"

definition SetCount :: "uint32 \<Rightarrow> UpdateMask \<Rightarrow> UpdateMask" where
  "SetCount valuesCount m =
     (let blocks = (valuesCount + 31) div 32
      in \<lparr>m_Count = valuesCount, m_Blocks = blocks, m_UpdateMask = replicate (unat blocks) 0\<rparr>)"

definition Clear :: "UpdateMask \<Rightarrow> UpdateMask" where
  "Clear m = m\<lparr>m_UpdateMask := replicate (length (m_UpdateMask m)) 0\<rparr>"

definition assign_mask :: "UpdateMask \<Rightarrow> UpdateMask \<Rightarrow> UpdateMask result" where
  "assign_mask msk m =
     (let m = SetCount (m_Count msk) m; n = unat (m_Blocks m)
      in if length (m_UpdateMask msk) < n then Inl Undefined
         else Inr (m\<lparr>m_UpdateMask := take n (m_UpdateMask msk)\<rparr>))"

fun combine_loop ::
  "(uint32 \<Rightarrow> uint32 \<Rightarrow> uint32) \<Rightarrow> nat list \<Rightarrow> uint32 list \<Rightarrow> uint32 list \<Rightarrow> uint32 list result" where
  "combine_loop f [] vs ws = Inr ws"
| "combine_loop f (i # is) vs ws =
     (if length vs \<le> i \<or> length ws \<le> i then Inl Undefined
      else combine_loop f is vs (ws[i := f (ws ! i) (vs ! i)]))"

definition combine_mask ::
  "(uint32 \<Rightarrow> uint32 \<Rightarrow> uint32) \<Rightarrow> UpdateMask \<Rightarrow> UpdateMask \<Rightarrow> UpdateMask result" where
  "combine_mask f msk m =
     (if \<not> m_Count msk \<le> m_Count m then Inl AssertFailed
      else bindR (combine_loop f [0..<unat (m_Blocks m)] (m_UpdateMask msk) (m_UpdateMask m))
             (\<lambda>ws. Inr (m\<lparr>m_UpdateMask := ws\<rparr>)))"

definition and_assign :: "UpdateMask \<Rightarrow> UpdateMask \<Rightarrow> UpdateMask result" where
  "and_assign = combine_mask (AND)"

definition or_assign :: "UpdateMask \<Rightarrow> UpdateMask \<Rightarrow> UpdateMask result" where
  "or_assign = combine_mask (OR)"

definition and_mask_new :: "UpdateMask \<Rightarrow> UpdateMask \<Rightarrow> UpdateMask result" where
  "and_mask_new m msk =
     (if \<not> m_Count msk \<le> m_Count m then Inl AssertFailed
      else bindR (assign_mask m UpdateMask_new) (and_assign msk))"

definition or_mask_new :: "UpdateMask \<Rightarrow> UpdateMask \<Rightarrow> UpdateMask result" where
  "or_mask_new m msk =
     (if \<not> m_Count msk \<le> m_Count m then Inl AssertFailed
      else bindR (assign_mask m UpdateMask_new) (or_assign msk))"

section \<open>The set a mask stands for\<close>

definition mask_wf :: "UpdateMask \<Rightarrow> bool" where
  "mask_wf m \<longleftrightarrow> length (m_UpdateMask m) = unat (m_Blocks m) \<and>
     m_Blocks m = (m_Count m + 31) div 32"

definition capacity :: "UpdateMask \<Rightarrow> nat" where
  "capacity m = 32 * length (m_UpdateMask m)"

definition words_set :: "uint32 list \<Rightarrow> nat set" where
  "words_set ws = {i. i < 32 * length ws \<and> bit (ws ! (i div 32)) (i mod 32)}"

definition mask_set :: "UpdateMask \<Rightarrow> nat set" where
  "mask_set m = words_set (m_UpdateMask m)"

lemma index_parts:
  fixes index :: uint32
  shows "unat (drop_bit 3 index) = unat index div 8" "unat (index AND 0x7) = unat index mod 8"
proof -
  show "unat (drop_bit 3 index) = unat index div 8"
    by (simp only: unat_drop_bit_eq) (simp add: drop_bit_eq_div)
  have "index AND 0x7 = take_bit 3 index" by (simp add: take_bit_eq_mask mask_eq_exp_minus_1)
  then show "unat (index AND 0x7) = unat index mod 8" by (simp add: take_bit_eq_mod unat_mod)
qed

lemma length_mask_put_byte [simp]: "length (mask_put_byte ws j c) = length ws"
  by (simp add: mask_put_byte_def)

lemma bit_mask_byte: "bit (mask_byte ws j) k \<longleftrightarrow> k < 8 \<and> bit (ws ! (j div 4)) (8 * (j mod 4) + k)"
  by (simp add: mask_byte_def bit_word_byte)

lemma bit_ff: "bit (0xFF :: int) n \<longleftrightarrow> n < 8"
proof -
  have "(0xFF :: int) = mask 8" by (simp add: mask_eq_exp_minus_1)
  then show ?thesis by (simp only: bit_mask_iff possible_bit_def) simp
qed

lemma bit_put_byte:
  fixes w :: uint32
  assumes "k < 32" "j < 4"
  shows "bit ((w AND NOT (push_bit (8 * j) 0xFF)) OR push_bit (8 * j) (ucast (c :: uint8))) k \<longleftrightarrow>
    (if k div 8 = j then bit c (k mod 8) else bit w k)"
proof -
  have d: "k div 8 = j \<longleftrightarrow> 8 * j \<le> k \<and> k - 8 * j < 8" by auto
  have m: "k - 8 * (k div 8) = k mod 8" by (rule minus_mult_div_eq_mod)
  show ?thesis
  proof (cases "k div 8 = j")
    case True
    then have "8 * j \<le> k" "k - 8 * j = k mod 8" using d m by auto
    moreover have "k mod 8 < 32" using mod_less_divisor[of 8 k] by linarith
    ultimately show ?thesis using assms True by (simp add: bit_or_iff bit_and_iff bit_not_iff bit_push_bit_iff bit_ff bit_ucast_iff)
  next
    case False
    then have "\<not> (8 * j \<le> k \<and> k - 8 * j < 8)" using d by blast
    then show ?thesis using assms False
      by (auto simp add: bit_or_iff bit_and_iff bit_not_iff bit_push_bit_iff bit_ff bit_ucast_iff dest: bit_imp_le_length)
  qed
qed
lemma words_set_put_byte:
  assumes "j < 4 * length ws"
  shows "i \<in> words_set (mask_put_byte ws j c) \<longleftrightarrow>
    i < 32 * length ws \<and> (if i div 8 = j then bit c (i mod 8) else i \<in> words_set ws)"
proof (cases "i < 32 * length ws")
  case True
  then have l: "i div 32 < length ws" by (simp add: less_mult_imp_div_less mult.commute)
  have d: "i div 8 = j \<longleftrightarrow> i div 32 = j div 4 \<and> (i mod 32) div 8 = j mod 4"
  proof -
    have "i div 32 = i div 8 div 4" by (simp add: div_mult2_eq[symmetric])
    moreover have "(i mod 32) div 8 = i div 8 mod 4"
      using mod_mult2_eq[of i 8 4] by simp
    ultimately show ?thesis by (metis mult_div_mod_eq)
  qed
  have m: "(i mod 32) mod 8 = i mod 8" by (simp add: mod_mod_cancel)
  show ?thesis
  proof (cases "i div 32 = j div 4")
    case same: True
    then have w: "mask_put_byte ws j c ! (i div 32) =
        ((ws ! (j div 4) AND NOT (push_bit (8 * (j mod 4)) 0xFF)) OR push_bit (8 * (j mod 4)) (ucast c))"
      using l by (simp add: mask_put_byte_def)
    have "i \<in> words_set (mask_put_byte ws j c) \<longleftrightarrow>
        (if (i mod 32) div 8 = j mod 4 then bit c ((i mod 32) mod 8) else bit (ws ! (j div 4)) (i mod 32))"
      using True unfolding words_set_def mem_Collect_eq length_mask_put_byte w
      by (subst bit_put_byte) simp_all
    then show ?thesis using True same unfolding d m by (simp add: words_set_def)
  next
    case False
    then have "mask_put_byte ws j c ! (i div 32) = ws ! (i div 32)" by (simp add: mask_put_byte_def)
    then show ?thesis using True False d by (simp add: words_set_def)
  qed
qed (simp add: words_set_def)

lemma words_set_bound: "i \<in> words_set ws \<Longrightarrow> i < 32 * length ws"
  by (simp add: words_set_def)

lemma word_bit_byte:
  assumes "i < 32 * length ws"
  shows "bit (mask_byte ws (i div 8)) (i mod 8) \<longleftrightarrow> i \<in> words_set ws"
proof -
  have "8 * (i div 8 mod 4) + i mod 8 = i mod 32" using mod_mult2_eq[of i 8 4] by simp
  moreover have "i div 8 div 4 = i div 32" by (simp add: div_mult2_eq[symmetric])
  ultimately show ?thesis using assms by (simp add: bit_mask_byte words_set_def)
qed

section \<open>The contract\<close>

text \<open>A set of indices below a fixed capacity, updated by partial operations.\<close>

locale field_set =
  fixes inv :: "'m \<Rightarrow> bool" and room :: "'m \<Rightarrow> nat" and elems :: "'m \<Rightarrow> nat set"
    and ins del :: "uint32 \<Rightarrow> 'm \<Rightarrow> 'm result" and mem :: "uint32 \<Rightarrow> 'm \<Rightarrow> bool result"
  assumes ins: "inv m \<Longrightarrow> unat i < room m \<Longrightarrow>
      \<exists>m'. ins i m = Inr m' \<and> inv m' \<and> room m' = room m \<and> elems m' = insert (unat i) (elems m)"
    and del: "inv m \<Longrightarrow> unat i < room m \<Longrightarrow>
      \<exists>m'. del i m = Inr m' \<and> inv m' \<and> room m' = room m \<and> elems m' = elems m - {unat i}"
    and mem: "inv m \<Longrightarrow> unat i < room m \<Longrightarrow> mem i m = Inr (unat i \<in> elems m)"
begin

lemma ins_all:
  assumes "inv m" "\<forall>i \<in> set is. unat i < room m"
  shows "\<exists>m'. foldR ins is m = Inr m' \<and> inv m' \<and> room m' = room m \<and>
    elems m' = elems m \<union> unat ` set is"
  using assms
proof (induction "is" arbitrary: m)
  case (Cons i js)
  then obtain m1 where m1: "ins i m = Inr m1" "inv m1" "room m1 = room m"
    "elems m1 = insert (unat i) (elems m)" using ins[of m i] by auto
  from Cons.IH[OF m1(2)] m1 Cons.prems(2) show ?case by auto
qed simp

lemma mem_after_ins:
  assumes "inv m" "unat i < room m" "unat j < room m"
  shows "bindR (ins i m) (mem j) = Inr (i = j \<or> unat j \<in> elems m)"
proof -
  obtain m1 where m1: "ins i m = Inr m1" "inv m1" "room m1 = room m"
    "elems m1 = insert (unat i) (elems m)" using ins[OF assms(1,2)] by blast
  have "unat j \<in> elems m1 \<longleftrightarrow> i = j \<or> unat j \<in> elems m"
    using m1(4) word_unat_eq_iff[of i j] by auto
  then show ?thesis using m1 mem[of m1 j] assms(3) by simp
qed

end

lemma SetBit_law:
  assumes "mask_wf m" "unat i < capacity m"
  shows "\<exists>m'. SetBit i m = Inr m' \<and> mask_wf m' \<and> capacity m' = capacity m \<and>
    mask_set m' = insert (unat i) (mask_set m)"
proof -
  let ?ws = "m_UpdateMask m" and ?j = "unat i div 8"
  have j: "?j < 4 * length ?ws" using assms(2) by (auto simp add: capacity_def)
  have "x \<in> words_set (mask_put_byte ?ws ?j (mask_byte ?ws ?j OR push_bit (unat i mod 8) 1)) \<longleftrightarrow>
      x = unat i \<or> x \<in> words_set ?ws" for x
  proof (cases "x div 8 = ?j \<and> x < 32 * length ?ws")
    case True
    then have "x = unat i \<longleftrightarrow> x mod 8 = unat i mod 8"
      using div_mult_mod_eq[of x 8] div_mult_mod_eq[of "unat i" 8] by metis
    then show ?thesis using True word_bit_byte[of x ?ws]
      by (auto simp add: words_set_put_byte[OF j] bit_simps)
  next
    case False
    then show ?thesis using assms(2) words_set_bound[of x ?ws]
      by (auto simp add: words_set_put_byte[OF j] capacity_def)
  qed
  then show ?thesis using assms j
    by (auto simp add: SetBit_def Let_def index_parts mask_wf_def capacity_def mask_set_def)
qed

lemma UnsetBit_law:
  assumes "mask_wf m" "unat i < capacity m"
  shows "\<exists>m'. UnsetBit i m = Inr m' \<and> mask_wf m' \<and> capacity m' = capacity m \<and>
    mask_set m' = mask_set m - {unat i}"
proof -
  let ?ws = "m_UpdateMask m" and ?j = "unat i div 8"
  have j: "?j < 4 * length ?ws" using assms(2) by (auto simp add: capacity_def)
  have "x \<in> words_set (mask_put_byte ?ws ?j (mask_byte ?ws ?j AND (0xFF XOR push_bit (unat i mod 8) 1))) \<longleftrightarrow>
      x \<noteq> unat i \<and> x \<in> words_set ?ws" for x
  proof (cases "x div 8 = ?j \<and> x < 32 * length ?ws")
    case True
    then have "x = unat i \<longleftrightarrow> x mod 8 = unat i mod 8"
      using div_mult_mod_eq[of x 8] div_mult_mod_eq[of "unat i" 8] by metis
    then show ?thesis using True word_bit_byte[of x ?ws]
      by (auto simp add: words_set_put_byte[OF j] bit_simps bit_ff)
  next
    case False
    then show ?thesis using assms(2) words_set_bound[of x ?ws]
      by (auto simp add: words_set_put_byte[OF j] capacity_def)
  qed
  then show ?thesis using assms j
    by (auto simp add: UnsetBit_def Let_def index_parts mask_wf_def capacity_def mask_set_def)
qed

lemma GetBit_law:
  assumes "unat i < capacity m"
  shows "GetBit i m = Inr (unat i \<in> mask_set m)"
proof -
  have j: "unat i div 8 < 4 * length (m_UpdateMask m)" using assms by (auto simp add: capacity_def)
  have "c AND push_bit k 1 \<noteq> 0 \<longleftrightarrow> bit c k" if "k < 8" for c :: uint8 and k
    using and_push_bit_nonzero[of k c] that by simp
  then show ?thesis using assms j word_bit_byte[of "unat i" "m_UpdateMask m"]
    by (simp add: GetBit_def Let_def index_parts capacity_def mask_set_def)
qed

interpretation um: field_set mask_wf capacity mask_set SetBit UnsetBit GetBit
  by unfold_locales (auto simp add: SetBit_law UnsetBit_law GetBit_law)

section \<open>Whole-mask operations\<close>

lemma SetCount_law: "mask_wf (SetCount c m) \<and> mask_set (SetCount c m) = {}"
  by (auto simp add: SetCount_def Let_def mask_wf_def mask_set_def words_set_def)

lemma Clear_law: "mask_wf m \<Longrightarrow> mask_wf (Clear m) \<and> mask_set (Clear m) = {} \<and> capacity (Clear m) = capacity m"
  by (auto simp add: Clear_def mask_wf_def mask_set_def words_set_def capacity_def)

lemma combine_loop_prefix:
  assumes "n \<le> length vs" "n \<le> length ws"
  shows "combine_loop f [0..<n] vs ws = Inr (map2 f (take n ws) (take n vs) @ drop n ws)"
proof -
  have "combine_loop f [k..<n] vs (map2 f (take k ws) (take k vs) @ drop k ws) =
      Inr (map2 f (take n ws) (take n vs) @ drop n ws)" if "k \<le> n" for k
    using that
  proof (induction "n - k" arbitrary: k)
    case (Suc d)
    then have k: "k < n" by simp
    let ?xs = "map2 f (take k ws) (take k vs) @ drop k ws"
    have l: "length (map2 f (take k ws) (take k vs)) = k" using k assms by simp
    have "?xs[k := f (?xs ! k) (vs ! k)] = map2 f (take (Suc k) ws) (take (Suc k) vs) @ drop (Suc k) ws"
    proof -
      have "drop k ws = ws ! k # drop (Suc k) ws" using k assms(2) by (simp add: Cons_nth_drop_Suc)
      then have "?xs[k := f (?xs ! k) (vs ! k)] =
          map2 f (take k ws) (take k vs) @ f (ws ! k) (vs ! k) # drop (Suc k) ws"
        using l by (simp add: nth_append list_update_append)
      also have "\<dots> = map2 f (take (Suc k) ws) (take (Suc k) vs) @ drop (Suc k) ws"
        using k assms by (simp add: take_Suc_conv_app_nth)
      finally show ?thesis .
    qed
    moreover have "k < length ?xs" using k assms(2) l by simp
    ultimately show ?case using Suc.hyps(1)[of "Suc k"] Suc.hyps(2) k assms(1)
      by (simp add: upt_conv_Cons)
  qed simp
  from this[of 0] show ?thesis by simp
qed

lemma combine_loop_overrun:
  assumes "length vs < n" "length ws = n"
  shows "combine_loop f [0..<n] vs ws = Inl Undefined"
proof -
  have "combine_loop f [k..<n] vs xs = Inl Undefined" if "k \<le> length vs" "length xs = n" for k xs
    using that
  proof (induction "n - k" arbitrary: k xs)
    case 0
    then show ?case using assms(1) by simp
  next
    case (Suc d)
    then have "k < n" by simp
    then show ?case using Suc.hyps(1)[of "Suc k"] Suc.hyps(2) Suc.prems
      by (cases "k = length vs") (auto simp add: upt_conv_Cons)
  qed
  from this[of 0 ws] assms(2) show ?thesis by simp
qed

lemma block_bound: "i < 32 * n \<Longrightarrow> i div 32 < (n :: nat)"
  by (simp add: less_mult_imp_div_less mult.commute)

lemma words_set_map2:
  assumes "length vs = length ws"
  shows "words_set (map2 (AND) ws vs) = words_set ws \<inter> words_set vs"
    "words_set (map2 (OR) ws vs) = words_set ws \<union> words_set vs"
proof -
  have nth: "map2 f ws vs ! (i div 32) = f (ws ! (i div 32)) (vs ! (i div 32))"
    if "i < 32 * length ws" for f i using block_bound[OF that] assms by simp
  show "words_set (map2 (AND) ws vs) = words_set ws \<inter> words_set vs"
    using assms nth[of _ "(AND)"] unfolding words_set_def by (auto simp add: bit_and_iff)
  show "words_set (map2 (OR) ws vs) = words_set ws \<union> words_set vs"
    using assms nth[of _ "(OR)"] unfolding words_set_def by (auto simp add: bit_or_iff)
qed

section \<open>Properties\<close>

text \<open>
  Marking fields: after \<open>SetCount\<close> and \<open>SetBit\<close> on any list of field indices below the
  count, \<open>GetBit\<close> of a field below the count tells exactly whether it is in the list.
\<close>

theorem update_mask_marks:
  assumes "valuesCount \<le> 0xFFFFFFE0" "\<forall>i \<in> set is. i < valuesCount" "i < valuesCount"
  shows "\<exists>m. foldR SetBit is (SetCount valuesCount UpdateMask_new) = Inr m \<and>
    GetBit i m = Inr (i \<in> set is)"
proof -
  let ?m = "SetCount valuesCount UpdateMask_new"
  have cap: "unat j < capacity ?m" if "j < valuesCount" for j
  proof -
    have "unat (valuesCount + 31) = unat valuesCount + 31"
      using assms(1) by (simp add: word_le_nat_alt unat_word_ariths)
    then have "capacity ?m = 32 * ((unat valuesCount + 31) div 32)"
      by (simp add: capacity_def SetCount_def Let_def unat_div)
    then have "unat valuesCount \<le> capacity ?m" by simp
    then show ?thesis using that by (simp add: word_less_nat_alt)
  qed
  have wf: "mask_wf ?m" and e: "mask_set ?m = {}" using SetCount_law by auto
  have all: "\<forall>j \<in> set is. unat j < capacity ?m" using cap assms(2) by blast
  from um.ins_all[OF wf all] obtain m where
    m: "foldR SetBit is ?m = Inr m" "mask_wf m" "capacity m = capacity ?m" "mask_set m = unat ` set is"
    using e by auto
  have "unat i \<in> unat ` set is \<longleftrightarrow> i \<in> set is" by (auto simp add: image_iff word_unat_eq_iff[symmetric])
  then show ?thesis using um.mem[OF m(2), of i] m cap[OF assms(3)] by auto
qed

lemma update_mask_marks_witness:
  "\<exists>m. foldR SetBit [5, 33, 1042] (SetCount 1326 UpdateMask_new) = Inr m \<and>
    GetBit 33 m = Inr (33 \<in> set [5, 33, 1042 :: uint32])"
  by (rule update_mask_marks) simp_all

text \<open>
  \<open>&=\<close> and \<open>|=\<close> are intersection and union when both masks have the same number of fields.
\<close>

theorem mask_combine:
  assumes "mask_wf m" "mask_wf msk" "m_Count msk = m_Count m"
  shows "\<exists>m1 m2. and_assign msk m = Inr m1 \<and> mask_wf m1 \<and> mask_set m1 = mask_set m \<inter> mask_set msk \<and>
    or_assign msk m = Inr m2 \<and> mask_wf m2 \<and> mask_set m2 = mask_set m \<union> mask_set msk"
proof -
  have l: "length (m_UpdateMask msk) = length (m_UpdateMask m)"
    "length (m_UpdateMask m) = unat (m_Blocks m)" using assms by (simp_all add: mask_wf_def)
  have "combine_loop f [0..<unat (m_Blocks m)] (m_UpdateMask msk) (m_UpdateMask m) =
      Inr (map2 f (m_UpdateMask m) (m_UpdateMask msk))" for f
    using combine_loop_prefix[of "unat (m_Blocks m)" "m_UpdateMask msk" "m_UpdateMask m" f] l by simp
  then have c: "combine_mask f msk m = Inr (m\<lparr>m_UpdateMask := map2 f (m_UpdateMask m) (m_UpdateMask msk)\<rparr>)"
    for f using assms(3) by (simp add: combine_mask_def)
  have wf: "mask_wf (m\<lparr>m_UpdateMask := map2 f (m_UpdateMask m) (m_UpdateMask msk)\<rparr>)" for f
    using assms(1) l(1) by (simp add: mask_wf_def)
  show ?thesis unfolding and_assign_def or_assign_def c
    using wf by (simp add: mask_set_def words_set_map2[OF l(1)])
qed

definition sample_mask :: "uint32 \<Rightarrow> UpdateMask" where
  "sample_mask w = (SetCount 40 UpdateMask_new)\<lparr>m_UpdateMask := [w, 3]\<rparr>"

lemma mask_combine_witness:
  "\<exists>m1 m2. and_assign (sample_mask 6) (sample_mask 12) = Inr m1 \<and> mask_wf m1 \<and>
      mask_set m1 = mask_set (sample_mask 12) \<inter> mask_set (sample_mask 6) \<and>
    or_assign (sample_mask 6) (sample_mask 12) = Inr m2 \<and> mask_wf m2 \<and>
      mask_set m2 = mask_set (sample_mask 12) \<union> mask_set (sample_mask 6)"
  by (rule mask_combine) (simp_all add: sample_mask_def SetCount_def Let_def mask_wf_def)

text \<open>
  The assertion of \<open>&=\<close> and \<open>|=\<close> lets through masks of fewer blocks, and then both read
  past the end of the argument's blocks: whenever the argument has fewer blocks and the
  assertion holds, the operation is undefined.
\<close>

theorem mask_combine_overrun:
  assumes "mask_wf m" "mask_wf msk" "m_Count msk \<le> m_Count m" "m_Blocks msk < m_Blocks m"
  shows "and_assign msk m = Inl Undefined \<and> or_assign msk m = Inl Undefined"
  using assms combine_loop_overrun[of "m_UpdateMask msk" "unat (m_Blocks m)" "m_UpdateMask m"]
  by (simp add: and_assign_def or_assign_def combine_mask_def mask_wf_def word_less_nat_alt)

lemma mask_combine_overrun_witness:
  "and_assign (SetCount 10 UpdateMask_new) (SetCount 40 UpdateMask_new) = Inl Undefined \<and>
    or_assign (SetCount 10 UpdateMask_new) (SetCount 40 UpdateMask_new) = Inl Undefined"
  by (rule mask_combine_overrun) (simp_all add: SetCount_law, simp_all add: SetCount_def Let_def)

end
