(* ===== verification/StdMap.thy ===== *)
theory StdMap
  imports Main
begin

text \<open>
  \<open>std::map\<close> as the server uses it: an association list in the order of the keys, with the
  operations \<open>find\<close>, \<open>operator[]\<close> (as an insertion that overwrites), \<open>erase\<close> and \<open>begin\<close>.
  What clients rely on is the locale \<open>ordered_map\<close>; the lists are its interpretation.
\<close>

type_synonym ('k, 'v) smap = "('k \<times> 'v) list"

definition smap_find :: "'k \<Rightarrow> ('k, 'v) smap \<Rightarrow> 'v option" where
  "smap_find k m = map_of m k"

fun smap_put :: "'k::linorder \<Rightarrow> 'v \<Rightarrow> ('k, 'v) smap \<Rightarrow> ('k, 'v) smap" where
  "smap_put k v [] = [(k, v)]"
| "smap_put k v ((l, w) # m) =
     (if k < l then (k, v) # (l, w) # m
      else if k = l then (k, v) # m
      else (l, w) # smap_put k v m)"

definition smap_erase :: "'k \<Rightarrow> ('k, 'v) smap \<Rightarrow> ('k, 'v) smap" where
  "smap_erase k m = filter (\<lambda>p. fst p \<noteq> k) m"

definition smap_begin :: "('k, 'v) smap \<Rightarrow> ('k \<times> 'v) option" where
  "smap_begin m = (case m of [] \<Rightarrow> None | p # ps \<Rightarrow> Some p)"

definition smap_ok :: "('k::linorder, 'v) smap \<Rightarrow> bool" where
  "smap_ok m \<longleftrightarrow> sorted_wrt (<) (map fst m)"

text \<open>The interface.\<close>

locale ordered_map =
  fixes ok :: "'m \<Rightarrow> bool" and emp :: 'm
    and find :: "'k::linorder \<Rightarrow> 'm \<Rightarrow> 'v option"
    and put :: "'k \<Rightarrow> 'v \<Rightarrow> 'm \<Rightarrow> 'm"
    and erase :: "'k \<Rightarrow> 'm \<Rightarrow> 'm"
    and first :: "'m \<Rightarrow> ('k \<times> 'v) option"
  assumes ok_emp: "ok emp"
    and ok_put: "ok m \<Longrightarrow> ok (put k v m)"
    and ok_erase: "ok m \<Longrightarrow> ok (erase k m)"
    and find_emp: "find k emp = None"
    and find_put: "ok m \<Longrightarrow> find l (put k v m) = (if l = k then Some v else find l m)"
    and find_erase: "ok m \<Longrightarrow> find l (erase k m) = (if l = k then None else find l m)"
    and first_None: "ok m \<Longrightarrow> first m = None \<longleftrightarrow> (\<forall>k. find k m = None)"
    and first_Some: "ok m \<Longrightarrow> first m = Some (k, v) \<Longrightarrow>
      find k m = Some v \<and> (\<forall>l. find l m \<noteq> None \<longrightarrow> k \<le> l)"
begin

definition every :: "('k \<Rightarrow> 'v \<Rightarrow> bool) \<Rightarrow> 'm \<Rightarrow> bool" where
  "every P m \<longleftrightarrow> ok m \<and> (\<forall>k v. find k m = Some v \<longrightarrow> P k v)"

lemma every_emp: "every P emp"
  by (simp add: every_def ok_emp find_emp)

lemma every_put: "every P m \<Longrightarrow> P k v \<Longrightarrow> every P (put k v m)"
  by (auto simp add: every_def ok_put find_put split: if_splits)

lemma every_erase: "every P m \<Longrightarrow> every P (erase k m)"
  by (auto simp add: every_def ok_erase find_erase split: if_splits)

lemma every_first: "every P m \<Longrightarrow> first m = Some (k, v) \<Longrightarrow> P k v"
  using first_Some by (auto simp add: every_def)

lemma put_put: "ok m \<Longrightarrow> find l (put k v (put k w m)) = find l (put k v m)"
  by (simp add: find_put ok_put)

end

lemma smap_find_notin: "k \<notin> fst ` set m \<Longrightarrow> smap_find k m = None"
  by (simp add: smap_find_def map_of_eq_None_iff)

lemma set_smap_put: "fst ` set (smap_put k v m) = insert k (fst ` set m)"
  by (induction k v m rule: smap_put.induct) auto

lemma smap_ok_put: "smap_ok m \<Longrightarrow> smap_ok (smap_put k v m)"
proof (induction k v m rule: smap_put.induct)
  case (2 k v l w m)
  have "l < x" if "k \<noteq> l" "\<not> k < l" "x \<in> fst ` set (smap_put k v m)" for x
    using that 2(2) by (auto simp add: set_smap_put smap_ok_def)
  then show ?case using 2 by (auto simp add: smap_ok_def)
qed (simp add: smap_ok_def)

lemma smap_find_put: "smap_ok m \<Longrightarrow> smap_find l (smap_put k v m) = (if l = k then Some v else smap_find l m)"
  by (induction k v m rule: smap_put.induct) (auto simp add: smap_find_def smap_ok_def)

lemma smap_find_erase: "smap_find l (smap_erase k m) = (if l = k then None else smap_find l m)"
  by (induction m) (auto simp add: smap_find_def smap_erase_def)

lemma smap_ok_erase: "smap_ok m \<Longrightarrow> smap_ok (smap_erase k m)"
  by (induction m) (auto simp add: smap_ok_def smap_erase_def)

lemma smap_find_set: "smap_ok m \<Longrightarrow> smap_find k m = Some v \<longleftrightarrow> (k, v) \<in> set m"
  by (induction m) (force simp add: smap_find_def smap_ok_def)+

interpretation smap: ordered_map smap_ok "[]" smap_find smap_put smap_erase smap_begin
proof unfold_locales
  fix m :: "('k::linorder, 'v) smap" and k v
  assume ok: "smap_ok m" "smap_begin m = Some (k, v)"
  then obtain ms where m: "m = (k, v) # ms" by (cases m) (auto simp add: smap_begin_def)
  have "k \<le> l" if "smap_find l m \<noteq> None" for l
  proof -
    from that obtain w where "(l, w) \<in> set m" using smap_find_set[OF ok(1)] by auto
    then show ?thesis using ok(1) unfolding m smap_ok_def by force
  qed
  then show "smap_find k m = Some v \<and> (\<forall>l. smap_find l m \<noteq> None \<longrightarrow> k \<le> l)"
    by (simp add: m smap_find_def)
next
  fix m :: "('k::linorder, 'v) smap"
  assume "smap_ok m"
  show "smap_begin m = None \<longleftrightarrow> (\<forall>k. smap_find k m = None)"
  proof (cases m)
    case (Cons p ms)
    then have "smap_find (fst p) m = Some (snd p)" by (cases p) (simp add: smap_find_def)
    then have "\<exists>k. smap_find k m \<noteq> None" by auto
    then show ?thesis using Cons by (simp add: smap_begin_def)
  qed (simp add: smap_begin_def smap_find_def)
qed (auto simp add: smap_ok_put smap_ok_erase smap_find_put smap_find_erase, auto simp add: smap_ok_def smap_find_def)

lemmas smap_simps = smap.find_put smap.find_erase smap.find_emp smap.ok_put smap.ok_erase smap.ok_emp

end
