(* ===== verification/Channel.thy ===== *)
theory Channel
  imports StdMap WireCodecs ObjectGuid
begin

text \<open>
  Chat channels: class \<open>Channel\<close> of src/src/game/Channel.h and Channel.cpp. A channel keeps its
  members with their flags, an owner, a ban list, a password and the announce and moderate
  switches. Every handler is a function from the channel to the channel and the list of what it
  causes, in order: packets handed to sessions and the calls that tell a player it joined or
  left. \<open>SendToAll\<close> is expanded into one packet per receiver.

  What the handlers ask of the rest of the server is the record \<open>ChannelEnv\<close>: configuration,
  the lookup of online players by name and by guid, account names and the channel table of the
  client data files. The chat packet of \<open>Say\<close> is built by \<open>ChatHandler::BuildChatPacket\<close>;
  it is represented by the arguments of that call.
\<close>

section \<open>State\<close>

record PlayerInfo =
  pi_player :: ObjectGuid
  pi_flags :: uint8

record Channel =
  m_announce :: bool
  m_moderate :: bool
  m_name :: cstring
  m_password :: cstring
  m_flags :: uint8
  m_channelId :: uint32
  m_ownerGuid :: ObjectGuid
  m_players :: "(ObjectGuid, PlayerInfo) smap"
  m_banned :: "ObjectGuid set"

text \<open>What is read of a \<open>Player\<close>.\<close>

datatype AccountTypes = SEC_PLAYER | SEC_MODERATOR | SEC_GAMEMASTER | SEC_ADMINISTRATOR | SEC_CONSOLE

definition sec_level :: "AccountTypes \<Rightarrow> nat" where
  "sec_level t = (case t of SEC_PLAYER \<Rightarrow> 0 | SEC_MODERATOR \<Rightarrow> 1 | SEC_GAMEMASTER \<Rightarrow> 2
     | SEC_ADMINISTRATOR \<Rightarrow> 3 | SEC_CONSOLE \<Rightarrow> 4)"

record Player =
  p_guid :: ObjectGuid
  p_name :: cstring
  p_security :: AccountTypes
  p_guildId :: uint32
  p_team :: nat
  p_chatTag :: uint8
  p_ignores :: "ObjectGuid set"

record ChannelEnv =
  cfg_restricted_lfg :: bool
  cfg_silently_gm_join :: bool
  cfg_two_side_channel :: bool
  cfg_gm_level_in_who :: nat
  GetPlayer_name :: "cstring \<Rightarrow> Player option"
  GetPlayer_guid :: "ObjectGuid \<Rightarrow> Player option"
  account_name :: "ObjectGuid \<Rightarrow> cstring option"
  visible_globally :: "ObjectGuid \<Rightarrow> ObjectGuid \<Rightarrow> bool"
  channel_entry :: "uint32 \<Rightarrow> uint32 option"

datatype ChannelOpcode =
  SMSG_CHANNEL_NOTIFY | SMSG_CHANNEL_LIST | SMSG_USERLIST_ADD | SMSG_USERLIST_UPDATE | SMSG_USERLIST_REMOVE

datatype Packet =
    WorldPacket ChannelOpcode "uint8 list"
  | ChatPacket cstring uint32 uint8 ObjectGuid cstring cstring

datatype Effect =
    Send ObjectGuid Packet
  | JoinedChannel ObjectGuid
  | LeftChannel ObjectGuid

section \<open>Flags\<close>

abbreviation (input) CHANNEL_FLAG_CUSTOM :: uint8 where "CHANNEL_FLAG_CUSTOM \<equiv> 0x01"
abbreviation (input) CHANNEL_FLAG_TRADE :: uint8 where "CHANNEL_FLAG_TRADE \<equiv> 0x04"
abbreviation (input) CHANNEL_FLAG_NOT_LFG :: uint8 where "CHANNEL_FLAG_NOT_LFG \<equiv> 0x08"
abbreviation (input) CHANNEL_FLAG_GENERAL :: uint8 where "CHANNEL_FLAG_GENERAL \<equiv> 0x10"
abbreviation (input) CHANNEL_FLAG_CITY :: uint8 where "CHANNEL_FLAG_CITY \<equiv> 0x20"
abbreviation (input) CHANNEL_FLAG_LFG :: uint8 where "CHANNEL_FLAG_LFG \<equiv> 0x40"

abbreviation (input) CHANNEL_DBC_FLAG_TRADE :: uint32 where "CHANNEL_DBC_FLAG_TRADE \<equiv> 0x00008"
abbreviation (input) CHANNEL_DBC_FLAG_CITY_ONLY2 :: uint32 where "CHANNEL_DBC_FLAG_CITY_ONLY2 \<equiv> 0x00020"
abbreviation (input) CHANNEL_DBC_FLAG_LFG :: uint32 where "CHANNEL_DBC_FLAG_LFG \<equiv> 0x40000"

abbreviation (input) MEMBER_FLAG_NONE :: uint8 where "MEMBER_FLAG_NONE \<equiv> 0x00"
abbreviation (input) MEMBER_FLAG_OWNER :: uint8 where "MEMBER_FLAG_OWNER \<equiv> 0x01"
abbreviation (input) MEMBER_FLAG_MODERATOR :: uint8 where "MEMBER_FLAG_MODERATOR \<equiv> 0x02"
abbreviation (input) MEMBER_FLAG_MUTED :: uint8 where "MEMBER_FLAG_MUTED \<equiv> 0x08"

definition put_flag :: "uint8 \<Rightarrow> bool \<Rightarrow> PlayerInfo \<Rightarrow> PlayerInfo" where
  "put_flag f state i =
     i\<lparr>pi_flags := (if state then pi_flags i OR f else pi_flags i AND NOT f)\<rparr>"

definition IsOwner :: "PlayerInfo \<Rightarrow> bool" where
  "IsOwner i \<longleftrightarrow> pi_flags i AND MEMBER_FLAG_OWNER \<noteq> 0"

definition IsModerator :: "PlayerInfo \<Rightarrow> bool" where
  "IsModerator i \<longleftrightarrow> pi_flags i AND MEMBER_FLAG_MODERATOR \<noteq> 0"

definition IsMuted :: "PlayerInfo \<Rightarrow> bool" where
  "IsMuted i \<longleftrightarrow> pi_flags i AND MEMBER_FLAG_MUTED \<noteq> 0"

definition PlayerInfo_SetOwner :: "bool \<Rightarrow> PlayerInfo \<Rightarrow> PlayerInfo" where
  "PlayerInfo_SetOwner = put_flag MEMBER_FLAG_OWNER"

definition PlayerInfo_SetModerator :: "bool \<Rightarrow> PlayerInfo \<Rightarrow> PlayerInfo" where
  "PlayerInfo_SetModerator = put_flag MEMBER_FLAG_MODERATOR"

definition PlayerInfo_SetMuted :: "bool \<Rightarrow> PlayerInfo \<Rightarrow> PlayerInfo" where
  "PlayerInfo_SetMuted = put_flag MEMBER_FLAG_MUTED"

text \<open>\<open>m_players[guid]\<close> inserts a default entry when there is none.\<close>

definition PlayerInfo_new :: PlayerInfo where
  "PlayerInfo_new = \<lparr>pi_player = 0, pi_flags = 0\<rparr>"

definition member_at :: "ObjectGuid \<Rightarrow> Channel \<Rightarrow> PlayerInfo" where
  "member_at g c = (case smap_find g (m_players c) of None \<Rightarrow> PlayerInfo_new | Some i \<Rightarrow> i)"

definition put_member :: "ObjectGuid \<Rightarrow> PlayerInfo \<Rightarrow> Channel \<Rightarrow> Channel" where
  "put_member g i c = c\<lparr>m_players := smap_put g i (m_players c)\<rparr>"

definition IsOn :: "ObjectGuid \<Rightarrow> Channel \<Rightarrow> bool" where
  "IsOn who c \<longleftrightarrow> smap_find who (m_players c) \<noteq> None"

definition IsBanned :: "ObjectGuid \<Rightarrow> Channel \<Rightarrow> bool" where
  "IsBanned g c \<longleftrightarrow> g \<in> m_banned c"

definition IsConstant :: "Channel \<Rightarrow> bool" where
  "IsConstant c \<longleftrightarrow> m_channelId c \<noteq> 0"

definition GetPlayerFlags :: "ObjectGuid \<Rightarrow> Channel \<Rightarrow> uint8" where
  "GetPlayerFlags g c = (case smap_find g (m_players c) of None \<Rightarrow> 0 | Some i \<Rightarrow> pi_flags i)"

definition GetNumPlayers :: "Channel \<Rightarrow> uint32" where
  "GetNumPlayers c = of_nat (length (m_players c))"

definition Channel_new :: "ChannelEnv \<Rightarrow> cstring \<Rightarrow> uint32 \<Rightarrow> Channel" where
  "Channel_new env name channel_id =
     (let c = \<lparr>m_announce = True, m_moderate = False, m_name = name, m_password = [], m_flags = 0,
               m_channelId = channel_id, m_ownerGuid = 0, m_players = [], m_banned = {}\<rparr>
      in case channel_entry env channel_id of
           Some dbc \<Rightarrow>
             c\<lparr>m_announce := False,
               m_flags := CHANNEL_FLAG_GENERAL OR
                 (if dbc AND CHANNEL_DBC_FLAG_TRADE \<noteq> 0 then CHANNEL_FLAG_TRADE else 0) OR
                 (if dbc AND CHANNEL_DBC_FLAG_CITY_ONLY2 \<noteq> 0 then CHANNEL_FLAG_CITY else 0) OR
                 (if dbc AND CHANNEL_DBC_FLAG_LFG \<noteq> 0 then CHANNEL_FLAG_LFG else CHANNEL_FLAG_NOT_LFG)\<rparr>
         | None \<Rightarrow> c\<lparr>m_flags := CHANNEL_FLAG_CUSTOM\<rparr>)"

section \<open>Packets\<close>

definition ascii :: "string \<Rightarrow> cstring" where
  "ascii s = map of_char s"

definition zstr :: "cstring \<Rightarrow> uint8 list" where
  "zstr s = s @ [0]"

definition MakeNotifyPacket :: "uint8 \<Rightarrow> uint8 list \<Rightarrow> Channel \<Rightarrow> Packet" where
  "MakeNotifyPacket notify_type payload c =
     WorldPacket SMSG_CHANNEL_NOTIFY (notify_type # zstr (m_name c) @ payload)"

definition MakeJoined :: "ObjectGuid \<Rightarrow> Channel \<Rightarrow> Packet" where
  "MakeJoined g = MakeNotifyPacket 0x00 (le_bytes g)"
definition MakeLeft :: "ObjectGuid \<Rightarrow> Channel \<Rightarrow> Packet" where
  "MakeLeft g = MakeNotifyPacket 0x01 (le_bytes g)"
definition MakeYouJoined :: "Channel \<Rightarrow> Packet" where
  "MakeYouJoined c = MakeNotifyPacket 0x02
     (m_flags c # le_bytes (m_channelId c) @ le_bytes (0 :: uint32)) c"
definition MakeYouLeft :: "Channel \<Rightarrow> Packet" where
  "MakeYouLeft c = MakeNotifyPacket 0x03 (le_bytes (m_channelId c) @ [0]) c"
definition MakeWrongPassword :: "Channel \<Rightarrow> Packet" where
  "MakeWrongPassword = MakeNotifyPacket 0x04 []"
definition MakeNotMember :: "Channel \<Rightarrow> Packet" where
  "MakeNotMember = MakeNotifyPacket 0x05 []"
definition MakeNotModerator :: "Channel \<Rightarrow> Packet" where
  "MakeNotModerator = MakeNotifyPacket 0x06 []"
definition MakePasswordChanged :: "ObjectGuid \<Rightarrow> Channel \<Rightarrow> Packet" where
  "MakePasswordChanged g = MakeNotifyPacket 0x07 (le_bytes g)"
definition MakeOwnerChanged :: "ObjectGuid \<Rightarrow> Channel \<Rightarrow> Packet" where
  "MakeOwnerChanged g = MakeNotifyPacket 0x08 (le_bytes g)"
definition MakePlayerNotFound :: "cstring \<Rightarrow> Channel \<Rightarrow> Packet" where
  "MakePlayerNotFound name = MakeNotifyPacket 0x09 (zstr name)"
definition MakeNotOwner :: "Channel \<Rightarrow> Packet" where
  "MakeNotOwner = MakeNotifyPacket 0x0A []"
definition MakeChannelOwner :: "ChannelEnv \<Rightarrow> Channel \<Rightarrow> Packet" where
  "MakeChannelOwner env c =
     (let name = (case account_name env (m_ownerGuid c) of
                    Some n \<Rightarrow> if n = [] then ascii ''PLAYER_NOT_FOUND'' else n
                  | None \<Rightarrow> ascii ''PLAYER_NOT_FOUND'')
      in MakeNotifyPacket 0x0B
           (zstr (if IsConstant c \<or> m_ownerGuid c = 0 then ascii ''Nobody'' else name)) c)"
definition MakeModeChange :: "ObjectGuid \<Rightarrow> uint8 \<Rightarrow> Channel \<Rightarrow> Packet" where
  "MakeModeChange g oldflags c =
     MakeNotifyPacket 0x0C (le_bytes g @ [oldflags, GetPlayerFlags g c]) c"
definition MakeAnnouncementsOn :: "ObjectGuid \<Rightarrow> Channel \<Rightarrow> Packet" where
  "MakeAnnouncementsOn g = MakeNotifyPacket 0x0D (le_bytes g)"
definition MakeAnnouncementsOff :: "ObjectGuid \<Rightarrow> Channel \<Rightarrow> Packet" where
  "MakeAnnouncementsOff g = MakeNotifyPacket 0x0E (le_bytes g)"
definition MakeModerationOn :: "ObjectGuid \<Rightarrow> Channel \<Rightarrow> Packet" where
  "MakeModerationOn g = MakeNotifyPacket 0x0F (le_bytes g)"
definition MakeModerationOff :: "ObjectGuid \<Rightarrow> Channel \<Rightarrow> Packet" where
  "MakeModerationOff g = MakeNotifyPacket 0x10 (le_bytes g)"
definition MakeMuted :: "Channel \<Rightarrow> Packet" where
  "MakeMuted = MakeNotifyPacket 0x11 []"
definition MakePlayerKicked :: "ObjectGuid \<Rightarrow> ObjectGuid \<Rightarrow> Channel \<Rightarrow> Packet" where
  "MakePlayerKicked target source = MakeNotifyPacket 0x12 (le_bytes target @ le_bytes source)"
definition MakeBanned :: "Channel \<Rightarrow> Packet" where
  "MakeBanned = MakeNotifyPacket 0x13 []"
definition MakePlayerBanned :: "ObjectGuid \<Rightarrow> ObjectGuid \<Rightarrow> Channel \<Rightarrow> Packet" where
  "MakePlayerBanned target source = MakeNotifyPacket 0x14 (le_bytes target @ le_bytes source)"
definition MakePlayerUnbanned :: "ObjectGuid \<Rightarrow> ObjectGuid \<Rightarrow> Channel \<Rightarrow> Packet" where
  "MakePlayerUnbanned target source = MakeNotifyPacket 0x15 (le_bytes target @ le_bytes source)"
definition MakePlayerNotBanned :: "cstring \<Rightarrow> Channel \<Rightarrow> Packet" where
  "MakePlayerNotBanned name = MakeNotifyPacket 0x16 (zstr name)"
definition MakePlayerAlreadyMember :: "ObjectGuid \<Rightarrow> Channel \<Rightarrow> Packet" where
  "MakePlayerAlreadyMember g = MakeNotifyPacket 0x17 (le_bytes g)"
definition MakeInvite :: "ObjectGuid \<Rightarrow> Channel \<Rightarrow> Packet" where
  "MakeInvite g = MakeNotifyPacket 0x18 (le_bytes g)"
definition MakeInviteWrongFaction :: "Channel \<Rightarrow> Packet" where
  "MakeInviteWrongFaction = MakeNotifyPacket 0x19 []"
definition MakePlayerInvited :: "cstring \<Rightarrow> Channel \<Rightarrow> Packet" where
  "MakePlayerInvited name = MakeNotifyPacket 0x1D (zstr name)"
definition MakePlayerInviteBanned :: "cstring \<Rightarrow> Channel \<Rightarrow> Packet" where
  "MakePlayerInviteBanned name = MakeNotifyPacket 0x1E (zstr name)"
definition MakeNotInLfg :: "Channel \<Rightarrow> Packet" where
  "MakeNotInLfg = MakeNotifyPacket 0x21 []"

section \<open>Sending\<close>

definition SendToAll :: "ChannelEnv \<Rightarrow> ObjectGuid \<Rightarrow> Packet \<Rightarrow> Channel \<Rightarrow> Effect list" where
  "SendToAll env ignored data c =
     concat (map (\<lambda>(g, i).
       case GetPlayer_guid env g of
         None \<Rightarrow> []
       | Some plr \<Rightarrow>
           if ignored = 0 \<or> ignored \<notin> p_ignores plr then [Send (p_guid plr) data] else [])
       (m_players c))"

definition SendToOne :: "ChannelEnv \<Rightarrow> ObjectGuid \<Rightarrow> Packet \<Rightarrow> Effect list" where
  "SendToOne env who data =
     (case GetPlayer_guid env who of None \<Rightarrow> [] | Some plr \<Rightarrow> [Send (p_guid plr) data])"

definition JoinNotify :: "ChannelEnv \<Rightarrow> ObjectGuid \<Rightarrow> Channel \<Rightarrow> Effect list" where
  "JoinNotify env g c =
     SendToAll env 0
       (WorldPacket (if IsConstant c then SMSG_USERLIST_ADD else SMSG_USERLIST_UPDATE)
          (le_bytes g @ [GetPlayerFlags g c, m_flags c] @ le_bytes (GetNumPlayers c) @ zstr (m_name c))) c"

definition LeaveNotify :: "ChannelEnv \<Rightarrow> ObjectGuid \<Rightarrow> Channel \<Rightarrow> Effect list" where
  "LeaveNotify env g c =
     SendToAll env 0
       (WorldPacket SMSG_USERLIST_REMOVE
          (le_bytes g @ [m_flags c] @ le_bytes (GetNumPlayers c) @ zstr (m_name c))) c"

text \<open>The private setters.\<close>

definition SetModerator_guid ::
  "ChannelEnv \<Rightarrow> ObjectGuid \<Rightarrow> bool \<Rightarrow> Channel \<Rightarrow> Channel \<times> Effect list" where
  "SetModerator_guid env g on c =
     (let c = put_member g (member_at g c) c
      in if IsModerator (member_at g c) \<noteq> on
         then let oldFlag = GetPlayerFlags g c;
                  c = put_member g (PlayerInfo_SetModerator on (member_at g c)) c
              in (c, SendToAll env 0 (MakeModeChange g oldFlag c) c)
         else (c, []))"

definition SetMute_guid ::
  "ChannelEnv \<Rightarrow> ObjectGuid \<Rightarrow> bool \<Rightarrow> Channel \<Rightarrow> Channel \<times> Effect list" where
  "SetMute_guid env g on c =
     (let c = put_member g (member_at g c) c
      in if IsMuted (member_at g c) \<noteq> on
         then let oldFlag = GetPlayerFlags g c;
                  c = put_member g (PlayerInfo_SetMuted on (member_at g c)) c
              in (c, SendToAll env 0 (MakeModeChange g oldFlag c) c)
         else (c, []))"

definition SetOwner_guid ::
  "ChannelEnv \<Rightarrow> ObjectGuid \<Rightarrow> bool \<Rightarrow> Channel \<Rightarrow> Channel \<times> Effect list" where
  "SetOwner_guid env g exclaim c =
     (let c = (if m_ownerGuid c \<noteq> 0 \<and> IsOn (m_ownerGuid c) c
               then put_member (m_ownerGuid c)
                      (PlayerInfo_SetOwner False (member_at (m_ownerGuid c) c)) c
               else c);
          c = c\<lparr>m_ownerGuid := g\<rparr>
      in if g \<noteq> 0
         then let oldFlag = GetPlayerFlags g c;
                  c = put_member g (PlayerInfo_SetOwner True (member_at g c)) c
              in (c, SendToAll env 0 (MakeModeChange g oldFlag c) c @
                     (if exclaim then SendToAll env 0 (MakeOwnerChanged g c) c else []))
         else (c, []))"

section \<open>Handlers\<close>

definition below_gm :: "Player \<Rightarrow> bool" where
  "below_gm p \<longleftrightarrow> sec_level (p_security p) < sec_level SEC_GAMEMASTER"

definition announces :: "ChannelEnv \<Rightarrow> Player \<Rightarrow> Channel \<Rightarrow> bool" where
  "announces env p c \<longleftrightarrow> m_announce c \<and> (below_gm p \<or> \<not> cfg_silently_gm_join env)"

definition Join :: "ChannelEnv \<Rightarrow> Player \<Rightarrow> cstring \<Rightarrow> Channel \<Rightarrow> Channel \<times> Effect list" where
  "Join env p pass c =
     (let g = p_guid p
      in if IsOn g c
         then (c, if IsConstant c then [] else SendToOne env g (MakePlayerAlreadyMember g c))
         else if IsBanned g c then (c, SendToOne env g (MakeBanned c))
         else if 0 < length (m_password c) \<and> pass \<noteq> m_password c
           then (c, SendToOne env g (MakeWrongPassword c))
         else if m_flags c AND CHANNEL_FLAG_LFG \<noteq> 0 \<and> cfg_restricted_lfg env \<and> p_security p = SEC_PLAYER
           then (c, SendToOne env g (MakeNotInLfg c))
         else if p_guildId p \<noteq> 0 \<and> m_flags c = 0x38 then (c, [])
         else
           let eff = [JoinedChannel g] @
                     (if announces env p c then SendToAll env 0 (MakeJoined g c) c else []);
               c = put_member g ((member_at g c)\<lparr>pi_player := g, pi_flags := MEMBER_FLAG_NONE\<rparr>) c;
               eff = eff @ SendToOne env g (MakeYouJoined c) @ JoinNotify env g c
           in if \<not> IsConstant c \<and> m_ownerGuid c = 0
              then let (c, eff') = SetOwner_guid env g (1 < length (m_players c)) c
                   in (put_member g (PlayerInfo_SetModerator True (member_at g c)) c, eff @ eff')
              else (c, eff))"

definition Leave :: "ChannelEnv \<Rightarrow> Player \<Rightarrow> bool \<Rightarrow> Channel \<Rightarrow> Channel \<times> Effect list" where
  "Leave env p send c =
     (let g = p_guid p
      in if \<not> IsOn g c
         then (c, if send then SendToOne env g (MakeNotMember c) else [])
         else
           let eff = (if send then SendToOne env g (MakeYouLeft c) @ [LeftChannel g] else []);
               changeowner = IsOwner (member_at g c);
               c = c\<lparr>m_players := smap_erase g (m_players c)\<rparr>;
               eff = eff @ (if announces env p c then SendToAll env 0 (MakeLeft g c) c else []) @
                     LeaveNotify env g c
           in if changeowner
              then let newowner = (case smap_begin (m_players c) of Some (k, i) \<Rightarrow> pi_player i | None \<Rightarrow> 0);
                       (c, eff') = SetOwner_guid env newowner True c
                   in (c, eff @ eff')
              else (c, eff))"
text \<open>The checks that open most handlers; a failed one answers the caller and ends the handler.\<close>

definition not_member :: "ChannelEnv \<Rightarrow> Player \<Rightarrow> Channel \<Rightarrow> Channel \<times> Effect list" where
  "not_member env p c = (c, SendToOne env (p_guid p) (MakeNotMember c))"

definition not_moderator :: "ChannelEnv \<Rightarrow> Player \<Rightarrow> Channel \<Rightarrow> Channel \<times> Effect list" where
  "not_moderator env p c = (c, SendToOne env (p_guid p) (MakeNotModerator c))"

definition not_owner :: "ChannelEnv \<Rightarrow> Player \<Rightarrow> Channel \<Rightarrow> Channel \<times> Effect list" where
  "not_owner env p c = (c, SendToOne env (p_guid p) (MakeNotOwner c))"

definition not_found :: "ChannelEnv \<Rightarrow> Player \<Rightarrow> cstring \<Rightarrow> Channel \<Rightarrow> Channel \<times> Effect list" where
  "not_found env p name c = (c, SendToOne env (p_guid p) (MakePlayerNotFound name c))"

declare not_member_def [early_exit] not_moderator_def [early_exit] not_owner_def [early_exit]
  not_found_def [early_exit]

definition may_moderate :: "Player \<Rightarrow> Channel \<Rightarrow> bool" where
  "may_moderate p c \<longleftrightarrow> IsModerator (member_at (p_guid p) c) \<or> \<not> below_gm p"

definition KickOrBan ::
  "ChannelEnv \<Rightarrow> Player \<Rightarrow> cstring \<Rightarrow> bool \<Rightarrow> Channel \<Rightarrow> Channel \<times> Effect list" where
  "KickOrBan env p targetName ban c =
     (let g = p_guid p
      in if \<not> IsOn g c then not_member env p c
         else if \<not> may_moderate p c then not_moderator env p c
         else case GetPlayer_name env targetName of
           None \<Rightarrow> not_found env p targetName c
         | Some target \<Rightarrow>
             let t = p_guid target
             in if \<not> IsOn t c then not_found env p targetName c
                else
                  let changeowner = (m_ownerGuid c = t)
                  in if below_gm p \<and> changeowner \<and> g \<noteq> m_ownerGuid c then not_owner env p c
                     else
                       let newban = (ban \<and> \<not> IsBanned t c);
                           c = (if newban then c\<lparr>m_banned := insert t (m_banned c)\<rparr> else c);
                           data = (if newban then MakePlayerBanned t g c else MakePlayerKicked t g c);
                           eff = SendToAll env 0 data c;
                           c = c\<lparr>m_players := smap_erase t (m_players c)\<rparr>;
                           eff = eff @ [LeftChannel t]
                       in if changeowner
                          then let newowner = (if m_players c \<noteq> [] then g else 0);
                                   (c, eff') = SetOwner_guid env newowner True c
                               in (c, eff @ eff')
                          else (c, eff))"

definition UnBan :: "ChannelEnv \<Rightarrow> Player \<Rightarrow> cstring \<Rightarrow> Channel \<Rightarrow> Channel \<times> Effect list" where
  "UnBan env p targetName c =
     (let g = p_guid p
      in if \<not> IsOn g c then not_member env p c
         else if \<not> may_moderate p c then not_moderator env p c
         else case GetPlayer_name env targetName of
           None \<Rightarrow> not_found env p targetName c
         | Some target \<Rightarrow>
             let t = p_guid target
             in if \<not> IsBanned t c
                then (c, SendToOne env g (MakePlayerNotBanned targetName c))
                else let c = c\<lparr>m_banned := m_banned c - {t}\<rparr>
                     in (c, SendToAll env 0 (MakePlayerUnbanned t g c) c))"

definition Password :: "ChannelEnv \<Rightarrow> Player \<Rightarrow> cstring \<Rightarrow> Channel \<Rightarrow> Channel \<times> Effect list" where
  "Password env p pass c =
     (let g = p_guid p
      in if \<not> IsOn g c then not_member env p c
         else if \<not> may_moderate p c then not_moderator env p c
         else let c = c\<lparr>m_password := pass\<rparr>
              in (c, SendToAll env 0 (MakePasswordChanged g c) c))"

definition SetMode ::
  "ChannelEnv \<Rightarrow> Player \<Rightarrow> cstring \<Rightarrow> bool \<Rightarrow> bool \<Rightarrow> Channel \<Rightarrow> Channel \<times> Effect list" where
  "SetMode env p targetName moderator on c =
     (let g = p_guid p
      in if \<not> IsOn g c then not_member env p c
         else if \<not> may_moderate p c then not_moderator env p c
         else case GetPlayer_name env targetName of
           None \<Rightarrow> not_found env p targetName c
         | Some target \<Rightarrow>
             let t = p_guid target
             in if moderator \<and> g = m_ownerGuid c \<and> t = m_ownerGuid c then (c, [])
                else if \<not> IsOn t c then not_found env p targetName c
                else if (below_gm p \<or> below_gm target) \<and> p_team p \<noteq> p_team target \<and>
                        \<not> cfg_two_side_channel env then not_found env p targetName c
                else if m_ownerGuid c = t \<and> m_ownerGuid c \<noteq> g then not_owner env p c
                else if moderator then SetModerator_guid env t on c else SetMute_guid env t on c)"

definition SetOwner :: "ChannelEnv \<Rightarrow> Player \<Rightarrow> cstring \<Rightarrow> Channel \<Rightarrow> Channel \<times> Effect list" where
  "SetOwner env p targetName c =
     (let g = p_guid p
      in if \<not> IsOn g c then not_member env p c
         else if below_gm p \<and> g \<noteq> m_ownerGuid c then not_owner env p c
         else case GetPlayer_name env targetName of
           None \<Rightarrow> not_found env p targetName c
         | Some target \<Rightarrow>
             let t = p_guid target
             in if \<not> IsOn t c then not_found env p targetName c
                else if p_team target \<noteq> p_team p \<and> \<not> cfg_two_side_channel env
                then not_found env p targetName c
                else SetOwner_guid env t True
                       (put_member t (PlayerInfo_SetModerator True (member_at t c)) c))"

definition SendWhoOwner :: "ChannelEnv \<Rightarrow> Player \<Rightarrow> Channel \<Rightarrow> Channel \<times> Effect list" where
  "SendWhoOwner env p c =
     (if \<not> IsOn (p_guid p) c then not_member env p c
      else (c, SendToOne env (p_guid p) (MakeChannelOwner env c)))"

definition listed :: "ChannelEnv \<Rightarrow> Player \<Rightarrow> Player \<Rightarrow> bool" where
  "listed env p plr \<longleftrightarrow>
     (sec_level (p_security p) > sec_level SEC_PLAYER \<or>
      sec_level (p_security plr) \<le> cfg_gm_level_in_who env) \<and>
     (sec_level (p_security plr) \<le> sec_level (p_security p) \<or>
      visible_globally env (p_guid plr) (p_guid p))"

definition ListPlayers :: "ChannelEnv \<Rightarrow> Player \<Rightarrow> Channel \<Rightarrow> Channel \<times> Effect list" where
  "ListPlayers env p c =
     (if \<not> IsOn (p_guid p) c then not_member env p c
      else
        let rows = filter (\<lambda>(g, i). case GetPlayer_guid env g of
                       None \<Rightarrow> False | Some plr \<Rightarrow> listed env p plr) (m_players c);
            count = of_nat (length rows) :: uint32
        in (c, SendToOne env (p_guid p)
                 (WorldPacket SMSG_CHANNEL_LIST
                    ([1] @ zstr (m_name c) @ [m_flags c] @ le_bytes count @
                     concat (map (\<lambda>(g, i). le_bytes g @ [pi_flags i]) rows)))))"

definition Announce :: "ChannelEnv \<Rightarrow> Player \<Rightarrow> Channel \<Rightarrow> Channel \<times> Effect list" where
  "Announce env p c =
     (let g = p_guid p
      in if \<not> IsOn g c then not_member env p c
         else if \<not> may_moderate p c then not_moderator env p c
         else let c = c\<lparr>m_announce := \<not> m_announce c\<rparr>
              in (c, SendToAll env 0 (if m_announce c then MakeAnnouncementsOn g c
                                      else MakeAnnouncementsOff g c) c))"

definition Moderate :: "ChannelEnv \<Rightarrow> Player \<Rightarrow> Channel \<Rightarrow> Channel \<times> Effect list" where
  "Moderate env p c =
     (let g = p_guid p
      in if \<not> IsOn g c then not_member env p c
         else if \<not> may_moderate p c then not_moderator env p c
         else let c = c\<lparr>m_moderate := \<not> m_moderate c\<rparr>
              in (c, SendToAll env 0 (if m_moderate c then MakeModerationOn g c
                                      else MakeModerationOff g c) c))"

text \<open>\<open>LANG_UNIVERSAL\<close> is 0.\<close>

definition Say :: "ChannelEnv \<Rightarrow> Player \<Rightarrow> cstring \<Rightarrow> uint32 \<Rightarrow> Channel \<Rightarrow> Channel \<times> Effect list" where
  "Say env p txt lang c =
     (let g = p_guid p
      in if \<not> IsOn g c then not_member env p c
         else if IsMuted (member_at g c) then (c, SendToOne env g (MakeMuted c))
         else if m_moderate c \<and> \<not> may_moderate p c then not_moderator env p c
         else
           let lang = (if cfg_two_side_channel env then 0 else lang);
               data = ChatPacket txt lang (p_chatTag p) g (p_name p) (m_name c)
           in (c, SendToAll env (if \<not> IsModerator (member_at g c) then g else 0) data c))"

definition Invite :: "ChannelEnv \<Rightarrow> Player \<Rightarrow> cstring \<Rightarrow> Channel \<Rightarrow> Channel \<times> Effect list" where
  "Invite env p targetName c =
     (let g = p_guid p
      in if \<not> IsOn g c then not_member env p c
         else case GetPlayer_name env targetName of
           None \<Rightarrow> not_found env p targetName c
         | Some target \<Rightarrow>
             let t = p_guid target
             in if IsOn t c then (c, SendToOne env g (MakePlayerAlreadyMember t c))
                else if IsBanned t c then (c, SendToOne env g (MakePlayerInviteBanned targetName c))
                else if p_team target \<noteq> p_team p \<and> \<not> cfg_two_side_channel env
                then (c, SendToOne env g (MakeInviteWrongFaction c))
                else (c, (if g \<notin> p_ignores target then SendToOne env t (MakeInvite g c) else []) @
                         SendToOne env g (MakePlayerInvited targetName c)))"

end
