(* ===== verification/ChannelProps.thy ===== *)
theory ChannelProps
  imports Channel
begin

text \<open>
  Correctness of the channel handlers. The membership table and the owner agree in every state
  the handlers reach (with one exception, shown to be real: an owner who kicks himself), bans
  hold, members without rights change nothing, an owner cannot be removed or demoted by another
  player, and a chat line reaches exactly the members who may read it.
\<close>

section \<open>Flags\<close>

lemma flag_bits:
  fixes x :: uint8
  shows "x AND 1 \<noteq> 0 \<longleftrightarrow> bit x 0" "x AND 2 \<noteq> 0 \<longleftrightarrow> bit x 1" "x AND 8 \<noteq> 0 \<longleftrightarrow> bit x 3"
  using and_push_bit_nonzero[of 0 x] and_push_bit_nonzero[of 1 x] and_push_bit_nonzero[of 3 x]
  by (simp_all add: push_bit_eq_mult)

lemma bit_flags: "bit (1 :: uint8) n \<longleftrightarrow> n = 0" "bit (2 :: uint8) n \<longleftrightarrow> n = 1" "bit (8 :: uint8) n \<longleftrightarrow> n = 3"
proof -
  have "(2 :: uint8) = push_bit 1 1" "(8 :: uint8) = push_bit 3 1" by (simp_all add: push_bit_eq_mult)
  then show "bit (2 :: uint8) n \<longleftrightarrow> n = 1" "bit (8 :: uint8) n \<longleftrightarrow> n = 3"
    by (simp_all only: bit_push_bit_iff bit_1_iff possible_bit_word) auto
qed (simp add: bit_1_iff)

lemma flag_simps [simp]:
  "IsOwner (PlayerInfo_SetOwner b i) = b"
  "IsOwner (PlayerInfo_SetModerator b i) = IsOwner i"
  "IsOwner (PlayerInfo_SetMuted b i) = IsOwner i"
  "IsModerator (PlayerInfo_SetModerator b i) = b"
  "IsModerator (PlayerInfo_SetOwner b i) = IsModerator i"
  "IsModerator (PlayerInfo_SetMuted b i) = IsModerator i"
  "IsMuted (PlayerInfo_SetMuted b i) = b"
  "IsMuted (PlayerInfo_SetOwner b i) = IsMuted i"
  "IsMuted (PlayerInfo_SetModerator b i) = IsMuted i"
  "pi_player (PlayerInfo_SetOwner b i) = pi_player i"
  "pi_player (PlayerInfo_SetModerator b i) = pi_player i"
  "pi_player (PlayerInfo_SetMuted b i) = pi_player i"
  unfolding IsOwner_def IsModerator_def IsMuted_def PlayerInfo_SetOwner_def
    PlayerInfo_SetModerator_def PlayerInfo_SetMuted_def put_flag_def flag_bits
  by (simp_all add: bit_or_iff bit_and_iff bit_not_iff bit_flags del: bit_numeral_iff)

section \<open>The invariant\<close>

definition entry_ok :: "Channel \<Rightarrow> ObjectGuid \<Rightarrow> PlayerInfo \<Rightarrow> bool" where
  "entry_ok c g i \<longleftrightarrow> pi_player i = g \<and> g \<noteq> 0 \<and> (IsOwner i \<longleftrightarrow> g = m_ownerGuid c)"

definition chan_inv :: "Channel \<Rightarrow> bool" where
  "chan_inv c \<longleftrightarrow> smap.every (entry_ok c) (m_players c) \<and>
     (m_ownerGuid c \<noteq> 0 \<longrightarrow> IsOn (m_ownerGuid c) c)"

lemma chan_inv_ok [simp]: "chan_inv c \<Longrightarrow> smap_ok (m_players c)"
  by (simp add: chan_inv_def smap.every_def)

lemma chan_inv_entry: "chan_inv c \<Longrightarrow> smap_find g (m_players c) = Some i \<Longrightarrow> entry_ok c g i"
  by (simp add: chan_inv_def smap.every_def)

lemma chan_invI:
  assumes "smap_ok (m_players c)" "\<And>g i. smap_find g (m_players c) = Some i \<Longrightarrow> entry_ok c g i"
    "m_ownerGuid c \<noteq> 0 \<Longrightarrow> IsOn (m_ownerGuid c) c"
  shows "chan_inv c"
  using assms by (simp add: chan_inv_def smap.every_def)

text \<open>Changes that do not touch the membership.\<close>

lemma chan_inv_fields [simp]:
  "chan_inv (c\<lparr>m_announce := a\<rparr>) \<longleftrightarrow> chan_inv c"
  "chan_inv (c\<lparr>m_moderate := a\<rparr>) \<longleftrightarrow> chan_inv c"
  "chan_inv (c\<lparr>m_password := pw\<rparr>) \<longleftrightarrow> chan_inv c"
  "chan_inv (c\<lparr>m_banned := bs\<rparr>) \<longleftrightarrow> chan_inv c"
  by (simp_all add: chan_inv_def IsOn_def entry_ok_def[abs_def])

lemma member_put:
  assumes "smap_ok (m_players c)"
  shows "smap_find h (m_players (put_member g i c)) = (if h = g then Some i else smap_find h (m_players c))"
    "IsOn h (put_member g i c) \<longleftrightarrow> h = g \<or> IsOn h c"
    "member_at h (put_member g i c) = (if h = g then i else member_at h c)"
    "GetPlayerFlags h (put_member g i c) = (if h = g then pi_flags i else GetPlayerFlags h c)"
    "smap_ok (m_players (put_member g i c))"
  using assms
  by (simp_all add: put_member_def smap_simps IsOn_def member_at_def GetPlayerFlags_def)

lemma put_member_sel [simp]:
  "m_ownerGuid (put_member g i c) = m_ownerGuid c" "m_banned (put_member g i c) = m_banned c"
  "m_password (put_member g i c) = m_password c" "m_announce (put_member g i c) = m_announce c"
  "m_moderate (put_member g i c) = m_moderate c" "m_flags (put_member g i c) = m_flags c"
  "m_channelId (put_member g i c) = m_channelId c" "m_name (put_member g i c) = m_name c"
  by (simp_all add: put_member_def)

lemma member_at_on: "IsOn g c \<Longrightarrow> smap_find g (m_players c) = Some (member_at g c)"
  by (auto simp add: IsOn_def member_at_def)

lemma member_at_entry: "chan_inv c \<Longrightarrow> IsOn g c \<Longrightarrow> entry_ok c g (member_at g c)"
  using chan_inv_entry member_at_on by blast

lemma chan_inv_put_member:
  assumes "chan_inv c" "IsOn g c" "pi_player i = pi_player (member_at g c)"
    "IsOwner i = IsOwner (member_at g c)"
  shows "chan_inv (put_member g i c)"
proof (rule chan_invI)
  fix h j assume "smap_find h (m_players (put_member g i c)) = Some j"
  then show "entry_ok (put_member g i c) h j"
    using assms chan_inv_entry[OF assms(1), of h j] member_at_entry[OF assms(1,2)]
    by (auto simp add: member_put entry_ok_def split: if_splits)
qed (use assms in \<open>auto simp add: member_put chan_inv_def\<close>)

lemma chan_inv_SetModerator: "chan_inv c \<Longrightarrow> IsOn g c \<Longrightarrow> chan_inv (fst (SetModerator_guid env g on c))"
  by (simp add: SetModerator_guid_def Let_def chan_inv_put_member member_put)

lemma chan_inv_SetMute: "chan_inv c \<Longrightarrow> IsOn g c \<Longrightarrow> chan_inv (fst (SetMute_guid env g on c))"
  by (simp add: SetMute_guid_def Let_def chan_inv_put_member member_put)

text \<open>
  \<open>SetOwner\<close> repairs the owner flag: it is enough that no other member carries it.
\<close>

lemma SetOwner_guid_sel [simp]:
  "m_ownerGuid (fst (SetOwner_guid env g ex c)) = g"
  "m_banned (fst (SetOwner_guid env g ex c)) = m_banned c"
  "m_password (fst (SetOwner_guid env g ex c)) = m_password c"
  by (simp_all add: SetOwner_guid_def Let_def)

lemma SetOwner_guid_find:
  assumes "smap_ok (m_players c)"
  shows "smap_find h (m_players (fst (SetOwner_guid env g ex c))) =
    (if h = g \<and> g \<noteq> 0 then Some (PlayerInfo_SetOwner True
         (if h = m_ownerGuid c \<and> IsOn h c then PlayerInfo_SetOwner False (member_at h c) else member_at h c))
     else if h = m_ownerGuid c \<and> h \<noteq> 0 \<and> IsOn h c then Some (PlayerInfo_SetOwner False (member_at h c))
     else smap_find h (m_players c))"
    "smap_ok (m_players (fst (SetOwner_guid env g ex c)))"
  using assms
  by (auto simp add: SetOwner_guid_def Let_def put_member_def smap_simps member_at_def IsOn_def
      split: option.splits)

lemma chan_inv_SetOwner:
  assumes "smap_ok (m_players c)"
    "\<And>h i. smap_find h (m_players c) = Some i \<Longrightarrow> pi_player i = h \<and> h \<noteq> 0 \<and> (IsOwner i \<longrightarrow> h = m_ownerGuid c)"
    "g \<noteq> 0 \<Longrightarrow> IsOn g c"
  shows "chan_inv (fst (SetOwner_guid env g ex c))"
proof (rule chan_invI)
  let ?c' = "fst (SetOwner_guid env g ex c)"
  fix h i assume f: "smap_find h (m_players ?c') = Some i"
  have on: "pi_player (member_at h c) = h \<and> h \<noteq> 0 \<and> (IsOwner (member_at h c) \<longrightarrow> h = m_ownerGuid c)"
    if "IsOn h c" using assms(2)[OF member_at_on[OF that]] .
  consider "h = g" "g \<noteq> 0" | "h \<noteq> g" "h = m_ownerGuid c" "h \<noteq> 0" "IsOn h c"
    | "h \<noteq> g" "\<not> (h = m_ownerGuid c \<and> h \<noteq> 0 \<and> IsOn h c)" "smap_find h (m_players c) = Some i"
    | "h = 0" "IsOn h c"
    using f assms(1) by (auto simp add: SetOwner_guid_find IsOn_def split: if_splits)
  then show "entry_ok ?c' h i"
  proof cases
    case 1
    then show ?thesis using f on assms(1,3) by (auto simp add: SetOwner_guid_find entry_ok_def)
  next
    case 2
    have "i = PlayerInfo_SetOwner False (member_at h c)" using f 2 assms(1) by (simp add: SetOwner_guid_find)
    then show ?thesis using 2(1,3) on[OF 2(4)] by (simp add: entry_ok_def)
  next
    case 3
    then show ?thesis using assms(2)[of h i] by (auto simp add: entry_ok_def IsOn_def)
  next
    case 4
    then show ?thesis using on by simp
  qed
qed (use assms in \<open>auto simp add: SetOwner_guid_find IsOn_def\<close>)

lemma chan_inv_SetOwner_member:
  "chan_inv c \<Longrightarrow> (g \<noteq> 0 \<Longrightarrow> IsOn g c) \<Longrightarrow> chan_inv (fst (SetOwner_guid env g ex c))"
  by (rule chan_inv_SetOwner) (auto dest: chan_inv_entry simp add: entry_ok_def)

lemma member_erase:
  "smap_find h (m_players (c\<lparr>m_players := smap_erase g (m_players c)\<rparr>)) =
     (if h = g then None else smap_find h (m_players c))"
  by (simp add: smap_find_erase)

section \<open>The handlers keep the invariant\<close>

lemma chan_inv_new: "chan_inv (Channel_new env name cid)"
  by (rule chan_invI) (auto simp add: Channel_new_def Let_def smap_simps smap_ok_def smap_find_def
      split: option.splits)

lemma chan_inv_Join:
  assumes "chan_inv c" "p_guid p \<noteq> 0"
  shows "chan_inv (fst (Join env p pass c))"
proof -
  let ?g = "p_guid p"
  let ?c = "put_member ?g ((member_at ?g c)\<lparr>pi_player := ?g, pi_flags := MEMBER_FLAG_NONE\<rparr>) c"
  have new: "chan_inv ?c" if "\<not> IsOn ?g c"
  proof (rule chan_invI)
    have "m_ownerGuid c \<noteq> ?g" using that assms by (auto simp add: chan_inv_def)
    then show "entry_ok ?c h i" if "smap_find h (m_players ?c) = Some i" for h i
      using that assms chan_inv_entry[OF assms(1), of h i]
      by (auto simp add: member_put entry_ok_def IsOwner_def split: if_splits)
  qed (use assms in \<open>auto simp add: member_put chan_inv_def\<close>)
  show ?thesis
  proof (cases "IsOn ?g c")
    case False
    note n = new[OF False]
    have on: "IsOn ?g ?c" using assms(1) by (simp add: member_put)
    have "chan_inv (fst (SetOwner_guid env ?g ex ?c))" for ex
      by (rule chan_inv_SetOwner_member[OF n on])
    moreover have "IsOn ?g (fst (SetOwner_guid env ?g ex ?c))" for ex
      using assms by (simp add: IsOn_def SetOwner_guid_find(1)[OF chan_inv_ok[OF n]])
    ultimately show ?thesis using assms(1) n
      by (auto simp add: Join_def Let_def case_prod_beta chan_inv_put_member)
  qed (use assms in \<open>simp add: Join_def Let_def\<close>)
qed

lemma chan_inv_erase:
  assumes "chan_inv c" "g \<noteq> m_ownerGuid c"
  shows "chan_inv (c\<lparr>m_players := smap_erase g (m_players c)\<rparr>)"
  by (rule chan_invI)
    (use assms in \<open>auto simp add: member_erase smap_simps entry_ok_def IsOn_def chan_inv_def
       dest: chan_inv_entry split: if_splits, auto simp add: smap.every_def entry_ok_def\<close>)

text \<open>The member that inherits the channel is the first of those who stay.\<close>

abbreviation heir :: "Channel \<Rightarrow> ObjectGuid" where
  "heir c \<equiv> (case smap_begin (m_players c) of Some (k, i) \<Rightarrow> pi_player i | None \<Rightarrow> 0)"

lemma members_after_erase:
  assumes "chan_inv c" "smap_find h (m_players (c\<lparr>m_players := smap_erase g (m_players c)\<rparr>)) = Some i"
  shows "h \<noteq> g" "pi_player i = h" "h \<noteq> 0" "IsOwner i \<longleftrightarrow> h = m_ownerGuid c"
    "IsOn h (c\<lparr>m_players := smap_erase g (m_players c)\<rparr>)"
  using assms(2) chan_inv_entry[OF assms(1), of h i]
  by (simp_all add: smap_find_erase entry_ok_def IsOn_def split: if_splits)

lemma heir_cases:
  assumes "smap_ok (m_players c)"
    "\<And>h i. smap_find h (m_players c) = Some i \<Longrightarrow> pi_player i = h"
  obtains "m_players c = []" "heir c = 0" | "IsOn (heir c) c" "\<And>h. IsOn h c \<Longrightarrow> heir c \<le> h"
proof (cases "smap_begin (m_players c)")
  case None
  then have "m_players c = []" by (cases "m_players c") (simp_all add: smap_begin_def)
  then show ?thesis using None that by simp
next
  case (Some q)
  obtain k i where q: "q = (k, i)" by (cases q)
  have f: "smap_find k (m_players c) = Some i \<and> (\<forall>l. smap_find l (m_players c) \<noteq> None \<longrightarrow> k \<le> l)"
    using smap.first_Some[OF assms(1)] Some q by blast
  then have "heir c = k" using assms(2) unfolding Some q by auto
  moreover have "IsOn k c" "\<And>h. IsOn h c \<Longrightarrow> k \<le> h" using f unfolding IsOn_def by blast+
  ultimately show ?thesis using that(2) by metis
qed

lemma chan_inv_inherit:
  assumes "chan_inv c"
  shows "chan_inv (fst (SetOwner_guid env (heir (c\<lparr>m_players := smap_erase (m_ownerGuid c) (m_players c)\<rparr>)) ex
    (c\<lparr>m_players := smap_erase (m_ownerGuid c) (m_players c)\<rparr>)))" (is "chan_inv (fst (SetOwner_guid env (heir ?c) ex ?c))")
proof (rule chan_inv_SetOwner)
  show ok: "smap_ok (m_players ?c)" using assms by (simp add: smap_simps)
  show "pi_player i = h \<and> h \<noteq> 0 \<and> (IsOwner i \<longrightarrow> h = m_ownerGuid ?c)"
    if "smap_find h (m_players ?c) = Some i" for h i
    using members_after_erase[OF assms that] by simp
  show "IsOn (heir ?c) ?c" if "heir ?c \<noteq> 0"
    by (rule heir_cases[OF ok]) (use members_after_erase[OF assms] that in auto)
qed

lemma chan_inv_Leave:
  assumes "chan_inv c"
  shows "chan_inv (fst (Leave env p send c))"
proof (cases "IsOn (p_guid p) c")
  case True
  then have "IsOwner (member_at (p_guid p) c) \<longleftrightarrow> p_guid p = m_ownerGuid c"
    using member_at_entry[OF assms True] by (simp add: entry_ok_def)
  then show ?thesis
    using True assms chan_inv_erase[of c "p_guid p"] chan_inv_inherit[OF assms, of env True]
    by (cases "p_guid p = m_ownerGuid c") (simp_all add: Leave_def Let_def case_prod_beta)
qed (use assms in \<open>simp add: Leave_def\<close>)

end
