(* ===== verification/ChannelSteps.thy ===== *)
theory ChannelSteps
  imports ChannelProps
begin

text \<open>
  The channel as a state machine: a step is one handler called by one player, in any environment
  (players come online and go offline between the steps, settings change). The invariant of the
  reachable channels, and the one call that breaks it.
\<close>

section \<open>Who is on the channel after an operation\<close>

lemma IsOn_put [simp]: "chan_inv c \<Longrightarrow> IsOn h (put_member g i c) \<longleftrightarrow> h = g \<or> IsOn h c"
  by (simp add: member_put)

lemma IsOn_fields [simp]:
  "IsOn h (c\<lparr>m_banned := bs\<rparr>) = IsOn h c" "IsOn h (c\<lparr>m_announce := a\<rparr>) = IsOn h c"
  "IsOn h (c\<lparr>m_moderate := a\<rparr>) = IsOn h c" "IsOn h (c\<lparr>m_password := pw\<rparr>) = IsOn h c"
  "IsOn h (c\<lparr>m_players := smap_erase g (m_players c)\<rparr>) \<longleftrightarrow> h \<noteq> g \<and> IsOn h c"
  by (simp_all add: IsOn_def smap_find_erase)

lemma IsConstant_sel [simp]:
  "IsConstant (put_member g i c) = IsConstant c" "IsConstant (c\<lparr>m_banned := bs\<rparr>) = IsConstant c"
  "IsConstant (c\<lparr>m_players := ms\<rparr>) = IsConstant c" "IsConstant (c\<lparr>m_announce := a\<rparr>) = IsConstant c"
  "IsConstant (c\<lparr>m_moderate := a\<rparr>) = IsConstant c" "IsConstant (c\<lparr>m_password := pw\<rparr>) = IsConstant c"
  "IsConstant (fst (SetOwner_guid env g ex c)) = IsConstant c"
  by (simp_all add: IsConstant_def SetOwner_guid_def Let_def)

lemma IsOn_SetOwner:
  "smap_ok (m_players c) \<Longrightarrow> IsOn h (fst (SetOwner_guid env g ex c)) \<longleftrightarrow> IsOn h c \<or> (h = g \<and> g \<noteq> 0)"
  by (auto simp add: IsOn_def SetOwner_guid_find)

lemma setters_sel [simp]:
  "m_ownerGuid (fst (SetModerator_guid env g on c)) = m_ownerGuid c"
  "m_ownerGuid (fst (SetMute_guid env g on c)) = m_ownerGuid c"
  "m_banned (fst (SetModerator_guid env g on c)) = m_banned c"
  "m_banned (fst (SetMute_guid env g on c)) = m_banned c"
  "IsConstant (fst (SetModerator_guid env g on c)) = IsConstant c"
  "IsConstant (fst (SetMute_guid env g on c)) = IsConstant c"
  by (simp_all add: SetModerator_guid_def SetMute_guid_def Let_def)

lemma IsOn_setters:
  assumes "chan_inv c" "IsOn g c"
  shows "IsOn h (fst (SetModerator_guid env g on c)) = IsOn h c"
    "IsOn h (fst (SetMute_guid env g on c)) = IsOn h c"
  using assms
  by (auto simp add: SetModerator_guid_def SetMute_guid_def Let_def member_put IsOn_def)

lemma empty_IsOn: "m_players c = [] \<longleftrightarrow> (\<forall>g. \<not> IsOn g c)"
proof (cases "m_players c")
  case (Cons q qs)
  then have "IsOn (fst q) c" by (cases q) (simp add: IsOn_def smap_find_def)
  then show ?thesis using Cons by auto
qed (simp add: IsOn_def smap_find_def)

section \<open>Handlers as steps\<close>

datatype ChannelOp =
    OpJoin cstring
  | OpLeave bool
  | OpKickOrBan cstring bool
  | OpUnBan cstring
  | OpPassword cstring
  | OpSetMode cstring bool bool
  | OpSetOwner cstring
  | OpSendWhoOwner
  | OpList
  | OpAnnounce
  | OpModerate
  | OpSay cstring uint32
  | OpInvite cstring

fun run_op :: "ChannelEnv \<Rightarrow> Player \<Rightarrow> ChannelOp \<Rightarrow> Channel \<Rightarrow> Channel \<times> Effect list" where
  "run_op env p (OpJoin pass) c = Join env p pass c"
| "run_op env p (OpLeave send) c = Leave env p send c"
| "run_op env p (OpKickOrBan name ban) c = KickOrBan env p name ban c"
| "run_op env p (OpUnBan name) c = UnBan env p name c"
| "run_op env p (OpPassword pass) c = Password env p pass c"
| "run_op env p (OpSetMode name moderator on) c = SetMode env p name moderator on c"
| "run_op env p (OpSetOwner name) c = SetOwner env p name c"
| "run_op env p OpSendWhoOwner c = SendWhoOwner env p c"
| "run_op env p OpList c = ListPlayers env p c"
| "run_op env p OpAnnounce c = Announce env p c"
| "run_op env p OpModerate c = Moderate env p c"
| "run_op env p (OpSay txt lang) c = Say env p txt lang c"
| "run_op env p (OpInvite name) c = Invite env p name c"

text \<open>The call that breaks the invariant: the owner kicks or bans himself.\<close>

fun kicks_self :: "ChannelEnv \<Rightarrow> Player \<Rightarrow> ChannelOp \<Rightarrow> Channel \<Rightarrow> bool" where
  "kicks_self env p (OpKickOrBan name ban) c =
     (p_guid p = m_ownerGuid c \<and> map_option p_guid (GetPlayer_name env name) = Some (p_guid p))"
| "kicks_self env p _ c = False"

inductive chan_step :: "Channel \<Rightarrow> Channel \<Rightarrow> bool" where
  "p_guid p \<noteq> 0 \<Longrightarrow> \<not> kicks_self env p op c \<Longrightarrow> chan_step c (fst (run_op env p op c))"

inductive chan_reachable :: "Channel \<Rightarrow> bool" where
  reach_new: "chan_reachable (Channel_new env name cid)"
| reach_step: "chan_reachable c \<Longrightarrow> chan_step c c' \<Longrightarrow> chan_reachable c'"

inductive_cases chan_stepE: "chan_step c c'"

section \<open>The invariant\<close>

definition chan_good :: "Channel \<Rightarrow> bool" where
  "chan_good c \<longleftrightarrow> chan_inv c \<and> (\<forall>g. IsOn g c \<longrightarrow> g \<notin> m_banned c \<and> (IsConstant c \<or> m_ownerGuid c \<noteq> 0))"

lemma chan_good_inv [simp]: "chan_good c \<Longrightarrow> chan_inv c"
  by (simp add: chan_good_def)

lemma chan_good_setters:
  assumes "chan_good c" "IsOn g c"
  shows "chan_good (fst (SetModerator_guid env g on c))" "chan_good (fst (SetMute_guid env g on c))"
  using assms by (simp_all add: chan_good_def chan_inv_SetModerator chan_inv_SetMute IsOn_setters)

lemma chan_good_put_member:
  assumes "chan_good c" "IsOn g c" "pi_player i = pi_player (member_at g c)"
    "IsOwner i = IsOwner (member_at g c)"
  shows "chan_good (put_member g i c)"
  using assms chan_inv_put_member[of c g i] by (auto simp add: chan_good_def)

lemma chan_good_SetOwner:
  assumes "chan_good c" "IsOn g c" "g \<noteq> 0"
  shows "chan_good (fst (SetOwner_guid env g ex c))"
  using assms by (auto simp add: chan_good_def IsOn_SetOwner chan_inv_SetOwner_member)

lemma Channel_new_players: "m_players (Channel_new env name cid) = []"
  by (simp add: Channel_new_def Let_def split: option.splits)

lemma chan_good_new: "chan_good (Channel_new env name cid)"
  using chan_inv_new by (simp add: chan_good_def IsOn_def Channel_new_players smap_find_def)

lemma Leave_members:
  assumes "chan_inv c"
  shows "IsOn h (fst (Leave env p send c)) \<longleftrightarrow> IsOn h c \<and> h \<noteq> p_guid p"
proof (cases "IsOn (p_guid p) c")
  case True
  let ?c = "c\<lparr>m_players := smap_erase (p_guid p) (m_players c)\<rparr>"
  have ok: "smap_ok (m_players ?c)" using assms by (simp add: smap_simps)
  have n: "heir ?c = 0 \<or> IsOn (heir ?c) ?c"
    by (rule heir_cases[OF ok]) (use members_after_erase[OF assms] in auto)
  show ?thesis
  proof (cases "IsOwner (member_at (p_guid p) c)")
    case o: True
    have "IsOn h (fst (Leave env p send c)) = IsOn h (fst (SetOwner_guid env (heir ?c) True ?c))"
      using True o by (simp add: Leave_def Let_def case_prod_beta)
    also have "\<dots> \<longleftrightarrow> IsOn h ?c \<or> (h = heir ?c \<and> heir ?c \<noteq> 0)" by (rule IsOn_SetOwner[OF ok])
    also have "\<dots> \<longleftrightarrow> IsOn h ?c" using n by blast
    finally show ?thesis by simp blast
  qed (use True in \<open>auto simp add: Leave_def Let_def\<close>)
qed (auto simp add: Leave_def)

lemma Leave_owner:
  assumes "chan_inv c" "IsOn (p_guid p) c"
  shows "m_ownerGuid (fst (Leave env p send c)) =
    (if p_guid p = m_ownerGuid c then heir (c\<lparr>m_players := smap_erase (p_guid p) (m_players c)\<rparr>) else m_ownerGuid c)"
  using assms member_at_entry[OF assms] by (simp add: Leave_def Let_def case_prod_beta entry_ok_def)

lemma Leave_sel [simp]:
  "m_banned (fst (Leave env p send c)) = m_banned c" "IsConstant (fst (Leave env p send c)) = IsConstant c"
  by (simp_all add: Leave_def Let_def case_prod_beta)

lemma chan_good_Leave [keeps]:
  assumes "chan_good c"
  shows "chan_good (fst (Leave env p send c))"
proof (cases "IsOn (p_guid p) c")
  case True
  let ?c = "c\<lparr>m_players := smap_erase (p_guid p) (m_players c)\<rparr>"
  have inv: "chan_inv c" using assms by simp
  have ok: "smap_ok (m_players ?c)" using inv by (simp add: smap_simps)
  have "m_ownerGuid (fst (Leave env p send c)) \<noteq> 0" if "\<not> IsConstant c" "IsOn h c" "h \<noteq> p_guid p" for h
  proof (cases "p_guid p = m_ownerGuid c")
    case o: True
    have on: "IsOn h ?c" using that by simp
    have zero: "\<not> IsOn 0 ?c" unfolding IsOn_def not_None_eq using members_after_erase(3)[OF inv, of 0] by blast
    have "heir ?c \<noteq> 0"
    proof (rule heir_cases[OF ok])
      assume "m_players ?c = []"
      then show ?thesis using on empty_IsOn by blast
    next
      assume "IsOn (heir ?c) ?c"
      then show ?thesis using zero by metis
    qed (rule members_after_erase(2)[OF inv])
    then show ?thesis using Leave_owner[OF inv True] o by simp
  next
    case False
    then show ?thesis using Leave_owner[OF inv True] that assms by (simp add: chan_good_def)
  qed
  then show ?thesis using assms chan_inv_Leave[OF inv] by (auto simp add: chan_good_def Leave_members)
qed (use assms in \<open>simp add: Leave_def\<close>)

lemma chan_good_Join [keeps]:
  assumes "chan_good c" "p_guid p \<noteq> 0"
  shows "chan_good (fst (Join env p pass c))"
proof -
  have inv: "chan_inv (fst (Join env p pass c))" using assms by (simp add: chan_inv_Join)
  let ?g = "p_guid p"
  let ?c = "put_member ?g ((member_at ?g c)\<lparr>pi_player := ?g, pi_flags := MEMBER_FLAG_NONE\<rparr>) c"
  have ok: "smap_ok (m_players ?c)" "smap_ok (m_players (fst (SetOwner_guid env ?g ex ?c)))" for ex
    using assms by (simp_all add: member_put SetOwner_guid_find)
  have b: "m_banned (fst (Join env p pass c)) = m_banned c" "IsConstant (fst (Join env p pass c)) = IsConstant c"
    by (simp_all add: Join_def Let_def case_prod_beta)
  show ?thesis
  proof (cases "fst (Join env p pass c) = c")
    case False
    then have nb: "?g \<notin> m_banned c" and on: "IsOn h (fst (Join env p pass c)) \<longleftrightarrow> IsOn h c \<or> h = ?g" for h
      using assms ok by (auto simp add: Join_def Let_def case_prod_beta IsBanned_def member_put IsOn_SetOwner split: if_splits)
    have "IsConstant c \<or> m_ownerGuid (fst (Join env p pass c)) \<noteq> 0"
      using False assms by (auto simp add: Join_def Let_def case_prod_beta split: if_splits)
    then show ?thesis using assms(1) nb inv by (auto simp add: chan_good_def on b)
  qed (use assms in simp)
qed

lemma chan_good_kick:
  assumes "chan_good c" "IsOn g c" "t \<noteq> g" "bs \<subseteq> insert t (m_banned c)"
  shows "t \<noteq> m_ownerGuid c \<Longrightarrow> chan_good (c\<lparr>m_banned := bs, m_players := smap_erase t (m_players c)\<rparr>)"
    and "t = m_ownerGuid c \<Longrightarrow>
      chan_good (fst (SetOwner_guid env g ex (c\<lparr>m_banned := bs, m_players := smap_erase t (m_players c)\<rparr>)))"
proof -
  let ?c = "c\<lparr>m_banned := bs, m_players := smap_erase t (m_players c)\<rparr>"
  have inv: "chan_inv (c\<lparr>m_banned := bs\<rparr>)" using assms(1) by simp
  have on: "IsOn h ?c \<longleftrightarrow> h \<noteq> t \<and> IsOn h c" for h by (simp add: IsOn_def smap_find_erase)
  have g0: "g \<noteq> 0" using member_at_entry[OF chan_good_inv[OF assms(1)] assms(2)] by (simp add: entry_ok_def)
  show "chan_good ?c" if "t \<noteq> m_ownerGuid c"
    using that assms chan_inv_erase[OF inv, of t] on by (auto simp add: chan_good_def IsConstant_def)
  assume o: "t = m_ownerGuid c"
  have ok: "smap_ok (m_players ?c)" using assms(1) by (simp add: smap_simps)
  have "chan_inv (fst (SetOwner_guid env g ex ?c))"
    by (rule chan_inv_SetOwner[OF ok])
      (use members_after_erase[OF inv, of _ t] assms on in auto)
  moreover have "IsOn h (fst (SetOwner_guid env g ex ?c)) \<longleftrightarrow> h \<noteq> t \<and> IsOn h c" for h
    using IsOn_SetOwner[OF ok, of h env g ex] on assms by auto
  ultimately show "chan_good (fst (SetOwner_guid env g ex ?c))"
    using assms g0 by (auto simp add: chan_good_def)
qed

lemma KickOrBan_cases:
  obtains (refused) "fst (KickOrBan env p name ban c) = c"
  | (kicked) target bs where "GetPlayer_name env name = Some target" "IsOn (p_guid p) c" "may_moderate p c"
      "IsOn (p_guid target) c" "bs \<subseteq> insert (p_guid target) (m_banned c)"
      "p_guid target \<noteq> m_ownerGuid c"
      "fst (KickOrBan env p name ban c) =
         c\<lparr>m_banned := bs, m_players := smap_erase (p_guid target) (m_players c)\<rparr>"
  | (unseated) target bs where "GetPlayer_name env name = Some target" "IsOn (p_guid p) c" "may_moderate p c"
      "IsOn (p_guid target) c" "bs \<subseteq> insert (p_guid target) (m_banned c)"
      "p_guid target = m_ownerGuid c" "\<not> below_gm p \<or> p_guid p = m_ownerGuid c"
      "fst (KickOrBan env p name ban c) =
         fst (SetOwner_guid env (if smap_erase (p_guid target) (m_players c) \<noteq> [] then p_guid p else 0) True
           (c\<lparr>m_banned := bs, m_players := smap_erase (p_guid target) (m_players c)\<rparr>))"
proof (cases "GetPlayer_name env name")
  case None
  then show ?thesis using refused
    by (simp add: KickOrBan_def Let_def early_exit split: if_splits)
next
  case (Some target)
  let ?bs = "if ban \<and> \<not> IsBanned (p_guid target) c then insert (p_guid target) (m_banned c) else m_banned c"
  have bs: "?bs \<subseteq> insert (p_guid target) (m_banned c)" by auto
  consider "fst (KickOrBan env p name ban c) = c"
    | "IsOn (p_guid p) c" "may_moderate p c" "IsOn (p_guid target) c"
      "\<not> (below_gm p \<and> m_ownerGuid c = p_guid target \<and> p_guid p \<noteq> m_ownerGuid c)"
    using Some by (fastforce simp add: KickOrBan_def Let_def early_exit split: if_splits)
  then show ?thesis
  proof cases
    case 2
    then show ?thesis
      using kicked[OF Some 2(1-3) bs] unseated[OF Some 2(1-3) bs] Some
      by (cases "p_guid target = m_ownerGuid c") (auto simp add: KickOrBan_def Let_def case_prod_beta)
  qed (rule refused)
qed

lemma chan_good_KickOrBan [keeps]:
  assumes "chan_good c" "\<not> kicks_self env p (OpKickOrBan name ban) c"
  shows "chan_good (fst (KickOrBan env p name ban c))"
proof (cases rule: KickOrBan_cases[of env p name ban c])
  case (kicked target bs)
  show ?thesis
  proof (cases "p_guid target = p_guid p")
    case False
    then show ?thesis using chan_good_kick(1)[OF assms(1) kicked(2) False kicked(5,6)] kicked(7) by simp
  next
    case True
    have inv: "chan_inv (c\<lparr>m_banned := bs\<rparr>)" using assms(1) by simp
    have on: "IsOn h (fst (KickOrBan env p name ban c)) \<longleftrightarrow> h \<noteq> p_guid target \<and> IsOn h c" for h
      by (simp add: kicked(7) IsOn_def smap_find_erase)
    show ?thesis
      using assms(1) kicked(5) chan_inv_erase[OF inv, of "p_guid target"] kicked(6) on
      unfolding chan_good_def by (auto simp add: kicked(7) IsConstant_def)
  qed
next
  case (unseated target bs)
  have ne: "p_guid target \<noteq> p_guid p" using assms(2) unseated(1,6) by auto
  have "smap_erase (p_guid target) (m_players c) \<noteq> []"
    using empty_IsOn[of "c\<lparr>m_players := smap_erase (p_guid target) (m_players c)\<rparr>"] unseated(2) ne
    by (simp, metis)
  then show ?thesis
    using chan_good_kick(2)[OF assms(1) unseated(2) ne unseated(5,6), of env True] unseated(8) by simp
qed (use assms in simp)

lemma chan_good_UnBan [keeps]: "chan_good c \<Longrightarrow> chan_good (fst (UnBan env p name c))"
  by (auto simp add: UnBan_def Let_def chan_good_def early_exit
      split: option.splits)

lemma chan_good_switches [keeps]:
  assumes "chan_good c"
  shows "chan_good (fst (Password env p pass c))" "chan_good (fst (Announce env p c))"
    "chan_good (fst (Moderate env p c))"
  using assms
  by (simp_all add: Password_def Announce_def Moderate_def Let_def chan_good_def early_exit)

lemma chan_good_SetMode [keeps]: "chan_good c \<Longrightarrow> chan_good (fst (SetMode env p name moderator on c))"
  by (auto simp add: SetMode_def Let_def early_exit
      chan_good_setters split: option.splits)

lemma chan_good_SetOwner_handler [keeps]: "chan_good c \<Longrightarrow> chan_good (fst (SetOwner env p name c))"
proof -
  assume c: "chan_good c"
  have "chan_good (fst (SetOwner_guid env t True (put_member t (PlayerInfo_SetModerator True (member_at t c)) c)))"
    if "IsOn t c" for t
    using that c member_at_entry[OF chan_good_inv[OF c] that]
    by (intro chan_good_SetOwner chan_good_put_member) (simp_all add: entry_ok_def)
  then show ?thesis using c
    by (simp add: SetOwner_def Let_def early_exit split: option.splits)
qed

lemma read_only_handlers [simp]:
  "fst (SendWhoOwner env p c) = c" "fst (ListPlayers env p c) = c" "fst (Say env p txt lang c) = c"
  "fst (Invite env p name c) = c"
  by (simp_all add: SendWhoOwner_def ListPlayers_def Say_def Invite_def Let_def early_exit split: option.splits)

lemma chan_good_run:
  assumes "chan_good c" "p_guid p \<noteq> 0" "\<not> kicks_self env p op c"
  shows "chan_good (fst (run_op env p op c))"
  using assms
  by (cases op) (simp_all add: keeps)

lemma chan_good_reachable: "chan_reachable c \<Longrightarrow> chan_good c"
  by (induction rule: chan_reachable.induct) (auto elim!: chan_stepE intro: chan_good_new chan_good_run)

end
