(* ===== verification/ChannelClaims.thy ===== *)
theory ChannelClaims
  imports ChannelSteps
begin

text \<open>
  What the channel promises its users, handler by handler and over whole histories.
\<close>

section \<open>A small world\<close>

definition demo_player :: "ObjectGuid \<Rightarrow> cstring \<Rightarrow> Player" where
  "demo_player g n = \<lparr>p_guid = g, p_name = n, p_security = SEC_PLAYER, p_guildId = 0, p_team = 0,
     p_chatTag = 0, p_ignores = {}\<rparr>"

definition ann :: Player where "ann = demo_player 1 [65]"
definition bob :: Player where "bob = demo_player 2 [66]"
definition cat :: Player where "cat = (demo_player 3 [67])\<lparr>p_ignores := {2}\<rparr>"

definition demo_env :: ChannelEnv where
  "demo_env = \<lparr>cfg_restricted_lfg = False, cfg_silently_gm_join = False, cfg_two_side_channel = False,
     cfg_gm_level_in_who = 0,
     GetPlayer_name = (\<lambda>n. if n = [65] then Some ann else if n = [66] then Some bob
        else if n = [67] then Some cat else None),
     GetPlayer_guid = (\<lambda>g. if g = 1 then Some ann else if g = 2 then Some bob
        else if g = 3 then Some cat else None),
     account_name = (\<lambda>g. None), visible_globally = (\<lambda>g h. True), channel_entry = (\<lambda>i. None)\<rparr>"

lemmas demo_simps = demo_player_def ann_def bob_def cat_def demo_env_def

definition demo_channel :: Channel where
  "demo_channel = fst (Join demo_env cat [] (fst (Join demo_env bob [] (fst (Join demo_env ann []
     (Channel_new demo_env [90] 0))))))"

lemma demo_channel_reachable: "chan_reachable demo_channel"
proof -
  have "chan_reachable (fst (Join demo_env p [] c))" if "chan_reachable c" "p_guid p \<noteq> 0" for p c
    using that reach_step[OF that(1), of "fst (Join demo_env p [] c)"]
      chan_step.intros[of p demo_env "OpJoin []" c] by simp
  then show ?thesis unfolding demo_channel_def
    by (simp add: reach_new demo_simps)
qed

lemma demo_channel_value:
  "demo_channel = \<lparr>m_announce = True, m_moderate = False, m_name = [90], m_password = [], m_flags = 1,
     m_channelId = 0, m_ownerGuid = 1,
     m_players = [(1, \<lparr>pi_player = 1, pi_flags = 3\<rparr>), (2, \<lparr>pi_player = 2, pi_flags = 0\<rparr>),
       (3, \<lparr>pi_player = 3, pi_flags = 0\<rparr>)], m_banned = {}\<rparr>"
  by (simp add: demo_channel_def Join_def SetOwner_guid_def Let_def Channel_new_def demo_simps IsOn_def
      IsBanned_def smap_find_def put_member_def member_at_def PlayerInfo_new_def IsConstant_def
      PlayerInfo_SetOwner_def PlayerInfo_SetModerator_def put_flag_def case_prod_beta)

section \<open>The invariant\<close>

text \<open>
  C5. In every channel that can be reached by handler calls in which no owner kicks or bans himself
  (players coming and going, settings and directories changing between the calls): each entry of the member table records its own key, carries the owner flag exactly when it is
  the channel's owner, and is not banned; and a custom channel with a member has an owner who is
  a member. The exception is real: \<open>self_kick_leaves_ghost\<close> is what an owner kicking himself leaves behind.
\<close>

theorem channel_invariant:
  assumes "chan_reachable c" "smap_find g (m_players c) = Some i"
  shows "pi_player i = g \<and> g \<noteq> 0 \<and> (IsOwner i \<longleftrightarrow> g = m_ownerGuid c) \<and> \<not> IsBanned g c \<and>
    (IsConstant c \<or> (m_ownerGuid c \<noteq> 0 \<and> IsOn (m_ownerGuid c) c))"
proof -
  have good: "chan_good c" by (rule chan_good_reachable[OF assms(1)])
  have "IsOn g c" using assms(2) by (simp add: IsOn_def)
  moreover have "m_ownerGuid c \<noteq> 0 \<longrightarrow> IsOn (m_ownerGuid c) c"
    using chan_good_inv[OF good] by (simp add: chan_inv_def)
  ultimately show ?thesis
    using good chan_inv_entry[OF chan_good_inv[OF good] assms(2)]
    by (auto simp add: chan_good_def entry_ok_def IsBanned_def)
qed

theorem channel_invariant_witness:
  "pi_player \<lparr>pi_player = 2, pi_flags = 0\<rparr> = 2 \<and> (2 :: ObjectGuid) \<noteq> 0 \<and>
    (IsOwner \<lparr>pi_player = 2, pi_flags = 0\<rparr> \<longleftrightarrow> 2 = m_ownerGuid demo_channel) \<and> \<not> IsBanned 2 demo_channel \<and>
    (IsConstant demo_channel \<or> (m_ownerGuid demo_channel \<noteq> 0 \<and> IsOn (m_ownerGuid demo_channel) demo_channel))"
  by (rule channel_invariant[OF demo_channel_reachable])
    (simp add: demo_channel_value smap_find_def)

section \<open>The owner\<close>

text \<open>
  An owner who kicks or bans himself while others are on the channel is told that he left, but
  stays the owner and stays in the member table, under an entry whose recorded player is the empty
  guid and whose only flag is the owner flag; after a ban he is a member and banned.
\<close>

theorem self_kick_leaves_ghost:
  assumes "chan_reachable c" "p_guid p = m_ownerGuid c" "IsOn (p_guid p) c" "may_moderate p c"
    "IsOn h c" "h \<noteq> p_guid p" "GetPlayer_name env name = Some t" "p_guid t = p_guid p"
  shows "let (c', eff) = KickOrBan env p name ban c in
    LeftChannel (p_guid p) \<in> set eff \<and> m_ownerGuid c' = p_guid p \<and>
    smap_find (p_guid p) (m_players c') = Some \<lparr>pi_player = 0, pi_flags = 1\<rparr> \<and> IsBanned (p_guid p) c' = ban"
proof -
  let ?g = "p_guid p"
  let ?bs = "if ban then insert ?g (m_banned c) else m_banned c"
  let ?c = "c\<lparr>m_banned := ?bs, m_players := smap_erase ?g (m_players c)\<rparr>"
  have good: "chan_good c" by (rule chan_good_reachable[OF assms(1)])
  have nb: "\<not> IsBanned ?g c" using good assms(3) by (simp add: chan_good_def IsBanned_def)
  have ok: "smap_ok (m_players ?c)" using good by (simp add: smap_simps)
  have z: "?g \<noteq> 0"
    using member_at_entry[OF chan_good_inv[OF good] assms(3)] by (simp add: entry_ok_def)
  have "IsOn h (c\<lparr>m_players := smap_erase ?g (m_players c)\<rparr>)" using assms(5,6) by simp
  then have ne: "smap_erase ?g (m_players c) \<noteq> []"
    using empty_IsOn[of "c\<lparr>m_players := smap_erase ?g (m_players c)\<rparr>"] by auto
  have k: "fst (KickOrBan env p name ban c) = fst (SetOwner_guid env ?g True ?c)"
    "LeftChannel ?g \<in> set (snd (KickOrBan env p name ban c))"
    using assms(2-4,7,8) nb ne by (simp_all add: KickOrBan_def Let_def case_prod_beta)
  have "smap_find ?g (m_players (fst (KickOrBan env p name ban c))) = Some \<lparr>pi_player = 0, pi_flags = 1\<rparr>"
    using z by (simp add: k(1) SetOwner_guid_find(1)[OF ok] member_erase smap_find_erase IsOn_def member_at_def
        PlayerInfo_SetOwner_def put_flag_def PlayerInfo_new_def)
  moreover have "IsBanned ?g (fst (KickOrBan env p name ban c)) = ban"
    using nb by (simp add: k(1) IsBanned_def)
  moreover have "m_ownerGuid (fst (KickOrBan env p name ban c)) = ?g" by (simp add: k(1))
  ultimately show ?thesis using k(2) by (simp add: case_prod_beta)
qed

theorem self_kick_leaves_ghost_witness:
  "smap_find 1 (m_players (fst (KickOrBan demo_env ann [65] True demo_channel))) = Some \<lparr>pi_player = 0, pi_flags = 1\<rparr> \<and>
   IsBanned 1 (fst (KickOrBan demo_env ann [65] True demo_channel))"
proof -
  have h: "p_guid ann = m_ownerGuid demo_channel" "IsOn (p_guid ann) demo_channel"
    "may_moderate ann demo_channel" "IsOn 2 demo_channel" "2 \<noteq> p_guid ann"
    "GetPlayer_name demo_env [65] = Some ann" "p_guid ann = p_guid ann"
    by (simp_all add: demo_channel_value demo_simps IsOn_def smap_find_def may_moderate_def IsModerator_def
        member_at_def)
  show ?thesis
    using self_kick_leaves_ghost[OF demo_channel_reachable h, of True]
    by (simp add: ann_def demo_player_def case_prod_beta)
qed

text \<open>
  C13. No call of an ordinary player who is not the owner takes the channel from its owner: the owner
  stays the same and his entry (his membership and all his flags) is untouched, whatever the call.
\<close>

theorem owner_protected:
  assumes "chan_reachable c" "m_ownerGuid c \<noteq> 0" "below_gm p" "p_guid p \<noteq> m_ownerGuid c"
  shows "m_ownerGuid (fst (run_op env p op c)) = m_ownerGuid c \<and>
    smap_find (m_ownerGuid c) (m_players (fst (run_op env p op c))) = smap_find (m_ownerGuid c) (m_players c)"
proof -
  have good: "chan_good c" by (rule chan_good_reachable[OF assms(1)])
  have inv: "chan_inv c" using good by simp
  have put: "smap_find (m_ownerGuid c) (m_players (put_member g i c)) = smap_find (m_ownerGuid c) (m_players c)"
    if "g \<noteq> m_ownerGuid c" for g i
    using that inv by (simp add: member_put)
  have twice: "smap_find (m_ownerGuid c) (m_players (put_member g i (put_member g j c))) =
      smap_find (m_ownerGuid c) (m_players c)" if "g \<noteq> m_ownerGuid c" for g i j
    using that inv by (simp add: member_put)
  show ?thesis
  proof (cases op)
    case (OpJoin pass)
    then show ?thesis using assms put by (simp add: Join_def Let_def)
  next
    case (OpLeave send)
    have "IsOn (p_guid p) c \<Longrightarrow> \<not> IsOwner (member_at (p_guid p) c)"
      using member_at_entry[OF inv] assms(4) by (simp add: entry_ok_def)
    then show ?thesis using assms OpLeave by (auto simp add: Leave_def Let_def smap_find_erase)
  next
    case (OpKickOrBan name ban)
    show ?thesis
      by (cases rule: KickOrBan_cases[of env p name ban c]) (use assms OpKickOrBan in \<open>auto simp add: smap_find_erase\<close>)
  next
    case (OpSetMode name moderator on)
    then show ?thesis using assms put twice
      by (auto simp add: SetMode_def SetModerator_guid_def SetMute_guid_def Let_def early_exit split: option.splits)
  next
    case (OpSetOwner name)
    then show ?thesis using assms by (simp add: SetOwner_def Let_def early_exit)
  qed (simp_all add: UnBan_def Password_def Announce_def Moderate_def Let_def early_exit split: option.splits)
qed

theorem owner_protected_witness:
  "m_ownerGuid (fst (run_op demo_env bob (OpKickOrBan [65] True) demo_channel)) = m_ownerGuid demo_channel"
  using owner_protected[OF demo_channel_reachable, of bob demo_env "OpKickOrBan [65] True"]
  by (simp add: demo_channel_value demo_simps below_gm_def sec_level_def)

text \<open>
  When the owner leaves, the member with the least guid becomes the owner. He keeps the rights he
  had: unlike a first member or a player an owner hands the channel to, he is not made a moderator.
\<close>

theorem owner_leaves:
  assumes "chan_reachable c" "p_guid p = m_ownerGuid c" "IsOn (p_guid p) c" "IsOn h c" "h \<noteq> p_guid p"
  shows "let c' = fst (Leave env p send c); g = m_ownerGuid c' in
    IsOn g c \<and> g \<noteq> p_guid p \<and> (\<forall>k. IsOn k c \<and> k \<noteq> p_guid p \<longrightarrow> g \<le> k) \<and>
    member_at g c' = PlayerInfo_SetOwner True (member_at g c)"
proof -
  let ?o = "p_guid p"
  let ?c = "c\<lparr>m_players := smap_erase ?o (m_players c)\<rparr>"
  have inv: "chan_inv c" using chan_good_reachable[OF assms(1)] by simp
  have ok: "smap_ok (m_players ?c)" using inv by (simp add: smap_simps)
  have on: "IsOn h ?c" using assms(4,5) by simp
  have g: "m_ownerGuid (fst (Leave env p send c)) = heir ?c" using Leave_owner[OF inv assms(3)] assms(2) by simp
  have h: "IsOn (heir ?c) ?c \<and> (\<forall>k. IsOn k ?c \<longrightarrow> heir ?c \<le> k)"
  proof (rule heir_cases[OF ok])
    assume "m_players ?c = []"
    then show ?thesis using on empty_IsOn by blast
  qed (use members_after_erase(2)[OF inv] in blast)+
  then have d: "heir ?c \<noteq> ?o" "IsOn (heir ?c) c" by simp_all
  have "IsOwner (member_at ?o c)" using member_at_entry[OF inv assms(3)] assms(2) by (simp add: entry_ok_def)
  then have l: "fst (Leave env p send c) = fst (SetOwner_guid env (heir ?c) True ?c)"
    using assms(3) by (simp add: Leave_def Let_def case_prod_beta)
  have "heir ?c \<noteq> 0" using member_at_entry[OF inv d(2)] by (simp add: entry_ok_def)
  then have "smap_find (heir ?c) (m_players (fst (Leave env p send c))) =
      Some (PlayerInfo_SetOwner True (member_at (heir ?c) ?c))"
    unfolding l using d(1) assms(2) by (subst SetOwner_guid_find(1)[OF ok]) simp
  then have "member_at (heir ?c) (fst (Leave env p send c)) = PlayerInfo_SetOwner True (member_at (heir ?c) ?c)"
    by (simp add: member_at_def)
  moreover have "member_at (heir ?c) ?c = member_at (heir ?c) c" using d(1) by (simp add: member_at_def smap_find_erase)
  ultimately show ?thesis using h d unfolding Let_def g by simp
qed

theorem owner_leaves_witness:
  "m_ownerGuid (fst (Leave demo_env ann True demo_channel)) = 2 \<and>
   \<not> IsModerator (member_at 2 (fst (Leave demo_env ann True demo_channel)))"
proof -
  let ?c' = "fst (Leave demo_env ann True demo_channel)"
  have h: "p_guid ann = m_ownerGuid demo_channel" "IsOn (p_guid ann) demo_channel" "IsOn 2 demo_channel" "2 \<noteq> p_guid ann"
    by (simp_all add: demo_channel_value demo_simps IsOn_def smap_find_def)
  have o: "IsOn (m_ownerGuid ?c') demo_channel" "m_ownerGuid ?c' \<noteq> 1" "m_ownerGuid ?c' \<le> 2"
    "member_at (m_ownerGuid ?c') ?c' = PlayerInfo_SetOwner True (member_at (m_ownerGuid ?c') demo_channel)"
    using owner_leaves[OF demo_channel_reachable h, of demo_env True] h
    by (simp_all add: Let_def ann_def demo_player_def)
  have "m_ownerGuid ?c' = 2"
    using o(1-3) by (auto simp add: IsOn_def demo_channel_value smap_find_def split: if_splits)
  then show ?thesis using o(4)
    by (simp add: demo_channel_value member_at_def smap_find_def IsModerator_def PlayerInfo_SetOwner_def put_flag_def)
qed

section \<open>Rights\<close>

fun needs_moderator :: "ChannelOp \<Rightarrow> bool" where
  "needs_moderator (OpKickOrBan name ban) = True"
| "needs_moderator (OpUnBan name) = True"
| "needs_moderator (OpPassword pass) = True"
| "needs_moderator (OpSetMode name moderator on) = True"
| "needs_moderator OpAnnounce = True"
| "needs_moderator OpModerate = True"
| "needs_moderator _ = False"

text \<open>
  C36. A player who is not on the channel can only join it, and one who may not moderate cannot kick,
  ban, unban, set the password, change another member's rights or toggle the switches: in every
  such call the channel stays as it is and the answer goes to nobody but the caller.
\<close>

theorem rights_enforced:
  assumes "\<And>g q. GetPlayer_guid env g = Some q \<Longrightarrow> p_guid q = g"
    "(\<not> IsOn (p_guid p) c \<and> (\<forall>pass. op \<noteq> OpJoin pass)) \<or> (\<not> may_moderate p c \<and> needs_moderator op)"
  shows "fst (run_op env p op c) = c \<and>
    (\<forall>e \<in> set (snd (run_op env p op c)). \<exists>pkt. e = Send (p_guid p) pkt)"
proof -
  have one: "\<exists>pkt. e = Send g pkt" if "e \<in> set (SendToOne env g d)" for e g d
    using that assms(1) by (auto simp add: SendToOne_def split: option.splits)
  show ?thesis
    using assms(2)
    by (cases op)
      (auto simp add: Leave_def KickOrBan_def UnBan_def Password_def SetMode_def SetOwner_def SendWhoOwner_def
        ListPlayers_def Announce_def Moderate_def Say_def Invite_def Let_def early_exit
        dest: one split: if_splits)
qed

theorem rights_enforced_witness:
  "fst (run_op demo_env bob (OpPassword [49]) demo_channel) = demo_channel"
  by (rule rights_enforced[THEN conjunct1])
    (auto simp add: demo_channel_value demo_simps may_moderate_def below_gm_def sec_level_def IsModerator_def
      member_at_def smap_find_def split: if_splits)

text \<open>
  C22. A player who is not yet on the channel gets on it by \<open>Join\<close> exactly when he is not banned, gives
  the password if there is one, may use a looking-for-group channel and is no guild member joining a
  guild recruitment channel; otherwise the channel stays as it is. Nobody else comes or goes.
\<close>

theorem join_admits:
  assumes "chan_inv c" "p_guid p \<noteq> 0" "\<not> IsOn (p_guid p) c"
  shows "(let admitted = (\<not> IsBanned (p_guid p) c \<and> (m_password c = [] \<or> pass = m_password c) \<and>
        \<not> (m_flags c AND CHANNEL_FLAG_LFG \<noteq> 0 \<and> cfg_restricted_lfg env \<and> p_security p = SEC_PLAYER) \<and>
        \<not> (p_guildId p \<noteq> 0 \<and> m_flags c = 0x38)) in
    (\<forall>h. IsOn h (fst (Join env p pass c)) \<longleftrightarrow> IsOn h c \<or> (admitted \<and> h = p_guid p)) \<and>
    (\<not> admitted \<longrightarrow> fst (Join env p pass c) = c))"
proof -
  let ?g = "p_guid p"
  let ?c = "put_member ?g ((member_at ?g c)\<lparr>pi_player := ?g, pi_flags := MEMBER_FLAG_NONE\<rparr>) c"
  have ok: "smap_ok (m_players ?c)" "smap_ok (m_players (fst (SetOwner_guid env ?g ex ?c)))" for ex
    using assms by (simp_all add: member_put SetOwner_guid_find)
  show ?thesis
    using assms ok
    by (auto simp add: Join_def Let_def case_prod_beta member_put IsOn_SetOwner)
qed

theorem join_admits_witness:
  "\<not> IsOn 3 (fst (Join demo_env cat [50] (Channel_new demo_env [90] 0\<lparr>m_password := [49]\<rparr>)))"
  using join_admits[of "Channel_new demo_env [90] 0\<lparr>m_password := [49]\<rparr>" cat "[50]" demo_env]
  by (simp add: Let_def demo_simps chan_inv_new IsOn_def Channel_new_players smap_find_def)

section \<open>Bans over a history\<close>

type_synonym ChannelCall = "ChannelEnv \<times> Player \<times> ChannelOp"

fun run_calls :: "ChannelCall list \<Rightarrow> Channel \<Rightarrow> Channel" where
  "run_calls [] c = c"
| "run_calls ((env, p, op) # calls) c = run_calls calls (fst (run_op env p op c))"

text \<open>The calls of a history that are legal where they happen.\<close>

fun legal_calls :: "ChannelCall list \<Rightarrow> Channel \<Rightarrow> bool" where
  "legal_calls [] c = True"
| "legal_calls ((env, p, op) # calls) c =
     (p_guid p \<noteq> 0 \<and> \<not> kicks_self env p op c \<and> legal_calls calls (fst (run_op env p op c)))"

fun unbans :: "ObjectGuid \<Rightarrow> ChannelCall \<Rightarrow> bool" where
  "unbans g (env, p, OpUnBan name) = (map_option p_guid (GetPlayer_name env name) = Some g)"
| "unbans g _ = False"

lemma ban_kept:
  assumes "chan_inv c" "IsBanned g c" "\<not> unbans g (env, p, op)"
  shows "IsBanned g (fst (run_op env p op c))"
proof (cases op)
  case (OpKickOrBan name ban)
  then show ?thesis using assms
    by (auto simp add: KickOrBan_def Let_def case_prod_beta IsBanned_def early_exit split: option.splits)
next
  case (OpUnBan name)
  then show ?thesis using assms
    by (auto simp add: UnBan_def Let_def IsBanned_def early_exit
        split: option.splits)
qed (use assms in \<open>auto simp add: IsBanned_def Join_def SetMode_def SetOwner_def Password_def Announce_def Moderate_def
      Let_def case_prod_beta early_exit
      split: option.splits\<close>)

text \<open>
  C18. On a channel whose history has no owner who kicked or banned himself, a banned player is off the
  channel, and he stays off it and banned through every further history of calls, in any environments
  and by any callers, in which no owner kicks or bans himself and no call lifts the ban of his guid.
  An owner who bans himself is the exception: he is banned and back in the member table
  (\<open>self_kick_leaves_ghost\<close>).
\<close>

theorem banned_stays_out:
  assumes "chan_reachable c" "legal_calls calls c" "IsBanned g c" "\<forall>x \<in> set calls. \<not> unbans g x"
  shows "IsBanned g (run_calls calls c) \<and> \<not> IsOn g (run_calls calls c)"
proof -
  have "chan_good c" by (rule chan_good_reachable[OF assms(1)])
  then have "chan_good (run_calls calls c) \<and> IsBanned g (run_calls calls c)" using assms(2-4)
  proof (induction calls arbitrary: c)
    case (Cons x calls)
    obtain env p op where x: "x = (env, p, op)" by (cases x)
    then have "chan_good (fst (run_op env p op c))" "IsBanned g (fst (run_op env p op c))"
      using Cons.prems chan_good_run ban_kept[of c g env p op] by auto
    then show ?case using Cons.IH Cons.prems x by simp
  qed simp
  then show ?thesis by (auto simp add: chan_good_def IsBanned_def)
qed

definition demo_history :: "ChannelCall list" where
  "demo_history = [(demo_env, bob, OpJoin []), (demo_env, ann, OpLeave True), (demo_env, bob, OpJoin [])]"

lemma demo_ban:
  "fst (run_op demo_env ann (OpKickOrBan [66] True) demo_channel) =
     demo_channel\<lparr>m_banned := {2}, m_players := smap_erase 2 (m_players demo_channel)\<rparr>"
  by (simp add: demo_channel_value KickOrBan_def Let_def demo_simps IsOn_def smap_find_def IsBanned_def
      may_moderate_def member_at_def IsModerator_def below_gm_def sec_level_def)

theorem banned_stays_out_witness:
  "\<not> IsOn 2 (run_calls demo_history (fst (run_op demo_env ann (OpKickOrBan [66] True) demo_channel)))"
proof -
  let ?c = "fst (run_op demo_env ann (OpKickOrBan [66] True) demo_channel)"
  have "chan_step demo_channel ?c"
    by (rule chan_step.intros) (simp_all add: demo_simps demo_channel_value)
  then have r: "chan_reachable ?c" by (rule reach_step[OF demo_channel_reachable])
  have l: "legal_calls demo_history ?c" by (simp add: demo_history_def demo_simps)
  have b: "IsBanned 2 ?c" unfolding demo_ban by (simp add: IsBanned_def)
  have u: "\<forall>x \<in> set demo_history. \<not> unbans 2 x" by (simp add: demo_history_def)
  show ?thesis by (rule banned_stays_out[OF r l b u, THEN conjunct2])
qed

section \<open>Who hears a line\<close>

definition may_speak :: "Player \<Rightarrow> Channel \<Rightarrow> bool" where
  "may_speak p c \<longleftrightarrow> IsOn (p_guid p) c \<and> \<not> IsMuted (member_at (p_guid p) c) \<and>
     (m_moderate c \<longrightarrow> may_moderate p c)"

definition hears :: "ChannelEnv \<Rightarrow> Player \<Rightarrow> Channel \<Rightarrow> ObjectGuid \<Rightarrow> bool" where
  "hears env p c r \<longleftrightarrow> IsOn r c \<and>
     (\<exists>q. GetPlayer_guid env r = Some q \<and> (IsModerator (member_at (p_guid p) c) \<or> p_guid p \<notin> p_ignores q))"

lemma SendToAll_receivers:
  assumes "smap_ok (m_players c)" "\<And>g q. GetPlayer_guid env g = Some q \<Longrightarrow> p_guid q = g"
  shows "e \<in> set (SendToAll env ign d c) \<longleftrightarrow>
    (\<exists>r q. e = Send r d \<and> IsOn r c \<and> GetPlayer_guid env r = Some q \<and> (ign = 0 \<or> ign \<notin> p_ignores q))"
proof -
  have on: "IsOn r c \<longleftrightarrow> (\<exists>i. (r, i) \<in> set (m_players c))" for r
    using smap_find_set[OF assms(1)] by (auto simp add: IsOn_def)
  have each: "e \<in> set (case GetPlayer_guid env r of None \<Rightarrow> []
        | Some plr \<Rightarrow> if ign = 0 \<or> ign \<notin> p_ignores plr then [Send (p_guid plr) d] else []) \<longleftrightarrow>
      (\<exists>q. e = Send r d \<and> GetPlayer_guid env r = Some q \<and> (ign = 0 \<or> ign \<notin> p_ignores q))" for r
    using assms(2)[of r] by (cases "GetPlayer_guid env r") auto
  show ?thesis
    unfolding SendToAll_def on set_concat set_map image_image UN_iff split_beta each
    by (auto, force+)
qed

text \<open>
  C21. \<open>Say\<close> changes nothing; it delivers the chat line exactly when the speaker is on the channel, is
  not muted and may speak in a moderated channel, and then to exactly the members who are online and,
  unless the speaker is a moderator, do not ignore him; the line has the language of the speaker,
  or the universal one where the factions may talk to each other.
\<close>

theorem say_delivers:
  assumes "chan_inv c" "\<And>g q. GetPlayer_guid env g = Some q \<Longrightarrow> p_guid q = g"
  shows "fst (Say env p txt lang c) = c \<and>
    (\<forall>r t l tag s n ch. Send r (ChatPacket t l tag s n ch) \<in> set (snd (Say env p txt lang c)) \<longleftrightarrow>
      may_speak p c \<and> hears env p c r \<and> t = txt \<and> l = (if cfg_two_side_channel env then 0 else lang) \<and>
      tag = p_chatTag p \<and> s = p_guid p \<and> n = p_name p \<and> ch = m_name c)"
proof (cases "may_speak p c")
  case True
  let ?d = "ChatPacket txt (if cfg_two_side_channel env then 0 else lang) (p_chatTag p) (p_guid p) (p_name p) (m_name c)"
  let ?ign = "if \<not> IsModerator (member_at (p_guid p) c) then p_guid p else 0"
  have z: "p_guid p \<noteq> 0"
    using True member_at_entry[OF assms(1), of "p_guid p"] by (simp add: may_speak_def entry_ok_def)
  have "snd (Say env p txt lang c) = SendToAll env ?ign ?d c"
    using True by (auto simp add: Say_def may_speak_def Let_def)
  then show ?thesis using True z
    by (auto simp add: SendToAll_receivers[OF chan_inv_ok[OF assms(1)] assms(2)] hears_def)
next
  case False
  then have "snd (Say env p txt lang c) \<in> {snd (not_member env p c), SendToOne env (p_guid p) (MakeMuted c),
      snd (not_moderator env p c)}"
    by (auto simp add: Say_def may_speak_def Let_def)
  then have "Send r (ChatPacket t l tag s n ch) \<notin> set (snd (Say env p txt lang c))" for r t l tag s n ch
    by (auto simp add: early_exit SendToOne_def MakeMuted_def MakeNotMember_def
        MakeNotModerator_def MakeNotifyPacket_def split: option.splits)
  then show ?thesis using False by simp
qed

theorem say_delivers_witness:
  "Send 1 (ChatPacket [104, 105] 7 0 2 [66] [90]) \<in> set (snd (Say demo_env bob [104, 105] 7 demo_channel)) \<and>
   \<not> Send 3 (ChatPacket [104, 105] 7 0 2 [66] [90]) \<in> set (snd (Say demo_env bob [104, 105] 7 demo_channel))"
proof -
  have e: "GetPlayer_guid demo_env g = Some q \<Longrightarrow> p_guid q = g" for g q
    by (auto simp add: demo_simps split: if_splits)
  have m: "may_speak bob demo_channel" "hears demo_env bob demo_channel 1" "\<not> hears demo_env bob demo_channel 3"
    by (simp_all add: may_speak_def hears_def demo_channel_value IsOn_def smap_find_def demo_simps member_at_def
        IsMuted_def IsModerator_def)
  have "chan_inv demo_channel" using chan_good_reachable[OF demo_channel_reachable] by simp
  then show ?thesis
    using say_delivers[of demo_channel demo_env bob "[104, 105]" 7, OF _ e] m
    by (simp add: demo_simps demo_channel_value)
qed

end
