(* ===== verification/EventProcessor.thy ===== *)
theory EventProcessor
  imports Prelude
begin

text \<open>
  Timed events: class \<open>EventProcessor\<close> of src/src/framework/Utilities/EventProcessor.h and
  EventProcessor.cpp. Events wait in a multimap ordered by their time; \<open>Update\<close> moves the clock
  and runs, in order, what has become due.

  An event is a record of the fields of \<open>BasicEvent\<close> and of the derived object \<open>ev_obj\<close>; the
  virtual methods of the derived classes are the record \<open>EventMethods\<close>, over a state \<open>'s\<close> of
  the rest of the server. \<open>Execute\<close> may work on the processor that runs it (\<open>AddEvent\<close> from
  inside an event is the normal way to repeat it); \<open>Abort\<close> and the destructors do not.
  What the processor relies on are the locales \<open>timely_events\<close> and \<open>quiet_events\<close>.
\<close>

section \<open>State\<close>

record 'x BasicEvent =
  to_Abort :: bool
  m_type :: uint32
  m_addTime :: uint64
  m_execTime :: uint64
  ev_obj :: 'x

type_synonym 'x EventList = "(uint64 \<times> 'x BasicEvent) list"

record 'x EventProcessor =
  m_time :: uint64
  m_events :: "'x EventList"
  m_aborting :: bool

record ('x, 's) EventMethods =
  Execute :: "'x BasicEvent \<Rightarrow> uint64 \<Rightarrow> uint32 \<Rightarrow> 'x EventProcessor \<Rightarrow> 's \<Rightarrow> bool \<times> 'x EventProcessor \<times> 's"
  Abort :: "'x BasicEvent \<Rightarrow> uint64 \<Rightarrow> 's \<Rightarrow> 's"
  IsDeletable :: "'x BasicEvent \<Rightarrow> 's \<Rightarrow> bool"
  Destroy :: "'x BasicEvent \<Rightarrow> 's \<Rightarrow> 's"

section \<open>Operations\<close>

definition EventProcessor_new :: "'x EventProcessor" where
  "EventProcessor_new = \<lparr>m_time = 0, m_events = [], m_aborting = False\<rparr>"

text \<open>\<open>std::multimap::insert\<close>: after the entries with the same key.\<close>

fun mm_insert :: "'k::linorder \<Rightarrow> 'v \<Rightarrow> ('k \<times> 'v) list \<Rightarrow> ('k \<times> 'v) list" where
  "mm_insert k v [] = [(k, v)]"
| "mm_insert k v ((l, w) # xs) = (if k < l then (k, v) # (l, w) # xs else (l, w) # mm_insert k v xs)"

definition AddEvent :: "'x BasicEvent \<Rightarrow> uint64 \<Rightarrow> bool \<Rightarrow> 'x EventProcessor \<Rightarrow> 'x EventProcessor" where
  "AddEvent e e_time set_addtime P =
     (let e = (if set_addtime then e\<lparr>m_addTime := m_time P\<rparr> else e);
          e = e\<lparr>m_execTime := e_time\<rparr>
      in P\<lparr>m_events := mm_insert e_time e (m_events P)\<rparr>)"

definition CalculateTime :: "uint64 \<Rightarrow> 'x EventProcessor \<Rightarrow> uint64" where
  "CalculateTime t_offset P = m_time P + t_offset"

text \<open>The loop of \<open>Update\<close> need not end: an event may put itself back at a time that is due.\<close>

partial_function (option) update_loop ::
  "('x, 's) EventMethods \<Rightarrow> uint32 \<Rightarrow> 'x EventProcessor \<Rightarrow> 's \<Rightarrow> ('x EventProcessor \<times> 's) option" where
  "update_loop M pt P s =
     (case m_events P of
        [] \<Rightarrow> Some (P, s)
      | (t, e) # es \<Rightarrow>
          if m_time P < t then Some (P, s)
          else if \<not> to_Abort e
          then (case Execute M e (m_time P) pt (P\<lparr>m_events := es\<rparr>) s of
                  (del, P', s') \<Rightarrow> update_loop M pt P' (if del then Destroy M e s' else s'))
          else update_loop M pt (P\<lparr>m_events := es\<rparr>) (Destroy M e (Abort M e (m_time P) s)))"

definition Update ::
  "('x, 's) EventMethods \<Rightarrow> uint32 \<Rightarrow> 'x EventProcessor \<Rightarrow> 's \<Rightarrow> ('x EventProcessor \<times> 's) option" where
  "Update M p_time P s = update_loop M p_time (P\<lparr>m_time := m_time P + ucast p_time\<rparr>) s"

fun kill_loop ::
  "('x, 's) EventMethods \<Rightarrow> bool \<Rightarrow> uint64 \<Rightarrow> 'x EventList \<Rightarrow> 's \<Rightarrow> 'x EventList \<times> 's" where
  "kill_loop M force now [] s = ([], s)"
| "kill_loop M force now ((t, e) # es) s =
     (let e = e\<lparr>to_Abort := True\<rparr>;
          s = Abort M e now s
      in if force \<or> IsDeletable M e s
         then let (es', s') = kill_loop M force now es (Destroy M e s)
              in (if \<not> force then es' else (t, e) # es', s')
         else let (es', s') = kill_loop M force now es s in ((t, e) # es', s'))"

definition KillAllEvents ::
  "('x, 's) EventMethods \<Rightarrow> bool \<Rightarrow> 'x EventProcessor \<Rightarrow> 's \<Rightarrow> 'x EventProcessor \<times> 's" where
  "KillAllEvents M force P s =
     (let P = P\<lparr>m_aborting := True\<rparr>;
          (es, s) = kill_loop M force (m_time P) (m_events P) s
      in (P\<lparr>m_events := (if force then [] else es)\<rparr>, s))"

section \<open>The queue is in time order\<close>

definition in_order :: "('k::linorder \<times> 'v) list \<Rightarrow> bool" where
  "in_order xs \<longleftrightarrow> sorted (map fst xs)"

lemma in_order_simps [simp]:
  "in_order []" "in_order (x # xs) \<longleftrightarrow> (\<forall>y \<in> set xs. fst x \<le> fst y) \<and> in_order xs"
  by (simp_all add: in_order_def)

lemma in_order_above: "in_order (x # xs) \<Longrightarrow> k < fst x \<Longrightarrow> p \<in> set (x # xs) \<Longrightarrow> k < fst p"
  by (auto intro: less_le_trans)

lemma set_mm_insert: "set (mm_insert k v xs) = insert (k, v) (set xs)"
  by (induction k v xs rule: mm_insert.induct) auto

lemma in_order_mm_insert: "in_order xs \<Longrightarrow> in_order (mm_insert k v xs)"
  by (induction k v xs rule: mm_insert.induct) (auto simp add: in_order_def set_mm_insert)

lemma filter_mm_insert:
  "in_order xs \<Longrightarrow> filter (\<lambda>p. fst p = l) (mm_insert k v xs) =
    filter (\<lambda>p. fst p = l) xs @ (if k = l then [(k, v)] else [])"
proof (induction k v xs rule: mm_insert.induct)
  case (2 k v l' w xs)
  show ?case
  proof (cases "k < l'")
    case True
    then have "\<forall>p \<in> set ((l', w) # xs). fst p \<noteq> k" using in_order_above[OF 2(2), of k] by fastforce
    then have "filter (\<lambda>p. fst p = k) ((l', w) # xs) = []" by (metis (mono_tags) filter_False)
    then show ?thesis using True by (cases "k = l") auto
  qed (use 2 in \<open>simp add: in_order_def\<close>)
qed simp

lemma mm_insert_later:
  "filter (\<lambda>p. fst p \<le> now) (mm_insert k v xs) = filter (\<lambda>p. fst p \<le> now) xs" if "now < k"
  using that by (induction k v xs rule: mm_insert.induct) auto

definition due :: "'x EventProcessor \<Rightarrow> 'x EventList" where
  "due P = filter (\<lambda>p. fst p \<le> m_time P) (m_events P)"

lemma due_AddEvent_later: "m_time P < t \<Longrightarrow> due (AddEvent e t b P) = due P"
  by (simp add: due_def AddEvent_def Let_def mm_insert_later)

lemma m_time_AddEvent [simp]: "m_time (AddEvent e t b P) = m_time P"
  by (simp add: AddEvent_def Let_def)

lemma in_order_AddEvent: "in_order (m_events P) \<Longrightarrow> in_order (m_events (AddEvent e t b P))"
  by (simp add: AddEvent_def Let_def in_order_mm_insert)

lemma kill_loop_keys:
  "\<forall>x \<in> set es. k \<le> fst x \<Longrightarrow> \<forall>x \<in> set (fst (kill_loop M force now es s)). k \<le> fst x"
  by (induction M force now es s rule: kill_loop.induct) (auto simp add: Let_def case_prod_beta)

lemma in_order_kill: "in_order es \<Longrightarrow> in_order (fst (kill_loop M force now es s))"
proof (induction M force now es s rule: kill_loop.induct)
  case (2 M force now t e es s)
  then have o: "in_order es" "\<forall>x \<in> set es. t \<le> fst x" by (auto simp add: in_order_def)
  have k: "\<forall>x \<in> set (fst (kill_loop M force now es s')). t \<le> fst x" for s'
    by (rule kill_loop_keys[OF o(2)])
  then show ?case
    using 2(1,2)[OF refl refl _ o(1)]
    by (auto simp add: Let_def case_prod_beta in_order_def)
qed (simp add: in_order_def)

lemma kill_loop_aborted: "x \<in> set (fst (kill_loop M force now es s)) \<Longrightarrow> to_Abort (snd x)"
  by (induction M force now es s rule: kill_loop.induct) (auto simp add: Let_def case_prod_beta split: if_splits)

lemma kill_loop_force:
  "snd (kill_loop M True now es s) =
    fold (\<lambda>p s. let e = (snd p)\<lparr>to_Abort := True\<rparr> in Destroy M e (Abort M e now s)) es s"
  by (induction M True now es s rule: kill_loop.induct) (simp_all add: Let_def case_prod_beta)

section \<open>What the loop relies on\<close>

text \<open>
  Events that never put anything on the queue at a time already due and leave the clock alone.
\<close>

locale timely_events =
  fixes M :: "('x, 's) EventMethods"
  assumes timely: "Execute M e t pt P s = (d, P', s') \<Longrightarrow> in_order (m_events P) \<Longrightarrow>
    m_time P' = m_time P \<and> in_order (m_events P') \<and> length (due P') \<le> length (due P)"
begin

lemma loop_returns:
  assumes "in_order (m_events P)"
  obtains P' s' where "update_loop M pt P s = Some (P', s')" "m_time P' = m_time P"
    "in_order (m_events P')" "due P' = []"
  using assms
proof (induction "length (due P)" arbitrary: P s thesis rule: less_induct)
  case less
  show ?case
  proof (cases "due P = []")
    case True
    have "update_loop M pt P s = Some (P, s)"
      using True by (subst update_loop.simps) (auto simp add: due_def split: list.splits if_splits)
    then show ?thesis using less(2,3) True by simp
  next
    case False
    then obtain t e es where q: "m_events P = (t, e) # es" by (cases "m_events P") (auto simp add: due_def)
    have o: "in_order es" using less(3) q by (simp add: in_order_def)
    have t: "\<not> m_time P < t"
    proof
      assume a: "m_time P < t"
      have "\<forall>p \<in> set (m_events P). \<not> fst p \<le> m_time P"
        using in_order_above[OF less(3)[unfolded q], of "m_time P"] a unfolding q by (simp add: not_le)
      then show False using False by (simp add: due_def filter_empty_conv)
    qed
    let ?P = "P\<lparr>m_events := es\<rparr>"
    have d: "length (due ?P) < length (due P)" using t q by (simp add: due_def not_less)
    show ?thesis
    proof (cases "to_Abort e")
      case True
      obtain P' s' where "update_loop M pt ?P (Destroy M e (Abort M e (m_time P) s)) = Some (P', s')"
        "m_time P' = m_time ?P" "in_order (m_events P')" "due P' = []"
        by (rule less(1)[OF d, of "Destroy M e (Abort M e (m_time P) s)"]) (use o in auto)
      then show ?thesis using True t q by (intro less(2)) (auto simp add: update_loop.simps[of M pt P s])
    next
      case False
      obtain del P1 s1 where x: "Execute M e (m_time P) pt ?P s = (del, P1, s1)" by (metis prod_cases3)
      have k: "m_time P1 = m_time P" "in_order (m_events P1)" "length (due P1) \<le> length (due ?P)"
        using timely[OF x] o by simp_all
      have d1: "length (due P1) < length (due P)" using k(3) d by simp
      let ?s = "if del then Destroy M e s1 else s1"
      obtain P' s' where "update_loop M pt P1 ?s = Some (P', s')"
        "m_time P' = m_time P1" "in_order (m_events P')" "due P' = []"
        by (rule less(1)[OF d1, of ?s]) (use k(2) in auto)
      then show ?thesis using False t q x k(1) by (intro less(2)) (auto simp add: update_loop.simps[of M pt P s])
    qed
  qed
qed

end

text \<open>
  Events that do not touch the processor at all: what \<open>Execute\<close> does to the rest of the server is
  the function \<open>ex\<close>. Then a whole \<open>Update\<close> is the due events run one after the other.
\<close>

locale quiet_events =
  fixes M :: "('x, 's) EventMethods"
    and ex :: "'x BasicEvent \<Rightarrow> uint64 \<Rightarrow> uint32 \<Rightarrow> 's \<Rightarrow> bool \<times> 's"
  assumes quiet: "Execute M e t pt P s = (fst (ex e t pt s), P, snd (ex e t pt s))"

sublocale quiet_events \<subseteq> timely_events M
  by unfold_locales (simp add: quiet)

definition run_event ::
  "('x, 's) EventMethods \<Rightarrow> ('x BasicEvent \<Rightarrow> uint64 \<Rightarrow> uint32 \<Rightarrow> 's \<Rightarrow> bool \<times> 's) \<Rightarrow>
    uint64 \<Rightarrow> uint32 \<Rightarrow> 'x BasicEvent \<Rightarrow> 's \<Rightarrow> 's" where
  "run_event M ex now pt e s =
     (if to_Abort e then Destroy M e (Abort M e now s)
      else case ex e now pt s of (del, s') \<Rightarrow> if del then Destroy M e s' else s')"

context quiet_events
begin

lemma loop_runs_due:
  assumes "in_order (m_events P)"
  shows "update_loop M pt P s = Some (P\<lparr>m_events := filter (\<lambda>p. m_time P < fst p) (m_events P)\<rparr>,
    fold (\<lambda>p. run_event M ex (m_time P) pt (snd p)) (due P) s)"
  using assms
proof (induction "m_events P" arbitrary: P s)
  case Nil
  then have q: "m_events P = []" by simp
  then have "P\<lparr>m_events := []\<rparr> = P" by (cases P) simp
  then show ?case by (subst update_loop.simps) (simp add: due_def q)
next
  case (Cons p es)
  obtain t e where p: "p = (t, e)" by (cases p)
  have q: "m_events P = (t, e) # es" using Cons(2) p by simp
  have o: "in_order es" using Cons(3) q by (simp add: in_order_def)
  show ?case
  proof (cases "m_time P < t")
    case True
    have "\<forall>p \<in> set (m_events P). m_time P < fst p"
      using in_order_above[OF Cons(3)[unfolded q], of "m_time P"] True unfolding q by simp
    then have f: "filter (\<lambda>p. m_time P < fst p) (m_events P) = m_events P" "due P = []"
      by (simp_all add: due_def filter_empty_conv not_le)
    show ?thesis unfolding f by (subst update_loop.simps) (simp add: q True)
  next
    case False
    let ?P = "P\<lparr>m_events := es\<rparr>"
    have IH: "update_loop M pt ?P s' = Some (?P\<lparr>m_events := filter (\<lambda>p. m_time P < fst p) es\<rparr>,
        fold (\<lambda>p. run_event M ex (m_time P) pt (snd p)) (due ?P) s')" for s'
      using Cons(1)[of ?P s'] o by simp
    have d: "due P = (t, e) # due ?P" using q False by (simp add: due_def not_less)
    have "update_loop M pt P s = update_loop M pt ?P (run_event M ex (m_time P) pt e s)"
      by (subst update_loop.simps) (use False q in \<open>auto simp add: quiet run_event_def case_prod_beta\<close>)
    then show ?thesis using q False unfolding d IH by (simp add: not_less)
  qed
qed

end

end
