(* ===== verification/WorldObjectEvents.thy ===== *)
theory WorldObjectEvents
  imports EventProcessor
begin

text \<open>
  The event processor of maps and world objects: class \<open>WorldObjectEventProcessor\<close> of
  src/src/game/WorldObjectEvents.h and WorldObjectEvents.cpp. New events wait in a queue of their
  own and are moved to the time-ordered list by \<open>RenewEvents\<close>, which drops an event of a unique
  type when the list has one already; killing is postponed to the same place by a flag. So what an
  event does while it runs or is aborted never reaches the list that is being processed, which is
  what the locale \<open>quiet_events\<close> asks for.
\<close>

section \<open>State\<close>

record 'x Pending =
  m_queue :: "'x EventList"
  bNeedKill :: bool

record 'x WorldObjectEventProcessor =
  wo_base :: "'x EventProcessor"
  wo_pending :: "'x Pending"

abbreviation (input) WORLDOBJECT_EVENT_TYPE_COMMON :: uint32 where "WORLDOBJECT_EVENT_TYPE_COMMON \<equiv> 0"
abbreviation (input) WORLDOBJECT_EVENT_TYPE_UNIQUE :: uint32 where "WORLDOBJECT_EVENT_TYPE_UNIQUE \<equiv> 1"
abbreviation (input) WORLDOBJECT_EVENT_TYPE_EVADE_UNIQUE :: uint32 where "WORLDOBJECT_EVENT_TYPE_EVADE_UNIQUE \<equiv> 2"

text \<open>
  The virtual methods of the events. Running or aborting an event may add events and ask for a kill;
  both go to the pending part.
\<close>

record ('x, 's) WorldMethods =
  w_Execute :: "'x BasicEvent \<Rightarrow> uint64 \<Rightarrow> uint32 \<Rightarrow> 'x Pending \<times> 's \<Rightarrow> bool \<times> 'x Pending \<times> 's"
  w_Abort :: "'x BasicEvent \<Rightarrow> uint64 \<Rightarrow> 'x Pending \<times> 's \<Rightarrow> 'x Pending \<times> 's"
  w_IsDeletable :: "'x BasicEvent \<Rightarrow> 's \<Rightarrow> bool"
  w_Destroy :: "'x BasicEvent \<Rightarrow> 's \<Rightarrow> 's"

definition world_methods :: "('x, 's) WorldMethods \<Rightarrow> ('x, 'x Pending \<times> 's) EventMethods" where
  "world_methods W =
     \<lparr>Execute = (\<lambda>e t pt P s. (fst (w_Execute W e t pt s), P, snd (w_Execute W e t pt s))),
      Abort = w_Abort W,
      IsDeletable = (\<lambda>e s. w_IsDeletable W e (snd s)),
      Destroy = (\<lambda>e s. (fst s, w_Destroy W e (snd s)))\<rparr>"

section \<open>Operations\<close>

text \<open>The constructor leaves \<open>bNeedKill\<close> uninitialised.\<close>

definition WorldObjectEventProcessor_new :: "bool \<Rightarrow> 'x WorldObjectEventProcessor" where
  "WorldObjectEventProcessor_new garbage =
     \<lparr>wo_base = EventProcessor_new\<lparr>m_events := []\<rparr>, wo_pending = \<lparr>m_queue = [], bNeedKill = garbage\<rparr>\<rparr>"

definition WO_AddEvent ::
  "'x BasicEvent \<Rightarrow> uint64 \<Rightarrow> bool \<Rightarrow> 'x WorldObjectEventProcessor \<Rightarrow> 'x WorldObjectEventProcessor" where
  "WO_AddEvent e e_time set_addtime w =
     (let e = (if set_addtime then e\<lparr>m_addTime := m_time (wo_base w)\<rparr> else e);
          e = e\<lparr>m_execTime := e_time\<rparr>;
          pend = wo_pending w
      in w\<lparr>wo_pending := pend\<lparr>m_queue := m_queue pend @ [(e_time, e)]\<rparr>\<rparr>)"

definition unique_type :: "uint32 \<Rightarrow> bool" where
  "unique_type t \<longleftrightarrow> t = WORLDOBJECT_EVENT_TYPE_UNIQUE \<or> t = WORLDOBJECT_EVENT_TYPE_EVADE_UNIQUE"

fun renew_loop ::
  "('x, 's) WorldMethods \<Rightarrow> 'x EventList \<Rightarrow> 'x EventList \<Rightarrow> 's \<Rightarrow> 'x EventList \<times> 's" where
  "renew_loop W [] es s = (es, s)"
| "renew_loop W ((t, e) # q) es s =
     (if unique_type (m_type e) \<and> list_ex (\<lambda>p. m_type (snd p) = m_type e) es
      then renew_loop W q es (w_Destroy W e s)
      else renew_loop W q (mm_insert t e es) s)"

definition RenewEvents ::
  "('x, 's) WorldMethods \<Rightarrow> 'x WorldObjectEventProcessor \<Rightarrow> 's \<Rightarrow> 'x WorldObjectEventProcessor \<times> 's" where
  "RenewEvents W w s =
     (let (P, pend, s) =
            (if bNeedKill (wo_pending w)
             then let (P, pend, s) = KillAllEvents (world_methods W) False (wo_base w) (wo_pending w, s)
                  in (P, pend\<lparr>bNeedKill := False\<rparr>, s)
             else (wo_base w, wo_pending w, s));
          (es, s) = renew_loop W (m_queue pend) (m_events P) s
      in (\<lparr>wo_base = P\<lparr>m_events := es\<rparr>, wo_pending = pend\<lparr>m_queue := []\<rparr>\<rparr>, s))"

definition WO_Update ::
  "('x, 's) WorldMethods \<Rightarrow> uint32 \<Rightarrow> bool \<Rightarrow> 'x WorldObjectEventProcessor \<Rightarrow> 's \<Rightarrow>
    ('x WorldObjectEventProcessor \<times> 's) option" where
  "WO_Update W p_time force w s =
     (let (w, s) = (if force then RenewEvents W w s else (w, s))
      in case Update (world_methods W) p_time (wo_base w) (wo_pending w, s) of
           None \<Rightarrow> None
         | Some (P, pend, s) \<Rightarrow> Some (\<lparr>wo_base = P, wo_pending = pend\<rparr>, s))"

definition WO_KillAllEvents ::
  "('x, 's) WorldMethods \<Rightarrow> bool \<Rightarrow> 'x WorldObjectEventProcessor \<Rightarrow> 's \<Rightarrow> 'x WorldObjectEventProcessor \<times> 's" where
  "WO_KillAllEvents W force w s =
     (if force
      then let (w, s) = RenewEvents W w s;
               (P, pend, s) = KillAllEvents (world_methods W) force (wo_base w) (wo_pending w, s)
           in (\<lparr>wo_base = P, wo_pending = pend\<rparr>, s)
      else (w\<lparr>wo_pending := (wo_pending w)\<lparr>bNeedKill := True\<rparr>\<rparr>, s))"

definition CleanupEventList ::
  "('x, 's) WorldMethods \<Rightarrow> 'x WorldObjectEventProcessor \<Rightarrow> 's \<Rightarrow> 'x WorldObjectEventProcessor \<times> 's" where
  "CleanupEventList W = WO_KillAllEvents W False"

definition WO_size :: "bool \<Rightarrow> 'x WorldObjectEventProcessor \<Rightarrow> uint32" where
  "WO_size withQueue w = of_nat (if withQueue
     then length (m_events (wo_base w)) + length (m_queue (wo_pending w)) else length (m_events (wo_base w)))"

section \<open>The events of world objects are quiet\<close>

interpretation wo: quiet_events "world_methods W" "w_Execute W" for W
  by unfold_locales (simp add: world_methods_def)

section \<open>One event of each unique type\<close>

definition count_type :: "uint32 \<Rightarrow> 'x EventList \<Rightarrow> nat" where
  "count_type T es = length (filter (\<lambda>p. m_type (snd p) = T) es)"

definition unique_ok :: "'x EventList \<Rightarrow> bool" where
  "unique_ok es \<longleftrightarrow> count_type 1 es \<le> 1 \<and> count_type 2 es \<le> 1"

lemma unique_ok_mono: "unique_ok es \<Longrightarrow> (\<And>T. count_type T es' \<le> count_type T es) \<Longrightarrow> unique_ok es'"
  unfolding unique_ok_def by (meson order_trans)

lemma count_type_filter: "count_type T (filter Q es) \<le> count_type T es"
  by (induction es) (auto simp add: count_type_def intro: le_SucI)

lemma unique_ok_filter: "unique_ok es \<Longrightarrow> unique_ok (filter Q es)"
  by (rule unique_ok_mono[OF _ count_type_filter])

lemma length_filter_mm_insert: "length (filter Q (mm_insert t e es)) = length (filter Q ((t, e) # es))"
  by (induction t e es rule: mm_insert.induct) auto

lemma unique_ok_insert:
  assumes "unique_ok es" "unique_type (m_type e) \<longrightarrow> \<not> list_ex (\<lambda>p. m_type (snd p) = m_type e) es"
  shows "unique_ok (mm_insert t e es)"
proof -
  have "m_type e = 1 \<longrightarrow> count_type 1 es = 0" "m_type e = 2 \<longrightarrow> count_type 2 es = 0"
    using assms(2) by (auto simp add: count_type_def unique_type_def list_ex_iff filter_empty_conv)
  moreover have "count_type T (mm_insert t e es) = count_type T es + (if m_type e = T then 1 else 0)" for T
    unfolding count_type_def length_filter_mm_insert by simp
  ultimately show ?thesis using assms(1) by (auto simp add: unique_ok_def)
qed

definition wo_ok :: "'x EventProcessor \<Rightarrow> bool" where
  "wo_ok P \<longleftrightarrow> in_order (m_events P) \<and> unique_ok (m_events P)"

lemma renew_loop_ok:
  "in_order es \<Longrightarrow> unique_ok es \<Longrightarrow>
    in_order (fst (renew_loop W q es s)) \<and> unique_ok (fst (renew_loop W q es s))"
  by (induction W q es s rule: renew_loop.induct) (auto simp add: in_order_mm_insert unique_ok_insert)

lemma kill_loop_types: "count_type T (fst (kill_loop M force now es s)) \<le> count_type T es"
  by (induction M force now es s rule: kill_loop.induct)
    (auto simp add: Let_def case_prod_beta count_type_def intro: le_SucI)

lemma KillAllEvents_ok: "wo_ok P \<Longrightarrow> wo_ok (fst (KillAllEvents M force P s))"
  by (auto simp add: wo_ok_def KillAllEvents_def Let_def case_prod_beta in_order_kill
      intro: unique_ok_mono kill_loop_types)
    (simp add: unique_ok_def count_type_def)

lemma RenewEvents_ok: "wo_ok (wo_base w) \<Longrightarrow> wo_ok (wo_base (fst (RenewEvents W w s)))"
  using KillAllEvents_ok[of "wo_base w" "world_methods W" False "(wo_pending w, s)"]
    renew_loop_ok[where W = W]
  by (auto simp add: RenewEvents_def Let_def case_prod_beta wo_ok_def)

lemma Update_base:
  assumes "in_order (m_events P)"
  shows "Update (world_methods W) pt P s = (let now = m_time P + ucast pt in
    Some (P\<lparr>m_time := now, m_events := filter (\<lambda>p. now < fst p) (m_events P)\<rparr>,
      fold (\<lambda>p. run_event (world_methods W) (w_Execute W) now pt (snd p))
        (filter (\<lambda>p. fst p \<le> now) (m_events P)) s))"
  using wo.loop_runs_due[of "P\<lparr>m_time := m_time P + ucast pt\<rparr>" W pt s] assms
  by (simp add: Update_def Let_def due_def)

section \<open>Histories\<close>

text \<open>
  A processor in use: any mixture of the operations of a map or an object, with any events.
\<close>

inductive wo_step ::
  "('x, 's) WorldMethods \<Rightarrow> 'x WorldObjectEventProcessor \<times> 's \<Rightarrow> 'x WorldObjectEventProcessor \<times> 's \<Rightarrow> bool"
  for W :: "('x, 's) WorldMethods" where
  wo_add: "wo_step W (w, s) (WO_AddEvent e t b w, s)"
| wo_update: "WO_Update W pt force w s = Some (w', s') \<Longrightarrow> wo_step W (w, s) (w', s')"
| wo_kill: "wo_step W (w, s) (WO_KillAllEvents W force w s)"
| wo_cleanup: "wo_step W (w, s) (CleanupEventList W w s)"
| wo_world: "wo_step W (w, s) (w, s')"

inductive wo_reachable :: "('x, 's) WorldMethods \<Rightarrow> 'x WorldObjectEventProcessor \<times> 's \<Rightarrow> bool"
  for W :: "('x, 's) WorldMethods" where
  wo_new: "wo_reachable W (WorldObjectEventProcessor_new garbage, s)"
| wo_more: "wo_reachable W ws \<Longrightarrow> wo_step W ws ws' \<Longrightarrow> wo_reachable W ws'"

lemma WO_Update_ok:
  assumes "wo_ok (wo_base w)" "WO_Update W pt force w s = Some (w', s')"
  shows "wo_ok (wo_base w')"
proof -
  let ?r = "if force then RenewEvents W w s else (w, s)"
  have ok: "wo_ok (wo_base (fst ?r))" using RenewEvents_ok[OF assms(1), of W s] assms(1) by simp
  then have o: "in_order (m_events (wo_base (fst ?r)))" by (simp add: wo_ok_def)
  have "wo_base w' = (wo_base (fst ?r))\<lparr>m_time := m_time (wo_base (fst ?r)) + ucast pt,
      m_events := filter (\<lambda>p. m_time (wo_base (fst ?r)) + ucast pt < fst p) (m_events (wo_base (fst ?r)))\<rparr>"
    using assms(2) Update_base[OF o, of W pt "(wo_pending (fst ?r), snd ?r)"]
    by (auto simp add: WO_Update_def Let_def case_prod_beta)
  then show ?thesis using ok by (simp add: wo_ok_def unique_ok_filter in_order_def sorted_filter)
qed

lemma wo_ok_step: "wo_step W ws ws' \<Longrightarrow> wo_ok (wo_base (fst ws)) \<Longrightarrow> wo_ok (wo_base (fst ws'))"
  by (induction rule: wo_step.induct)
    (auto simp add: WO_AddEvent_def WO_KillAllEvents_def CleanupEventList_def Let_def case_prod_beta
      RenewEvents_ok KillAllEvents_ok intro: WO_Update_ok)

lemma wo_ok_reachable: "wo_reachable W ws \<Longrightarrow> wo_ok (wo_base (fst ws))"
proof (induction rule: wo_reachable.induct)
  case (wo_new garbage s)
  then show ?case
    by (simp add: WorldObjectEventProcessor_new_def EventProcessor_new_def wo_ok_def unique_ok_def count_type_def)
qed (rule wo_ok_step)

end
