(* ===== verification/EventClaims.thy ===== *)
theory EventClaims
  imports WorldObjectEvents
begin

text \<open>
  What the event processors promise: \<open>Update\<close> comes back, runs what is due in time order and
  nothing else; killing is complete; an event of a unique type is never there twice. And what they
  need for it: an event that always puts itself back at the current time keeps \<open>Update\<close> from
  ever returning.
\<close>

section \<open>Sample events\<close>

text \<open>
  The object of an event is a number, the state of the server the list of what was run. A sample
  event with an even number repeats itself one millisecond later, as a spell that is still being
  cast does.
\<close>

definition tick_methods :: "(nat, nat list) EventMethods" where
  "tick_methods =
     \<lparr>Execute = (\<lambda>e t pt P s.
        if even (ev_obj e) \<and> t < t + 1 \<and> m_time P = t then (False, AddEvent e (t + 1) False P, s @ [ev_obj e])
        else (True, P, s @ [ev_obj e])),
      Abort = (\<lambda>e t s. s), IsDeletable = (\<lambda>e s. True), Destroy = (\<lambda>e s. s)\<rparr>"

definition stuck_methods :: "(nat, nat list) EventMethods" where
  "stuck_methods = tick_methods\<lparr>Execute := (\<lambda>e t pt P s. (False, AddEvent e t False P, s))\<rparr>"

definition sample_event :: "uint32 \<Rightarrow> nat \<Rightarrow> nat BasicEvent" where
  "sample_event T n = \<lparr>to_Abort = False, m_type = T, m_addTime = 0, m_execTime = 0, ev_obj = n\<rparr>"

definition sample_queue :: "nat EventProcessor" where
  "sample_queue = AddEvent (sample_event 0 1) 7 True (AddEvent (sample_event 0 2) 5 True
     (AddEvent (sample_event 0 3) 7 True EventProcessor_new))"

lemma sample_queue_order: "in_order (m_events sample_queue)"
  by (simp add: sample_queue_def in_order_AddEvent EventProcessor_new_def)

section \<open>Update comes back\<close>

text \<open>
  C20. \<open>Update\<close> returns whenever running an event leaves the clock alone, keeps the queue ordered and
  puts nothing back that is already due, however many events it adds for later; afterwards the clock
  has moved by the interval and every event left is in the future.
\<close>

theorem update_returns:
  assumes "in_order (m_events P)"
    "\<And>e t pt P s d P' s'. Execute M e t pt P s = (d, P', s') \<Longrightarrow> in_order (m_events P) \<Longrightarrow>
      m_time P' = m_time P \<and> in_order (m_events P') \<and> length (due P') \<le> length (due P)"
  shows "\<exists>P' s'. Update M pt P s = Some (P', s') \<and> m_time P' = m_time P + ucast pt \<and>
    in_order (m_events P') \<and> list_all (\<lambda>x. m_time P' < fst x) (m_events P')"
proof -
  have "timely_events M" by (rule timely_events.intro) (rule assms(2))
  moreover have "in_order (m_events (P\<lparr>m_time := m_time P + ucast pt\<rparr>))" using assms(1) by simp
  ultimately obtain P' s' where r: "update_loop M pt (P\<lparr>m_time := m_time P + ucast pt\<rparr>) s = Some (P', s')"
    "m_time P' = m_time (P\<lparr>m_time := m_time P + ucast pt\<rparr>)" "in_order (m_events P')" "due P' = []"
    by (rule timely_events.loop_returns)
  have "list_all (\<lambda>x. m_time P' < fst x) (m_events P')"
    using r(4) by (auto simp add: due_def filter_empty_conv list_all_iff not_le)
  then show ?thesis using r by (simp add: Update_def)
qed

lemma tick_timely:
  assumes "Execute tick_methods e t pt P s = (d, P', s')" "in_order (m_events P)"
  shows "m_time P' = m_time P \<and> in_order (m_events P') \<and> length (due P') \<le> length (due P)"
proof (cases "even (ev_obj e) \<and> t < t + 1 \<and> m_time P = t")
  case True
  then have "P' = AddEvent e (t + 1) False P" "m_time P < t + 1" using assms(1) by (auto simp add: tick_methods_def)
  then show ?thesis using assms(2) by (simp add: due_AddEvent_later in_order_AddEvent)
qed (use assms in \<open>auto simp add: tick_methods_def\<close>)

theorem update_returns_witness:
  "\<exists>P' s'. Update tick_methods 7 sample_queue [] = Some (P', s') \<and> m_time P' = m_time sample_queue + ucast (7 :: uint32) \<and>
    in_order (m_events P') \<and> list_all (\<lambda>x. m_time P' < fst x) (m_events P')"
  by (rule update_returns[OF sample_queue_order tick_timely])

text \<open>Some event that is due and not marked.\<close>

definition stuck :: "'x EventProcessor \<Rightarrow> bool" where
  "stuck P \<longleftrightarrow> in_order (m_events P) \<and>
     (\<exists>t e. (t, e) \<in> set (m_events P) \<and> \<not> to_Abort e \<and> t \<le> m_time P)"

lemma stuck_step:
  assumes "stuck P" "m_events P = (t, e) # es"
  shows "\<not> m_time P < t" "to_Abort e \<Longrightarrow> stuck (P\<lparr>m_events := es\<rparr>)"
    "\<not> to_Abort e \<Longrightarrow> stuck (AddEvent e (m_time P) False (P\<lparr>m_events := es\<rparr>))"
proof -
  obtain t' e' where o: "in_order (m_events P)" and e': "(t', e') \<in> set (m_events P)" "\<not> to_Abort e'" "t' \<le> m_time P"
    using assms(1) unfolding stuck_def by blast
  show "\<not> m_time P < t" using o e' unfolding assms(2) by auto
  have os: "in_order es" using o assms(2) by simp
  show "stuck (P\<lparr>m_events := es\<rparr>)" if "to_Abort e" using that e' os unfolding assms(2) stuck_def by auto
  let ?Q = "AddEvent e (m_time P) False (P\<lparr>m_events := es\<rparr>)"
  assume "\<not> to_Abort e"
  moreover have "m_time ?Q = m_time P" "(m_time P, e\<lparr>m_execTime := m_time P\<rparr>) \<in> set (m_events ?Q)"
    by (simp_all add: AddEvent_def Let_def set_mm_insert)
  ultimately show "stuck ?Q" using in_order_AddEvent[of "P\<lparr>m_events := es\<rparr>"] os unfolding stuck_def by fastforce
qed

lemma stuck_loop:
  assumes "\<And>e t pt P s. Execute M e t pt P s = (False, AddEvent e t False P, s)"
    "update_loop M pt P s = Some r"
  shows "\<not> stuck P"
proof -
  have "fst (fst (fst (((M, pt), P), s))) = M \<longrightarrow> \<not> stuck (snd (fst (((M, pt), P), s)))"
  proof (rule update_loop.raw_induct[where Pa = "\<lambda>x r. fst (fst (fst x)) = M \<longrightarrow> \<not> stuck (snd (fst x))", OF _ assms(2)])
    fix loop :: "('a, 'b) EventMethods \<Rightarrow> uint32 \<Rightarrow> 'a EventProcessor \<Rightarrow> 'b \<Rightarrow> ('a EventProcessor \<times> 'b) option"
      and M' pt P s r
    assume IH: "\<And>M' pt P s r. loop M' pt P s = Some r \<Longrightarrow>
        fst (fst (fst (((M', pt), P), s))) = M \<longrightarrow> \<not> stuck (snd (fst (((M', pt), P), s)))"
      and step: "(case m_events P of [] \<Rightarrow> Some (P, s)
         | (t, e) # es \<Rightarrow>
             if m_time P < t then Some (P, s)
             else if \<not> to_Abort e
             then (case Execute M' e (m_time P) pt (P\<lparr>m_events := es\<rparr>) s of
                     (del, P', s') \<Rightarrow> loop M' pt P' (if del then Destroy M' e s' else s'))
             else loop M' pt (P\<lparr>m_events := es\<rparr>) (Destroy M' e (Abort M' e (m_time P) s))) = Some r"
    have "\<not> stuck P" if M: "M' = M"
    proof
      assume st: "stuck P"
      then obtain t e es where q: "m_events P = (t, e) # es" by (cases "m_events P") (auto simp add: stuck_def)
      note next_stuck = stuck_step[OF st q]
      show False
      proof (cases "to_Abort e")
        case True
        then have "\<not> stuck (P\<lparr>m_events := es\<rparr>)" using IH[of M pt] step q next_stuck(1) M by auto
        then show False using next_stuck(2) True by blast
      next
        case False
        then have "\<not> stuck (AddEvent e (m_time P) False (P\<lparr>m_events := es\<rparr>))"
          using IH[of M pt] step q next_stuck(1) M assms(1) by auto
        then show False using next_stuck(3) False by blast
      qed
    qed
    then show "fst (fst (fst (((M', pt), P), s))) = M \<longrightarrow> \<not> stuck (snd (fst (((M', pt), P), s)))" by simp
  qed
  then show ?thesis by simp
qed

text \<open>
  C40. If every event puts itself back at the current time, \<open>Update\<close> never returns as soon as one
  event that is due is not marked as aborted.
\<close>

theorem update_starves:
  assumes "in_order (m_events P)" "(t, e) \<in> set (m_events P)" "\<not> to_Abort e" "t \<le> m_time P + ucast pt"
    "\<And>e t pt P s. Execute M e t pt P s = (False, AddEvent e t False P, s)"
  shows "Update M pt P s = None"
proof -
  have "stuck (P\<lparr>m_time := m_time P + ucast pt\<rparr>)" using assms(1-4) unfolding stuck_def by auto
  then show ?thesis using stuck_loop[OF assms(5)] unfolding Update_def by (metis not_Some_eq)
qed

theorem update_starves_witness: "Update stuck_methods 7 sample_queue [] = None"
proof (rule update_starves[OF sample_queue_order])
  let ?e = "(sample_event 0 2)\<lparr>m_execTime := 5\<rparr>"
  show "(5, ?e) \<in> set (m_events sample_queue)" "\<not> to_Abort ?e"
    by (simp_all add: sample_queue_def AddEvent_def Let_def set_mm_insert sample_event_def EventProcessor_new_def)
  show "5 \<le> m_time sample_queue + ucast (7 :: uint32)"
    by (simp add: sample_queue_def AddEvent_def Let_def EventProcessor_new_def)
qed (simp add: stuck_methods_def)

section \<open>What Update runs\<close>

definition world_sample :: "(nat, nat list) WorldMethods" where
  "world_sample =
     \<lparr>w_Execute = (\<lambda>e t pt (pend, s). (True, pend, s @ [ev_obj e])), w_Abort = (\<lambda>e t x. x),
      w_IsDeletable = (\<lambda>e s. True), w_Destroy = (\<lambda>e s. s @ [0])\<rparr>"

definition world_queue :: "nat WorldObjectEventProcessor" where
  "world_queue = WO_AddEvent (sample_event 1 7) 9 True (WO_AddEvent (sample_event 1 5) 3 True
     (WO_AddEvent (sample_event 0 6) 3 True (WorldObjectEventProcessor_new False)))"

text \<open>
  C8. For a map or an object, \<open>Update\<close> always returns. It first takes in the pending events if it is
  told to; then it runs exactly the events whose time has come, in the order of their times and for
  equal times in the order they were added, each executed once or, if marked, aborted and destroyed;
  the events of later times stay as they are.
\<close>

theorem world_update_in_order:
  assumes "wo_reachable W (w, s)"
  shows "let (w1, s1) = (if force then RenewEvents W w s else (w, s));
      now = m_time (wo_base w1) + ucast pt;
      es = m_events (wo_base w1);
      (pend, s2) = fold (\<lambda>p. run_event (world_methods W) (w_Execute W) now pt (snd p))
        (filter (\<lambda>p. fst p \<le> now) es) (wo_pending w1, s1)
    in WO_Update W pt force w s = Some (\<lparr>wo_base = (wo_base w1)\<lparr>m_time := now,
        m_events := filter (\<lambda>p. now < fst p) es\<rparr>, wo_pending = pend\<rparr>, s2) \<and> in_order es"
proof -
  have ok: "wo_ok (wo_base w)" using wo_ok_reachable[OF assms] by simp
  let ?r = "if force then RenewEvents W w s else (w, s)"
  have "wo_ok (wo_base (fst ?r))" using RenewEvents_ok[OF ok, of W s] ok by simp
  then have o: "in_order (m_events (wo_base (fst ?r)))" by (simp add: wo_ok_def)
  show ?thesis
    using Update_base[OF o, of W pt "(wo_pending (fst ?r), snd ?r)"] o
    by (simp add: WO_Update_def Let_def case_prod_beta)
qed

lemma world_queue_reachable: "wo_reachable W (world_queue, s)"
proof -
  have "wo_reachable W (WO_AddEvent e t b w, s)" if "wo_reachable W (w, s)" for e t b w
    using that wo_add by (rule wo_more)
  then show ?thesis unfolding world_queue_def by (simp add: wo_new)
qed

lemma world_queue_renewed:
  "RenewEvents world_sample world_queue [] =
     (\<lparr>wo_base = \<lparr>m_time = 0, m_events = [(3, (sample_event 0 6)\<lparr>m_execTime := 3\<rparr>),
         (3, (sample_event 1 5)\<lparr>m_execTime := 3\<rparr>)], m_aborting = False\<rparr>,
       wo_pending = \<lparr>m_queue = [], bNeedKill = False\<rparr>\<rparr>, [0])"
  by (simp add: RenewEvents_def world_queue_def WO_AddEvent_def WorldObjectEventProcessor_new_def
      EventProcessor_new_def Let_def unique_type_def sample_event_def world_sample_def)

lemma run_sample:
  "\<not> to_Abort e \<Longrightarrow> run_event (world_methods world_sample) (w_Execute world_sample) now pt e (pend, s) =
    (pend, s @ [ev_obj e, 0])"
  by (simp add: run_event_def world_methods_def world_sample_def)

theorem world_update_in_order_witness:
  "WO_Update world_sample 4 True world_queue [] =
     Some (\<lparr>wo_base = \<lparr>m_time = 4, m_events = [], m_aborting = False\<rparr>,
       wo_pending = \<lparr>m_queue = [], bNeedKill = False\<rparr>\<rparr>, [0, 6, 0, 5, 0])"
  using world_update_in_order[OF world_queue_reachable, of True world_sample "[]" 4]
  by (simp add: world_queue_renewed run_sample sample_event_def)

text \<open>
  C37. Whatever is added, killed, cleaned up and run, in any order: the list of a map or an object is in
  time order and has at most one event of each of the two unique types.
\<close>

theorem unique_events:
  assumes "wo_reachable W (w, s)"
  shows "in_order (m_events (wo_base w)) \<and> count_type WORLDOBJECT_EVENT_TYPE_UNIQUE (m_events (wo_base w)) \<le> 1 \<and>
    count_type WORLDOBJECT_EVENT_TYPE_EVADE_UNIQUE (m_events (wo_base w)) \<le> 1"
  using wo_ok_reachable[OF assms] by (simp add: wo_ok_def unique_ok_def)

theorem unique_events_witness:
  "count_type 1 (m_events (wo_base world_queue)) \<le> 1"
  using unique_events[OF world_queue_reachable] by blast

text \<open>
  A forced kill aborts every waiting event once, destroys it and leaves nothing; any other kill
  marks every event it leaves behind. Neither keeps new events out, although the code sets
  \<open>m_aborting\<close> for that: an event added afterwards is on the queue.
\<close>

theorem kill_all_events:
  "fst (KillAllEvents M True P s) = P\<lparr>m_aborting := True, m_events := []\<rparr> \<and>
   snd (KillAllEvents M True P s) =
     fold (\<lambda>p s. let e = (snd p)\<lparr>to_Abort := True\<rparr> in Destroy M e (Abort M e (m_time P) s)) (m_events P) s \<and>
   list_all (\<lambda>p. to_Abort (snd p)) (m_events (fst (KillAllEvents M False P s))) \<and>
   m_events (AddEvent e t False (fst (KillAllEvents M True P s))) = [(t, e\<lparr>m_execTime := t\<rparr>)]"
  using kill_loop_aborted[of _ M False "m_time P" "m_events P" s]
  by (auto simp add: KillAllEvents_def Let_def case_prod_beta kill_loop_force AddEvent_def list_all_iff)

end
