(* ===== verification/Timers.thy ===== *)
theory Timers
  imports Prelude
begin

text \<open>
  The timers of src/src/shared/Timer.h: the difference of two readings of the 32-bit millisecond
  clock, and the four small classes the update loops count time with. \<open>time_t\<close> is an unbounded
  integer here; the 32-bit timers are words.
\<close>

section \<open>Clock readings\<close>

definition getMSTimeDiff :: "uint32 \<Rightarrow> uint32 \<Rightarrow> uint32" where
  "getMSTimeDiff oldMSTime newMSTime =
     (if newMSTime < oldMSTime
      then let diff_1 = (0xFFFFFFFF - oldMSTime) + newMSTime;
               diff_2 = oldMSTime - newMSTime
           in min diff_1 diff_2
      else newMSTime - oldMSTime)"

section \<open>Interval timers\<close>

record IntervalTimer =
  it_interval :: int
  it_current :: int

definition IntervalTimer_new :: IntervalTimer where
  "IntervalTimer_new = \<lparr>it_interval = 0, it_current = 0\<rparr>"

definition it_Update :: "int \<Rightarrow> IntervalTimer \<Rightarrow> IntervalTimer" where
  "it_Update diff t =
     (let t = t\<lparr>it_current := it_current t + diff\<rparr>
      in if it_current t < 0 then t\<lparr>it_current := 0\<rparr> else t)"

definition it_Passed :: "IntervalTimer \<Rightarrow> bool" where
  "it_Passed t \<longleftrightarrow> it_interval t \<le> it_current t"

definition it_Reset :: "IntervalTimer \<Rightarrow> IntervalTimer" where
  "it_Reset t = (if it_interval t \<le> it_current t then t\<lparr>it_current := it_current t - it_interval t\<rparr> else t)"

record ShortIntervalTimer =
  st_interval :: uint32
  st_current :: uint32

definition ShortIntervalTimer_new :: ShortIntervalTimer where
  "ShortIntervalTimer_new = \<lparr>st_interval = 0, st_current = 0\<rparr>"

definition st_Update :: "uint32 \<Rightarrow> ShortIntervalTimer \<Rightarrow> ShortIntervalTimer" where
  "st_Update diff t = t\<lparr>st_current := st_current t + diff\<rparr>"

definition st_Passed :: "ShortIntervalTimer \<Rightarrow> bool" where
  "st_Passed t \<longleftrightarrow> st_interval t \<le> st_current t"

definition st_Reset :: "ShortIntervalTimer \<Rightarrow> ShortIntervalTimer" where
  "st_Reset t = (if st_interval t \<le> st_current t then t\<lparr>st_current := st_current t - st_interval t\<rparr> else t)"

section \<open>Trackers\<close>

record TimeTracker = tt_expiry :: int

definition tt_Update :: "int \<Rightarrow> TimeTracker \<Rightarrow> TimeTracker" where
  "tt_Update diff t = t\<lparr>tt_expiry := tt_expiry t - diff\<rparr>"

definition tt_Passed :: "TimeTracker \<Rightarrow> bool" where
  "tt_Passed t \<longleftrightarrow> tt_expiry t \<le> 0"

definition tt_Reset :: "int \<Rightarrow> TimeTracker \<Rightarrow> TimeTracker" where
  "tt_Reset interval t = t\<lparr>tt_expiry := interval\<rparr>"

text \<open>\<open>ShortTimeTracker\<close> counts in \<open>int32\<close>; leaving its range is undefined.\<close>

record ShortTimeTracker = sh_expiry :: int

definition sh_Update :: "int \<Rightarrow> ShortTimeTracker \<Rightarrow> ShortTimeTracker result" where
  "sh_Update diff t =
     (if - (2 ^ 31) \<le> sh_expiry t - diff \<and> sh_expiry t - diff < 2 ^ 31
      then Inr (t\<lparr>sh_expiry := sh_expiry t - diff\<rparr>) else Inl Undefined)"

definition sh_Passed :: "ShortTimeTracker \<Rightarrow> bool" where
  "sh_Passed t \<longleftrightarrow> sh_expiry t \<le> 0"

definition sh_Reset :: "int \<Rightarrow> ShortTimeTracker \<Rightarrow> ShortTimeTracker" where
  "sh_Reset interval t = t\<lparr>sh_expiry := interval\<rparr>"

section \<open>A clock that wraps\<close>

text \<open>
  For readings in order \<open>getMSTimeDiff\<close> is the time between them. When the clock has wrapped
  between them it answers one millisecond less than the time that has passed, as long as that is
  at most half the range of the clock.
\<close>

theorem time_diff_wraps:
  assumes "unat (b - a) \<le> 2 ^ 31" "a \<noteq> b"
  shows "unat (getMSTimeDiff a b) = (if a < b then unat (b - a) else unat (b - a) - 1)"
proof (cases "a < b")
  case True
  then have "\<not> b < a" by (simp add: not_less order_less_imp_le)
  then show ?thesis using True by (simp add: getMSTimeDiff_def)
next
  case False
  then have l: "b < a" using assms(2) by simp
  have ua: "unat a < 2 ^ 32" "unat b < unat a" using l unsigned_less[of a] by (simp_all add: word_less_nat_alt)
  have m: "0xFFFFFFFF = (- 1 :: uint32)" by simp
  have d1: "(0xFFFFFFFF - a) + b = (b - a) - 1" unfolding m by simp
  have e: "unat (b - a) = 2 ^ 32 + unat b - unat a"
    using l ua by (simp add: unat_sub_if' unat_of_nat word_less_nat_alt)
  have p: "0 < unat (b - a)" using ua e by simp
  have u1: "unat ((b - a) - 1) = unat (b - a) - 1"
    using p by (metis unat_gt_0 unat_minus_one)
  have u2: "unat (a - b) = unat a - unat b" using l by (simp add: unat_sub order_less_imp_le)
  have "unat (min ((b - a) - 1) (a - b)) = unat (b - a) - 1"
    using e assms(1) ua u1 u2 by (simp add: min_def word_le_nat_alt)
  then show ?thesis using l False by (simp add: getMSTimeDiff_def Let_def d1)
qed

theorem time_diff_wraps_witness: "unat (getMSTimeDiff 0xFFFFFFFE 5) = unat (5 - 0xFFFFFFFE :: uint32) - 1"
  using time_diff_wraps[of 5 "0xFFFFFFFE"] by simp

section \<open>A timer in an update loop\<close>

text \<open>How the update loops use a timer: add the interval; if the timer has passed, reset it and do the work.\<close>

fun st_ticks :: "uint32 list \<Rightarrow> ShortIntervalTimer \<Rightarrow> nat \<times> ShortIntervalTimer" where
  "st_ticks [] t = (0, t)"
| "st_ticks (d # ds) t =
     (let t = st_Update d t
      in if st_Passed t then let (n, t) = st_ticks ds (st_Reset t) in (Suc n, t) else st_ticks ds t)"

text \<open>
  In a loop whose steps are no longer than the interval the timer neither loses nor invents time:
  it fires as often as the interval fits into the time passed and keeps the remainder.
\<close>

theorem timer_keeps_time:
  assumes "0 < st_interval t" "unat (st_interval t) < 2 ^ 31" "st_current t < st_interval t"
    "list_all (\<lambda>d. d \<le> st_interval t) ds"
  shows "let total = unat (st_current t) + sum_list (map unat ds); (n, t') = st_ticks ds t in
    n = total div unat (st_interval t) \<and> unat (st_current t') = total mod unat (st_interval t) \<and>
    st_interval t' = st_interval t"
  using assms
proof (induction ds arbitrary: t)
  case Nil
  then show ?case by (simp add: word_less_nat_alt)
next
  case (Cons d ds)
  let ?i = "unat (st_interval t)" and ?c = "unat (st_current t)"
  have c: "?c < ?i" "unat d \<le> ?i" "0 < ?i" using Cons.prems by (simp_all add: word_less_nat_alt word_le_nat_alt)
  have u: "unat (st_current t + d) = ?c + unat d"
    using c Cons.prems(2) by (intro unat_add_lem[THEN iffD1]) simp
  show ?case
  proof (cases "?i \<le> ?c + unat d")
    case True
    let ?t = "st_Reset (st_Update d t)"
    have p: "st_Passed (st_Update d t)" using True u by (simp add: st_Passed_def st_Update_def word_le_nat_alt)
    then have r: "unat (st_current ?t) = ?c + unat d - ?i" "st_interval ?t = st_interval t"
      using u by (simp_all add: st_Reset_def st_Passed_def st_Update_def unat_sub)
    have IH: "let total = unat (st_current ?t) + sum_list (map unat ds); (n, t') = st_ticks ds ?t in
        n = total div ?i \<and> unat (st_current t') = total mod ?i \<and> st_interval t' = st_interval t"
      using Cons.IH[of ?t] Cons.prems c r by (simp add: word_less_nat_alt)
    have s: "?c + (unat d + sum_list (map unat ds)) = ?i + (?c + unat d - ?i + sum_list (map unat ds))"
      using True by simp
    show ?thesis using IH p c unfolding list.map sum_list.Cons s r
      by (simp add: Let_def case_prod_beta div_add_self1 mod_add_self1)
  next
    case False
    let ?t = "st_Update d t"
    have p: "\<not> st_Passed ?t" using False u by (simp add: st_Passed_def st_Update_def word_le_nat_alt)
    have r: "unat (st_current ?t) = ?c + unat d" "st_interval ?t = st_interval t"
      using u by (simp_all add: st_Update_def)
    have "st_current ?t < st_interval ?t" using False r by (simp add: word_less_nat_alt)
    then show ?thesis using Cons.IH[of ?t] Cons.prems p r by (simp add: Let_def case_prod_beta add.assoc)
  qed
qed

theorem timer_keeps_time_witness:
  "fst (st_ticks [60, 50, 100, 95] \<lparr>st_interval = 100, st_current = 0\<rparr>) = 3"
  using timer_keeps_time[of "\<lparr>st_interval = 100, st_current = 0\<rparr>" "[60, 50, 100, 95]"]
  by (simp add: Let_def case_prod_beta)

end
