(* ===== verification/Reputation.thy ===== *)
theory Reputation
  imports StdMap Prelude
begin

text \<open>
  Reputation with the factions: class \<open>ReputationMgr\<close> of src/src/game/ReputationMgr.h and
  ReputationMgr.cpp. A player has one \<open>FactionState\<close> per faction with a reputation list number,
  forced reactions, and four 8-bit counters of the factions that are visible or have reached the
  upper three ranks.

  The record \<open>RepEnv\<close> is what the manager reads elsewhere: race and class of the player, the faction
  table of the client data files, the spillover tables, the session's state, the weekly guild cap
  and the arithmetic of \<open>float\<close>. \<open>m_week\<close> is the field \<open>thisWeekReputation\<close> of the player's guild
  member slot, if he has one. An \<open>int32\<close> is an integer; the sums that can leave its range are
  checked and then undefined, the sum of a base value and a stored standing is not (the invariant
  keeps it in range). What the manager sends, saves and reports is the list of effects.
\<close>

section \<open>Ranks\<close>

datatype ReputationRank =
  REP_HATED | REP_HOSTILE | REP_UNFRIENDLY | REP_NEUTRAL | REP_FRIENDLY | REP_HONORED | REP_REVERED | REP_EXALTED

fun rank_val :: "ReputationRank \<Rightarrow> nat" where
  "rank_val REP_HATED = 0"
| "rank_val REP_HOSTILE = 1"
| "rank_val REP_UNFRIENDLY = 2"
| "rank_val REP_NEUTRAL = 3"
| "rank_val REP_FRIENDLY = 4"
| "rank_val REP_HONORED = 5"
| "rank_val REP_REVERED = 6"
| "rank_val REP_EXALTED = 7"

lemma rank_val_inj: "rank_val r = rank_val s \<Longrightarrow> r = s"
  by (cases r; cases s) simp_all

instantiation ReputationRank :: linorder
begin

definition less_eq_ReputationRank :: "ReputationRank \<Rightarrow> ReputationRank \<Rightarrow> bool" where
  "less_eq_ReputationRank r s \<longleftrightarrow> rank_val r \<le> rank_val s"

definition less_ReputationRank :: "ReputationRank \<Rightarrow> ReputationRank \<Rightarrow> bool" where
  "less_ReputationRank r s \<longleftrightarrow> rank_val r < rank_val s"

instance
  by standard (auto simp add: less_eq_ReputationRank_def less_ReputationRank_def intro: rank_val_inj)

end

definition rank_of :: "nat \<Rightarrow> ReputationRank" where
  "rank_of i = [REP_HATED, REP_HOSTILE, REP_UNFRIENDLY, REP_NEUTRAL, REP_FRIENDLY, REP_HONORED, REP_REVERED, REP_EXALTED] ! i"

definition PointsInRank :: "int list" where
  "PointsInRank = [36000, 3000, 3000, 3000, 6000, 12000, 21000, 1000]"

abbreviation (input) Reputation_Cap :: int where "Reputation_Cap \<equiv> 42999"
abbreviation (input) Reputation_Bottom :: int where "Reputation_Bottom \<equiv> - 42000"

fun rank_loop :: "int \<Rightarrow> int \<Rightarrow> nat \<Rightarrow> ReputationRank" where
  "rank_loop standing limit 0 = REP_HATED"
| "rank_loop standing limit (Suc i) =
     (let limit = limit - PointsInRank ! i
      in if limit \<le> standing then rank_of i else rank_loop standing limit i)"

definition ReputationToRank :: "int \<Rightarrow> ReputationRank" where
  "ReputationToRank standing = rank_loop standing (Reputation_Cap + 1) 8"

section \<open>State\<close>

record 'f FactionEntry =
  fe_ID :: uint32
  reputationListID :: int
  BaseRepRaceMask :: "uint32 list"
  BaseRepClassMask :: "uint32 list"
  BaseRepValue :: "int list"
  ReputationFlags :: "uint32 list"
  fe_team :: uint32
  spilloverRateIn :: 'f
  spilloverRateOut :: 'f
  spilloverMaxRankIn :: uint32

record 'f RepSpilloverTemplate =
  sp_faction :: "uint32 list"
  sp_rate :: "'f list"
  sp_rank :: "uint32 list"

record FactionState =
  fs_ID :: uint32
  fs_ReputationListID :: uint32
  fs_Flags :: uint32
  fs_Standing :: int
  fs_needSend :: bool
  fs_needSave :: bool

record ReputationMgr =
  m_factions :: "(uint32, FactionState) smap"
  m_forcedReactions :: "(uint32, ReputationRank) smap"
  m_visibleFactionCount :: uint8
  m_honoredFactionCount :: uint8
  m_reveredFactionCount :: uint8
  m_exaltedFactionCount :: uint8
  m_week :: "uint32 option"

record 'f RepEnv =
  raceMask :: uint32
  classMask :: uint32
  LookupEntry :: "uint32 \<Rightarrow> 'f FactionEntry option"
  NumRows :: nat
  SpilloverTemplate :: "uint32 \<Rightarrow> 'f RepSpilloverTemplate option"
  FactionTeamList :: "uint32 \<Rightarrow> uint32 list option"
  in_session :: bool
  PlayerLoading :: bool
  weekly_cap :: uint32
  float_of :: "int \<Rightarrow> 'f"
  float_mult :: "'f \<Rightarrow> 'f \<Rightarrow> 'f"
  int_of_float :: "'f \<Rightarrow> int"
  above_null :: "'f \<Rightarrow> bool"

datatype RepEffect =
    InitialPacket "(uint8 \<times> uint32) list"
  | VisiblePacket uint32
  | StatePacket bool "(uint32 \<times> int) list"
  | ForcedPacket "(uint32 \<times> ReputationRank) list"
  | ReputationChanged uint32
  | SavedRow uint32 int uint32

abbreviation (input) FACTION_FLAG_VISIBLE :: uint32 where "FACTION_FLAG_VISIBLE \<equiv> 0x01"
abbreviation (input) FACTION_FLAG_AT_WAR :: uint32 where "FACTION_FLAG_AT_WAR \<equiv> 0x02"
abbreviation (input) FACTION_FLAG_HIDDEN :: uint32 where "FACTION_FLAG_HIDDEN \<equiv> 0x04"
abbreviation (input) FACTION_FLAG_INVISIBLE_FORCED :: uint32 where "FACTION_FLAG_INVISIBLE_FORCED \<equiv> 0x08"
abbreviation (input) FACTION_FLAG_PEACE_FORCED :: uint32 where "FACTION_FLAG_PEACE_FORCED \<equiv> 0x10"
abbreviation (input) FACTION_FLAG_INACTIVE :: uint32 where "FACTION_FLAG_INACTIVE \<equiv> 0x20"
abbreviation (input) FACTION_FLAG_TEAM_REPUTATION :: uint32 where "FACTION_FLAG_TEAM_REPUTATION \<equiv> 0x80"
abbreviation (input) GUILD_REP_FACTION :: uint32 where "GUILD_REP_FACTION \<equiv> 1168"

definition has_flag :: "FactionState \<Rightarrow> uint32 \<Rightarrow> bool" where
  "has_flag f m \<longleftrightarrow> fs_Flags f AND m \<noteq> 0"

definition add_int32 :: "int \<Rightarrow> int \<Rightarrow> int result" where
  "add_int32 a b = (if - (2 ^ 31) \<le> a + b \<and> a + b < 2 ^ 31 then Inr (a + b) else Inl Undefined)"

section \<open>Reading\<close>

fun fit_loop :: "uint32 \<Rightarrow> uint32 \<Rightarrow> uint32 list \<Rightarrow> uint32 list \<Rightarrow> nat \<Rightarrow> nat option" where
  "fit_loop race cls (r # rs) (c # cs) i =
     (if (r = 0 \<or> r AND race \<noteq> 0) \<and> (c = 0 \<or> c AND cls \<noteq> 0) then Some i
      else fit_loop race cls rs cs (Suc i))"
| "fit_loop race cls _ _ i = None"

definition GetIndexFitTo :: "uint32 \<Rightarrow> uint32 \<Rightarrow> 'f FactionEntry \<Rightarrow> nat option" where
  "GetIndexFitTo race cls e = fit_loop race cls (BaseRepRaceMask e) (BaseRepClassMask e) 0"

definition GetBaseReputation :: "'f RepEnv \<Rightarrow> 'f FactionEntry \<Rightarrow> int" where
  "GetBaseReputation env e =
     (case GetIndexFitTo (raceMask env) (classMask env) e of Some i \<Rightarrow> BaseRepValue e ! i | None \<Rightarrow> 0)"

definition GetDefaultStateFlags :: "'f RepEnv \<Rightarrow> 'f FactionEntry \<Rightarrow> uint32" where
  "GetDefaultStateFlags env e =
     (case GetIndexFitTo (raceMask env) (classMask env) e of Some i \<Rightarrow> ReputationFlags e ! i | None \<Rightarrow> 0)"

definition list_key :: "'f FactionEntry \<Rightarrow> uint32" where
  "list_key e = word_of_int (reputationListID e)"

definition GetState :: "'f FactionEntry \<Rightarrow> ReputationMgr \<Rightarrow> FactionState option" where
  "GetState e m = (if 0 \<le> reputationListID e then smap_find (list_key e) (m_factions m) else None)"

definition GetReputation :: "'f RepEnv \<Rightarrow> 'f FactionEntry option \<Rightarrow> ReputationMgr \<Rightarrow> int" where
  "GetReputation env eo m =
     (case eo of None \<Rightarrow> 0
      | Some e \<Rightarrow> (case GetState e m of None \<Rightarrow> 0 | Some s \<Rightarrow> GetBaseReputation env e + fs_Standing s))"

definition GetReputation_id :: "'f RepEnv \<Rightarrow> uint32 \<Rightarrow> ReputationMgr \<Rightarrow> int" where
  "GetReputation_id env faction_id m =
     (case LookupEntry env faction_id of None \<Rightarrow> 0 | Some e \<Rightarrow> GetReputation env (Some e) m)"

definition GetRank :: "'f RepEnv \<Rightarrow> 'f FactionEntry option \<Rightarrow> ReputationMgr \<Rightarrow> ReputationRank" where
  "GetRank env eo m = ReputationToRank (GetReputation env eo m)"

definition GetBaseRank :: "'f RepEnv \<Rightarrow> 'f FactionEntry \<Rightarrow> ReputationRank" where
  "GetBaseRank env e = ReputationToRank (GetBaseReputation env e)"

definition GetForcedRankIfAny :: "uint32 \<Rightarrow> ReputationMgr \<Rightarrow> ReputationRank option" where
  "GetForcedRankIfAny faction m = smap_find faction (m_forcedReactions m)"

section \<open>Changing one faction\<close>

text \<open>\<open>m_factions[key]\<close> through a pointer to the entry: the entry is written back under its key.\<close>

definition put_faction :: "uint32 \<Rightarrow> FactionState \<Rightarrow> ReputationMgr \<Rightarrow> ReputationMgr" where
  "put_faction k f m = m\<lparr>m_factions := smap_put k f (m_factions m)\<rparr>"

definition changed :: "FactionState \<Rightarrow> FactionState" where
  "changed f = f\<lparr>fs_needSend := True, fs_needSave := True\<rparr>"

definition UpdateRankCounters :: "ReputationRank \<Rightarrow> ReputationRank \<Rightarrow> ReputationMgr \<Rightarrow> ReputationMgr" where
  "UpdateRankCounters old_rank new_rank m =
     (let m = (if REP_EXALTED \<le> old_rank then m\<lparr>m_exaltedFactionCount := m_exaltedFactionCount m - 1\<rparr> else m);
          m = (if REP_REVERED \<le> old_rank then m\<lparr>m_reveredFactionCount := m_reveredFactionCount m - 1\<rparr> else m);
          m = (if REP_HONORED \<le> old_rank then m\<lparr>m_honoredFactionCount := m_honoredFactionCount m - 1\<rparr> else m);
          m = (if REP_EXALTED \<le> new_rank then m\<lparr>m_exaltedFactionCount := m_exaltedFactionCount m + 1\<rparr> else m);
          m = (if REP_REVERED \<le> new_rank then m\<lparr>m_reveredFactionCount := m_reveredFactionCount m + 1\<rparr> else m)
      in if REP_HONORED \<le> new_rank then m\<lparr>m_honoredFactionCount := m_honoredFactionCount m + 1\<rparr> else m)"

definition SetVisible_state ::
  "'f RepEnv \<Rightarrow> uint32 \<Rightarrow> FactionState \<Rightarrow> ReputationMgr \<Rightarrow> ReputationMgr \<times> RepEffect list" where
  "SetVisible_state env k f m =
     (if has_flag f (FACTION_FLAG_INVISIBLE_FORCED OR FACTION_FLAG_HIDDEN) then (m, [])
      else if has_flag f FACTION_FLAG_VISIBLE then (m, [])
      else
        let f = changed (f\<lparr>fs_Flags := fs_Flags f OR FACTION_FLAG_VISIBLE\<rparr>);
            m = put_faction k f m
        in (m\<lparr>m_visibleFactionCount := m_visibleFactionCount m + 1\<rparr>,
            if PlayerLoading env then [] else [VisiblePacket (fs_ReputationListID f)]))"

definition SetVisible :: "'f RepEnv \<Rightarrow> 'f FactionEntry \<Rightarrow> ReputationMgr \<Rightarrow> ReputationMgr \<times> RepEffect list" where
  "SetVisible env e m =
     (if reputationListID e < 0 then (m, [])
      else case smap_find (list_key e) (m_factions m) of
        None \<Rightarrow> (m, [])
      | Some f \<Rightarrow> SetVisible_state env (list_key e) f m)"

definition SetVisible_template :: "'f RepEnv \<Rightarrow> uint32 \<Rightarrow> ReputationMgr \<Rightarrow> ReputationMgr \<times> RepEffect list" where
  "SetVisible_template env faction m =
     (if faction = 0 then (m, [])
      else case LookupEntry env faction of None \<Rightarrow> (m, []) | Some e \<Rightarrow> SetVisible env e m)"

definition SetAtWar_state :: "uint32 \<Rightarrow> FactionState \<Rightarrow> bool \<Rightarrow> ReputationMgr \<Rightarrow> ReputationMgr" where
  "SetAtWar_state k f atWar m =
     (if atWar \<and> has_flag f FACTION_FLAG_PEACE_FORCED \<and> REP_HATED < ReputationToRank (fs_Standing f) then m
      else if has_flag f FACTION_FLAG_AT_WAR = atWar then m
      else put_faction k (changed (f\<lparr>fs_Flags :=
             (if atWar then fs_Flags f OR FACTION_FLAG_AT_WAR else fs_Flags f AND NOT FACTION_FLAG_AT_WAR)\<rparr>)) m)"

definition SetAtWar :: "uint32 \<Rightarrow> bool \<Rightarrow> ReputationMgr \<Rightarrow> ReputationMgr" where
  "SetAtWar repListID on m =
     (case smap_find repListID (m_factions m) of
        None \<Rightarrow> m
      | Some f \<Rightarrow> if has_flag f (FACTION_FLAG_INVISIBLE_FORCED OR FACTION_FLAG_HIDDEN) then m
                  else SetAtWar_state repListID f on m)"

definition SetInactive_state :: "uint32 \<Rightarrow> FactionState \<Rightarrow> bool \<Rightarrow> ReputationMgr \<Rightarrow> ReputationMgr" where
  "SetInactive_state k f inactive m =
     (if inactive \<and> (has_flag f (FACTION_FLAG_INVISIBLE_FORCED OR FACTION_FLAG_HIDDEN) \<or>
                      \<not> has_flag f FACTION_FLAG_VISIBLE) then m
      else if has_flag f FACTION_FLAG_INACTIVE = inactive then m
      else put_faction k (changed (f\<lparr>fs_Flags :=
             (if inactive then fs_Flags f OR FACTION_FLAG_INACTIVE
              else fs_Flags f AND NOT FACTION_FLAG_INACTIVE)\<rparr>)) m)"

definition SetInactive :: "uint32 \<Rightarrow> bool \<Rightarrow> ReputationMgr \<Rightarrow> ReputationMgr" where
  "SetInactive repListID on m =
     (case smap_find repListID (m_factions m) of None \<Rightarrow> m | Some f \<Rightarrow> SetInactive_state repListID f on m)"

definition ApplyForceReaction :: "uint32 \<Rightarrow> ReputationRank \<Rightarrow> bool \<Rightarrow> ReputationMgr \<Rightarrow> ReputationMgr" where
  "ApplyForceReaction faction_id rank apply_it m =
     m\<lparr>m_forcedReactions := (if apply_it then smap_put faction_id rank (m_forcedReactions m)
                              else smap_erase faction_id (m_forcedReactions m))\<rparr>"

text \<open>
  The weekly cap of the guild reputation. The comparison mixes \<open>int32\<close> and \<open>uint32\<close>, so it is
  made on unsigned values.
\<close>

definition guild_capped :: "uint32 \<Rightarrow> uint32 \<Rightarrow> int \<Rightarrow> int" where
  "guild_capped cap week standing =
     (if cap < word_of_int standing + week
      then sint (if week < cap then cap - week else 0) else standing)"

definition clamp_standing :: "int \<Rightarrow> int" where
  "clamp_standing s = (if Reputation_Cap < s then Reputation_Cap else if s < Reputation_Bottom then Reputation_Bottom else s)"

definition SetOneFactionReputation ::
  "'f RepEnv \<Rightarrow> 'f FactionEntry \<Rightarrow> int \<Rightarrow> bool \<Rightarrow> ReputationMgr \<Rightarrow> (ReputationMgr \<times> RepEffect list \<times> bool) result" where
  "SetOneFactionReputation env e standing incremental m =
     (case smap_find (list_key e) (m_factions m) of
        None \<Rightarrow> Inr (m, [], False)
      | Some f \<Rightarrow>
          let BaseRep = GetBaseReputation env e;
              (standing, m) =
                (if incremental \<and> fe_ID e = GUILD_REP_FACTION
                 then case m_week m of
                        None \<Rightarrow> (standing, m)
                      | Some week \<Rightarrow>
                          let standing = guild_capped (weekly_cap env) week standing
                          in (standing, m\<lparr>m_week := Some (week + word_of_int standing)\<rparr>)
                 else (standing, m))
          in bindR (if incremental then add_int32 standing (fs_Standing f + BaseRep) else Inr standing) (\<lambda>standing.
               let standing = clamp_standing standing;
                   old_rank = ReputationToRank (fs_Standing f + BaseRep);
                   new_rank = ReputationToRank standing;
                   k = list_key e;
                   f = changed (f\<lparr>fs_Standing := standing - BaseRep\<rparr>);
                   m = put_faction k f m;
                   (m, eff) = SetVisible_state env k f m;
                   f = the (smap_find k (m_factions m));
                   m = (if new_rank \<le> REP_HOSTILE then SetAtWar_state k f True m else m);
                   m = UpdateRankCounters old_rank new_rank m
               in Inr (m, eff @ [ReputationChanged (fe_ID e)], old_rank < new_rank)))"

definition SendState ::
  "'f RepEnv \<Rightarrow> uint32 \<Rightarrow> bool \<Rightarrow> ReputationMgr \<Rightarrow> ReputationMgr \<times> RepEffect list" where
  "SendState env k anyRankIncreased m =
     (if \<not> in_session env \<or> PlayerLoading env then (m, [])
      else case smap_find k (m_factions m) of
        None \<Rightarrow> (m, [])
      | Some faction \<Rightarrow>
          let others = filter (\<lambda>f. fs_needSend f \<and> fs_ReputationListID f \<noteq> fs_ReputationListID faction)
                         (map snd (m_factions m))
          in (m\<lparr>m_factions := map (\<lambda>(k, f). (k, f\<lparr>fs_needSend := False\<rparr>)) (m_factions m)\<rparr>,
              [StatePacket anyRankIncreased
                 (map (\<lambda>f. (fs_ReputationListID f, fs_Standing f)) (faction # others))]))"

section \<open>Spillover\<close>

text \<open>A null entry of the faction table is dereferenced by \<open>SetOneFactionReputation\<close>.\<close>

definition set_one ::
  "'f RepEnv \<Rightarrow> 'f FactionEntry option \<Rightarrow> int \<Rightarrow> bool \<Rightarrow> ReputationMgr \<Rightarrow> (ReputationMgr \<times> RepEffect list \<times> bool) result" where
  "set_one env eo standing incremental m =
     (case eo of None \<Rightarrow> Inl Undefined | Some e \<Rightarrow> SetOneFactionReputation env e standing incremental m)"

definition then_also ::
  "(ReputationMgr \<times> RepEffect list \<times> bool) result \<Rightarrow>
    (ReputationMgr \<Rightarrow> (ReputationMgr \<times> RepEffect list \<times> bool) result) \<Rightarrow> (ReputationMgr \<times> RepEffect list \<times> bool) result" where
  "then_also r g = bindR r (\<lambda>(m, eff, up). bindR (g m) (\<lambda>(m, eff', up'). Inr (m, eff @ eff', up \<or> up')))"

fun spill_template ::
  "'f RepEnv \<Rightarrow> bool \<Rightarrow> int \<Rightarrow> (uint32 \<times> 'f \<times> uint32) list \<Rightarrow> ReputationMgr \<Rightarrow>
    (ReputationMgr \<times> RepEffect list \<times> bool) result" where
  "spill_template env incremental standing [] m = Inr (m, [], False)"
| "spill_template env incremental standing ((faction, rate, rank) # rows) m =
     then_also
       (if faction \<noteq> 0 \<and> rank_val (GetRank env (LookupEntry env faction) m) \<le> unat rank
        then set_one env (LookupEntry env faction) (int_of_float env (float_mult env (float_of env standing) rate))
               incremental m
        else Inr (m, [], False))
       (spill_template env incremental standing rows)"

fun spill_list ::
  "'f RepEnv \<Rightarrow> bool \<Rightarrow> 'f FactionEntry \<Rightarrow> 'f \<Rightarrow> uint32 list \<Rightarrow> ReputationMgr \<Rightarrow>
    (ReputationMgr \<times> RepEffect list \<times> bool) result" where
  "spill_list env incremental e out [] m = Inr (m, [], False)"
| "spill_list env incremental e out (i # is) m =
     then_also
       (case LookupEntry env i of
          None \<Rightarrow> Inr (m, [], False)
        | Some c \<Rightarrow>
            if fe_ID c = fe_ID e \<or> unat (spilloverMaxRankIn c) < rank_val (GetRank env (Some c) m)
            then Inr (m, [], False)
            else let spilloverRep = int_of_float env (float_mult env out (spilloverRateIn c))
                 in if spilloverRep \<noteq> 0 \<or> \<not> incremental
                    then SetOneFactionReputation env c spilloverRep incremental m else Inr (m, [], False))
       (spill_list env incremental e out is)"

definition spillover ::
  "'f RepEnv \<Rightarrow> 'f FactionEntry \<Rightarrow> int \<Rightarrow> bool \<Rightarrow> ReputationMgr \<Rightarrow> (ReputationMgr \<times> RepEffect list \<times> bool) result" where
  "spillover env e standing incremental m =
     (case SpilloverTemplate env (fe_ID e) of
        Some t \<Rightarrow> spill_template env incremental standing (zip (sp_faction t) (zip (sp_rate t) (sp_rank t))) m
      | None \<Rightarrow>
          let out = float_of env standing;
              flist = FactionTeamList env (fe_ID e)
          in if flist = None \<and> fe_team e \<noteq> 0 \<and> above_null env (spilloverRateOut e)
             then let out = float_mult env out (spilloverRateOut e)
                  in case LookupEntry env (fe_team e) of
                       None \<Rightarrow> Inr (m, [], False)
                     | Some parent \<Rightarrow>
                         (case smap_find (list_key parent) (m_factions m) of
                            Some ps \<Rightarrow>
                              if has_flag ps FACTION_FLAG_TEAM_REPUTATION
                              then SetOneFactionReputation env parent (int_of_float env out) incremental m
                              else spill_list env incremental e out
                                     (case FactionTeamList env (fe_team e) of None \<Rightarrow> [] | Some fs \<Rightarrow> fs) m
                          | None \<Rightarrow> spill_list env incremental e out
                                     (case FactionTeamList env (fe_team e) of None \<Rightarrow> [] | Some fs \<Rightarrow> fs) m)
             else spill_list env incremental e out (case flist of None \<Rightarrow> [] | Some fs \<Rightarrow> fs) m)"

definition SetReputation_by ::
  "'f RepEnv \<Rightarrow> 'f FactionEntry \<Rightarrow> int \<Rightarrow> bool \<Rightarrow> ReputationMgr \<Rightarrow> (ReputationMgr \<times> RepEffect list) result" where
  "SetReputation_by env e standing incremental m =
     bindR (spillover env e standing incremental m) (\<lambda>(m, eff, up).
       case smap_find (list_key e) (m_factions m) of
         None \<Rightarrow> Inr (m, eff)
       | Some f \<Rightarrow>
           bindR (SetOneFactionReputation env e standing incremental m) (\<lambda>(m, eff', up').
             let (m, eff'') = SendState env (list_key e) (up \<or> up') m
             in Inr (m, eff @ eff' @ eff'')))"

definition SetReputation ::
  "'f RepEnv \<Rightarrow> 'f FactionEntry \<Rightarrow> int \<Rightarrow> ReputationMgr \<Rightarrow> (ReputationMgr \<times> RepEffect list) result" where
  "SetReputation env e standing = SetReputation_by env e standing False"

definition ModifyReputation ::
  "'f RepEnv \<Rightarrow> 'f FactionEntry \<Rightarrow> int \<Rightarrow> ReputationMgr \<Rightarrow> (ReputationMgr \<times> RepEffect list) result" where
  "ModifyReputation env e standing = SetReputation_by env e standing True"

section \<open>Login, save and the initial packet\<close>

definition ReputationMgr_new :: ReputationMgr where
  "ReputationMgr_new = \<lparr>m_factions = [], m_forcedReactions = [], m_visibleFactionCount = 0,
     m_honoredFactionCount = 0, m_reveredFactionCount = 0, m_exaltedFactionCount = 0, m_week = None\<rparr>"

definition initial_state :: "'f RepEnv \<Rightarrow> 'f FactionEntry \<Rightarrow> FactionState" where
  "initial_state env e = \<lparr>fs_ID = fe_ID e, fs_ReputationListID = list_key e,
     fs_Flags = GetDefaultStateFlags env e, fs_Standing = 0, fs_needSend = True, fs_needSave = True\<rparr>"

definition init_row :: "'f RepEnv \<Rightarrow> nat \<Rightarrow> ReputationMgr \<Rightarrow> ReputationMgr" where
  "init_row env i m =
     (case LookupEntry env (of_nat i) of
        None \<Rightarrow> m
      | Some e \<Rightarrow>
          if reputationListID e < 0 then m
          else
            let f = initial_state env e;
                m = (if has_flag f FACTION_FLAG_VISIBLE
                     then m\<lparr>m_visibleFactionCount := m_visibleFactionCount m + 1\<rparr> else m);
                m = UpdateRankCounters REP_HOSTILE (GetBaseRank env e) m
            in put_faction (fs_ReputationListID f) f m)"

definition Initialize :: "'f RepEnv \<Rightarrow> ReputationMgr \<Rightarrow> ReputationMgr" where
  "Initialize env m =
     fold (init_row env) [1 ..< NumRows env]
       (m\<lparr>m_factions := [], m_visibleFactionCount := 0, m_honoredFactionCount := 0,
          m_reveredFactionCount := 0, m_exaltedFactionCount := 0\<rparr>)"

text \<open>\<open>m_factions[k]\<close>, which makes an entry if there is none.\<close>

definition entry_at :: "uint32 \<Rightarrow> ReputationMgr \<Rightarrow> FactionState" where
  "entry_at k m = (case smap_find k (m_factions m) of Some f \<Rightarrow> f
     | None \<Rightarrow> \<lparr>fs_ID = 0, fs_ReputationListID = 0, fs_Flags = 0, fs_Standing = 0,
                fs_needSend = False, fs_needSave = False\<rparr>)"

text \<open>One row of \<open>character_reputation\<close>: faction, standing and flags, all read as \<open>uint32\<close>.\<close>

definition load_visible ::
  "'f RepEnv \<Rightarrow> uint32 \<Rightarrow> uint32 \<Rightarrow> ReputationMgr \<Rightarrow> ReputationMgr \<times> RepEffect list" where
  "load_visible env k dbFactionFlags m =
     (if dbFactionFlags AND FACTION_FLAG_VISIBLE \<noteq> 0 then SetVisible_state env k (entry_at k m) m else (m, []))"

definition load_inactive :: "uint32 \<Rightarrow> uint32 \<Rightarrow> ReputationMgr \<Rightarrow> ReputationMgr" where
  "load_inactive k dbFactionFlags m =
     (if dbFactionFlags AND FACTION_FLAG_INACTIVE \<noteq> 0 then SetInactive_state k (entry_at k m) True m else m)"

definition load_war :: "uint32 \<Rightarrow> uint32 \<Rightarrow> ReputationMgr \<Rightarrow> ReputationMgr" where
  "load_war k dbFactionFlags m =
     (if dbFactionFlags AND FACTION_FLAG_AT_WAR \<noteq> 0 then SetAtWar_state k (entry_at k m) True m
      else if has_flag (entry_at k m) FACTION_FLAG_VISIBLE then SetAtWar_state k (entry_at k m) False m else m)"

definition load_hostile :: "'f RepEnv \<Rightarrow> 'f FactionEntry \<Rightarrow> ReputationMgr \<Rightarrow> ReputationMgr" where
  "load_hostile env e m =
     (if (case smap_find (fe_ID e) (m_forcedReactions m) of
            Some r \<Rightarrow> r \<le> REP_HOSTILE
          | None \<Rightarrow> GetRank env (Some e) m \<le> REP_HOSTILE)
      then SetAtWar_state (list_key e) (entry_at (list_key e) m) True m else m)"

definition load_unchanged :: "uint32 \<Rightarrow> uint32 \<Rightarrow> ReputationMgr \<Rightarrow> ReputationMgr" where
  "load_unchanged k dbFactionFlags m =
     (if fs_Flags (entry_at k m) = dbFactionFlags
      then put_faction k ((entry_at k m)\<lparr>fs_needSend := False, fs_needSave := False\<rparr>) m else m)"

definition load_row ::
  "'f RepEnv \<Rightarrow> uint32 \<times> uint32 \<times> uint32 \<Rightarrow> ReputationMgr \<times> RepEffect list \<Rightarrow> ReputationMgr \<times> RepEffect list" where
  "load_row env row me =
     (let (faction, db_standing, dbFactionFlags) = row; (m, eff0) = me
      in case LookupEntry env faction of
        None \<Rightarrow> (m, eff0)
      | Some e \<Rightarrow>
          if reputationListID e < 0 then (m, eff0)
          else
            let k = list_key e;
                m = put_faction k ((entry_at k m)\<lparr>fs_Standing := sint db_standing\<rparr>) m;
                BaseRep = GetBaseReputation env e;
                m = UpdateRankCounters (ReputationToRank BaseRep)
                      (ReputationToRank (BaseRep + fs_Standing (entry_at k m))) m;
                (m, eff) = load_visible env k dbFactionFlags m
            in (load_unchanged k dbFactionFlags (load_hostile env e (load_war k dbFactionFlags
                  (load_inactive k dbFactionFlags m))), eff0 @ eff))"

definition LoadFromDB ::
  "'f RepEnv \<Rightarrow> (uint32 \<times> uint32 \<times> uint32) list \<Rightarrow> ReputationMgr \<Rightarrow> ReputationMgr \<times> RepEffect list" where
  "LoadFromDB env rows m = fold (load_row env) rows (Initialize env m, [])"

definition SaveToDB :: "ReputationMgr \<Rightarrow> ReputationMgr \<times> RepEffect list" where
  "SaveToDB m =
     (m\<lparr>m_factions := map (\<lambda>(k, f). (k, f\<lparr>fs_needSave := False\<rparr>)) (m_factions m)\<rparr>,
      map (\<lambda>(k, f). SavedRow (fs_ID f) (fs_Standing f) (fs_Flags f))
        (filter (\<lambda>(k, f). fs_needSave f) (m_factions m)))"

definition SendForceReactions :: "ReputationMgr \<Rightarrow> RepEffect list" where
  "SendForceReactions m = [ForcedPacket (m_forcedReactions m)]"

text \<open>
  The initial packet has one slot per list number. The counter \<open>a\<close> is compared for inequality,
  so each gap has as many slots as it takes the 32-bit counter to get there.
\<close>

definition absent_slots :: "uint32 \<Rightarrow> uint32 \<Rightarrow> (uint8 \<times> uint32) list" where
  "absent_slots a b = replicate (unat (b - a)) (0, 0)"

fun initial_slots :: "uint32 \<Rightarrow> (uint32, FactionState) smap \<Rightarrow> (uint8 \<times> uint32) list" where
  "initial_slots a [] = absent_slots a 256"
| "initial_slots a ((k, f) # fs) =
     absent_slots a k @ [(ucast (fs_Flags f), word_of_int (fs_Standing f))] @ initial_slots (k + 1) fs"

definition SendInitialReputations :: "ReputationMgr \<Rightarrow> ReputationMgr \<times> RepEffect list" where
  "SendInitialReputations m =
     (m\<lparr>m_factions := map (\<lambda>(k, f). (k, f\<lparr>fs_needSend := False\<rparr>)) (m_factions m)\<rparr>,
      [InitialPacket (initial_slots 0 (m_factions m))])"

end
