(* ===== verification/ReputationProps.thy ===== *)
theory ReputationProps
  imports Reputation
begin

text \<open>
  The invariant of the reputation manager: every standing lies between the bottom and the cap, every
  state sits under its own list number, and the four counters count what they are named after.
\<close>

section \<open>Ranks\<close>

lemma rank_of_simps [simp]:
  "rank_of 0 = REP_HATED" "rank_of (Suc 0) = REP_HOSTILE" "rank_of 2 = REP_UNFRIENDLY" "rank_of 3 = REP_NEUTRAL"
  "rank_of 4 = REP_FRIENDLY" "rank_of 5 = REP_HONORED" "rank_of 6 = REP_REVERED" "rank_of 7 = REP_EXALTED"
  by (simp_all add: rank_of_def)

lemma ReputationToRank_cases:
  "ReputationToRank s =
    (if 42000 \<le> s then REP_EXALTED else if 21000 \<le> s then REP_REVERED else if 9000 \<le> s then REP_HONORED
     else if 3000 \<le> s then REP_FRIENDLY else if 0 \<le> s then REP_NEUTRAL else if - 3000 \<le> s then REP_UNFRIENDLY
     else if - 6000 \<le> s then REP_HOSTILE else REP_HATED)"
  by (simp add: ReputationToRank_def PointsInRank_def eval_nat_numeral Let_def)
    (simp add: rank_of_def)

section \<open>Counting in a map\<close>

definition count_states :: "('v \<Rightarrow> bool) \<Rightarrow> ('k, 'v) smap \<Rightarrow> nat" where
  "count_states Q m = length (filter (\<lambda>p. Q (snd p)) m)"

lemma count_put_old:
  "smap_ok m \<Longrightarrow> smap_find k m = Some w \<Longrightarrow>
    count_states Q (smap_put k v m) + of_bool (Q w) = count_states Q m + of_bool (Q v)"
proof (induction k v m rule: smap_put.induct)
  case (2 k v l u m)
  then show ?case
    by (auto simp add: smap_find_def smap_ok_def count_states_def split: if_splits)
      (metis (mono_tags, lifting) fst_conv imageI less_asym' map_of_SomeD)+
qed (simp add: smap_find_def)

lemma count_put_new:
  "smap_ok m \<Longrightarrow> smap_find k m = None \<Longrightarrow> count_states Q (smap_put k v m) = count_states Q m + of_bool (Q v)"
  by (induction k v m rule: smap_put.induct)
    (auto simp add: smap_find_def smap_ok_def count_states_def split: if_splits)

lemma count_map:
  assumes "\<And>v. Q (h v) = Q v"
  shows "count_states Q (map (\<lambda>(k, v). (k, h v)) m) = count_states Q m"
  by (induction m) (simp_all add: count_states_def split_beta assms)

lemma smap_find_map: "smap_find k (map (\<lambda>(k, v). (k, h v)) m) = map_option h (smap_find k m)"
  by (induction m) (auto simp add: smap_find_def)

lemma smap_ok_map: "smap_ok (map (\<lambda>(k, v). (k, h v)) m) = smap_ok m"
proof -
  have "map fst (map (\<lambda>(k, v). (k, h v)) m) = map fst m" by (induction m) auto
  then show ?thesis unfolding smap_ok_def by (simp only:)
qed

text \<open>An 8-bit counter follows a count of the map.\<close>

definition counts :: "uint8 \<Rightarrow> ('v \<Rightarrow> bool) \<Rightarrow> ('k, 'v) smap \<Rightarrow> bool" where
  "counts c Q m \<longleftrightarrow> c = of_nat (count_states Q m)"

lemma counts_put:
  assumes "smap_ok m" "smap_find k m = Some w" "counts c Q m"
  shows "counts (c - of_bool (Q w) + of_bool (Q v)) Q (smap_put k v m)"
proof -
  have "of_nat (count_states Q (smap_put k v m) + of_bool (Q w)) = (of_nat (count_states Q m + of_bool (Q v)) :: uint8)"
    using count_put_old[OF assms(1,2), of Q v] by simp
  then have "of_nat (count_states Q (smap_put k v m)) + of_bool (Q w) = (of_nat (count_states Q m) :: uint8) + of_bool (Q v)"
    by simp
  then show ?thesis using assms(3) unfolding counts_def by (simp add: algebra_simps)
qed

lemma counts_put_new:
  "smap_ok m \<Longrightarrow> smap_find k m = None \<Longrightarrow> counts c Q m \<Longrightarrow> counts (c + of_bool (Q v)) Q (smap_put k v m)"
  by (simp add: counts_def count_put_new)

lemma counts_same:
  assumes "smap_ok m" "smap_find k m = Some w" "counts c Q m" "Q v = Q w"
  shows "counts c Q (smap_put k v m)"
  using counts_put[OF assms(1-3), of v] assms(4) by simp

section \<open>The invariant\<close>

definition rep_data :: "'f RepEnv \<Rightarrow> bool" where
  "rep_data env \<longleftrightarrow>
     (\<forall>i e. LookupEntry env i = Some e \<longrightarrow> i \<noteq> 0 \<and> unat i < NumRows env \<and>
        fe_ID e = i \<and> - (2 ^ 31) \<le> reputationListID e \<and> reputationListID e < 2 ^ 31 \<and>
        Reputation_Bottom \<le> GetBaseReputation env e \<and> GetBaseReputation env e \<le> Reputation_Cap) \<and>
     (\<forall>i j e e'. LookupEntry env i = Some e \<longrightarrow> LookupEntry env j = Some e' \<longrightarrow>
        0 \<le> reputationListID e \<longrightarrow> reputationListID e = reputationListID e' \<longrightarrow> i = j)"

definition state_base :: "'f RepEnv \<Rightarrow> FactionState \<Rightarrow> int" where
  "state_base env f = (case LookupEntry env (fs_ID f) of None \<Rightarrow> 0 | Some e \<Rightarrow> GetBaseReputation env e)"

definition state_total :: "'f RepEnv \<Rightarrow> FactionState \<Rightarrow> int" where
  "state_total env f = state_base env f + fs_Standing f"

definition at_least :: "'f RepEnv \<Rightarrow> ReputationRank \<Rightarrow> FactionState \<Rightarrow> bool" where
  "at_least env r f \<longleftrightarrow> r \<le> ReputationToRank (state_total env f)"

definition visible :: "FactionState \<Rightarrow> bool" where
  "visible f \<longleftrightarrow> has_flag f FACTION_FLAG_VISIBLE"

definition state_ok :: "'f RepEnv \<Rightarrow> uint32 \<Rightarrow> FactionState \<Rightarrow> bool" where
  "state_ok env k f \<longleftrightarrow> fs_ReputationListID f = k \<and>
     (\<exists>e. LookupEntry env (fs_ID f) = Some e \<and> 0 \<le> reputationListID e \<and> list_key e = k)"

definition in_range :: "'f RepEnv \<Rightarrow> FactionState \<Rightarrow> bool" where
  "in_range env f \<longleftrightarrow> Reputation_Bottom \<le> state_total env f \<and> state_total env f \<le> Reputation_Cap"

definition counters_ok :: "'f RepEnv \<Rightarrow> ReputationMgr \<Rightarrow> bool" where
  "counters_ok env m \<longleftrightarrow>
     counts (m_visibleFactionCount m) visible (m_factions m) \<and>
     counts (m_honoredFactionCount m) (at_least env REP_HONORED) (m_factions m) \<and>
     counts (m_reveredFactionCount m) (at_least env REP_REVERED) (m_factions m) \<and>
     counts (m_exaltedFactionCount m) (at_least env REP_EXALTED) (m_factions m)"

definition rep_ok :: "'f RepEnv \<Rightarrow> ReputationMgr \<Rightarrow> bool" where
  "rep_ok env m \<longleftrightarrow> smap.every (\<lambda>k f. state_ok env k f \<and> in_range env f) (m_factions m) \<and> counters_ok env m"

lemma rep_ok_map [simp]: "rep_ok env m \<Longrightarrow> smap_ok (m_factions m)"
  by (simp add: rep_ok_def smap.every_def)

lemma rep_ok_find: "rep_ok env m \<Longrightarrow> smap_find k (m_factions m) = Some f \<Longrightarrow> state_ok env k f \<and> in_range env f"
  by (simp add: rep_ok_def smap.every_def)

lemma put_faction_sel [simp]:
  "m_visibleFactionCount (put_faction k f m) = m_visibleFactionCount m"
  "m_honoredFactionCount (put_faction k f m) = m_honoredFactionCount m"
  "m_reveredFactionCount (put_faction k f m) = m_reveredFactionCount m"
  "m_exaltedFactionCount (put_faction k f m) = m_exaltedFactionCount m"
  "m_factions (put_faction k f m) = smap_put k f (m_factions m)"
  "m_forcedReactions (put_faction k f m) = m_forcedReactions m" "m_week (put_faction k f m) = m_week m"
  by (simp_all add: put_faction_def)

text \<open>An entry rewritten with the same identity and standing; only its visibility may change.\<close>

definition same_faction :: "FactionState \<Rightarrow> FactionState \<Rightarrow> bool" where
  "same_faction f g \<longleftrightarrow> fs_ID f = fs_ID g \<and> fs_ReputationListID f = fs_ReputationListID g \<and> fs_Standing f = fs_Standing g"

lemma same_faction_simps:
  assumes "same_faction f g"
  shows "state_total env f = state_total env g" "at_least env r f = at_least env r g"
    "state_ok env k f = state_ok env k g" "in_range env f = in_range env g"
  using assms by (simp_all add: same_faction_def state_total_def state_base_def at_least_def state_ok_def in_range_def)

lemma rep_ok_rewrite:
  assumes "rep_ok env m" "smap_find k (m_factions m) = Some f" "same_faction g f"
  shows "rep_ok env ((put_faction k g m)\<lparr>m_visibleFactionCount :=
    m_visibleFactionCount m - of_bool (visible f) + of_bool (visible g)\<rparr>)"
proof -
  have ok: "smap_ok (m_factions m)" using assms(1) by simp
  have "smap.every (\<lambda>k f. state_ok env k f \<and> in_range env f) (smap_put k g (m_factions m))"
    using assms(1) rep_ok_find[OF assms(1,2)] same_faction_simps[OF assms(3), where env = env]
    by (intro smap.every_put) (simp_all add: rep_ok_def)
  then show ?thesis
    using assms(1) counts_put[OF ok assms(2)] counts_same[OF ok assms(2)] same_faction_simps(2)[OF assms(3), where env = env]
    by (simp add: rep_ok_def counters_ok_def)
qed

lemma rep_ok_rewrite_same:
  assumes "rep_ok env m" "smap_find k (m_factions m) = Some f" "same_faction g f" "visible g = visible f"
  shows "rep_ok env (put_faction k g m)"
proof -
  have "(put_faction k g m)\<lparr>m_visibleFactionCount := m_visibleFactionCount m - of_bool (visible f) + of_bool (visible g)\<rparr> =
      put_faction k g m"
    using assms(4) by (simp add: put_faction_def)
  then show ?thesis using rep_ok_rewrite[OF assms(1-3)] by simp
qed

text \<open>The flags.\<close>

lemma word_flag_bits:
  fixes w :: uint32
  shows "w AND 1 \<noteq> 0 \<longleftrightarrow> bit w 0" "w AND 2 \<noteq> 0 \<longleftrightarrow> bit w 1" "w AND 0x20 \<noteq> 0 \<longleftrightarrow> bit w 5"
  using and_push_bit_nonzero[of 0 w] and_push_bit_nonzero[of 1 w] and_push_bit_nonzero[of 5 w]
  by (simp_all add: push_bit_eq_mult)

lemma rep_flag_bits [simp]:
  "has_flag f 1 \<longleftrightarrow> bit (fs_Flags f) 0" "has_flag f 2 \<longleftrightarrow> bit (fs_Flags f) 1"
  "has_flag f 0x20 \<longleftrightarrow> bit (fs_Flags f) 5"
  by (simp_all add: has_flag_def word_flag_bits)

lemma bits_of: "bit (1 :: uint32) n \<longleftrightarrow> n = 0" "bit (2 :: uint32) n \<longleftrightarrow> n = 1" "bit (0x20 :: uint32) n \<longleftrightarrow> n = 5"
proof -
  have "(2 :: uint32) = push_bit 1 1" "(0x20 :: uint32) = push_bit 5 1" by (simp_all add: push_bit_eq_mult)
  then show "bit (2 :: uint32) n \<longleftrightarrow> n = 1" "bit (0x20 :: uint32) n \<longleftrightarrow> n = 5"
    by (simp_all only: bit_push_bit_iff bit_1_iff possible_bit_word) auto
qed (simp add: bit_1_iff)

lemma flag_0_simps:
  fixes w :: uint32
  shows "bit (w OR 1) 0" "bit (w OR 2) 0 = bit w 0" "bit (w AND NOT 2) 0 = bit w 0"
    "bit (w OR 0x20) 0 = bit w 0" "bit (w AND NOT 0x20) 0 = bit w 0"
  unfolding bit_or_iff bit_and_iff bit_not_iff bits_of by simp_all

lemma changed_simps [simp]:
  "fs_ID (changed f) = fs_ID f" "fs_ReputationListID (changed f) = fs_ReputationListID f"
  "fs_Flags (changed f) = fs_Flags f" "fs_Standing (changed f) = fs_Standing f"
  "has_flag (changed f) x = has_flag f x" "visible (changed f) = visible f"
  by (simp_all add: changed_def has_flag_def visible_def)

lemma rep_ok_SetVisible_state:
  assumes "rep_ok env m" "smap_find k (m_factions m) = Some f"
  shows "rep_ok env (fst (SetVisible_state env' k f m))"
proof -
  let ?g = "changed (f\<lparr>fs_Flags := fs_Flags f OR 1\<rparr>)"
  have g: "visible ?g" unfolding visible_def rep_flag_bits by (simp add: flag_0_simps)
  have "same_faction ?g f" by (simp add: same_faction_def)
  then have "rep_ok env ((put_faction k ?g m)\<lparr>m_visibleFactionCount := m_visibleFactionCount m + 1\<rparr>)" if "\<not> visible f"
    using rep_ok_rewrite[OF assms, of ?g] that g by simp
  then show ?thesis
    using assms(1) by (simp add: SetVisible_state_def Let_def visible_def)
qed

lemma rep_ok_SetAtWar_state:
  assumes "rep_ok env m" "smap_find k (m_factions m) = Some f"
  shows "rep_ok env (SetAtWar_state k f on m)"
proof -
  have "rep_ok env (put_faction k (changed (f\<lparr>fs_Flags := (if on then fs_Flags f OR 2 else fs_Flags f AND NOT 2)\<rparr>)) m)"
    by (rule rep_ok_rewrite_same[OF assms])
      (simp_all add: same_faction_def visible_def flag_0_simps[simplified])
  then show ?thesis using assms(1) by (simp add: SetAtWar_state_def)
qed

lemma rep_ok_SetInactive_state:
  assumes "rep_ok env m" "smap_find k (m_factions m) = Some f"
  shows "rep_ok env (SetInactive_state k f on m)"
proof -
  have "rep_ok env (put_faction k (changed (f\<lparr>fs_Flags := (if on then fs_Flags f OR 0x20 else fs_Flags f AND NOT 0x20)\<rparr>)) m)"
    by (rule rep_ok_rewrite_same[OF assms])
      (simp_all add: same_faction_def visible_def flag_0_simps[simplified])
  then show ?thesis using assms(1) by (simp add: SetInactive_state_def)
qed

lemma rep_ok_SetVisible [keeps]: "rep_ok env m \<Longrightarrow> rep_ok env (fst (SetVisible env' e m))"
  by (simp add: SetVisible_def rep_ok_SetVisible_state split: option.splits)

lemma rep_ok_SetVisible_template [keeps]: "rep_ok env m \<Longrightarrow> rep_ok env (fst (SetVisible_template env' i m))"
  by (simp add: SetVisible_template_def rep_ok_SetVisible split: option.splits)

lemma rep_ok_SetAtWar [keeps]: "rep_ok env m \<Longrightarrow> rep_ok env (SetAtWar k on m)"
  by (simp add: SetAtWar_def rep_ok_SetAtWar_state split: option.splits)

lemma rep_ok_SetInactive [keeps]: "rep_ok env m \<Longrightarrow> rep_ok env (SetInactive k on m)"
  by (simp add: SetInactive_def rep_ok_SetInactive_state split: option.splits)

section \<open>Changing a standing\<close>

lemma UpdateRankCounters_eq:
  "UpdateRankCounters old_rank new_rank m = m\<lparr>
     m_exaltedFactionCount := m_exaltedFactionCount m - of_bool (REP_EXALTED \<le> old_rank) + of_bool (REP_EXALTED \<le> new_rank),
     m_reveredFactionCount := m_reveredFactionCount m - of_bool (REP_REVERED \<le> old_rank) + of_bool (REP_REVERED \<le> new_rank),
     m_honoredFactionCount := m_honoredFactionCount m - of_bool (REP_HONORED \<le> old_rank) + of_bool (REP_HONORED \<le> new_rank)\<rparr>"
  by (simp add: UpdateRankCounters_def Let_def)

lemma counters_commute:
  "UpdateRankCounters o' n' (SetAtWar_state k f b m) = SetAtWar_state k f b (UpdateRankCounters o' n' m)"
  "UpdateRankCounters o' n' (fst (SetVisible_state env k f m)) = fst (SetVisible_state env k f (UpdateRankCounters o' n' m))"
  "m_factions (UpdateRankCounters o' n' m) = m_factions m"
  "m_factions (fst (SetVisible_state env k f (UpdateRankCounters o' n' m))) = m_factions (fst (SetVisible_state env k f m))"
  by (simp_all add: UpdateRankCounters_eq SetAtWar_state_def SetVisible_state_def put_faction_def Let_def)

lemma rep_ok_week [simp]: "rep_ok env (m\<lparr>m_week := w\<rparr>) = rep_ok env m"
  by (simp add: rep_ok_def counters_ok_def)

lemma rep_ok_restand:
  assumes "rep_ok env m" "smap_find k (m_factions m) = Some f" "in_range env g"
    "fs_ID g = fs_ID f" "fs_ReputationListID g = fs_ReputationListID f" "visible g = visible f"
  shows "rep_ok env (UpdateRankCounters (ReputationToRank (state_total env f)) (ReputationToRank (state_total env g))
    (put_faction k g m))"
proof -
  have ok: "smap_ok (m_factions m)" using assms(1) by simp
  have "smap.every (\<lambda>k f. state_ok env k f \<and> in_range env f) (smap_put k g (m_factions m))"
    using assms(1,3-5) rep_ok_find[OF assms(1,2)] by (intro smap.every_put) (simp_all add: rep_ok_def state_ok_def)
  moreover have c: "counts (c - of_bool (r \<le> ReputationToRank (state_total env f)) +
      of_bool (r \<le> ReputationToRank (state_total env g))) (at_least env r) (smap_put k g (m_factions m))"
    if "counts c (at_least env r) (m_factions m)" for c r
    using counts_put[OF ok assms(2) that, of g] by (simp only: at_least_def)
  have "counters_ok env (UpdateRankCounters (ReputationToRank (state_total env f))
      (ReputationToRank (state_total env g)) (put_faction k g m))"
    using assms(1,6) counts_same[OF ok assms(2), where v = g]
    by (simp add: rep_ok_def counters_ok_def UpdateRankCounters_eq c split del: split_of_bool)
  ultimately show ?thesis by (simp add: rep_ok_def counters_commute(3))
qed

lemma entry_of_key:
  assumes "rep_data env" "rep_ok env m" "LookupEntry env i = Some e" "smap_find (list_key e) (m_factions m) = Some f"
  shows "fs_ID f = fe_ID e" "state_base env f = GetBaseReputation env e" "0 \<le> reputationListID e"
proof -
  obtain e' where e': "LookupEntry env (fs_ID f) = Some e'" "0 \<le> reputationListID e'" "list_key e' = list_key e"
    using rep_ok_find[OF assms(2,4)] by (auto simp add: state_ok_def)
  have assms5: "- (2 ^ 31) \<le> reputationListID e" using assms(1,3) by (auto simp add: rep_data_def)
  have lt: "reputationListID e < 2 ^ 31" "reputationListID e' < 2 ^ 31" "fe_ID e = i" "fe_ID e' = fs_ID f"
    using assms(1,3) e'(1) by (auto simp add: rep_data_def)
  have "uint (list_key e') = reputationListID e'"
    using e'(2) lt by (simp add: list_key_def uint_word_of_int take_bit_int_eq_self)
  moreover have "uint (list_key e) = (if 0 \<le> reputationListID e then reputationListID e else reputationListID e + 2 ^ 32)"
  proof (cases "0 \<le> reputationListID e")
    case True
    then show ?thesis using lt by (simp add: list_key_def uint_word_of_int take_bit_int_eq_self)
  next
    case False
    have "reputationListID e mod 2 ^ 32 = (reputationListID e + 2 ^ 32) mod 2 ^ 32" by simp
    also have "\<dots> = reputationListID e + 2 ^ 32" using False assms5 by (intro mod_pos_pos_trivial) simp_all
    finally show ?thesis using False by (simp add: list_key_def uint_word_of_int take_bit_eq_mod)
  qed
  ultimately have same: "reputationListID e' = reputationListID e" "0 \<le> reputationListID e"
    using e'(2,3) lt assms5 by (auto split: if_splits)
  then have "fs_ID f = i" using assms(1,3) e'(1,2) unfolding rep_data_def by blast
  then show "fs_ID f = fe_ID e" "0 \<le> reputationListID e" using lt(3) same by simp_all
  then show "state_base env f = GetBaseReputation env e" using lt(3) assms(3) by (simp add: state_base_def)
qed

text \<open>What one call does to the faction it names and to the others.\<close>

lemma SetVisible_state_find:
  assumes "smap_ok (m_factions m)" "smap_find k (m_factions m) = Some f"
  shows "\<exists>g. smap_find k (m_factions (fst (SetVisible_state env k f m))) = Some g \<and> same_faction g f"
    "h \<noteq> k \<Longrightarrow> smap_find h (m_factions (fst (SetVisible_state env k f m))) = smap_find h (m_factions m)"
    "smap_ok (m_factions (fst (SetVisible_state env k f m)))"
  using assms by (simp_all add: SetVisible_state_def Let_def smap_simps same_faction_def)

lemma SetAtWar_state_find:
  assumes "smap_ok (m_factions m)" "smap_find k (m_factions m) = Some f"
  shows "\<exists>g. smap_find k (m_factions (SetAtWar_state k f on m)) = Some g \<and> same_faction g f"
    "h \<noteq> k \<Longrightarrow> smap_find h (m_factions (SetAtWar_state k f on m)) = smap_find h (m_factions m)"
    "smap_ok (m_factions (SetAtWar_state k f on m))"
  using assms by (simp_all add: SetAtWar_state_def smap_simps same_faction_def)

lemma same_faction_trans: "same_faction f g \<Longrightarrow> same_faction g h \<Longrightarrow> same_faction f h"
  by (simp add: same_faction_def)

text \<open>The part of \<open>SetOneFactionReputation\<close> after the new standing is known.\<close>

definition restand :: "'f RepEnv \<Rightarrow> 'f FactionEntry \<Rightarrow> FactionState \<Rightarrow> int \<Rightarrow> ReputationMgr \<Rightarrow> ReputationMgr" where
  "restand env e f standing m =
     (let BaseRep = GetBaseReputation env e;
          k = list_key e;
          g = changed (f\<lparr>fs_Standing := standing - BaseRep\<rparr>);
          m = UpdateRankCounters (ReputationToRank (fs_Standing f + BaseRep)) (ReputationToRank standing) (put_faction k g m);
          m = fst (SetVisible_state env k g m)
      in if ReputationToRank standing \<le> REP_HOSTILE then SetAtWar_state k (the (smap_find k (m_factions m))) True m else m)"

lemma SetOne_Inr:
  assumes "SetOneFactionReputation env e standing incremental m = Inr (m', eff, up)"
    "smap_find (list_key e) (m_factions m) = Some f"
  obtains w n where "m' = restand env e f (clamp_standing n) (m\<lparr>m_week := w\<rparr>)"
    "n = (if incremental
          then (if fe_ID e = GUILD_REP_FACTION
                then (case m_week m of None \<Rightarrow> standing | Some week \<Rightarrow> guild_capped (weekly_cap env) week standing)
                else standing) + (fs_Standing f + GetBaseReputation env e)
          else standing)"
    "up = (ReputationToRank (fs_Standing f + GetBaseReputation env e) < ReputationToRank (clamp_standing n))"
proof -
  have w: "m\<lparr>m_week := m_week m\<rparr> = m" by simp
  show ?thesis
    using assms that[where w = "m_week m"] that[where w = "Some (the (m_week m) + word_of_int (guild_capped (weekly_cap env) (the (m_week m)) standing))"]
    by (auto simp add: SetOneFactionReputation_def Let_def case_prod_beta restand_def counters_commute add_int32_def w
        split: if_splits option.splits)
qed

lemma clamp_bounds: "Reputation_Bottom \<le> clamp_standing n" "clamp_standing n \<le> Reputation_Cap"
  by (simp_all add: clamp_standing_def)

lemma clamp_in_range: "Reputation_Bottom \<le> n \<Longrightarrow> n \<le> Reputation_Cap \<Longrightarrow> clamp_standing n = n"
  by (simp add: clamp_standing_def)

lemma restand_ok:
  assumes "rep_ok env m" "smap_find (list_key e) (m_factions m) = Some f"
    "state_base env f = GetBaseReputation env e" "GetBaseReputation env' e = GetBaseReputation env e"
  shows "rep_ok env (restand env' e f (clamp_standing n) m)"
proof -
  let ?k = "list_key e"
  let ?g = "changed (f\<lparr>fs_Standing := clamp_standing n - GetBaseReputation env e\<rparr>)"
  let ?m = "UpdateRankCounters (ReputationToRank (fs_Standing f + GetBaseReputation env e))
      (ReputationToRank (clamp_standing n)) (put_faction ?k ?g m)"
  have t: "state_total env f = fs_Standing f + GetBaseReputation env e" "state_total env ?g = clamp_standing n"
    using assms(3) by (simp_all add: state_total_def state_base_def)
  have ok: "rep_ok env ?m"
    using rep_ok_restand[OF assms(1,2), of ?g] clamp_bounds[of n]
    by (simp add: t in_range_def visible_def)
  have f: "smap_find ?k (m_factions ?m) = Some ?g"
    using assms(1) by (simp add: counters_commute(3) smap_simps)
  let ?v = "fst (SetVisible_state env' ?k ?g ?m)"
  have v: "rep_ok env ?v" by (rule rep_ok_SetVisible_state[OF ok f])
  obtain h where h: "smap_find ?k (m_factions ?v) = Some h"
    using SetVisible_state_find(1)[OF rep_ok_map[OF ok] f] by blast
  show ?thesis
    using v rep_ok_SetAtWar_state[OF v h] h by (simp add: restand_def Let_def assms(4))
qed

lemma restand_find:
  assumes "smap_ok (m_factions m)" "smap_find (list_key e) (m_factions m) = Some f"
  shows "\<exists>g. smap_find (list_key e) (m_factions (restand env e f s m)) = Some g \<and> fs_ID g = fs_ID f \<and>
      fs_Standing g = s - GetBaseReputation env e"
    "h \<noteq> list_key e \<Longrightarrow> smap_find h (m_factions (restand env e f s m)) = smap_find h (m_factions m)"
proof -
  let ?k = "list_key e"
  let ?g = "changed (f\<lparr>fs_Standing := s - GetBaseReputation env e\<rparr>)"
  let ?m = "UpdateRankCounters (ReputationToRank (fs_Standing f + GetBaseReputation env e)) (ReputationToRank s) (put_faction ?k ?g m)"
  have f: "smap_ok (m_factions ?m)" "smap_find ?k (m_factions ?m) = Some ?g"
    "h \<noteq> ?k \<Longrightarrow> smap_find h (m_factions ?m) = smap_find h (m_factions m)"
    using assms(1) by (simp_all add: counters_commute(3) smap_simps)
  let ?v = "fst (SetVisible_state env ?k ?g ?m)"
  obtain g1 where g1: "smap_find ?k (m_factions ?v) = Some g1" "same_faction g1 ?g"
    using SetVisible_state_find(1)[OF f(1,2)] by blast
  have v: "smap_ok (m_factions ?v)" by (rule SetVisible_state_find(3)[OF f(1,2)])
  obtain g2 where g2: "smap_find ?k (m_factions (SetAtWar_state ?k g1 True ?v)) = Some g2" "same_faction g2 g1"
    using SetAtWar_state_find(1)[OF v g1(1)] by blast
  show "\<exists>g. smap_find ?k (m_factions (restand env e f s m)) = Some g \<and> fs_ID g = fs_ID f \<and>
      fs_Standing g = s - GetBaseReputation env e"
    using g1 g2 same_faction_trans[OF g2(2) g1(2)] by (auto simp add: restand_def Let_def same_faction_def)
  assume h: "h \<noteq> ?k"
  show "smap_find h (m_factions (restand env e f s m)) = smap_find h (m_factions m)"
    using SetVisible_state_find(2)[OF f(1,2) h] SetAtWar_state_find(2)[OF v g1(1) h] f(3)[OF h] g1(1)
    by (simp add: restand_def Let_def)
qed

section \<open>Spillover keeps the invariant\<close>

definition same_tables :: "'f RepEnv \<Rightarrow> 'f RepEnv \<Rightarrow> bool" where
  "same_tables env env' \<longleftrightarrow> LookupEntry env' = LookupEntry env \<and> raceMask env' = raceMask env \<and> classMask env' = classMask env"

lemma same_tables_base: "same_tables env env' \<Longrightarrow> GetBaseReputation env' e = GetBaseReputation env e"
  by (simp add: same_tables_def GetBaseReputation_def)

lemma SetOne_ok:
  assumes "rep_data env" "same_tables env env'" "rep_ok env m" "LookupEntry env i = Some e"
    "SetOneFactionReputation env' e standing incremental m = Inr (m', eff, up)"
  shows "rep_ok env m'"
proof (cases "smap_find (list_key e) (m_factions m)")
  case None
  then show ?thesis using assms by (simp add: SetOneFactionReputation_def)
next
  case (Some f)
  have b: "state_base env f = GetBaseReputation env e"
    using entry_of_key(2)[OF assms(1,3,4) Some] by simp
  obtain w n where "m' = restand env' e f (clamp_standing n) (m\<lparr>m_week := w\<rparr>)"
    using SetOne_Inr[OF assms(5) Some] by metis
  then show ?thesis
    using restand_ok[of env "m\<lparr>m_week := w\<rparr>" e f env' n] assms(3) Some b same_tables_base[OF assms(2)] by simp
qed

lemma then_also_Inr:
  "then_also r g = Inr (m', eff, up) \<longleftrightarrow>
    (\<exists>m eff1 up1 eff2 up2. r = Inr (m, eff1, up1) \<and> g m = Inr (m', eff2, up2) \<and> eff = eff1 @ eff2 \<and> up = (up1 \<or> up2))"
  by (auto simp add: then_also_def split_beta)

lemma spill_template_ok:
  assumes "rep_data env" "same_tables env env'" "rep_ok env m"
    "spill_template env' incremental standing rows m = Inr (m', eff, up)"
  shows "rep_ok env m'"
  using assms(3,4)
proof (induction rows arbitrary: m m' eff up)
  case (Cons row rows)
  obtain faction rate rank where row: "row = (faction, rate, rank)" by (cases row)
  obtain m1 eff1 up1 eff2 up2 where
    first: "(if faction \<noteq> 0 \<and> rank_val (GetRank env' (LookupEntry env' faction) m) \<le> unat rank
        then set_one env' (LookupEntry env' faction) (int_of_float env' (float_mult env' (float_of env' standing) rate))
               incremental m else Inr (m, [], False)) = Inr (m1, eff1, up1)"
    and rest: "spill_template env' incremental standing rows m1 = Inr (m', eff2, up2)"
    using Cons.prems(2)[unfolded row spill_template.simps then_also_Inr] by blast
  have "rep_ok env m1"
    using first Cons.prems(1) SetOne_ok[OF assms(1-2) Cons.prems(1)] assms(2)
    by (auto simp add: set_one_def same_tables_def split: if_splits option.splits)
  then show ?case using rest by (rule Cons.IH)
qed simp

lemma spill_list_ok:
  assumes "rep_data env" "same_tables env env'" "rep_ok env m"
    "spill_list env' incremental e out is m = Inr (m', eff, up)"
  shows "rep_ok env m'"
  using assms(3,4)
proof (induction "is" arbitrary: m m' eff up)
  case (Cons i "is")
  obtain m1 eff1 up1 eff2 up2 where
    first: "(case LookupEntry env' i of None \<Rightarrow> Inr (m, [], False)
        | Some c \<Rightarrow>
            if fe_ID c = fe_ID e \<or> unat (spilloverMaxRankIn c) < rank_val (GetRank env' (Some c) m)
            then Inr (m, [], False)
            else let spilloverRep = int_of_float env' (float_mult env' out (spilloverRateIn c))
                 in if spilloverRep \<noteq> 0 \<or> \<not> incremental
                    then SetOneFactionReputation env' c spilloverRep incremental m else Inr (m, [], False)) = Inr (m1, eff1, up1)"
    and rest: "spill_list env' incremental e out is m1 = Inr (m', eff2, up2)"
    using Cons.prems(2)[unfolded spill_list.simps then_also_Inr] by blast
  have "rep_ok env m1"
    using first Cons.prems(1) SetOne_ok[OF assms(1-2) Cons.prems(1)] assms(2)
    by (auto simp add: same_tables_def Let_def split: if_splits option.splits)
  then show ?case using rest by (rule Cons.IH)
qed simp

lemma spillover_ok:
  assumes "rep_data env" "same_tables env env'" "rep_ok env m"
    "spillover env' e standing incremental m = Inr (m', eff, up)"
  shows "rep_ok env m'"
  using assms(4) assms(3) spill_template_ok[OF assms(1-3)] spill_list_ok[OF assms(1-3)]
    SetOne_ok[OF assms(1-3)] assms(2)
  by (auto simp add: spillover_def Let_def same_tables_def split: if_splits option.splits)

lemma counts_map_states:
  assumes "\<And>f. same_faction (h f) f" "\<And>f. visible (h f) = visible f" "rep_ok env m"
  shows "rep_ok env (m\<lparr>m_factions := map (\<lambda>(k, f). (k, h f)) (m_factions m)\<rparr>)"
proof -
  have "at_least env r (h f) = at_least env r f" for r f by (rule same_faction_simps(2)[OF assms(1)])
  moreover have "state_ok env k (h f) = state_ok env k f" "in_range env (h f) = in_range env f" for k f
    by (rule same_faction_simps(3,4)[OF assms(1)])+
  ultimately show ?thesis
    using assms(2,3)
    by (auto simp add: rep_ok_def counters_ok_def counts_def count_map smap.every_def smap_ok_map smap_find_map)
qed

lemma rep_ok_sent [simp]:
  "rep_ok env m \<Longrightarrow> rep_ok env (m\<lparr>m_factions := map (\<lambda>(k, f). (k, f\<lparr>fs_needSend := False\<rparr>)) (m_factions m)\<rparr>)"
  "rep_ok env m \<Longrightarrow> rep_ok env (m\<lparr>m_factions := map (\<lambda>(k, f). (k, f\<lparr>fs_needSave := False\<rparr>)) (m_factions m)\<rparr>)"
  by (rule counts_map_states; simp add: same_faction_def visible_def has_flag_def)+

lemma rep_ok_SendState [keeps]: "rep_ok env m \<Longrightarrow> rep_ok env (fst (SendState env' k up m))"
  by (simp add: SendState_def Let_def split: option.splits)

lemma SetReputation_by_ok:
  assumes "rep_data env" "same_tables env env'" "rep_ok env m" "LookupEntry env i = Some e"
    "SetReputation_by env' e standing incremental m = Inr (m', eff)"
  shows "rep_ok env m'"
proof -
  obtain m1 eff1 up1 where s: "spillover env' e standing incremental m = Inr (m1, eff1, up1)"
    using assms(5) by (auto simp add: SetReputation_by_def)
  have ok: "rep_ok env m1" by (rule spillover_ok[OF assms(1-3) s])
  show ?thesis
    using assms(5) s ok SetOne_ok[OF assms(1-2) ok assms(4)]
    by (auto simp add: SetReputation_by_def case_prod_beta Let_def intro: rep_ok_SendState split: option.splits)
qed

section \<open>Login\<close>

lemma rep_ok_add:
  assumes "rep_ok env m" "smap_find k (m_factions m) = None" "state_ok env k g" "in_range env g"
  shows "rep_ok env (put_faction k g (UpdateRankCounters REP_HOSTILE (ReputationToRank (state_total env g))
    (m\<lparr>m_visibleFactionCount := m_visibleFactionCount m + of_bool (visible g)\<rparr>)))"
proof -
  have ok: "smap_ok (m_factions m)" using assms(1) by simp
  have "smap.every (\<lambda>k f. state_ok env k f \<and> in_range env f) (smap_put k g (m_factions m))"
    using assms by (intro smap.every_put) (simp_all add: rep_ok_def)
  moreover have c: "counts (c + of_bool (r \<le> ReputationToRank (state_total env g))) (at_least env r) (smap_put k g (m_factions m))"
    if "counts c (at_least env r) (m_factions m)" for c r
    using counts_put_new[OF ok assms(2) that, of g] by (simp only: at_least_def)
  have n: "\<not> r \<le> REP_HOSTILE" if "r \<in> {REP_HONORED, REP_REVERED, REP_EXALTED}" for r
    using that by (auto simp add: less_eq_ReputationRank_def)
  have "counters_ok env (put_faction k g (UpdateRankCounters REP_HOSTILE (ReputationToRank (state_total env g))
      (m\<lparr>m_visibleFactionCount := m_visibleFactionCount m + of_bool (visible g)\<rparr>)))"
    using assms(1) counts_put_new[OF ok assms(2), of "m_visibleFactionCount m" visible g]
    by (simp add: rep_ok_def counters_ok_def UpdateRankCounters_eq c n split del: split_of_bool)
  ultimately show ?thesis by (simp add: rep_ok_def counters_commute(3))
qed

definition fresh_states :: "'f RepEnv \<Rightarrow> nat \<Rightarrow> ReputationMgr \<Rightarrow> bool" where
  "fresh_states env n m \<longleftrightarrow>
     (\<forall>k f. smap_find k (m_factions m) = Some f \<longrightarrow> fs_Standing f = 0 \<and> unat (fs_ID f) < n) \<and>
     (\<forall>i e. LookupEntry env i = Some e \<longrightarrow> 0 \<le> reputationListID e \<longrightarrow> unat i < n \<longrightarrow>
        smap_find (list_key e) (m_factions m) \<noteq> None)"

lemma list_key_inj:
  assumes "rep_data env" "LookupEntry env i = Some e" "LookupEntry env j = Some e'" "0 \<le> reputationListID e"
    "0 \<le> reputationListID e'" "list_key e = list_key e'"
  shows "i = j"
proof -
  have lt: "reputationListID e < 2 ^ 31" "reputationListID e' < 2 ^ 31" using assms(1-3) by (auto simp add: rep_data_def)
  have "uint (list_key e) = reputationListID e" "uint (list_key e') = reputationListID e'"
    using assms(4,5) lt by (simp_all add: list_key_def uint_word_of_int take_bit_int_eq_self)
  then have "reputationListID e = reputationListID e'" using assms(6) by simp
  then show ?thesis using assms(1-4) unfolding rep_data_def by blast
qed

lemma word_of_unat: "unat (i :: uint32) = n \<Longrightarrow> i = of_nat n"
  by auto

lemma init_row_ok:
  assumes "rep_data env" "rep_ok env m" "fresh_states env n m" "n < 2 ^ 32"
  shows "rep_ok env (init_row env n m) \<and> fresh_states env (Suc n) (init_row env n m)"
proof (cases "LookupEntry env (of_nat n)")
  case None
  have "unat i < n" if "LookupEntry env i = Some e" "unat i < Suc n" for i e
    using that None word_of_unat[of i n] by (cases "unat i = n") auto
  then show ?thesis using assms(2,3) None
    by (simp add: init_row_def fresh_states_def less_Suc_eq) blast
next
  case (Some e)
  let ?k = "list_key e"
  have u: "unat (of_nat n :: uint32) = n" using assms(4) by (simp add: unat_of_nat take_bit_nat_eq_self)
  have e: "fe_ID e = of_nat n" "Reputation_Bottom \<le> GetBaseReputation env e" "GetBaseReputation env e \<le> Reputation_Cap"
    using assms(1) Some by (auto simp add: rep_data_def)
  have before: "unat i < n" if "LookupEntry env i = Some e'" "unat i < Suc n" "e' \<noteq> e" for i e'
    using that Some word_of_unat[of i n] by (cases "unat i = n") auto
  show ?thesis
  proof (cases "reputationListID e < 0")
    case True
    then show ?thesis using assms(2,3) Some before
      by (auto simp add: init_row_def fresh_states_def less_Suc_eq)
  next
    case False
    let ?g = "initial_state env e"
    have none: "smap_find ?k (m_factions m) = None"
    proof (rule ccontr)
      assume "smap_find ?k (m_factions m) \<noteq> None"
      then obtain f where f: "smap_find ?k (m_factions m) = Some f" by blast
      obtain e' where e': "LookupEntry env (fs_ID f) = Some e'" "0 \<le> reputationListID e'" "list_key e' = ?k"
        using rep_ok_find[OF assms(2) f] by (auto simp add: state_ok_def)
      have "fs_ID f = of_nat n" using list_key_inj[OF assms(1) e'(1) Some e'(2) _ e'(3)] False by simp
      moreover have "unat (fs_ID f) < n" using assms(3) f by (simp add: fresh_states_def)
      ultimately show False using u by simp
    qed
    have g: "state_total env ?g = GetBaseReputation env e"
      using Some e(1) by (simp add: state_total_def state_base_def initial_state_def)
    have so: "state_ok env ?k ?g" "in_range env ?g"
      using Some e False g by (simp_all add: state_ok_def in_range_def initial_state_def)
    have r: "init_row env n m = put_faction ?k ?g (UpdateRankCounters REP_HOSTILE (ReputationToRank (state_total env ?g))
        (m\<lparr>m_visibleFactionCount := m_visibleFactionCount m + of_bool (visible ?g)\<rparr>))"
      unfolding g using Some False
      by (simp add: init_row_def Let_def visible_def GetBaseRank_def initial_state_def)
    have "fresh_states env (Suc n) (init_row env n m)"
      using assms(2,3) before e(1) u False unfolding r
      by (auto simp add: fresh_states_def counters_commute(3) smap_simps less_Suc_eq initial_state_def)
    then show ?thesis using rep_ok_add[OF assms(2) none so] unfolding r by simp
  qed
qed

lemma Initialize_ok:
  assumes "rep_data env" "NumRows env \<le> 2 ^ 32"
  shows "rep_ok env (Initialize env m) \<and> fresh_states env (NumRows env) (Initialize env m)"
proof -
  let ?m = "m\<lparr>m_factions := [], m_visibleFactionCount := 0, m_honoredFactionCount := 0,
      m_reveredFactionCount := 0, m_exaltedFactionCount := 0\<rparr>"
  have z: "LookupEntry env i = Some e \<Longrightarrow> 0 < unat i \<and> unat i < NumRows env" for i e
    using assms(1) by (auto simp add: rep_data_def unat_gt_0)
  have start: "rep_ok env ?m \<and> fresh_states env 1 ?m"
    using z by (auto simp add: rep_ok_def smap.every_emp counters_ok_def counts_def count_states_def fresh_states_def
        smap_find_def)
  have main: "rep_ok env (fold (init_row env) [1..<n] ?m) \<and> fresh_states env n (fold (init_row env) [1..<n] ?m)"
    if "1 \<le> n" "n \<le> NumRows env" for n
    using that
  proof (induction n rule: nat_induct_at_least)
    case (Suc n)
    then show ?case using init_row_ok[OF assms(1), of "fold (init_row env) [1..<n] ?m" n] assms(2) by simp
  qed (use start in simp)
  have none: "rep_ok env ?m \<and> fresh_states env 0 ?m" using start z by (auto simp add: fresh_states_def smap_find_def)
  show ?thesis
  proof (cases "1 \<le> NumRows env")
    case True
    show ?thesis using main[OF True order_refl] unfolding Initialize_def .
  next
    case False
    then have "NumRows env = 0" by simp
    then show ?thesis using none by (simp add: Initialize_def)
  qed
qed

text \<open>An entry under change: its faction is \<open>g\<close>, the rest of the table is as in \<open>m0\<close>.\<close>

definition tuned :: "'f RepEnv \<Rightarrow> uint32 \<Rightarrow> FactionState \<Rightarrow> ReputationMgr \<Rightarrow> ReputationMgr \<Rightarrow> bool" where
  "tuned env k g m0 m \<longleftrightarrow> rep_ok env m \<and>
     (\<exists>h. smap_find k (m_factions m) = Some h \<and> same_faction h g) \<and>
     (\<forall>j. j \<noteq> k \<longrightarrow> smap_find j (m_factions m) = smap_find j (m_factions m0))"

lemma tuned_entry:
  "tuned env k g m0 m \<Longrightarrow> smap_find k (m_factions m) = Some (entry_at k m) \<and> same_faction (entry_at k m) g"
  by (auto simp add: tuned_def entry_at_def)

lemma tuned_steps:
  assumes "tuned env k g m0 m"
  shows "tuned env k g m0 (fst (SetVisible_state env' k (entry_at k m) m))"
    "tuned env k g m0 (SetInactive_state k (entry_at k m) on m)"
    "tuned env k g m0 (SetAtWar_state k (entry_at k m) on m)"
    "tuned env k g m0 (put_faction k ((entry_at k m)\<lparr>fs_needSend := False, fs_needSave := False\<rparr>) m)"
proof -
  let ?f = "entry_at k m"
  have f: "smap_find k (m_factions m) = Some ?f" "same_faction ?f g" using tuned_entry[OF assms] by blast+
  have ok: "rep_ok env m" "smap_ok (m_factions m)" using assms by (auto simp add: tuned_def)
  have rest: "\<And>j. j \<noteq> k \<Longrightarrow> smap_find j (m_factions m) = smap_find j (m_factions m0)"
    using assms by (simp add: tuned_def)
  have t: "tuned env k g m0 m'" if "rep_ok env m'" "\<exists>h. smap_find k (m_factions m') = Some h \<and> same_faction h ?f"
      "\<And>j. j \<noteq> k \<Longrightarrow> smap_find j (m_factions m') = smap_find j (m_factions m)" for m'
    using that rest same_faction_trans[OF _ f(2)] unfolding tuned_def by auto
  show "tuned env k g m0 (fst (SetVisible_state env' k ?f m))"
    by (rule t[OF rep_ok_SetVisible_state[OF ok(1) f(1)] SetVisible_state_find(1)[OF ok(2) f(1)]])
      (rule SetVisible_state_find(2)[OF ok(2) f(1)])
  show "tuned env k g m0 (SetAtWar_state k ?f on m)"
    by (rule t[OF rep_ok_SetAtWar_state[OF ok(1) f(1)] SetAtWar_state_find(1)[OF ok(2) f(1)]])
      (rule SetAtWar_state_find(2)[OF ok(2) f(1)])
  show "tuned env k g m0 (SetInactive_state k ?f on m)"
    by (rule t[OF rep_ok_SetInactive_state[OF ok(1) f(1)]])
      (use ok(2) f(1) in \<open>simp_all add: SetInactive_state_def smap_simps same_faction_def\<close>)
  let ?s = "?f\<lparr>fs_needSend := False, fs_needSave := False\<rparr>"
  have s: "same_faction ?s ?f" "visible ?s = visible ?f" by (simp_all add: same_faction_def visible_def has_flag_def)
  show "tuned env k g m0 (put_faction k ?s m)"
    by (rule t[OF rep_ok_rewrite_same[OF ok(1) f(1) s]]) (use ok(2) s(1) in \<open>simp_all add: smap_simps\<close>)
qed

lemma tuned_load:
  assumes "tuned env k g m0 m"
  shows "tuned env k g m0 (fst (load_visible env' k fl m))" "tuned env k g m0 (load_inactive k fl m)"
    "tuned env k g m0 (load_war k fl m)" "tuned env k g m0 (load_unchanged k fl m)"
    "k = list_key e \<Longrightarrow> tuned env k g m0 (load_hostile env' e m)"
  using assms tuned_steps(1)[OF assms, of env'] tuned_steps(2-)[OF assms]
  by (simp_all add: load_visible_def load_inactive_def load_war_def load_unchanged_def load_hostile_def)

text \<open>The rows that \<open>SaveToDB\<close> writes: each faction once, with a standing in range.\<close>

definition rows_ok :: "'f RepEnv \<Rightarrow> (uint32 \<times> uint32 \<times> uint32) list \<Rightarrow> bool" where
  "rows_ok env rows \<longleftrightarrow> distinct (map fst rows) \<and>
     (\<forall>(i, s, fl) \<in> set rows. \<forall>e. LookupEntry env i = Some e \<longrightarrow>
        Reputation_Bottom \<le> GetBaseReputation env e + sint s \<and> GetBaseReputation env e + sint s \<le> Reputation_Cap)"

definition loading :: "'f RepEnv \<Rightarrow> uint32 set \<Rightarrow> ReputationMgr \<Rightarrow> bool" where
  "loading env left m \<longleftrightarrow> rep_ok env m \<and>
     (\<forall>k f. smap_find k (m_factions m) = Some f \<longrightarrow> fs_ID f \<in> left \<longrightarrow> fs_Standing f = 0) \<and>
     (\<forall>i e. LookupEntry env i = Some e \<longrightarrow> 0 \<le> reputationListID e \<longrightarrow>
        smap_find (list_key e) (m_factions m) \<noteq> None)"

lemma load_row_ok:
  assumes "rep_data env" "same_tables env env'" "loading env (insert i left) (fst me)" "i \<notin> left"
    "\<And>e. LookupEntry env i = Some e \<Longrightarrow>
      Reputation_Bottom \<le> GetBaseReputation env e + sint s \<and> GetBaseReputation env e + sint s \<le> Reputation_Cap"
  shows "loading env left (fst (load_row env' (i, s, fl) me))"
proof -
  obtain m eff0 where me: "me = (m, eff0)" by (cases me)
  have L: "LookupEntry env' = LookupEntry env" "GetBaseReputation env' e = GetBaseReputation env e" for e
    using assms(2) same_tables_base[OF assms(2)] by (simp_all add: same_tables_def)
  have old: "loading env left m" using assms(3) by (simp add: loading_def me)
  show ?thesis
  proof (cases "\<exists>e. LookupEntry env i = Some e \<and> 0 \<le> reputationListID e")
    case False
    then have "load_row env' (i, s, fl) me = me"
      by (auto simp add: load_row_def me L not_le split: option.splits)
    then show ?thesis using old by (simp add: me)
  next
    case True
    then obtain e where e: "LookupEntry env i = Some e" "0 \<le> reputationListID e" by blast
    let ?k = "list_key e"
    obtain f where f: "smap_find ?k (m_factions m) = Some f" using old e unfolding loading_def by blast
    have ok: "rep_ok env m" using old by (simp add: loading_def)
    have id: "fs_ID f = i" "state_base env f = GetBaseReputation env e"
      using entry_of_key[OF assms(1) ok e(1) f] assms(1) e(1) by (auto simp add: rep_data_def)
    have z: "fs_Standing f = 0" using assms(3) f id by (simp add: loading_def me)
    let ?g = "f\<lparr>fs_Standing := sint s\<rparr>"
    let ?m = "UpdateRankCounters (ReputationToRank (GetBaseReputation env e))
        (ReputationToRank (GetBaseReputation env e + sint s)) (put_faction ?k ?g m)"
    have tot: "state_total env f = GetBaseReputation env e" "state_total env ?g = GetBaseReputation env e + sint s"
      using id z by (simp_all add: state_total_def state_base_def)
    have "rep_ok env ?m"
      using rep_ok_restand[OF ok f, of ?g] assms(5)[OF e(1)] by (simp add: tot in_range_def visible_def has_flag_def)
    then have t0: "tuned env ?k ?g m ?m"
      using ok by (simp add: tuned_def counters_commute(3) smap_simps same_faction_def)
    have start: "entry_at ?k m = f" "entry_at ?k (put_faction ?k ?g m) = ?g"
      using f ok by (simp_all add: entry_at_def smap_simps)
    have "fst (load_row env' (i, s, fl) me) = load_unchanged ?k fl (load_hostile env' e (load_war ?k fl
        (load_inactive ?k fl (fst (load_visible env' ?k fl ?m)))))"
      using e by (simp add: load_row_def me Let_def L start case_prod_beta)
    then have tun: "tuned env ?k ?g m (fst (load_row env' (i, s, fl) me))"
      by (simp add: tuned_load t0)
    show ?thesis
      unfolding loading_def
    proof (intro conjI allI impI)
      let ?m' = "fst (load_row env' (i, s, fl) me)"
      show "rep_ok env ?m'" using tun by (simp add: tuned_def)
      fix k h assume h: "smap_find k (m_factions ?m') = Some h" "fs_ID h \<in> left"
      show "fs_Standing h = 0"
      proof (cases "k = ?k")
        case True
        then show ?thesis using h tun assms(4) id by (auto simp add: tuned_def same_faction_def)
      next
        case False
        then show ?thesis using h tun old by (simp add: tuned_def loading_def)
      qed
    next
      fix j e' assume "LookupEntry env j = Some e'" "0 \<le> reputationListID e'"
      then show "smap_find (list_key e') (m_factions (fst (load_row env' (i, s, fl) me))) \<noteq> None"
        using tun old by (cases "list_key e' = ?k") (auto simp add: tuned_def loading_def)
    qed
  qed
qed

lemma load_rows_ok:
  assumes "rep_data env" "loading env (fst ` set rows) (fst me)" "rows_ok env rows"
  shows "loading env {} (fst (fold (load_row env) rows me))"
  using assms(2,3)
proof (induction rows arbitrary: me)
  case (Cons row rows)
  obtain i s fl where row: "row = (i, s, fl)" by (cases row)
  have same: "same_tables env env" by (simp add: same_tables_def)
  have "loading env (fst ` set rows) (fst (load_row env (i, s, fl) me))"
    by (rule load_row_ok[OF assms(1) same]) (use Cons.prems row in \<open>auto simp add: rows_ok_def\<close>)
  moreover have "rows_ok env rows" using Cons.prems(2) by (simp add: rows_ok_def)
  ultimately show ?case using Cons.IH row by simp
qed simp

lemma LoadFromDB_ok:
  assumes "rep_data env" "NumRows env \<le> 2 ^ 32" "rows_ok env rows"
  shows "rep_ok env (fst (LoadFromDB env rows m))"
proof -
  have "rep_ok env (Initialize env m)" "fresh_states env (NumRows env) (Initialize env m)"
    using Initialize_ok[OF assms(1,2)] by blast+
  then have "loading env (fst ` set rows) (fst (Initialize env m, [] :: RepEffect list))"
    using assms(1) unfolding loading_def fresh_states_def rep_data_def fst_conv by blast
  then show ?thesis
    using load_rows_ok[OF assms(1) _ assms(3)] by (simp add: LoadFromDB_def loading_def)
qed

end
