(* ===== verification/ReputationClaims.thy ===== *)
theory ReputationClaims
  imports ReputationProps
begin

text \<open>
  What the reputation manager promises: histories keep every standing in range and the counters
  exact, a change has the announced effect on one faction and none on the others, ranks are what the
  table of points says, the login packet has one slot per list number. And one loss that is a gain.
\<close>

section \<open>Histories\<close>

text \<open>
  From a login with rows as they are saved: any sequence of calls, with any session state, spillover
  table and weekly cap; only the faction table, race and class stay.
\<close>

inductive rep_step :: "'f RepEnv \<Rightarrow> ReputationMgr \<Rightarrow> ReputationMgr \<Rightarrow> bool" for env :: "'f RepEnv" where
  rep_set: "same_tables env env' \<Longrightarrow> LookupEntry env i = Some e \<Longrightarrow> SetReputation env' e standing m = Inr (m', eff) \<Longrightarrow>
    rep_step env m m'"
| rep_modify: "same_tables env env' \<Longrightarrow> LookupEntry env i = Some e \<Longrightarrow>
    ModifyReputation env' e standing m = Inr (m', eff) \<Longrightarrow> rep_step env m m'"
| rep_visible: "same_tables env env' \<Longrightarrow> rep_step env m (fst (SetVisible_template env' i m))"
| rep_war: "rep_step env m (SetAtWar k on m)"
| rep_inactive: "rep_step env m (SetInactive k on m)"
| rep_force: "rep_step env m (ApplyForceReaction i r on m)"
| rep_save: "rep_step env m (fst (SaveToDB m))"
| rep_initial: "rep_step env m (fst (SendInitialReputations m))"
| rep_week: "rep_step env m (m\<lparr>m_week := w\<rparr>)"

inductive rep_reachable :: "'f RepEnv \<Rightarrow> ReputationMgr \<Rightarrow> bool" for env :: "'f RepEnv" where
  rep_login: "rows_ok env rows \<Longrightarrow> rep_reachable env (fst (LoadFromDB env rows m))"
| rep_more: "rep_reachable env m \<Longrightarrow> rep_step env m m' \<Longrightarrow> rep_reachable env m'"

lemma rep_ok_step:
  assumes "rep_data env" "rep_step env m m'" "rep_ok env m"
  shows "rep_ok env m'"
  using assms(2,3)
proof (induction rule: rep_step.induct)
  case (rep_set env' i e standing m m' eff)
  then show ?case using SetReputation_by_ok[OF assms(1)] unfolding SetReputation_def by blast
next
  case (rep_modify env' i e standing m m' eff)
  then show ?case using SetReputation_by_ok[OF assms(1)] unfolding ModifyReputation_def by blast
next
  case (rep_force m i r on)
  then show ?case by (simp add: ApplyForceReaction_def rep_ok_def counters_ok_def)
qed (simp_all add: keeps SaveToDB_def SendInitialReputations_def)

lemma rep_ok_reachable:
  assumes "rep_data env" "NumRows env \<le> 2 ^ 32" "rep_reachable env m"
  shows "rep_ok env m"
  using assms(3)
  by (induction rule: rep_reachable.induct) (auto intro: LoadFromDB_ok[OF assms(1,2)] rep_ok_step[OF assms(1)])

section \<open>A small faction table\<close>

text \<open>Two factions: a city and the guild. Rates are percentages.\<close>

definition city :: "int FactionEntry" where
  "city = \<lparr>fe_ID = 72, reputationListID = 19, BaseRepRaceMask = [1, 0, 0, 0], BaseRepClassMask = [0, 0, 0, 0],
     BaseRepValue = [3100, 0, 0, 0], ReputationFlags = [17, 0, 0, 0], fe_team = 0, spilloverRateIn = 0,
     spilloverRateOut = 0, spilloverMaxRankIn = 0\<rparr>"

definition guild :: "int FactionEntry" where
  "guild = \<lparr>fe_ID = 1168, reputationListID = 110, BaseRepRaceMask = [0, 0, 0, 0], BaseRepClassMask = [0, 0, 0, 0],
     BaseRepValue = [0, 0, 0, 0], ReputationFlags = [0, 0, 0, 0], fe_team = 0, spilloverRateIn = 0,
     spilloverRateOut = 0, spilloverMaxRankIn = 0\<rparr>"

definition demo_tables :: "int RepEnv" where
  "demo_tables = \<lparr>raceMask = 1, classMask = 1,
     LookupEntry = (\<lambda>i. if i = 72 then Some city else if i = 1168 then Some guild else None), NumRows = 1200,
     SpilloverTemplate = (\<lambda>i. None), FactionTeamList = (\<lambda>i. None), in_session = True, PlayerLoading = False,
     weekly_cap = 4375, float_of = (\<lambda>x. x), float_mult = (\<lambda>x y. x * y div 100), int_of_float = (\<lambda>x. x),
     above_null = (\<lambda>x. x \<noteq> 0)\<rparr>"

lemma demo_base: "GetBaseReputation demo_tables city = 3100" "GetBaseReputation demo_tables guild = 0"
  by (simp_all add: GetBaseReputation_def GetIndexFitTo_def demo_tables_def city_def guild_def)

lemma demo_data: "rep_data demo_tables" "NumRows demo_tables \<le> 2 ^ 32"
proof -
  have L: "LookupEntry demo_tables i = Some e \<Longrightarrow> (i = 72 \<and> e = city) \<or> (i = 1168 \<and> e = guild)" for i e
    by (auto simp add: demo_tables_def split: if_splits)
  have v: "fe_ID city = 72" "fe_ID guild = 1168" "reputationListID city = 19" "reputationListID guild = 110"
    "NumRows demo_tables = 1200"
    by (simp_all add: city_def guild_def demo_tables_def)
  show "rep_data demo_tables" unfolding rep_data_def by (auto dest!: L simp add: v demo_base)
  show "NumRows demo_tables \<le> 2 ^ 32" by (simp add: demo_tables_def)
qed

definition demo_rep :: ReputationMgr where
  "demo_rep = (fst (LoadFromDB demo_tables [] ReputationMgr_new))\<lparr>m_week := Some 40\<rparr>"

lemma demo_rep_reachable: "rep_reachable demo_tables demo_rep"
  unfolding demo_rep_def
  by (rule rep_more[OF rep_login rep_week]) (simp add: rows_ok_def)

lemma demo_states:
  "\<exists>f. smap_find (list_key city) (m_factions demo_rep) = Some f \<and> fs_Standing f = 0"
  "\<exists>f. smap_find (list_key guild) (m_factions demo_rep) = Some f \<and> fs_Standing f = 0"
proof -
  have "fresh_states demo_tables 1200 demo_rep"
    using Initialize_ok[OF demo_data, of ReputationMgr_new]
    by (simp add: demo_rep_def LoadFromDB_def fresh_states_def demo_tables_def)
  moreover have "LookupEntry demo_tables 72 = Some city" "LookupEntry demo_tables 1168 = Some guild"
    by (simp_all add: demo_tables_def)
  moreover have "0 \<le> reputationListID city" "0 \<le> reputationListID guild" by (simp_all add: city_def guild_def)
  ultimately show "\<exists>f. smap_find (list_key city) (m_factions demo_rep) = Some f \<and> fs_Standing f = 0"
    "\<exists>f. smap_find (list_key guild) (m_factions demo_rep) = Some f \<and> fs_Standing f = 0"
    unfolding fresh_states_def by fastforce+
qed

section \<open>Ranks\<close>

text \<open>
  The rank of a standing is the number of the seven thresholds \<open>-6000, -3000, 0, 3000, 9000, 21000\<close>
  and \<open>42000\<close> that it reaches: the loop over the points of the ranks is a threshold function, so a
  higher standing never has a lower rank.
\<close>

theorem rank_thresholds:
  "rank_val (ReputationToRank s) = length (filter (\<lambda>t. t \<le> s) [- 6000, - 3000, 0, 3000, 9000, 21000, 42000])"
  by (auto simp add: ReputationToRank_cases)

section \<open>The invariant\<close>

text \<open>
  C6. In every state a history of calls reaches from a login, the reputation with every faction lies
  between the bottom and the cap, and each of the four 8-bit counters is the number (modulo 256)
  of the player's factions that are visible, or have reached the rank it is named after.
\<close>

theorem reputation_invariant:
  assumes "rep_data env" "NumRows env \<le> 2 ^ 32" "rep_reachable env m"
  shows "(\<forall>i e f. LookupEntry env i = Some e \<and> GetState e m = Some f \<longrightarrow>
      Reputation_Bottom \<le> GetReputation env (Some e) m \<and> GetReputation env (Some e) m \<le> Reputation_Cap) \<and>
    m_visibleFactionCount m = of_nat (count_states visible (m_factions m)) \<and>
    m_honoredFactionCount m = of_nat (count_states (at_least env REP_HONORED) (m_factions m)) \<and>
    m_reveredFactionCount m = of_nat (count_states (at_least env REP_REVERED) (m_factions m)) \<and>
    m_exaltedFactionCount m = of_nat (count_states (at_least env REP_EXALTED) (m_factions m))"
proof -
  have ok: "rep_ok env m" by (rule rep_ok_reachable[OF assms])
  have "Reputation_Bottom \<le> GetReputation env (Some e) m \<and> GetReputation env (Some e) m \<le> Reputation_Cap"
    if e: "LookupEntry env i = Some e" and f: "GetState e m = Some f" for i e f
  proof -
    have k: "smap_find (list_key e) (m_factions m) = Some f" using f by (simp add: GetState_def split: if_splits)
    then show ?thesis
      using rep_ok_find[OF ok k] entry_of_key(2)[OF assms(1) ok e k] f
      by (simp add: in_range_def state_total_def GetReputation_def)
  qed
  then show ?thesis using ok by (auto simp add: rep_ok_def counters_ok_def counts_def)
qed

theorem reputation_invariant_witness:
  "m_exaltedFactionCount demo_rep = of_nat (count_states (at_least demo_tables REP_EXALTED) (m_factions demo_rep))"
  using reputation_invariant[OF demo_data demo_rep_reachable] by blast

section \<open>One change\<close>

text \<open>What is added: the amount, or for the guild what the weekly cap makes of it.\<close>

definition credited :: "'f RepEnv \<Rightarrow> 'f FactionEntry \<Rightarrow> int \<Rightarrow> ReputationMgr \<Rightarrow> int" where
  "credited env e amount m =
     (if fe_ID e = GUILD_REP_FACTION
      then (case m_week m of None \<Rightarrow> amount | Some week \<Rightarrow> guild_capped (weekly_cap env) week amount)
      else amount)"

lemma current_reputation:
  assumes "rep_data env" "rep_ok env m" "LookupEntry env i = Some e" "GetState e m = Some f"
  shows "smap_find (list_key e) (m_factions m) = Some f" "0 \<le> reputationListID e"
    "GetReputation env (Some e) m = GetBaseReputation env e + fs_Standing f"
    "Reputation_Bottom \<le> GetReputation env (Some e) m" "GetReputation env (Some e) m \<le> Reputation_Cap"
proof -
  show k: "smap_find (list_key e) (m_factions m) = Some f" "0 \<le> reputationListID e"
    using assms(4) by (simp_all add: GetState_def split: if_splits)
  show r: "GetReputation env (Some e) m = GetBaseReputation env e + fs_Standing f"
    using assms(4) by (simp add: GetReputation_def)
  show "Reputation_Bottom \<le> GetReputation env (Some e) m" "GetReputation env (Some e) m \<le> Reputation_Cap"
    using rep_ok_find[OF assms(2) k(1)] entry_of_key(2)[OF assms(1,2,3) k(1)]
    by (simp_all add: r in_range_def state_total_def)
qed

lemma set_one_returns:
  assumes "rep_data env" "rep_ok env m" "LookupEntry env i = Some e" "GetState e m = Some f"
    "- 2000000000 \<le> credited env e amount m" "credited env e amount m \<le> 2000000000"
  obtains m' eff up w where "SetOneFactionReputation env e amount True m = Inr (m', eff, up)"
    "m' = restand env e f (clamp_standing (credited env e amount m + GetReputation env (Some e) m)) (m\<lparr>m_week := w\<rparr>)"
    "up = (GetRank env (Some e) m < ReputationToRank (clamp_standing (credited env e amount m + GetReputation env (Some e) m)))"
proof -
  note cur = current_reputation[OF assms(1-4)]
  have "add_int32 (credited env e amount m) (fs_Standing f + GetBaseReputation env e) =
      Inr (credited env e amount m + (fs_Standing f + GetBaseReputation env e))"
    using assms(5,6) cur(3-5) by (simp add: add_int32_def)
  then obtain m' eff up where x: "SetOneFactionReputation env e amount True m = Inr (m', eff, up)"
    using cur(1) by (auto simp add: SetOneFactionReputation_def credited_def Let_def case_prod_beta split: if_splits option.splits)
  obtain w n where n: "m' = restand env e f (clamp_standing n) (m\<lparr>m_week := w\<rparr>)"
    "n = (if True
          then (if fe_ID e = GUILD_REP_FACTION
                then (case m_week m of None \<Rightarrow> amount | Some week \<Rightarrow> guild_capped (weekly_cap env) week amount)
                else amount) + (fs_Standing f + GetBaseReputation env e)
          else amount)"
    "up = (ReputationToRank (fs_Standing f + GetBaseReputation env e) < ReputationToRank (clamp_standing n))"
    by (rule SetOne_Inr[OF x cur(1)])
  have "n = credited env e amount m + GetReputation env (Some e) m" using n(2) by (simp add: credited_def cur(3))
  then show ?thesis using that[OF x] n cur(3) by (simp add: GetRank_def add.commute)
qed

lemma set_one_effect:
  assumes "rep_data env" "rep_ok env m" "LookupEntry env i = Some e" "GetState e m = Some f"
    "- 2000000000 \<le> credited env e amount m" "credited env e amount m \<le> 2000000000"
  shows "\<exists>m' eff. SetOneFactionReputation env e amount True m =
      Inr (m', eff, GetRank env (Some e) m < GetRank env (Some e) m') \<and>
    GetReputation env (Some e) m' = clamp_standing (GetReputation env (Some e) m + credited env e amount m) \<and>
    (\<forall>j e'. LookupEntry env j = Some e' \<longrightarrow> j \<noteq> i \<longrightarrow> GetReputation env (Some e') m' = GetReputation env (Some e') m)"
proof -
  note cur = current_reputation[OF assms(1-4)]
  let ?n = "clamp_standing (credited env e amount m + GetReputation env (Some e) m)"
  obtain m' eff up w where x: "SetOneFactionReputation env e amount True m = Inr (m', eff, up)"
    and m': "m' = restand env e f ?n (m\<lparr>m_week := w\<rparr>)"
    and up: "up = (GetRank env (Some e) m < ReputationToRank ?n)"
    by (rule set_one_returns[OF assms])
  have okw: "smap_ok (m_factions (m\<lparr>m_week := w\<rparr>))" "smap_find (list_key e) (m_factions (m\<lparr>m_week := w\<rparr>)) = Some f"
    using assms(2) cur(1) by simp_all
  obtain g where "smap_find (list_key e) (m_factions m') = Some g" "fs_Standing g = ?n - GetBaseReputation env e"
    using restand_find(1)[OF okw, of env ?n] unfolding m' by blast
  then have new: "GetReputation env (Some e) m' = ?n" using cur(2) by (simp add: GetReputation_def GetState_def)
  have rest: "GetReputation env (Some e') m' = GetReputation env (Some e') m"
    if e': "LookupEntry env j = Some e'" "j \<noteq> i" for j e'
  proof (cases "0 \<le> reputationListID e'")
    case True
    have "list_key e' \<noteq> list_key e" using list_key_inj[OF assms(1) e'(1) assms(3) True cur(2)] e'(2) by blast
    then show ?thesis using restand_find(2)[OF okw] by (simp add: m' GetReputation_def GetState_def)
  qed (simp add: GetReputation_def GetState_def)
  then show ?thesis using x new up by (simp add: GetRank_def add.commute)
qed

text \<open>
  C19. Adding to the reputation with one faction (not the guild) never leaves the range of \<open>int32\<close> for
  any amount of at most two thousand million in size; the new reputation is the old one plus the
  amount, cut off at the bottom and the cap; the answer tells whether the rank went up; no other
  faction's reputation changes.
\<close>

theorem modify_one_faction:
  assumes "rep_data env" "NumRows env \<le> 2 ^ 32" "rep_reachable env m" "LookupEntry env i = Some e"
    "GetState e m = Some f" "fe_ID e \<noteq> GUILD_REP_FACTION" "- 2000000000 \<le> amount" "amount \<le> 2000000000"
  shows "\<exists>m' eff. SetOneFactionReputation env e amount True m =
      Inr (m', eff, GetRank env (Some e) m < GetRank env (Some e) m') \<and>
    GetReputation env (Some e) m' = clamp_standing (GetReputation env (Some e) m + amount) \<and>
    (\<forall>j e'. LookupEntry env j = Some e' \<longrightarrow> j \<noteq> i \<longrightarrow> GetReputation env (Some e') m' = GetReputation env (Some e') m)"
  using set_one_effect[OF assms(1) rep_ok_reachable[OF assms(1-3)] assms(4,5), of amount] assms(6-8)
  by (simp add: credited_def)

theorem modify_one_faction_witness:
  "\<exists>m' eff up. SetOneFactionReputation demo_tables city 50000 True demo_rep = Inr (m', eff, up) \<and>
    GetReputation demo_tables (Some city) m' = 42999"
proof -
  obtain f where f: "smap_find (list_key city) (m_factions demo_rep) = Some f" "fs_Standing f = 0"
    using demo_states(1) by blast
  have c: "LookupEntry demo_tables 72 = Some city" "GetState city demo_rep = Some f" "fe_ID city \<noteq> 1168"
    using f by (simp_all add: demo_tables_def GetState_def city_def)
  have "GetReputation demo_tables (Some city) demo_rep = 3100" using c f by (simp add: GetReputation_def demo_base)
  then show ?thesis
    using modify_one_faction[OF demo_data demo_rep_reachable c, of 50000] by (auto simp add: clamp_standing_def)
qed

section \<open>The weekly guild cap\<close>

lemma guild_capped_wraps:
  assumes "week < cap" "cap \<le> 1000000" "amount < - uint week" "- 1000000000 \<le> amount"
  shows "guild_capped cap week amount = uint cap - uint week" "uint week < uint cap" "uint cap - uint week \<le> 1000000"
proof -
  have pos: "0 \<le> uint week" by simp
  show lt: "uint week < uint cap" using assms(1) by (simp add: word_less_def)
  have c: "uint cap \<le> 1000000" using assms(2) by (simp add: word_le_def)
  then show bnd: "uint cap - uint week \<le> 1000000" using pos by linarith
  have lo: "0 \<le> amount + uint week + 4294967296" using assms(4) pos by linarith
  have "uint (word_of_int amount + week :: uint32) = (amount + uint week) mod 2 ^ 32"
    by (simp add: uint_word_ariths uint_word_of_int take_bit_eq_mod mod_add_left_eq)
  also have "\<dots> = (amount + uint week + 2 ^ 32) mod 2 ^ 32" by simp
  also have "\<dots> = amount + uint week + 2 ^ 32" using assms(3) lo by (intro mod_pos_pos_trivial) simp_all
  finally have sum: "uint (word_of_int amount + week :: uint32) = amount + uint week + 2 ^ 32" .
  have "uint cap < amount + uint week + 4294967296" using assms(4) c pos by linarith
  then have over: "cap < word_of_int amount + week" using sum by (simp add: word_less_def)
  have "signed_take_bit 31 (uint cap - uint week) = uint cap - uint week"
    using lt bnd by (intro signed_take_bit_int_eq_self) simp_all
  then have "sint (cap - week) = uint cap - uint week" using lt by (simp add: sint_uint uint_sub_if')
  then show "guild_capped cap week amount = uint cap - uint week" using over assms(1) by (simp add: guild_capped_def)
qed

text \<open>
  C39. A loss of guild reputation by more than the player has earned this week is turned into a gain:
  the comparison with the weekly cap is made on unsigned numbers, so the negative sum counts as
  over the cap, and the player is credited all that the cap still allows.
\<close>

theorem guild_loss_is_gain:
  assumes "rep_data env" "NumRows env \<le> 2 ^ 32" "rep_reachable env m" "LookupEntry env i = Some e"
    "GetState e m = Some f" "fe_ID e = GUILD_REP_FACTION" "m_week m = Some week" "week < weekly_cap env"
    "weekly_cap env \<le> 1000000" "amount < - uint week" "- 1000000000 \<le> amount"
  shows "\<exists>m' eff up. SetOneFactionReputation env e amount True m = Inr (m', eff, up) \<and>
    GetReputation env (Some e) m' =
      clamp_standing (GetReputation env (Some e) m + (uint (weekly_cap env) - uint week)) \<and>
    GetReputation env (Some e) m \<le> GetReputation env (Some e) m'"
proof -
  have ok: "rep_ok env m" by (rule rep_ok_reachable[OF assms(1-3)])
  note gain = guild_capped_wraps[OF assms(8-11)]
  have c: "credited env e amount m = uint (weekly_cap env) - uint week"
    using assms(6,7) gain(1) by (simp add: credited_def)
  have "GetReputation env (Some e) m \<le> clamp_standing (GetReputation env (Some e) m + (uint (weekly_cap env) - uint week))"
    using current_reputation(4,5)[OF assms(1) ok assms(4,5)] gain(2) unfolding clamp_standing_def by simp
  then show ?thesis
    using set_one_effect[OF assms(1) ok assms(4,5), of amount] gain(2,3) unfolding c by auto
qed

theorem guild_loss_is_gain_witness:
  "\<exists>m' eff up. SetOneFactionReputation demo_tables guild (- 100) True demo_rep = Inr (m', eff, up) \<and>
    GetReputation demo_tables (Some guild) m' = 4335"
proof -
  obtain f where f: "smap_find (list_key guild) (m_factions demo_rep) = Some f" "fs_Standing f = 0"
    using demo_states(2) by blast
  have g: "LookupEntry demo_tables 1168 = Some guild" "GetState guild demo_rep = Some f" "fe_ID guild = 1168"
    "m_week demo_rep = Some 40" "weekly_cap demo_tables = 4375"
    using f by (simp_all add: demo_tables_def GetState_def guild_def demo_rep_def)
  have "GetReputation demo_tables (Some guild) demo_rep = 0" using g f by (simp add: GetReputation_def demo_base)
  then show ?thesis
    using guild_loss_is_gain[OF demo_data demo_rep_reachable g(1-4), of "- 100"]
    by (auto simp add: g(5) clamp_standing_def)
qed

section \<open>The login packet\<close>

definition slot_of :: "(uint32, FactionState) smap \<Rightarrow> nat \<Rightarrow> uint8 \<times> uint32" where
  "slot_of fs i = (case smap_find (of_nat i) fs of
     Some f \<Rightarrow> (ucast (fs_Flags f), word_of_int (fs_Standing f)) | None \<Rightarrow> (0, 0))"

lemma initial_slots_eq:
  assumes "smap_ok fs" "\<forall>p \<in> set fs. a \<le> fst p \<and> fst p < 256" "a \<le> 256"
  shows "initial_slots a fs = map (slot_of fs) [unat a ..< 256]"
  using assms
proof (induction fs arbitrary: a)
  case Nil
  have "unat (256 - a) = 256 - unat a" using Nil(3) by (simp add: unat_sub)
  moreover have "slot_of [] = (\<lambda>i. (0, 0))" by (simp add: slot_of_def smap_find_def fun_eq_iff)
  ultimately show ?case by (simp add: absent_slots_def map_replicate_const)
next
  case (Cons p fs)
  obtain k f where p: "p = (k, f)" by (cases p)
  have k: "unat a \<le> unat k" "unat k < 256" "a \<le> k" using Cons.prems(2) p by (simp_all add: word_le_nat_alt word_less_nat_alt)
  have later: "\<forall>q \<in> set fs. k < fst q" using Cons.prems(1) p by (auto simp add: smap_ok_def)
  have s: "unat (k + 1) = Suc (unat k)" using k(2) by (simp add: unat_word_ariths)
  have next_ok: "\<forall>q \<in> set fs. k + 1 \<le> fst q \<and> fst q < 256"
    using later Cons.prems(2) s by (auto simp add: word_le_nat_alt word_less_nat_alt)
  have n256: "k + 1 \<le> 256" using s k(2) by (simp add: word_le_nat_alt)
  have small: "unat (of_nat i :: uint32) = i" if "i < 256" for i
    using that by (simp add: unat_of_nat take_bit_nat_eq_self)
  have before: "slot_of (p # fs) i = (0, 0)" if "i < unat k" for i
  proof -
    have "unat (of_nat i :: uint32) = i" using that k(2) small by simp
    then have "of_nat i < k" using that by (simp add: word_less_nat_alt)
    then have "of_nat i \<notin> fst ` set (p # fs)" using later p by auto
    then show ?thesis by (simp add: slot_of_def smap_find_notin)
  qed
  have at: "slot_of (p # fs) (unat k) = (ucast (fs_Flags f), word_of_int (fs_Standing f))"
    by (simp add: slot_of_def smap_find_def p)
  have after: "slot_of (p # fs) i = slot_of fs i" if "unat k < i" "i < 256" for i
  proof -
    have "of_nat i \<noteq> k" using that small by force
    then show ?thesis by (simp add: slot_of_def smap_find_def p)
  qed
  have split: "[unat a ..< 256] = [unat a ..< unat k] @ unat k # [Suc (unat k) ..< 256]"
    using upt_add_eq_append[OF k(1), of "256 - unat k"] upt_conv_Cons[OF k(2)] k(2) by simp
  have "initial_slots a (p # fs) = replicate (unat (k - a)) (0, 0) @
      (ucast (fs_Flags f), word_of_int (fs_Standing f)) # map (slot_of fs) [Suc (unat k) ..< 256]"
    using Cons.IH[OF _ next_ok n256] Cons.prems(1) s by (simp add: p absent_slots_def smap_ok_def)
  also have "\<dots> = map (slot_of (p # fs)) [unat a ..< 256]"
    unfolding split using before at after k
    by (auto simp add: unat_sub map_replicate_const[symmetric] intro!: nth_equalityI)
  finally show ?case .
qed

text \<open>
  With list numbers below 256 the packet sent at login has exactly 256 slots: the slot of a
  faction holds its flags and standing, every other slot is empty.
\<close>

theorem login_packet_slots:
  assumes "rep_data env" "NumRows env \<le> 2 ^ 32" "rep_reachable env m" "\<forall>p \<in> set (m_factions m). fst p < 256"
  shows "snd (SendInitialReputations m) = [InitialPacket (map (slot_of (m_factions m)) [0 ..< 256])]"
  using initial_slots_eq[of "m_factions m" 0] rep_ok_map[OF rep_ok_reachable[OF assms(1-3)]] assms(4)
  by (simp add: SendInitialReputations_def)

theorem login_packet_slots_witness:
  "\<exists>slots. snd (SendInitialReputations demo_rep) = [InitialPacket slots] \<and> length slots = 256"
proof -
  have ok: "rep_ok demo_tables demo_rep" by (rule rep_ok_reachable[OF demo_data demo_rep_reachable])
  have "fst p < 256" if "p \<in> set (m_factions demo_rep)" for p
  proof -
    have "smap_find (fst p) (m_factions demo_rep) = Some (snd p)"
      using that smap_find_set[OF rep_ok_map[OF ok]] by simp
    then obtain e where "LookupEntry demo_tables (fs_ID (snd p)) = Some e" "list_key e = fst p"
      using rep_ok_find[OF ok] unfolding state_ok_def by blast
    moreover have "list_key city = 19" "list_key guild = 110" by (simp_all add: list_key_def city_def guild_def)
    ultimately show ?thesis by (auto simp add: demo_tables_def split: if_splits)
  qed
  then show ?thesis using login_packet_slots[OF demo_data demo_rep_reachable] by simp
qed

end
