(* ===== verification/Util.thy ===== *)
theory Util
  imports Prelude
begin

text \<open>
  String and number helpers of src/src/shared/Util.h and Util.cpp: splitting a string into tokens,
  durations as text and back, cleaning chat lines, hexadecimal digests, the case tables of the
  client's alphabets. \<open>atoi\<close> and the decimal output of a stream are the C library's, as far as
  the server uses them. A \<open>wchar_t\<close> has 32 bits.
\<close>

section \<open>Text\<close>

definition txt_of :: "string \<Rightarrow> cstring" where
  "txt_of s = map of_char s"

definition digit :: "nat \<Rightarrow> uint8" where
  "digit d = of_nat (48 + d)"

fun dec :: "nat \<Rightarrow> cstring" where
  "dec n = (if n < 10 then [digit n] else dec (n div 10) @ [digit (n mod 10)])"

declare dec.simps [simp del]

definition isdigit :: "uint8 \<Rightarrow> bool" where
  "isdigit c \<longleftrightarrow> 48 \<le> c \<and> c \<le> 57"

definition isspace :: "uint8 \<Rightarrow> bool" where
  "isspace c \<longleftrightarrow> c = 32 \<or> 9 \<le> c \<and> c \<le> 13"

definition digits_value :: "cstring \<Rightarrow> nat" where
  "digits_value ds = foldl (\<lambda>v c. 10 * v + (unat c - 48)) 0 ds"

definition atoi :: "cstring \<Rightarrow> int" where
  "atoi s =
     (let s = dropWhile isspace s;
          neg = (s \<noteq> [] \<and> hd s = 45);
          s = (if s \<noteq> [] \<and> (hd s = 45 \<or> hd s = 43) then tl s else s);
          v = int (digits_value (takeWhile isdigit s))
      in if neg then - v else v)"

lemma length_dec: "dec n \<noteq> []"
  by (subst dec.simps) simp

lemma unat_digit [simp]: "d < 10 \<Longrightarrow> unat (digit d) = 48 + d"
  by (simp only: digit_def unat_of_nat) simp

lemma isdigit_digit [simp]: "d < 10 \<Longrightarrow> isdigit (digit d)"
  by (simp add: isdigit_def word_le_nat_alt)

lemma isdigit_dec: "list_all isdigit (dec n)"
  by (induction n rule: dec.induct) (subst dec.simps, simp)

lemma digits_value_snoc [simp]: "digits_value (ds @ [c]) = 10 * digits_value ds + (unat c - 48)"
  by (simp add: digits_value_def)

lemma digits_value_dec [simp]: "digits_value (dec n) = n"
proof (induction n rule: dec.induct)
  case (1 n)
  show ?case
  proof (cases "n < 10")
    case True
    then show ?thesis by (subst dec.simps) (simp add: digits_value_def)
  next
    case False
    with 1 show ?thesis by (subst dec.simps) simp
  qed
qed

section \<open>Tokens\<close>

text \<open>The separator is not the zero byte. The end of the list stands for the terminating zero.\<close>

fun tokens_loop :: "uint8 \<Rightarrow> cstring \<Rightarrow> cstring \<Rightarrow> cstring list" where
  "tokens_loop sep tok [] = (if tok \<noteq> [] then [tok] else [])"
| "tokens_loop sep tok (c # cs) =
     (if c = sep then tok # tokens_loop sep [] cs
      else if c = 0 then (if tok \<noteq> [] then [tok] else [])
      else tokens_loop sep (tok @ [c]) cs)"

definition Tokens :: "cstring \<Rightarrow> uint8 \<Rightarrow> cstring list" where
  "Tokens src sep = tokens_loop sep [] src"

definition GetUInt32ValueFromArray :: "cstring list \<Rightarrow> nat \<Rightarrow> uint32" where
  "GetUInt32ValueFromArray data index =
     (if length data \<le> index then 0 else of_int (atoi (data ! index)))"

fun join_tokens :: "uint8 \<Rightarrow> cstring list \<Rightarrow> cstring" where
  "join_tokens sep [] = []"
| "join_tokens sep [t] = t"
| "join_tokens sep (t # ts) = t @ sep # join_tokens sep ts"

lemma tokens_loop_token:
  "sep \<notin> set t \<Longrightarrow> 0 \<notin> set t \<Longrightarrow> tokens_loop sep tok (t @ cs) = tokens_loop sep (tok @ t) cs"
  by (induction t arbitrary: tok) auto

lemma tokens_join:
  "\<forall>t \<in> set ts. sep \<notin> set t \<and> 0 \<notin> set t \<Longrightarrow> ts = [] \<or> last ts \<noteq> [] \<Longrightarrow> Tokens (join_tokens sep ts) sep = ts"
proof (induction sep ts rule: join_tokens.induct)
  case (2 sep t)
  then show ?case using tokens_loop_token[of sep t "[]" "[]"] by (simp add: Tokens_def)
next
  case (3 sep t u us)
  then show ?case by (simp add: Tokens_def tokens_loop_token split: if_splits)
qed (simp add: Tokens_def)

section \<open>Durations\<close>

abbreviation (input) MINUTE :: nat where "MINUTE \<equiv> 60"
abbreviation (input) HOUR :: nat where "HOUR \<equiv> 3600"
abbreviation (input) DAY :: nat where "DAY \<equiv> 86400"

definition secsToTimeString :: "nat \<Rightarrow> bool \<Rightarrow> bool \<Rightarrow> cstring" where
  "secsToTimeString timeInSecs shortText hoursOnly =
     (let secs = timeInSecs mod MINUTE;
          minutes = timeInSecs mod HOUR div MINUTE;
          hours = timeInSecs mod DAY div HOUR;
          days = timeInSecs div DAY
      in (if days \<noteq> 0 then dec days @ (if shortText then txt_of ''d'' else txt_of '' Day(s) '') else [])
       @ (if hours \<noteq> 0 \<or> hoursOnly then dec hours @ (if shortText then txt_of ''h'' else txt_of '' Hour(s) '') else [])
       @ (if \<not> hoursOnly
          then (if minutes \<noteq> 0 then dec minutes @ (if shortText then txt_of ''m'' else txt_of '' Minute(s) '') else [])
             @ (if secs \<noteq> 0 \<or> days = 0 \<and> hours = 0 \<and> minutes = 0
                then dec secs @ (if shortText then txt_of ''s'' else txt_of '' Second(s).'') else [])
          else []))"

definition time_unit :: "uint8 \<Rightarrow> uint32 option" where
  "time_unit c =
     (if c = of_char CHR ''d'' then Some 86400 else if c = of_char CHR ''h'' then Some 3600
      else if c = of_char CHR ''m'' then Some 60 else if c = of_char CHR ''s'' then Some 1 else None)"

fun time_loop :: "uint32 \<Rightarrow> uint32 \<Rightarrow> cstring \<Rightarrow> uint32" where
  "time_loop secs buffer [] = secs"
| "time_loop secs buffer (c # cs) =
     (if isdigit c then time_loop secs (buffer * 10 + (ucast c - 48)) cs
      else (case time_unit c of None \<Rightarrow> 0 | Some multiplier \<Rightarrow> time_loop (secs + buffer * multiplier) 0 cs))"

definition TimeStringToSecs :: "cstring \<Rightarrow> uint32" where
  "TimeStringToSecs timestring = time_loop 0 0 timestring"

definition MoneyToString :: "uint64 \<Rightarrow> cstring" where
  "MoneyToString money =
     (let gold = ucast (money div 10000) :: uint32;
          silv = ucast (money mod 10000 div 100) :: uint32;
          copp = ucast (money mod 10000 mod 100) :: uint32
      in (if gold \<noteq> 0 then dec (unat gold) @ txt_of ''g'' else [])
       @ (if silv \<noteq> 0 \<or> gold \<noteq> 0 then dec (unat silv) @ txt_of ''s'' else [])
       @ dec (unat copp) @ txt_of ''c'')"

lemma ucast_digit: "isdigit c \<Longrightarrow> (ucast c - 48 :: uint32) = of_nat (unat c - 48)"
proof -
  assume "isdigit c"
  then have "48 \<le> unat c" by (simp add: isdigit_def word_le_nat_alt)
  then show ?thesis by (simp add: of_nat_diff)
qed

lemma time_loop_digits:
  "list_all isdigit ds \<Longrightarrow>
     time_loop secs (of_nat v) (ds @ cs) = time_loop secs (of_nat (foldl (\<lambda>v c. 10 * v + (unat c - 48)) v ds)) cs"
proof (induction ds arbitrary: v)
  case (Cons c ds)
  then show ?case using Cons.IH[of "10 * v + (unat c - 48)"] by (simp add: ucast_digit mult.commute)
qed simp

lemma time_loop_dec: "time_loop secs 0 (dec n @ cs) = time_loop secs (of_nat n) cs"
  using time_loop_digits[OF isdigit_dec, of secs 0 n cs] digits_value_dec[of n] by (simp add: digits_value_def)

lemma time_loop_unit:
  "time_loop secs (of_nat n) (of_char CHR ''d'' # cs) = time_loop (secs + of_nat (n * DAY)) 0 cs"
  "time_loop secs (of_nat n) (of_char CHR ''h'' # cs) = time_loop (secs + of_nat (n * HOUR)) 0 cs"
  "time_loop secs (of_nat n) (of_char CHR ''m'' # cs) = time_loop (secs + of_nat (n * MINUTE)) 0 cs"
  "time_loop secs (of_nat n) (of_char CHR ''s'' # cs) = time_loop (secs + of_nat n) 0 cs"
  by (simp_all add: isdigit_def time_unit_def)

lemma time_loop_parts:
  "time_loop secs 0 ((if n \<noteq> 0 then dec n @ txt_of ''d'' else []) @ cs) = time_loop (secs + of_nat (n * DAY)) 0 cs"
  "time_loop secs 0 ((if n \<noteq> 0 then dec n @ txt_of ''h'' else []) @ cs) = time_loop (secs + of_nat (n * HOUR)) 0 cs"
  "time_loop secs 0 ((if n \<noteq> 0 then dec n @ txt_of ''m'' else []) @ cs) = time_loop (secs + of_nat (n * MINUTE)) 0 cs"
  "time_loop secs 0 (if n \<noteq> 0 \<or> P then dec n @ txt_of ''s'' else []) = secs + of_nat n"
  by (cases "n = 0", simp_all add: time_loop_dec txt_of_def isdigit_def time_unit_def)

lemma time_string_value: "TimeStringToSecs (secsToTimeString t True False) = of_nat t"
proof -
  have "t mod DAY = t mod DAY div HOUR * HOUR + t mod HOUR"
    using div_mult_mod_eq[of "t mod DAY" HOUR] mod_mod_cancel[of HOUR DAY t] by simp
  moreover have "t mod HOUR = t mod HOUR div MINUTE * MINUTE + t mod MINUTE"
    using div_mult_mod_eq[of "t mod HOUR" MINUTE] mod_mod_cancel[of MINUTE HOUR t] by simp
  ultimately have t: "t = t div DAY * DAY + t mod DAY div HOUR * HOUR + t mod HOUR div MINUTE * MINUTE + t mod MINUTE"
    by (metis add.assoc div_mult_mod_eq)
  have "TimeStringToSecs (secsToTimeString t True False) =
      of_nat (t div DAY * DAY) + of_nat (t mod DAY div HOUR * HOUR) + of_nat (t mod HOUR div MINUTE * MINUTE)
      + of_nat (t mod MINUTE)"
    by (simp only: secsToTimeString_def Let_def TimeStringToSecs_def if_True simp_thms time_loop_parts add_0)
  also have "\<dots> = of_nat t" by (subst (5) t) (simp only: of_nat_add)
  finally show ?thesis .
qed

section \<open>Cleaning a line\<close>

text \<open>
  \<open>stripLineInvisibleChars\<close> works in place: \<open>str\<close> is the whole string, \<open>wpos\<close> the end of the
  part that is done, \<open>pos\<close> the position that is read.
\<close>

definition invChars :: cstring where
  "invChars = [32, 9, 7, 10]"

definition strip_step :: "nat \<Rightarrow> cstring \<times> nat \<times> bool \<Rightarrow> cstring \<times> nat \<times> bool" where
  "strip_step pos = (\<lambda>(str, wpos, space).
     if str ! pos \<in> set invChars
     then if \<not> space then (str[wpos := 32], Suc wpos, True) else (str, wpos, space)
     else if wpos \<noteq> pos then (str[wpos := str ! pos], Suc wpos, False)
     else (str, Suc wpos, False))"

definition strip_loop :: "cstring \<Rightarrow> cstring \<times> nat \<times> bool" where
  "strip_loop str = fold strip_step [0..<length str] (str, 0, False)"

definition stripLineInvisibleChars :: "cstring \<Rightarrow> cstring" where
  "stripLineInvisibleChars str =
     (case strip_loop str of (str', wpos, space) \<Rightarrow>
        if wpos < length str' then take wpos str' else str')"

text \<open>The reference: every run of invisible characters is one space.\<close>

fun strip_ref :: "bool \<Rightarrow> cstring \<Rightarrow> cstring" where
  "strip_ref space [] = []"
| "strip_ref space (c # cs) =
     (if c \<in> set invChars then if space then strip_ref True cs else 32 # strip_ref True cs
      else c # strip_ref False cs)"

lemma strip_fold:
  assumes "length str = n" "wpos \<le> pos" "pos \<le> n"
  shows "\<exists>str' wpos' space'. fold strip_step [pos..<n] (str, wpos, space) = (str', wpos', space') \<and>
     length str' = n \<and> wpos' \<le> n \<and> take wpos' str' = take wpos str @ strip_ref space (drop pos str)"
  using assms
proof (induction "n - pos" arbitrary: str wpos pos space)
  case 0
  then show ?case by simp
next
  case (Suc k)
  then have lt: "pos < n" "k = n - Suc pos" "Suc pos \<le> n" by simp_all
  have up: "[pos..<n] = pos # [Suc pos..<n]" using lt by (simp add: upt_conv_Cons)
  have dr: "drop pos str = str ! pos # drop (Suc pos) str" using lt Suc.prems by (simp add: Cons_nth_drop_Suc)
  obtain str1 wpos1 space1 where st: "strip_step pos (str, wpos, space) = (str1, wpos1, space1)"
    by (metis prod_cases3)
  have one: "length str1 = n" "wpos1 \<le> Suc pos" "drop (Suc pos) str1 = drop (Suc pos) str"
    "take wpos str @ strip_ref space (drop pos str) = take wpos1 str1 @ strip_ref space1 (drop (Suc pos) str)"
    using st Suc.prems lt unfolding dr strip_step_def
    by (auto simp: take_Suc_conv_app_nth split: if_splits)
  show ?case
    using Suc.hyps(1)[OF lt(2) one(1,2) lt(3), of space1] one(3,4) by (simp add: up st)
qed

lemma strip_eq_ref: "stripLineInvisibleChars str = strip_ref False str"
  using strip_fold[of str "length str" 0 0 False]
  by (auto simp add: stripLineInvisibleChars_def strip_loop_def)

lemma strip_ref_idem: "strip_ref b (strip_ref b cs) = strip_ref b cs"
proof -
  have "strip_ref b (strip_ref b cs) = strip_ref b cs \<and> (b \<longrightarrow> strip_ref True (strip_ref True cs) = strip_ref True cs)"
    by (induction b cs rule: strip_ref.induct) (auto simp: invChars_def)
  then show ?thesis by simp
qed

section \<open>Characters\<close>

text \<open>A \<open>wchar_t\<close> is its value. The casts to \<open>uint16\<close> take it modulo \<open>2 ^ 16\<close>.\<close>

type_synonym wchar = int

definition isBasicLatinCharacter :: "wchar \<Rightarrow> bool" where
  "isBasicLatinCharacter w \<longleftrightarrow> 0x61 \<le> w \<and> w \<le> 0x7A \<or> 0x41 \<le> w \<and> w \<le> 0x5A"

definition isExtendedLatinCharacter :: "wchar \<Rightarrow> bool" where
  "isExtendedLatinCharacter w \<longleftrightarrow>
     isBasicLatinCharacter w \<or> 0x00C0 \<le> w \<and> w \<le> 0x00D6 \<or> 0x00D8 \<le> w \<and> w \<le> 0x00DF \<or> w = 0x00DF
     \<or> 0x00E0 \<le> w \<and> w \<le> 0x00F6 \<or> 0x00F8 \<le> w \<and> w \<le> 0x00FE \<or> 0x0100 \<le> w \<and> w \<le> 0x012F \<or> w = 0x1E9E"

definition isCyrillicCharacter :: "wchar \<Rightarrow> bool" where
  "isCyrillicCharacter w \<longleftrightarrow> 0x0410 \<le> w \<and> w \<le> 0x044F \<or> w = 0x0401 \<or> w = 0x0451"

definition isEastAsianCharacter :: "wchar \<Rightarrow> bool" where
  "isEastAsianCharacter w \<longleftrightarrow>
     0x1100 \<le> w \<and> w \<le> 0x11F9 \<or> 0x3041 \<le> w \<and> w \<le> 0x30FF \<or> 0x3131 \<le> w \<and> w \<le> 0x318E
     \<or> 0x31F0 \<le> w \<and> w \<le> 0x31FF \<or> 0x3400 \<le> w \<and> w \<le> 0x4DB5 \<or> 0x4E00 \<le> w \<and> w \<le> 0x9FC3
     \<or> 0xAC00 \<le> w \<and> w \<le> 0xD7A3 \<or> 0xFF01 \<le> w \<and> w \<le> 0xFFEE"

definition isNumericOrSpace :: "wchar \<Rightarrow> bool" where
  "isNumericOrSpace w \<longleftrightarrow> 0x30 \<le> w \<and> w \<le> 0x39 \<or> w = 0x20"

definition isStringOf :: "(wchar \<Rightarrow> bool) \<Rightarrow> wchar list \<Rightarrow> bool \<Rightarrow> bool" where
  "isStringOf is_char wstr numericOrSpace =
     list_all (\<lambda>w. is_char w \<or> numericOrSpace \<and> isNumericOrSpace w) wstr"

definition isBasicLatinString :: "wchar list \<Rightarrow> bool \<Rightarrow> bool" where
  "isBasicLatinString = isStringOf isBasicLatinCharacter"

definition isExtendedLatinString :: "wchar list \<Rightarrow> bool \<Rightarrow> bool" where
  "isExtendedLatinString = isStringOf isExtendedLatinCharacter"

definition isCyrillicString :: "wchar list \<Rightarrow> bool \<Rightarrow> bool" where
  "isCyrillicString = isStringOf isCyrillicCharacter"

definition isEastAsianString :: "wchar list \<Rightarrow> bool \<Rightarrow> bool" where
  "isEastAsianString = isStringOf isEastAsianCharacter"

definition u16 :: "wchar \<Rightarrow> int" where
  "u16 w = w mod 0x10000"

definition wcharToUpper :: "wchar \<Rightarrow> wchar" where
  "wcharToUpper w =
     (if 0x61 \<le> w \<and> w \<le> 0x7A then u16 w - 0x20
      else if w = 0x00DF then 0x1E9E
      else if 0x00E0 \<le> w \<and> w \<le> 0x00F6 then u16 w - 0x20
      else if 0x00F8 \<le> w \<and> w \<le> 0x00FE then u16 w - 0x20
      else if (0x0101 \<le> w \<and> w \<le> 0x012F) \<and> w mod 2 = 1 then u16 w - 1
      else if 0x0430 \<le> w \<and> w \<le> 0x044F then u16 w - 0x20
      else if w = 0x0451 then 0x0401
      else w)"

definition wcharToUpperOnlyLatin :: "wchar \<Rightarrow> wchar" where
  "wcharToUpperOnlyLatin w = (if isBasicLatinCharacter w then wcharToUpper w else w)"

definition wcharToLower :: "wchar \<Rightarrow> wchar" where
  "wcharToLower w =
     (if 0x41 \<le> w \<and> w \<le> 0x5A then u16 w + 0x20
      else if 0x00C0 \<le> w \<and> w \<le> 0x00D6 then u16 w + 0x20
      else if 0x00D8 \<le> w \<and> w \<le> 0x00DE then u16 w + 0x20
      else if (0x0100 \<le> w \<and> w \<le> 0x012E) \<and> w mod 2 = 0 then u16 w + 1
      else if w = 0x1E9E then 0x00DF
      else if w = 0x0401 then 0x0451
      else if 0x0410 \<le> w \<and> w \<le> 0x042F then u16 w + 0x20
      else w)"

definition wstrToUpper :: "wchar list \<Rightarrow> wchar list" where
  "wstrToUpper = map wcharToUpper"

definition wstrToLower :: "wchar list \<Rightarrow> wchar list" where
  "wstrToLower = map wcharToLower"

lemma u16_small: "0 \<le> w \<Longrightarrow> w < 0x10000 \<Longrightarrow> u16 w = w"
  by (simp add: u16_def)

lemma lower_upper: "wcharToLower (wcharToUpper w) = wcharToLower w"
  by (simp add: wcharToUpper_def u16_small) (simp add: wcharToLower_def u16_small, presburger)

lemma upper_lower: "wcharToUpper (wcharToLower w) = wcharToUpper w"
  by (simp add: wcharToLower_def u16_small) (simp add: wcharToUpper_def u16_small, presburger)

section \<open>Digests as text\<close>

definition nibble_char :: "uint8 \<Rightarrow> uint8" where
  "nibble_char n = (if n < 0x0A then 48 + n else 65 + n - 0x0A)"

definition hexEncodeByteArray :: "uint8 list \<Rightarrow> cstring" where
  "hexEncodeByteArray bytes = concat (map (\<lambda>b. [nibble_char (0x0F AND drop_bit 4 b), nibble_char (0x0F AND b)]) bytes)"

lemma length_hexEncode [simp]: "length (hexEncodeByteArray bs) = 2 * length bs"
  by (induction bs) (simp_all add: hexEncodeByteArray_def)

section \<open>Claims\<close>

text \<open>
  Durations survive the text form: reading the short text of any number of seconds gives the
  number back, modulo the 32 bits of the result.
\<close>

theorem time_string_roundtrip: "TimeStringToSecs (secsToTimeString t True False) = of_nat t"
  by (rule time_string_value)

text \<open>
  Splitting a joined list at the separator gives the list back, when no token contains the
  separator or a zero byte and the last token is not empty (a trailing empty token is dropped).
\<close>

theorem tokens_roundtrip:
  "\<forall>t \<in> set ts. sep \<notin> set t \<and> 0 \<notin> set t \<Longrightarrow> ts = [] \<or> last ts \<noteq> [] \<Longrightarrow> Tokens (join_tokens sep ts) sep = ts"
  by (rule tokens_join)

theorem tokens_roundtrip_witness:
  "Tokens (join_tokens 32 [[65], [], [66, 67]]) 32 = [[65], [], [66, 67]]"
  by (rule tokens_roundtrip) simp_all

text \<open>
  Cleaning a line in place gives the line with every run of invisible characters turned into one
  space, and cleaning it again changes nothing.
\<close>

theorem strip_line:
  "stripLineInvisibleChars str = strip_ref False str \<and>
   stripLineInvisibleChars (stripLineInvisibleChars str) = stripLineInvisibleChars str"
  by (simp add: strip_eq_ref strip_ref_idem)

text \<open>
  Two characters agree in upper case exactly when they agree in lower case, so a comparison of
  names may fold either way.
\<close>

theorem case_folding: "wcharToLower v = wcharToLower w \<longleftrightarrow> wcharToUpper v = wcharToUpper w"
  by (metis lower_upper upper_lower)

end
