(* ===== verification/BigNumber.thy ===== *)
theory BigNumber
  imports StdMap Util
begin

text \<open>
  Large numbers and digests: class \<open>BigNumber\<close> of src/src/shared/Auth/BigNumber.h and BigNumber.cpp
  and class \<open>Sha1Hash\<close> of src/src/shared/Auth/Sha1.cpp. The arithmetic and the digest are OpenSSL's;
  they are the record \<open>OpenSSL\<close>, a parameter. A \<open>BIGNUM\<close> is the number it stands for (the server
  never forms a negative one).

  What the class adds is the byte arrays: \<open>AsByteArray\<close> keeps every array it makes, under its length,
  until the number is destroyed, and no operation that gives the number a new value drops them.
\<close>

section \<open>OpenSSL\<close>

record OpenSSL =
  BN_add :: "nat \<Rightarrow> nat \<Rightarrow> nat"
  BN_mul :: "nat \<Rightarrow> nat \<Rightarrow> nat"
  BN_mod :: "nat \<Rightarrow> nat \<Rightarrow> nat"
  BN_mod_exp :: "nat \<Rightarrow> nat \<Rightarrow> nat \<Rightarrow> nat"
  BN_num_bytes :: "nat \<Rightarrow> nat"
  BN_bn2bin :: "nat \<Rightarrow> uint8 list"
  BN_bin2bn :: "uint8 list \<Rightarrow> nat"
  BN_hex2bn :: "cstring \<Rightarrow> nat option"
  BN_bn2hex :: "nat \<Rightarrow> cstring"
  SHA1 :: "uint8 list \<Rightarrow> uint8 list"

text \<open>
  The manual pages BN\_add(3), BN\_num\_bytes(3), BN\_bn2bin(3) and SHA1(3), as far as the login
  server relies on them.
\<close>

definition be_value :: "uint8 list \<Rightarrow> nat" where
  "be_value bs = foldl (\<lambda>v b. 256 * v + unat b) 0 bs"

definition openssl_ok :: "OpenSSL \<Rightarrow> bool" where
  "openssl_ok L \<longleftrightarrow>
     (\<forall>a b. BN_add L a b = a + b) \<and> (\<forall>a b. BN_mul L a b = a * b)
     \<and> (\<forall>a m. 0 < m \<longrightarrow> BN_mod L a m = a mod m)
     \<and> (\<forall>a p m. 1 < m \<longrightarrow> BN_mod_exp L a p m = a ^ p mod m)
     \<and> (\<forall>a k. BN_num_bytes L a \<le> k \<longleftrightarrow> a < 256 ^ k)
     \<and> (\<forall>a. length (BN_bn2bin L a) = BN_num_bytes L a \<and> be_value (BN_bn2bin L a) = a)
     \<and> (\<forall>bs. BN_bin2bn L bs = be_value bs)
     \<and> (\<forall>bs. length (SHA1 L bs) = 20)"

section \<open>The class\<close>

record BigNumber =
  bn :: nat
  arraysMap :: "(nat, uint8 list) smap"

definition BigNumber_new :: BigNumber where
  "BigNumber_new = \<lparr>bn = 0, arraysMap = []\<rparr>"

definition BigNumber_of :: "nat \<Rightarrow> BigNumber" where
  "BigNumber_of n = \<lparr>bn = n, arraysMap = []\<rparr>"

definition SetDword :: "uint32 \<Rightarrow> BigNumber \<Rightarrow> BigNumber" where
  "SetDword val x = x\<lparr>bn := unat val\<rparr>"

text \<open>\<open>SetQword\<close> adds to what the number holds: it does not set it.\<close>

definition SetQword :: "OpenSSL \<Rightarrow> uint64 \<Rightarrow> BigNumber \<Rightarrow> BigNumber" where
  "SetQword L val x =
     x\<lparr>bn := BN_add L (BN_mul L (BN_add L (bn x) (unat (drop_bit 32 val))) (2 ^ 32)) (unat (val AND 0xFFFFFFFF))\<rparr>"

definition SetBinary :: "OpenSSL \<Rightarrow> uint8 list \<Rightarrow> BigNumber \<Rightarrow> BigNumber" where
  "SetBinary L bytes x = x\<lparr>bn := BN_bin2bn L (rev bytes)\<rparr>"

text \<open>A string that \<open>BN_hex2bn\<close> does not take leaves the number as it was.\<close>

definition SetHexStr :: "OpenSSL \<Rightarrow> cstring \<Rightarrow> BigNumber \<Rightarrow> BigNumber" where
  "SetHexStr L str x = (case BN_hex2bn L str of None \<Rightarrow> x | Some n \<Rightarrow> x\<lparr>bn := n\<rparr>)"

text \<open>\<open>SetRand\<close>: the random number is an argument.\<close>

definition SetRand :: "nat \<Rightarrow> BigNumber \<Rightarrow> BigNumber" where
  "SetRand r x = x\<lparr>bn := r\<rparr>"

definition assign :: "BigNumber \<Rightarrow> BigNumber \<Rightarrow> BigNumber" where
  "assign y x = x\<lparr>bn := bn y\<rparr>"

definition plus_bn :: "OpenSSL \<Rightarrow> BigNumber \<Rightarrow> BigNumber \<Rightarrow> BigNumber" where
  "plus_bn L x y = BigNumber_of (BN_add L (bn x) (bn y))"

definition times_bn :: "OpenSSL \<Rightarrow> BigNumber \<Rightarrow> BigNumber \<Rightarrow> BigNumber" where
  "times_bn L x y = BigNumber_of (BN_mul L (bn x) (bn y))"

definition mod_bn :: "OpenSSL \<Rightarrow> BigNumber \<Rightarrow> BigNumber \<Rightarrow> BigNumber" where
  "mod_bn L x y = BigNumber_of (BN_mod L (bn x) (bn y))"

definition ModExp :: "OpenSSL \<Rightarrow> BigNumber \<Rightarrow> BigNumber \<Rightarrow> BigNumber \<Rightarrow> BigNumber" where
  "ModExp L x y m = BigNumber_of (BN_mod_exp L (bn x) (bn y) (bn m))"

definition GetNumBytes :: "OpenSSL \<Rightarrow> BigNumber \<Rightarrow> nat" where
  "GetNumBytes L x = BN_num_bytes L (bn x)"

definition isZero :: "BigNumber \<Rightarrow> bool" where
  "isZero x \<longleftrightarrow> bn x = 0"

text \<open>
  \<open>BN_bn2bin\<close> writes the bytes at the front of the zeroed array. All callers ask for the reversed
  array.
\<close>

definition fresh_array :: "OpenSSL \<Rightarrow> nat \<Rightarrow> nat \<Rightarrow> uint8 list" where
  "fresh_array L n len = rev (BN_bn2bin L n @ replicate (len - BN_num_bytes L n) 0)"

definition AsByteArray :: "OpenSSL \<Rightarrow> nat \<Rightarrow> BigNumber \<Rightarrow> uint8 list \<times> BigNumber" where
  "AsByteArray L minSize x =
     (let len = (if GetNumBytes L x \<le> minSize then minSize else GetNumBytes L x)
      in case smap_find len (arraysMap x) of
           Some a \<Rightarrow> (a, x)
         | None \<Rightarrow> let a = fresh_array L (bn x) len
                   in (a, x\<lparr>arraysMap := smap_put len a (arraysMap x)\<rparr>))"

text \<open>\<open>Sha1Hash::UpdateBigNumbers\<close> for one number: the bytes that are hashed.\<close>

definition hashed_bytes :: "OpenSSL \<Rightarrow> BigNumber \<Rightarrow> uint8 list \<times> BigNumber" where
  "hashed_bytes L x = (case AsByteArray L 0 x of (a, x') \<Rightarrow> (take (GetNumBytes L x) a, x'))"

section \<open>Bytes and numbers\<close>

lemma be_value_simps [simp]: "be_value [] = 0" "be_value (bs @ [b]) = 256 * be_value bs + unat b"
  by (simp_all add: be_value_def)

lemma unat_byte: "unat (b :: uint8) < 256"
  using unsigned_less[of b] by simp

lemma be_value_bound: "be_value bs < 256 ^ length bs"
proof (induction bs rule: rev_induct)
  case (snoc b bs)
  then show ?case using unat_byte[of b] by simp
qed simp

lemma be_value_inj: "length as = length bs \<Longrightarrow> be_value as = be_value bs \<Longrightarrow> as = bs"
proof (induction as arbitrary: bs rule: rev_induct)
  case (snoc a as)
  from snoc.prems obtain cs c where bs: "bs = cs @ [c]" by (cases bs rule: rev_exhaust) auto
  have "256 * be_value as + unat a = 256 * be_value cs + unat c" using snoc.prems bs by simp
  moreover from this have e: "be_value as = be_value cs" using unat_byte[of a] unat_byte[of c] by linarith
  ultimately have "unat a = unat c" by simp
  with e show ?case using snoc.IH[of cs] snoc.prems bs by (simp add: word_unat_eq_iff)
qed simp

lemma be_value_append: "be_value (as @ bs) = be_value as * 256 ^ length bs + be_value bs"
  by (induction bs rule: rev_induct) (simp_all add: algebra_simps flip: append_assoc)

lemma be_value_top: "b \<noteq> 0 \<Longrightarrow> 256 ^ length bs \<le> be_value (b # bs)"
proof -
  assume "b \<noteq> 0"
  then have "1 \<le> unat b" by (simp add: unat_gt_0 Suc_leI)
  then have "256 ^ length bs \<le> unat b * 256 ^ length bs" by simp
  then show ?thesis using be_value_append[of "[b]" bs] by (simp add: be_value_def[of "[b]"] trans_le_add1)
qed

lemma openssl_okD:
  assumes "openssl_ok L"
  shows "BN_add L a b = a + b" "BN_mul L a b = a * b" "0 < m \<Longrightarrow> BN_mod L a m = a mod m"
    "1 < m \<Longrightarrow> BN_mod_exp L a p m = a ^ p mod m" "BN_num_bytes L a \<le> k \<longleftrightarrow> a < 256 ^ k"
    "length (BN_bn2bin L a) = BN_num_bytes L a" "be_value (BN_bn2bin L a) = a"
    "BN_bin2bn L bs = be_value bs" "length (SHA1 L bs) = 20"
  using assms by (auto simp: openssl_ok_def)

lemma BN_num_bytes_exact:
  "openssl_ok L \<Longrightarrow> a < 256 ^ Suc k \<Longrightarrow> 256 ^ k \<le> a \<Longrightarrow> BN_num_bytes L a = Suc k"
  using openssl_okD(5)[of L a "Suc k"] openssl_okD(5)[of L a k] by (auto simp: le_Suc_eq)

text \<open>A number of exactly the wanted length survives; the bytes whose last one is not zero are such a number.\<close>

lemma fresh_array_exact:
  assumes "openssl_ok L" "BN_num_bytes L a = k"
  shows "length (fresh_array L a k) = k" "be_value (rev (fresh_array L a k)) = a"
  using openssl_okD(6,7)[OF assms(1), of a] assms(2) by (simp_all add: fresh_array_def)

lemma fresh_array_SetBinary:
  assumes "openssl_ok L" "bs \<noteq> []" "last bs \<noteq> 0"
  shows "BN_num_bytes L (be_value (rev bs)) = length bs" "fresh_array L (be_value (rev bs)) (length bs) = bs"
proof -
  have bs: "rev bs = last bs # rev (butlast bs)" "length bs = Suc (length (rev (butlast bs)))"
    using assms(2) by (metis append_butlast_last_id rev_append rev_singleton_conv append_Cons append_Nil rev.simps)
      (simp add: assms(2))
  show n: "BN_num_bytes L (be_value (rev bs)) = length bs"
    using BN_num_bytes_exact[OF assms(1)] be_value_top[OF assms(3), of "rev (butlast bs)"] be_value_bound[of "rev bs"]
    unfolding bs by simp
  show "fresh_array L (be_value (rev bs)) (length bs) = bs"
    using fresh_array_exact[OF assms(1) n] by (metis be_value_inj length_rev rev_rev_ident)
qed

lemma be_value_zeros: "be_value (replicate n 0) = 0"
proof (induction n)
  case (Suc n)
  have "replicate (Suc n) (0 :: uint8) = replicate n 0 @ [0]" by (simp add: replicate_append_same)
  then show ?case using Suc by (simp only: be_value_simps) simp
qed simp

text \<open>A shorter number does not: the padding ends up below the number, which is multiplied by 256 per byte.\<close>

lemma fresh_array_short:
  assumes "openssl_ok L" "BN_num_bytes L a \<le> k"
  shows "be_value (rev (fresh_array L a k)) = a * 256 ^ (k - BN_num_bytes L a)"
  using openssl_okD(7)[OF assms(1)] by (simp add: fresh_array_def be_value_append be_value_zeros)

end
