(* ===== verification/RealmList.thy ===== *)
theory RealmList
  imports StdMap Util "HOL-Library.List_Lexorder"
begin

text \<open>
  The realms the login server offers: src/src/realmd/RealmList.h and RealmList.cpp, and the packet
  with the list (\<open>AuthSocket::LoadRealmlist\<close> of src/src/realmd/AuthSocket.cpp). A \<open>float\<close> is its bit
  pattern, the rows of the table \<open>realmlist\<close> and the numbers of characters are arguments.
\<close>

section \<open>Builds\<close>

record RealmBuildInfo =
  bi_build :: nat
  major_version :: nat
  minor_version :: nat
  bugfix_version :: nat
  hotfix_version :: nat

definition build_info :: "nat \<Rightarrow> nat \<Rightarrow> nat \<Rightarrow> nat \<Rightarrow> nat \<Rightarrow> RealmBuildInfo" where
  "build_info b ma mi bf hf =
     \<lparr>bi_build = b, major_version = ma, minor_version = mi, bugfix_version = bf, hotfix_version = hf\<rparr>"

definition ExpectedRealmdClientBuilds :: "RealmBuildInfo list" where
  "ExpectedRealmdClientBuilds =
     [build_info 16357 5 1 0 97, build_info 16135 5 0 5 98, build_info 15595 4 3 4 32, build_info 15050 4 3 0 32,
      build_info 13623 4 0 6 97, build_info 12340 3 3 5 97, build_info 8606 2 4 3 32, build_info 6141 1 12 3 32,
      build_info 6005 1 12 2 32, build_info 5875 1 12 1 32]"

definition FindBuildInfo :: "uint16 \<Rightarrow> RealmBuildInfo option" where
  "FindBuildInfo build =
     (if bi_build (hd ExpectedRealmdClientBuilds) \<le> unat build then Some (hd ExpectedRealmdClientBuilds)
      else find (\<lambda>i. unat build = bi_build i) (tl ExpectedRealmdClientBuilds))"

section \<open>Realms\<close>

abbreviation (input) REALM_FLAG_OFFLINE :: uint8 where "REALM_FLAG_OFFLINE \<equiv> 0x02"
abbreviation (input) REALM_FLAG_SPECIFYBUILD :: uint8 where "REALM_FLAG_SPECIFYBUILD \<equiv> 0x04"
abbreviation (input) REALM_FLAG_NEW_PLAYERS :: uint8 where "REALM_FLAG_NEW_PLAYERS \<equiv> 0x20"
abbreviation (input) REALM_FLAG_RECOMMENDED :: uint8 where "REALM_FLAG_RECOMMENDED \<equiv> 0x40"
abbreviation (input) SEC_ADMINISTRATOR :: uint8 where "SEC_ADMINISTRATOR \<equiv> 3"

record Realm =
  address :: cstring
  icon :: uint8
  realmflags :: uint8
  timezone :: uint8
  m_ID :: uint32
  allowedSecurityLevel :: uint8
  populationLevel :: uint32
  realmbuilds :: "uint32 list"
  realmBuildInfo :: RealmBuildInfo

record RealmList =
  m_realms :: "(cstring, Realm) smap"
  m_UpdateInterval :: uint32
  m_NextUpdateTime :: int

text \<open>A row of the table, after the filter and in the order of the query.\<close>

record RealmRow =
  rr_id :: uint32
  rr_name :: cstring
  rr_address :: cstring
  rr_port :: uint32
  rr_icon :: uint8
  rr_flags :: uint8
  rr_timezone :: uint8
  rr_security :: uint8
  rr_population :: uint32
  rr_builds :: cstring

definition new_Realm :: Realm where
  "new_Realm = \<lparr>address = [], icon = 0, realmflags = 0, timezone = 0, m_ID = 0, allowedSecurityLevel = 0,
     populationLevel = 0, realmbuilds = [], realmBuildInfo = build_info 0 0 0 0 0\<rparr>"

definition first_build_info :: "uint32 list \<Rightarrow> RealmBuildInfo" where
  "first_build_info builds =
     (let first_build = (if builds \<noteq> [] then ucast (hd builds) else 0 :: uint16);
          unknown = build_info (unat first_build) 0 0 0 32
      in if first_build \<noteq> 0
         then (case FindBuildInfo first_build of
                 Some bInfo \<Rightarrow> if bi_build bInfo = unat first_build then bInfo else unknown
               | None \<Rightarrow> unknown)
         else unknown)"

definition UpdateRealm ::
  "uint32 \<Rightarrow> cstring \<Rightarrow> cstring \<Rightarrow> uint32 \<Rightarrow> uint8 \<Rightarrow> uint8 \<Rightarrow> uint8 \<Rightarrow> uint8 \<Rightarrow> uint32 \<Rightarrow> cstring \<Rightarrow> RealmList \<Rightarrow> RealmList" where
  "UpdateRealm ID name addr port ic flags tz sec popu builds rl =
     (let realm = (case smap_find name (m_realms rl) of Some r \<Rightarrow> r | None \<Rightarrow> new_Realm);
          bs = fold (\<lambda>t. insort_insert (of_int (atoi t))) (Tokens builds 32) (realmbuilds realm);
          realm = realm\<lparr>m_ID := ID, icon := ic, realmflags := flags, timezone := tz, allowedSecurityLevel := sec,
            populationLevel := popu, realmbuilds := bs, realmBuildInfo := first_build_info bs,
            address := addr @ 58 # dec (unat port)\<rparr>
      in rl\<lparr>m_realms := smap_put name realm (m_realms rl)\<rparr>)"

definition realm_flag_mask :: uint8 where
  "realm_flag_mask = REALM_FLAG_OFFLINE OR REALM_FLAG_NEW_PLAYERS OR REALM_FLAG_RECOMMENDED OR REALM_FLAG_SPECIFYBUILD"

definition update_row :: "RealmRow \<Rightarrow> RealmList \<Rightarrow> RealmList" where
  "update_row r =
     (let flags = (if rr_flags r AND NOT realm_flag_mask \<noteq> 0 then rr_flags r AND realm_flag_mask else rr_flags r)
      in UpdateRealm (rr_id r) (rr_name r) (rr_address r) (rr_port r) (rr_icon r) flags (rr_timezone r)
           (if rr_security r \<le> SEC_ADMINISTRATOR then rr_security r else SEC_ADMINISTRATOR)
           (rr_population r) (rr_builds r))"

definition UpdateRealms :: "RealmRow list \<Rightarrow> RealmList \<Rightarrow> RealmList" where
  "UpdateRealms rows rl = fold update_row rows rl"

definition RealmList_Initialize :: "uint32 \<Rightarrow> RealmRow list \<Rightarrow> RealmList \<Rightarrow> RealmList" where
  "RealmList_Initialize updateInterval rows rl = UpdateRealms rows (rl\<lparr>m_UpdateInterval := updateInterval\<rparr>)"

definition UpdateIfNeed :: "int \<Rightarrow> RealmRow list \<Rightarrow> RealmList \<Rightarrow> RealmList" where
  "UpdateIfNeed now rows rl =
     (if m_UpdateInterval rl = 0 \<or> now < m_NextUpdateTime rl then rl
      else UpdateRealms rows
             (rl\<lparr>m_NextUpdateTime := now + uint (m_UpdateInterval rl), m_realms := []\<rparr>))"

section \<open>The packet\<close>

text \<open>\<open>numchars\<close> is the table \<open>realmcharacters\<close>, by realm and account.\<close>

definition AmountOfCharacters :: "(uint32 \<Rightarrow> uint32 \<Rightarrow> uint8 option) \<Rightarrow> uint32 \<Rightarrow> Realm \<Rightarrow> uint8" where
  "AmountOfCharacters numchars acctid r = (case numchars (m_ID r) acctid of Some n \<Rightarrow> n | None \<Rightarrow> 0)"

definition ok_build :: "uint16 \<Rightarrow> Realm \<Rightarrow> bool" where
  "ok_build build r \<longleftrightarrow> ucast build \<in> set (realmbuilds r)"

definition shown_info :: "uint16 \<Rightarrow> Realm \<Rightarrow> RealmBuildInfo" where
  "shown_info build r =
     (case (if ok_build build r then FindBuildInfo build else None) of
        Some i \<Rightarrow> i | None \<Rightarrow> realmBuildInfo r)"

definition realm_entry_1x ::
  "(uint32 \<Rightarrow> uint32 \<Rightarrow> uint8 option) \<Rightarrow> uint32 \<Rightarrow> uint16 \<Rightarrow> uint8 \<Rightarrow> cstring \<times> Realm \<Rightarrow> uint8 list" where
  "realm_entry_1x numchars acctid build sec = (\<lambda>(nm, r).
     let i = shown_info build r;
         nm = (if realmflags r AND REALM_FLAG_SPECIFYBUILD \<noteq> 0
               then nm @ take 19 (txt_of '' ('' @ dec (major_version i) @ txt_of '','' @ dec (minor_version i)
                    @ txt_of '','' @ dec (bugfix_version i) @ txt_of '')'')
               else nm);
         flags = (if \<not> ok_build build r \<or> sec < allowedSecurityLevel r then realmflags r OR REALM_FLAG_OFFLINE
                  else realmflags r)
     in le_bytes (ucast (icon r) :: uint32) @ [flags] @ nm @ [0] @ address r @ [0] @ le_bytes (populationLevel r)
        @ [AmountOfCharacters numchars acctid r, timezone r, 0])"

definition realm_entry ::
  "(uint32 \<Rightarrow> uint32 \<Rightarrow> uint8 option) \<Rightarrow> uint32 \<Rightarrow> uint16 \<Rightarrow> uint8 \<Rightarrow> cstring \<times> Realm \<Rightarrow> uint8 list" where
  "realm_entry numchars acctid build sec = (\<lambda>(nm, r).
     let i = shown_info build r;
         lock = (if sec < allowedSecurityLevel r then 1 else 0);
         flags = (if \<not> ok_build build r then realmflags r OR REALM_FLAG_OFFLINE else realmflags r)
     in [icon r, lock, flags] @ nm @ [0] @ address r @ [0] @ le_bytes (populationLevel r)
        @ [AmountOfCharacters numchars acctid r, timezone r, 0x2C]
        @ (if flags AND REALM_FLAG_SPECIFYBUILD \<noteq> 0
           then [of_nat (major_version i), of_nat (minor_version i), of_nat (bugfix_version i)] @ le_bytes build
           else []))"

definition LoadRealmlist ::
  "(uint32 \<Rightarrow> uint32 \<Rightarrow> uint8 option) \<Rightarrow> uint32 \<Rightarrow> uint16 \<Rightarrow> uint8 \<Rightarrow> RealmList \<Rightarrow> uint8 list" where
  "LoadRealmlist numchars acctid build sec rl =
     (if unat build \<in> {5875, 6005, 6141}
      then le_bytes (0 :: uint32) @ [of_nat (length (m_realms rl))]
         @ concat (map (realm_entry_1x numchars acctid build sec) (m_realms rl)) @ le_bytes (0x0002 :: uint16)
      else le_bytes (0 :: uint32) @ le_bytes (of_nat (length (m_realms rl)) :: uint16)
         @ concat (map (realm_entry numchars acctid build sec) (m_realms rl)) @ le_bytes (0x0010 :: uint16))"

end
