(* ===== verification/AuthSocket.thy ===== *)
theory AuthSocket
  imports BigNumber RealmList
begin

text \<open>
  The login server's side of a client connection: class \<open>AuthSocket\<close> of src/src/realmd/AuthSocket.h
  and AuthSocket.cpp. \<open>OnRead\<close> looks at the first byte of the input and calls the handler of that
  command; the handlers run the SRP6 exchange, the reconnect exchange, the realm list and the
  client patch transfer.

  \<open>AuthEnv\<close> is what a handler asks of the outside: OpenSSL, the answers of the login database, the
  configuration, random numbers, patch files. \<open>escape_string\<close> is the database's. What a handler
  sends, writes to the database and does to the connection is the list of its effects, in order. The
  input is the unread part of the socket's buffer.
\<close>

section \<open>State\<close>

record AuthSocket =
  as_N :: BigNumber
  as_s :: BigNumber
  as_g :: BigNumber
  as_v :: BigNumber
  as_b :: BigNumber
  as_B :: BigNumber
  as_K :: BigNumber
  reconnectProof :: BigNumber
  authed :: bool
  login :: cstring
  safelogin :: cstring
  localizationName :: cstring
  os :: cstring
  build :: uint16
  accountSecurityLevel :: uint8
  patch :: "nat option"
  input :: "uint8 list"
  realmList :: RealmList

record AccountRow =
  ac_sha_pass_hash :: cstring
  ac_id :: uint32
  ac_locked :: uint8
  ac_last_ip :: cstring
  ac_gmlevel :: uint8
  ac_v :: cstring
  ac_s :: cstring

record AuthEnv =
  ssl :: OpenSSL
  remote_address :: cstring
  escape_string :: "cstring \<Rightarrow> cstring"
  ip_banned :: "cstring \<Rightarrow> bool"
  account :: "cstring \<Rightarrow> AccountRow option"
  MultiIPCheck :: bool
  MultiIPLimit :: int
  MultiIPPeriodInHours :: int
  same_ip :: "cstring \<Rightarrow> uint32 \<Rightarrow> int \<Rightarrow> uint32 list"
  multi_IP_whitelist :: "uint32 \<Rightarrow> cstring option"
  account_banned :: "uint32 \<Rightarrow> (uint64 \<times> uint64) option"
  AutoRegistration :: bool
  AutoRegistration_Amount :: int
  count_last_ip :: "cstring \<Rightarrow> uint32 option"
  sessionkey :: "cstring \<Rightarrow> cstring option"
  rand_s :: nat
  rand_b :: nat
  rand_unk3 :: nat
  rand_reconnect :: nat
  WrongPass_MaxCount :: uint32
  WrongPass_BanTime :: uint32
  WrongPass_BanType :: bool
  failed_logins :: "cstring \<Rightarrow> (uint32 \<times> uint32) option"
  open_patch :: "uint16 \<Rightarrow> cstring \<Rightarrow> nat option"
  filesize :: "nat \<Rightarrow> nat option"
  patch_md5 :: "uint16 \<Rightarrow> cstring \<Rightarrow> uint8 list"
  lseek_ok :: "nat \<Rightarrow> uint64 \<Rightarrow> bool"
  patch_handler_opens :: bool
  now :: int
  realm_rows :: "RealmRow list"
  realmcharacters :: "uint32 \<Rightarrow> uint32 \<Rightarrow> uint8 option"

datatype AuthEffect =
    Send "uint8 list"
  | CloseConnection
  | DbSetVS cstring cstring cstring
  | DbInsertAccount cstring cstring
  | DbLogin cstring cstring nat cstring cstring
  | DbFailedLogin cstring
  | DbBanAccount uint32 uint32
  | DbBanIp cstring uint32
  | StartPatch nat

type_synonym handler = "AuthEnv \<Rightarrow> AuthSocket \<Rightarrow> (bool \<times> AuthSocket \<times> AuthEffect list) result"

definition srp_modulus :: nat where
  "srp_modulus = 0x894B645E89E1535BBDAD5B8B290650530801B18EBFBF5E8FAB3C82872A3E9BB7"

definition AuthSocket_new :: "RealmList \<Rightarrow> AuthSocket" where
  "AuthSocket_new rl =
     \<lparr>as_N = BigNumber_of srp_modulus, as_s = BigNumber_new, as_g = BigNumber_of 7, as_v = BigNumber_new,
      as_b = BigNumber_new, as_B = BigNumber_new, as_K = BigNumber_new, reconnectProof = BigNumber_new,
      authed = False, login = [], safelogin = [], localizationName = [], os = [], build = 0,
      accountSecurityLevel = 0, patch = None, input = [], realmList = rl\<rparr>"

section \<open>Codes\<close>

abbreviation (input) CMD_AUTH_LOGON_CHALLENGE :: uint8 where "CMD_AUTH_LOGON_CHALLENGE \<equiv> 0x00"
abbreviation (input) CMD_AUTH_LOGON_PROOF :: uint8 where "CMD_AUTH_LOGON_PROOF \<equiv> 0x01"
abbreviation (input) CMD_AUTH_RECONNECT_CHALLENGE :: uint8 where "CMD_AUTH_RECONNECT_CHALLENGE \<equiv> 0x02"
abbreviation (input) CMD_AUTH_RECONNECT_PROOF :: uint8 where "CMD_AUTH_RECONNECT_PROOF \<equiv> 0x03"
abbreviation (input) CMD_REALM_LIST :: uint8 where "CMD_REALM_LIST \<equiv> 0x10"
abbreviation (input) CMD_XFER_INITIATE :: uint8 where "CMD_XFER_INITIATE \<equiv> 0x30"
abbreviation (input) CMD_XFER_ACCEPT :: uint8 where "CMD_XFER_ACCEPT \<equiv> 0x32"
abbreviation (input) CMD_XFER_RESUME :: uint8 where "CMD_XFER_RESUME \<equiv> 0x33"
abbreviation (input) CMD_XFER_CANCEL :: uint8 where "CMD_XFER_CANCEL \<equiv> 0x34"

abbreviation (input) WOW_SUCCESS :: uint8 where "WOW_SUCCESS \<equiv> 0x00"
abbreviation (input) WOW_FAIL_UNKNOWN0 :: uint8 where "WOW_FAIL_UNKNOWN0 \<equiv> 0x01"
abbreviation (input) WOW_FAIL_BANNED :: uint8 where "WOW_FAIL_BANNED \<equiv> 0x03"
abbreviation (input) WOW_FAIL_UNKNOWN_ACCOUNT :: uint8 where "WOW_FAIL_UNKNOWN_ACCOUNT \<equiv> 0x04"
abbreviation (input) WOW_FAIL_VERSION_INVALID :: uint8 where "WOW_FAIL_VERSION_INVALID \<equiv> 0x09"
abbreviation (input) WOW_FAIL_VERSION_UPDATE :: uint8 where "WOW_FAIL_VERSION_UPDATE \<equiv> 0x0A"
abbreviation (input) WOW_FAIL_SUSPENDED :: uint8 where "WOW_FAIL_SUSPENDED \<equiv> 0x0C"
abbreviation (input) WOW_FAIL_PARENTCONTROL :: uint8 where "WOW_FAIL_PARENTCONTROL \<equiv> 0x0F"
abbreviation (input) WOW_FAIL_DISCONNECTED :: uint8 where "WOW_FAIL_DISCONNECTED \<equiv> 0xFF"

section \<open>The challenge packet\<close>

text \<open>
  \<open>AUTH_LOGON_CHALLENGE_C\<close> has 35 packed bytes: \<open>size\<close> at 2, \<open>build\<close> at 11, \<open>os\<close> at 17,
  \<open>country\<close> at 21, the account name from 34 on. Both challenge handlers read it the same way. The
  header is taken from the input before it is known that the rest has arrived.
\<close>

definition read_challenge :: "AuthSocket \<Rightarrow> uint8 list option \<times> AuthSocket" where
  "read_challenge a =
     (if length (input a) < 35 then (None, a)
      else let hdr = take 4 (input a);
               a = a\<lparr>input := drop 4 (input a)\<rparr>;
               remaining = unat (le_word (drop 2 hdr) :: uint16)
           in if remaining < 31 \<or> length (input a) < remaining then (None, a)
              else (Some (hdr @ take remaining (input a) @ [0]), a\<lparr>input := drop remaining (input a)\<rparr>))"

definition c_str_at :: "nat \<Rightarrow> uint8 list \<Rightarrow> cstring" where
  "c_str_at off buf = takeWhile (\<lambda>c. c \<noteq> 0) (drop off buf)"

definition ch_build :: "uint8 list \<Rightarrow> uint16" where
  "ch_build buf = le_word (take 2 (drop 11 buf))"

definition ch_country :: "uint8 list \<Rightarrow> cstring" where
  "ch_country buf = rev (take 4 (drop 21 buf))"

section \<open>The logon challenge\<close>

definition hash_of :: "OpenSSL \<Rightarrow> BigNumber \<Rightarrow> uint8 list" where
  "hash_of L x = fst (hashed_bytes L x)"

definition hashed :: "OpenSSL \<Rightarrow> BigNumber \<Rightarrow> BigNumber" where
  "hashed L x = snd (hashed_bytes L x)"

definition SetVSFields :: "AuthEnv \<Rightarrow> cstring \<Rightarrow> AuthSocket \<Rightarrow> AuthSocket \<times> AuthEffect list" where
  "SetVSFields env rI a =
     (let L = ssl env;
          s1 = SetRand (rand_s env) (as_s a);
          I = SetHexStr L rI BigNumber_new;
          mDigest = (if GetNumBytes L I \<le> 20 then hash_of L I @ replicate (20 - GetNumBytes L I) 0
                     else replicate 20 0);
          x = SetBinary L (SHA1 L (hash_of L s1 @ rev mDigest)) BigNumber_new;
          v1 = assign (ModExp L (as_g a) x (as_N a)) (as_v a)
      in (a\<lparr>as_s := hashed L s1, as_v := v1\<rparr>,
          [DbSetVS (BN_bn2hex L (bn v1)) (BN_bn2hex L (bn s1)) (safelogin a)]))"

definition multi_ip_blocked :: "AuthEnv \<Rightarrow> uint32 \<Rightarrow> bool" where
  "multi_ip_blocked env accountId \<longleftrightarrow>
     MultiIPCheck env \<and>
     (let white = (case multi_IP_whitelist env accountId of
                     Some w \<Rightarrow> map (\<lambda>t. of_int (atoi t)) (Tokens w 124) | None \<Rightarrow> []);
          counted = filter (\<lambda>i. i \<notin> set white) (same_ip env (remote_address env) accountId (MultiIPPeriodInHours env))
      in MultiIPLimit env - int (length counted) < 1)"

definition account_refused :: "AuthEnv \<Rightarrow> AccountRow \<Rightarrow> uint8 option" where
  "account_refused env row =
     (if ac_locked row = 1 \<and> ac_last_ip row \<noteq> remote_address env then Some WOW_FAIL_SUSPENDED
      else if multi_ip_blocked env (ac_id row) then Some WOW_FAIL_PARENTCONTROL
      else (case account_banned env (ac_id row) of
              Some (bandate, unbandate) \<Rightarrow> Some (if bandate = unbandate then WOW_FAIL_BANNED else WOW_FAIL_SUSPENDED)
            | None \<Rightarrow> None))"

definition check_account ::
  "AuthEnv \<Rightarrow> uint8 list \<Rightarrow> AccountRow \<Rightarrow> AuthSocket \<Rightarrow> uint8 \<times> AuthSocket \<times> AuthEffect list" where
  "check_account env ch row a =
     (case account_refused env row of
        Some r \<Rightarrow> (r, a, [])
      | None \<Rightarrow>
          let (a, eff) = (if length (ac_v row) \<noteq> 64 \<or> length (ac_s row) \<noteq> 64
                          then SetVSFields env (ac_sha_pass_hash row) a
                          else (a\<lparr>as_s := SetHexStr (ssl env) (ac_s row) (as_s a),
                                  as_v := SetHexStr (ssl env) (ac_v row) (as_v a)\<rparr>, []))
          in (WOW_SUCCESS,
              a\<lparr>accountSecurityLevel := if ac_gmlevel row \<le> SEC_ADMINISTRATOR then ac_gmlevel row else SEC_ADMINISTRATOR,
                localizationName := ch_country ch\<rparr>, eff))"

definition forbidden_chars :: cstring where
  "forbidden_chars = [9, 11, 8, 12, 7, 10, 13, 92, 34, 39] @ txt_of ''? <>[](){}_=+-|/!@#$%^&*~`.,''"

definition towupper :: "uint8 \<Rightarrow> uint8" where
  "towupper c = (if 97 \<le> c \<and> c \<le> 122 then c - 32 else c)"

definition auto_register ::
  "AuthEnv \<Rightarrow> uint8 list \<Rightarrow> AuthSocket \<Rightarrow> uint8 \<times> AuthSocket \<times> AuthEffect list" where
  "auto_register env ch a =
     (if list_all (\<lambda>c. c \<notin> set forbidden_chars) (safelogin a) \<and> 3 < length (safelogin a)
      then let regCount = (case count_last_ip env (remote_address env) of Some n \<Rightarrow> sint n | None \<Rightarrow> 0)
           in if AutoRegistration_Amount env \<le> regCount then (WOW_FAIL_DISCONNECTED, a, [])
              else let a = a\<lparr>safelogin := map towupper (safelogin a)\<rparr>;
                       encoded = hexEncodeByteArray (SHA1 (ssl env) (safelogin a @ 58 # safelogin a));
                       (b, eff) = SetVSFields env encoded a
                   in (WOW_SUCCESS, b\<lparr>accountSecurityLevel := 0, localizationName := ch_country ch\<rparr>,
                       DbInsertAccount (safelogin a) encoded # eff)
      else (WOW_FAIL_UNKNOWN0, a, []))"

definition check_login :: "AuthEnv \<Rightarrow> uint8 list \<Rightarrow> AuthSocket \<Rightarrow> uint8 \<times> AuthSocket \<times> AuthEffect list" where
  "check_login env ch a =
     (if ip_banned env (escape_string env (remote_address env)) then (WOW_FAIL_BANNED, a, [])
      else (case account env (safelogin a) of
              Some row \<Rightarrow> check_account env ch row a
            | None \<Rightarrow> if AutoRegistration env then auto_register env ch a
                      else (WOW_FAIL_UNKNOWN_ACCOUNT, a, [])))"

text \<open>The numbers of the challenge: the server's secret \<open>b\<close> and its public value \<open>B\<close>.\<close>

definition gmod :: "AuthEnv \<Rightarrow> AuthSocket \<Rightarrow> BigNumber" where
  "gmod env a = ModExp (ssl env) (as_g a) (SetRand (rand_b env) (as_b a)) (as_N a)"

definition make_challenge :: "AuthEnv \<Rightarrow> AuthSocket \<Rightarrow> uint8 list \<times> AuthSocket" where
  "make_challenge env a =
     (let L = ssl env;
          B1 = assign (mod_bn L (plus_bn L (times_bn L (as_v a) (BigNumber_of 3)) (gmod env a)) (as_N a)) (as_B a);
          unk3 = SetRand (rand_unk3 env) BigNumber_new;
          (Bs, B2) = AsByteArray L 32 B1;
          (gs, g1) = AsByteArray L 0 (as_g a);
          (Ns, N1) = AsByteArray L 32 (as_N a);
          (ss, s1) = AsByteArray L 0 (as_s a);
          us = fst (AsByteArray L 16 unk3)
      in (take 32 Bs @ [1] @ take 1 gs @ [32] @ take 32 Ns @ take (GetNumBytes L (as_s a)) ss @ take 16 us @ [0],
          a\<lparr>as_b := SetRand (rand_b env) (as_b a), as_B := B2, as_g := g1, as_N := N1, as_s := s1\<rparr>))"

definition HandleLogonChallenge :: handler where
  "HandleLogonChallenge env a =
     (case read_challenge a of
        (None, a) \<Rightarrow> Inr (False, a, [])
      | (Some ch, a) \<Rightarrow>
          let a = a\<lparr>login := c_str_at 34 ch, build := ch_build ch, os := c_str_at 17 ch\<rparr>
          in if 4 < length (os a) then Inr (False, a, [])
             else let a = a\<lparr>safelogin := escape_string env (login a)\<rparr>;
                      (result, a, eff) = check_login env ch a
                  in if result = WOW_SUCCESS
                     then if 32 < GetNumBytes (ssl env) (gmod env a) then Inl AssertFailed
                          else (case make_challenge env a of (body, a) \<Rightarrow>
                                 Inr (True, a, eff @ [Send ([CMD_AUTH_LOGON_CHALLENGE, 0x00, result] @ body)]))
                     else Inr (True, a, eff @ [Send [CMD_AUTH_LOGON_CHALLENGE, 0x00, result]]))"

section \<open>The logon proof\<close>

text \<open>
  \<open>AUTH_LOGON_PROOF_C\<close> has 75 packed bytes: \<open>A\<close> at 1, \<open>M1\<close> at 33. The session key interleaves the
  digests of the even and the odd bytes of the shared secret.
\<close>

definition interleaved_key :: "OpenSSL \<Rightarrow> uint8 list \<Rightarrow> uint8 list" where
  "interleaved_key L t =
     (let d0 = SHA1 L (map (\<lambda>i. t ! (2 * i)) [0..<16]);
          d1 = SHA1 L (map (\<lambda>i. t ! (2 * i + 1)) [0..<16])
      in concat (map (\<lambda>i. [d0 ! i, d1 ! i]) [0..<20]))"

definition srp_S :: "OpenSSL \<Rightarrow> BigNumber \<Rightarrow> AuthSocket \<Rightarrow> BigNumber" where
  "srp_S L A a =
     (let u = SetBinary L (SHA1 L (hash_of L A @ hash_of L (as_B a))) BigNumber_new
      in ModExp L (times_bn L A (ModExp L (as_v a) u (as_N a))) (as_b a) (as_N a))"

definition srp_key :: "OpenSSL \<Rightarrow> BigNumber \<Rightarrow> AuthSocket \<Rightarrow> uint8 list" where
  "srp_key L A a = interleaved_key L (take 32 (fst (AsByteArray L 32 (srp_S L A a))))"

definition xor_bytes :: "uint8 list \<Rightarrow> uint8 list \<Rightarrow> uint8 list" where
  "xor_bytes xs ys = map2 (XOR) xs ys"

definition srp_M :: "OpenSSL \<Rightarrow> BigNumber \<Rightarrow> BigNumber \<Rightarrow> AuthSocket \<Rightarrow> BigNumber" where
  "srp_M L A K a =
     (let t3 = SetBinary L (xor_bytes (SHA1 L (hash_of L (as_N a))) (SHA1 L (hash_of L (as_g a)))) BigNumber_new
      in SetBinary L (SHA1 L (hash_of L t3 @ SHA1 L (login a) @ hash_of L (as_s a) @ hash_of L A
           @ hash_of L (as_B a) @ hash_of L K)) BigNumber_new)"

definition SendProof :: "uint8 list \<Rightarrow> AuthSocket \<Rightarrow> AuthEffect" where
  "SendProof M2 a =
     Send ([CMD_AUTH_LOGON_PROOF, 0] @ take 20 M2 @
       (if unat (build a) \<in> {5875, 6005, 6141} then le_bytes (0 :: uint32)
        else le_bytes (0x00800000 :: uint32) @ le_bytes (0 :: uint32) @ le_bytes (0 :: uint16)))"

definition fullLocaleNameList :: "(cstring \<times> nat) list" where
  "fullLocaleNameList =
     [(txt_of ''enUS'', 0), (txt_of ''enGB'', 0), (txt_of ''koKR'', 1), (txt_of ''frFR'', 2), (txt_of ''deDE'', 3),
      (txt_of ''zhCN'', 4), (txt_of ''zhTW'', 5), (txt_of ''esES'', 6), (txt_of ''esMX'', 7), (txt_of ''ruRU'', 8),
      (txt_of ''itIT'', 9), (txt_of ''ptBR'', 10), (txt_of ''ptPT'', 11)]"

definition GetLocaleByName :: "cstring \<Rightarrow> nat" where
  "GetLocaleByName name = (case map_of fullLocaleNameList name of Some l \<Rightarrow> l | None \<Rightarrow> 0)"

definition wrong_password :: "AuthEnv \<Rightarrow> AuthSocket \<Rightarrow> AuthEffect list" where
  "wrong_password env a =
     (if 6005 < unat (build a) then [Send [CMD_AUTH_LOGON_PROOF, WOW_FAIL_UNKNOWN_ACCOUNT, 3, 0]]
      else [Send [CMD_AUTH_LOGON_PROOF, WOW_FAIL_UNKNOWN_ACCOUNT]])
     @ (if 0 < WrongPass_MaxCount env
        then DbFailedLogin (safelogin a) #
          (case failed_logins env (safelogin a) of
             Some (acc_id, n) \<Rightarrow>
               if WrongPass_MaxCount env \<le> n
               then [if WrongPass_BanType env then DbBanAccount acc_id (WrongPass_BanTime env)
                     else DbBanIp (escape_string env (remote_address env)) (WrongPass_BanTime env)]
               else []
           | None \<Rightarrow> [])
        else [])"

text \<open>A client of an unknown build is offered a patch.\<close>

definition offer_patch :: handler where
  "offer_patch env a =
     (if patch a \<noteq> None then Inr (False, a, [])
      else (case open_patch env (build a) (localizationName a) of
              None \<Rightarrow> Inr (True, a, [Send [CMD_AUTH_LOGON_CHALLENGE, 0x00, WOW_FAIL_VERSION_INVALID]])
            | Some h \<Rightarrow>
                let a = a\<lparr>patch := Some h\<rparr>
                in (case filesize env h of
                      None \<Rightarrow> Inr (False, a, [CloseConnection])
                    | Some sz \<Rightarrow>
                        Inr (True, a, [Send [CMD_AUTH_LOGON_PROOF, WOW_FAIL_VERSION_UPDATE],
                          Send ([CMD_XFER_INITIATE, 5] @ txt_of ''Patch'' @ le_bytes (of_nat sz :: uint64)
                            @ patch_md5 env (build a) (localizationName a))]))))"

text \<open>\<open>memcmp\<close> of 20 bytes reads past the array of a shorter number.\<close>

definition check_proof :: "uint8 list \<Rightarrow> uint8 list \<Rightarrow> handler" where
  "check_proof lpA M1 env a =
     (let L = ssl env;
         A = SetBinary L lpA BigNumber_new
     in if isZero A then Inr (False, a, [])
        else let K = SetBinary L (srp_key L A a) (as_K a);
                 M = srp_M L A K a;
                 Ms = fst (AsByteArray L 0 M);
                 a = a\<lparr>as_B := hashed L (as_B a), as_N := hashed L (as_N a), as_g := hashed L (as_g a),
                       as_s := hashed L (as_s a), as_K := hashed L K\<rparr>
             in if length Ms < 20 then Inl Undefined
                else if take 20 Ms = M1
                then Inr (True, a\<lparr>authed := True\<rparr>,
                       [DbLogin (BN_bn2hex L (bn K)) (remote_address env) (GetLocaleByName (localizationName a)) (os a)
                          (safelogin a),
                        SendProof (SHA1 L (hash_of L A @ hash_of L M @ hash_of L K)) a])
                else Inr (True, a, wrong_password env a))"

definition HandleLogonProof :: handler where
  "HandleLogonProof env a =
     (if length (input a) < 75 then Inr (False, a, [])
      else let lp = take 75 (input a);
               a = a\<lparr>input := drop 75 (input a)\<rparr>
           in if FindBuildInfo (build a) = None then offer_patch env a
              else check_proof (take 32 (drop 1 lp)) (take 20 (drop 33 lp)) env a)"

section \<open>Reconnecting\<close>

definition HandleReconnectChallenge :: handler where
  "HandleReconnectChallenge env a =
     (case read_challenge a of
        (None, a) \<Rightarrow> Inr (False, a, [])
      | (Some ch, a) \<Rightarrow>
          let a = a\<lparr>login := c_str_at 34 ch, safelogin := escape_string env (c_str_at 34 ch),
                    build := ch_build ch, os := c_str_at 17 ch\<rparr>
          in if 4 < length (os a) then Inr (False, a, [])
             else (case sessionkey env (safelogin a) of
                     None \<Rightarrow> Inr (False, a, [CloseConnection])
                   | Some key \<Rightarrow>
                       let K = SetHexStr (ssl env) key (as_K a);
                           (ps, p) = AsByteArray (ssl env) 16 (SetRand (rand_reconnect env) (reconnectProof a))
                       in Inr (True, a\<lparr>as_K := K, reconnectProof := p\<rparr>,
                            [Send ([CMD_AUTH_RECONNECT_CHALLENGE, 0x00] @ take 16 ps @ replicate 16 0)])))"

text \<open>\<open>AUTH_RECONNECT_PROOF_C\<close> has 58 packed bytes: \<open>R1\<close> at 1, \<open>R2\<close> at 17.\<close>

definition HandleReconnectProof :: handler where
  "HandleReconnectProof env a =
     (if length (input a) < 58 then Inr (False, a, [])
      else let L = ssl env;
               lp = take 58 (input a);
               a = a\<lparr>input := drop 58 (input a)\<rparr>
           in if login a = [] \<or> GetNumBytes L (reconnectProof a) = 0 \<or> GetNumBytes L (as_K a) = 0
              then Inr (False, a, [])
              else let t1 = SetBinary L (take 16 (drop 1 lp)) BigNumber_new;
                       digest = SHA1 L (login a @ hash_of L t1 @ hash_of L (reconnectProof a) @ hash_of L (as_K a));
                       a = a\<lparr>reconnectProof := hashed L (reconnectProof a), as_K := hashed L (as_K a)\<rparr>
                   in if digest = take 20 (drop 17 lp)
                      then Inr (True, a\<lparr>authed := True\<rparr>, [Send [CMD_AUTH_RECONNECT_PROOF, 0x00, 0, 0]])
                      else Inr (False, a, [CloseConnection]))"

section \<open>Realm list and patch transfer\<close>

definition HandleRealmList :: handler where
  "HandleRealmList env a =
     (if length (input a) < 5 then Inr (False, a, [])
      else let a = a\<lparr>input := drop 5 (input a)\<rparr>
           in (case account env (safelogin a) of
                 None \<Rightarrow> Inr (False, a, [CloseConnection])
               | Some row \<Rightarrow>
                   let a = a\<lparr>realmList := UpdateIfNeed (now env) (realm_rows env) (realmList a)\<rparr>;
                       pkt = LoadRealmlist (realmcharacters env) (ac_id row) (build a) (accountSecurityLevel a) (realmList a)
                   in Inr (True, a, [Send ([CMD_REALM_LIST] @ le_bytes (of_nat (length pkt) :: uint16) @ pkt)])))"

definition InitPatch :: "AuthEnv \<Rightarrow> AuthSocket \<Rightarrow> AuthSocket \<times> AuthEffect list" where
  "InitPatch env a =
     (a\<lparr>patch := None\<rparr>,
      case patch a of
        Some h \<Rightarrow> if patch_handler_opens env then [StartPatch h] else [CloseConnection]
      | None \<Rightarrow> [CloseConnection])"

definition HandleXferResume :: handler where
  "HandleXferResume env a =
     (if length (input a) < 9 then Inr (False, a, [])
      else let start_pos = le_word (take 8 (drop 1 (input a))) :: uint64;
               a = a\<lparr>input := drop 9 (input a)\<rparr>
           in (case patch a of
                 None \<Rightarrow> Inr (False, a, [CloseConnection])
               | Some h \<Rightarrow>
                   (case filesize env h of
                      None \<Rightarrow> Inr (False, a, [CloseConnection])
                    | Some sz \<Rightarrow>
                        if sz \<le> unat start_pos \<or> \<not> lseek_ok env h start_pos then Inr (False, a, [CloseConnection])
                        else (case InitPatch env a of (a, eff) \<Rightarrow> Inr (True, a, eff)))))"

definition HandleXferCancel :: handler where
  "HandleXferCancel env a = Inr (True, a\<lparr>input := drop 1 (input a)\<rparr>, [CloseConnection])"

definition HandleXferAccept :: handler where
  "HandleXferAccept env a =
     (case InitPatch env (a\<lparr>input := drop 1 (input a)\<rparr>) of (a, eff) \<Rightarrow> Inr (True, a, eff))"

section \<open>Reading\<close>

datatype eStatus = STATUS_CONNECTED | STATUS_AUTHED

definition auth_table :: "(uint8 \<times> eStatus \<times> handler) list" where
  "auth_table =
     [(CMD_AUTH_LOGON_CHALLENGE, STATUS_CONNECTED, HandleLogonChallenge),
      (CMD_AUTH_LOGON_PROOF, STATUS_CONNECTED, HandleLogonProof),
      (CMD_AUTH_RECONNECT_CHALLENGE, STATUS_CONNECTED, HandleReconnectChallenge),
      (CMD_AUTH_RECONNECT_PROOF, STATUS_CONNECTED, HandleReconnectProof),
      (CMD_REALM_LIST, STATUS_AUTHED, HandleRealmList),
      (CMD_XFER_ACCEPT, STATUS_CONNECTED, HandleXferAccept),
      (CMD_XFER_RESUME, STATUS_CONNECTED, HandleXferResume),
      (CMD_XFER_CANCEL, STATUS_CONNECTED, HandleXferCancel)]"

definition find_handler :: "uint8 \<Rightarrow> bool \<Rightarrow> handler option" where
  "find_handler cmd is_authed =
     map_option (\<lambda>(c, st, h). h)
       (find (\<lambda>(c, st, h). c = cmd \<and> (st = STATUS_CONNECTED \<or> is_authed \<and> st = STATUS_AUTHED)) auth_table)"

text \<open>A handler that succeeds has taken at least its command byte.\<close>

lemmas handler_defs = HandleLogonChallenge_def HandleLogonProof_def HandleReconnectChallenge_def HandleReconnectProof_def
  HandleRealmList_def HandleXferAccept_def HandleXferResume_def HandleXferCancel_def

lemma SetVSFields_input [simp]: "input (fst (SetVSFields env rI a)) = input a"
  by (simp add: SetVSFields_def Let_def)

lemma check_login_input: "check_login env ch a = (r, a', eff) \<Longrightarrow> input a' = input a"
  by (auto simp: check_login_def check_account_def auto_register_def Let_def split: option.splits if_splits prod.splits
      dest: arg_cong[where f = "\<lambda>p. input (fst p)"])

lemma make_challenge_input: "make_challenge env a = (bs, a') \<Longrightarrow> input a' = input a"
  by (auto simp: make_challenge_def Let_def split: prod.splits)

lemma read_challenge_shrinks:
  "read_challenge a = (Some ch, a') \<Longrightarrow> length (input a') < length (input a)"
  by (auto simp: read_challenge_def Let_def split: if_splits)

lemma find_handler_cases:
  assumes "find_handler cmd au = Some h"
  obtains "cmd = 0x00" "h = HandleLogonChallenge" | "cmd = 0x01" "h = HandleLogonProof"
    | "cmd = 0x02" "h = HandleReconnectChallenge" | "cmd = 0x03" "h = HandleReconnectProof"
    | "cmd = 0x10" "h = HandleRealmList" "au" | "cmd = 0x32" "h = HandleXferAccept"
    | "cmd = 0x33" "h = HandleXferResume" | "cmd = 0x34" "h = HandleXferCancel"
  using assms by (auto simp: find_handler_def auth_table_def split: if_splits)

lemma check_proof_input: "check_proof A M1 env a = Inr (ok, a', eff) \<Longrightarrow> input a' = input a"
  by (auto simp: check_proof_def Let_def split: if_splits)

lemma offer_patch_input: "offer_patch env a = Inr (ok, a', eff) \<Longrightarrow> input a' = input a"
  by (auto simp: offer_patch_def Let_def split: if_splits option.splits)

lemma logon_challenge_shrinks:
  "HandleLogonChallenge env a = Inr (True, a', eff) \<Longrightarrow> length (input a') < length (input a)"
  by (auto simp: HandleLogonChallenge_def Let_def split: prod.splits option.splits if_splits
      dest!: read_challenge_shrinks check_login_input make_challenge_input)

lemma reconnect_challenge_shrinks:
  "HandleReconnectChallenge env a = Inr (True, a', eff) \<Longrightarrow> length (input a') < length (input a)"
  by (auto simp: HandleReconnectChallenge_def Let_def split: prod.splits option.splits if_splits
      dest!: read_challenge_shrinks)

lemma handler_shrinks:
  assumes "find_handler cmd au = Some h" "input a \<noteq> []" "h env a = Inr (True, a', eff)"
  shows "length (input a') < length (input a)"
  using assms(1)
proof (cases rule: find_handler_cases)
  case 1
  then show ?thesis using assms(3) logon_challenge_shrinks by blast
next
  case 2
  then show ?thesis using assms(3)
    by (auto simp: HandleLogonProof_def Let_def split: if_splits dest!: check_proof_input offer_patch_input)
next
  case 3
  then show ?thesis using assms(3) reconnect_challenge_shrinks by blast
next
  case 4
  then show ?thesis using assms(3) by (auto simp: HandleReconnectProof_def Let_def split: if_splits)
next
  case 5
  then show ?thesis using assms(3) by (auto simp: HandleRealmList_def Let_def split: if_splits option.splits)
next
  case 6
  then show ?thesis using assms(2,3) by (auto simp: HandleXferAccept_def InitPatch_def)
next
  case 7
  then show ?thesis using assms(2,3)
    by (auto simp: HandleXferResume_def InitPatch_def Let_def split: if_splits option.splits)
next
  case 8
  then show ?thesis using assms(2,3) by (auto simp: HandleXferCancel_def)
qed

text \<open>
  \<open>OnRead\<close>: \<open>envs i\<close> is the outside world when the \<open>i\<close>-th command of this call is handled.
\<close>

function OnRead_loop ::
  "(nat \<Rightarrow> AuthEnv) \<Rightarrow> nat \<Rightarrow> nat \<Rightarrow> AuthSocket \<Rightarrow> (AuthSocket \<times> AuthEffect list) result" where
  "OnRead_loop envs i challengesInARow a =
     (if input a = [] then Inr (a, [])
      else let cmd = hd (input a);
               n = (if cmd = CMD_AUTH_LOGON_CHALLENGE then Suc challengesInARow else challengesInARow)
           in if cmd = CMD_AUTH_LOGON_CHALLENGE \<and> n = 3 then Inr (a, [CloseConnection])
              else (case find_handler cmd (authed a) of
                      None \<Rightarrow> Inr (a, [])
                    | Some h \<Rightarrow>
                        bindR (h (envs i) a) (\<lambda>r.
                          if fst r
                          then bindR (OnRead_loop envs (Suc i) n (fst (snd r)))
                                 (\<lambda>r'. Inr (fst r', snd (snd r) @ snd r'))
                          else Inr (snd r))))"
  by pat_completeness auto
termination
  by (relation "measure (\<lambda>(envs, i, n, a). length (input a))")
    (auto intro: handler_shrinks)

declare OnRead_loop.simps [simp del]

definition OnRead :: "(nat \<Rightarrow> AuthEnv) \<Rightarrow> AuthSocket \<Rightarrow> (AuthSocket \<times> AuthEffect list) result" where
  "OnRead envs a = OnRead_loop envs 0 0 a"

text \<open>\<open>handle_input\<close> of the socket appends what has arrived to the buffer and calls \<open>OnRead\<close>.\<close>

definition handle_input :: "(nat \<Rightarrow> AuthEnv) \<Rightarrow> uint8 list \<Rightarrow> AuthSocket \<Rightarrow> (AuthSocket \<times> AuthEffect list) result" where
  "handle_input envs bytes a = OnRead envs (a\<lparr>input := input a @ bytes\<rparr>)"

end
