(* ===== verification/AuthClaims.thy ===== *)
theory AuthClaims
  imports AuthSocket
begin

text \<open>
  What the login server promises: a client with the right password is let in, a realm list goes only
  to a client whose proof was accepted, and reading always ends. And three ways in which it falls
  short: a proof that needs no password, a proof after a refused challenge, and the old numbers that
  a second challenge on the same connection sends.
\<close>

section \<open>Arrays that are up to date\<close>

definition hash_num :: "OpenSSL \<Rightarrow> nat \<Rightarrow> uint8 list" where
  "hash_num L n = rev (BN_bn2bin L n)"

definition cache_ok :: "OpenSSL \<Rightarrow> BigNumber \<Rightarrow> bool" where
  "cache_ok L x \<longleftrightarrow> smap_ok (arraysMap x) \<and>
     (\<forall>k arr. smap_find k (arraysMap x) = Some arr \<longrightarrow> arr = fresh_array L (bn x) k)"

lemma cache_ok_new [simp]: "arraysMap x = [] \<Longrightarrow> cache_ok L x"
  by (simp add: cache_ok_def smap_simps)

lemma AsByteArray_ok:
  assumes "cache_ok L x"
  shows "fst (AsByteArray L k x) = fresh_array L (bn x) (max k (GetNumBytes L x))"
    "cache_ok L (snd (AsByteArray L k x))" "bn (snd (AsByteArray L k x)) = bn x"
  using assms
  by (auto simp: AsByteArray_def Let_def cache_ok_def smap_simps max_def split: option.splits)

lemma fresh_array_min [simp]: "openssl_ok L \<Longrightarrow> fresh_array L n (BN_num_bytes L n) = hash_num L n"
  by (simp add: fresh_array_def hash_num_def)

lemma hash_of_ok: "openssl_ok L \<Longrightarrow> cache_ok L x \<Longrightarrow> hash_of L x = hash_num L (bn x)"
  by (simp add: hash_of_def hashed_bytes_def AsByteArray_ok GetNumBytes_def split_beta)
    (simp add: hash_num_def openssl_okD)

lemma bn_hashed [simp]: "bn (hashed L x) = bn x"
  by (auto simp: hashed_def hashed_bytes_def AsByteArray_def Let_def split: option.splits)

lemma cache_ok_hashed [simp]: "cache_ok L x \<Longrightarrow> cache_ok L (hashed L x)"
  using AsByteArray_ok(2)[of L x 0] by (auto simp: hashed_def hashed_bytes_def split: prod.splits)

lemma bn_sel [simp]:
  "bn (BigNumber_of n) = n" "bn BigNumber_new = 0" "bn (SetRand r x) = r" "bn (assign y x) = bn y"
  "arraysMap (BigNumber_of n) = []" "arraysMap BigNumber_new = []" "arraysMap (SetRand r x) = arraysMap x"
  "arraysMap (assign y x) = arraysMap x" "arraysMap (SetBinary L bs x) = arraysMap x"
  "openssl_ok L \<Longrightarrow> bn (SetBinary L bs x) = be_value (rev bs)"
  by (simp_all add: BigNumber_of_def BigNumber_new_def SetRand_def assign_def SetBinary_def openssl_okD)

lemma arraysMap_SetHexStr [simp]: "arraysMap (SetHexStr L str x) = arraysMap x"
  by (simp add: SetHexStr_def split: option.splits)

section \<open>The client\<close>

text \<open>
  What a client computes, from the published protocol: \<open>M\<close> over the name, the salt, its own \<open>A\<close>, the
  server's \<open>B\<close> and the session key, and the packet it sends.
\<close>

definition client_M :: "OpenSSL \<Rightarrow> cstring \<Rightarrow> nat \<Rightarrow> nat \<Rightarrow> nat \<Rightarrow> nat \<Rightarrow> uint8 list" where
  "client_M L name salt A B K =
     SHA1 L (hash_num L (be_value (rev (xor_bytes (SHA1 L (hash_num L srp_modulus)) (SHA1 L (hash_num L 7)))))
       @ SHA1 L name @ hash_num L salt @ hash_num L A @ hash_num L B @ hash_num L K)"

definition client_key :: "OpenSSL \<Rightarrow> uint8 list \<Rightarrow> nat" where
  "client_key L t = be_value (rev (interleaved_key L t))"

definition proof_packet :: "uint8 list \<Rightarrow> uint8 list \<Rightarrow> uint8 list" where
  "proof_packet As M1 = [CMD_AUTH_LOGON_PROOF] @ As @ M1 @ replicate 22 0"

text \<open>The fields of the challenge: \<open>B\<close> in front, the salt from 67 on.\<close>

definition packet_B :: "uint8 list \<Rightarrow> nat" where
  "packet_B body = be_value (rev (take 32 body))"

definition packet_salt :: "uint8 list \<Rightarrow> nat" where
  "packet_salt body = be_value (rev (take 32 (drop 67 body)))"

text \<open>The state in which a proof is judged by the numbers of the exchange and nothing older.\<close>

definition current_numbers :: "OpenSSL \<Rightarrow> AuthSocket \<Rightarrow> bool" where
  "current_numbers L a \<longleftrightarrow> bn (as_N a) = srp_modulus \<and> bn (as_g a) = 7 \<and> cache_ok L (as_N a) \<and> cache_ok L (as_g a)
     \<and> cache_ok L (as_s a) \<and> cache_ok L (as_B a) \<and> arraysMap (as_K a) = []"

lemma length_M [simp]: "openssl_ok L \<Longrightarrow> length (client_M L name salt A B K) = 20"
  by (simp add: client_M_def openssl_okD)

lemma srp_M_eq:
  assumes "openssl_ok L" "current_numbers L a" "arraysMap A = []" "arraysMap K = []"
  shows "bn (srp_M L A K a) = be_value (rev (client_M L (login a) (bn (as_s a)) (bn A) (bn (as_B a)) (bn K)))"
    "arraysMap (srp_M L A K a) = []"
  using assms by (simp_all add: srp_M_def Let_def hash_of_ok client_M_def current_numbers_def openssl_okD)

lemma proof_bytes:
  assumes "openssl_ok L" "arraysMap M = []" "bn M = be_value (rev bs)" "bs \<noteq> []" "last bs \<noteq> 0"
  shows "fst (AsByteArray L 0 M) = bs" "hash_of L M = bs"
proof -
  have c: "cache_ok L M" using assms(2) by simp
  note f = fresh_array_SetBinary[OF assms(1,4,5)]
  show "fst (AsByteArray L 0 M) = bs" using AsByteArray_ok(1)[OF c, of 0] f assms(3) by (simp add: GetNumBytes_def)
  show "hash_of L M = bs" using hash_of_ok[OF assms(1) c] f assms(1,3) by (metis fresh_array_min)
qed

lemma proof_accepted:
  fixes env :: AuthEnv
  defines "L \<equiv> ssl env"
  assumes ok: "openssl_ok L" "current_numbers L a" and As: "length As = 32" "be_value (rev As) \<noteq> 0"
    and build: "FindBuildInfo (build a) \<noteq> None"
    and t: "take 32 (fst (AsByteArray L 32 (srp_S L (SetBinary L As BigNumber_new) a))) = t"
    and M1: "M1 = client_M L (login a) (bn (as_s a)) (be_value (rev As)) (bn (as_B a)) (client_key L t)"
    and last: "last M1 \<noteq> 0" and inp: "input a = proof_packet As M1"
  shows "\<exists>a'. HandleLogonProof env a = Inr (True, a',
      [DbLogin (BN_bn2hex L (client_key L t)) (remote_address env) (GetLocaleByName (localizationName a)) (os a) (safelogin a),
       SendProof (SHA1 L (hash_num L (be_value (rev As)) @ M1 @ hash_num L (client_key L t))) a])
    \<and> authed a' \<and> safelogin a' = safelogin a"
proof -
  define A where "A = SetBinary L As BigNumber_new"
  define b where "b = a\<lparr>input := []\<rparr>"
  define K where "K = SetBinary L (srp_key L A b) (as_K b)"
  have same: "srp_S L A b = srp_S L A a" "srp_M L A K b = srp_M L A K a" for A K
    by (simp_all add: b_def srp_S_def srp_M_def)
  have m: "length M1 = 20" using ok M1 by simp
  then have inp75: "length (input a) = 75" "drop 75 (input a) = []" "take 32 (drop 1 (take 75 (input a))) = As"
    "take 20 (drop 33 (take 75 (input a))) = M1"
    using As inp by (simp_all add: proof_packet_def)
  have cb: "current_numbers L b" using ok(2) by (simp add: b_def current_numbers_def)
  have A: "bn A = be_value (rev As)" "arraysMap A = []" using ok(1) by (simp_all add: A_def)
  have K: "bn K = client_key L t" "arraysMap K = []"
    using t ok cb by (simp_all add: K_def srp_key_def same A_def client_key_def current_numbers_def)
  have ne: "M1 \<noteq> []" using m by auto
  have e: "bn (srp_M L A K b) = be_value (rev M1)" "arraysMap (srp_M L A K b) = []"
    using srp_M_eq[OF ok(1) cb A(2) K(2)] M1 by (simp_all add: A K b_def)
  note M = proof_bytes[OF ok(1) e(2,1) ne last]
  have h: "hash_of L A = hash_num L (be_value (rev As))" "hash_of L K = hash_num L (client_key L t)"
    using hash_of_ok[OF ok(1)] A K by simp_all
  have z: "\<not> isZero A" using As A by (simp add: isZero_def)
  have sp: "SendProof M2 (b\<lparr>as_B := p, as_N := q, as_g := r, as_s := u, as_K := v\<rparr>) = SendProof M2 a" for M2 p q r u v
    by (simp add: SendProof_def b_def)
  have chk: "check_proof As M1 env b = Inr (True,
      b\<lparr>as_B := hashed L (as_B b), as_N := hashed L (as_N b), as_g := hashed L (as_g b), as_s := hashed L (as_s b),
        as_K := hashed L K\<rparr>\<lparr>authed := True\<rparr>,
      [DbLogin (BN_bn2hex L (client_key L t)) (remote_address env) (GetLocaleByName (localizationName a)) (os a) (safelogin a),
       SendProof (SHA1 L (hash_num L (be_value (rev As)) @ M1 @ hash_num L (client_key L t))) a])"
    unfolding check_proof_def Let_def L_def[symmetric] A_def[symmetric] K_def[symmetric]
    using z m by (simp add: M h K sp) (simp add: b_def)
  show ?thesis unfolding HandleLogonProof_def Let_def inp75(2,3,4) b_def[symmetric]
    using inp75(1) build chk by (auto simp: b_def)
qed

section \<open>The state after a challenge\<close>

definition new_connection :: "AuthSocket \<Rightarrow> bool" where
  "new_connection a \<longleftrightarrow> (\<exists>rl inp. a = (AuthSocket_new rl)\<lparr>input := inp\<rparr>)"

definition untouched :: "AuthSocket \<Rightarrow> AuthSocket \<Rightarrow> bool" where
  "untouched a a' \<longleftrightarrow> as_N a' = as_N a \<and> as_g a' = as_g a \<and> as_b a' = as_b a \<and> as_B a' = as_B a \<and> as_K a' = as_K a
     \<and> reconnectProof a' = reconnectProof a \<and> authed a' = authed a \<and> login a' = login a \<and> build a' = build a \<and> input a' = input a"

definition login_step :: "AuthEnv \<Rightarrow> AuthSocket \<Rightarrow> uint8 \<Rightarrow> AuthSocket \<Rightarrow> AuthEffect list \<Rightarrow> bool" where
  "login_step env a r a' eff \<longleftrightarrow>
     untouched a a' \<and> (arraysMap (as_s a) = [] \<longrightarrow> cache_ok (ssl env) (as_s a'))
     \<and> (r \<noteq> WOW_SUCCESS \<longrightarrow> a' = a) \<and> (\<forall>e \<in> set eff. \<forall>bs. e \<noteq> Send bs)"

lemma SetVSFields_sel:
  assumes "SetVSFields env rI a = (a', eff)"
  shows "login_step env a WOW_SUCCESS a' eff"
  using assms by (auto simp: SetVSFields_def Let_def untouched_def login_step_def)

lemma login_step_rank:
  "login_step env a WOW_SUCCESS b eff \<Longrightarrow>
     login_step env a WOW_SUCCESS (b\<lparr>accountSecurityLevel := n, localizationName := l\<rparr>) eff"
  by (simp add: login_step_def untouched_def)

lemma check_account_sel: "check_account env ch row a = (r, a', eff) \<Longrightarrow> login_step env a r a' eff"
proof -
  assume c: "check_account env ch row a = (r, a', eff)"
  show ?thesis
  proof (cases "account_refused env row")
    case None
    define p where "p = (if length (ac_v row) \<noteq> 64 \<or> length (ac_s row) \<noteq> 64 then SetVSFields env (ac_sha_pass_hash row) a
       else (a\<lparr>as_s := SetHexStr (ssl env) (ac_s row) (as_s a), as_v := SetHexStr (ssl env) (ac_v row) (as_v a)\<rparr>, []))"
    obtain b eff' where pb: "p = (b, eff')" by fastforce
    have "login_step env a WOW_SUCCESS b eff'"
    proof (cases "length (ac_v row) \<noteq> 64 \<or> length (ac_s row) \<noteq> 64")
      case True
      then show ?thesis using pb SetVSFields_sel[of env "ac_sha_pass_hash row" a b eff'] by (simp add: p_def)
    next
      case False
      then have "b = a\<lparr>as_s := SetHexStr (ssl env) (ac_s row) (as_s a), as_v := SetHexStr (ssl env) (ac_v row) (as_v a)\<rparr>"
        "eff' = []" using pb by (auto simp: p_def)
      then show ?thesis by (simp add: login_step_def untouched_def)
    qed
    then show ?thesis using c login_step_rank
      by (simp only: check_account_def None option.case p_def[symmetric] pb prod.case Let_def prod.inject) blast
  next
    case (Some q)
    then show ?thesis using c by (simp add: check_account_def login_step_def untouched_def)
  qed
qed

lemma auto_register_sel: "auto_register env ch a = (r, a', eff) \<Longrightarrow> login_step env a r a' eff"
proof -
  assume c: "auto_register env ch a = (r, a', eff)"
  define a1 where "a1 = a\<lparr>safelogin := map towupper (safelogin a)\<rparr>"
  define enc where "enc = hexEncodeByteArray (SHA1 (ssl env) (safelogin a1 @ 58 # safelogin a1))"
  obtain b eff' where v: "SetVSFields env enc a1 = (b, eff')" by fastforce
  have s: "login_step env a1 WOW_SUCCESS b eff'" using SetVSFields_sel[OF v] .
  show ?thesis
    using c s by (auto simp: auto_register_def Let_def a1_def[symmetric] enc_def[symmetric] v split: if_splits)
      (auto simp: login_step_def untouched_def a1_def)
qed

lemma check_login_sel: "check_login env ch a = (r, a', eff) \<Longrightarrow> login_step env a r a' eff"
  by (auto simp: check_login_def split: if_splits option.splits dest: check_account_sel auto_register_sel)
    (simp_all add: login_step_def untouched_def)

lemma make_challenge_sel:
  assumes "openssl_ok (ssl env)" "current_numbers (ssl env) a" "arraysMap (as_B a) = []"
    "make_challenge env a = (body, a')"
  shows "current_numbers (ssl env) a'" "bn (as_b a') = rand_b env" "bn (as_s a') = bn (as_s a)" "as_v a' = as_v a"
    "bn (as_B a') = (bn (as_v a) * 3 + 7 ^ rand_b env mod srp_modulus) mod srp_modulus"
    "BN_num_bytes (ssl env) (bn (as_B a')) = 32 \<Longrightarrow> packet_B body = bn (as_B a')"
    "BN_num_bytes (ssl env) (bn (as_B a')) = 32 \<Longrightarrow> BN_num_bytes (ssl env) (bn (as_s a)) = 32 \<Longrightarrow>
       packet_salt body = bn (as_s a)"
proof -
  define L where "L = ssl env"
  note ok = assms(1)[folded L_def]
  define B1 where "B1 = assign (mod_bn L (plus_bn L (times_bn L (as_v a) (BigNumber_of 3)) (gmod env a)) (as_N a)) (as_B a)"
  have N: "bn (as_N a) = srp_modulus" "1 < srp_modulus" "bn (as_g a) = 7" and c: "cache_ok L (as_N a)" "cache_ok L (as_g a)"
    "cache_ok L (as_s a)" "cache_ok L B1" "arraysMap (as_K a) = []"
    using assms(2,3) by (auto simp: current_numbers_def L_def B1_def srp_modulus_def)
  have B: "bn B1 = (bn (as_v a) * 3 + 7 ^ rand_b env mod srp_modulus) mod srp_modulus"
    using N ok by (simp add: B1_def mod_bn_def plus_bn_def times_bn_def gmod_def ModExp_def openssl_okD L_def[symmetric])
  have a': "a' = a\<lparr>as_b := SetRand (rand_b env) (as_b a), as_B := snd (AsByteArray L 32 B1), as_g := snd (AsByteArray L 0 (as_g a)),
      as_N := snd (AsByteArray L 32 (as_N a)), as_s := snd (AsByteArray L 0 (as_s a))\<rparr>"
    and body: "body = take 32 (fst (AsByteArray L 32 B1)) @ [1] @ take 1 (fst (AsByteArray L 0 (as_g a))) @ [32]
      @ take 32 (fst (AsByteArray L 32 (as_N a))) @ take (GetNumBytes L (as_s a)) (fst (AsByteArray L 0 (as_s a)))
      @ take 16 (fst (AsByteArray L 16 (SetRand (rand_unk3 env) BigNumber_new))) @ [0]"
    using assms(4) by (auto simp: make_challenge_def Let_def B1_def L_def split_beta)
  show "current_numbers (ssl env) a'"
    using N c unfolding L_def[symmetric] by (simp add: a' current_numbers_def AsByteArray_ok)
  show "bn (as_b a') = rand_b env" "bn (as_s a') = bn (as_s a)" "as_v a' = as_v a"
    "bn (as_B a') = (bn (as_v a) * 3 + 7 ^ rand_b env mod srp_modulus) mod srp_modulus"
    using c B by (simp_all add: a' AsByteArray_ok)
  have len: "length (fresh_array L n (max k (BN_num_bytes L n))) = max k (BN_num_bytes L n)" for n k
    using ok by (simp add: fresh_array_def openssl_okD)
  assume "BN_num_bytes (ssl env) (bn (as_B a')) = 32"
  then have n: "BN_num_bytes L (bn B1) = 32" using c(4) by (simp add: a' AsByteArray_ok L_def)
  then show "packet_B body = bn (as_B a')"
    using fresh_array_exact[OF ok n] c(4) by (simp add: packet_B_def body a' AsByteArray_ok GetNumBytes_def)
  assume "BN_num_bytes (ssl env) (bn (as_s a)) = 32"
  then have ns: "BN_num_bytes L (bn (as_s a)) = 32" by (simp add: L_def)
  have "BN_num_bytes L 7 = Suc 0" using BN_num_bytes_exact[OF ok, of 7 0] by simp
  moreover have "BN_num_bytes L srp_modulus = 32"
    using BN_num_bytes_exact[OF ok, of srp_modulus 31] by (simp add: srp_modulus_def)
  ultimately show "packet_salt body = bn (as_s a)"
    using fresh_array_exact[OF ok n] fresh_array_exact[OF ok ns] c N len[of 7 0] len[of srp_modulus 32]
    by (simp add: packet_salt_def body AsByteArray_ok GetNumBytes_def n ns del: fresh_array_min)
qed

definition with_login :: "AuthEnv \<Rightarrow> uint8 list \<Rightarrow> AuthSocket \<Rightarrow> AuthSocket" where
  "with_login env ch a =
     a\<lparr>login := c_str_at 34 ch, safelogin := escape_string env (c_str_at 34 ch), build := ch_build ch, os := c_str_at 17 ch\<rparr>"

lemma logon_challenge_cases:
  assumes "HandleLogonChallenge env a = Inr (True, a', eff)"
  obtains (accepted) ch a0 a1 eff' body where "read_challenge a = (Some ch, a0)"
      "check_login env ch (with_login env ch a0) = (WOW_SUCCESS, a1, eff')" "make_challenge env a1 = (body, a')"
      "eff = eff' @ [Send ([CMD_AUTH_LOGON_CHALLENGE, 0x00, WOW_SUCCESS] @ body)]"
  | (refused) ch a0 eff' result where "read_challenge a = (Some ch, a0)" "result \<noteq> WOW_SUCCESS"
      "check_login env ch (with_login env ch a0) = (result, a', eff')" "a' = with_login env ch a0"
      "eff = eff' @ [Send [CMD_AUTH_LOGON_CHALLENGE, 0x00, result]]"
proof -
  obtain ch a0 where r: "read_challenge a = (Some ch, a0)"
    using assms by (cases "read_challenge a"; cases "fst (read_challenge a)") (auto simp: HandleLogonChallenge_def)
  obtain result a1 eff' where k: "check_login env ch (with_login env ch a0) = (result, a1, eff')"
    using prod_cases3 by blast
  have w: "a0\<lparr>login := c_str_at 34 ch, build := ch_build ch, os := c_str_at 17 ch, safelogin := escape_string env (c_str_at 34 ch)\<rparr>
      = with_login env ch a0"
    by (simp add: with_login_def)
  have h: "HandleLogonChallenge env a =
      (if 4 < length (c_str_at 17 ch)
       then Inr (False, a0\<lparr>login := c_str_at 34 ch, build := ch_build ch, os := c_str_at 17 ch\<rparr>, [])
       else if result = WOW_SUCCESS
       then if 32 < GetNumBytes (ssl env) (gmod env a1) then Inl AssertFailed
            else (case make_challenge env a1 of (body, b) \<Rightarrow>
              Inr (True, b, eff' @ [Send ([CMD_AUTH_LOGON_CHALLENGE, 0x00, result] @ body)]))
       else Inr (True, a1, eff' @ [Send [CMD_AUTH_LOGON_CHALLENGE, 0x00, result]]))"
    by (simp add: HandleLogonChallenge_def r Let_def w k)
  show thesis
  proof (cases "result = WOW_SUCCESS")
    case True
    then show ?thesis using accepted[OF r] k h assms by (auto split: if_splits prod.splits)
  next
    case False
    moreover have "a1 = with_login env ch a0" using check_login_sel[OF k] False by (auto simp: login_step_def)
    ultimately show ?thesis using refused[OF r False] k h assms by (auto split: if_splits)
  qed
qed

lemma new_connection_read:
  assumes "new_connection a" "read_challenge a = (x, a0)"
  obtains rl inp where "a0 = (AuthSocket_new rl)\<lparr>input := inp\<rparr>"
proof -
  from assms(1) obtain rl inp where a: "a = (AuthSocket_new rl)\<lparr>input := inp\<rparr>" unfolding new_connection_def by blast
  have "\<exists>inp'. a0 = (AuthSocket_new rl)\<lparr>input := inp'\<rparr>"
    using assms(2) unfolding a read_challenge_def
    by (cases "length inp < 35"; cases "unat (le_word (drop 2 (take 4 inp)) :: uint16) < 31 \<or> length (drop 4 inp) < unat (le_word (drop 2 (take 4 inp)) :: uint16)")
      (auto simp: Let_def split: if_splits)
  then show thesis using that by blast
qed

text \<open>The numbers after an accepted and after a refused challenge on a new connection.\<close>

definition challenged :: "AuthEnv \<Rightarrow> AuthSocket \<Rightarrow> uint8 list \<Rightarrow> bool" where
  "challenged env a body \<longleftrightarrow> bn (as_b a) = rand_b env
     \<and> bn (as_B a) = (bn (as_v a) * 3 + 7 ^ rand_b env mod srp_modulus) mod srp_modulus
     \<and> (BN_num_bytes (ssl env) (bn (as_B a)) = 32 \<longrightarrow> packet_B body = bn (as_B a))
     \<and> (BN_num_bytes (ssl env) (bn (as_B a)) = 32 \<longrightarrow> BN_num_bytes (ssl env) (bn (as_s a)) = 32 \<longrightarrow>
          packet_salt body = bn (as_s a))"

definition blank :: "AuthSocket \<Rightarrow> bool" where
  "blank a \<longleftrightarrow> bn (as_v a) = 0 \<and> bn (as_b a) = 0 \<and> bn (as_B a) = 0 \<and> bn (as_s a) = 0
     \<and> arraysMap (as_s a) = [] \<and> arraysMap (as_B a) = []"

lemma blank_new:
  assumes "new_connection a" "read_challenge a = (Some ch, a0)"
  shows "current_numbers L (with_login env ch a0)" "blank (with_login env ch a0)"
proof -
  obtain rl inp where "a0 = (AuthSocket_new rl)\<lparr>input := inp\<rparr>" using new_connection_read[OF assms] by blast
  then show "current_numbers L (with_login env ch a0)" "blank (with_login env ch a0)"
    by (simp_all add: with_login_def current_numbers_def blank_def AuthSocket_new_def)
qed

lemma after_accepted:
  assumes ok: "openssl_ok (ssl env)" and a: "new_connection a" and h: "HandleLogonChallenge env a = Inr (True, a', eff)"
    and s: "Send ([CMD_AUTH_LOGON_CHALLENGE, 0x00, WOW_SUCCESS] @ body) \<in> set eff"
  shows "current_numbers (ssl env) a' \<and> challenged env a' body"
  using h
proof (cases rule: logon_challenge_cases)
  case (accepted ch a0 a1 eff' body')
  note st = check_login_sel[OF accepted(2), unfolded login_step_def untouched_def]
  note bl = blank_new[OF a accepted(1), where env = env]
  have "current_numbers (ssl env) a1" "arraysMap (as_B a1) = []"
    using st bl unfolding current_numbers_def blank_def by simp_all
  note m = make_challenge_sel[OF ok this accepted(3)]
  have "body' = body" using s st accepted(4) by auto
  then show ?thesis using m unfolding challenged_def by simp
next
  case (refused ch a0 eff' result)
  then show ?thesis using s check_login_sel[OF refused(3), unfolded login_step_def] by auto
qed

lemma after_refused:
  assumes a: "new_connection a" and h: "HandleLogonChallenge env a = Inr (True, a', eff)"
    and s: "Send [CMD_AUTH_LOGON_CHALLENGE, 0x00, r] \<in> set eff" "r \<noteq> WOW_SUCCESS"
  shows "current_numbers L a' \<and> blank a'"
  using h
proof (cases rule: logon_challenge_cases)
  case (accepted ch a0 a1 eff' body')
  then show ?thesis using s check_login_sel[OF accepted(2), unfolded login_step_def] by auto
next
  case (refused ch a0 eff' result)
  then show ?thesis using blank_new[OF a refused(1)] by simp
qed

section \<open>The shared secret\<close>

text \<open>
  The client knows the exponent \<open>x\<close> of its password and has drawn \<open>ac\<close>; all else it reads from the
  challenge.
\<close>

definition client_A :: "nat \<Rightarrow> nat" where
  "client_A ac = 7 ^ ac mod srp_modulus"

definition client_u :: "OpenSSL \<Rightarrow> nat \<Rightarrow> uint8 list \<Rightarrow> nat" where
  "client_u L ac body = be_value (rev (SHA1 L (hash_num L (client_A ac) @ hash_num L (packet_B body))))"

definition client_S :: "OpenSSL \<Rightarrow> nat \<Rightarrow> nat \<Rightarrow> uint8 list \<Rightarrow> nat" where
  "client_S L x ac body =
     nat ((int (packet_B body) - 3 * 7 ^ x) ^ (ac + client_u L ac body * x) mod int srp_modulus)"

definition client_K :: "OpenSSL \<Rightarrow> nat \<Rightarrow> nat \<Rightarrow> uint8 list \<Rightarrow> nat" where
  "client_K L x ac body = client_key L (hash_num L (client_S L x ac body))"

definition client_M1 :: "OpenSSL \<Rightarrow> nat \<Rightarrow> nat \<Rightarrow> cstring \<Rightarrow> uint8 list \<Rightarrow> uint8 list" where
  "client_M1 L x ac name body =
     client_M L name (packet_salt body) (client_A ac) (packet_B body) (client_K L x ac body)"

lemma srp_agree:
  fixes N :: nat
  assumes N: "1 < N" and B: "B = (7 ^ x mod N * 3 + 7 ^ b mod N) mod N"
  shows "nat ((int B - 3 * 7 ^ x) ^ (ac + u * x) mod int N) = (7 ^ ac mod N * ((7 ^ x mod N) ^ u mod N)) ^ b mod N"
proof -
  have "int B mod int N = (7 ^ x mod int N * 3 + 7 ^ b mod int N) mod int N"
    using B by (simp add: zmod_int)
  also have "\<dots> = (7 ^ x * 3 + 7 ^ b) mod int N" by (rule mod_add_cong) (simp_all add: mod_mult_left_eq)
  finally have "(int B - 3 * 7 ^ x) mod int N = (7 ^ x * 3 + 7 ^ b - 3 * 7 ^ x) mod int N"
    by (metis mod_diff_left_eq)
  then have "(int B - 3 * 7 ^ x) mod int N = 7 ^ b mod int N" by simp
  then have "(int B - 3 * 7 ^ x) ^ (ac + u * x) mod int N = (7 ^ b) ^ (ac + u * x) mod int N"
    by (metis power_mod)
  also have "\<dots> = int ((7 ^ b) ^ (ac + u * x) mod N)" by (simp add: zmod_int)
  finally have "nat ((int B - 3 * 7 ^ x) ^ (ac + u * x) mod int N) = (7 ^ b) ^ (ac + u * x) mod N" by simp
  moreover have "((7 :: nat) ^ b) ^ (ac + u * x) = (7 ^ ac * (7 ^ x) ^ u) ^ b"
    by (simp add: power_mult[symmetric] power_add power_mult_distrib algebra_simps)
  moreover have "(7 ^ ac * (7 ^ x) ^ u) ^ b mod N = (7 ^ ac mod N * ((7 ^ x mod N) ^ u mod N)) ^ b mod N"
    by (metis mod_mult_eq power_mod mod_mod_trivial)
  ultimately show ?thesis by simp
qed

lemma be_value_hash_num [simp]: "openssl_ok L \<Longrightarrow> be_value (rev (hash_num L n)) = n"
  by (simp add: hash_num_def openssl_okD)

lemma length_hash_num [simp]: "openssl_ok L \<Longrightarrow> length (hash_num L n) = BN_num_bytes L n"
  by (simp add: hash_num_def openssl_okD)

lemma num_bytes_pos: "openssl_ok L \<Longrightarrow> BN_num_bytes L n = Suc k \<Longrightarrow> 0 < n"
  using openssl_okD(5)[of L n 0] by (cases "n = 0") auto

lemma server_S:
  assumes ok: "openssl_ok L" "current_numbers L a" and A: "length As = 32"
  shows "srp_S L (SetBinary L As BigNumber_new) a = BigNumber_of
     ((be_value (rev As) * (bn (as_v a) ^ be_value (rev (SHA1 L (hash_num L (be_value (rev As)) @ hash_num L (bn (as_B a)))))
        mod srp_modulus)) ^ bn (as_b a) mod srp_modulus)"
proof -
  have "1 < srp_modulus" by (simp add: srp_modulus_def)
  then show ?thesis using ok
    by (simp add: srp_S_def Let_def ModExp_def times_bn_def hash_of_ok current_numbers_def openssl_okD)
qed

section \<open>Claims\<close>

text \<open>
  C3. A client with the right password is let in, when no number of the exchange is short. After an
  accepted challenge that is the first of a new connection, a client that knows the exponent \<open>x\<close> of the
  stored verifier and follows the protocol gets its session key stored for the account it named, an
  answer with the \<open>M2\<close> it expects, and is authenticated, provided that \<open>B\<close>, the salt, the client's \<open>A\<close> and
  the shared secret \<open>S\<close> are each exactly 32 bytes long and the last byte of \<open>M1\<close> is not zero. These
  conditions are real: a second challenge sends the old \<open>B\<close>, and shorter numbers are padded at the wrong
  end or compared past their end, so that such a client can be refused.
\<close>

theorem honest_client_accepted:
  fixes env env' :: AuthEnv
  defines "L \<equiv> ssl env"
  assumes ok: "openssl_ok L" "ssl env' = L" and new: "new_connection a"
    and chal: "HandleLogonChallenge env a = Inr (True, a1, eff)"
    and reply: "Send ([CMD_AUTH_LOGON_CHALLENGE, 0x00, WOW_SUCCESS] @ body) \<in> set eff"
    and verifier: "bn (as_v a1) = 7 ^ x mod srp_modulus" and build: "FindBuildInfo (build a1) \<noteq> None"
    and lengths: "BN_num_bytes L (bn (as_B a1)) = 32" "BN_num_bytes L (bn (as_s a1)) = 32"
      "BN_num_bytes L (client_A ac) = 32" "BN_num_bytes L (client_S L x ac body) = 32"
    and last: "last (client_M1 L x ac (login a1) body) \<noteq> 0"
  shows "\<exists>a2. HandleLogonProof env' (a1\<lparr>input := proof_packet (hash_num L (client_A ac)) (client_M1 L x ac (login a1) body)\<rparr>)
     = Inr (True, a2, [DbLogin (BN_bn2hex L (client_K L x ac body)) (remote_address env')
           (GetLocaleByName (localizationName a1)) (os a1) (safelogin a1),
         SendProof (SHA1 L (hash_num L (client_A ac) @ client_M1 L x ac (login a1) body @ hash_num L (client_K L x ac body))) a1])
     \<and> authed a2"
proof -
  define As where "As = hash_num L (client_A ac)"
  define a2 where "a2 = a1\<lparr>input := proof_packet As (client_M1 L x ac (login a1) body)\<rparr>"
  have cur: "current_numbers L a1" and ch: "challenged env a1 body"
    using after_accepted[OF _ new chal reply] ok by (simp_all add: L_def)
  have As: "length As = 32" "be_value (rev As) = client_A ac" using ok lengths by (simp_all add: As_def)
  have B: "packet_B body = bn (as_B a1)" "packet_salt body = bn (as_s a1)"
    using ch lengths by (simp_all add: challenged_def L_def)
  have cur2: "current_numbers L a2" using cur by (simp add: a2_def current_numbers_def)
  have "1 < srp_modulus" by (simp add: srp_modulus_def)
  from srp_agree[OF this, of _ x "rand_b env" ac "client_u L ac body"] ch verifier B
  have S: "srp_S L (SetBinary L As BigNumber_new) a2 = BigNumber_of (client_S L x ac body)"
    unfolding server_S[OF ok(1) cur2 As(1)]
    by (simp add: a2_def As client_S_def client_A_def client_u_def challenged_def)
  have t: "take 32 (fst (AsByteArray L 32 (srp_S L (SetBinary L As BigNumber_new) a2))) = hash_num L (client_S L x ac body)"
    using AsByteArray_ok(1)[of L "BigNumber_of (client_S L x ac body)" 32] lengths(4) ok
      fresh_array_min[of L "client_S L x ac body"] by (simp add: S GetNumBytes_def)
  have M1: "client_M1 L x ac (login a1) body = client_M L (login a2) (bn (as_s a2)) (be_value (rev As)) (bn (as_B a2))
      (client_key L (hash_num L (client_S L x ac body)))"
    by (simp add: client_M1_def client_K_def B As a2_def)
  have nz: "be_value (rev As) \<noteq> 0" using num_bytes_pos[OF ok(1), of "client_A ac" 31] lengths(3) As by simp
  have *: "openssl_ok (ssl env')" "current_numbers (ssl env') a2" using ok cur2 by simp_all
  have "FindBuildInfo (build a2) \<noteq> None" "input a2 = proof_packet As (client_M1 L x ac (login a1) body)"
    using build by (simp_all add: a2_def)
  note acc = proof_accepted[OF * As(1) nz this(1) t[folded ok(2)] M1[folded ok(2)] _ this(2)[folded ok(2)]]
  have sel: "SendProof M2 (a1\<lparr>input := i\<rparr>) = SendProof M2 a1" for M2 i
    by (simp add: SendProof_def)
  have "a2 = a1\<lparr>input := proof_packet (hash_num L (client_A ac)) (client_M1 L x ac (login a1) body)\<rparr>"
    by (simp add: a2_def As_def)
  then show ?thesis using acc last by (simp add: ok(2) As(2) sel client_K_def) blast
qed

lemma current_input [simp]: "current_numbers L (a\<lparr>input := i\<rparr>) = current_numbers L a"
  by (simp add: current_numbers_def)

lemma SendProof_input [simp]: "SendProof M2 (a\<lparr>input := i\<rparr>) = SendProof M2 a"
  by (simp add: SendProof_def)

lemma hash_num_0: "openssl_ok L \<Longrightarrow> hash_num L 0 = []"
  using openssl_okD(5)[of L 0 0] length_hash_num[of L 0] by (metis le_zero_eq length_0_conv zero_less_one power_0)

lemma secret_0: "openssl_ok L \<Longrightarrow> fst (AsByteArray L 32 (BigNumber_of 0)) = replicate 32 0"
  using AsByteArray_ok(1)[of L "BigNumber_of 0" 32] hash_num_0[of L] openssl_okD(5)[of L 0 0]
  by (simp add: fresh_array_def hash_num_def GetNumBytes_def)

lemma hash_num_1: "openssl_ok L \<Longrightarrow> hash_num L 1 = [1]"
proof -
  assume ok: "openssl_ok L"
  have "BN_num_bytes L 1 = Suc 0" using BN_num_bytes_exact[OF ok, of 1 0] by simp
  then show ?thesis using ok be_value_inj[of "BN_bn2bin L 1" "[1]"]
    by (simp add: hash_num_def openssl_okD be_value_def[of "[1]"])
qed

lemma secret_1: "openssl_ok L \<Longrightarrow> fst (AsByteArray L 32 (BigNumber_of 1)) = replicate 31 0 @ [1]"
  using AsByteArray_ok(1)[of L "BigNumber_of 1" 32] hash_num_1[of L] length_hash_num[of L 1]
  by (simp add: fresh_array_def hash_num_def GetNumBytes_def)

text \<open>
  C24. A client without the password is let in. The handler refuses only \<open>A = 0\<close>: with \<open>A\<close> equal to
  the modulus the shared secret is 0 whatever the verifier and the server's secret are, so the proof
  can be computed from the challenge alone, and the session key of the named account is replaced.
\<close>

theorem modulus_bypass:
  fixes env env' :: AuthEnv
  defines "L \<equiv> ssl env" and "K \<equiv> client_key (ssl env) (replicate 32 0)"
  assumes ok: "openssl_ok L" "ssl env' = L" and new: "new_connection a"
    and chal: "HandleLogonChallenge env a = Inr (True, a1, eff)"
    and reply: "Send ([CMD_AUTH_LOGON_CHALLENGE, 0x00, WOW_SUCCESS] @ body) \<in> set eff"
    and build: "FindBuildInfo (build a1) \<noteq> None" and rand: "0 < rand_b env"
    and lengths: "BN_num_bytes L (bn (as_B a1)) = 32" "BN_num_bytes L (bn (as_s a1)) = 32"
    and M1: "M1 = client_M L (login a1) (packet_salt body) srp_modulus (packet_B body) K" "last M1 \<noteq> 0"
  shows "\<exists>a2. HandleLogonProof env' (a1\<lparr>input := proof_packet (hash_num L srp_modulus) M1\<rparr>)
     = Inr (True, a2, [DbLogin (BN_bn2hex L K) (remote_address env') (GetLocaleByName (localizationName a1)) (os a1)
           (safelogin a1), SendProof (SHA1 L (hash_num L srp_modulus @ M1 @ hash_num L K)) a1])
     \<and> authed a2"
proof -
  define As where "As = hash_num L srp_modulus"
  define a2 where "a2 = a1\<lparr>input := proof_packet As M1\<rparr>"
  have cur: "current_numbers L a1" and ch: "challenged env a1 body"
    using after_accepted[OF _ new chal reply] ok by (simp_all add: L_def)
  have "BN_num_bytes L srp_modulus = 32" using BN_num_bytes_exact[OF ok(1), of srp_modulus 31] by (simp add: srp_modulus_def)
  then have As: "length As = 32" "be_value (rev As) = srp_modulus" "be_value (rev As) \<noteq> 0"
    using ok by (simp_all add: As_def) (simp add: srp_modulus_def)
  have cur2: "current_numbers L a2" using cur by (simp add: a2_def)
  have S: "srp_S L (SetBinary L As BigNumber_new) a2 = BigNumber_of 0"
    unfolding server_S[OF ok(1) cur2 As(1)] As(2) using rand ch
    by (simp add: a2_def challenged_def power_mult_distrib)
  have t: "take 32 (fst (AsByteArray L 32 (srp_S L (SetBinary L As BigNumber_new) a2))) = replicate 32 0"
    unfolding S secret_0[OF ok(1)] by simp
  have m: "M1 = client_M L (login a2) (bn (as_s a2)) (be_value (rev As)) (bn (as_B a2)) (client_key L (replicate 32 0))"
    using M1 ch lengths by (simp add: a2_def As K_def challenged_def L_def[symmetric])
  have *: "openssl_ok (ssl env')" "current_numbers (ssl env') a2" using ok cur2 by simp_all
  have "FindBuildInfo (build a2) \<noteq> None" "input a2 = proof_packet As M1" using build by (simp_all add: a2_def)
  note acc = proof_accepted[OF * As(1,3) this(1) t[folded ok(2)] m[folded ok(2)] M1(2) this(2)]
  have "a2 = a1\<lparr>input := proof_packet (hash_num L srp_modulus) M1\<rparr>" by (simp add: a2_def As_def)
  then show ?thesis using acc by (simp add: ok(2) As(2) K_def L_def[symmetric]) blast
qed

text \<open>
  C23. A refused challenge opens the door. When the challenge is answered with a refusal (the account
  or the address is banned, the account is locked to another address) the numbers of the exchange
  stay zero but the account is remembered; a proof for the shared secret 1, which needs no password,
  is then accepted for that account.
\<close>

theorem refused_challenge_logs_in:
  fixes env env' :: AuthEnv
  defines "L \<equiv> ssl env'" and "K \<equiv> client_key (ssl env') (replicate 31 0 @ [1])"
  assumes ok: "openssl_ok L" and new: "new_connection a"
    and chal: "HandleLogonChallenge env a = Inr (True, a1, eff)"
    and reply: "Send [CMD_AUTH_LOGON_CHALLENGE, 0x00, r] \<in> set eff" "r \<noteq> WOW_SUCCESS"
    and build: "FindBuildInfo (build a1) \<noteq> None"
    and M1: "M1 = client_M L (login a1) 0 1 0 K" "last M1 \<noteq> 0"
  shows "\<exists>a2. HandleLogonProof env' (a1\<lparr>input := proof_packet (1 # replicate 31 0) M1\<rparr>)
     = Inr (True, a2, [DbLogin (BN_bn2hex L K) (remote_address env') (GetLocaleByName (localizationName a1)) (os a1)
           (safelogin a1), SendProof (SHA1 L (hash_num L 1 @ M1 @ hash_num L K)) a1])
     \<and> authed a2"
proof -
  define As :: "uint8 list" where "As = 1 # replicate 31 0"
  define a2 where "a2 = a1\<lparr>input := proof_packet As M1\<rparr>"
  have cur: "current_numbers L a1" and bl: "blank a1" using after_refused[OF new chal reply] by blast+
  have As: "length As = 32" "be_value (rev As) = 1" by (simp_all add: As_def be_value_zeros del: replicate_Suc)
  have cur2: "current_numbers L a2" using cur by (simp add: a2_def)
  have "1 < srp_modulus" by (simp add: srp_modulus_def)
  then have S: "srp_S L (SetBinary L As BigNumber_new) a2 = BigNumber_of 1"
    unfolding server_S[OF ok cur2 As(1)] using bl by (simp add: a2_def blank_def)
  have t: "take 32 (fst (AsByteArray L 32 (srp_S L (SetBinary L As BigNumber_new) a2))) = replicate 31 0 @ [1]"
    unfolding S secret_1[OF ok] by simp
  have m: "M1 = client_M L (login a2) (bn (as_s a2)) (be_value (rev As)) (bn (as_B a2)) (client_key L (replicate 31 0 @ [1]))"
    using M1 bl by (simp add: a2_def As K_def blank_def L_def[symmetric])
  have b2: "FindBuildInfo (build a2) \<noteq> None" "input a2 = proof_packet As M1" using build by (simp_all add: a2_def)
  have nz: "be_value (rev As) \<noteq> 0" by (simp add: As)
  note acc = proof_accepted[OF ok[unfolded L_def] cur2[unfolded L_def] As(1) nz b2(1) t[unfolded L_def] m[unfolded L_def] M1(2) b2(2)]
  have "a2 = a1\<lparr>input := proof_packet (1 # replicate 31 0) M1\<rparr>" by (simp add: a2_def As_def)
  then show ?thesis using acc by (simp add: As(2) K_def L_def[symmetric] del: replicate_Suc) blast
qed

section \<open>Whole connections\<close>

text \<open>
  A connection in any outside world: data arrives in pieces, every piece is handled by \<open>OnRead\<close>. The
  second argument is all that happened so far.
\<close>

inductive auth_session :: "AuthSocket \<Rightarrow> AuthEffect list \<Rightarrow> bool" where
  connected: "auth_session (AuthSocket_new rl) []"
| arrives: "auth_session a effs \<Longrightarrow> handle_input envs bytes a = Inr (a', eff) \<Longrightarrow> auth_session a' (effs @ eff)"

inductive_cases auth_sessionE: "auth_session a effs"

fun proof_reply :: "AuthEffect \<Rightarrow> bool" where
  "proof_reply (Send bs) = (take 2 bs = [CMD_AUTH_LOGON_PROOF, 0] \<or> bs = [CMD_AUTH_RECONNECT_PROOF, 0x00, 0, 0])"
| "proof_reply _ = False"

fun realm_reply :: "AuthEffect \<Rightarrow> bool" where
  "realm_reply (Send bs) = (take 1 bs = [CMD_REALM_LIST])"
| "realm_reply _ = False"

fun guarded :: "bool \<Rightarrow> AuthEffect list \<Rightarrow> bool" where
  "guarded ok [] = True"
| "guarded ok (e # es) = ((realm_reply e \<longrightarrow> ok) \<and> guarded (ok \<or> proof_reply e) es)"

definition proved :: "AuthEffect list \<Rightarrow> bool" where
  "proved es \<longleftrightarrow> list_ex proof_reply es"

lemma proved_simps [simp]: "proved [] = False" "proved (e # es) = (proof_reply e \<or> proved es)"
  "proved (xs @ ys) = (proved xs \<or> proved ys)"
  by (simp_all add: proved_def)

lemma guarded_append [simp]: "guarded ok (xs @ ys) = (guarded ok xs \<and> guarded (ok \<or> proved xs) ys)"
  by (induction xs arbitrary: ok) auto

lemma guarded_weaken: "guarded ok es \<Longrightarrow> ok \<longrightarrow> ok' \<Longrightarrow> guarded ok' es"
proof (induction es arbitrary: ok ok')
  case (Cons e es)
  then show ?case using Cons.IH[of "ok \<or> proof_reply e" "ok' \<or> proof_reply e"] by simp
qed simp

lemma guarded_quiet: "\<forall>e \<in> set es. \<not> realm_reply e \<Longrightarrow> guarded ok es"
  by (induction es arbitrary: ok) auto

text \<open>A handler sends the realm list only if authenticated, and authenticates only with the reply that says so.\<close>

definition honest :: "bool \<Rightarrow> bool \<times> AuthSocket \<times> AuthEffect list \<Rightarrow> bool" where
  "honest au r \<longleftrightarrow> (case r of (ok, a, eff) \<Rightarrow> guarded au eff \<and> (authed a \<longrightarrow> au \<or> proved eff))"

lemma no_sends_quiet: "\<forall>e \<in> set eff. \<forall>bs. e \<noteq> Send bs \<Longrightarrow> guarded au eff"
  by (rule guarded_quiet) (metis realm_reply.elims(2))

lemma authed_make_challenge: "make_challenge env a = (body, a') \<Longrightarrow> authed a' = authed a"
  by (auto simp: make_challenge_def Let_def split: prod.splits)

lemma authed_read_challenge: "read_challenge a = (x, a') \<Longrightarrow> authed a' = authed a"
  by (auto simp: read_challenge_def Let_def split: if_splits)

lemma honest_logon_challenge: "HandleLogonChallenge env a = Inr r \<Longrightarrow> honest (authed a) r"
proof -
  assume h: "HandleLogonChallenge env a = Inr r"
  obtain ok a' eff where r: "r = (ok, a', eff)" by (cases r)
  show ?thesis
  proof (cases ok)
    case True
    with h r have "HandleLogonChallenge env a = Inr (True, a', eff)" by simp
    then show ?thesis
    proof (cases rule: logon_challenge_cases)
      case (accepted ch a0 a1 eff' body)
      then show ?thesis
        using check_login_sel[OF accepted(2)] authed_make_challenge[OF accepted(3)] authed_read_challenge[OF accepted(1)] r
          no_sends_quiet[of eff']
        by (auto simp: honest_def login_step_def untouched_def with_login_def)
    next
      case (refused ch a0 eff' result)
      then show ?thesis using check_login_sel[OF refused(3)] authed_read_challenge[OF refused(1)] r no_sends_quiet[of eff']
        by (auto simp: honest_def login_step_def with_login_def)
    qed
  next
    case False
    then show ?thesis using h r
      by (auto simp: HandleLogonChallenge_def honest_def Let_def dest: authed_read_challenge
          split: prod.splits option.splits if_splits)
  qed
qed

lemma honest_wrong_password: "guarded au (wrong_password env a)"
  by (rule guarded_quiet) (auto simp: wrong_password_def split: if_splits option.splits)

lemma honest_check_proof: "check_proof As M1 env a = Inr r \<Longrightarrow> honest (authed a) r"
  using honest_wrong_password
  by (auto simp: check_proof_def Let_def honest_def SendProof_def split: if_splits)

lemma honest_offer_patch: "offer_patch env a = Inr r \<Longrightarrow> honest (authed a) r"
  by (auto simp: offer_patch_def Let_def honest_def split: if_splits option.splits)

lemma honest_reconnect_challenge: "HandleReconnectChallenge env a = Inr r \<Longrightarrow> honest (authed a) r"
  by (auto simp: HandleReconnectChallenge_def Let_def honest_def dest: authed_read_challenge
      split: prod.splits option.splits if_splits)

lemma honest_handler:
  assumes "find_handler cmd (authed a) = Some h" "h env a = Inr r"
  shows "honest (authed a) r"
  using assms(1)
proof (cases rule: find_handler_cases)
  case 2
  then show ?thesis using assms(2) honest_check_proof[of _ _ env "a\<lparr>input := drop 75 (input a)\<rparr>" r]
      honest_offer_patch[of env "a\<lparr>input := drop 75 (input a)\<rparr>" r]
    by (auto simp: HandleLogonProof_def Let_def honest_def split: if_splits)
next
  case 4
  then show ?thesis using assms(2) by (auto simp: HandleReconnectProof_def Let_def honest_def split: if_splits)
next
  case 5
  then show ?thesis using assms(2) by (auto simp: HandleRealmList_def Let_def honest_def split: if_splits option.splits)
next
  case 6
  then show ?thesis using assms(2) by (auto simp: HandleXferAccept_def InitPatch_def honest_def split: option.splits)
next
  case 7
  then show ?thesis using assms(2)
    by (auto simp: HandleXferResume_def InitPatch_def Let_def honest_def split: if_splits option.splits)
next
  case 8
  then show ?thesis using assms(2) by (auto simp: HandleXferCancel_def honest_def)
qed (use assms(2) honest_logon_challenge honest_reconnect_challenge in blast)+

text \<open>Induction over the commands that one call of \<open>OnRead\<close> handles.\<close>

definition count_challenge :: "uint8 \<Rightarrow> nat \<Rightarrow> nat" where
  "count_challenge cmd n = (if cmd = CMD_AUTH_LOGON_CHALLENGE then Suc n else n)"

lemma OnRead_loop_induct [consumes 1, case_names stop handled going]:
  assumes "OnRead_loop envs i n a = Inr (a', eff)"
    and "\<And>n a eff. eff = [] \<or> eff = [CloseConnection] \<Longrightarrow> P n a a eff"
    and "\<And>env n a cmd h b eff. cmd = hd (input a) \<Longrightarrow> \<not> (cmd = CMD_AUTH_LOGON_CHALLENGE \<and> count_challenge cmd n = 3) \<Longrightarrow>
      find_handler cmd (authed a) = Some h \<Longrightarrow> h env a = Inr (False, b, eff) \<Longrightarrow> P n a b eff"
    and "\<And>env n a cmd h b eff a' eff'. cmd = hd (input a) \<Longrightarrow> \<not> (cmd = CMD_AUTH_LOGON_CHALLENGE \<and> count_challenge cmd n = 3) \<Longrightarrow>
      find_handler cmd (authed a) = Some h \<Longrightarrow> h env a = Inr (True, b, eff) \<Longrightarrow>
      P (count_challenge cmd n) b a' eff' \<Longrightarrow> P n a a' (eff @ eff')"
  shows "P n a a' eff"
  using assms(1)
proof (induction envs i n a arbitrary: a' eff rule: OnRead_loop.induct)
  case (1 envs i n a)
  define cmd where "cmd = hd (input a)"
  show ?case
  proof (cases "input a = [] \<or> cmd = CMD_AUTH_LOGON_CHALLENGE \<and> count_challenge cmd n = 3 \<or> find_handler cmd (authed a) = None")
    case True
    then have "a' = a \<and> (eff = [] \<or> eff = [CloseConnection])"
      using 1(2) by (subst (asm) OnRead_loop.simps) (auto simp: Let_def cmd_def count_challenge_def split: if_splits)
    then show ?thesis using assms(2) by blast
  next
    case False
    then obtain h where h: "find_handler cmd (authed a) = Some h" by blast
    from 1(2) False h obtain ok b e1 where hb: "h (envs i) a = Inr (ok, b, e1)"
      and rest: "if ok then bindR (OnRead_loop envs (Suc i) (count_challenge cmd n) b) (\<lambda>r'. Inr (fst r', e1 @ snd r')) = Inr (a', eff)
        else (a', eff) = (b, e1)"
      by (subst (asm) OnRead_loop.simps) (auto simp: Let_def cmd_def count_challenge_def split: if_splits)
    show ?thesis
    proof (cases ok)
      case True
      with rest obtain e2 where r: "OnRead_loop envs (Suc i) (count_challenge cmd n) b = Inr (a', e2)" "eff = e1 @ e2" by auto
      have P: "P (count_challenge cmd n) b a' e2"
        using 1(1)[OF _ refl refl, folded cmd_def, folded count_challenge_def, of h "(ok, b, e1)"] False h hb True r(1)
        by (simp add: count_challenge_def)
      have nc: "\<not> (cmd = CMD_AUTH_LOGON_CHALLENGE \<and> count_challenge cmd n = 3)" using False by blast
      have hT: "h (envs i) a = Inr (True, b, e1)" using hb True by simp
      show ?thesis unfolding r(2) by (rule assms(4)[OF cmd_def nc h hT P])
    next
      case False
      then show ?thesis using assms(3)[OF cmd_def _ h, of n] hb rest \<open>\<not> (input a = [] \<or> _ \<or> _)\<close> by auto
    qed
  qed
qed

lemma honest_loop:
  "OnRead_loop envs i n a = Inr (a', eff) \<Longrightarrow> guarded (authed a) eff \<and> (authed a' \<longrightarrow> authed a \<or> proved eff)"
proof (induction rule: OnRead_loop_induct)
  case (stop n a eff)
  then show ?case by auto
next
  case (handled env n a cmd h b eff)
  then show ?case using honest_handler[OF handled(3,4)] by (simp add: honest_def)
next
  case (going env n a cmd h b eff a' eff')
  then have "guarded (authed a) eff" "authed b \<longrightarrow> authed a \<or> proved eff"
    using honest_handler[OF going(3,4)] by (auto simp: honest_def)
  then show ?case using going.IH guarded_weaken[of "authed b" eff' "authed a \<or> proved eff"] by auto
qed

text \<open>
  C4. The realm list is for proved clients only: in every connection, whatever arrives and whatever the
  database answers, each realm list that is sent comes after the reply to an accepted proof, and
  the connection counts as authenticated only after such a reply.
\<close>

theorem realm_list_guarded:
  "auth_session a effs \<Longrightarrow> guarded False effs \<and> (authed a \<longrightarrow> proved effs)"
proof (induction rule: auth_session.induct)
  case (connected rl)
  then show ?case by (simp add: AuthSocket_new_def)
next
  case (arrives a effs envs bytes a' eff)
  then show ?case
    using honest_loop[of envs 0 0 "a\<lparr>input := input a @ bytes\<rparr>" a' eff] guarded_weaken[of "authed a" eff "proved effs"]
    by (auto simp: handle_input_def OnRead_def)
qed

section \<open>Challenges\<close>

text \<open>The array of \<open>B\<close> that is sent is the one that is kept, and one that was kept is sent again.\<close>

lemma AsByteArray_find:
  assumes "AsByteArray L k x = (arr, x')" "GetNumBytes L x \<le> k" "smap_ok (arraysMap x)"
  shows "smap_find k (arraysMap x') = Some arr" "smap_ok (arraysMap x')"
    "smap_find k (arraysMap x) = Some old \<Longrightarrow> arr = old"
  using assms by (auto simp: AsByteArray_def Let_def smap_simps split: option.splits)

lemma make_challenge_B:
  assumes ok: "openssl_ok (ssl env)" and N: "bn (as_N a) = srp_modulus" and c: "smap_ok (arraysMap (as_B a))"
    and m: "make_challenge env a = (body, a')"
    and that: "\<forall>old. smap_find 32 (arraysMap (as_B a)) = Some old \<longrightarrow> 32 \<le> length old"
  shows "\<exists>arr. smap_find 32 (arraysMap (as_B a')) = Some arr \<and> smap_ok (arraysMap (as_B a')) \<and> take 32 body = take 32 arr
      \<and> 32 \<le> length arr \<and> (\<forall>old. smap_find 32 (arraysMap (as_B a)) = Some old \<longrightarrow> arr = old)"
proof -
  define L where "L = ssl env"
  define B1 where "B1 = assign (mod_bn L (plus_bn L (times_bn L (as_v a) (BigNumber_of 3)) (gmod env a)) (as_N a)) (as_B a)"
  have map: "arraysMap B1 = arraysMap (as_B a)" by (simp add: B1_def)
  obtain arr B2 where ab: "AsByteArray L 32 B1 = (arr, B2)" by fastforce
  have a': "as_B a' = B2" and body: "\<exists>rest. body = take 32 arr @ rest"
    using m ab by (auto simp: make_challenge_def Let_def L_def[symmetric] B1_def[symmetric] split: prod.splits)
  have "0 < srp_modulus" "srp_modulus < 256 ^ 32" by (simp_all add: srp_modulus_def)
  then have "bn B1 < 256 ^ 32"
    using ok N by (simp add: B1_def mod_bn_def openssl_okD L_def) (meson less_trans mod_less_divisor)
  then have n: "GetNumBytes L B1 \<le> 32" using ok by (simp add: GetNumBytes_def openssl_okD L_def)
  have f: "smap_find 32 (arraysMap B2) = Some arr" "smap_ok (arraysMap B2)"
    "\<And>old. smap_find 32 (arraysMap B1) = Some old \<Longrightarrow> arr = old"
    using AsByteArray_find[OF ab n] c map by auto
  have "32 \<le> length arr"
  proof (cases "smap_find 32 (arraysMap (as_B a))")
    case None
    then have "arr = fresh_array L (bn B1) 32" using ab n map by (auto simp: AsByteArray_def Let_def)
    then show ?thesis using ok n by (simp add: fresh_array_def openssl_okD L_def GetNumBytes_def)
  next
    case (Some old)
    then show ?thesis using that f(3) map by auto
  qed
  then show ?thesis using f a' body map by auto
qed

lemma bn_AsByteArray: "AsByteArray L k x = (arr, x') \<Longrightarrow> bn x' = bn x"
  by (auto simp: AsByteArray_def Let_def split: option.splits)

lemma make_challenge_numbers:
  assumes "openssl_ok (ssl env)" "bn (as_N a) = srp_modulus" "bn (as_g a) = 7" "make_challenge env a = (body, a')"
  shows "bn (as_b a') = rand_b env \<and> as_v a' = as_v a
    \<and> bn (as_B a') = (bn (as_v a) * 3 + 7 ^ rand_b env mod srp_modulus) mod srp_modulus"
proof -
  have "1 < srp_modulus" by (simp add: srp_modulus_def)
  then show ?thesis using assms
    by (auto simp: make_challenge_def Let_def gmod_def ModExp_def mod_bn_def plus_bn_def times_bn_def openssl_okD
        dest!: bn_AsByteArray split: prod.splits)
qed

lemma read_challenge_keeps: "read_challenge a = (x, a0) \<Longrightarrow> \<exists>i. a0 = a\<lparr>input := i\<rparr>"
  by (auto simp: read_challenge_def Let_def intro: exI[of _ "input a"] split: if_splits)

text \<open>An accepted challenge: the state in which the packet was made has the numbers of the state before.\<close>

lemma accepted_numbers:
  assumes "HandleLogonChallenge env a = Inr (True, a', eff)"
    and "Send ([CMD_AUTH_LOGON_CHALLENGE, 0x00, WOW_SUCCESS] @ body) \<in> set eff"
  obtains a1 where "make_challenge env a1 = (body, a')" "as_N a1 = as_N a" "as_g a1 = as_g a" "as_B a1 = as_B a"
  using assms(1)
proof (cases rule: logon_challenge_cases)
  case (accepted ch a0 a1 eff' body')
  note st = check_login_sel[OF accepted(2), unfolded login_step_def]
  obtain i where "a0 = a\<lparr>input := i\<rparr>" using read_challenge_keeps[OF accepted(1)] by blast
  then have "as_N a1 = as_N a" "as_g a1 = as_g a" "as_B a1 = as_B a" using st by (auto simp: untouched_def with_login_def)
  moreover have "body' = body" using st accepted(4) assms(2) by auto
  ultimately show thesis using that accepted(3) by blast
next
  case (refused ch a0 eff' result)
  then show thesis using assms(2) check_login_sel[OF refused(3), unfolded login_step_def] by auto
qed

text \<open>
  A second challenge on a connection sends the numbers of the first. The server draws a new secret
  and computes a new \<open>B\<close>, but the 32 bytes of \<open>B\<close> in the packet are those of the first challenge,
  so the client and the server go on with different numbers.
\<close>

theorem stale_challenge:
  fixes env1 env2 :: AuthEnv
  assumes ok: "openssl_ok (ssl env1)" "ssl env2 = ssl env1" and new: "new_connection a"
    and c1: "HandleLogonChallenge env1 a = Inr (True, a1, eff1)"
      "Send ([CMD_AUTH_LOGON_CHALLENGE, 0x00, WOW_SUCCESS] @ body1) \<in> set eff1"
    and c2: "HandleLogonChallenge env2 (a1\<lparr>input := inp\<rparr>) = Inr (True, a2, eff2)"
      "Send ([CMD_AUTH_LOGON_CHALLENGE, 0x00, WOW_SUCCESS] @ body2) \<in> set eff2"
  shows "take 32 body2 = take 32 body1 \<and> bn (as_b a2) = rand_b env2
     \<and> bn (as_B a2) = (bn (as_v a2) * 3 + 7 ^ rand_b env2 mod srp_modulus) mod srp_modulus"
proof -
  obtain b1 where b1: "make_challenge env1 b1 = (body1, a1)" "as_N b1 = as_N a" "as_g b1 = as_g a" "as_B b1 = as_B a"
    using accepted_numbers[OF c1] by blast
  obtain b2 where b2: "make_challenge env2 b2 = (body2, a2)" "as_N b2 = as_N a1" "as_g b2 = as_g a1" "as_B b2 = as_B a1"
    using accepted_numbers[OF c2] by auto
  have cur: "current_numbers (ssl env1) a1" using after_accepted[OF ok(1) new c1] by simp
  obtain rl inp0 where a: "a = (AuthSocket_new rl)\<lparr>input := inp0\<rparr>" using new unfolding new_connection_def by blast
  have e: "bn (as_N b1) = srp_modulus" "arraysMap (as_B b1) = []" using b1 by (simp_all add: a AuthSocket_new_def)
  obtain arr where arr: "smap_find 32 (arraysMap (as_B a1)) = Some arr" "smap_ok (arraysMap (as_B a1))"
    "take 32 body1 = take 32 arr" "32 \<le> length arr"
    using make_challenge_B[OF ok(1) e(1) _ b1(1)] e(2) by (auto simp: smap_simps)
  have N: "openssl_ok (ssl env2)" "bn (as_N b2) = srp_modulus" "bn (as_g b2) = 7"
    using cur b2 ok by (simp_all add: current_numbers_def)
  have "take 32 body2 = take 32 arr"
    using make_challenge_B[OF N(1,2) _ b2(1)] arr b2(4) by auto
  then show ?thesis using make_challenge_numbers[OF N b2(1)] arr(3) by simp
qed

text \<open>
  C34. A challenge whose last bytes come later is lost. While fewer than the 35 bytes of the fixed part
  have arrived nothing is taken and the server waits; but when the first piece has the fixed part and
  not the whole packet, the four header bytes are dropped and the rest of the packet is kept for a
  new command. When its first byte, the fifth of the packet, is no command, nothing that arrives
  later is ever handled.
\<close>

theorem split_challenge_lost:
  assumes p: "input a @ piece \<noteq> []" "hd (input a @ piece) \<in> {CMD_AUTH_LOGON_CHALLENGE, CMD_AUTH_RECONNECT_CHALLENGE}"
  shows "(length (input a @ piece) < 35 \<longrightarrow> handle_input envs piece a = Inr (a\<lparr>input := input a @ piece\<rparr>, []))
   \<and> (35 \<le> length (input a @ piece)
        \<and> length (input a @ piece) < 4 + unat (le_word (take 2 (drop 2 (input a @ piece))) :: uint16) \<longrightarrow>
      handle_input envs piece a = Inr (a\<lparr>input := drop 4 (input a @ piece)\<rparr>, [])
      \<and> ((input a @ piece) ! 4 \<notin> set (map fst auth_table) \<longrightarrow>
           (\<forall>envs' more. handle_input envs' more (a\<lparr>input := drop 4 (input a @ piece)\<rparr>) =
              Inr (a\<lparr>input := drop 4 (input a @ piece @ more)\<rparr>, []))))"
proof -
  define q where "q = input a @ piece"
  have q: "q \<noteq> []" "hd q = 0 \<or> hd q = 2" using p by (auto simp: q_def)
  have challenge_fails: "OnRead envs (a\<lparr>input := q\<rparr>) = Inr (a\<lparr>input := q'\<rparr>, [])"
    if "read_challenge (a\<lparr>input := q\<rparr>) = (None, a\<lparr>input := q'\<rparr>)" for q'
  proof -
    have "HandleLogonChallenge env (a\<lparr>input := q\<rparr>) = Inr (False, a\<lparr>input := q'\<rparr>, [])"
      "HandleReconnectChallenge env (a\<lparr>input := q\<rparr>) = Inr (False, a\<lparr>input := q'\<rparr>, [])" for env
      by (simp_all add: HandleLogonChallenge_def HandleReconnectChallenge_def that)
    then show ?thesis using q by (subst OnRead_def, subst OnRead_loop.simps) (auto simp: find_handler_def auth_table_def)
  qed
  have short: "OnRead envs (a\<lparr>input := q\<rparr>) = Inr (a\<lparr>input := q\<rparr>, [])" if "length q < 35"
    by (rule challenge_fails) (simp add: read_challenge_def that)
  have one: "OnRead envs (a\<lparr>input := q\<rparr>) = Inr (a\<lparr>input := drop 4 q\<rparr>, [])"
    if "35 \<le> length q" "length q < 4 + unat (le_word (take 2 (drop 2 q)) :: uint16)"
    by (rule challenge_fails) (use that in \<open>simp add: read_challenge_def Let_def drop_take\<close>)
  have two: "OnRead envs' (a\<lparr>input := drop 4 q @ more\<rparr>) = Inr (a\<lparr>input := drop 4 q @ more\<rparr>, [])"
    if "35 \<le> length q" and n: "q ! 4 \<notin> set (map fst auth_table)" for envs' more
  proof -
    have hd: "hd (drop 4 q @ more) = q ! 4" "drop 4 q @ more \<noteq> []" using that by (simp_all add: hd_append hd_drop_conv_nth)
    have "find_handler (q ! 4) (authed a) = None" "q ! 4 \<noteq> 0" using n by (auto simp: find_handler_def auth_table_def)
    then show ?thesis using hd by (subst OnRead_def, subst OnRead_loop.simps) (simp del: append_is_Nil_conv)
  qed
  have d: "drop 4 (input a @ piece @ more) = drop 4 q @ more" if "35 \<le> length q" for more
    using that by (simp add: q_def flip: append_assoc)
  show ?thesis unfolding handle_input_def q_def[symmetric] using short one two d by simp
qed

text \<open>What one call of \<open>OnRead\<close> can be made to do.\<close>

fun challenge_reply :: "AuthEffect \<Rightarrow> bool" where
  "challenge_reply (Send bs) =
     (take 2 bs = [CMD_AUTH_LOGON_CHALLENGE, 0x00] \<and> bs \<noteq> [CMD_AUTH_LOGON_CHALLENGE, 0x00, WOW_FAIL_VERSION_INVALID])"
| "challenge_reply _ = False"

definition challenge_count :: "AuthEffect list \<Rightarrow> nat" where
  "challenge_count eff = length (filter challenge_reply eff)"

lemma challenge_count_simps [simp]:
  "challenge_count [] = 0" "challenge_count (e # es) = (if challenge_reply e then Suc (challenge_count es) else challenge_count es)"
  "challenge_count (xs @ ys) = challenge_count xs + challenge_count ys"
  by (simp_all add: challenge_count_def)

lemma challenge_count_quiet: "\<forall>e \<in> set es. \<not> challenge_reply e \<Longrightarrow> challenge_count es = 0"
  by (simp add: challenge_count_def)

lemma challenge_count_no_sends: "\<forall>e \<in> set es. \<forall>bs. e \<noteq> Send bs \<Longrightarrow> challenge_count es = 0"
  by (rule challenge_count_quiet) (metis challenge_reply.elims(2))

lemma handler_challenges:
  assumes "find_handler cmd au = Some h" "h env a = Inr (ok, a', eff)"
  shows "challenge_count eff \<le> (if cmd = CMD_AUTH_LOGON_CHALLENGE then 1 else 0)"
  using assms(1)
proof (cases rule: find_handler_cases)
  case 1
  show ?thesis
  proof (cases ok)
    case True
    then have "HandleLogonChallenge env a = Inr (True, a', eff)" using 1 assms(2) by simp
    then show ?thesis
    proof (cases rule: logon_challenge_cases)
      case (accepted ch a0 a1 eff' body)
      then show ?thesis using 1 challenge_count_no_sends[of eff'] check_login_sel[OF accepted(2), unfolded login_step_def] by simp
    next
      case (refused ch a0 eff' result)
      then show ?thesis using 1 challenge_count_no_sends[of eff'] check_login_sel[OF refused(3), unfolded login_step_def] by simp
    qed
  next
    case False
    then show ?thesis using 1 assms(2)
      by (auto simp: HandleLogonChallenge_def Let_def split: prod.splits option.splits if_splits)
  qed
next
  case 2
  have "challenge_count (wrong_password env b) = 0" for b
    by (rule challenge_count_quiet) (auto simp: wrong_password_def split: if_splits option.splits)
  then have "check_proof As M1 env b = Inr (ok, a', eff) \<Longrightarrow> challenge_count eff = 0" for As M1 b
    by (auto simp: check_proof_def SendProof_def Let_def split: if_splits)
  moreover have "offer_patch env b = Inr (ok, a', eff) \<Longrightarrow> challenge_count eff = 0" for b
    by (auto simp: offer_patch_def Let_def split: if_splits option.splits)
  ultimately show ?thesis using 2 assms(2) by (auto simp: HandleLogonProof_def Let_def split: if_splits)
qed (use assms(2) in \<open>auto simp: handler_defs InitPatch_def Let_def split: if_splits option.splits prod.splits\<close>)

text \<open>
  C35. One call of \<open>OnRead\<close> comes to an end, having answered at most two logon challenges: the
  third one closes the connection. (The count starts anew with every call, that is with every piece of
  data that arrives, so it does not limit a connection.)
\<close>

theorem challenges_bounded:
  "OnRead envs a = Inr (a', eff) \<Longrightarrow> challenge_count eff \<le> 2"
proof -
  assume "OnRead envs a = Inr (a', eff)"
  then have "OnRead_loop envs 0 0 a = Inr (a', eff)" by (simp add: OnRead_def)
  then have "0 \<le> (2 :: nat) \<longrightarrow> challenge_count eff + 0 \<le> 2"
  proof (induction rule: OnRead_loop_induct[where P = "\<lambda>n a a' eff. n \<le> 2 \<longrightarrow> challenge_count eff + n \<le> 2"])
    case (handled env n a cmd h b eff)
    then show ?case using handler_challenges[OF handled(3,4)] by (auto simp: count_challenge_def split: if_splits)
  next
    case (going env n a cmd h b eff a' eff')
    then show ?case using handler_challenges[OF going(3,4)] by (auto simp: count_challenge_def split: if_splits)
  qed auto
  then show ?thesis by simp
qed

section \<open>Examples\<close>

text \<open>
  An OpenSSL with the arithmetic of the natural numbers; its digest looks only at the length of the
  input, which is enough to run the exchange. The account \<open>A\<close> has a password with the exponent 89.
\<close>

fun be_bytes :: "nat \<Rightarrow> uint8 list" where
  "be_bytes n = (if n = 0 then [] else be_bytes (n div 256) @ [of_nat (n mod 256)])"

declare be_bytes.simps [simp del]

lemma be_value_be_bytes: "be_value (be_bytes n) = n"
proof (induction n rule: be_bytes.induct)
  case (1 n)
  have "unat (of_nat (n mod 256) :: uint8) = n mod 256" by (simp only: unat_of_nat) simp
  with 1 show ?case by (subst be_bytes.simps) simp
qed

lemma length_be_bytes: "length (be_bytes n) \<le> k \<longleftrightarrow> n < 256 ^ k"
proof (induction n arbitrary: k rule: be_bytes.induct)
  case (1 n)
  show ?case
  proof (cases k)
    case (Suc j)
    have "n div 256 < 256 ^ j \<longleftrightarrow> n < 256 ^ k" unfolding Suc by (simp add: div_less_iff_less_mult mult.commute)
    with 1 Suc show ?thesis by (subst be_bytes.simps) auto
  qed (subst be_bytes.simps, simp)
qed

definition hex_digit :: "uint8 \<Rightarrow> nat" where
  "hex_digit c = (if isdigit c then unat c - 48 else unat c - 55)"

definition demo_digest :: "uint8 list \<Rightarrow> uint8 list" where
  "demo_digest bs = (if length bs = 64 then replicate 20 0 else replicate 19 0 @ [1])"

text \<open>The number \<open>7 ^ 89\<close> in hexadecimal.\<close>

definition demo_hex :: cstring where
  "demo_hex = txt_of ''039DD1F19A0696BBA997A9FA8FD1398C5E98B92E39ACA36623146C2F14C6C7C7''"

definition demo_ssl :: OpenSSL where
  "demo_ssl = \<lparr>BN_add = (+), BN_mul = (*), BN_mod = (mod), BN_mod_exp = (\<lambda>a p m. a ^ p mod m),
     BN_num_bytes = (\<lambda>n. length (be_bytes n)), BN_bn2bin = be_bytes, BN_bin2bn = be_value,
     BN_hex2bn = (\<lambda>s. if s = [] then None else Some (foldl (\<lambda>v c. 16 * v + hex_digit c) 0 s)),
     BN_bn2hex = (\<lambda>n. hexEncodeByteArray (be_bytes n)), SHA1 = demo_digest\<rparr>"

lemma demo_ssl_ok: "openssl_ok demo_ssl"
  by (simp add: openssl_ok_def demo_ssl_def length_be_bytes be_value_be_bytes demo_digest_def)

definition demo_row :: AccountRow where
  "demo_row = \<lparr>ac_sha_pass_hash = [], ac_id = 1, ac_locked = 0, ac_last_ip = [], ac_gmlevel = 0,
     ac_v = demo_hex, ac_s = demo_hex\<rparr>"

definition demo_env :: AuthEnv where
  "demo_env = \<lparr>ssl = demo_ssl, remote_address = [49], escape_string = (\<lambda>s. s), ip_banned = (\<lambda>a. False),
     account = (\<lambda>n. if n = [65] then Some demo_row else None), MultiIPCheck = False, MultiIPLimit = 10,
     MultiIPPeriodInHours = 48, same_ip = (\<lambda>a i h. []), multi_IP_whitelist = (\<lambda>i. None), account_banned = (\<lambda>i. None),
     AutoRegistration = False, AutoRegistration_Amount = 1, count_last_ip = (\<lambda>a. None), sessionkey = (\<lambda>n. None),
     rand_s = 1, rand_b = 1, rand_unk3 = 1, rand_reconnect = 1, WrongPass_MaxCount = 0, WrongPass_BanTime = 600,
     WrongPass_BanType = False, failed_logins = (\<lambda>n. None), open_patch = (\<lambda>b l. None), filesize = (\<lambda>h. None),
     patch_md5 = (\<lambda>b l. replicate 16 0), lseek_ok = (\<lambda>h p. False), patch_handler_opens = False, now = 0,
     realm_rows = [], realmcharacters = (\<lambda>r a. None)\<rparr>"

definition demo_realms :: RealmList where
  "demo_realms = \<lparr>m_realms = [], m_UpdateInterval = 0, m_NextUpdateTime = 0\<rparr>"

text \<open>The challenge of build 15595 for the account \<open>A\<close>.\<close>

definition demo_packet :: "uint8 list" where
  "demo_packet = [0, 8, 31, 0] @ replicate 7 0 @ [0xEB, 0x3C] @ replicate 4 0 @ [87, 105, 110, 0] @ [83, 85, 110, 101]
     @ replicate 8 0 @ [1, 65]"

definition demo_conn :: AuthSocket where
  "demo_conn = (AuthSocket_new demo_realms)\<lparr>input := demo_packet\<rparr>"

lemma demo_read: "input a = demo_packet @ rest \<Longrightarrow> read_challenge a = (Some (demo_packet @ [0]), a\<lparr>input := rest\<rparr>)"
  by (simp add: read_challenge_def demo_packet_def)

lemma demo_fields: "ch_build (demo_packet @ [0]) = 15595" "c_str_at 34 (demo_packet @ [0]) = [65]"
  "c_str_at 17 (demo_packet @ [0]) = [87, 105, 110]"
  by (simp_all add: ch_build_def c_str_at_def demo_packet_def)

lemma demo_build: "FindBuildInfo 15595 = Some (build_info 15595 4 3 4 32)"
  by (simp add: FindBuildInfo_def ExpectedRealmdClientBuilds_def build_info_def)

lemma demo_ssl_sel [simp]: "ssl demo_env = demo_ssl" "rand_b demo_env = 1"
  by (simp_all add: demo_env_def)

lemma demo_hex_value: "length demo_hex = 64" "foldl (\<lambda>v c. 16 * v + hex_digit c) 0 demo_hex = 7 ^ 89"
  by (simp_all add: demo_hex_def txt_of_def hex_digit_def isdigit_def)

lemma demo_login:
  assumes "safelogin a = [65]"
  shows "check_login (demo_env\<lparr>rand_b := r\<rparr>) ch a = (WOW_SUCCESS, a\<lparr>as_s := (as_s a)\<lparr>bn := 7 ^ 89\<rparr>,
     as_v := (as_v a)\<lparr>bn := 7 ^ 89\<rparr>, accountSecurityLevel := 0, localizationName := ch_country ch\<rparr>, [])"
proof -
  have "demo_hex \<noteq> []" using demo_hex_value(1) by auto
  then show ?thesis using assms demo_hex_value
    by (simp add: check_login_def check_account_def account_refused_def multi_ip_blocked_def demo_row_def SetHexStr_def
        demo_env_def demo_ssl_def)
qed

lemma demo_challenge_at:
  assumes N: "bn (as_N a) = srp_modulus" "bn (as_g a) = 7" and inp: "input a = demo_packet @ rest"
  shows "\<exists>a1 eff body. HandleLogonChallenge (demo_env\<lparr>rand_b := r\<rparr>) a = Inr (True, a1, eff)
     \<and> Send ([CMD_AUTH_LOGON_CHALLENGE, 0x00, WOW_SUCCESS] @ body) \<in> set eff
     \<and> bn (as_v a1) = 7 ^ 89 \<and> bn (as_s a1) = 7 ^ 89 \<and> build a1 = 15595 \<and> login a1 = [65] \<and> safelogin a1 = [65]"
proof -
  define env where "env = demo_env\<lparr>rand_b := r\<rparr>"
  define w where "w = with_login env (demo_packet @ [0]) (a\<lparr>input := rest\<rparr>)"
  have esc: "escape_string env s = s" for s by (simp add: env_def demo_env_def)
  have w: "w = a\<lparr>input := rest, login := [65], safelogin := [65], build := 15595, os := [87, 105, 110]\<rparr>"
    by (simp add: w_def with_login_def demo_fields esc)
  define b where "b = w\<lparr>as_s := (as_s w)\<lparr>bn := 7 ^ 89\<rparr>, as_v := (as_v w)\<lparr>bn := 7 ^ 89\<rparr>,
     accountSecurityLevel := 0, localizationName := ch_country (demo_packet @ [0])\<rparr>"
  have c: "check_login env (demo_packet @ [0]) w = (WOW_SUCCESS, b, [])"
    unfolding b_def env_def by (rule demo_login) (simp add: w)
  obtain body a1 where m: "make_challenge env b = (body, a1)" by fastforce
  have g: "\<not> 32 < GetNumBytes (ssl env) (gmod env b)"
  proof -
    have L: "ssl env = demo_ssl" by (simp add: env_def)
    have "bn (gmod env b) = 7 ^ rand_b env mod srp_modulus" using N by (simp add: gmod_def ModExp_def b_def w L) (simp add: demo_ssl_def)
    moreover have "7 ^ rand_b env mod srp_modulus < srp_modulus" by (rule mod_less_divisor) (simp add: srp_modulus_def)
    moreover have "srp_modulus < 256 ^ 32" by (simp add: srp_modulus_def)
    ultimately show ?thesis using openssl_okD(5)[OF demo_ssl_ok, of "7 ^ rand_b env mod srp_modulus" 32]
      unfolding GetNumBytes_def L by (metis linorder_not_le order_less_trans)
  qed
  have "a\<lparr>input := rest, login := [65], build := 15595, os := [87, 105, 110], safelogin := [65]\<rparr> = w" by (simp add: w)
  then have h: "HandleLogonChallenge env a = Inr (True, a1, [Send ([CMD_AUTH_LOGON_CHALLENGE, 0x00, WOW_SUCCESS] @ body)])"
    by (simp add: HandleLogonChallenge_def demo_read[OF inp] Let_def demo_fields esc c m g)
  have "as_v a1 = as_v b \<and> bn (as_s a1) = bn (as_s b) \<and> build a1 = build b \<and> login a1 = login b \<and> safelogin a1 = safelogin b"
    using m by (auto simp: make_challenge_def Let_def dest!: bn_AsByteArray split: prod.splits)
  then have "bn (as_v a1) = 7 ^ 89 \<and> bn (as_s a1) = 7 ^ 89 \<and> build a1 = 15595 \<and> login a1 = [65] \<and> safelogin a1 = [65]"
    by (simp add: b_def w)
  with h show ?thesis by (auto simp: env_def)
qed

lemma demo_challenge:
  "\<exists>a1 eff body. HandleLogonChallenge demo_env demo_conn = Inr (True, a1, eff)
     \<and> Send ([CMD_AUTH_LOGON_CHALLENGE, 0x00, WOW_SUCCESS] @ body) \<in> set eff
     \<and> bn (as_v a1) = 7 ^ 89 \<and> bn (as_s a1) = 7 ^ 89 \<and> build a1 = 15595 \<and> login a1 = [65] \<and> safelogin a1 = [65]"
proof -
  have e: "demo_env\<lparr>rand_b := 1\<rparr> = demo_env" by (simp add: demo_env_def)
  have "bn (as_N demo_conn) = srp_modulus" "bn (as_g demo_conn) = 7" "input demo_conn = demo_packet @ []"
    by (simp_all add: demo_conn_def AuthSocket_new_def)
  from demo_challenge_at[OF this, of 1] show ?thesis unfolding e .
qed

text \<open>The numbers of the example.\<close>

lemma demo_sizes: "7 ^ 89 mod srp_modulus = 7 ^ 89" "BN_num_bytes demo_ssl (7 ^ 89) = 32"
  "(7 ^ 89 * 3 + 7 ^ 1 mod srp_modulus) mod srp_modulus = 7 ^ 89 * 3 + 7" "BN_num_bytes demo_ssl (7 ^ 89 * 3 + 7) = 32"
proof -
  have "(7 :: nat) ^ 89 < srp_modulus" "(7 :: nat) ^ 89 * 3 + 7 < srp_modulus" "7 < srp_modulus"
    by (simp_all add: srp_modulus_def)
  then show "7 ^ 89 mod srp_modulus = 7 ^ 89" "(7 ^ 89 * 3 + 7 ^ 1 mod srp_modulus) mod srp_modulus = 7 ^ 89 * 3 + 7"
    by (simp_all only: mod_less power_one_right)
  show "BN_num_bytes demo_ssl (7 ^ 89) = 32" "BN_num_bytes demo_ssl (7 ^ 89 * 3 + 7) = 32"
    using BN_num_bytes_exact[OF demo_ssl_ok, of _ 31] by simp_all
qed

lemma demo_new: "new_connection demo_conn"
  unfolding new_connection_def demo_conn_def by blast

lemma demo_M:
  assumes "BN_num_bytes demo_ssl salt + BN_num_bytes demo_ssl A + BN_num_bytes demo_ssl B + BN_num_bytes demo_ssl K \<noteq> 44"
  shows "last (client_M demo_ssl name salt A B K) \<noteq> 0"
proof -
  have d: "SHA1 demo_ssl bs = demo_digest bs" for bs by (simp add: demo_ssl_def)
  have "BN_num_bytes demo_ssl srp_modulus = 32" "BN_num_bytes demo_ssl 7 = 1"
    using BN_num_bytes_exact[OF demo_ssl_ok, of srp_modulus 31] BN_num_bytes_exact[OF demo_ssl_ok, of 7 0]
    by (simp_all add: srp_modulus_def)
  then have l: "length (hash_num demo_ssl srp_modulus) = 32" "length (hash_num demo_ssl 7) = 1" using demo_ssl_ok by simp_all
  have dd: "demo_digest (hash_num demo_ssl srp_modulus) = replicate 19 0 @ [1]" "demo_digest (hash_num demo_ssl 7) = replicate 19 0 @ [1]"
    by (simp_all only: demo_digest_def l) simp_all
  have "xor_bytes xs xs = replicate (length xs) 0" for xs by (induction xs) (simp_all add: xor_bytes_def)
  from this[of "replicate 19 0 @ [1]"]
  have "xor_bytes (demo_digest (hash_num demo_ssl srp_modulus)) (demo_digest (hash_num demo_ssl 7)) = replicate 20 0"
    unfolding dd by (simp only: length_append length_replicate list.size) simp
  then show ?thesis using assms demo_ssl_ok l
    by (simp add: client_M_def d be_value_zeros hash_num_0 del: replicate_Suc)
      (simp add: demo_digest_def d del: replicate_Suc)
qed

lemma demo_B:
  assumes "HandleLogonChallenge demo_env demo_conn = Inr (True, a1, eff)"
    "Send ([CMD_AUTH_LOGON_CHALLENGE, 0x00, WOW_SUCCESS] @ body) \<in> set eff" "bn (as_v a1) = 7 ^ 89" "bn (as_s a1) = 7 ^ 89"
  shows "bn (as_B a1) = 7 ^ 89 * 3 + 7" "packet_B body = 7 ^ 89 * 3 + 7" "packet_salt body = 7 ^ 89"
    "BN_num_bytes (ssl demo_env) (bn (as_B a1)) = 32" "BN_num_bytes (ssl demo_env) (bn (as_s a1)) = 32"
proof -
  have ch: "challenged demo_env a1 body" using after_accepted[OF _ demo_new assms(1,2)] demo_ssl_ok by simp
  then show B: "bn (as_B a1) = 7 ^ 89 * 3 + 7" using assms(3) demo_sizes(3) by (simp add: challenged_def)
  then show "packet_B body = 7 ^ 89 * 3 + 7" "packet_salt body = 7 ^ 89"
    using ch assms(4) demo_sizes(2,4) by (simp_all add: challenged_def)
  show "BN_num_bytes (ssl demo_env) (bn (as_B a1)) = 32" "BN_num_bytes (ssl demo_env) (bn (as_s a1)) = 32"
    unfolding B assms(4) demo_ssl_sel by (rule demo_sizes)+
qed

theorem honest_client_accepted_witness:
  "\<exists>a1 eff body a2. HandleLogonChallenge demo_env demo_conn = Inr (True, a1, eff)
     \<and> HandleLogonProof demo_env (a1\<lparr>input := proof_packet (hash_num demo_ssl (client_A 89))
           (client_M1 demo_ssl 89 89 (login a1) body)\<rparr>) = Inr (True, a2,
         [DbLogin (BN_bn2hex demo_ssl (client_K demo_ssl 89 89 body)) [49] (GetLocaleByName (localizationName a1)) (os a1) [65],
          SendProof (SHA1 demo_ssl (hash_num demo_ssl (client_A 89) @ client_M1 demo_ssl 89 89 (login a1) body
            @ hash_num demo_ssl (client_K demo_ssl 89 89 body))) a1])
     \<and> authed a2"
proof -
  obtain a1 eff body where c: "HandleLogonChallenge demo_env demo_conn = Inr (True, a1, eff)"
    "Send ([CMD_AUTH_LOGON_CHALLENGE, 0x00, WOW_SUCCESS] @ body) \<in> set eff" "bn (as_v a1) = 7 ^ 89" "bn (as_s a1) = 7 ^ 89"
    "build a1 = 15595" "login a1 = [65]" "safelogin a1 = [65]"
    using demo_challenge by blast
  note B = demo_B[OF c(1-4)]
  note pB = B(2,3)
  have A: "client_A 89 = 7 ^ 89" using demo_sizes(1) by (simp add: client_A_def)
  have "length (hash_num demo_ssl (7 ^ 89)) = 32" "length (hash_num demo_ssl (7 ^ 89 * 3 + 7)) = 32"
    using demo_sizes demo_ssl_ok by simp_all
  then have "client_u demo_ssl 89 body = 0"
    unfolding client_u_def A pB by (simp add: demo_ssl_def demo_digest_def be_value_zeros del: replicate_Suc)
  moreover have "int (7 ^ 89 * 3 + 7) - 3 * 7 ^ 89 = 7" by simp
  moreover have "nat ((7 :: int) ^ 89 mod int srp_modulus) = 7 ^ 89 mod srp_modulus"
    by (metis nat_int of_nat_mod of_nat_numeral of_nat_power)
  ultimately have S: "client_S demo_ssl 89 89 body = 7 ^ 89"
    using demo_sizes(1) by (simp only: client_S_def pB mult_zero_left add_0_right)
  have last: "last (client_M1 demo_ssl 89 89 (login a1) body) \<noteq> 0"
    unfolding client_M1_def by (rule demo_M, unfold pB A demo_sizes, arith)
  have ra: "remote_address demo_env = [49]" by (simp add: demo_env_def)
  have v: "bn (as_v a1) = 7 ^ 89 mod srp_modulus" unfolding c(3) demo_sizes(1) ..
  have b: "FindBuildInfo (build a1) \<noteq> None" using demo_build c(5) by simp
  have len: "BN_num_bytes (ssl demo_env) (client_A 89) = 32" "BN_num_bytes (ssl demo_env) (client_S (ssl demo_env) 89 89 body) = 32"
    unfolding A S demo_ssl_sel by (rule demo_sizes)+
  note h = honest_client_accepted[of demo_env demo_env demo_conn a1 eff body 89 89, OF _ refl demo_new c(1,2) v b B(4,5) len]
  show ?thesis using h c(1) demo_ssl_ok last unfolding ra c(7) demo_ssl_sel by blast
qed

text \<open>The proof for the shared secret 0, which anyone can compute.\<close>

theorem modulus_bypass_witness:
  "\<exists>a1 eff body a2 sent. HandleLogonChallenge demo_env demo_conn = Inr (True, a1, eff)
     \<and> Send ([CMD_AUTH_LOGON_CHALLENGE, 0x00, WOW_SUCCESS] @ body) \<in> set eff
     \<and> HandleLogonProof demo_env (a1\<lparr>input := proof_packet (hash_num demo_ssl srp_modulus)
           (client_M demo_ssl (login a1) (packet_salt body) srp_modulus (packet_B body) (client_key demo_ssl (replicate 32 0)))\<rparr>)
       = Inr (True, a2, sent) \<and> authed a2"
proof -
  obtain a1 eff body where c: "HandleLogonChallenge demo_env demo_conn = Inr (True, a1, eff)"
    "Send ([CMD_AUTH_LOGON_CHALLENGE, 0x00, WOW_SUCCESS] @ body) \<in> set eff" "bn (as_v a1) = 7 ^ 89" "bn (as_s a1) = 7 ^ 89"
    "build a1 = 15595" "login a1 = [65]" "safelogin a1 = [65]"
    using demo_challenge by blast
  note B = demo_B[OF c(1-4)]
  have b: "FindBuildInfo (build a1) \<noteq> None" using demo_build c(5) by simp
  have "BN_num_bytes demo_ssl srp_modulus = 32"
    using BN_num_bytes_exact[OF demo_ssl_ok, of srp_modulus 31] by (simp add: srp_modulus_def)
  then have last: "last (client_M demo_ssl (login a1) (packet_salt body) srp_modulus (packet_B body)
      (client_key demo_ssl (replicate 32 0))) \<noteq> 0"
    using demo_sizes by (intro demo_M) (simp only: B; arith)
  have "0 < rand_b demo_env" by simp
  note h = modulus_bypass[of demo_env demo_env demo_conn a1 eff body, OF _ refl demo_new c(1,2) b this B(4,5) refl]
  show ?thesis using h c(1,2) demo_ssl_ok last unfolding demo_ssl_sel by blast
qed

text \<open>The same exchange after a refusal: the address is banned.\<close>

definition banned_env :: AuthEnv where
  "banned_env = demo_env\<lparr>ip_banned := (\<lambda>a. True)\<rparr>"

lemma banned_challenge:
  "input a = demo_packet @ rest \<Longrightarrow> HandleLogonChallenge banned_env a =
     Inr (True, with_login demo_env (demo_packet @ [0]) (a\<lparr>input := rest\<rparr>),
       [Send [CMD_AUTH_LOGON_CHALLENGE, 0x00, WOW_FAIL_BANNED]])"
  by (simp add: HandleLogonChallenge_def demo_read Let_def demo_fields check_login_def banned_env_def with_login_def demo_env_def)

theorem refused_challenge_logs_in_witness:
  "\<exists>a1 a2 sent. HandleLogonChallenge banned_env demo_conn
       = Inr (True, a1, [Send [CMD_AUTH_LOGON_CHALLENGE, 0x00, WOW_FAIL_BANNED]])
     \<and> HandleLogonProof banned_env (a1\<lparr>input := proof_packet (1 # replicate 31 0)
           (client_M demo_ssl (login a1) 0 1 0 (client_key demo_ssl (replicate 31 0 @ [1])))\<rparr>)
       = Inr (True, a2, sent) \<and> authed a2"
proof -
  define a1 where "a1 = with_login demo_env (demo_packet @ [0]) (demo_conn\<lparr>input := []\<rparr>)"
  have "input demo_conn = demo_packet @ []" by (simp add: demo_conn_def)
  note c = banned_challenge[OF this, folded a1_def]
  have b: "FindBuildInfo (build a1) \<noteq> None" using demo_build by (simp add: a1_def with_login_def demo_fields)
  have s: "ssl banned_env = demo_ssl" by (simp add: banned_env_def)
  have "length (interleaved_key demo_ssl t) = 40" for t
    by (simp add: interleaved_key_def Let_def length_concat comp_def sum_list_triv)
  then have "BN_num_bytes demo_ssl (client_key demo_ssl (replicate 31 0 @ [1])) \<le> 40"
    using openssl_okD(5)[OF demo_ssl_ok] be_value_bound[of "rev (interleaved_key demo_ssl (replicate 31 0 @ [1]))"]
    by (simp add: client_key_def)
  moreover have "BN_num_bytes demo_ssl 0 = 0" "BN_num_bytes demo_ssl 1 = 1"
    using openssl_okD(5)[OF demo_ssl_ok, of 0 0] BN_num_bytes_exact[OF demo_ssl_ok, of 1 0] by simp_all
  ultimately have last: "last (client_M demo_ssl (login a1) 0 1 0 (client_key demo_ssl (replicate 31 0 @ [1]))) \<noteq> 0"
    by (intro demo_M) arith
  note h = refused_challenge_logs_in[of banned_env demo_conn banned_env a1 _ WOW_FAIL_BANNED, OF _ demo_new c _ _ b refl]
  show ?thesis using h c demo_ssl_ok last unfolding s by fastforce
qed

theorem stale_challenge_witness:
  "\<exists>a1 eff1 body1 a2 eff2 body2.
     HandleLogonChallenge demo_env demo_conn = Inr (True, a1, eff1)
     \<and> HandleLogonChallenge (demo_env\<lparr>rand_b := 2\<rparr>) (a1\<lparr>input := demo_packet\<rparr>) = Inr (True, a2, eff2)
     \<and> Send ([CMD_AUTH_LOGON_CHALLENGE, 0x00, WOW_SUCCESS] @ body1) \<in> set eff1
     \<and> Send ([CMD_AUTH_LOGON_CHALLENGE, 0x00, WOW_SUCCESS] @ body2) \<in> set eff2
     \<and> take 32 body2 = take 32 body1 \<and> bn (as_b a2) = 2"
proof -
  obtain a1 eff1 body1 where c: "HandleLogonChallenge demo_env demo_conn = Inr (True, a1, eff1)"
    "Send ([CMD_AUTH_LOGON_CHALLENGE, 0x00, WOW_SUCCESS] @ body1) \<in> set eff1"
    using demo_challenge by blast
  have "current_numbers demo_ssl a1" using after_accepted[OF _ demo_new c] demo_ssl_ok by simp
  then obtain a2 eff2 body2 where d: "HandleLogonChallenge (demo_env\<lparr>rand_b := 2\<rparr>) (a1\<lparr>input := demo_packet\<rparr>) = Inr (True, a2, eff2)"
    "Send ([CMD_AUTH_LOGON_CHALLENGE, 0x00, WOW_SUCCESS] @ body2) \<in> set eff2"
    using demo_challenge_at[of "a1\<lparr>input := demo_packet\<rparr>" "[]" 2] by (auto simp: current_numbers_def)
  have "ssl (demo_env\<lparr>rand_b := 2\<rparr>) = ssl demo_env" "openssl_ok (ssl demo_env)" using demo_ssl_ok by simp_all
  note h = stale_challenge[OF this(2,1) demo_new c d]
  show ?thesis using h c d by fastforce
qed

definition demo_piece :: "uint8 list" where
  "demo_piece = [0, 8, 50, 0, 87] @ replicate 31 0"

theorem split_challenge_lost_witness:
  "handle_input (\<lambda>i. demo_env) demo_piece (AuthSocket_new demo_realms)
     = Inr ((AuthSocket_new demo_realms)\<lparr>input := 87 # replicate 31 0\<rparr>, [])"
proof -
  have i: "input (AuthSocket_new demo_realms) @ demo_piece = demo_piece" by (simp add: AuthSocket_new_def)
  have "87 \<notin> set (map fst auth_table)" by (simp add: auth_table_def)
  then show ?thesis
    using split_challenge_lost[of "AuthSocket_new demo_realms" demo_piece "\<lambda>i. demo_env", unfolded i]
    by (simp add: demo_piece_def)
qed

text \<open>The banned client asks three times in one piece, or once and then for the realms.\<close>

lemma banned_step:
  assumes "input a = demo_packet @ rest" "n < 2"
  shows "OnRead_loop (\<lambda>i. banned_env) i n a =
     bindR (OnRead_loop (\<lambda>i. banned_env) (Suc i) (Suc n) (with_login demo_env (demo_packet @ [0]) (a\<lparr>input := rest\<rparr>)))
       (\<lambda>r. Inr (fst r, Send [CMD_AUTH_LOGON_CHALLENGE, 0x00, WOW_FAIL_BANNED] # snd r))"
proof -
  have "input a \<noteq> []" "hd (input a) = 0" using assms(1) by (simp_all add: demo_packet_def)
  moreover have "find_handler 0 au = Some HandleLogonChallenge" for au by (simp add: find_handler_def auth_table_def)
  ultimately show ?thesis using assms(2) by (subst OnRead_loop.simps) (simp add: banned_challenge[OF assms(1)])
qed

theorem challenges_bounded_witness:
  "\<exists>a'. OnRead (\<lambda>i. banned_env) (demo_conn\<lparr>input := demo_packet @ demo_packet @ demo_packet\<rparr>) = Inr (a',
     replicate 2 (Send [CMD_AUTH_LOGON_CHALLENGE, 0x00, WOW_FAIL_BANNED]) @ [CloseConnection])
     \<and> challenge_count (replicate 2 (Send [CMD_AUTH_LOGON_CHALLENGE, 0x00, WOW_FAIL_BANNED]) @ [CloseConnection]) \<le> 2"
proof -
  have three: "OnRead_loop (\<lambda>i. banned_env) k 2 a = Inr (a, [CloseConnection])" if "input a = demo_packet" for k a
    using that by (subst OnRead_loop.simps) (simp add: demo_packet_def)
  have "\<exists>a'. OnRead (\<lambda>i. banned_env) (demo_conn\<lparr>input := demo_packet @ demo_packet @ demo_packet\<rparr>) = Inr (a',
     replicate 2 (Send [CMD_AUTH_LOGON_CHALLENGE, 0x00, WOW_FAIL_BANNED]) @ [CloseConnection])"
    unfolding OnRead_def
    by (simp add: banned_step[where rest = "demo_packet @ demo_packet"] banned_step[where rest = demo_packet]
        three with_login_def numeral_2_eq_2[symmetric] replicate_Suc[symmetric] del: replicate_Suc)
       (simp add: numeral_2_eq_2)
  then show ?thesis using challenges_bounded by blast
qed

theorem realm_list_guarded_witness:
  "\<exists>a. auth_session a [Send [CMD_AUTH_LOGON_CHALLENGE, 0x00, WOW_FAIL_BANNED]]
     \<and> guarded False [Send [CMD_AUTH_LOGON_CHALLENGE, 0x00, WOW_FAIL_BANNED]] \<and> \<not> authed a"
proof -
  have "input ((AuthSocket_new demo_realms)\<lparr>input := demo_packet\<rparr>) = demo_packet @ []" by simp
  note b = banned_step[OF this, of 0 0]
  define a where "a = with_login demo_env (demo_packet @ [0]) ((AuthSocket_new demo_realms)\<lparr>input := []\<rparr>)"
  have "OnRead_loop (\<lambda>i. banned_env) (Suc 0) (Suc 0) a = Inr (a, [])"
    by (subst OnRead_loop.simps) (simp add: a_def with_login_def)
  moreover have "input (AuthSocket_new demo_realms) = []" by (simp add: AuthSocket_new_def)
  ultimately have "handle_input (\<lambda>i. banned_env) demo_packet (AuthSocket_new demo_realms) = Inr (a,
       [Send [CMD_AUTH_LOGON_CHALLENGE, 0x00, WOW_FAIL_BANNED]])"
    using b by (simp add: handle_input_def OnRead_def a_def)
  from arrives[OF connected this]
  have s: "auth_session a [Send [CMD_AUTH_LOGON_CHALLENGE, 0x00, WOW_FAIL_BANNED]]" by simp
  show ?thesis using realm_list_guarded[OF s] s by auto
qed

end
