(* ===== verification/LinkedList.thy ===== *)
theory LinkedList
  imports Prelude
begin

text \<open>
  The intrusive doubly linked list of src/src/framework/Utilities/LinkedList.h: an object that is to
  be in a list carries a \<open>LinkedListElement\<close>, and the list itself owns two sentinels. The elements live
  in a store, a map from addresses to the two pointers; the address 0 is \<open>NULL\<close>. The operations write
  the pointers in the order of the code. What they implement is a sequence: \<open>ll_ok\<close> says which one a
  store represents.
\<close>

section \<open>Elements\<close>

type_synonym addr = nat

abbreviation (input) NULL :: addr where "NULL \<equiv> 0"

record LinkedListElement =
  iNext :: addr
  iPrev :: addr

type_synonym store = "addr \<Rightarrow> LinkedListElement"

definition element_new :: LinkedListElement where
  "element_new = \<lparr>iNext = NULL, iPrev = NULL\<rparr>"

definition set_next :: "addr \<Rightarrow> addr \<Rightarrow> store \<Rightarrow> store" where
  "set_next p v h = h(p := (h p)\<lparr>iNext := v\<rparr>)"

definition set_prev :: "addr \<Rightarrow> addr \<Rightarrow> store \<Rightarrow> store" where
  "set_prev p v h = h(p := (h p)\<lparr>iPrev := v\<rparr>)"

definition hasNext :: "store \<Rightarrow> addr \<Rightarrow> bool" where
  "hasNext h p \<longleftrightarrow> iNext (h p) \<noteq> NULL \<and> iNext (h (iNext (h p))) \<noteq> NULL"

definition hasPrev :: "store \<Rightarrow> addr \<Rightarrow> bool" where
  "hasPrev h p \<longleftrightarrow> iPrev (h p) \<noteq> NULL \<and> iPrev (h (iPrev (h p))) \<noteq> NULL"

definition isInList :: "store \<Rightarrow> addr \<Rightarrow> bool" where
  "isInList h p \<longleftrightarrow> iNext (h p) \<noteq> NULL \<and> iPrev (h p) \<noteq> NULL"

definition next_element :: "store \<Rightarrow> addr \<Rightarrow> addr" where
  "next_element h p = (if hasNext h p then iNext (h p) else NULL)"

definition prev_element :: "store \<Rightarrow> addr \<Rightarrow> addr" where
  "prev_element h p = (if hasPrev h p then iPrev (h p) else NULL)"

definition delink :: "addr \<Rightarrow> store \<Rightarrow> store" where
  "delink p h =
     (if isInList h p
      then let h = set_prev (iNext (h p)) (iPrev (h p)) h;
               h = set_next (iPrev (h p)) (iNext (h p)) h;
               h = set_next p NULL h
           in set_prev p NULL h
      else h)"

definition insertBefore :: "addr \<Rightarrow> addr \<Rightarrow> store \<Rightarrow> store result" where
  "insertBefore p e h =
     (let h = set_next e p h;
          h = set_prev e (iPrev (h p)) h
      in if iPrev (h p) = NULL then Inl Undefined
         else let h = set_next (iPrev (h p)) e h in Inr (set_prev p e h))"

definition insertAfter :: "addr \<Rightarrow> addr \<Rightarrow> store \<Rightarrow> store result" where
  "insertAfter p e h =
     (let h = set_prev e p h;
          h = set_next e (iNext (h p)) h
      in if iNext (h p) = NULL then Inl Undefined
         else let h = set_prev (iNext (h p)) e h in Inr (set_next p e h))"

section \<open>Lists\<close>

record LinkedListHead =
  iFirst :: addr
  iLast :: addr
  iSize :: uint32

definition head_new :: "LinkedListHead \<Rightarrow> store \<Rightarrow> store" where
  "head_new l h =
     (let h = h(iFirst l := element_new, iLast l := element_new)
      in set_prev (iLast l) (iFirst l) (set_next (iFirst l) (iLast l) h))"

definition isEmpty :: "store \<Rightarrow> LinkedListHead \<Rightarrow> bool" where
  "isEmpty h l \<longleftrightarrow> \<not> isInList h (iNext (h (iFirst l)))"

definition getFirst :: "store \<Rightarrow> LinkedListHead \<Rightarrow> addr" where
  "getFirst h l = (if isEmpty h l then NULL else iNext (h (iFirst l)))"

definition getLast :: "store \<Rightarrow> LinkedListHead \<Rightarrow> addr" where
  "getLast h l = (if isEmpty h l then NULL else iPrev (h (iLast l)))"

definition insertFirst :: "LinkedListHead \<Rightarrow> addr \<Rightarrow> store \<Rightarrow> store result" where
  "insertFirst l e h = insertAfter (iFirst l) e h"

definition insertLast :: "LinkedListHead \<Rightarrow> addr \<Rightarrow> store \<Rightarrow> store result" where
  "insertLast l e h = insertBefore (iLast l) e h"

text \<open>The loop of \<open>getSize\<close>. On a store that is no list it may run for ever.\<close>

partial_function (option) size_loop :: "store \<Rightarrow> addr \<Rightarrow> uint32 \<Rightarrow> uint32 option" where
  "size_loop h e n = (if e = NULL then Some n else size_loop h (next_element h e) (n + 1))"

definition getSize :: "store \<Rightarrow> LinkedListHead \<Rightarrow> uint32 option" where
  "getSize h l = (if iSize l = 0 then size_loop h (getFirst h l) 0 else Some (iSize l))"

section \<open>The sequence of a list\<close>

text \<open>\<open>dpath h p xs q\<close>: from \<open>p\<close> through \<open>xs\<close> to \<open>q\<close>, with the pointers right in both directions.\<close>

fun dpath :: "store \<Rightarrow> addr \<Rightarrow> addr list \<Rightarrow> addr \<Rightarrow> bool" where
  "dpath h p [] q \<longleftrightarrow> iNext (h p) = q \<and> iPrev (h q) = p"
| "dpath h p (x # xs) q \<longleftrightarrow> iNext (h p) = x \<and> iPrev (h x) = p \<and> dpath h x xs q"

definition ll_nodes :: "LinkedListHead \<Rightarrow> addr list \<Rightarrow> addr list" where
  "ll_nodes l xs = iFirst l # xs @ [iLast l]"

definition ll_ok :: "store \<Rightarrow> LinkedListHead \<Rightarrow> addr list \<Rightarrow> bool" where
  "ll_ok h l xs \<longleftrightarrow> distinct (ll_nodes l xs) \<and> NULL \<notin> set (ll_nodes l xs)
     \<and> iPrev (h (iFirst l)) = NULL \<and> iNext (h (iLast l)) = NULL \<and> dpath h (iFirst l) xs (iLast l)"

lemma set_next_simps [simp]:
  "iNext (set_next p v h q) = (if q = p then v else iNext (h q))" "iPrev (set_next p v h q) = iPrev (h q)"
  "iPrev (set_prev p v h q) = (if q = p then v else iPrev (h q))" "iNext (set_prev p v h q) = iNext (h q)"
  by (simp_all add: set_next_def set_prev_def)

lemma dpath_append:
  "dpath h p (xs @ y # ys) q \<longleftrightarrow> dpath h p xs y \<and> dpath h y ys q"
  by (induction xs arbitrary: p) auto

lemma dpath_first: "dpath h p xs q \<Longrightarrow> iNext (h p) = hd (xs @ [q])"
  by (cases xs) auto

lemma dpath_last: "dpath h p xs q \<Longrightarrow> iPrev (h q) = last (p # xs)"
  by (induction xs arbitrary: p) auto

lemma dpath_cong:
  assumes "\<forall>x \<in> set (p # xs). iNext (h' x) = iNext (h x)" "\<forall>x \<in> set (xs @ [q]). iPrev (h' x) = iPrev (h x)"
  shows "dpath h' p xs q = dpath h p xs q"
  using assms by (induction xs arbitrary: p) auto

lemma ll_ok_cong:
  assumes "\<forall>x \<in> set (ll_nodes l xs). h' x = h x"
  shows "ll_ok h' l xs = ll_ok h l xs"
  using assms dpath_cong[of "iFirst l" xs h' h "iLast l"] by (simp add: ll_ok_def ll_nodes_def)

lemma ll_ok_distinct: "ll_ok h l xs \<Longrightarrow> distinct xs \<and> iFirst l \<notin> set xs \<and> iLast l \<notin> set xs \<and> iFirst l \<noteq> iLast l"
  by (auto simp: ll_ok_def ll_nodes_def)

lemma ll_ok_nonnull: "ll_ok h l xs \<Longrightarrow> NULL \<notin> set xs \<and> iFirst l \<noteq> NULL \<and> iLast l \<noteq> NULL"
  by (auto simp: ll_ok_def ll_nodes_def)

text \<open>The neighbours of an element.\<close>

lemma dpath_split:
  "dpath h p (ys @ x # zs) q \<Longrightarrow>
     iNext (h x) = hd (zs @ [q]) \<and> iPrev (h x) = last (p # ys) \<and> iNext (h (last (p # ys))) = x \<and> iPrev (h (hd (zs @ [q]))) = x"
proof -
  assume d: "dpath h p (ys @ x # zs) q"
  then have y: "dpath h p ys x" and z: "dpath h x zs q" by (simp_all add: dpath_append)
  have "iNext (h (last (p # ys))) = x" using y by (induction ys arbitrary: p) auto
  moreover have "iPrev (h (hd (zs @ [q]))) = x" using z by (cases zs) auto
  ultimately show ?thesis using dpath_first[OF z] dpath_last[OF y] by simp
qed

lemma in_list:
  assumes "ll_ok h l xs" "x \<in> set xs"
  shows "isInList h x"
proof -
  from assms(2) obtain ys zs where "xs = ys @ x # zs" by (meson split_list)
  moreover have "hd (zs @ [iLast l]) \<in> set (zs @ [iLast l])" "last (iFirst l # ys) \<in> set (iFirst l # ys)"
    by (metis append_is_Nil_conv hd_in_set list.distinct(1)) (metis last_in_set list.distinct(1))
  ultimately show ?thesis using assms dpath_split[of h "iFirst l" ys x zs "iLast l"]
    by (fastforce simp: ll_ok_def ll_nodes_def isInList_def)
qed

lemma last_not_in_list: "ll_ok h l xs \<Longrightarrow> \<not> isInList h (iLast l)"
  by (simp add: ll_ok_def isInList_def)

lemma isEmpty_ok: "ll_ok h l xs \<Longrightarrow> isEmpty h l \<longleftrightarrow> xs = []"
  using in_list[of h l xs] last_not_in_list[of h l xs] dpath_first[of h "iFirst l" xs "iLast l"]
  by (cases xs) (auto simp: isEmpty_def ll_ok_def)

section \<open>The operations on the sequence\<close>

lemma head_new_ok:
  assumes "iFirst l \<noteq> NULL" "iLast l \<noteq> NULL" "iFirst l \<noteq> iLast l"
  shows "ll_ok (head_new l h) l []"
  using assms by (simp add: ll_ok_def ll_nodes_def head_new_def Let_def set_next_def set_prev_def element_new_def)

lemma getFirst_ok: "ll_ok h l xs \<Longrightarrow> getFirst h l = (if xs = [] then NULL else hd xs)"
  using isEmpty_ok[of h l xs] dpath_first[of h "iFirst l" xs "iLast l"] by (auto simp: getFirst_def ll_ok_def)

lemma getLast_ok: "ll_ok h l xs \<Longrightarrow> getLast h l = (if xs = [] then NULL else last xs)"
  using isEmpty_ok[of h l xs] dpath_last[of h "iFirst l" xs "iLast l"] by (auto simp: getLast_def ll_ok_def)

lemma next_ok:
  assumes "ll_ok h l (ys @ x # zs)"
  shows "next_element h x = (if zs = [] then NULL else hd zs)"
proof -
  have s: "iNext (h x) = hd (zs @ [iLast l])"
    using assms dpath_split[of h "iFirst l" ys x zs "iLast l"] by (simp add: ll_ok_def)
  show ?thesis
  proof (cases zs)
    case Nil
    then show ?thesis using s assms by (simp add: next_element_def hasNext_def ll_ok_def)
  next
    case (Cons z zs')
    then have "isInList h z" using in_list[OF assms, of z] by simp
    then show ?thesis using s Cons assms by (auto simp: next_element_def hasNext_def isInList_def ll_ok_def ll_nodes_def)
  qed
qed

lemma prev_ok:
  assumes "ll_ok h l (ys @ x # zs)"
  shows "prev_element h x = (if ys = [] then NULL else last ys)"
proof -
  have s: "iPrev (h x) = last (iFirst l # ys)"
    using assms dpath_split[of h "iFirst l" ys x zs "iLast l"] by (simp add: ll_ok_def)
  show ?thesis
  proof (cases ys rule: rev_cases)
    case Nil
    then show ?thesis using s assms by (simp add: prev_element_def hasPrev_def ll_ok_def)
  next
    case (snoc ys' y)
    then have "isInList h y" using in_list[OF assms, of y] by simp
    moreover have "y \<noteq> NULL" using assms snoc by (auto simp: ll_ok_def ll_nodes_def)
    ultimately show ?thesis using s snoc by (simp add: prev_element_def hasPrev_def isInList_def)
  qed
qed

lemma insertFirst_ok:
  assumes ok: "ll_ok h l xs" and new: "e \<notin> set (ll_nodes l xs)" "e \<noteq> NULL"
  obtains h' where "insertFirst l e h = Inr h'" "ll_ok h' l (e # xs)" "\<forall>q. q \<notin> set (ll_nodes l (e # xs)) \<longrightarrow> h' q = h q"
proof -
  define n where "n = iNext (h (iFirst l))"
  define h' where "h' = set_next (iFirst l) e (set_prev n e (set_next e n (set_prev e (iFirst l) h)))"
  have n: "n = hd (xs @ [iLast l])" "n \<in> set (xs @ [iLast l])" "n \<noteq> NULL"
    using ok dpath_first[of h "iFirst l" xs "iLast l"] by (cases xs; auto simp: n_def ll_ok_def ll_nodes_def)+
  have ne: "e \<noteq> iFirst l" "e \<noteq> n" "n \<noteq> iFirst l" using new n(2) ok by (auto simp: ll_nodes_def ll_ok_def)
  have i: "insertFirst l e h = Inr h'"
    using ne n(3) by (simp add: insertFirst_def insertAfter_def Let_def h'_def n_def)
  have "dpath h' e xs (iLast l)"
  proof (cases xs)
    case Nil
    then show ?thesis using n(1) ne by (simp add: h'_def)
  next
    case (Cons x ys)
    then have "dpath h x ys (iLast l)" "x = n" using ok n(1) by (auto simp: ll_ok_def)
    moreover have "\<forall>y \<in> set (x # ys). iNext (h' y) = iNext (h y)" "\<forall>y \<in> set (ys @ [iLast l]). iPrev (h' y) = iPrev (h y)"
      using Cons ok new \<open>x = n\<close> by (auto simp: h'_def ll_ok_def ll_nodes_def)
    ultimately show ?thesis using Cons dpath_cong[of x ys h' h "iLast l"] ne by (simp add: h'_def)
  qed
  moreover have "iPrev (h' (iFirst l)) = NULL" "iNext (h' (iLast l)) = NULL" "iNext (h' (iFirst l)) = e" "iPrev (h' e) = iFirst l"
    using ok new ne by (auto simp: h'_def ll_ok_def ll_nodes_def)
  ultimately have "ll_ok h' l (e # xs)" using ok new by (auto simp: ll_ok_def ll_nodes_def)
  moreover have "\<forall>q. q \<notin> set (ll_nodes l (e # xs)) \<longrightarrow> h' q = h q"
    using n(2) by (auto simp: h'_def set_next_def set_prev_def ll_nodes_def)
  ultimately show ?thesis using that i by blast
qed

lemma insertLast_ok:
  assumes ok: "ll_ok h l xs" and new: "e \<notin> set (ll_nodes l xs)" "e \<noteq> NULL"
  obtains h' where "insertLast l e h = Inr h'" "ll_ok h' l (xs @ [e])" "\<forall>q. q \<notin> set (ll_nodes l (xs @ [e])) \<longrightarrow> h' q = h q"
proof -
  define p where "p = iPrev (h (iLast l))"
  define h' where "h' = set_prev (iLast l) e (set_next p e (set_prev e p (set_next e (iLast l) h)))"
  have p: "p = last (iFirst l # xs)" using ok dpath_last by (simp add: p_def ll_ok_def)
  then have m: "p \<in> set (iFirst l # xs)" using last_in_set by blast
  then have "p \<in> set (ll_nodes l xs)" by (auto simp: ll_nodes_def)
  then have "p \<noteq> NULL" using ok unfolding ll_ok_def by metis
  then have ne: "p \<noteq> NULL" "e \<noteq> iLast l" "e \<noteq> p" "p \<noteq> iLast l" using m new ok by (auto simp: ll_nodes_def ll_ok_def)
  have i: "insertLast l e h = Inr h'"
    using ne by (simp add: insertLast_def insertBefore_def Let_def h'_def p_def)
  have "dpath h' (iFirst l) xs e"
  proof (cases xs rule: rev_cases)
    case Nil
    then show ?thesis using p ne by (simp add: h'_def)
  next
    case (snoc ys x)
    have "dpath h (iFirst l) (ys @ [x]) (iLast l)" using ok snoc by (simp add: ll_ok_def)
    then have "dpath h (iFirst l) ys x" unfolding dpath_append by simp
    moreover have "\<forall>y \<in> set (iFirst l # ys). iNext (h' y) = iNext (h y)" "\<forall>y \<in> set (ys @ [x]). iPrev (h' y) = iPrev (h y)"
      using snoc ok new p by (auto simp: h'_def ll_ok_def ll_nodes_def)
    ultimately have "dpath h' (iFirst l) ys x" using dpath_cong[of "iFirst l" ys h' h x] by simp
    moreover have "p = x" "iNext (h' p) = e" "iPrev (h' e) = p" using snoc p ne by (simp_all add: h'_def)
    ultimately show ?thesis unfolding snoc dpath_append by simp
  qed
  moreover have "iPrev (h' (iFirst l)) = NULL" "iNext (h' (iLast l)) = NULL" "iNext (h' e) = iLast l" "iPrev (h' (iLast l)) = e"
    using ok new ne by (auto simp: h'_def ll_ok_def ll_nodes_def)
  ultimately have "ll_ok h' l (xs @ [e])" using ok new by (auto simp: ll_ok_def ll_nodes_def dpath_append)
  moreover have "\<forall>q. q \<notin> set (ll_nodes l (xs @ [e])) \<longrightarrow> h' q = h q"
    using m by (auto simp: h'_def set_next_def set_prev_def ll_nodes_def)
  ultimately show ?thesis using that i by blast
qed

lemma delink_notin: "\<not> isInList h e \<Longrightarrow> delink e h = h"
  by (simp add: delink_def)

lemma delink_ok:
  assumes ok: "ll_ok h l (ys @ e # zs)"
  shows "ll_ok (delink e h) l (ys @ zs)" "\<not> isInList (delink e h) e"
    "\<forall>q. q \<notin> set (ll_nodes l (ys @ e # zs)) \<longrightarrow> delink e h q = h q"
proof -
  define p where "p = last (iFirst l # ys)"
  define n where "n = hd (zs @ [iLast l])"
  define h' where "h' = set_prev e NULL (set_next e NULL (set_next p n (set_prev n p h)))"
  have d: "dpath h (iFirst l) ys e" "dpath h e zs (iLast l)" using ok by (simp_all add: ll_ok_def dpath_append)
  have ptr: "iNext (h e) = n" "iPrev (h e) = p"
    using dpath_split[of h "iFirst l" ys e zs "iLast l"] ok by (simp_all add: ll_ok_def p_def n_def)
  have mp: "p \<in> set (iFirst l # ys)" unfolding p_def by (rule last_in_set) simp
  have mn: "n \<in> set (zs @ [iLast l])" unfolding n_def by (rule hd_in_set) simp
  have ne: "p \<noteq> e" "n \<noteq> e" "p \<noteq> NULL" "n \<noteq> NULL" "p \<noteq> n" using ok mp mn by (auto simp: ll_ok_def ll_nodes_def)
  have del: "delink e h = h'"
    using in_list[OF ok, of e] ne by (simp add: delink_def Let_def h'_def ptr)
  have "dpath h' (iFirst l) (ys @ zs) (iLast l)"
  proof (cases zs)
    case Nil
    then have n: "n = iLast l" by (simp add: n_def)
    show ?thesis
    proof (cases ys rule: rev_cases)
      case Nil
      then show ?thesis using n \<open>zs = []\<close> ne by (simp add: h'_def p_def)
    next
      case (snoc ys' y)
      then have "dpath h (iFirst l) ys' y" using d(1) unfolding snoc dpath_append by simp
      moreover have "\<forall>x \<in> set (iFirst l # ys'). iNext (h' x) = iNext (h x)" "\<forall>x \<in> set (ys' @ [y]). iPrev (h' x) = iPrev (h x)"
        using snoc ok n by (auto simp: h'_def ll_ok_def ll_nodes_def p_def)
      ultimately show ?thesis
        using dpath_cong[of "iFirst l" ys' h' h y] snoc \<open>zs = []\<close> n ne by (simp add: dpath_append h'_def p_def)
    qed
  next
    case (Cons z zs')
    then have n: "n = z" by (simp add: n_def)
    have "dpath h z zs' (iLast l)" using d(2) Cons by simp
    moreover have "\<forall>x \<in> set (z # zs'). iNext (h' x) = iNext (h x)" "\<forall>x \<in> set (zs' @ [iLast l]). iPrev (h' x) = iPrev (h x)"
      using Cons ok n mp by (auto simp: h'_def ll_ok_def ll_nodes_def)
    ultimately have b: "dpath h' z zs' (iLast l)" using dpath_cong[of z zs' h' h "iLast l"] by simp
    have "dpath h' (iFirst l) ys z"
    proof (cases ys rule: rev_cases)
      case Nil
      then show ?thesis using n ne by (simp add: h'_def p_def)
    next
      case (snoc ys' y)
      then have "dpath h (iFirst l) ys' y" using d(1) unfolding snoc dpath_append by simp
      moreover have "\<forall>x \<in> set (iFirst l # ys'). iNext (h' x) = iNext (h x)" "\<forall>x \<in> set (ys' @ [y]). iPrev (h' x) = iPrev (h x)"
        using snoc ok n Cons by (auto simp: h'_def ll_ok_def ll_nodes_def p_def)
      ultimately show ?thesis
        using dpath_cong[of "iFirst l" ys' h' h y] snoc n ne by (simp add: dpath_append h'_def p_def)
    qed
    then show ?thesis using b unfolding Cons dpath_append by simp
  qed
  moreover have "iPrev (h' (iFirst l)) = NULL" "iNext (h' (iLast l)) = NULL"
    using ok ne mp mn by (auto simp: h'_def ll_ok_def ll_nodes_def)
  ultimately show "ll_ok (delink e h) l (ys @ zs)" unfolding del using ok by (simp add: ll_ok_def ll_nodes_def)
  show "\<not> isInList (delink e h) e" unfolding del by (simp add: h'_def isInList_def)
  show "\<forall>q. q \<notin> set (ll_nodes l (ys @ e # zs)) \<longrightarrow> delink e h q = h q"
    using mp mn by (auto simp: del h'_def set_next_def set_prev_def ll_nodes_def)
qed

section \<open>Walking\<close>

text \<open>
  What a loop \<open>for (e = getFirst(); e; e = next())\<close> relies on, and what it then visits.
\<close>

locale cursor_list =
  fixes rep :: "'s \<Rightarrow> addr list \<Rightarrow> bool"
    and first :: "'s \<Rightarrow> addr"
    and succ :: "'s \<Rightarrow> addr \<Rightarrow> addr"
  assumes first: "rep s xs \<Longrightarrow> first s = (if xs = [] then NULL else hd xs)"
    and succ: "rep s (ys @ x # zs) \<Longrightarrow> succ s x = (if zs = [] then NULL else hd zs)"
    and nonnull: "rep s xs \<Longrightarrow> NULL \<notin> set xs"
begin

inductive visits :: "'s \<Rightarrow> addr \<Rightarrow> addr list \<Rightarrow> bool" where
  stop: "visits s NULL []"
| step: "e \<noteq> NULL \<Longrightarrow> visits s (succ s e) es \<Longrightarrow> visits s e (e # es)"

lemma visits_suffix: "rep s (ys @ zs) \<Longrightarrow> visits s (if zs = [] then NULL else hd zs) zs"
proof (induction zs arbitrary: ys)
  case (Cons z zs)
  have "visits s (succ s z) zs"
    using Cons.IH[of "ys @ [z]"] Cons.prems succ[OF Cons.prems] by simp
  moreover have "z \<noteq> NULL" using nonnull[OF Cons.prems] by auto
  ultimately show ?case using step[of z s zs] by simp
qed (simp add: stop)

lemma loop_visits: "rep s xs \<Longrightarrow> visits s (first s) xs"
  using visits_suffix[of s "[]" xs] first[of s xs] by simp

lemma visits_unique: "visits s e es \<Longrightarrow> visits s e es' \<Longrightarrow> es' = es"
proof (induction arbitrary: es' rule: visits.induct)
  case (stop s)
  then show ?case by (cases rule: visits.cases) auto
next
  case (step e s es)
  from step.prems step.hyps(1) step.IH show ?case by (cases rule: visits.cases) auto
qed

end

interpretation fwd: cursor_list "\<lambda>(h, l) xs. ll_ok h l xs" "\<lambda>(h, l). getFirst h l" "\<lambda>(h, l). next_element h"
  by unfold_locales (auto simp: getFirst_ok next_ok dest: ll_ok_nonnull)

interpretation bwd: cursor_list "\<lambda>(h, l) xs. ll_ok h l (rev xs)" "\<lambda>(h, l). getLast h l" "\<lambda>(h, l). prev_element h"
proof (unfold_locales, goal_cases)
  case (2 s ys x zs)
  then show ?case using prev_ok[of "fst s" "snd s" "rev zs" x "rev ys"] by (cases s) (simp add: last_rev)
qed (auto simp: getLast_ok last_rev dest: ll_ok_nonnull)

lemma size_loop_ok: "fwd.visits (h, l) e es \<Longrightarrow> size_loop h e n = Some (n + of_nat (length es))"
proof (induction "(h, l)" e es arbitrary: n rule: fwd.visits.induct)
  case stop
  show ?case by (subst size_loop.simps) simp
next
  case (step e es)
  then show ?case by (subst size_loop.simps) (simp add: algebra_simps)
qed

lemma getSize_ok: "ll_ok h l xs \<Longrightarrow> iSize l = 0 \<Longrightarrow> getSize h l = Some (of_nat (length xs))"
  using fwd.loop_visits[of "(h, l)" xs] size_loop_ok[of h l "getFirst h l" xs 0] by (simp add: getSize_def)

section \<open>References\<close>

text \<open>
  src/src/framework/Utilities/LinkedReference: a \<open>Reference\<close> from a source object to a target object
  is an element of the target's list; here, as in GroupReference.cpp, with the hooks of a group and its
  players: \<open>targetObjectBuildLink\<close> puts the reference in front of the target's list, the other two do
  nothing. \<open>tgt\<close> and \<open>src\<close> hold \<open>iRefTo\<close> and \<open>iRefFrom\<close> of each reference, \<open>heads\<close> the list of each target
  object.
\<close>

record RefStore =
  nodes :: store
  iRefTo :: "addr \<Rightarrow> addr"
  iRefFrom :: "addr \<Rightarrow> addr"
  heads :: "addr \<Rightarrow> LinkedListHead"

definition isValid :: "RefStore \<Rightarrow> addr \<Rightarrow> bool" where
  "isValid s r \<longleftrightarrow> iRefTo s r \<noteq> NULL"

definition unlink :: "addr \<Rightarrow> RefStore \<Rightarrow> RefStore" where
  "unlink r s = s\<lparr>nodes := delink r (nodes s), iRefTo := (iRefTo s)(r := NULL), iRefFrom := (iRefFrom s)(r := NULL)\<rparr>"

definition link :: "addr \<Rightarrow> addr \<Rightarrow> addr \<Rightarrow> RefStore \<Rightarrow> RefStore result" where
  "link r toObj fromObj s =
     (if fromObj = NULL then Inl AssertFailed
      else let s = (if isValid s r then unlink r s else s)
           in if toObj \<noteq> NULL
              then bindR (insertFirst (heads s toObj) r (nodes s)) (\<lambda>h.
                     Inr (s\<lparr>iRefTo := (iRefTo s)(r := toObj), iRefFrom := (iRefFrom s)(r := fromObj), nodes := h\<rparr>))
              else Inr s)"

definition invalidate :: "addr \<Rightarrow> RefStore \<Rightarrow> RefStore" where
  "invalidate r s = s\<lparr>nodes := delink r (nodes s), iRefTo := (iRefTo s)(r := NULL)\<rparr>"

partial_function (option) clearReferences :: "addr \<Rightarrow> RefStore \<Rightarrow> RefStore option" where
  "clearReferences t s =
     (let r = getFirst (nodes s) (heads s t)
      in if r = NULL then Some s
         else let s = invalidate r s in clearReferences t (s\<lparr>nodes := delink r (nodes s)\<rparr>))"

text \<open>
  A set of targets and the references to each, in order. The lists share no nodes, and what is not
  a valid reference is in no list.
\<close>

definition refs_ok :: "RefStore \<Rightarrow> addr set \<Rightarrow> (addr \<Rightarrow> addr list) \<Rightarrow> bool" where
  "refs_ok s T L \<longleftrightarrow> NULL \<notin> T
     \<and> (\<forall>t \<in> T. ll_ok (nodes s) (heads s t) (L t) \<and> (\<forall>r \<in> set (L t). iRefTo s r = t))
     \<and> (\<forall>t \<in> T. \<forall>u \<in> T. t \<noteq> u \<longrightarrow> set (ll_nodes (heads s t) (L t)) \<inter> set (ll_nodes (heads s u) (L u)) = {})
     \<and> (\<forall>r. if isValid s r then iRefTo s r \<in> T \<and> r \<in> set (L (iRefTo s r)) else \<not> isInList (nodes s) r)"

lemma refs_okD:
  assumes "refs_ok s T L" "t \<in> T"
  shows "ll_ok (nodes s) (heads s t) (L t)" "\<forall>r \<in> set (L t). iRefTo s r = t" "t \<noteq> NULL"
    "\<And>u. u \<in> T \<Longrightarrow> t \<noteq> u \<Longrightarrow> set (ll_nodes (heads s t) (L t)) \<inter> set (ll_nodes (heads s u) (L u)) = {}"
proof -
  note r = assms(1)[unfolded refs_ok_def]
  show "ll_ok (nodes s) (heads s t) (L t)" by (rule bspec[OF conjunct1[OF conjunct2[OF r]] assms(2), THEN conjunct1])
  show "\<forall>r \<in> set (L t). iRefTo s r = t" by (rule bspec[OF conjunct1[OF conjunct2[OF r]] assms(2), THEN conjunct2])
  show "t \<noteq> NULL" using conjunct1[OF r] assms(2) by metis
  show "set (ll_nodes (heads s t) (L t)) \<inter> set (ll_nodes (heads s u) (L u)) = {}" if "u \<in> T" "t \<noteq> u" for u
    using bspec[OF bspec[OF conjunct1[OF conjunct2[OF conjunct2[OF r]]] assms(2)] that(1)] that(2) by (rule mp)
qed

lemma refs_ok_valid: "refs_ok s T L \<Longrightarrow> isValid s r \<Longrightarrow> iRefTo s r \<in> T \<and> r \<in> set (L (iRefTo s r))"
  unfolding refs_ok_def by presburger

lemma refs_ok_invalid: "refs_ok s T L \<Longrightarrow> \<not> isValid s r \<Longrightarrow> \<not> isInList (nodes s) r"
  unfolding refs_ok_def by presburger

lemma refs_ok_in_one: "refs_ok s T L \<Longrightarrow> t \<in> T \<Longrightarrow> r \<in> set (L t) \<Longrightarrow> isValid s r \<and> iRefTo s r = t"
  using refs_okD(2,3)[of s T L t] by (simp add: isValid_def)

lemma refs_ok_list_cong:
  assumes "refs_ok s T L" "\<forall>t \<in> T. L' t = L t"
  shows "refs_ok s T L'"
  unfolding refs_ok_def
proof (intro conjI ballI impI allI)
  note ok = assms(1)
  have e: "L' t = L t" if "t \<in> T" for t using assms(2) that by (rule bspec)
  show "NULL \<notin> T" using refs_okD(3)[OF ok] by metis
  show "ll_ok (nodes s) (heads s t) (L' t)" if "t \<in> T" for t unfolding e[OF that] by (rule refs_okD(1)[OF ok that])
  show "iRefTo s r = t" if "t \<in> T" "r \<in> set (L' t)" for t r
    using refs_okD(2)[OF ok that(1)] that(2) unfolding e[OF that(1)] by (rule bspec)
  show "set (ll_nodes (heads s t) (L' t)) \<inter> set (ll_nodes (heads s u) (L' u)) = {}" if "t \<in> T" "u \<in> T" "t \<noteq> u" for t u
    unfolding e[OF that(1)] e[OF that(2)] by (rule refs_okD(4)[OF ok that])
  show "if isValid s r then iRefTo s r \<in> T \<and> r \<in> set (L' (iRefTo s r)) else \<not> isInList (nodes s) r" for r
    using refs_ok_valid[OF ok, of r] refs_ok_invalid[OF ok, of r] e[of "iRefTo s r"] by presburger
qed

text \<open>An element keeps being in no list when its neighbours change, unless it is one of them.\<close>

lemma sentinel_out:
  "ll_ok h l xs \<Longrightarrow> q \<in> set (ll_nodes l xs) \<Longrightarrow> q \<notin> set xs \<Longrightarrow> \<not> isInList h q"
  by (auto simp: ll_ok_def ll_nodes_def isInList_def)

lemma getFirst_refs: "refs_ok s T L \<Longrightarrow> t \<in> T \<Longrightarrow> getFirst (nodes s) (heads s t) = (if L t = [] then NULL else hd (L t))"
  by (rule getFirst_ok) (rule refs_okD)

text \<open>Cutting a valid reference takes it out of the list of its target and leaves the others.\<close>

lemma cut_refs:
  assumes ok: "refs_ok s T L" and v: "isValid s r"
    and s': "nodes s' = delink r (nodes s)" "iRefTo s' = (iRefTo s)(r := NULL)" "heads s' = heads s"
  shows "refs_ok s' T (L(iRefTo s r := remove1 r (L (iRefTo s r))))" "\<not> isInList (nodes s') r"
proof -
  define t where "t = iRefTo s r"
  have t: "t \<in> T" "r \<in> set (L t)" using refs_ok_valid[OF ok v] by (simp_all add: t_def)
  note ll = refs_okD(1)[OF ok t(1)]
  obtain ys zs where L: "L t = ys @ r # zs" "r \<notin> set ys" using t(2) by (metis split_list_first)
  have cut: "remove1 r (L t) = ys @ zs" using L by (simp add: remove1_append)
  note d = delink_ok[OF ll[unfolded L(1)]]
  have other: "ll_ok (delink r (nodes s)) (heads s u) (L u)" if u: "u \<in> T" "u \<noteq> t" for u
    using ll_ok_cong[of "heads s u" "L u" "delink r (nodes s)" "nodes s"] d(3) refs_okD(1)[OF ok u(1)]
      refs_okD(4)[OF ok t(1) u(1)] u(2) L(1) by (metis disjoint_iff)
  have dist: "r \<notin> set (ys @ zs)" using ll_ok_distinct[OF ll] L(1) by simp
  have sub: "set (ll_nodes (heads s u) ((L(t := ys @ zs)) u)) \<subseteq> set (ll_nodes (heads s u) (L u))" for u
    using L(1) by (auto simp: ll_nodes_def)
  show "refs_ok s' T (L(iRefTo s r := remove1 r (L (iRefTo s r))))"
    unfolding t_def[symmetric] cut refs_ok_def s'
  proof (intro conjI ballI impI allI)
    show "NULL \<notin> T" using ok by (simp add: refs_ok_def)
    show "ll_ok (delink r (nodes s)) (heads s u) ((L(t := ys @ zs)) u)" if "u \<in> T" for u
      using d(1) other[OF that] by simp
    show "((iRefTo s)(r := NULL)) q = u" if "u \<in> T" "q \<in> set ((L(t := ys @ zs)) u)" for u q
    proof -
      have q: "q \<in> set (L u)" "iRefTo s q = u" using that refs_okD(2)[OF ok that(1)] L(1) by (auto split: if_splits)
      moreover have "q \<noteq> r" using that q dist by (cases "u = t") (auto simp: t_def)
      ultimately show ?thesis by simp
    qed
    show "set (ll_nodes (heads s u) ((L(t := ys @ zs)) u)) \<inter> set (ll_nodes (heads s w) ((L(t := ys @ zs)) w)) = {}"
      if "u \<in> T" "w \<in> T" "u \<noteq> w" for u w
      using refs_okD(4)[OF ok that] sub[of u] sub[of w] by blast
    fix q
    show "if isValid s' q then ((iRefTo s)(r := NULL)) q \<in> T \<and> q \<in> set ((L(t := ys @ zs)) (((iRefTo s)(r := NULL)) q))
      else \<not> isInList (delink r (nodes s)) q"
    proof (cases "isValid s' q")
      case True
      then have "q \<noteq> r" "isValid s q" by (auto simp: isValid_def s'(2) split: if_splits)
      with refs_ok_valid[OF ok this(2)] True L(1) show ?thesis by auto
    next
      case False
      have "\<not> isInList (delink r (nodes s)) q"
      proof (cases "q \<in> set (ll_nodes (heads s t) (L t))")
        case True
        then have "q = r \<or> q \<in> set (ll_nodes (heads s t) (ys @ zs))" using L(1) by (auto simp: ll_nodes_def)
        moreover have "q \<notin> set (ys @ zs)" using False refs_ok_in_one[OF ok t(1), of q] L(1) dist t_def
          by (auto simp: isValid_def s'(2) split: if_splits)
        ultimately show ?thesis using d(2) sentinel_out[OF d(1)] by blast
      next
        case out: False
        then have "\<not> isValid s q" using False t(2) t_def by (auto simp: isValid_def s'(2) ll_nodes_def split: if_splits)
        then have "\<not> isInList (nodes s) q" by (rule refs_ok_invalid[OF ok])
        then show ?thesis using d(3) out L(1) by (simp add: isInList_def)
      qed
      then show ?thesis using False by simp
    qed
  qed
  show "\<not> isInList (nodes s') r" using d(2) by (simp add: s')
qed

lemma unlink_refs:
  "refs_ok s T L \<Longrightarrow> isValid s r \<Longrightarrow> refs_ok (unlink r s) T (L(iRefTo s r := remove1 r (L (iRefTo s r))))"
  by (rule cut_refs) (simp_all add: unlink_def)

lemma invalidate_refs:
  "refs_ok s T L \<Longrightarrow> isValid s r \<Longrightarrow> refs_ok (invalidate r s) T (L(iRefTo s r := remove1 r (L (iRefTo s r))))"
  by (rule cut_refs) (simp_all add: invalidate_def)

lemma remove1_refs:
  assumes ok: "refs_ok s T L" and r: "\<forall>t \<in> T. r \<in> set (L t) \<longrightarrow> t = u"
  shows "\<forall>t \<in> T. remove1 r (L t) = (L(u := remove1 r (L u))) t"
  using r by (auto simp: remove1_idem)

lemma unlink_list:
  assumes ok: "refs_ok s T L"
  shows "refs_ok (unlink r s) T (\<lambda>t. remove1 r (L t))" "\<not> isValid (unlink r s) r"
proof -
  show "refs_ok (unlink r s) T (\<lambda>t. remove1 r (L t))"
  proof (cases "isValid s r")
    case True
    have *: "\<forall>t \<in> T. r \<in> set (L t) \<longrightarrow> t = iRefTo s r" using refs_ok_in_one[OF ok] by blast
    show ?thesis by (rule refs_ok_list_cong[OF unlink_refs[OF ok True]]) (rule remove1_refs[OF ok *])
  next
    case False
    have l: "refs_ok s T (\<lambda>t. remove1 r (L t))"
      by (rule refs_ok_list_cong[OF ok]) (use refs_ok_in_one[OF ok] False in \<open>blast intro: remove1_idem\<close>)
    have "unlink r s = s\<lparr>iRefFrom := (iRefFrom s)(r := NULL)\<rparr>"
      using False refs_ok_invalid[OF ok False] by (simp add: unlink_def delink_notin isValid_def fun_upd_idem)
    then show ?thesis using l by (simp add: refs_ok_def isValid_def)
  qed
  show "\<not> isValid (unlink r s) r" by (simp add: isValid_def unlink_def)
qed

lemma invalidate_list:
  assumes ok: "refs_ok s T L"
  shows "refs_ok (invalidate r s) T (\<lambda>t. remove1 r (L t))"
proof (cases "isValid s r")
  case True
  have *: "\<forall>t \<in> T. r \<in> set (L t) \<longrightarrow> t = iRefTo s r" using refs_ok_in_one[OF ok] by blast
  show ?thesis by (rule refs_ok_list_cong[OF invalidate_refs[OF ok True]]) (rule remove1_refs[OF ok *])
next
  case False
  have "invalidate r s = s" using False refs_ok_invalid[OF ok False] by (simp add: invalidate_def delink_notin isValid_def fun_upd_idem)
  moreover have "\<forall>t \<in> T. remove1 r (L t) = L t" using refs_ok_in_one[OF ok] False by (metis remove1_idem)
  ultimately show ?thesis using refs_ok_list_cong[OF ok, of "\<lambda>t. remove1 r (L t)"] by simp
qed

text \<open>Putting a free reference in front of a list.\<close>

lemma push_refs:
  assumes ok: "refs_ok s T L" and t: "t \<in> T" and v: "\<not> isValid s r" and r: "r \<noteq> NULL" "\<forall>u \<in> T. r \<noteq> iFirst (heads s u) \<and> r \<noteq> iLast (heads s u)"
  obtains h where "insertFirst (heads s t) r (nodes s) = Inr h"
    "\<And>f. refs_ok (s\<lparr>iRefTo := (iRefTo s)(r := t), iRefFrom := f, nodes := h\<rparr>) T (L(t := r # L t))"
proof -
  have free: "r \<notin> set (ll_nodes (heads s u) (L u))" if "u \<in> T" for u
    using v r(2) that refs_ok_in_one[OF ok that, of r] by (auto simp: ll_nodes_def)
  obtain h where h: "insertFirst (heads s t) r (nodes s) = Inr h" "ll_ok h (heads s t) (r # L t)"
    "\<forall>q. q \<notin> set (ll_nodes (heads s t) (r # L t)) \<longrightarrow> h q = nodes s q"
    using insertFirst_ok[OF refs_okD(1)[OF ok t] free[OF t] r(1)] by metis
  have "refs_ok (s\<lparr>iRefTo := (iRefTo s)(r := t), iRefFrom := f, nodes := h\<rparr>) T (L(t := r # L t))" (is "refs_ok ?s T ?L") for f
    unfolding refs_ok_def
  proof (intro conjI ballI impI allI)
    show "NULL \<notin> T" using refs_okD(3)[OF ok] by metis
    have dis: "q \<notin> set (ll_nodes (heads s t) (r # L t))" if "u \<in> T" "u \<noteq> t" "q \<in> set (ll_nodes (heads s u) (L u))" for u q
      using refs_okD(4)[OF ok t that(1)] that(2,3) free[OF that(1)] by (auto simp: ll_nodes_def)
    show "ll_ok (nodes ?s) (heads ?s u) (?L u)" if "u \<in> T" for u
    proof (cases "u = t")
      case False
      have "\<forall>q \<in> set (ll_nodes (heads s u) (L u)). h q = nodes s q" using dis[OF that False] h(3) by blast
      then show ?thesis using ll_ok_cong refs_okD(1)[OF ok that] False by fastforce
    qed (use h(2) in simp)
    show "iRefTo ?s q = u" if "u \<in> T" "q \<in> set (?L u)" for u q
      using that refs_ok_in_one[OF ok that(1), of q] v by (auto split: if_splits)
    show "set (ll_nodes (heads ?s u) (?L u)) \<inter> set (ll_nodes (heads ?s w) (?L w)) = {}" if "u \<in> T" "w \<in> T" "u \<noteq> w" for u w
    proof -
      have "set (ll_nodes (heads s x) (?L x)) \<subseteq> (if x = t then {r} else {}) \<union> set (ll_nodes (heads s x) (L x))" for x
        by (auto simp: ll_nodes_def)
      from this[of u] this[of w] show ?thesis
        using refs_okD(4)[OF ok that] free[OF that(1)] free[OF that(2)] that(3) unfolding RefStore.simps by (simp split: if_splits) blast+
    qed
    show "if isValid ?s q then iRefTo ?s q \<in> T \<and> q \<in> set (?L (iRefTo ?s q)) else \<not> isInList (nodes ?s) q" for q
    proof (cases "q = r")
      case True
      then show ?thesis using t refs_okD(3)[OF ok t] by (simp add: isValid_def)
    next
      case qr: False
      show ?thesis
      proof (cases "isValid s q")
        case True
        then show ?thesis using refs_ok_valid[OF ok True] qr by (auto simp: isValid_def)
      next
        case False
        then have nl: "q \<notin> set (r # L t)" using refs_ok_in_one[OF ok t, of q] qr by auto
        have "\<not> isInList h q"
        proof (cases "q \<in> set (ll_nodes (heads s t) (r # L t))")
          case True
          then show ?thesis using sentinel_out[OF h(2) True nl] by simp
        next
          case False
          then show ?thesis using h(3) refs_ok_invalid[OF ok \<open>\<not> isValid s q\<close>] by (simp add: isInList_def)
        qed
        then show ?thesis using False qr by (simp add: isValid_def)
      qed
    qed
  qed
  then show ?thesis using that h(1) by blast
qed

lemma link_list:
  assumes ok: "refs_ok s T L" and t: "t \<in> T" and f: "f \<noteq> NULL"
    and r: "r \<noteq> NULL" "\<forall>u \<in> T. r \<noteq> iFirst (heads s u) \<and> r \<noteq> iLast (heads s u)"
  obtains s' where "link r t f s = Inr s'" "refs_ok s' T ((\<lambda>u. remove1 r (L u))(t := r # remove1 r (L t)))"
    "isValid s' r" "iRefTo s' r = t" "iRefFrom s' r = f"
proof -
  define s1 where "s1 = (if isValid s r then unlink r s else s)"
  have "refs_ok s1 T (\<lambda>u. remove1 r (L u))"
  proof (cases "isValid s r")
    case False
    have "\<forall>u \<in> T. remove1 r (L u) = L u" using refs_ok_in_one[OF ok] False by (metis remove1_idem)
    then show ?thesis using refs_ok_list_cong[OF ok, of "\<lambda>u. remove1 r (L u)"] False by (simp add: s1_def)
  qed (use unlink_list(1)[OF ok] in \<open>simp add: s1_def\<close>)
  moreover have "\<not> isValid s1 r" using unlink_list(2)[OF ok] by (simp add: s1_def)
  moreover have "heads s1 = heads s" by (simp add: s1_def unlink_def)
  ultimately obtain h where h: "insertFirst (heads s1 t) r (nodes s1) = Inr h"
    "\<And>f. refs_ok (s1\<lparr>iRefTo := (iRefTo s1)(r := t), iRefFrom := f, nodes := h\<rparr>) T ((\<lambda>u. remove1 r (L u))(t := r # remove1 r (L t)))"
    using push_refs[OF _ t _ r(1), of s1 "\<lambda>u. remove1 r (L u)"] r(2) by metis
  have "t \<noteq> NULL" by (rule refs_okD(3)[OF ok t])
  then have "link r t f s = Inr (s1\<lparr>iRefTo := (iRefTo s1)(r := t), iRefFrom := (iRefFrom s1)(r := f), nodes := h\<rparr>)"
    using f h(1) by (simp add: link_def Let_def s1_def)
  then show ?thesis using that h(2) \<open>t \<noteq> NULL\<close> by (simp add: isValid_def)
qed

lemma clearReferences_list:
  assumes "refs_ok s T L" "t \<in> T"
  obtains s' where "clearReferences t s = Some s'" "refs_ok s' T (L(t := []))"
    "\<forall>q. isValid s' q \<longleftrightarrow> isValid s q \<and> iRefTo s q \<noteq> t" "\<forall>q. iRefTo s q \<noteq> t \<longrightarrow> iRefTo s' q = iRefTo s q"
    "heads s' = heads s" "iRefFrom s' = iRefFrom s"
  using assms
proof (induction "L t" arbitrary: s L thesis)
  case Nil
  have "clearReferences t s = Some s"
    using getFirst_refs[OF Nil.prems(2,3)] Nil.hyps by (subst clearReferences.simps) simp
  moreover have "L(t := []) = L" using Nil.hyps by auto
  moreover have "isValid s q \<longrightarrow> iRefTo s q \<noteq> t" for q using refs_ok_valid[OF Nil.prems(2), of q] Nil.hyps by auto
  then have "\<forall>q. isValid s q = (isValid s q \<and> iRefTo s q \<noteq> t)" by blast
  ultimately show ?case using Nil.prems(1)[of s] Nil.prems(2) by simp
next
  case (Cons r rs)
  note ok = Cons.prems(2) and t = Cons.prems(3)
  have r: "r \<in> set (L t)" using Cons.hyps(2) by (metis list.set_intros(1))
  have v: "isValid s r" "iRefTo s r = t" using refs_ok_in_one[OF ok t r] by simp_all
  define s1 where "s1 = invalidate r s"
  have "remove1 r (L t) = rs" using Cons.hyps(2) by (metis remove1.simps(2))
  then have ok1: "refs_ok s1 T (L(t := rs))" using invalidate_refs[OF ok v(1)] v(2) by (simp add: s1_def)
  have n1: "\<not> isValid s1 r" by (simp add: s1_def invalidate_def isValid_def)
  have "delink r (nodes s1) = nodes s1" by (rule delink_notin) (rule refs_ok_invalid[OF ok1 n1])
  then have again: "s1\<lparr>nodes := delink r (nodes s1)\<rparr> = s1" by simp
  have "r \<noteq> NULL" using r ll_ok_nonnull[OF refs_okD(1)[OF ok t]] by metis
  moreover have "getFirst (nodes s) (heads s t) = r" using getFirst_refs[OF ok t] Cons.hyps(2) by (cases "L t") auto
  ultimately have run: "clearReferences t s = clearReferences t s1"
    using again by (subst clearReferences.simps) (simp add: Let_def s1_def)
  obtain s' where s': "clearReferences t s1 = Some s'" "refs_ok s' T ((L(t := rs))(t := []))"
    "\<forall>q. isValid s' q \<longleftrightarrow> isValid s1 q \<and> iRefTo s1 q \<noteq> t" "\<forall>q. iRefTo s1 q \<noteq> t \<longrightarrow> iRefTo s' q = iRefTo s1 q"
    "heads s' = heads s1" "iRefFrom s' = iRefFrom s1"
    using Cons.hyps(1)[of "L(t := rs)" s1] ok1 t by auto
  have keep: "iRefTo s1 q = (if q = r then NULL else iRefTo s q)" for q by (simp add: s1_def invalidate_def)
  show ?case
  proof (rule Cons.prems(1)[of s'])
    show "clearReferences t s = Some s'" using run s'(1) by simp
    show "refs_ok s' T (L(t := []))" using s'(2) by simp
    show "\<forall>q. isValid s' q \<longleftrightarrow> isValid s q \<and> iRefTo s q \<noteq> t" using s'(3) v(2) keep by (auto simp: isValid_def)
    show "\<forall>q. iRefTo s q \<noteq> t \<longrightarrow> iRefTo s' q = iRefTo s q" using s'(4) v(2) keep by metis
    show "heads s' = heads s" "iRefFrom s' = iRefFrom s" using s'(5,6) by (simp_all add: s1_def invalidate_def)
  qed
qed

section \<open>Sequences of operations\<close>

text \<open>
  A program uses references by calling these four operations in any order. \<open>ref_run\<close> is \<open>None\<close> when an
  assertion fails, a null pointer is written through or \<open>clearReferences\<close> does not come back. \<open>list_step\<close>
  says what each operation does to the lists, \<open>source_step\<close> what it does to the sources.
\<close>

datatype RefOp =
  Link addr addr addr
| Unlink addr
| Invalidate addr
| ClearReferences addr

fun ref_step :: "RefOp \<Rightarrow> RefStore \<Rightarrow> RefStore option" where
  "ref_step (Link r t f) s = (case link r t f s of Inl e \<Rightarrow> None | Inr s' \<Rightarrow> Some s')"
| "ref_step (Unlink r) s = Some (unlink r s)"
| "ref_step (Invalidate r) s = Some (invalidate r s)"
| "ref_step (ClearReferences t) s = clearReferences t s"

fun ref_run :: "RefOp list \<Rightarrow> RefStore \<Rightarrow> RefStore option" where
  "ref_run [] s = Some s"
| "ref_run (x # xs) s = Option.bind (ref_step x s) (ref_run xs)"

fun list_step :: "RefOp \<Rightarrow> (addr \<Rightarrow> addr list) \<Rightarrow> addr \<Rightarrow> addr list" where
  "list_step (Link r t f) L = (\<lambda>u. remove1 r (L u))(t := r # remove1 r (L t))"
| "list_step (Unlink r) L = (\<lambda>u. remove1 r (L u))"
| "list_step (Invalidate r) L = (\<lambda>u. remove1 r (L u))"
| "list_step (ClearReferences t) L = L(t := [])"

fun source_step :: "RefOp \<Rightarrow> (addr \<Rightarrow> addr) \<Rightarrow> addr \<Rightarrow> addr" where
  "source_step (Link r t f) F = F(r := f)"
| "source_step (Unlink r) F = F(r := NULL)"
| "source_step _ F = F"

text \<open>A reference is linked to a target that is there, from a source, and is no sentinel of a list.\<close>

fun op_ok :: "(addr \<Rightarrow> LinkedListHead) \<Rightarrow> addr set \<Rightarrow> RefOp \<Rightarrow> bool" where
  "op_ok H T (Link r t f) \<longleftrightarrow> t \<in> T \<and> f \<noteq> NULL \<and> r \<noteq> NULL \<and> (\<forall>u \<in> T. r \<noteq> iFirst (H u) \<and> r \<noteq> iLast (H u))"
| "op_ok H T (ClearReferences t) \<longleftrightarrow> t \<in> T"
| "op_ok H T _ \<longleftrightarrow> True"

lemma link_keeps:
  assumes "link r t f s = Inr s'" "t \<noteq> NULL"
  shows "heads s' = heads s" "iRefFrom s' = (iRefFrom s)(r := f)"
  using assms by (auto simp: link_def Let_def unlink_def bindR_def split: if_splits sum.splits)

lemma ref_step_refines:
  assumes ok: "refs_ok s T L" and x: "op_ok (heads s) T x"
  obtains s' where "ref_step x s = Some s'" "refs_ok s' T (list_step x L)" "heads s' = heads s"
    "iRefFrom s' = source_step x (iRefFrom s)"
proof (cases x)
  case (Link r t f)
  then have c: "t \<in> T" "f \<noteq> NULL" "r \<noteq> NULL" "\<forall>u \<in> T. r \<noteq> iFirst (heads s u) \<and> r \<noteq> iLast (heads s u)" using x by simp_all
  obtain s' where s': "link r t f s = Inr s'" "refs_ok s' T ((\<lambda>u. remove1 r (L u))(t := r # remove1 r (L t)))"
    using link_list[OF ok c] by metis
  show ?thesis using that[of s'] s' link_keeps[OF s'(1) refs_okD(3)[OF ok c(1)]] Link by simp
next
  case (Unlink r)
  show ?thesis using that[of "unlink r s"] unlink_list(1)[OF ok, of r] Unlink by (simp add: unlink_def)
next
  case (Invalidate r)
  show ?thesis using that[of "invalidate r s"] invalidate_list[OF ok, of r] Invalidate by (simp add: invalidate_def)
next
  case (ClearReferences t)
  then have "t \<in> T" using x by simp
  then show ?thesis using clearReferences_list[OF ok, of t] that ClearReferences by (metis list_step.simps(4) ref_step.simps(4) source_step.simps(4))
qed

lemma ref_run_refines:
  "refs_ok s T L \<Longrightarrow> \<forall>x \<in> set xs. op_ok (heads s) T x \<Longrightarrow>
     \<exists>s'. ref_run xs s = Some s' \<and> refs_ok s' T (fold list_step xs L) \<and> iRefFrom s' = fold source_step xs (iRefFrom s)"
proof (induction xs arbitrary: s L)
  case (Cons x xs)
  obtain s1 where s1: "ref_step x s = Some s1" "refs_ok s1 T (list_step x L)" "heads s1 = heads s"
    "iRefFrom s1 = source_step x (iRefFrom s)"
    using ref_step_refines[OF Cons.prems(1)] Cons.prems(2) by (metis list.set_intros(1))
  show ?case using Cons.IH[OF s1(2)] Cons.prems(2) s1 by simp
qed simp

lemma refs_ok_valid_iff: "refs_ok s T L \<Longrightarrow> isValid s r \<longleftrightarrow> (\<exists>t \<in> T. r \<in> set (L t))"
  using refs_ok_valid[of s T L r] refs_ok_in_one[of s T L _ r] by blast

section \<open>Claims\<close>

text \<open>
  C17. The pointers implement the lists they stand for, through every sequence of operations. From a store
  that represents one list of references per target, any sequence of \<open>link\<close>, \<open>unlink\<close>, \<open>invalidate\<close> and
  \<open>clearReferences\<close> runs to its end, and the store then represents the lists on which the same sequence
  was performed: \<open>link\<close> takes a reference out of its list and puts it in front of its new target's,
  \<open>unlink\<close> and \<open>invalidate\<close> take it out, \<open>clearReferences\<close> empties the list of its target. The valid
  references are exactly those in the lists, each refers to the target in whose list it is, and its
  source is that of the last \<open>link\<close>. The targets of \<open>link\<close> and \<open>clearReferences\<close> have a list, and a
  linked reference is not null, has a source and is no sentinel of a list.
\<close>

theorem reference_lists:
  assumes "refs_ok s T L" "\<forall>x \<in> set xs. op_ok (heads s) T x"
  shows "\<exists>s'. ref_run xs s = Some s' \<and> refs_ok s' T (fold list_step xs L)
     \<and> (\<forall>r. isValid s' r \<longleftrightarrow> (\<exists>t \<in> T. r \<in> set (fold list_step xs L t)))
     \<and> (\<forall>t \<in> T. \<forall>r \<in> set (fold list_step xs L t). iRefTo s' r = t)
     \<and> iRefFrom s' = fold source_step xs (iRefFrom s)"
proof -
  obtain s' where s': "ref_run xs s = Some s'" "refs_ok s' T (fold list_step xs L)" "iRefFrom s' = fold source_step xs (iRefFrom s)"
    using ref_run_refines[OF assms] by blast
  then show ?thesis using refs_ok_valid_iff[OF s'(2)] refs_okD(2)[OF s'(2)] by blast
qed

text \<open>Two targets with an empty list each and the sentinels 1 to 4; the references 5 and 6.\<close>

definition demo_head :: "addr \<Rightarrow> LinkedListHead" where
  "demo_head t = (if t = 9 then \<lparr>iFirst = 1, iLast = 2, iSize = 0\<rparr> else \<lparr>iFirst = 3, iLast = 4, iSize = 0\<rparr>)"

definition demo_refs :: RefStore where
  "demo_refs = \<lparr>nodes = head_new (demo_head 8) (head_new (demo_head 9) (\<lambda>p. element_new)), iRefTo = (\<lambda>r. NULL),
     iRefFrom = (\<lambda>r. NULL), heads = demo_head\<rparr>"

theorem reference_lists_witness:
  "\<exists>s'. ref_run [Link 5 9 7, Link 6 9 7, Invalidate 5, Link 5 8 7, Unlink 6, Link 6 8 7, ClearReferences 9] demo_refs = Some s'
     \<and> refs_ok s' {8, 9} ((\<lambda>u. [])(8 := [6, 5])) \<and> isValid s' 5 \<and> refs_ok demo_refs {8, 9} (\<lambda>u. [])"
proof -
  let ?xs = "[Link 5 9 7, Link 6 9 7, Invalidate 5, Link 5 8 7, Unlink 6, Link 6 8 7, ClearReferences 9]"
  have ok: "refs_ok demo_refs {8, 9} (\<lambda>u. [])"
    by (simp add: refs_ok_def demo_refs_def demo_head_def isValid_def isInList_def head_new_def Let_def element_new_def
        set_next_def set_prev_def ll_ok_def ll_nodes_def)
  have L: "fold list_step ?xs (\<lambda>u. []) = (\<lambda>u. [])(8 := [6, 5])" by (simp add: fun_eq_iff)
  have c: "\<forall>x \<in> set ?xs. op_ok (heads demo_refs) {8, 9} x" by (simp add: demo_refs_def demo_head_def)
  obtain s' where "ref_run ?xs demo_refs = Some s'" "refs_ok s' {8, 9} ((\<lambda>u. [])(8 := [6, 5]))"
    "\<forall>r. isValid s' r \<longleftrightarrow> (\<exists>t \<in> {8 :: addr, 9}. r \<in> set (((\<lambda>u. [])(8 := [6, 5])) t))"
    using reference_lists[OF ok c] unfolding L by blast
  then show ?thesis using ok by auto
qed

end
