(* ===== verification/LootRoll.thy ===== *)
theory LootRoll
  imports ObjectGuid
begin

text \<open>
  Rolling for loot: class \<open>Roll\<close> and the loot half of class \<open>Group\<close> (src/src/game/Group.h and Group.cpp).
  An item over the group's threshold is put to the vote: every member near enough passes, needs, wants
  it out of greed or wants it disenchanted; then the dice decide.

  A roll refers to its loot by address (\<open>r_loot\<close>); \<open>loots\<close> holds the loots that still exist, so a roll
  whose loot is gone is no longer valid. \<open>playerVote\<close> is an unordered map: a list of pairs in the order
  in which it happens to be traversed, and \<open>bucket\<close> says where a new key lands. What a method sends,
  and what it makes other parts of the server do, is appended to \<open>out\<close>. \<open>draws\<close> is the sequence of
  random numbers to come. The environment answers questions about players and items.
\<close>

section \<open>State\<close>

datatype RollVote = ROLL_PASS | ROLL_NEED | ROLL_GREED | ROLL_DISENCHANT | ROLL_NOT_EMITED_YET | ROLL_NOT_VALID

fun vote_code :: "RollVote \<Rightarrow> uint8" where
  "vote_code ROLL_PASS = 0"
| "vote_code ROLL_NEED = 1"
| "vote_code ROLL_GREED = 2"
| "vote_code ROLL_DISENCHANT = 3"
| "vote_code ROLL_NOT_EMITED_YET = 4"
| "vote_code ROLL_NOT_VALID = 5"

abbreviation (input) ROLL_VOTE_MASK_NEED :: uint8 where "ROLL_VOTE_MASK_NEED \<equiv> 0x02"
abbreviation (input) ROLL_VOTE_MASK_DISENCHANT :: uint8 where "ROLL_VOTE_MASK_DISENCHANT \<equiv> 0x08"
abbreviation (input) ROLL_VOTE_MASK_ALL :: uint8 where "ROLL_VOTE_MASK_ALL \<equiv> 0x0F"

abbreviation (input) FREE_FOR_ALL :: uint32 where "FREE_FOR_ALL \<equiv> 0"
abbreviation (input) ROUND_ROBIN :: uint32 where "ROUND_ROBIN \<equiv> 1"
abbreviation (input) MASTER_LOOT :: uint32 where "MASTER_LOOT \<equiv> 2"
abbreviation (input) GROUP_LOOT :: uint32 where "GROUP_LOOT \<equiv> 3"
abbreviation (input) NEED_BEFORE_GREED :: uint32 where "NEED_BEFORE_GREED \<equiv> 4"

abbreviation (input) EQUIP_ERR_OK :: uint8 where "EQUIP_ERR_OK \<equiv> 0"
abbreviation (input) LOOT_ROLL_TIMEOUT :: uint32 where "LOOT_ROLL_TIMEOUT \<equiv> 60000"

record LootItem =
  li_itemid :: uint32
  li_randomSuffix :: uint32
  li_randomPropertyId :: uint32
  li_count :: uint32
  currency :: bool
  is_looted :: bool
  is_blocked :: bool
  freeforall :: bool
  is_underthreshold :: bool

record Loot =
  items :: "LootItem list"
  unlootedCount :: uint8

record Roll =
  lootedTargetGUID :: ObjectGuid
  r_itemid :: uint32
  itemRandomPropId :: uint32
  itemRandomSuffix :: uint32
  itemCount :: uint8
  r_loot :: nat
  playerVote :: "(ObjectGuid \<times> RollVote) list"
  totalPlayersRolling :: uint8
  totalNeed :: uint8
  totalGreed :: uint8
  totalPass :: uint8
  itemSlot :: uint8
  m_method :: uint32
  m_commonVoteMask :: uint8

datatype GroupOpcode =
    SMSG_LOOT_START_ROLL | SMSG_LOOT_ROLL | SMSG_LOOT_ROLL_WON | SMSG_LOOT_ALL_PASSED | SMSG_LOOT_MASTER_LIST
  | SMSG_GROUP_LIST | SMSG_GROUP_UNINVITE | SMSG_GROUP_DESTROYED | SMSG_GROUP_SET_LEADER
  | MSG_RAID_TARGET_UPDATE | SMSG_RAID_MARKERS_CHANGED | MSG_RAID_READY_CHECK | MSG_RAID_READY_CHECK_CONFIRM

datatype GroupEffect =
    SendPacket ObjectGuid GroupOpcode "uint8 list"
  | StoreNewItem ObjectGuid uint32 nat uint8
  | AutoStoreLoot ObjectGuid nat uint32
  | SendEquipError ObjectGuid uint8 uint32
  | NotifyItemRemoved nat uint8
  | StartGroupLoot ObjectGuid uint32
  | RollAchievement ObjectGuid RollVote uint32 uint32
  | RollCriteria ObjectGuid RollVote
  | LootAchievement ObjectGuid uint32 uint32
  | DbInsertMember ObjectGuid uint8 uint8 uint8
  | DbDeleteMember ObjectGuid
  | DbUpdateMember ObjectGuid uint8
  | DbUpdateSubgroup ObjectGuid uint8
  | DbUpdateRoles ObjectGuid uint8
  | DbUpdateGroupType uint8
  | DbUpdateLeader ObjectGuid ObjectGuid
  | DbUpdateDifficulty uint32
  | DbInsertGroup
  | DbDeleteGroup
  | ResetInstances ObjectGuid
  | ConvertInstances ObjectGuid
  | ClearPermanentBinds
  | HomebindIfInstance ObjectGuid
  | CheckInstanceBind ObjectGuid
  | OtherGroupUpdate ObjectGuid
  | RemoveBots ObjectGuid
  | GroupInvite ObjectGuid ObjectGuid
  | UpdateForQuestWorldObjects ObjectGuid
  | UpdateForRaidMarkers ObjectGuid
  | SetPlayerDifficulty ObjectGuid uint32
  | UpdatePlayerOutOfRange ObjectGuid
  | RemoveGroupBuffs ObjectGuid
  | BroadcastGroupUpdate
  | BroadcastFields ObjectGuid ObjectGuid
  | LfgAddMember ObjectGuid
  | LfgRemoveMember ObjectGuid
  | LfgLeave
  | LfgInitBoot ObjectGuid ObjectGuid
  | PartyResult ObjectGuid uint32
  | SendLoot ObjectGuid
  | DeleteGroup

record ItemPrototype =
  ip_Flags2 :: uint32
  DisenchantID :: uint32
  RequiredDisenchantSkill :: uint32
  Quality :: uint32

record LootEnv =
  itemProto :: "uint32 \<Rightarrow> ItemPrototype option"
  hasSession :: "ObjectGuid \<Rightarrow> bool"
  CanUseItem :: "ObjectGuid \<Rightarrow> uint32 \<Rightarrow> bool"
  CanStoreNewItem :: "ObjectGuid \<Rightarrow> uint32 \<Rightarrow> uint32 \<Rightarrow> uint8"
  AllowedForPlayer :: "ObjectGuid \<Rightarrow> nat \<Rightarrow> uint8 \<Rightarrow> bool"
  isNear :: "ObjectGuid \<Rightarrow> bool"
  enchanting :: "ObjectGuid \<Rightarrow> uint32"
  lootable_type :: bool
  lootTargetGuid :: ObjectGuid
  lootMapId :: uint32
  bucket :: "ObjectGuid \<Rightarrow> ObjectGuid list \<Rightarrow> nat"

text \<open>
  The references in \<open>m_memberMgr\<close>, the last to link first: the player they come from and whether it is
  his \<open>m_originalGroup\<close> rather than his \<open>m_group\<close>.
\<close>

record RollState =
  m_rollIds :: "Roll list"
  loots :: "nat \<Rightarrow> Loot option"
  member_refs :: "(ObjectGuid \<times> bool) list"
  m_lootThreshold :: uint32
  draws :: "nat \<Rightarrow> nat"
  out :: "GroupEffect list"

abbreviation online_members :: "'a RollState_scheme \<Rightarrow> ObjectGuid list" where
  "online_members s \<equiv> map fst (member_refs s)"

definition say :: "GroupEffect \<Rightarrow> 'a RollState_scheme \<Rightarrow> 'a RollState_scheme" where
  "say e s = s\<lparr>out := out s @ [e]\<rparr>"

definition say_all :: "GroupEffect list \<Rightarrow> 'a RollState_scheme \<Rightarrow> 'a RollState_scheme" where
  "say_all es s = s\<lparr>out := out s @ es\<rparr>"

text \<open>\<open>randInt(n)\<close> of the generator gives a number from 0 to \<open>n\<close>.\<close>

definition urand :: "nat \<Rightarrow> nat \<Rightarrow> 'a RollState_scheme \<Rightarrow> uint32 \<times> 'a RollState_scheme" where
  "urand lo hi s = (of_nat (lo + draws s 0 mod (hi - lo + 1)), s\<lparr>draws := (\<lambda>i. draws s (Suc i))\<rparr>)"

section \<open>The vote mask\<close>

definition isValid_roll :: "'a RollState_scheme \<Rightarrow> Roll \<Rightarrow> bool" where
  "isValid_roll s r \<longleftrightarrow> loots s (r_loot r) \<noteq> None"

definition Roll_new :: "ObjectGuid \<Rightarrow> uint32 \<Rightarrow> LootItem \<Rightarrow> Roll" where
  "Roll_new target method li =
     \<lparr>lootedTargetGUID = target, r_itemid = li_itemid li, itemRandomPropId = li_randomPropertyId li,
      itemRandomSuffix = li_randomSuffix li, itemCount = ucast (li_count li), r_loot = 0, playerVote = [],
      totalPlayersRolling = 0, totalNeed = 0, totalGreed = 0, totalPass = 0, itemSlot = 0, m_method = method,
      m_commonVoteMask = ROLL_VOTE_MASK_ALL\<rparr>"

definition CalculateCommonVoteMask :: "LootEnv \<Rightarrow> uint32 \<Rightarrow> Roll \<Rightarrow> Roll result" where
  "CalculateCommonVoteMask env max_enchanting_skill r =
     (case itemProto env (r_itemid r) of
        None \<Rightarrow> Inl Undefined
      | Some p \<Rightarrow>
          let m = ROLL_VOTE_MASK_ALL;
              m = (if ip_Flags2 p AND 0x100 \<noteq> 0 then m AND NOT ROLL_VOTE_MASK_NEED else m);
              m = (if DisenchantID p = 0 \<or> max_enchanting_skill < RequiredDisenchantSkill p
                   then m AND NOT ROLL_VOTE_MASK_DISENCHANT else m)
          in Inr (r\<lparr>m_commonVoteMask := m\<rparr>))"

definition GetVoteMaskFor :: "LootEnv \<Rightarrow> ObjectGuid \<Rightarrow> Roll \<Rightarrow> uint8" where
  "GetVoteMaskFor env g r =
     (if m_method r \<noteq> NEED_BEFORE_GREED \<or> CanUseItem env g (r_itemid r) then m_commonVoteMask r
      else m_commonVoteMask r AND NOT ROLL_VOTE_MASK_NEED)"

section \<open>Packets to the voters\<close>

definition to_voters :: "LootEnv \<Rightarrow> Roll \<Rightarrow> (ObjectGuid \<Rightarrow> GroupEffect) \<Rightarrow> GroupEffect list" where
  "to_voters env r f =
     map (\<lambda>(g, v). f g) (filter (\<lambda>(g, v). hasSession env g \<and> v \<noteq> ROLL_NOT_VALID) (playerVote r))"

definition SendLootStartRoll :: "LootEnv \<Rightarrow> uint32 \<Rightarrow> uint32 \<Rightarrow> Roll \<Rightarrow> 'a RollState_scheme \<Rightarrow> 'a RollState_scheme" where
  "SendLootStartRoll env CountDown mapid r =
     say_all (to_voters env r (\<lambda>g. SendPacket g SMSG_LOOT_START_ROLL
       (le_bytes (lootedTargetGUID r) @ le_bytes mapid @ le_bytes (ucast (itemSlot r) :: uint32) @ le_bytes (r_itemid r)
        @ le_bytes (itemRandomSuffix r) @ le_bytes (itemRandomPropId r) @ le_bytes (ucast (itemCount r) :: uint32)
        @ le_bytes CountDown @ [GetVoteMaskFor env g r, totalPlayersRolling r])))"

definition SendLootRoll ::
  "LootEnv \<Rightarrow> ObjectGuid \<Rightarrow> uint32 \<Rightarrow> uint8 \<Rightarrow> Roll \<Rightarrow> 'a RollState_scheme \<Rightarrow> 'a RollState_scheme" where
  "SendLootRoll env target rollNumber rollType r =
     say_all (to_voters env r (\<lambda>g. SendPacket g SMSG_LOOT_ROLL
       (le_bytes (lootedTargetGUID r) @ le_bytes (ucast (itemSlot r) :: uint32) @ le_bytes target @ le_bytes (r_itemid r)
        @ le_bytes (itemRandomSuffix r) @ le_bytes (itemRandomPropId r) @ le_bytes rollNumber @ [rollType, 0])))"

definition SendLootRollWon ::
  "LootEnv \<Rightarrow> ObjectGuid \<Rightarrow> uint32 \<Rightarrow> RollVote \<Rightarrow> Roll \<Rightarrow> 'a RollState_scheme \<Rightarrow> 'a RollState_scheme" where
  "SendLootRollWon env target rollNumber rollType r =
     say_all (to_voters env r (\<lambda>g. SendPacket g SMSG_LOOT_ROLL_WON
       (le_bytes (lootedTargetGUID r) @ le_bytes (ucast (itemSlot r) :: uint32) @ le_bytes (r_itemid r)
        @ le_bytes (itemRandomSuffix r) @ le_bytes (itemRandomPropId r) @ le_bytes target @ le_bytes rollNumber
        @ [vote_code rollType])))"

definition SendLootAllPassed :: "LootEnv \<Rightarrow> Roll \<Rightarrow> 'a RollState_scheme \<Rightarrow> 'a RollState_scheme" where
  "SendLootAllPassed env r =
     say_all (to_voters env r (\<lambda>g. SendPacket g SMSG_LOOT_ALL_PASSED
       (le_bytes (lootedTargetGUID r) @ le_bytes (ucast (itemSlot r) :: uint32) @ le_bytes (r_itemid r)
        @ le_bytes (itemRandomPropId r) @ le_bytes (itemRandomSuffix r))))"

section \<open>The end of a roll\<close>

text \<open>The dice are thrown for the voters whose vote counts, in the order of the map; the first best wins.\<close>

fun dice_loop ::
  "LootEnv \<Rightarrow> RollVote set \<Rightarrow> Roll \<Rightarrow> (ObjectGuid \<times> RollVote) list \<Rightarrow> ObjectGuid \<times> uint32 \<times> RollVote \<Rightarrow>
     'a RollState_scheme \<Rightarrow> (ObjectGuid \<times> uint32 \<times> RollVote) \<times> 'a RollState_scheme" where
  "dice_loop env counting r [] best s = (best, s)"
| "dice_loop env counting r ((g, v) # vs) best s =
     (if v \<notin> counting then dice_loop env counting r vs best s
      else let (randomN, s) = urand 1 100 s;
               s = SendLootRoll env g randomN (vote_code v) r s
           in dice_loop env counting r vs (if fst (snd best) < randomN then (g, randomN, v) else best) s)"

definition modify_item :: "nat \<Rightarrow> nat \<Rightarrow> (LootItem \<Rightarrow> LootItem) \<Rightarrow> 'a RollState_scheme \<Rightarrow> 'a RollState_scheme result" where
  "modify_item l k f s =
     (case loots s l of
        None \<Rightarrow> Inl Undefined
      | Some loot \<Rightarrow>
          if k < length (items loot)
          then Inr (s\<lparr>loots := (loots s)(l \<mapsto> loot\<lparr>items := (items loot)[k := f (items loot ! k)]\<rparr>)\<rparr>)
          else Inl Undefined)"

definition loot_item :: "'a RollState_scheme \<Rightarrow> nat \<Rightarrow> nat \<Rightarrow> LootItem result" where
  "loot_item s l k =
     (case loots s l of
        None \<Rightarrow> Inl Undefined
      | Some loot \<Rightarrow> if k < length (items loot) then Inr (items loot ! k) else Inl Undefined)"

text \<open>The item is taken out of the loot.\<close>

definition remove_item :: "Roll \<Rightarrow> 'a RollState_scheme \<Rightarrow> 'a RollState_scheme result" where
  "remove_item r s =
     bindR (modify_item (r_loot r) (unat (itemSlot r)) (\<lambda>i. i\<lparr>is_looted := True\<rparr>) s) (\<lambda>s.
       let s = say (NotifyItemRemoved (r_loot r) (itemSlot r)) s
       in Inr (s\<lparr>loots := (loots s)(r_loot r :=
            map_option (\<lambda>l. l\<lparr>unlootedCount := unlootedCount l - 1\<rparr>) (loots s (r_loot r)))\<rparr>))"

definition award :: "LootEnv \<Rightarrow> ObjectGuid \<Rightarrow> Roll \<Rightarrow> 'a RollState_scheme \<Rightarrow> 'a RollState_scheme result" where
  "award env g r s =
     bindR (loot_item s (r_loot r) (unat (itemSlot r))) (\<lambda>item.
       let msg = CanStoreNewItem env g (r_itemid r) (li_count item)
       in if msg = EQUIP_ERR_OK
          then bindR (remove_item r s) (\<lambda>s.
                 Inr (say (LootAchievement g (r_itemid r) (li_count item))
                       (say (StoreNewItem g (r_itemid r) (r_loot r) (itemSlot r)) s)))
          else bindR (modify_item (r_loot r) (unat (itemSlot r)) (\<lambda>i. i\<lparr>is_blocked := False\<rparr>) s) (\<lambda>s.
                 Inr (say (SendEquipError g msg (r_itemid r)) s)))"

definition need_result :: "LootEnv \<Rightarrow> Roll \<Rightarrow> 'a RollState_scheme \<Rightarrow> 'a RollState_scheme result" where
  "need_result env r s =
     (if playerVote r = [] then Inr s
      else let ((maxguid, maxresul, rollvote), s) =
             dice_loop env {ROLL_NEED} r (playerVote r) (fst (hd (playerVote r)), 0, ROLL_NEED) s;
               s = SendLootRollWon env maxguid maxresul ROLL_NEED r s
           in if hasSession env maxguid
              then award env maxguid r (say (RollAchievement maxguid ROLL_NEED (r_itemid r) maxresul) s)
              else Inr s)"

definition disenchant :: "LootEnv \<Rightarrow> ObjectGuid \<Rightarrow> Roll \<Rightarrow> 'a RollState_scheme \<Rightarrow> 'a RollState_scheme result" where
  "disenchant env g r s =
     bindR (remove_item r s) (\<lambda>s.
       case itemProto env (r_itemid r) of
         None \<Rightarrow> Inl Undefined
       | Some p \<Rightarrow> Inr (say (AutoStoreLoot g (r_loot r) (DisenchantID p)) s))"

definition greed_result :: "LootEnv \<Rightarrow> Roll \<Rightarrow> 'a RollState_scheme \<Rightarrow> 'a RollState_scheme result" where
  "greed_result env r s =
     (if playerVote r = [] then Inr s
      else let ((maxguid, maxresul, rollvote), s) =
             dice_loop env {ROLL_GREED, ROLL_DISENCHANT} r (playerVote r) (fst (hd (playerVote r)), 0, ROLL_PASS) s;
               s = SendLootRollWon env maxguid maxresul rollvote r s
           in if hasSession env maxguid
              then bindR (loot_item s (r_loot r) (unat (itemSlot r))) (\<lambda>item.
                     let s = say (RollAchievement maxguid ROLL_GREED (r_itemid r) maxresul) s
                     in if rollvote = ROLL_GREED then award env maxguid r s
                        else if rollvote = ROLL_DISENCHANT then disenchant env maxguid r s
                        else Inr s)
              else Inr s)"

definition all_passed :: "LootEnv \<Rightarrow> Roll \<Rightarrow> 'a RollState_scheme \<Rightarrow> 'a RollState_scheme result" where
  "all_passed env r s =
     modify_item (r_loot r) (unat (itemSlot r)) (\<lambda>i. i\<lparr>is_blocked := False\<rparr>) (SendLootAllPassed env r s)"

definition erase_roll :: "nat \<Rightarrow> 'a RollState_scheme \<Rightarrow> 'a RollState_scheme" where
  "erase_roll k s = s\<lparr>m_rollIds := take k (m_rollIds s) @ drop (Suc k) (m_rollIds s)\<rparr>"

definition CountTheRoll :: "LootEnv \<Rightarrow> nat \<Rightarrow> 'a RollState_scheme \<Rightarrow> 'a RollState_scheme result" where
  "CountTheRoll env k s =
     (let r = m_rollIds s ! k
      in if \<not> isValid_roll s r then Inr (erase_roll k s)
         else bindR (if 0 < totalNeed r then need_result env r s
                     else if 0 < totalGreed r then greed_result env r s
                     else all_passed env r s) (\<lambda>s. Inr (erase_roll k s)))"

section \<open>Voting\<close>

definition set_roll :: "nat \<Rightarrow> Roll \<Rightarrow> 'a RollState_scheme \<Rightarrow> 'a RollState_scheme" where
  "set_roll k r s = s\<lparr>m_rollIds := (m_rollIds s)[k := r]\<rparr>"

definition set_vote :: "ObjectGuid \<Rightarrow> RollVote \<Rightarrow> Roll \<Rightarrow> Roll" where
  "set_vote g v r = r\<lparr>playerVote := map (\<lambda>(h, w). if h = g then (h, v) else (h, w)) (playerVote r)\<rparr>"

definition cast_vote :: "LootEnv \<Rightarrow> ObjectGuid \<Rightarrow> RollVote \<Rightarrow> nat \<Rightarrow> 'a RollState_scheme \<Rightarrow> 'a RollState_scheme" where
  "cast_vote env g vote k s =
     (let r = m_rollIds s ! k
      in case vote of
           ROLL_PASS \<Rightarrow> set_roll k (set_vote g ROLL_PASS (r\<lparr>totalPass := totalPass r + 1\<rparr>)) (SendLootRoll env g (-1) 0 r s)
         | ROLL_NEED \<Rightarrow> set_roll k (set_vote g ROLL_NEED (r\<lparr>totalNeed := totalNeed r + 1\<rparr>)) (SendLootRoll env g 0 0 r s)
         | ROLL_GREED \<Rightarrow> set_roll k (set_vote g ROLL_GREED (r\<lparr>totalGreed := totalGreed r + 1\<rparr>)) (SendLootRoll env g (-1) 2 r s)
         | ROLL_DISENCHANT \<Rightarrow>
             set_roll k (set_vote g ROLL_DISENCHANT (r\<lparr>totalGreed := totalGreed r + 1\<rparr>)) (SendLootRoll env g (-1) 3 r s)
         | _ \<Rightarrow> s)"

text \<open>The sum of the totals is taken in \<open>int\<close>.\<close>

definition all_voted :: "Roll \<Rightarrow> bool" where
  "all_voted r \<longleftrightarrow> unat (totalPlayersRolling r) \<le> unat (totalPass r) + unat (totalNeed r) + unat (totalGreed r)"

definition is_voter :: "ObjectGuid \<Rightarrow> Roll \<Rightarrow> bool" where
  "is_voter g r \<longleftrightarrow> g \<in> fst ` set (playerVote r)"

definition CountRollVote_at ::
  "LootEnv \<Rightarrow> ObjectGuid \<Rightarrow> nat \<Rightarrow> RollVote \<Rightarrow> 'a RollState_scheme \<Rightarrow> (bool \<times> 'a RollState_scheme) result" where
  "CountRollVote_at env g k vote s =
     (let r = m_rollIds s ! k
      in if \<not> is_voter g r then Inr (True, s)
         else if (case loots s (r_loot r) of Some l \<Rightarrow> items l = [] | None \<Rightarrow> False) then Inr (False, s)
         else let s = cast_vote env g vote k s
              in if all_voted (m_rollIds s ! k) then bindR (CountTheRoll env k s) (\<lambda>s. Inr (True, s))
                 else Inr (False, s))"

fun find_roll :: "'a RollState_scheme \<Rightarrow> ObjectGuid \<Rightarrow> uint32 \<Rightarrow> nat \<Rightarrow> Roll list \<Rightarrow> nat option" where
  "find_roll s lootedTarget slot k [] = None"
| "find_roll s lootedTarget slot k (r # rs) =
     (if isValid_roll s r \<and> lootedTargetGUID r = lootedTarget \<and> ucast (itemSlot r) = slot then Some k
      else find_roll s lootedTarget slot (Suc k) rs)"

definition CountRollVote ::
  "LootEnv \<Rightarrow> ObjectGuid \<Rightarrow> ObjectGuid \<Rightarrow> uint32 \<Rightarrow> RollVote \<Rightarrow> 'a RollState_scheme \<Rightarrow> (bool \<times> 'a RollState_scheme) result" where
  "CountRollVote env g lootedTarget slot vote s =
     (case find_roll s lootedTarget slot 0 (m_rollIds s) of
        None \<Rightarrow> Inr (False, s)
      | Some k \<Rightarrow>
          if GetVoteMaskFor env g (m_rollIds s ! k) AND push_bit (unat (vote_code vote)) 1 = 0 then Inr (False, s)
          else bindR (CountRollVote_at env g k vote s) (\<lambda>(b, s). Inr (True, s)))"

definition vote_of_code :: "uint8 \<Rightarrow> RollVote" where
  "vote_of_code c = (if c = 0 then ROLL_PASS else if c = 1 then ROLL_NEED else if c = 2 then ROLL_GREED else ROLL_DISENCHANT)"

definition HandleLootRoll ::
  "LootEnv \<Rightarrow> ObjectGuid \<Rightarrow> ObjectGuid \<Rightarrow> uint32 \<Rightarrow> uint8 \<Rightarrow> 'a RollState_scheme \<Rightarrow> 'a RollState_scheme result" where
  "HandleLootRoll env player lootedTarget slot rollType s =
     (if 4 \<le> rollType then Inr s
      else bindR (CountRollVote env player lootedTarget slot (vote_of_code rollType) s) (\<lambda>(counted, s).
             Inr (if counted \<and> rollType \<noteq> 0
                  then say (RollCriteria player (if rollType = 1 then ROLL_NEED else ROLL_GREED)) s else s)))"

section \<open>A voter leaves\<close>

definition drop_vote :: "ObjectGuid \<Rightarrow> Roll \<Rightarrow> Roll" where
  "drop_vote g r =
     (case map_of (playerVote r) g of
        None \<Rightarrow> r
      | Some v \<Rightarrow>
          let r = (if v = ROLL_GREED \<or> v = ROLL_DISENCHANT then r\<lparr>totalGreed := totalGreed r - 1\<rparr> else r);
              r = (if v = ROLL_NEED then r\<lparr>totalNeed := totalNeed r - 1\<rparr> else r);
              r = (if v = ROLL_PASS then r\<lparr>totalPass := totalPass r - 1\<rparr> else r);
              r = (if v \<noteq> ROLL_NOT_VALID then r\<lparr>totalPlayersRolling := totalPlayersRolling r - 1\<rparr> else r)
          in r\<lparr>playerVote := filter (\<lambda>(h, w). h \<noteq> g) (playerVote r)\<rparr>)"

lemma drop_vote_gone [simp]: "\<not> is_voter g (drop_vote g r)"
  by (auto simp: is_voter_def drop_vote_def Let_def map_of_eq_None_iff split: option.split)

lemma vote_gone: "\<not> is_voter g (m_rollIds s ! k) \<Longrightarrow> CountRollVote_at env g k vote s = Inr (True, s)"
  by (simp add: CountRollVote_at_def Let_def)

lemma m_rollIds_set_roll [simp]: "m_rollIds (set_roll k r s) = (m_rollIds s)[k := r]"
  by (simp add: set_roll_def)

lemma filter_update_less:
  "k < length xs \<Longrightarrow> P (xs ! k) \<Longrightarrow> \<not> P x \<Longrightarrow> length (filter P (xs[k := x])) < length (filter P xs)"
proof (induction xs arbitrary: k)
  case (Cons y ys)
  then show ?case by (cases k) auto
qed simp

text \<open>The voter is gone when the votes are counted again, so this count always answers \<open>true\<close>.\<close>

lemma leaver_counted:
  "k < length (m_rollIds s) \<Longrightarrow>
     CountRollVote_at env g k v (set_roll k (drop_vote g r) s) = Inr (True, set_roll k (drop_vote g r) s)"
  by (rule vote_gone) simp

function removeRolls_loop :: "LootEnv \<Rightarrow> ObjectGuid \<Rightarrow> nat \<Rightarrow> 'a RollState_scheme \<Rightarrow> 'a RollState_scheme result" where
  "removeRolls_loop env g k s =
     (if length (m_rollIds s) \<le> k then Inr s
      else let r = m_rollIds s ! k
           in if \<not> is_voter g r then removeRolls_loop env g (Suc k) s
              else bindR (CountRollVote_at env g k ROLL_NOT_EMITED_YET (set_roll k (drop_vote g r) s)) (\<lambda>(erased, s).
                     if erased then removeRolls_loop env g k s else removeRolls_loop env g (Suc k) s))"
  by pat_completeness auto
termination
proof (relation "measure (\<lambda>(env, g, k, s). length (m_rollIds s) - k
    + length (filter (\<lambda>r. is_voter g r) (m_rollIds s)))", goal_cases)
  case (3 env g k s r x erased s')
  have k: "k < length (m_rollIds s)" using 3 by simp
  then have "s' = set_roll k (drop_vote g r) s" using leaver_counted[OF k] 3 by auto
  moreover have "length (filter (is_voter g) ((m_rollIds s)[k := drop_vote g r])) < length (filter (is_voter g) (m_rollIds s))"
    using filter_update_less[OF k, of "is_voter g" "drop_vote g r"] 3 by simp
  ultimately show ?case using k by simp
next
  case (4 env g k s r x erased s')
  then have k: "k < length (m_rollIds s)" by simp
  then show ?case using leaver_counted[OF k] 4 by auto
qed auto

declare removeRolls_loop.simps [simp del]

definition removeRolls :: "LootEnv \<Rightarrow> ObjectGuid \<Rightarrow> 'a RollState_scheme \<Rightarrow> 'a RollState_scheme result" where
  "removeRolls env g s = removeRolls_loop env g 0 s"

text \<open>A voter who leaves is taken out of every roll; no roll ends by it.\<close>

lemma removeRolls_skip:
  "k < length (m_rollIds s) \<Longrightarrow> \<not> is_voter g (m_rollIds s ! k) \<Longrightarrow>
     removeRolls_loop env g k s = removeRolls_loop env g (Suc k) s"
  by (subst removeRolls_loop.simps) (simp add: Let_def)

lemma removeRolls_drop:
  assumes "k < length (m_rollIds s)" "is_voter g (m_rollIds s ! k)"
  shows "removeRolls_loop env g k s = removeRolls_loop env g (Suc k) (set_roll k (drop_vote g (m_rollIds s ! k)) s)"
proof -
  let ?s = "set_roll k (drop_vote g (m_rollIds s ! k)) s"
  have "removeRolls_loop env g k s = removeRolls_loop env g k ?s"
    using assms leaver_counted[OF assms(1)] by (subst removeRolls_loop.simps) (simp add: Let_def)
  also have "\<dots> = removeRolls_loop env g (Suc k) ?s" by (rule removeRolls_skip) (simp_all add: assms)
  finally show ?thesis .
qed

lemma drop_vote_other: "\<not> is_voter g r \<Longrightarrow> drop_vote g r = r"
proof -
  assume "\<not> is_voter g r"
  then have "map_of (playerVote r) g = None" by (simp add: is_voter_def map_of_eq_None_iff)
  then show ?thesis by (simp add: drop_vote_def)
qed

lemma removeRolls_loop_eq:
  "k \<le> length (m_rollIds s) \<Longrightarrow>
     removeRolls_loop env g k s = Inr (s\<lparr>m_rollIds := take k (m_rollIds s) @ map (drop_vote g) (drop k (m_rollIds s))\<rparr>)"
proof (induction "length (m_rollIds s) - k" arbitrary: k s)
  case 0
  then show ?case by (subst removeRolls_loop.simps) simp
next
  case (Suc n)
  then have k: "k < length (m_rollIds s)" by simp
  define s1 where "s1 = set_roll k (drop_vote g (m_rollIds s ! k)) s"
  have step: "removeRolls_loop env g k s = removeRolls_loop env g (Suc k) s1"
  proof (cases "is_voter g (m_rollIds s ! k)")
    case True
    then show ?thesis using removeRolls_drop k by (simp add: s1_def)
  next
    case False
    then have "s1 = s" using drop_vote_other[OF False] by (simp add: s1_def set_roll_def)
    then show ?thesis using removeRolls_skip[OF k False] by simp
  qed
  have "removeRolls_loop env g (Suc k) s1
      = Inr (s1\<lparr>m_rollIds := take (Suc k) (m_rollIds s1) @ map (drop_vote g) (drop (Suc k) (m_rollIds s1))\<rparr>)"
    by (rule Suc.hyps(1)) (use Suc.hyps(2) k in \<open>simp_all add: s1_def\<close>)
  moreover have "take (Suc k) ((m_rollIds s)[k := x]) = take k (m_rollIds s) @ [x]" for x
    using k by (simp add: upd_conv_take_nth_drop)
  ultimately show ?case using step k Cons_nth_drop_Suc[OF k, symmetric] by (simp add: s1_def set_roll_def)
qed

lemma removeRolls_eq: "removeRolls env g s = Inr (s\<lparr>m_rollIds := map (drop_vote g) (m_rollIds s)\<rparr>)"
  using removeRolls_loop_eq[of 0 s env g] by (simp add: removeRolls_def)

section \<open>The end of the voting\<close>

lemma m_rollIds_simps [simp]:
  "m_rollIds (say e s) = m_rollIds s" "m_rollIds (say_all es s) = m_rollIds s"
  "m_rollIds (snd (urand lo hi s)) = m_rollIds s" "m_rollIds (SendLootRoll env t n ty r s) = m_rollIds s"
  "m_rollIds (SendLootRollWon env t n v r s) = m_rollIds s" "m_rollIds (SendLootAllPassed env r s) = m_rollIds s"
  by (simp_all add: say_def say_all_def urand_def SendLootRoll_def SendLootRollWon_def SendLootAllPassed_def)

lemma dice_loop_rolls: "m_rollIds (snd (dice_loop env c r vs best s)) = m_rollIds s"
  by (induction env c r vs best s rule: dice_loop.induct) (simp_all add: urand_def Let_def)

lemma item_rolls:
  "modify_item l k f s = Inr s' \<Longrightarrow> m_rollIds s' = m_rollIds s"
  "remove_item r s = Inr s' \<Longrightarrow> m_rollIds s' = m_rollIds s"
proof -
  show mi: "modify_item l k f s = Inr s' \<Longrightarrow> m_rollIds s' = m_rollIds s" for l k f and s s' :: "'b RollState_scheme"
    by (auto simp: modify_item_def split: option.splits if_splits)
  show "remove_item r s = Inr s' \<Longrightarrow> m_rollIds s' = m_rollIds s"
    by (auto simp: remove_item_def Let_def dest!: mi)
qed

lemma award_rolls: "award env g r s = Inr s' \<Longrightarrow> m_rollIds s' = m_rollIds s"
  by (auto simp: award_def Let_def split: if_splits dest!: item_rolls)

lemma need_result_rolls: "need_result env r s = Inr s' \<Longrightarrow> m_rollIds s' = m_rollIds s"
  using dice_loop_rolls[of env "{ROLL_NEED}" r "playerVote r" "(fst (hd (playerVote r)), 0, ROLL_NEED)" s]
  by (auto simp: need_result_def Let_def split: if_splits prod.splits dest!: award_rolls)

lemma disenchant_rolls: "disenchant env g r s = Inr s' \<Longrightarrow> m_rollIds s' = m_rollIds s"
  by (auto simp: disenchant_def split: option.splits dest!: item_rolls)

lemma greed_result_rolls: "greed_result env r s = Inr s' \<Longrightarrow> m_rollIds s' = m_rollIds s"
  using dice_loop_rolls[of env "{ROLL_GREED, ROLL_DISENCHANT}" r "playerVote r" "(fst (hd (playerVote r)), 0, ROLL_PASS)" s]
  by (auto simp: greed_result_def Let_def split: if_splits prod.splits dest!: award_rolls disenchant_rolls)

lemma all_passed_rolls: "all_passed env r s = Inr s' \<Longrightarrow> m_rollIds s' = m_rollIds s"
  by (auto simp: all_passed_def dest!: item_rolls)

lemma CountTheRoll_rolls:
  "CountTheRoll env k s = Inr s' \<Longrightarrow> m_rollIds s' = take k (m_rollIds s) @ drop (Suc k) (m_rollIds s)"
  by (auto simp: CountTheRoll_def Let_def erase_roll_def split: if_splits
      dest!: need_result_rolls greed_result_rolls all_passed_rolls)

function EndRoll :: "LootEnv \<Rightarrow> 'a RollState_scheme \<Rightarrow> 'a RollState_scheme result" where
  "EndRoll env s = (if m_rollIds s = [] then Inr s else bindR (CountTheRoll env 0 s) (EndRoll env))"
  by pat_completeness auto
termination
  by (relation "measure (\<lambda>(env, s). length (m_rollIds s))") (auto dest!: CountTheRoll_rolls)

declare EndRoll.simps [simp del]

section \<open>The start of a roll\<close>

text \<open>A new key lands somewhere in the order of the map.\<close>

definition umap_insert :: "LootEnv \<Rightarrow> ObjectGuid \<Rightarrow> RollVote \<Rightarrow> (ObjectGuid \<times> RollVote) list \<Rightarrow> (ObjectGuid \<times> RollVote) list" where
  "umap_insert env g v m =
     (if g \<in> fst ` set m then map (\<lambda>(h, w). if h = g then (h, v) else (h, w)) m
      else let k = bucket env g (map fst m) in take k m @ (g, v) # drop k m)"

definition may_roll :: "LootEnv \<Rightarrow> nat \<Rightarrow> uint8 \<Rightarrow> ObjectGuid \<Rightarrow> bool" where
  "may_roll env l slot g \<longleftrightarrow> hasSession env g \<and> AllowedForPlayer env g l slot \<and> isNear env g"

fun collect_voters :: "LootEnv \<Rightarrow> nat \<Rightarrow> uint8 \<Rightarrow> ObjectGuid list \<Rightarrow> Roll \<Rightarrow> Roll" where
  "collect_voters env l slot [] r = r"
| "collect_voters env l slot (g # gs) r =
     collect_voters env l slot gs
       (if may_roll env l slot g
        then r\<lparr>playerVote := umap_insert env g ROLL_NOT_EMITED_YET (playerVote r),
               totalPlayersRolling := totalPlayersRolling r + 1\<rparr>
        else r)"

definition StartLootRoll ::
  "LootEnv \<Rightarrow> uint32 \<Rightarrow> nat \<Rightarrow> uint8 \<Rightarrow> uint32 \<Rightarrow> 'a RollState_scheme \<Rightarrow> 'a RollState_scheme result" where
  "StartLootRoll env method l slot maxEnchantingSkill s =
     (case loots s l of
        None \<Rightarrow> Inl Undefined
      | Some loot \<Rightarrow>
          if length (items loot) \<le> unat slot \<or> currency (items loot ! unat slot) then Inr s
          else let r = collect_voters env l slot (online_members s)
                         (Roll_new (lootTargetGuid env) method (items loot ! unat slot))
               in if totalPlayersRolling r = 0 then Inr s
                  else let r = r\<lparr>r_loot := l, itemSlot := slot\<rparr>
                       in if totalPlayersRolling r = 1
                          then Inr (s\<lparr>m_rollIds := m_rollIds s @
                                 [r\<lparr>playerVote := (fst (hd (playerVote r)), ROLL_NEED) # tl (playerVote r)\<rparr>]\<rparr>)
                          else if \<not> lootable_type env then Inl AssertFailed
                          else bindR (CalculateCommonVoteMask env maxEnchantingSkill r) (\<lambda>r.
                                 let s = SendLootStartRoll env LOOT_ROLL_TIMEOUT (lootMapId env) r s
                                 in bindR (modify_item l (unat slot) (\<lambda>i. i\<lparr>is_blocked := True\<rparr>) s) (\<lambda>s.
                                      let s = say (StartGroupLoot (lootTargetGuid env) LOOT_ROLL_TIMEOUT) s
                                      in Inr (s\<lparr>m_rollIds := m_rollIds s @ [r]\<rparr>))))"

definition GetMaxSkillValueForGroup :: "LootEnv \<Rightarrow> 'a RollState_scheme \<Rightarrow> uint32" where
  "GetMaxSkillValueForGroup env s = foldl (\<lambda>m g. max m (enchanting env g)) 0 (online_members s)"

text \<open>
  \<open>GroupLoot\<close> and \<open>NeedBeforeGreed\<close> differ only in the method they pass on. A loot has at most
  \<open>MAX_NR_LOOT_ITEMS\<close>, that is 16, items, so the slot counter of the loop does not overflow.
\<close>

definition group_loot_slot :: "LootEnv \<Rightarrow> uint32 \<Rightarrow> nat \<Rightarrow> uint32 \<Rightarrow> nat \<Rightarrow> 'a RollState_scheme \<Rightarrow> 'a RollState_scheme result" where
  "group_loot_slot env method l maxskill k s =
     bindR (loot_item s l k) (\<lambda>item.
       if currency item then Inr s
       else case itemProto env (li_itemid item) of
              None \<Rightarrow> Inr s
            | Some p \<Rightarrow>
                if m_lootThreshold s \<le> Quality p \<and> \<not> freeforall item
                then StartLootRoll env method l (of_nat k) maxskill s
                else modify_item l k (\<lambda>i. i\<lparr>is_underthreshold := True\<rparr>) s)"

definition roll_for_loot :: "LootEnv \<Rightarrow> uint32 \<Rightarrow> nat \<Rightarrow> 'a RollState_scheme \<Rightarrow> 'a RollState_scheme result" where
  "roll_for_loot env method l s =
     (case loots s l of
        None \<Rightarrow> Inl Undefined
      | Some loot \<Rightarrow> foldR (group_loot_slot env method l (GetMaxSkillValueForGroup env s)) [0..<length (items loot)] s)"

definition GroupLoot :: "LootEnv \<Rightarrow> nat \<Rightarrow> 'a RollState_scheme \<Rightarrow> 'a RollState_scheme result" where
  "GroupLoot env = roll_for_loot env GROUP_LOOT"

definition NeedBeforeGreed :: "LootEnv \<Rightarrow> nat \<Rightarrow> 'a RollState_scheme \<Rightarrow> 'a RollState_scheme result" where
  "NeedBeforeGreed env = roll_for_loot env NEED_BEFORE_GREED"

text \<open>\<open>MasterLoot\<close>: the list of candidates goes to everyone near, in the world or not.\<close>

definition mark_underthreshold :: "LootEnv \<Rightarrow> uint32 \<Rightarrow> LootItem \<Rightarrow> LootItem" where
  "mark_underthreshold env threshold i =
     (if currency i then i
      else case itemProto env (li_itemid i) of
             None \<Rightarrow> i
           | Some p \<Rightarrow> if Quality p < threshold then i\<lparr>is_underthreshold := True\<rparr> else i)"

definition MasterLoot :: "LootEnv \<Rightarrow> (ObjectGuid \<Rightarrow> bool) \<Rightarrow> nat \<Rightarrow> 'a RollState_scheme \<Rightarrow> 'a RollState_scheme result" where
  "MasterLoot env inWorld l s =
     (case loots s l of
        None \<Rightarrow> Inl Undefined
      | Some loot \<Rightarrow>
          let s = s\<lparr>loots := (loots s)(l \<mapsto> loot\<lparr>items := map (mark_underthreshold env (m_lootThreshold s)) (items loot)\<rparr>)\<rparr>;
              looters = filter (\<lambda>g. inWorld g \<and> isNear env g) (online_members s);
              data = of_nat (length looters) # concat (map le_bytes looters)
          in Inr (say_all (map (\<lambda>g. SendPacket g SMSG_LOOT_MASTER_LIST data) (filter (isNear env) (online_members s))) s))"

end
