(* ===== verification/LootClaims.thy ===== *)
theory LootClaims
  imports LootRoll
begin

text \<open>
  What the rolls of LootRoll promise: the form of a roll and of its loot survives every operation, the
  totals count the votes while nobody votes twice, the dice are fair, every roll ends; and what happens when a player votes twice
  or leaves before he voted.
\<close>

section \<open>The form of the loot\<close>

text \<open>No operation on a roll adds or removes items of a loot; it only marks them.\<close>

definition slots :: "'a RollState_scheme \<Rightarrow> nat \<Rightarrow> nat option" where
  "slots s l = map_option (\<lambda>x. length (items x)) (loots s l)"

lemma slots_update [simp]:
  "slots (s\<lparr>m_rollIds := rs\<rparr>) = slots s" "slots (s\<lparr>out := es\<rparr>) = slots s" "slots (s\<lparr>draws := d\<rparr>) = slots s"
  "slots (say e s) = slots s" "slots (say_all es s) = slots s" "slots (snd (urand lo hi s)) = slots s"
  "slots (SendLootRoll env t n ty r s) = slots s" "slots (SendLootRollWon env t n v r s) = slots s"
  "slots (SendLootAllPassed env r s) = slots s" "slots (SendLootStartRoll env c m r s) = slots s"
  "slots (set_roll k r s) = slots s" "slots (erase_roll k s) = slots s"
  by (simp_all add: fun_eq_iff slots_def say_def say_all_def urand_def SendLootRoll_def SendLootRollWon_def
      SendLootAllPassed_def SendLootStartRoll_def set_roll_def erase_roll_def)

lemma isValid_slots: "isValid_roll s r \<longleftrightarrow> slots s (r_loot r) \<noteq> None"
  by (simp add: isValid_roll_def slots_def)

lemma dice_loop_slots [simp]: "slots (snd (dice_loop env c r vs best s)) = slots s"
  by (induction env c r vs best s rule: dice_loop.induct) (simp_all add: Let_def split: prod.splits, metis slots_update(6,7) snd_conv)

text \<open>An item of a loot can be changed exactly when the loot is there and long enough.\<close>

definition in_slots :: "'a RollState_scheme \<Rightarrow> nat \<Rightarrow> nat \<Rightarrow> bool" where
  "in_slots s l k \<longleftrightarrow> (\<exists>n. slots s l = Some n \<and> k < n)"

lemma modify_item_ok:
  "in_slots s l k \<Longrightarrow> \<exists>s'. modify_item l k f s = Inr s' \<and> slots s' = slots s \<and> m_rollIds s' = m_rollIds s"
  by (auto simp: in_slots_def modify_item_def slots_def fun_eq_iff)

lemma loot_item_ok: "in_slots s l k \<Longrightarrow> \<exists>i. loot_item s l k = Inr i"
  by (auto simp: in_slots_def loot_item_def slots_def)

lemma in_slots_cong: "slots s' = slots s \<Longrightarrow> in_slots s' l k = in_slots s l k"
  by (simp add: in_slots_def)

abbreviation (input) slot_ok :: "'a RollState_scheme \<Rightarrow> Roll \<Rightarrow> bool" where
  "slot_ok s r \<equiv> in_slots s (r_loot r) (unat (itemSlot r))"

lemma remove_item_ok:
  assumes "slot_ok s r"
  shows "\<exists>s'. remove_item r s = Inr s' \<and> slots s' = slots s"
proof -
  obtain s1 where s1: "modify_item (r_loot r) (unat (itemSlot r)) (\<lambda>i. i\<lparr>is_looted := True\<rparr>) s = Inr s1"
      "slots s1 = slots s"
    using modify_item_ok[OF assms] by blast
  have "slots ((say e s1)\<lparr>loots := (loots (say e s1))(l := map_option (\<lambda>l. l\<lparr>unlootedCount := unlootedCount l - 1\<rparr>) (loots (say e s1) l))\<rparr>)
      = slots s1" for e l
    by (auto simp: slots_def fun_eq_iff say_def option.map_comp comp_def)
  then show ?thesis using s1 by (simp add: remove_item_def Let_def)
qed

lemma award_ok:
  assumes "slot_ok s r"
  shows "\<exists>s'. award env g r s = Inr s' \<and> slots s' = slots s"
proof -
  obtain i where "loot_item s (r_loot r) (unat (itemSlot r)) = Inr i" using loot_item_ok[OF assms] by blast
  moreover obtain s1 where "remove_item r s = Inr s1" "slots s1 = slots s" using remove_item_ok[OF assms] by blast
  moreover obtain s2 where "modify_item (r_loot r) (unat (itemSlot r)) (\<lambda>i. i\<lparr>is_blocked := False\<rparr>) s = Inr s2"
      "slots s2 = slots s"
    using modify_item_ok[OF assms] by blast
  ultimately show ?thesis by (simp add: award_def Let_def)
qed

lemma disenchant_ok:
  assumes "slot_ok s r" "itemProto env (r_itemid r) \<noteq> None"
  shows "\<exists>s'. disenchant env g r s = Inr s' \<and> slots s' = slots s"
proof -
  obtain s1 where "remove_item r s = Inr s1" "slots s1 = slots s" using remove_item_ok[OF assms(1)] by blast
  then show ?thesis using assms(2) by (auto simp: disenchant_def)
qed

lemma need_result_ok:
  assumes "slot_ok s r"
  shows "\<exists>s'. need_result env r s = Inr s' \<and> slots s' = slots s"
proof -
  obtain g n v s1 where d: "dice_loop env {ROLL_NEED} r (playerVote r) (fst (hd (playerVote r)), 0, ROLL_NEED) s = ((g, n, v), s1)"
    by (metis prod.collapse)
  then have s1: "slots s1 = slots s" by (metis dice_loop_slots snd_conv)
  define s2 where "s2 = SendLootRollWon env g n ROLL_NEED r s1"
  define s3 where "s3 = say (RollAchievement g ROLL_NEED (r_itemid r) n) s2"
  have s23: "slots s2 = slots s" "slots s3 = slots s" using s1 by (simp_all add: s2_def s3_def)
  obtain s4 where "award env g r s3 = Inr s4" "slots s4 = slots s"
    using award_ok[of s3 r env g] assms s23 in_slots_cong by metis
  then show ?thesis using d s23 by (simp add: need_result_def Let_def s2_def s3_def)
qed

lemma greed_result_ok:
  assumes "slot_ok s r" "itemProto env (r_itemid r) \<noteq> None"
  shows "\<exists>s'. greed_result env r s = Inr s' \<and> slots s' = slots s"
proof -
  obtain g n v s1 where d: "dice_loop env {ROLL_GREED, ROLL_DISENCHANT} r (playerVote r) (fst (hd (playerVote r)), 0, ROLL_PASS) s = ((g, n, v), s1)"
    by (metis prod.collapse)
  then have s1: "slots s1 = slots s" by (metis dice_loop_slots snd_conv)
  define s2 where "s2 = SendLootRollWon env g n v r s1"
  define s3 where "s3 = say (RollAchievement g ROLL_GREED (r_itemid r) n) s2"
  have s23: "slots s2 = slots s" "slots s3 = slots s" using s1 by (simp_all add: s2_def s3_def)
  have ok: "slot_ok s2 r" "slot_ok s3 r" using assms(1) s23 in_slots_cong by metis+
  obtain i where "loot_item s2 (r_loot r) (unat (itemSlot r)) = Inr i" using loot_item_ok[OF ok(1)] by blast
  moreover obtain s4 where "award env g r s3 = Inr s4" "slots s4 = slots s" using award_ok[OF ok(2)] s23 by metis
  moreover obtain s5 where "disenchant env g r s3 = Inr s5" "slots s5 = slots s" using disenchant_ok[OF ok(2) assms(2)] s23 by metis
  ultimately show ?thesis using d s23 by (auto simp: greed_result_def Let_def s2_def s3_def)
qed

lemma all_passed_ok:
  assumes "slot_ok s r"
  shows "\<exists>s'. all_passed env r s = Inr s' \<and> slots s' = slots s"
  using modify_item_ok[of "SendLootAllPassed env r s" "r_loot r" "unat (itemSlot r)"] assms
  by (simp add: all_passed_def in_slots_def) blast

text \<open>A roll is well formed when its item is there as long as its loot is, and has a prototype.\<close>

definition roll_wf :: "LootEnv \<Rightarrow> 'a RollState_scheme \<Rightarrow> Roll \<Rightarrow> bool" where
  "roll_wf env s r \<longleftrightarrow> itemProto env (r_itemid r) \<noteq> None \<and> (isValid_roll s r \<longrightarrow> slot_ok s r)"

definition rolls_wf :: "LootEnv \<Rightarrow> 'a RollState_scheme \<Rightarrow> bool" where
  "rolls_wf env s \<longleftrightarrow> (\<forall>r\<in>set (m_rollIds s). roll_wf env s r)"

lemma roll_wf_cong: "slots s' = slots s \<Longrightarrow> roll_wf env s' r = roll_wf env s r"
  by (simp add: roll_wf_def in_slots_def isValid_slots)

lemma CountTheRoll_ok:
  assumes "k < length (m_rollIds s)" "roll_wf env s (m_rollIds s ! k)"
  shows "\<exists>s'. CountTheRoll env k s = Inr s' \<and> slots s' = slots s"
proof -
  let ?r = "m_rollIds s ! k"
  show ?thesis
  proof (cases "isValid_roll s ?r")
    case True
    then have ok: "slot_ok s ?r" "itemProto env (r_itemid ?r) \<noteq> None" using assms(2) by (auto simp: roll_wf_def)
    obtain s1 where "(if 0 < totalNeed ?r then need_result env ?r s else if 0 < totalGreed ?r then greed_result env ?r s
        else all_passed env ?r s) = Inr s1" "slots s1 = slots s"
      using need_result_ok[OF ok(1), of env] greed_result_ok[OF ok] all_passed_ok[OF ok(1), of env] by metis
    then show ?thesis using True by (simp add: CountTheRoll_def Let_def)
  qed (simp add: CountTheRoll_def)
qed

lemma rolls_wf_subset:
  "rolls_wf env s \<Longrightarrow> slots s' = slots s \<Longrightarrow> set (m_rollIds s') \<subseteq> set (m_rollIds s) \<Longrightarrow> rolls_wf env s'"
  using roll_wf_cong by (fastforce simp: rolls_wf_def)

lemma CountTheRoll_wf:
  assumes "rolls_wf env s" "k < length (m_rollIds s)"
  shows "\<exists>s'. CountTheRoll env k s = Inr s' \<and> slots s' = slots s \<and> rolls_wf env s'
           \<and> m_rollIds s' = take k (m_rollIds s) @ drop (Suc k) (m_rollIds s)"
proof -
  obtain s' where s': "CountTheRoll env k s = Inr s'" "slots s' = slots s"
    using CountTheRoll_ok[OF assms(2)] assms nth_mem unfolding rolls_wf_def by metis
  have rs: "m_rollIds s' = take k (m_rollIds s) @ drop (Suc k) (m_rollIds s)" using CountTheRoll_rolls s' by blast
  then have "set (m_rollIds s') \<subseteq> set (m_rollIds s)" using set_take_subset set_drop_subset by fastforce
  then show ?thesis using rolls_wf_subset[OF assms(1) s'(2)] s' rs by blast
qed

section \<open>Ending the rolls\<close>

lemma EndRoll_ok: "rolls_wf env s \<Longrightarrow> \<exists>s'. EndRoll env s = Inr s' \<and> m_rollIds s' = [] \<and> slots s' = slots s"
proof (induction "length (m_rollIds s)" arbitrary: s)
  case 0
  then show ?case by (simp add: EndRoll.simps)
next
  case (Suc n)
  have ne: "m_rollIds s \<noteq> []" using Suc.hyps(2) by (metis list.size(3) nat.distinct(1))
  then have "0 < length (m_rollIds s)" by simp
  then obtain s1 where s1: "CountTheRoll env 0 s = Inr s1" "slots s1 = slots s" "rolls_wf env s1"
      "m_rollIds s1 = drop (Suc 0) (m_rollIds s)"
    using CountTheRoll_wf[OF Suc.prems, of 0] by auto
  then obtain s' where "EndRoll env s1 = Inr s'" "m_rollIds s' = []" "slots s' = slots s1"
    using Suc.hyps by (metis One_nat_def diff_Suc_1 length_drop)
  then show ?case using s1 Suc.hyps(2) by (subst EndRoll.simps) (use ne in auto)
qed

section \<open>Voting keeps the form\<close>

definition same_item :: "Roll \<Rightarrow> Roll \<Rightarrow> bool" where
  "same_item r r' \<longleftrightarrow> r_loot r' = r_loot r \<and> itemSlot r' = itemSlot r \<and> r_itemid r' = r_itemid r"

lemma drop_vote_item: "same_item r (drop_vote g r)"
  by (simp add: same_item_def drop_vote_def Let_def split: option.split)

lemma roll_wf_same: "same_item r r' \<Longrightarrow> roll_wf env s r' = roll_wf env s r"
  by (simp add: same_item_def roll_wf_def isValid_roll_def)

text \<open>The roll after a vote.\<close>

fun voted :: "ObjectGuid \<Rightarrow> RollVote \<Rightarrow> Roll \<Rightarrow> Roll" where
  "voted g ROLL_PASS r = set_vote g ROLL_PASS (r\<lparr>totalPass := totalPass r + 1\<rparr>)"
| "voted g ROLL_NEED r = set_vote g ROLL_NEED (r\<lparr>totalNeed := totalNeed r + 1\<rparr>)"
| "voted g ROLL_GREED r = set_vote g ROLL_GREED (r\<lparr>totalGreed := totalGreed r + 1\<rparr>)"
| "voted g ROLL_DISENCHANT r = set_vote g ROLL_DISENCHANT (r\<lparr>totalGreed := totalGreed r + 1\<rparr>)"
| "voted g v r = r"

lemma voted_item: "same_item r (voted g v r)"
  by (cases v) (simp_all add: same_item_def set_vote_def)

lemma cast_vote_rolls: "m_rollIds (cast_vote env g v k s) = (m_rollIds s)[k := voted g v (m_rollIds s ! k)]"
  by (cases v) (simp_all add: cast_vote_def Let_def)

lemma cast_vote_slots [simp]: "slots (cast_vote env g v k s) = slots s"
  by (cases v) (simp_all add: cast_vote_def Let_def)

lemma set_roll_wf:
  assumes "rolls_wf env s" "k < length (m_rollIds s)" "same_item (m_rollIds s ! k) r"
    and "slots s' = slots s" "m_rollIds s' = (m_rollIds s)[k := r]"
  shows "rolls_wf env s'"
proof -
  have "roll_wf env s (m_rollIds s ! k)" using assms(1,2) nth_mem unfolding rolls_wf_def by blast
  then have "roll_wf env s r" using roll_wf_same[OF assms(3), of env s] by simp
  then show ?thesis using assms(1,4,5) roll_wf_cong[OF assms(4)] set_update_subset_insert[of "m_rollIds s" k r]
    by (auto simp: rolls_wf_def)
qed

lemma find_roll_Some:
  "find_roll s t sl k0 rs = Some k \<Longrightarrow>
     k0 \<le> k \<and> k < k0 + length rs \<and> isValid_roll s (rs ! (k - k0)) \<and> lootedTargetGUID (rs ! (k - k0)) = t
     \<and> ucast (itemSlot (rs ! (k - k0))) = sl"
proof (induction rs arbitrary: k0)
  case (Cons r rs)
  show ?case
  proof (cases "isValid_roll s r \<and> lootedTargetGUID r = t \<and> ucast (itemSlot r) = sl")
    case False
    then have "find_roll s t sl (Suc k0) rs = Some k" using Cons.prems by auto
    from Cons.IH[OF this] show ?thesis by (simp add: nth_Cons split: nat.split) (metis Suc_diff_Suc Suc_le_eq diff_Suc_Suc less_imp_Suc_add nth_Cons_Suc)
  qed (use Cons.prems in auto)
qed simp

lemma find_roll_at:
  "find_roll s t sl 0 (m_rollIds s) = Some k \<Longrightarrow> k < length (m_rollIds s) \<and> isValid_roll s (m_rollIds s ! k)"
  using find_roll_Some[of s t sl 0 "m_rollIds s" k] by simp

lemma CountRollVote_at_wf:
  assumes "rolls_wf env s" "k < length (m_rollIds s)"
  shows "\<exists>b s'. CountRollVote_at env g k v s = Inr (b, s') \<and> rolls_wf env s' \<and> slots s' = slots s"
proof -
  let ?s = "cast_vote env g v k s"
  have wf: "rolls_wf env ?s" by (rule set_roll_wf[OF assms voted_item]) (simp_all add: cast_vote_rolls)
  have len: "k < length (m_rollIds ?s)" using assms(2) by (simp add: cast_vote_rolls)
  show ?thesis using CountTheRoll_wf[OF wf len] assms(1) wf by (auto simp: CountRollVote_at_def Let_def)
qed

lemma HandleLootRoll_wf:
  assumes "rolls_wf env s"
  shows "\<exists>s'. HandleLootRoll env g t sl ty s = Inr s' \<and> rolls_wf env s' \<and> slots s' = slots s"
proof -
  have say_wf: "rolls_wf env (say e s')" if "rolls_wf env s'" for e and s' :: "'a RollState_scheme"
    using that by (rule rolls_wf_subset) simp_all
  have "\<exists>b s'. CountRollVote env g t sl (vote_of_code ty) s = Inr (b, s') \<and> rolls_wf env s' \<and> slots s' = slots s"
  proof (cases "find_roll s t sl 0 (m_rollIds s)")
    case None
    then show ?thesis using assms by (intro exI[of _ False]) (simp add: CountRollVote_def)
  next
    case (Some k)
    then have "k < length (m_rollIds s)" using find_roll_at by blast
    then show ?thesis using CountRollVote_at_wf[OF assms] Some assms by (fastforce simp: CountRollVote_def)
  qed
  then obtain b s1 where s1: "CountRollVote env g t sl (vote_of_code ty) s = Inr (b, s1)" "rolls_wf env s1" "slots s1 = slots s"
    by blast
  then show ?thesis using assms say_wf[OF s1(2)]
    by (cases "4 \<le> ty"; cases "b \<and> ty \<noteq> 0") (simp_all add: HandleLootRoll_def)
qed

section \<open>The totals\<close>

definition count_of :: "RollVote \<Rightarrow> Roll \<Rightarrow> nat" where
  "count_of v r = count_list (map snd (playerVote r)) v"

definition totals_ok :: "Roll \<Rightarrow> bool" where
  "totals_ok r \<longleftrightarrow>
     distinct (map fst (playerVote r)) \<and> ROLL_NOT_VALID \<notin> snd ` set (playerVote r) \<and> length (playerVote r) < 256
     \<and> totalPlayersRolling r = of_nat (length (playerVote r))
     \<and> totalNeed r = of_nat (count_of ROLL_NEED r)
     \<and> totalGreed r = of_nat (count_of ROLL_GREED r + count_of ROLL_DISENCHANT r)
     \<and> totalPass r = of_nat (count_of ROLL_PASS r)"

lemma vote_split:
  assumes "distinct (map fst m)" "map_of m g = Some w"
  obtains as bs where "m = as @ (g, w) # bs" "g \<notin> fst ` set as" "g \<notin> fst ` set bs"
proof -
  obtain as bs where m: "m = as @ (g, w) # bs" using assms(2) by (meson map_of_SomeD split_list)
  then show ?thesis using assms(1) that by auto
qed

lemma without_key: "g \<notin> fst ` set m \<Longrightarrow> map (\<lambda>(h, w). if h = g then (h, v) else (h, w)) m = m"
  by (induction m) auto

lemma filter_key: "g \<notin> fst ` set m \<Longrightarrow> filter (\<lambda>(h, w). h \<noteq> g) m = m"
  by (induction m) auto

lemma voted_totals:
  assumes ok: "totals_ok r" and new: "map_of (playerVote r) g = Some ROLL_NOT_EMITED_YET" and v: "v \<noteq> ROLL_NOT_VALID"
  shows "totals_ok (voted g v r)"
proof -
  obtain as bs where m: "playerVote r = as @ (g, ROLL_NOT_EMITED_YET) # bs" and g: "g \<notin> fst ` set as" "g \<notin> fst ` set bs"
    using vote_split new ok unfolding totals_ok_def by metis
  show ?thesis
    using ok v by (cases v) (auto simp: totals_ok_def count_of_def set_vote_def m without_key[OF g(1)] without_key[OF g(2)])
qed

lemma drop_totals:
  assumes ok: "totals_ok r"
  shows "totals_ok (drop_vote g r)"
proof (cases "map_of (playerVote r) g")
  case None
  then show ?thesis using ok by (simp add: drop_vote_def)
next
  case (Some w)
  then obtain as bs where m: "playerVote r = as @ (g, w) # bs" and g: "g \<notin> fst ` set as" "g \<notin> fst ` set bs"
    using vote_split ok unfolding totals_ok_def by metis
  have flt: "filter (\<lambda>(h, w). h \<noteq> g) (playerVote r) = as @ bs"
    by (simp add: m filter_key[OF g(1)] filter_key[OF g(2)])
  have len: "length as + length bs < 255" "distinct (map fst (as @ bs))" "ROLL_NOT_VALID \<notin> snd ` set (as @ bs)" "w \<noteq> ROLL_NOT_VALID"
    using ok by (auto simp: totals_ok_def m)
  have cnt: "count_list (map snd (playerVote r)) v = count_list (map snd (as @ bs)) v + (if w = v then 1 else 0)"
    "length (playerVote r) = Suc (length (as @ bs))" for v
    by (simp_all add: m)
  show ?thesis
    using ok len by (cases w) (simp_all add: totals_ok_def count_of_def cnt drop_vote_def Some flt Let_def)
qed

text \<open>All have voted when no vote is open.\<close>

lemma count_split:
  "length xs = count_list xs ROLL_NEED + (count_list xs ROLL_GREED + count_list xs ROLL_DISENCHANT) + count_list xs ROLL_PASS
     + count_list xs ROLL_NOT_EMITED_YET + count_list xs ROLL_NOT_VALID"
proof (induction xs)
  case (Cons x xs)
  then show ?case by (cases x) simp_all
qed simp

lemma unat_count:
  assumes "n \<le> m" "m < 256"
  shows "unat (of_nat n :: uint8) = n"
  using assms by (simp add: unat_of_nat take_bit_eq_mod)

lemma all_voted_iff:
  assumes ok: "totals_ok r"
  shows "all_voted r \<longleftrightarrow> ROLL_NOT_EMITED_YET \<notin> snd ` set (playerVote r)"
proof -
  let ?xs = "map snd (playerVote r)"
  have len: "length ?xs < 256" and nv: "count_list ?xs ROLL_NOT_VALID = 0"
    using ok by (auto simp: totals_ok_def count_list_0_iff)
  have t: "unat (totalPlayersRolling r) = length ?xs" "unat (totalNeed r) = count_list ?xs ROLL_NEED"
    "unat (totalGreed r) = count_list ?xs ROLL_GREED + count_list ?xs ROLL_DISENCHANT"
    "unat (totalPass r) = count_list ?xs ROLL_PASS"
    using ok len count_split[of ?xs] by (auto simp: totals_ok_def count_of_def intro!: unat_count[of _ "length ?xs"] simp del: of_nat_add)
  have "all_voted r \<longleftrightarrow> count_list ?xs ROLL_NOT_EMITED_YET = 0"
    using t count_split[of ?xs] nv by (simp only: all_voted_def) arith
  then show ?thesis by (simp add: count_list_0_iff)
qed

section \<open>The dice\<close>

definition dice :: "'a RollState_scheme \<Rightarrow> nat \<Rightarrow> nat" where
  "dice s i = 1 + draws s i mod 100"

lemma draws_say [simp]:
  "draws (SendLootRoll env g n ty r s) = draws s" "dice (SendLootRoll env g n ty r s) = dice s"
  by (simp_all add: SendLootRoll_def say_all_def dice_def fun_eq_iff)

lemma urand_dice: "urand 1 100 s = (of_nat (dice s 0), s\<lparr>draws := (\<lambda>i. draws s (Suc i))\<rparr>)"
  by (simp add: urand_def dice_def)

text \<open>The best of a sequence of candidates with the numbers they threw, the first of equals.\<close>

fun best_of :: "(nat \<times> 'v) list \<Rightarrow> nat \<times> 'v \<Rightarrow> nat \<times> 'v" where
  "best_of [] b = b"
| "best_of ((n, x) # cs) b = best_of cs (if fst b < n then (n, x) else b)"

lemma best_of_ge: "fst b \<le> fst (best_of cs b) \<and> (\<forall>c\<in>set cs. fst c \<le> fst (best_of cs b))"
proof (induction cs b rule: best_of.induct)
  case (2 n x cs b)
  then show ?case by (auto split: if_splits)
qed simp

lemma best_of_in: "best_of cs b = b \<or> best_of cs b \<in> set cs"
  by (induction cs b rule: best_of.induct) (auto split: if_splits)

definition throwers :: "RollVote set \<Rightarrow> (ObjectGuid \<times> RollVote) list \<Rightarrow> (ObjectGuid \<times> RollVote) list" where
  "throwers C m = filter (\<lambda>(g, v). v \<in> C) m"

definition throws :: "'a RollState_scheme \<Rightarrow> (ObjectGuid \<times> RollVote) list \<Rightarrow> (nat \<times> ObjectGuid \<times> RollVote) list" where
  "throws s cs = zip (map (dice s) [0..<length cs]) cs"

lemma dice_shift [simp]: "dice (s\<lparr>draws := (\<lambda>i. draws s (Suc i))\<rparr>) = (\<lambda>i. dice s (Suc i))"
  by (simp add: dice_def fun_eq_iff)

lemma throws_Cons: "throws s (c # cs) = (dice s 0, c) # throws (s\<lparr>draws := (\<lambda>i. draws s (Suc i))\<rparr>) cs"
  by (simp add: throws_def map_upt_Suc del: upt_Suc)

lemma throws_cong: "dice s = dice s' \<Longrightarrow> throws s cs = throws s' cs"
  by (simp add: throws_def)

lemma dice_range: "0 < dice s i" "dice s i \<le> 100"
  by (simp_all add: dice_def Suc_le_eq)

lemma unat_dice: "unat (of_nat (dice s i) :: uint32) = dice s i"
  using dice_range(2)[of s i] by (simp add: unat_of_nat take_bit_eq_mod)

lemma dice_loop_best:
  "case dice_loop env C r vs (bg, bn, bv) s of ((g, n, v), s') \<Rightarrow>
     (unat n, g, v) = best_of (throws s (throwers C vs)) (unat bn, bg, bv)"
proof (induction vs arbitrary: bg bn bv s)
  case Nil
  then show ?case by (simp add: throws_def throwers_def)
next
  case (Cons c vs)
  obtain h w where c: "c = (h, w)" by (cases c)
  show ?case
  proof (cases "w \<in> C")
    case False
    then show ?thesis using Cons by (simp add: c throwers_def)
  next
    case True
    let ?d = "of_nat (dice s 0) :: uint32"
    let ?s = "SendLootRoll env h ?d (vote_code w) r (s\<lparr>draws := (\<lambda>i. draws s (Suc i))\<rparr>)"
    have t: "throws ?s cs = throws (s\<lparr>draws := (\<lambda>i. draws s (Suc i))\<rparr>) cs" for cs by (rule throws_cong) simp
    have lt: "bn < ?d \<longleftrightarrow> unat bn < dice s 0" by (simp add: word_less_nat_alt unat_dice)
    show ?thesis
      using True Cons.IH[where s="?s" and bg=bg and bn=bn and bv=bv] Cons.IH[where s="?s" and bg=h and bn="?d" and bv=w]
      by (simp add: c urand_dice[unfolded One_nat_def] throwers_def throws_Cons t lt unat_dice)
  qed
qed

text \<open>The best throw among candidates: somebody threw it and nobody threw more.\<close>

definition best_throw :: "'a RollState_scheme \<Rightarrow> RollVote set \<Rightarrow> Roll \<Rightarrow> ObjectGuid \<Rightarrow> nat \<Rightarrow> RollVote \<Rightarrow> bool" where
  "best_throw s C r w n v \<longleftrightarrow>
     (\<exists>i < length (throwers C (playerVote r)). throwers C (playerVote r) ! i = (w, v) \<and> dice s i = n)
     \<and> (\<forall>i < length (throwers C (playerVote r)). dice s i \<le> n)"

lemma best_of_throws:
  assumes "cs \<noteq> []" "best_of (throws s cs) (0, b) = (n, w)"
  shows "(\<exists>i < length cs. cs ! i = w \<and> dice s i = n) \<and> (\<forall>i < length cs. dice s i \<le> n)"
proof -
  have mem: "(dice s i, cs ! i) \<in> set (throws s cs)" if "i < length cs" for i
    using that unfolding throws_def set_zip by (intro CollectI exI[of _ i]) simp
  then have le: "\<forall>i < length cs. dice s i \<le> n" using best_of_ge[of "(0, b)" "throws s cs"] assms(2) by fastforce
  then have "0 < n" using assms(1) dice_range(1)[of s 0] by (metis gr_zeroI le_zero_eq length_greater_0_conv less_nat_zero_code)
  then have "(n, w) \<in> set (throws s cs)" using best_of_in[of "throws s cs" "(0, b)"] assms(2) by auto
  then show ?thesis using le by (auto simp: throws_def set_zip)
qed

lemma dice_loop_best_throw:
  assumes "throwers C (playerVote r) \<noteq> []" "dice_loop env C r (playerVote r) (bg, 0, bv) s = ((w, n, v), s')"
  shows "best_throw s C r w (unat n) v \<and> v \<in> C"
proof -
  have "best_of (throws s (throwers C (playerVote r))) (0, bg, bv) = (unat n, w, v)"
    using dice_loop_best[where env=env and C=C and r=r and vs="playerVote r" and bg=bg and bn=0 and bv=bv and s=s] assms(2) by simp
  from best_of_throws[OF assms(1) this] show ?thesis
    by (auto simp: best_throw_def throwers_def dest!: nth_mem)
qed

lemma throwers_count: "v \<in> C \<Longrightarrow> 0 < count_of v r \<Longrightarrow> throwers C (playerVote r) \<noteq> []"
proof -
  assume v: "v \<in> C" "0 < count_of v r"
  then have "v \<in> set (map snd (playerVote r))" using count_list_0_iff[of "map snd (playerVote r)" v] by (auto simp: count_of_def)
  then show ?thesis using v(1) by (force simp: throwers_def filter_empty_conv)
qed

lemma two_or_more:
  assumes "1 < n" "n < 256"
  shows "(of_nat n :: uint8) \<noteq> 0 \<and> (of_nat n :: uint8) \<noteq> 1"
proof -
  have u: "unat (of_nat n :: uint8) = n" using unat_count[OF le_refl assms(2)] .
  have "unat (of_nat n :: uint8) \<noteq> 0" "unat (of_nat n :: uint8) \<noteq> 1" using u assms(1) by linarith+
  then show ?thesis by (metis unat_0 unat_1)
qed

section \<open>The start\<close>

lemma umap_insert_new:
  assumes "g \<notin> fst ` set m" "distinct (map fst m)"
  shows "set (umap_insert env g v m) = insert (g, v) (set m)" "distinct (map fst (umap_insert env g v m))"
    "length (umap_insert env g v m) = Suc (length m)"
proof -
  let ?k = "bucket env g (map fst m)"
  have u: "umap_insert env g v m = take ?k m @ (g, v) # drop ?k m" using assms(1) by (simp add: umap_insert_def Let_def)
  have s: "set m = set (take ?k m) \<union> set (drop ?k m)" by (metis append_take_drop_id set_append)
  show "set (umap_insert env g v m) = insert (g, v) (set m)" by (auto simp: u s)
  have "distinct (map fst (take ?k m) @ map fst (drop ?k m))" using assms(2) by (metis append_take_drop_id map_append)
  then show "distinct (map fst (umap_insert env g v m))" using assms(1) s by (auto simp: u image_Un)
  show "length (umap_insert env g v m) = Suc (length m)" by (simp add: u)
qed

definition fresh_votes :: "Roll \<Rightarrow> bool" where
  "fresh_votes r \<longleftrightarrow>
     distinct (map fst (playerVote r)) \<and> snd ` set (playerVote r) \<subseteq> {ROLL_NOT_EMITED_YET}
     \<and> totalPlayersRolling r = of_nat (length (playerVote r)) \<and> totalNeed r = 0 \<and> totalGreed r = 0 \<and> totalPass r = 0"

lemma fresh_totals: "fresh_votes r \<Longrightarrow> length (playerVote r) < 256 \<Longrightarrow> totals_ok r"
proof -
  assume f: "fresh_votes r" and l: "length (playerVote r) < 256"
  have "count_list (map snd (playerVote r)) v = 0" if "v \<noteq> ROLL_NOT_EMITED_YET" for v
    using f that by (auto simp: fresh_votes_def count_list_0_iff)
  then show ?thesis using f l by (auto simp: fresh_votes_def totals_ok_def count_of_def)
qed

lemma collect_voters_fresh:
  "fresh_votes r \<Longrightarrow> distinct gs \<Longrightarrow> set gs \<inter> fst ` set (playerVote r) = {} \<Longrightarrow>
     fresh_votes (collect_voters env l sl gs r)
     \<and> fst ` set (playerVote (collect_voters env l sl gs r)) = fst ` set (playerVote r) \<union> {g \<in> set gs. may_roll env l sl g}
     \<and> r_itemid (collect_voters env l sl gs r) = r_itemid r"
proof (induction gs arbitrary: r)
  case (Cons g gs)
  let ?r = "r\<lparr>playerVote := umap_insert env g ROLL_NOT_EMITED_YET (playerVote r), totalPlayersRolling := totalPlayersRolling r + 1\<rparr>"
  have "g \<notin> fst ` set (playerVote r)" "distinct (map fst (playerVote r))" using Cons.prems by (auto simp: fresh_votes_def)
  note u = umap_insert_new[OF this, of env ROLL_NOT_EMITED_YET]
  have f: "fresh_votes ?r" using Cons.prems(1) u by (auto simp: fresh_votes_def)
  show ?case
  proof (cases "may_roll env l sl g")
    case True
    have "set gs \<inter> fst ` set (playerVote ?r) = {}" using Cons.prems u(1) by auto
    from Cons.IH[OF f _ this] show ?thesis using Cons.prems True u(1) by auto
  next
    case False
    then show ?thesis using Cons.IH[OF Cons.prems(1)] Cons.prems by auto
  qed
qed simp

section \<open>Properties\<close>

lemma is_voter_of: "map_of (playerVote r) g = Some w \<Longrightarrow> is_voter g r"
  by (force simp: is_voter_def dest: map_of_SomeD)

lemma fresh_only: "fresh_votes r \<Longrightarrow> (g, v) \<in> set (playerVote r) \<Longrightarrow> v = ROLL_NOT_EMITED_YET"
  by (force simp: fresh_votes_def)

text \<open>The roll that is started for two or more.\<close>

definition eligible :: "LootEnv \<Rightarrow> nat \<Rightarrow> uint8 \<Rightarrow> 'a RollState_scheme \<Rightarrow> ObjectGuid set" where
  "eligible env l slot s = {g \<in> set (online_members s). may_roll env l slot g}"

lemma collected:
  assumes members: "distinct (online_members s)" "length (online_members s) < 256"
    and r: "r = collect_voters env l slot (online_members s) (Roll_new t method i)"
  shows "fresh_votes r" "fst ` set (playerVote r) = eligible env l slot s" "r_itemid r = li_itemid i"
    "length (playerVote r) = card (eligible env l slot s)" "length (playerVote r) < 256"
proof -
  have "fresh_votes (Roll_new t method i)" by (simp add: fresh_votes_def Roll_new_def)
  note c = collect_voters_fresh[OF this members(1), of env l slot]
  show f: "fresh_votes r" and v: "fst ` set (playerVote r) = eligible env l slot s" and "r_itemid r = li_itemid i"
    using c by (simp_all add: r Roll_new_def eligible_def)
  show n: "length (playerVote r) = card (eligible env l slot s)"
    using f v distinct_card[of "map fst (playerVote r)"] by (simp add: fresh_votes_def)
  have "card (eligible env l slot s) \<le> card (set (online_members s))" unfolding eligible_def by (rule card_mono) auto
  then show "length (playerVote r) < 256" using n members(2) card_length[of "online_members s"] by linarith
qed

lemma start_for_many:
  assumes "loots s l = Some loot" "unat slot < length (items loot)" "\<not> currency (items loot ! unat slot)"
    and "itemProto env (li_itemid (items loot ! unat slot)) \<noteq> None" "lootable_type env"
    and members: "distinct (online_members s)" "length (online_members s) < 256"
    and two: "1 < card (eligible env l slot s)"
  obtains r s' where "StartLootRoll env method l slot mx s = Inr s'" "m_rollIds s' = m_rollIds s @ [r]"
    "fst ` set (playerVote r) = eligible env l slot s" "fresh_votes r" "totals_ok r" "roll_wf env s' r"
    "r_loot r = l" "itemSlot r = slot"
    "loots s' = (loots s)(l \<mapsto> loot\<lparr>items := (items loot)[unat slot := (items loot ! unat slot)\<lparr>is_blocked := True\<rparr>]\<rparr>)"
proof -
  define r where "r = collect_voters env l slot (online_members s) (Roll_new (lootTargetGuid env) method (items loot ! unat slot))"
  note r = collected[OF members r_def]
  have tot: "totalPlayersRolling r = of_nat (length (playerVote r))" using r(1) by (simp add: fresh_votes_def)
  have many: "totalPlayersRolling r \<noteq> 0" "totalPlayersRolling r \<noteq> 1"
    unfolding tot using two_or_more[OF _ r(5)] two r(4) by simp_all
  obtain p where p: "itemProto env (li_itemid (items loot ! unat slot)) = Some p" using assms(4) by blast
  obtain m where m: "CalculateCommonVoteMask env mx (r\<lparr>r_loot := l, itemSlot := slot\<rparr>)
      = Inr (r\<lparr>r_loot := l, itemSlot := slot, m_commonVoteMask := m\<rparr>)"
    using p r(3) by (simp add: CalculateCommonVoteMask_def Let_def)
  let ?r = "r\<lparr>r_loot := l, itemSlot := slot, m_commonVoteMask := m\<rparr>"
  let ?b = "loot\<lparr>items := (items loot)[unat slot := (items loot ! unat slot)\<lparr>is_blocked := True\<rparr>]\<rparr>"
  have f: "fresh_votes ?r" using r(1) by (simp add: fresh_votes_def)
  then have "totals_ok ?r" using r(5) by (intro fresh_totals) simp_all
  moreover have "\<exists>s'. StartLootRoll env method l slot mx s = Inr s' \<and> m_rollIds s' = m_rollIds s @ [?r]
      \<and> loots s' = (loots s)(l \<mapsto> ?b)"
    using assms(1-5) many m p
    by (auto simp: StartLootRoll_def Let_def r_def[symmetric] modify_item_def SendLootStartRoll_def say_all_def say_def)
  moreover have "roll_wf env s' ?r" if "loots s' = (loots s)(l \<mapsto> ?b)" for s' :: "'a RollState_scheme"
    using that assms(2) r(3) p by (simp add: roll_wf_def in_slots_def slots_def)
  ultimately show ?thesis using that[of _ ?r] r(2) f by auto
qed

text \<open>
  C33. When the loot of a corpse is rolled for, the members online with a session who are near and may have
  the item decide what happens. For two or more a roll starts: they, and nobody else, are its voters, no
  vote is cast, the totals count the votes, the item is there and it is blocked. For a single one a
  roll is kept with his vote set to need, though no total counts it, and the item is not blocked; for
  none there is no roll. The members online are distinct and fewer than 256, the item is known and no
  currency, and the looted object is of a kind that can be rolled for.
\<close>

theorem roll_starts:
  assumes "loots s l = Some loot" "unat slot < length (items loot)" "\<not> currency (items loot ! unat slot)"
    and "itemProto env (li_itemid (items loot ! unat slot)) \<noteq> None" "lootable_type env"
    and "distinct (online_members s)" "length (online_members s) < 256"
  shows "(1 < card (eligible env l slot s) \<longrightarrow>
           (\<exists>r s'. StartLootRoll env method l slot mx s = Inr s' \<and> m_rollIds s' = m_rollIds s @ [r]
             \<and> fst ` set (playerVote r) = eligible env l slot s
             \<and> fresh_votes r \<and> totals_ok r \<and> roll_wf env s' r
             \<and> (\<exists>i. loot_item s' l (unat slot) = Inr i \<and> is_blocked i)))
    \<and> (\<forall>g. eligible env l slot s = {g} \<longrightarrow>
           (\<exists>r. StartLootRoll env method l slot mx s = Inr (s\<lparr>m_rollIds := m_rollIds s @ [r]\<rparr>)
             \<and> playerVote r = [(g, ROLL_NEED)] \<and> totalPlayersRolling r = 1
             \<and> totalNeed r = 0 \<and> totalGreed r = 0 \<and> totalPass r = 0 \<and> r_loot r = l \<and> itemSlot r = slot))
    \<and> (eligible env l slot s = {} \<longrightarrow> StartLootRoll env method l slot mx s = Inr s)"
proof -
  define r where "r = collect_voters env l slot (online_members s) (Roll_new (lootTargetGuid env) method (items loot ! unat slot))"
  note r = collected[OF assms(6,7) r_def]
  have tot: "totalPlayersRolling r = of_nat (length (playerVote r))" using r(1) by (simp add: fresh_votes_def)
  have "\<exists>r s'. StartLootRoll env method l slot mx s = Inr s' \<and> m_rollIds s' = m_rollIds s @ [r]
      \<and> fst ` set (playerVote r) = eligible env l slot s \<and> fresh_votes r \<and> totals_ok r \<and> roll_wf env s' r
      \<and> (\<exists>i. loot_item s' l (unat slot) = Inr i \<and> is_blocked i)" if two: "1 < card (eligible env l slot s)"
  proof (rule start_for_many[OF assms two, of "method" mx])
    fix r and s' :: "'a RollState_scheme"
    assume "loots s' = (loots s)(l \<mapsto> loot\<lparr>items := (items loot)[unat slot := (items loot ! unat slot)\<lparr>is_blocked := True\<rparr>]\<rparr>)"
    then have "\<exists>i. loot_item s' l (unat slot) = Inr i \<and> is_blocked i" using assms(2) by (simp add: loot_item_def)
    moreover assume "StartLootRoll env method l slot mx s = Inr s'" "m_rollIds s' = m_rollIds s @ [r]"
      "fst ` set (playerVote r) = eligible env l slot s" "fresh_votes r" "totals_ok r" "roll_wf env s' r"
    ultimately show ?thesis by blast
  qed
  moreover have "\<exists>r. StartLootRoll env method l slot mx s = Inr (s\<lparr>m_rollIds := m_rollIds s @ [r]\<rparr>)
      \<and> playerVote r = [(g, ROLL_NEED)] \<and> totalPlayersRolling r = 1
      \<and> totalNeed r = 0 \<and> totalGreed r = 0 \<and> totalPass r = 0 \<and> r_loot r = l \<and> itemSlot r = slot"
    if e: "eligible env l slot s = {g}" for g
  proof -
    obtain w where "playerVote r = [(g, w)]" using r(2,4) e by (cases "playerVote r") auto
    then show ?thesis using r(1) tot assms(1-3)
      by (auto simp: StartLootRoll_def Let_def r_def[symmetric] fresh_votes_def)
  qed
  moreover have "StartLootRoll env method l slot mx s = Inr s" if "eligible env l slot s = {}"
    using r(4) that tot assms(1-3) by (simp add: StartLootRoll_def Let_def r_def[symmetric])
  ultimately show ?thesis by blast
qed

text \<open>A first vote.\<close>

lemma voted_votes:
  assumes "totals_ok r" "map_of (playerVote r) g = Some w" "v \<noteq> ROLL_NOT_VALID" "v \<noteq> ROLL_NOT_EMITED_YET"
  shows "map_of (playerVote (voted g v r)) h = (if h = g then Some v else map_of (playerVote r) h)"
proof -
  obtain as bs where m: "playerVote r = as @ (g, w) # bs" and g: "g \<notin> fst ` set as" "g \<notin> fst ` set bs"
    using vote_split assms(1,2) unfolding totals_ok_def by metis
  then have "map_of as g = None" by (simp add: map_of_eq_None_iff)
  moreover have "playerVote (voted g v r) = as @ (g, v) # bs"
    using assms(3,4) by (cases v) (simp_all add: set_vote_def m without_key[OF g(1)] without_key[OF g(2)])
  ultimately show ?thesis by (simp add: m map_add_def split: option.split)
qed

definition open_votes :: "Roll \<Rightarrow> ObjectGuid set" where
  "open_votes r = {h. map_of (playerVote r) h = Some ROLL_NOT_EMITED_YET}"

lemma all_voted_open:
  assumes "totals_ok r"
  shows "all_voted r \<longleftrightarrow> open_votes r = {}"
proof -
  have "distinct (map fst (playerVote r))" using assms by (simp add: totals_ok_def)
  then show ?thesis unfolding all_voted_iff[OF assms] open_votes_def by force
qed

lemma cast_vote_loots [simp]: "loots (cast_vote env g v k s) = loots s"
  by (cases v) (simp_all add: cast_vote_def Let_def set_roll_def SendLootRoll_def say_all_def)

lemma vote_counted:
  assumes k: "k < length (m_rollIds s)" and ok: "totals_ok (m_rollIds s ! k)" and new: "g \<in> open_votes (m_rollIds s ! k)"
    and v: "v \<noteq> ROLL_NOT_VALID" "v \<noteq> ROLL_NOT_EMITED_YET"
    and loot: "loots s (r_loot (m_rollIds s ! k)) = Some loot" "items loot \<noteq> []"
  shows "CountRollVote_at env g k v s =
      (if open_votes (m_rollIds s ! k) = {g} then bindR (CountTheRoll env k (cast_vote env g v k s)) (\<lambda>s. Inr (True, s))
       else Inr (False, cast_vote env g v k s))"
    and "m_rollIds (cast_vote env g v k s) ! k = voted g v (m_rollIds s ! k)"
    and "totals_ok (voted g v (m_rollIds s ! k))" "open_votes (voted g v (m_rollIds s ! k)) = open_votes (m_rollIds s ! k) - {g}"
proof -
  let ?r = "m_rollIds s ! k"
  have g: "map_of (playerVote ?r) g = Some ROLL_NOT_EMITED_YET" using new by (simp add: open_votes_def)
  show at: "m_rollIds (cast_vote env g v k s) ! k = voted g v ?r" using k by (simp add: cast_vote_rolls)
  show tot: "totals_ok (voted g v ?r)" by (rule voted_totals[OF ok g v(1)])
  show op: "open_votes (voted g v ?r) = open_votes ?r - {g}"
    using v(2) by (auto simp: open_votes_def voted_votes[OF ok g v])
  have "all_voted (voted g v ?r) \<longleftrightarrow> open_votes ?r = {g}" using all_voted_open[OF tot] op new by blast
  then show "CountRollVote_at env g k v s =
      (if open_votes ?r = {g} then bindR (CountTheRoll env k (cast_vote env g v k s)) (\<lambda>s. Inr (True, s))
       else Inr (False, cast_vote env g v k s))"
    using at is_voter_of[OF g] loot by (simp add: CountRollVote_at_def Let_def)
qed

text \<open>Votes on one roll, one after another, until one of them ends it; \<open>True\<close> says that one did.\<close>

fun cast_in_turn :: "LootEnv \<Rightarrow> nat \<Rightarrow> (ObjectGuid \<times> RollVote) list \<Rightarrow> 'a RollState_scheme \<Rightarrow> (bool \<times> 'a RollState_scheme) result" where
  "cast_in_turn env k [] s = Inr (False, s)"
| "cast_in_turn env k ((g, v) # vs) s =
     bindR (CountRollVote_at env g k v s) (\<lambda>(ended, s). if ended then Inr (True, s) else cast_in_turn env k vs s)"

lemma votes_merge: "map_of vs g = None \<Longrightarrow> m(g \<mapsto> v) ++ map_of vs = m ++ map_of ((g, v) # vs)"
  by (auto simp: map_add_def fun_eq_iff split: option.split)

lemma cast_in_turn_counts:
  assumes "k < length (m_rollIds s)" "totals_ok (m_rollIds s ! k)"
    and "loots s (r_loot (m_rollIds s ! k)) = Some loot" "items loot \<noteq> []"
    and "distinct (map fst vs)" "fst ` set vs \<subseteq> open_votes (m_rollIds s ! k)"
    and "ROLL_NOT_VALID \<notin> snd ` set vs" "ROLL_NOT_EMITED_YET \<notin> snd ` set vs"
  shows "\<exists>s'. totals_ok (m_rollIds s' ! k)
    \<and> map_of (playerVote (m_rollIds s' ! k)) = map_of (playerVote (m_rollIds s ! k)) ++ map_of vs
    \<and> cast_in_turn env k vs s =
        (if vs \<noteq> [] \<and> open_votes (m_rollIds s ! k) = fst ` set vs
         then bindR (CountTheRoll env k s') (\<lambda>s. Inr (True, s)) else Inr (False, s'))"
  using assms
proof (induction vs arbitrary: s)
  case (Cons x vs)
  obtain g v where x: "x = (g, v)" by (cases x)
  let ?r = "m_rollIds s ! k" and ?s = "cast_vote env g v k s"
  have g: "g \<in> open_votes ?r" and v: "v \<noteq> ROLL_NOT_VALID" "v \<noteq> ROLL_NOT_EMITED_YET" using Cons.prems(6-8) by (auto simp: x)
  note c = vote_counted[OF Cons.prems(1,2) g v Cons.prems(3,4)]
  have gm: "map_of (playerVote ?r) g = Some ROLL_NOT_EMITED_YET" using g by (simp add: open_votes_def)
  have one: "map_of (playerVote (m_rollIds ?s ! k)) = (map_of (playerVote ?r))(g \<mapsto> v)"
    using voted_votes[OF Cons.prems(2) gm v] by (simp add: c(2) fun_eq_iff)
  have sub: "fst ` set vs \<subseteq> open_votes (m_rollIds ?s ! k)" using Cons.prems(5,6) by (auto simp: x c(2,4))
  have gn: "map_of vs g = None" "g \<notin> fst ` set vs" using Cons.prems(5) by (auto simp: x map_of_eq_None_iff)
  note merge = votes_merge[OF gn(1), of "map_of (playerVote ?r)" v, folded x]
  show ?case
  proof (cases "open_votes ?r = {g}")
    case True
    then have "vs = []" using sub by (auto simp: c(2,4))
    then have "map_of (playerVote (m_rollIds ?s ! k)) = map_of (playerVote ?r) ++ map_of (x # vs)" using one merge by simp
    moreover have "cast_in_turn env k (x # vs) s = bindR (CountTheRoll env k ?s) (\<lambda>s. Inr (True, s))"
      using c(1) True by (simp add: x bindR_assoc)
    moreover have "totals_ok (m_rollIds ?s ! k)" "open_votes ?r = fst ` set (x # vs)" using c(2,3) True \<open>vs = []\<close> by (simp_all add: x)
    ultimately show ?thesis by (intro exI[of _ ?s] conjI) (assumption | simp only: list.distinct not_False_eq_True simp_thms if_True)+
  next
    case False
    have len: "k < length (m_rollIds ?s)" using Cons.prems(1) by (simp add: cast_vote_rolls)
    have loot: "loots ?s (r_loot (m_rollIds ?s ! k)) = Some loot"
      using Cons.prems(3) voted_item[of ?r g v] by (simp add: c(2) same_item_def)
    have "totals_ok (m_rollIds ?s ! k)" using c(2,3) by simp
    from Cons.IH[OF len this loot Cons.prems(4) _ sub] Cons.prems(5,7,8)
    obtain s' where s': "totals_ok (m_rollIds s' ! k)"
      "map_of (playerVote (m_rollIds s' ! k)) = map_of (playerVote (m_rollIds ?s ! k)) ++ map_of vs"
      "cast_in_turn env k vs ?s = (if vs \<noteq> [] \<and> open_votes (m_rollIds ?s ! k) = fst ` set vs
         then bindR (CountTheRoll env k s') (\<lambda>s. Inr (True, s)) else Inr (False, s'))"
      by (auto simp: x)
    have "vs \<noteq> [] \<and> open_votes (m_rollIds ?s ! k) = fst ` set vs \<longleftrightarrow> open_votes ?r = fst ` set (x # vs)"
      using g gn(2) False by (auto simp: x c(2,4))
    then have "cast_in_turn env k (x # vs) s = (if x # vs \<noteq> [] \<and> open_votes ?r = fst ` set (x # vs)
         then bindR (CountTheRoll env k s') (\<lambda>s. Inr (True, s)) else Inr (False, s'))"
      using s'(3) c(1) False by (simp add: x)
    moreover have "map_of (playerVote (m_rollIds s' ! k)) = map_of (playerVote ?r) ++ map_of (x # vs)"
      using s'(2) one merge by metis
    ultimately show ?thesis using s'(1) by (intro exI[of _ s'] conjI)
  qed
qed simp

text \<open>
  C14. In a roll that was started for two or more and in which nobody votes twice, the totals count the
  votes at every moment, and the roll ends with the last open vote and not before. After
  \<open>StartLootRoll\<close>, whoever of the voters votes, in whatever order and for whatever: as long as somebody
  has not voted, the roll is not ended and everybody's vote is the one he cast; the vote of the last one
  has the roll counted, in a state whose totals count all the votes.
\<close>

theorem roll_counts:
  assumes "loots s l = Some loot" "unat slot < length (items loot)" "\<not> currency (items loot ! unat slot)"
    and "itemProto env (li_itemid (items loot ! unat slot)) \<noteq> None" "lootable_type env"
    and "distinct (online_members s)" "length (online_members s) < 256"
    and two: "1 < card (eligible env l slot s)"
    and start: "StartLootRoll env method l slot mx s = Inr s0"
    and votes: "distinct (map fst vs)" "fst ` set vs \<subseteq> eligible env l slot s"
      "ROLL_NOT_VALID \<notin> snd ` set vs" "ROLL_NOT_EMITED_YET \<notin> snd ` set vs"
  shows "\<exists>s'. totals_ok (m_rollIds s' ! length (m_rollIds s))
    \<and> (\<forall>g. map_of (playerVote (m_rollIds s' ! length (m_rollIds s))) g =
          (if g \<notin> eligible env l slot s then None
           else case map_of vs g of None \<Rightarrow> Some ROLL_NOT_EMITED_YET | Some v \<Rightarrow> Some v))
    \<and> cast_in_turn env (length (m_rollIds s)) vs s0 =
        (if fst ` set vs = eligible env l slot s
         then bindR (CountTheRoll env (length (m_rollIds s)) s') (\<lambda>s. Inr (True, s))
         else Inr (False, s'))"
proof -
  let ?V = "eligible env l slot s" and ?k = "length (m_rollIds s)"
  let ?b = "loot\<lparr>items := (items loot)[unat slot := (items loot ! unat slot)\<lparr>is_blocked := True\<rparr>]\<rparr>"
  obtain r where r: "m_rollIds s0 = m_rollIds s @ [r]" "fst ` set (playerVote r) = ?V" "fresh_votes r" "totals_ok r"
      "loots s0 (r_loot r) = Some ?b"
  proof (rule start_for_many[OF assms(1-8), of "method" mx])
    fix r and s' :: "'a RollState_scheme"
    assume "StartLootRoll env method l slot mx s = Inr s'" "m_rollIds s' = m_rollIds s @ [r]" "r_loot r = l"
      "loots s' = (loots s)(l \<mapsto> ?b)"
    then have "m_rollIds s0 = m_rollIds s @ [r]" "loots s0 (r_loot r) = Some ?b" using start by simp_all
    moreover assume "fst ` set (playerVote r) = ?V" "fresh_votes r" "totals_ok r"
    ultimately show thesis using that by blast
  qed
  have m: "map_of (playerVote r) g = (if g \<in> ?V then Some ROLL_NOT_EMITED_YET else None)" for g
    using r(2) fresh_only[OF r(3)] by (cases "map_of (playerVote r) g") (force simp: map_of_eq_None_iff dest: map_of_SomeD)+
  have at: "m_rollIds s0 ! ?k = r" "?k < length (m_rollIds s0)" using r(1) by simp_all
  have op: "open_votes r = ?V" by (auto simp: open_votes_def m)
  have ne: "items ?b \<noteq> []" using assms(2) by auto
  obtain s' where s': "totals_ok (m_rollIds s' ! ?k)" "map_of (playerVote (m_rollIds s' ! ?k)) = map_of (playerVote r) ++ map_of vs"
    "cast_in_turn env ?k vs s0 = (if vs \<noteq> [] \<and> ?V = fst ` set vs
         then bindR (CountTheRoll env ?k s') (\<lambda>s. Inr (True, s)) else Inr (False, s'))"
    using cast_in_turn_counts[OF at(2), of ?b vs env] r(4,5) ne votes unfolding at(1) op by blast
  have v: "vs \<noteq> [] \<and> ?V = fst ` set vs \<longleftrightarrow> fst ` set vs = ?V" using two by auto
  have "map_of vs g = None" if "g \<notin> ?V" for g using that votes(2) by (auto simp: map_of_eq_None_iff)
  then have "\<forall>g. map_of (playerVote (m_rollIds s' ! ?k)) g =
      (if g \<notin> ?V then None else case map_of vs g of None \<Rightarrow> Some ROLL_NOT_EMITED_YET | Some v \<Rightarrow> Some v)"
    by (auto simp: s'(2) map_add_def m split: option.split)
  then show ?thesis using s'(1,3) v by (intro exI[of _ s']) simp
qed

lemma word_pos: "n < 256 \<Longrightarrow> 0 < (of_nat n :: uint8) \<longleftrightarrow> 0 < n"
  by (simp add: word_less_nat_alt unat_count[OF le_refl])

lemma count_pos:
  assumes ok: "totals_ok r"
  shows "0 < totalNeed r \<longleftrightarrow> 0 < count_of ROLL_NEED r"
    and "0 < totalGreed r \<longleftrightarrow> 0 < count_of ROLL_GREED r + count_of ROLL_DISENCHANT r"
proof -
  have t: "totalNeed r = of_nat (count_of ROLL_NEED r)"
    "totalGreed r = of_nat (count_of ROLL_GREED r + count_of ROLL_DISENCHANT r)" "length (map snd (playerVote r)) < 256"
    using ok unfolding totals_ok_def by simp_all
  have b: "count_of ROLL_NEED r < 256" "count_of ROLL_GREED r + count_of ROLL_DISENCHANT r < 256"
    using t(3) count_split[of "map snd (playerVote r)"] unfolding count_of_def by linarith+
  show "0 < totalNeed r \<longleftrightarrow> 0 < count_of ROLL_NEED r" unfolding t(1) by (rule word_pos[OF b(1)])
  show "0 < totalGreed r \<longleftrightarrow> 0 < count_of ROLL_GREED r + count_of ROLL_DISENCHANT r" unfolding t(2) by (rule word_pos[OF b(2)])
qed

lemma count_pos_votes: "0 < count_of v r \<Longrightarrow> playerVote r \<noteq> []"
  by (auto simp: count_of_def)

lemma dice_loop_loots [simp]: "loots (snd (dice_loop env c r vs best s)) = loots s"
  by (induction env c r vs best s rule: dice_loop.induct) (simp_all add: Let_def urand_def SendLootRoll_def say_all_def)

lemma need_winner:
  assumes "throwers {ROLL_NEED} (playerVote r) \<noteq> []" "playerVote r \<noteq> []"
  shows "\<exists>w n s1. best_throw s {ROLL_NEED} r w (unat n) ROLL_NEED \<and> loots s1 = loots s
    \<and> need_result env r s =
        (let s2 = SendLootRollWon env w n ROLL_NEED r s1
         in if hasSession env w then award env w r (say (RollAchievement w ROLL_NEED (r_itemid r) n) s2) else Inr s2)"
proof -
  obtain w n v s1 where d: "dice_loop env {ROLL_NEED} r (playerVote r) (fst (hd (playerVote r)), 0, ROLL_NEED) s = ((w, n, v), s1)"
    by (metis prod.collapse)
  have "best_throw s {ROLL_NEED} r w (unat n) ROLL_NEED" using dice_loop_best_throw[OF assms(1) d] by auto
  moreover have "loots s1 = loots s" using d dice_loop_loots by (metis snd_conv)
  ultimately show ?thesis using d assms(2) by (intro exI[of _ w] exI[of _ n] exI[of _ s1]) (simp add: need_result_def Let_def)
qed

lemma greed_winner:
  assumes "throwers {ROLL_GREED, ROLL_DISENCHANT} (playerVote r) \<noteq> []" "playerVote r \<noteq> []" "slot_ok s r"
  shows "\<exists>w n v s1. v \<in> {ROLL_GREED, ROLL_DISENCHANT} \<and> loots s1 = loots s
    \<and> best_throw s {ROLL_GREED, ROLL_DISENCHANT} r w (unat n) v
    \<and> greed_result env r s =
        (let s2 = SendLootRollWon env w n v r s1; s3 = say (RollAchievement w ROLL_GREED (r_itemid r) n) s2
         in if hasSession env w then if v = ROLL_GREED then award env w r s3 else disenchant env w r s3 else Inr s2)"
proof -
  obtain w n v s1 where d: "dice_loop env {ROLL_GREED, ROLL_DISENCHANT} r (playerVote r) (fst (hd (playerVote r)), 0, ROLL_PASS) s = ((w, n, v), s1)"
    by (metis prod.collapse)
  have b: "best_throw s {ROLL_GREED, ROLL_DISENCHANT} r w (unat n) v" "v \<in> {ROLL_GREED, ROLL_DISENCHANT}"
    using dice_loop_best_throw[OF assms(1) d] by simp_all
  have l: "loots s1 = loots s" using d dice_loop_loots by (metis snd_conv)
  then have "slot_ok (SendLootRollWon env w n v r s1) r"
    using assms(3) by (simp add: in_slots_def) (simp add: slots_def)
  then obtain i where "loot_item (SendLootRollWon env w n v r s1) (r_loot r) (unat (itemSlot r)) = Inr i"
    using loot_item_ok by blast
  then show ?thesis using d assms(2) b l
    by (intro exI[of _ w] exI[of _ n] exI[of _ v] exI[of _ s1]) (auto simp: greed_result_def Let_def)
qed

text \<open>
  C15. The end of a roll is fair as long as its totals count its votes and its item is there. Then a
  member who needs the item wins over everyone who is only greedy, among those who may win nobody threw
  more than the winner, and when nobody wants the item nobody gets it. The totals count the votes in a
  roll that was started for two or more while nobody votes twice; after a second vote, and for a
  single looter, they do not.
\<close>

theorem fair_winner:
  assumes "totals_ok (m_rollIds s ! k)" "isValid_roll s (m_rollIds s ! k)" "slot_ok s (m_rollIds s ! k)"
  shows "let r = m_rollIds s ! k; Needs = count_of ROLL_NEED r;
             Greeds = count_of ROLL_GREED r + count_of ROLL_DISENCHANT r
         in (0 < Needs \<longrightarrow>
               (\<exists>w n s1. best_throw s {ROLL_NEED} r w (unat n) ROLL_NEED \<and> loots s1 = loots s
                 \<and> CountTheRoll env k s = bindR
                     (let s2 = SendLootRollWon env w n ROLL_NEED r s1
                      in if hasSession env w then award env w r (say (RollAchievement w ROLL_NEED (r_itemid r) n) s2)
                         else Inr s2) (\<lambda>s. Inr (erase_roll k s))))
          \<and> (Needs = 0 \<and> 0 < Greeds \<longrightarrow>
               (\<exists>w n v s1. v \<in> {ROLL_GREED, ROLL_DISENCHANT} \<and> loots s1 = loots s
                 \<and> best_throw s {ROLL_GREED, ROLL_DISENCHANT} r w (unat n) v
                 \<and> CountTheRoll env k s = bindR
                     (let s2 = SendLootRollWon env w n v r s1; s3 = say (RollAchievement w ROLL_GREED (r_itemid r) n) s2
                      in if hasSession env w then if v = ROLL_GREED then award env w r s3 else disenchant env w r s3
                         else Inr s2) (\<lambda>s. Inr (erase_roll k s))))
          \<and> (Needs = 0 \<and> Greeds = 0 \<longrightarrow>
               CountTheRoll env k s = bindR (all_passed env r s) (\<lambda>s. Inr (erase_roll k s)))"
proof -
  let ?r = "m_rollIds s ! k"
  let ?C = "{ROLL_GREED, ROLL_DISENCHANT}"
  have c: "CountTheRoll env k s = bindR (if 0 < count_of ROLL_NEED ?r then need_result env ?r s
      else if 0 < count_of ROLL_GREED ?r + count_of ROLL_DISENCHANT ?r then greed_result env ?r s
      else all_passed env ?r s) (\<lambda>s. Inr (erase_roll k s))"
    using assms(2) count_pos[OF assms(1)] by (simp only: CountTheRoll_def Let_def not_True_eq_False if_False)
  have n: "throwers {ROLL_NEED} (playerVote ?r) \<noteq> [] \<and> playerVote ?r \<noteq> []" if "0 < count_of ROLL_NEED ?r"
    using throwers_count[of ROLL_NEED "{ROLL_NEED}"] count_pos_votes that by blast
  have g: "throwers ?C (playerVote ?r) \<noteq> [] \<and> playerVote ?r \<noteq> []" if "0 < count_of ROLL_GREED ?r + count_of ROLL_DISENCHANT ?r"
    using throwers_count[of ROLL_GREED ?C ?r] throwers_count[of ROLL_DISENCHANT ?C ?r] that
      count_pos_votes[of ROLL_GREED ?r] count_pos_votes[of ROLL_DISENCHANT ?r] by auto
  show ?thesis
    unfolding Let_def
    by (intro conjI impI) (use c n g need_winner[of ?r s env] greed_winner[of ?r s env] assms(3) in \<open>fastforce simp: Let_def\<close>)+
qed

text \<open>
  What happens to the item of a roll that was won: a winner with room for it gets it once, it counts
  as looted and one item fewer is left; a winner without room is told so and the item may be looted by hand.
\<close>

theorem award_settles:
  assumes "loots s (r_loot r) = Some loot" "unat (itemSlot r) < length (items loot)"
  defines "item \<equiv> items loot ! unat (itemSlot r)"
  shows "\<exists>s' loot'. award env g r s = Inr s' \<and> loots s' (r_loot r) = Some loot' \<and>
    (if CanStoreNewItem env g (r_itemid r) (li_count item) = EQUIP_ERR_OK
     then items loot' = (items loot)[unat (itemSlot r) := item\<lparr>is_looted := True\<rparr>]
          \<and> unlootedCount loot' = unlootedCount loot - 1
          \<and> filter (\<lambda>e. case e of StoreNewItem _ _ _ _ \<Rightarrow> True | _ \<Rightarrow> False) (drop (length (out s)) (out s'))
            = [StoreNewItem g (r_itemid r) (r_loot r) (itemSlot r)]
     else items loot' = (items loot)[unat (itemSlot r) := item\<lparr>is_blocked := False\<rparr>]
          \<and> unlootedCount loot' = unlootedCount loot
          \<and> out s' = out s @ [SendEquipError g (CanStoreNewItem env g (r_itemid r) (li_count item)) (r_itemid r)])"
  using assms by (simp add: award_def loot_item_def remove_item_def modify_item_def say_def Let_def)

text \<open>
  When every member who needs the item has gone offline, the roll still ends, but nothing happens to
  the loot: the item stays blocked and no roll is left that could release it.
\<close>

theorem offline_winner_blocks:
  assumes "totals_ok (m_rollIds s ! k)" "isValid_roll s (m_rollIds s ! k)" "slot_ok s (m_rollIds s ! k)"
    and "0 < count_of ROLL_NEED (m_rollIds s ! k)"
    and off: "\<forall>g. (g, ROLL_NEED) \<in> set (playerVote (m_rollIds s ! k)) \<longrightarrow> \<not> hasSession env g"
  shows "\<exists>s'. CountTheRoll env k s = Inr s' \<and> loots s' = loots s
           \<and> m_rollIds s' = take k (m_rollIds s) @ drop (Suc k) (m_rollIds s)"
proof -
  let ?r = "m_rollIds s ! k"
  have "throwers {ROLL_NEED} (playerVote ?r) \<noteq> []" "playerVote ?r \<noteq> []"
    using throwers_count[of ROLL_NEED "{ROLL_NEED}"] count_pos_votes assms(4) by blast+
  then obtain w n s1 where b: "best_throw s {ROLL_NEED} ?r w (unat n) ROLL_NEED" "loots s1 = loots s"
    "need_result env ?r s = (let s2 = SendLootRollWon env w n ROLL_NEED ?r s1
         in if hasSession env w then award env w ?r (say (RollAchievement w ROLL_NEED (r_itemid ?r) n) s2) else Inr s2)"
    using need_winner[of ?r s env] by blast
  have "(w, ROLL_NEED) \<in> set (playerVote ?r)"
    using b(1) nth_mem by (fastforce simp: best_throw_def throwers_def)
  then have "need_result env ?r s = Inr (SendLootRollWon env w n ROLL_NEED ?r s1)" using b(3) off by (simp add: Let_def)
  then have e: "CountTheRoll env k s = Inr (erase_roll k (SendLootRollWon env w n ROLL_NEED ?r s1))"
    using assms(2,4) count_pos(1)[OF assms(1)] by (simp add: CountTheRoll_def)
  then show ?thesis using CountTheRoll_rolls[OF e] b(2) by (simp add: erase_roll_def SendLootRollWon_def say_all_def)
qed

text \<open>
  C31. A member who leaves is taken out of every roll and the totals stay right, but no roll ends by it:
  a roll that waits only for the leaver stays, with nobody left whose vote is open.
\<close>

theorem leaver_ends_no_roll:
  "removeRolls env g s = Inr (s\<lparr>m_rollIds := map (drop_vote g) (m_rollIds s)\<rparr>)
   \<and> (\<forall>r\<in>set (m_rollIds s). totals_ok r \<longrightarrow> totals_ok (drop_vote g r))
   \<and> (\<forall>r\<in>set (m_rollIds s). totals_ok r \<and> (\<forall>h. h \<noteq> g \<longrightarrow> (h, ROLL_NOT_EMITED_YET) \<notin> set (playerVote r))
        \<longrightarrow> all_voted (drop_vote g r))"
proof -
  have "all_voted (drop_vote g r)"
    if "totals_ok r" "\<forall>h. h \<noteq> g \<longrightarrow> (h, ROLL_NOT_EMITED_YET) \<notin> set (playerVote r)" for r
  proof -
    have "playerVote (drop_vote g r) = filter (\<lambda>(h, w). h \<noteq> g) (playerVote r)"
      by (auto simp: drop_vote_def Let_def map_of_eq_None_iff filter_key split: option.split)
    then have "ROLL_NOT_EMITED_YET \<notin> snd ` set (playerVote (drop_vote g r))" using that(2) by force
    then show ?thesis using all_voted_iff[OF drop_totals[OF that(1)]] by simp
  qed
  then show ?thesis using drop_totals removeRolls_eq by blast
qed

text \<open>
  C32. Nothing in the counting asks whether a player has voted before. In a roll of two, the first player
  can need and then pass: the roll ends although the other has not voted, nobody throws the dice, and the
  first player gets the item with a result of 0.
\<close>

theorem double_vote:
  assumes "m_rollIds s = [r]" "fresh_votes r" "playerVote r = [(a, ROLL_NOT_EMITED_YET), (b, ROLL_NOT_EMITED_YET)]"
    and "loots s (r_loot r) = Some loot" "unat (itemSlot r) < length (items loot)"
    and "hasSession env a" "CanStoreNewItem env a (r_itemid r) (li_count (items loot ! unat (itemSlot r))) = EQUIP_ERR_OK"
  shows "\<exists>s1 s2. CountRollVote_at env a 0 ROLL_NEED s = Inr (False, s1)
           \<and> CountRollVote_at env a 0 ROLL_PASS s1 = Inr (True, s2) \<and> m_rollIds s2 = []
           \<and> RollAchievement a ROLL_NEED (r_itemid r) 0 \<in> set (out s2)
           \<and> StoreNewItem a (r_itemid r) (r_loot r) (itemSlot r) \<in> set (out s2)"
proof -
  have r: "totalPlayersRolling r = 2" "totalNeed r = 0" "totalGreed r = 0" "totalPass r = 0" "a \<noteq> b"
    using assms(2,3) by (auto simp: fresh_votes_def)
  have ne: "items loot \<noteq> []" using assms(5) by auto
  show ?thesis
    using assms r ne
    by (simp add: CountRollVote_at_def is_voter_def Let_def cast_vote_def set_vote_def set_roll_def all_voted_def SendLootRoll_def
        say_all_def CountTheRoll_def isValid_roll_def need_result_def SendLootRollWon_def award_def loot_item_def remove_item_def
        modify_item_def say_def erase_roll_def)
qed

text \<open>
  C16. As long as the item of every roll is there and known, no operation on rolls fails, the form is kept
  by votes and by leaving members, and the end of the voting time leaves no roll.
\<close>

theorem roll_operations_total:
  assumes wf: "rolls_wf env s"
  shows "(\<exists>s'. HandleLootRoll env g target slot ty s = Inr s' \<and> rolls_wf env s')
    \<and> (\<exists>s'. removeRolls env g s = Inr s' \<and> rolls_wf env s')
    \<and> (\<exists>s'. EndRoll env s = Inr s' \<and> m_rollIds s' = [])"
proof -
  have "rolls_wf env (s\<lparr>m_rollIds := map (drop_vote g) (m_rollIds s)\<rparr>)"
    using wf roll_wf_same[OF drop_vote_item, of env s] roll_wf_cong[of "s\<lparr>m_rollIds := map (drop_vote g) (m_rollIds s)\<rparr>" s]
    by (auto simp: rolls_wf_def)
  then show ?thesis using HandleLootRoll_wf[OF wf] EndRoll_ok[OF wf] removeRolls_eq by blast
qed

section \<open>Witnesses\<close>

definition demo_env :: LootEnv where
  "demo_env = \<lparr>itemProto = (\<lambda>i. if i = 7 then Some \<lparr>ip_Flags2 = 0, DisenchantID = 0, RequiredDisenchantSkill = 0, Quality = 3\<rparr> else None),
     hasSession = (\<lambda>g. g < 9), CanUseItem = (\<lambda>g i. True), CanStoreNewItem = (\<lambda>g i n. 0), AllowedForPlayer = (\<lambda>g l k. True),
     isNear = (\<lambda>g. True), enchanting = (\<lambda>g. 0), lootable_type = True, lootTargetGuid = 100, lootMapId = 0, bucket = (\<lambda>g gs. 0)\<rparr>"

definition demo_item :: LootItem where
  "demo_item = \<lparr>li_itemid = 7, li_randomSuffix = 0, li_randomPropertyId = 0, li_count = 1, currency = False, is_looted = False,
     is_blocked = False, freeforall = False, is_underthreshold = False\<rparr>"

definition demo_vote :: "(ObjectGuid \<times> RollVote) list \<Rightarrow> uint8 \<Rightarrow> uint8 \<Rightarrow> Roll" where
  "demo_vote m players needs = \<lparr>lootedTargetGUID = 100, r_itemid = 7, itemRandomPropId = 0, itemRandomSuffix = 0, itemCount = 1,
     r_loot = 0, playerVote = m, totalPlayersRolling = players, totalNeed = needs, totalGreed = 0, totalPass = 0, itemSlot = 0,
     m_method = GROUP_LOOT, m_commonVoteMask = ROLL_VOTE_MASK_ALL\<rparr>"

definition demo_rolls :: "Roll list \<Rightarrow> RollState" where
  "demo_rolls rs = \<lparr>m_rollIds = rs, loots = (\<lambda>_. None)(0 \<mapsto> \<lparr>items = [demo_item], unlootedCount = 1\<rparr>),
     member_refs = [(1, False), (2, False)], m_lootThreshold = 2, draws = (\<lambda>i. 40 + i), out = []\<rparr>"

lemmas demo_defs = demo_env_def demo_item_def demo_vote_def demo_rolls_def

lemma demo_ok:
  "totals_ok (demo_vote [(1, ROLL_NEED), (2, ROLL_NOT_EMITED_YET)] 2 1)"
  "fresh_votes (demo_vote [(1, ROLL_NOT_EMITED_YET), (2, ROLL_NOT_EMITED_YET)] 2 0)"
  "slot_ok (demo_rolls rs) (demo_vote m p n)" "isValid_roll (demo_rolls rs) (demo_vote m p n)"
  by (simp_all add: demo_defs totals_ok_def count_of_def fresh_votes_def in_slots_def slots_def isValid_roll_def)

lemma demo_eligible: "eligible demo_env 0 0 (demo_rolls []) = {1, 2}"
  by (auto simp: demo_defs may_roll_def eligible_def)

lemma roll_starts_witness:
  "\<exists>r s'. StartLootRoll demo_env GROUP_LOOT 0 0 300 (demo_rolls []) = Inr s' \<and> m_rollIds s' = [r]
     \<and> fst ` set (playerVote r) = {1, 2} \<and> totals_ok r"
  using roll_starts[of "demo_rolls []" 0 "\<lparr>items = [demo_item], unlootedCount = 1\<rparr>" 0 demo_env GROUP_LOOT 300] demo_eligible
  by (fastforce simp: demo_defs)

lemma roll_counts_witness:
  "\<exists>s0 s'. StartLootRoll demo_env GROUP_LOOT 0 0 300 (demo_rolls []) = Inr s0
     \<and> cast_in_turn demo_env 0 [(2, ROLL_PASS), (1, ROLL_GREED)] s0 = bindR (CountTheRoll demo_env 0 s') (\<lambda>s. Inr (True, s))
     \<and> totals_ok (m_rollIds s' ! 0)"
proof -
  let ?s = "demo_rolls []" and ?l = "\<lparr>items = [demo_item], unlootedCount = 1\<rparr>" and ?vs = "[(2, ROLL_PASS), (1, ROLL_GREED)]"
  have h: "loots ?s 0 = Some ?l" "unat (0 :: uint8) < length (items ?l)" "\<not> currency (items ?l ! unat (0 :: uint8))"
    "itemProto demo_env (li_itemid (items ?l ! unat (0 :: uint8))) \<noteq> None" "lootable_type demo_env"
    "distinct (online_members ?s)" "length (online_members ?s) < 256" "1 < card (eligible demo_env 0 0 ?s)"
    unfolding demo_eligible by (simp_all add: demo_defs)
  obtain s0 where s0: "StartLootRoll demo_env GROUP_LOOT 0 0 300 ?s = Inr s0" using start_for_many[OF h] by metis
  have "m_rollIds ?s = []" by (simp add: demo_rolls_def)
  then show ?thesis using roll_counts[OF h s0, of ?vs] s0 unfolding demo_eligible by auto
qed

lemma fair_winner_witness:
  "\<exists>w n s1. best_throw (demo_rolls [demo_vote [(1, ROLL_NEED), (2, ROLL_NOT_EMITED_YET)] 2 1]) {ROLL_NEED}
     (demo_vote [(1, ROLL_NEED), (2, ROLL_NOT_EMITED_YET)] 2 1) w (unat (n :: uint32)) ROLL_NEED
     \<and> loots (s1 :: RollState) = loots (demo_rolls [])"
proof -
  let ?s = "demo_rolls [demo_vote [(1, ROLL_NEED), (2, ROLL_NOT_EMITED_YET)] 2 1]"
  have r: "m_rollIds ?s ! 0 = demo_vote [(1, ROLL_NEED), (2, ROLL_NOT_EMITED_YET)] 2 1" by (simp add: demo_rolls_def)
  have n: "0 < count_of ROLL_NEED (demo_vote [(1, ROLL_NEED), (2, ROLL_NOT_EMITED_YET)] 2 1)" by (simp add: demo_vote_def count_of_def)
  have l: "loots ?s = loots (demo_rolls [])" by (simp add: demo_rolls_def)
  note f = fair_winner[of ?s 0 demo_env, unfolded r Let_def, OF demo_ok(1,4,3)]
  show ?thesis using f[THEN conjunct1, THEN mp, OF n] unfolding l by (elim exE conjE) (intro exI conjI, assumption+)
qed

lemma award_settles_witness:
  "\<exists>s' loot'. award demo_env 1 (demo_vote [(1, ROLL_NEED)] 1 1) (demo_rolls []) = Inr s' \<and> loots s' 0 = Some loot'
     \<and> items loot' = [demo_item\<lparr>is_looted := True\<rparr>]"
  using award_settles[of "demo_rolls []" "demo_vote [(1, ROLL_NEED)] 1 1" "\<lparr>items = [demo_item], unlootedCount = 1\<rparr>" demo_env 1]
  by (auto simp: demo_defs)

lemma offline_winner_blocks_witness:
  "\<exists>s'. CountTheRoll demo_env 0 (demo_rolls [demo_vote [(11, ROLL_NEED), (2, ROLL_NOT_EMITED_YET)] 2 1]) = Inr s'
     \<and> loots s' = loots (demo_rolls []) \<and> m_rollIds s' = []"
proof -
  let ?s = "demo_rolls [demo_vote [(11, ROLL_NEED), (2, ROLL_NOT_EMITED_YET)] 2 1]"
  have r: "m_rollIds ?s = [demo_vote [(11, ROLL_NEED), (2, ROLL_NOT_EMITED_YET)] 2 1]" by (simp add: demo_rolls_def)
  have t: "totals_ok (demo_vote [(11, ROLL_NEED), (2, ROLL_NOT_EMITED_YET)] 2 1)"
    by (simp add: demo_defs totals_ok_def count_of_def)
  have c: "0 < count_of ROLL_NEED (demo_vote [(11, ROLL_NEED), (2, ROLL_NOT_EMITED_YET)] 2 1)"
    "\<not> hasSession demo_env 11"
    by (simp_all add: demo_defs count_of_def)
  have l: "loots ?s = loots (demo_rolls [])" by (simp add: demo_rolls_def)
  show ?thesis using offline_winner_blocks[of ?s 0 demo_env] t c demo_ok(3,4) l unfolding r
    by (auto simp: demo_vote_def)
qed

lemma double_vote_witness:
  "\<exists>s1 s2. CountRollVote_at demo_env 1 0 ROLL_NEED (demo_rolls [demo_vote [(1, ROLL_NOT_EMITED_YET), (2, ROLL_NOT_EMITED_YET)] 2 0]) = Inr (False, s1)
     \<and> CountRollVote_at demo_env 1 0 ROLL_PASS s1 = Inr (True, s2) \<and> StoreNewItem 1 7 0 0 \<in> set (out s2)"
proof -
  let ?r = "demo_vote [(1, ROLL_NOT_EMITED_YET), (2, ROLL_NOT_EMITED_YET)] 2 0"
  have "m_rollIds (demo_rolls [?r]) = [?r]" by (simp add: demo_rolls_def)
  then show ?thesis
    using double_vote[of "demo_rolls [?r]" ?r 1 2 "\<lparr>items = [demo_item], unlootedCount = 1\<rparr>" demo_env] demo_ok(2)
    by (auto simp: demo_defs)
qed

lemma roll_operations_total_witness:
  "\<exists>s'. EndRoll demo_env (demo_rolls [demo_vote [(1, ROLL_NEED), (2, ROLL_NOT_EMITED_YET)] 2 1]) = Inr s' \<and> m_rollIds s' = []"
proof -
  have "rolls_wf demo_env (demo_rolls [demo_vote [(1, ROLL_NEED), (2, ROLL_NOT_EMITED_YET)] 2 1])"
    by (simp add: demo_defs rolls_wf_def roll_wf_def in_slots_def slots_def)
  then show ?thesis using roll_operations_total[of demo_env "demo_rolls [demo_vote [(1, ROLL_NEED), (2, ROLL_NOT_EMITED_YET)] 2 1]" 1 100 0 1] by blast
qed

lemma leaver_ends_no_roll_witness:
  "removeRolls demo_env 2 (demo_rolls [demo_vote [(1, ROLL_NEED), (2, ROLL_NOT_EMITED_YET)] 2 1])
     = Inr (demo_rolls [demo_vote [(1, ROLL_NEED)] 1 1]) \<and> all_voted (demo_vote [(1, ROLL_NEED)] 1 1)"
proof -
  let ?r = "demo_vote [(1, ROLL_NEED), (2, ROLL_NOT_EMITED_YET)] 2 1"
  have r: "m_rollIds (demo_rolls [?r]) = [?r]" by (simp add: demo_rolls_def)
  have d: "drop_vote 2 ?r = demo_vote [(1, ROLL_NEED)] 1 1" by (simp add: demo_vote_def drop_vote_def)
  have o: "\<forall>h. h \<noteq> 2 \<longrightarrow> (h, ROLL_NOT_EMITED_YET) \<notin> set (playerVote ?r)" by (simp add: demo_vote_def)
  have u: "(demo_rolls [?r])\<lparr>m_rollIds := rs\<rparr> = demo_rolls rs" for rs by (simp add: demo_rolls_def)
  show ?thesis using leaver_ends_no_roll[of demo_env 2 "demo_rolls [?r]"] demo_ok(1) o unfolding r by (auto simp: d u)
qed

end
