(* ===== verification/GroupRoster.thy ===== *)
theory GroupRoster
  imports LootRoll
begin

text \<open>
  The roster half of class \<open>Group\<close> (src/src/game/Group.h and Group.cpp) with the players' side of a
  membership (src/src/game/Player.cpp): who is in a party or raid, in which subgroup, with which flags,
  who leads it, and what happens when players join, leave, log in and out.

  One group is modelled with everything that refers to it; another group of a player is known by its
  guid only. \<open>in_world\<close> tells which players \<open>ObjectMgr::GetPlayer\<close> finds, \<open>known_player\<close> whose objects
  exist (a player who is between two maps is known but not in the world). \<open>registered\<close> says that
  \<open>ObjectMgr\<close> knows the group under its guid. Database statements, packets, and calls into the dungeon
  finder, the instances and the auras are appended to \<open>out\<close>.
\<close>

section \<open>State\<close>

abbreviation (input) MAX_GROUP_SIZE :: nat where "MAX_GROUP_SIZE \<equiv> 5"
abbreviation (input) MAX_RAID_SIZE :: nat where "MAX_RAID_SIZE \<equiv> 40"
abbreviation (input) MAX_RAID_SUBGROUPS :: nat where "MAX_RAID_SUBGROUPS \<equiv> 8"
abbreviation (input) TARGET_ICON_COUNT :: nat where "TARGET_ICON_COUNT \<equiv> 8"
abbreviation (input) RAID_MARKER_COUNT :: nat where "RAID_MARKER_COUNT \<equiv> 5"

abbreviation (input) GROUPTYPE_NORMAL :: uint8 where "GROUPTYPE_NORMAL \<equiv> 0x00"
abbreviation (input) GROUPTYPE_BG :: uint8 where "GROUPTYPE_BG \<equiv> 0x01"
abbreviation (input) GROUPTYPE_RAID :: uint8 where "GROUPTYPE_RAID \<equiv> 0x02"
abbreviation (input) GROUPTYPE_BGRAID :: uint8 where "GROUPTYPE_BGRAID \<equiv> 0x03"
abbreviation (input) GROUPTYPE_UNK1 :: uint8 where "GROUPTYPE_UNK1 \<equiv> 0x04"
abbreviation (input) GROUPTYPE_LFD :: uint8 where "GROUPTYPE_LFD \<equiv> 0x08"

abbreviation (input) GROUP_MEMBER :: uint8 where "GROUP_MEMBER \<equiv> 0x00"
abbreviation (input) GROUP_ASSISTANT :: uint8 where "GROUP_ASSISTANT \<equiv> 0x01"
abbreviation (input) GROUP_MAIN_ASSISTANT :: uint8 where "GROUP_MAIN_ASSISTANT \<equiv> 0x02"
abbreviation (input) GROUP_MAIN_TANK :: uint8 where "GROUP_MAIN_TANK \<equiv> 0x04"

record MemberSlot =
  ms_guid :: ObjectGuid
  ms_name :: cstring
  ms_group :: uint8
  ms_flags :: uint8
  ms_roles :: uint8
  lastMap :: uint32

record Party = RollState +
  m_Guid :: ObjectGuid
  m_memberSlots :: "MemberSlot list"
  m_invitees :: "ObjectGuid list"
  m_leaderGuid :: ObjectGuid
  m_leaderName :: cstring
  m_groupType :: uint8
  m_Difficulty :: uint32
  m_bgGroup :: bool
  m_bfGroup :: bool
  m_targetIcons :: "ObjectGuid list"
  m_raidMarkers :: "ObjectGuid list"
  m_lootMethod :: uint32
  m_looterGuid :: ObjectGuid
  m_subGroupsCounts :: "uint8 list option"
  m_waitLeaderTimer :: uint32
  registered :: bool
  in_world :: "ObjectGuid \<Rightarrow> bool"
  known_player :: "ObjectGuid \<Rightarrow> bool"
  m_groupGuid :: "ObjectGuid \<Rightarrow> ObjectGuid"
  m_subGroup :: "ObjectGuid \<Rightarrow> uint8"
  m_originalGroupGuid :: "ObjectGuid \<Rightarrow> ObjectGuid"
  m_originalSubGroup :: "ObjectGuid \<Rightarrow> uint8"
  m_groupInviteGuid :: "ObjectGuid \<Rightarrow> ObjectGuid"
  leader_flag :: "ObjectGuid \<Rightarrow> bool"

record GroupEnv =
  lootEnv :: LootEnv
  otherGroup :: "ObjectGuid \<Rightarrow> bool"
  otherBG :: "ObjectGuid \<Rightarrow> bool"
  isBot :: "ObjectGuid \<Rightarrow> bool"
  playerName :: "ObjectGuid \<Rightarrow> cstring"
  mapOf :: "ObjectGuid \<Rightarrow> uint32"
  heroic_level :: "ObjectGuid \<Rightarrow> bool"
  dungeonDifficultyOf :: "ObjectGuid \<Rightarrow> uint32"
  raidDifficultyOf :: "ObjectGuid \<Rightarrow> uint32"
  loggingOut :: "ObjectGuid \<Rightarrow> bool"
  playerLoading :: "ObjectGuid \<Rightarrow> bool"
  inBattleGround :: "ObjectGuid \<Rightarrow> bool"
  lfgRoles :: "ObjectGuid \<Rightarrow> uint8"
  lfgDungeonId :: uint32
  lfgFinished :: bool
  raid_flags_unique :: bool
  reconnect_period :: uint32
  newGroupGuid :: ObjectGuid
  nearCorpse :: "ObjectGuid \<Rightarrow> bool"
  opensCorpse :: "ObjectGuid \<Rightarrow> bool"

definition Group_new :: "uint8 \<Rightarrow> Party \<Rightarrow> Party" where
  "Group_new ty s =
     s\<lparr>m_Guid := 0, m_memberSlots := [], member_refs := [], m_invitees := [], m_leaderGuid := 0, m_leaderName := [],
       m_groupType := ty, m_Difficulty := 0, m_bgGroup := False, m_targetIcons := replicate TARGET_ICON_COUNT 0,
       m_raidMarkers := replicate RAID_MARKER_COUNT 0, m_lootMethod := FREE_FOR_ALL, m_lootThreshold := 2,
       m_looterGuid := 0, m_rollIds := [], m_subGroupsCounts := None, m_waitLeaderTimer := 0, registered := False\<rparr>"

definition isRaidGroup :: "Party \<Rightarrow> bool" where
  "isRaidGroup s \<longleftrightarrow> m_groupType s AND GROUPTYPE_RAID \<noteq> 0"

definition isBGGroup :: "Party \<Rightarrow> bool" where
  "isBGGroup s \<longleftrightarrow> m_bgGroup s \<or> m_bfGroup s"

definition isLFDGroup :: "Party \<Rightarrow> bool" where
  "isLFDGroup s \<longleftrightarrow> m_groupType s AND GROUPTYPE_LFD \<noteq> 0"

definition isLFGGroup :: "Party \<Rightarrow> bool" where
  "isLFGGroup s \<longleftrightarrow> isLFDGroup s \<and> \<not> isRaidGroup s"

definition GetMembersCount :: "Party \<Rightarrow> nat" where
  "GetMembersCount s = length (m_memberSlots s)"

definition IsFull :: "Party \<Rightarrow> bool" where
  "IsFull s \<longleftrightarrow>
     (if m_groupType s = GROUPTYPE_NORMAL \<or> isLFGGroup s then MAX_GROUP_SIZE \<le> GetMembersCount s
      else MAX_RAID_SIZE \<le> GetMembersCount s)"

definition IsNeedSave :: "Party \<Rightarrow> bool" where
  "IsNeedSave s \<longleftrightarrow> (if m_groupType s AND GROUPTYPE_BG \<noteq> 0 then False else \<not> m_bgGroup s)"

definition getMemberSlot :: "Party \<Rightarrow> ObjectGuid \<Rightarrow> MemberSlot option" where
  "getMemberSlot s g = find (\<lambda>m. ms_guid m = g) (m_memberSlots s)"

definition IsMember :: "Party \<Rightarrow> ObjectGuid \<Rightarrow> bool" where
  "IsMember s g \<longleftrightarrow> getMemberSlot s g \<noteq> None"

definition IsLeader :: "Party \<Rightarrow> ObjectGuid \<Rightarrow> bool" where
  "IsLeader s g \<longleftrightarrow> m_leaderGuid s = g"

definition GetMemberGuid :: "Party \<Rightarrow> cstring \<Rightarrow> ObjectGuid" where
  "GetMemberGuid s name = (case find (\<lambda>m. ms_name m = name) (m_memberSlots s) of Some m \<Rightarrow> ms_guid m | None \<Rightarrow> 0)"

definition IsGroupRole :: "Party \<Rightarrow> ObjectGuid \<Rightarrow> uint8 \<Rightarrow> bool" where
  "IsGroupRole s g role =
     (case getMemberSlot s g of
        None \<Rightarrow> False
      | Some m \<Rightarrow> if role = GROUP_MEMBER then True else ms_flags m AND role \<noteq> 0)"

definition IsAssistant :: "Party \<Rightarrow> ObjectGuid \<Rightarrow> bool" where
  "IsAssistant s g = IsGroupRole s g GROUP_ASSISTANT"

definition GetMemberGroup :: "Party \<Rightarrow> ObjectGuid \<Rightarrow> uint8" where
  "GetMemberGroup s g = (case getMemberSlot s g of None \<Rightarrow> 9 | Some m \<Rightarrow> ms_group m)"

definition HasFreeSlotSubGroup :: "Party \<Rightarrow> uint8 \<Rightarrow> bool" where
  "HasFreeSlotSubGroup s k = (case m_subGroupsCounts s of None \<Rightarrow> False | Some c \<Rightarrow> unat (c ! unat k) < MAX_GROUP_SIZE)"

section \<open>The players' side\<close>

text \<open>\<open>ObjectMgr::GetGroup\<close>, and whether a player's group is this one.\<close>

definition group_exists :: "GroupEnv \<Rightarrow> Party \<Rightarrow> ObjectGuid \<Rightarrow> bool" where
  "group_exists env s g \<longleftrightarrow> registered s \<and> g = m_Guid s \<or> otherGroup env g"

definition in_this_group :: "Party \<Rightarrow> ObjectGuid \<Rightarrow> bool" where
  "in_this_group s p \<longleftrightarrow> registered s \<and> m_groupGuid s p = m_Guid s"

text \<open>
  \<open>Player::SetGroup\<close> and \<open>SetOriginalGroup\<close>: \<open>unlink\<close> takes the reference out of the list it is in, \<open>link\<close>
  puts it in front of the list of the new group.
\<close>

definition SetGroup :: "GroupEnv \<Rightarrow> ObjectGuid \<Rightarrow> ObjectGuid \<Rightarrow> uint8 \<Rightarrow> Party \<Rightarrow> Party result" where
  "SetGroup env p g subgroup s =
     (let s = s\<lparr>m_groupGuid := (m_groupGuid s)(p := 0), member_refs := removeAll (p, False) (member_refs s)\<rparr>
      in if \<not> group_exists env s g then Inr s
         else if 128 \<le> subgroup then Inl AssertFailed
         else Inr (s\<lparr>m_groupGuid := (m_groupGuid s)(p := g),
                     member_refs := (if g = m_Guid s then (p, False) # member_refs s else member_refs s),
                     m_subGroup := (m_subGroup s)(p := subgroup)\<rparr>))"

definition SetOriginalGroup :: "GroupEnv \<Rightarrow> ObjectGuid \<Rightarrow> ObjectGuid \<Rightarrow> uint8 \<Rightarrow> Party \<Rightarrow> Party result" where
  "SetOriginalGroup env p g subgroup s =
     (let s = s\<lparr>m_originalGroupGuid := (m_originalGroupGuid s)(p := 0), member_refs := removeAll (p, True) (member_refs s)\<rparr>
      in if \<not> group_exists env s g then Inr s
         else if 128 \<le> subgroup then Inl AssertFailed
         else Inr (s\<lparr>m_originalGroupGuid := (m_originalGroupGuid s)(p := g),
                     member_refs := (if g = m_Guid s then (p, True) # member_refs s else member_refs s),
                     m_originalSubGroup := (m_originalSubGroup s)(p := subgroup)\<rparr>))"

definition SetBattleGroundRaid :: "GroupEnv \<Rightarrow> ObjectGuid \<Rightarrow> ObjectGuid \<Rightarrow> uint8 \<Rightarrow> Party \<Rightarrow> Party result" where
  "SetBattleGroundRaid env p g subgroup s =
     (if g = 0 \<or> GetHigh g \<noteq> HIGHGUID_GROUP then Inr s
      else bindR (SetOriginalGroup env p (m_groupGuid s p) (m_subGroup s p) s) (SetGroup env p g subgroup))"

definition RemoveFromBattleGroundRaid :: "GroupEnv \<Rightarrow> ObjectGuid \<Rightarrow> Party \<Rightarrow> Party result" where
  "RemoveFromBattleGroundRaid env p s =
     bindR (SetGroup env p (m_originalGroupGuid s p) (m_originalSubGroup s p) s) (SetOriginalGroup env p 0 255)"

definition SetGroupInvite :: "ObjectGuid \<Rightarrow> ObjectGuid \<Rightarrow> Party \<Rightarrow> Party" where
  "SetGroupInvite p g s = s\<lparr>m_groupInviteGuid := (m_groupInviteGuid s)(p := g)\<rparr>"

definition SetLeaderFlag :: "ObjectGuid \<Rightarrow> bool \<Rightarrow> Party \<Rightarrow> Party" where
  "SetLeaderFlag p b s = s\<lparr>leader_flag := (leader_flag s)(p := b)\<rparr>"

section \<open>Packets\<close>

definition BroadcastPacket ::
  "GroupEnv \<Rightarrow> GroupOpcode \<Rightarrow> uint8 list \<Rightarrow> bool \<Rightarrow> uint8 option \<Rightarrow> ObjectGuid \<Rightarrow> Party \<Rightarrow> Party" where
  "BroadcastPacket env op data ignorePlayersInBGRaid grp ignore s =
     say_all (map (\<lambda>(p, b). SendPacket p op data)
       (filter (\<lambda>(p, b). \<not> (ignore \<noteq> 0 \<and> p = ignore) \<and> \<not> (ignorePlayersInBGRaid \<and> \<not> in_this_group s p) \<and> in_world s p
          \<and> (case grp of None \<Rightarrow> True | Some k \<Rightarrow> (if b then m_originalSubGroup s p else m_subGroup s p) = k)) (member_refs s))) s"

definition member_status :: "GroupEnv \<Rightarrow> Party \<Rightarrow> ObjectGuid \<Rightarrow> uint8" where
  "member_status env s g =
     (if in_world s g \<and> \<not> loggingOut env g then 1 else 0) OR (if isBGGroup s then 2 else 0)"

definition list_entry :: "GroupEnv \<Rightarrow> Party \<Rightarrow> MemberSlot \<Rightarrow> uint8 list" where
  "list_entry env s m =
     ms_name m @ [0] @ le_bytes (ms_guid m) @ [member_status env s (ms_guid m), ms_group m, ms_flags m,
       if isLFGGroup s then ms_roles m else 0]"

definition GetDungeonDifficulty :: "Party \<Rightarrow> uint32" where
  "GetDungeonDifficulty s = m_Difficulty s AND 0x00FF"

definition GetRaidDifficulty :: "Party \<Rightarrow> uint32" where
  "GetRaidDifficulty s = drop_bit 8 (m_Difficulty s AND 0xFF00)"

definition group_list :: "GroupEnv \<Rightarrow> Party \<Rightarrow> MemberSlot \<Rightarrow> uint8 list" where
  "group_list env s m =
     [m_groupType s, ms_group m, ms_flags m, if isLFGGroup s then ms_roles m else 0]
     @ (if isLFGGroup s then [if lfgFinished env then 2 else 0] @ le_bytes (lfgDungeonId env) @ [0] else [])
     @ le_bytes (m_Guid s) @ le_bytes (0 :: uint32) @ le_bytes (of_nat (GetMembersCount s) - 1 :: uint32)
     @ concat (map (list_entry env s) (filter (\<lambda>n. ms_guid n \<noteq> ms_guid m) (m_memberSlots s)))
     @ le_bytes (m_leaderGuid s)
     @ (if GetMembersCount s \<noteq> 1
        then [ucast (m_lootMethod s)] @ le_bytes (m_looterGuid s)
             @ [ucast (m_lootThreshold s), ucast (GetDungeonDifficulty s), ucast (GetRaidDifficulty s)]
        else [])"

definition SendUpdate :: "GroupEnv \<Rightarrow> Party \<Rightarrow> Party" where
  "SendUpdate env s =
     say_all (concat (map (\<lambda>m. SendPacket (ms_guid m) SMSG_GROUP_LIST (group_list env s m)
           # (if playerLoading env (ms_guid m) then [UpdatePlayerOutOfRange (ms_guid m)] else []))
       (filter (\<lambda>m. in_world s (ms_guid m) \<and> m_groupGuid s (ms_guid m) = m_Guid s) (m_memberSlots s)))) s"

definition empty_group_list :: "uint8 list" where
  "empty_group_list = [0x10, 0, 0, 0] @ le_bytes (0 :: uint64) @ le_bytes (0 :: uint32) @ le_bytes (0 :: uint32) @ le_bytes (0 :: uint64)"

section \<open>Subgroups\<close>

definition count_group :: "MemberSlot list \<Rightarrow> nat \<Rightarrow> nat" where
  "count_group ms k = length (filter (\<lambda>m. unat (ms_group m) = k) ms)"

definition initRaidSubGroupsCounter :: "Party \<Rightarrow> Party result" where
  "initRaidSubGroupsCounter s =
     (if \<forall>m\<in>set (m_memberSlots s). unat (ms_group m) < MAX_RAID_SUBGROUPS
      then Inr (s\<lparr>m_subGroupsCounts := Some (map (\<lambda>k. of_nat (count_group (m_memberSlots s) k)) [0..<MAX_RAID_SUBGROUPS])\<rparr>)
      else Inl Undefined)"

definition count_step :: "(uint8 \<Rightarrow> uint8) \<Rightarrow> uint8 \<Rightarrow> Party \<Rightarrow> Party result" where
  "count_step f k s =
     (case m_subGroupsCounts s of
        None \<Rightarrow> Inr s
      | Some c \<Rightarrow> if unat k < length c then Inr (s\<lparr>m_subGroupsCounts := Some (c[unat k := f (c ! unat k)])\<rparr>) else Inl Undefined)"

definition SubGroupCounterIncrease :: "uint8 \<Rightarrow> Party \<Rightarrow> Party result" where
  "SubGroupCounterIncrease = count_step (\<lambda>n. n + 1)"

definition SubGroupCounterDecrease :: "uint8 \<Rightarrow> Party \<Rightarrow> Party result" where
  "SubGroupCounterDecrease = count_step (\<lambda>n. n - 1)"

definition modify_member :: "ObjectGuid \<Rightarrow> (MemberSlot \<Rightarrow> MemberSlot) \<Rightarrow> MemberSlot list \<Rightarrow> MemberSlot list" where
  "modify_member g f ms =
     takeWhile (\<lambda>m. ms_guid m \<noteq> g) ms
     @ (case dropWhile (\<lambda>m. ms_guid m \<noteq> g) ms of [] \<Rightarrow> [] | m # rest \<Rightarrow> f m # rest)"

definition erase_member :: "ObjectGuid \<Rightarrow> MemberSlot list \<Rightarrow> MemberSlot list" where
  "erase_member g ms = takeWhile (\<lambda>m. ms_guid m \<noteq> g) ms @ tl (dropWhile (\<lambda>m. ms_guid m \<noteq> g) ms)"

section \<open>Joining\<close>

definition first_free_subgroup :: "Party \<Rightarrow> uint8 option" where
  "first_free_subgroup s =
     (case m_subGroupsCounts s of
        None \<Rightarrow> Some 0
      | Some c \<Rightarrow> map_option of_nat (find (\<lambda>k. unat (c ! k) < MAX_GROUP_SIZE) [0..<MAX_RAID_SUBGROUPS]))"

definition link_new_member :: "GroupEnv \<Rightarrow> ObjectGuid \<Rightarrow> uint8 \<Rightarrow> Party \<Rightarrow> Party result" where
  "link_new_member env p grp s =
     (let s = SetGroupInvite p 0 s; hasGroup = group_exists env s (m_groupGuid s p)
      in bindR (if hasGroup \<and> isBGGroup s then SetBattleGroundRaid env p (m_Guid s) grp s
                else if hasGroup then SetOriginalGroup env p (m_Guid s) grp s
                else SetGroup env p (m_Guid s) grp s) (\<lambda>s.
           Inr (if in_world s p then say (CheckInstanceBind p) s else s)))"

definition addMember_at :: "GroupEnv \<Rightarrow> ObjectGuid \<Rightarrow> cstring \<Rightarrow> uint8 \<Rightarrow> uint8 \<Rightarrow> uint8 \<Rightarrow> Party \<Rightarrow> (bool \<times> Party) result" where
  "addMember_at env g name grp flags roles s =
     (if IsFull s \<or> g = 0 \<or> \<not> IsPlayer g then Inr (False, s)
      else let member = \<lparr>ms_guid = g, ms_name = name, ms_group = grp, ms_flags = flags, ms_roles = roles,
                         lastMap = (if known_player s g then mapOf env g else 0)\<rparr>
           in bindR (SubGroupCounterIncrease grp (s\<lparr>m_memberSlots := m_memberSlots s @ [member]\<rparr>)) (\<lambda>s.
                bindR (if known_player s g then link_new_member env g grp s else Inr s) (\<lambda>s.
                  let s = (if \<not> isRaidGroup s then s\<lparr>m_targetIcons := replicate TARGET_ICON_COUNT 0\<rparr> else s);
                      s = (if IsNeedSave s then say (DbInsertMember g flags grp roles) s else s)
                  in Inr (True, s))))"

definition addMember :: "GroupEnv \<Rightarrow> ObjectGuid \<Rightarrow> cstring \<Rightarrow> Party \<Rightarrow> (bool \<times> Party) result" where
  "addMember env g name s =
     (let roles = (if isLFGGroup s \<and> in_world s g then lfgRoles env g else 0)
      in case first_free_subgroup s of
           None \<Rightarrow> Inr (False, s)
         | Some grp \<Rightarrow> addMember_at env g name grp GROUP_MEMBER roles s)"

definition greet_member :: "GroupEnv \<Rightarrow> ObjectGuid \<Rightarrow> Party \<Rightarrow> Party" where
  "greet_member env p s =
     (let s = (if \<not> IsLeader s p \<and> \<not> isBGGroup s
               then let s = say_all [ResetInstances p, ResetInstances p] s
                    in if heroic_level env p
                       then let s = (if dungeonDifficultyOf env p \<noteq> GetDungeonDifficulty s
                                     then say (SetPlayerDifficulty p (GetDungeonDifficulty s)) s else s)
                            in if raidDifficultyOf env p \<noteq> GetRaidDifficulty s
                               then say (SetPlayerDifficulty p (GetRaidDifficulty s)) s else s
                       else s
               else s);
          s = say (UpdatePlayerOutOfRange p) s;
          s = (if isRaidGroup s then say (UpdateForQuestWorldObjects p) s else s)
      in say (UpdateForRaidMarkers p) (say_all (map (\<lambda>(q, b). BroadcastFields p q) (member_refs s)) s))"

definition AddMember :: "GroupEnv \<Rightarrow> ObjectGuid \<Rightarrow> cstring \<Rightarrow> Party \<Rightarrow> (bool \<times> Party) result" where
  "AddMember env g name s =
     (if IsMember s g then Inr (False, s)
      else bindR (addMember env g name s) (\<lambda>(ok, s).
             if \<not> ok then Inr (False, s)
             else let s = SendUpdate env s;
                      s = (if isLFDGroup s then say (LfgAddMember g) s else s)
                  in Inr (True, if in_world s g then greet_member env g s else s)))"

section \<open>The leader\<close>

definition setLeader :: "GroupEnv \<Rightarrow> ObjectGuid \<Rightarrow> Party \<Rightarrow> Party" where
  "setLeader env g s =
     (case getMemberSlot s g of
        None \<Rightarrow> s
      | Some slot \<Rightarrow>
          let s = (if \<not> isBGGroup s \<and> in_world s g then say ClearPermanentBinds s else s);
              s = (if IsNeedSave s
                   then let s = (if in_world s g \<and> \<not> isBGGroup s then say (ConvertInstances g) s else s)
                        in say (DbUpdateLeader g (m_leaderGuid s)) s
                   else s)
          in s\<lparr>m_leaderGuid := ms_guid slot, m_leaderName := ms_name slot\<rparr>)"

definition ChangeLeader :: "GroupEnv \<Rightarrow> ObjectGuid \<Rightarrow> Party \<Rightarrow> Party" where
  "ChangeLeader env g s =
     (case getMemberSlot s g of
        None \<Rightarrow> s
      | Some slot \<Rightarrow>
          let s = setLeader env g (say LfgLeave s)
          in SendUpdate env (BroadcastPacket env SMSG_GROUP_SET_LEADER (ms_name slot @ [0]) True None 0 s))"

definition CheckLeader :: "GroupEnv \<Rightarrow> ObjectGuid \<Rightarrow> bool \<Rightarrow> Party \<Rightarrow> Party" where
  "CheckLeader env g logout s =
     (if IsLeader s g then s\<lparr>m_waitLeaderTimer := (if logout then reconnect_period env * 1000 else 0)\<rparr>
      else if logout \<or> m_waitLeaderTimer s \<noteq> 0 then s
      else if m_leaderGuid s \<in> set (online_members s) \<and> in_world s (m_leaderGuid s) then s
      else s\<lparr>m_waitLeaderTimer := reconnect_period env * 1000\<rparr>)"

definition GetMemberWithRole :: "GroupEnv \<Rightarrow> Party \<Rightarrow> uint8 \<Rightarrow> ObjectGuid option" where
  "GetMemberWithRole env s role =
     find (\<lambda>p. in_world s p \<and> p \<noteq> m_leaderGuid s \<and> IsGroupRole s p role \<and> \<not> isBot env p) (online_members s)"

definition suitable_leader :: "GroupEnv \<Rightarrow> Party \<Rightarrow> ObjectGuid option" where
  "suitable_leader env s =
     (let raid = (\<lambda>role other. case GetMemberWithRole env s role of Some p \<Rightarrow> Some p | None \<Rightarrow> other)
      in if isRaidGroup s
         then raid GROUP_ASSISTANT (raid GROUP_MAIN_TANK (raid GROUP_MAIN_ASSISTANT (GetMemberWithRole env s GROUP_MEMBER)))
         else GetMemberWithRole env s GROUP_MEMBER)"

definition ChangeLeaderToFirstSuitableMember :: "GroupEnv \<Rightarrow> bool \<Rightarrow> Party \<Rightarrow> bool \<times> Party" where
  "ChangeLeaderToFirstSuitableMember env onlySet s =
     (case suitable_leader env s of
        None \<Rightarrow> (False, s)
      | Some p \<Rightarrow> (True, SetLeaderFlag p True (if onlySet then setLeader env p s else ChangeLeader env p s)))"

section \<open>Leaving\<close>

text \<open>What a player is told about the group he is in now.\<close>

definition notify_group :: "GroupEnv \<Rightarrow> ObjectGuid \<Rightarrow> Party \<Rightarrow> Party" where
  "notify_group env p s =
     (if in_this_group s p then SendUpdate env s
      else if group_exists env s (m_groupGuid s p) then say (OtherGroupUpdate (m_groupGuid s p)) s
      else say (SendPacket p SMSG_GROUP_LIST empty_group_list) s)"

definition unlink_member :: "GroupEnv \<Rightarrow> ObjectGuid \<Rightarrow> Party \<Rightarrow> Party result" where
  "unlink_member env p s =
     (if isBGGroup s then RemoveFromBattleGroundRaid env p s
      else if m_originalGroupGuid s p = m_Guid s then SetOriginalGroup env p 0 255 s
      else SetGroup env p 0 255 s)"

definition erase_slot :: "ObjectGuid \<Rightarrow> Party \<Rightarrow> Party result" where
  "erase_slot g s =
     (case getMemberSlot s g of
        None \<Rightarrow> Inr s
      | Some slot \<Rightarrow> bindR (SubGroupCounterDecrease (ms_group slot) s) (\<lambda>s.
                       Inr (s\<lparr>m_memberSlots := erase_member g (m_memberSlots s)\<rparr>)))"

definition removeMember :: "GroupEnv \<Rightarrow> ObjectGuid \<Rightarrow> Party \<Rightarrow> (bool \<times> Party) result" where
  "removeMember env g s =
     bindR (if in_world s g then unlink_member env g s else Inr s) (\<lambda>s.
       bindR (removeRolls (lootEnv env) g s) (\<lambda>s.
         bindR (erase_slot g s) (\<lambda>s.
           let s = (if IsNeedSave s then say (DbDeleteMember g) s else s)
           in if m_leaderGuid s = g
              then Inr (True, if 0 < GetMembersCount s then snd (ChangeLeaderToFirstSuitableMember env True s) else s)
              else Inr (False, s))))"

definition clear_markers :: "Party \<Rightarrow> Party" where
  "clear_markers s = s\<lparr>m_raidMarkers := replicate RAID_MARKER_COUNT 0\<rparr>"

definition disband_member :: "GroupEnv \<Rightarrow> bool \<Rightarrow> ObjectGuid \<Rightarrow> Party \<Rightarrow> Party result" where
  "disband_member env hideDestroy p s =
     (if \<not> in_world s p then Inr s
      else bindR (unlink_member env p (clear_markers s)) (\<lambda>s.
        let s = (if isRaidGroup s then say (UpdateForQuestWorldObjects p) s else s);
            s = (if isLFDGroup s then say (LfgRemoveMember p) s else s);
            s = (if \<not> hideDestroy then say (SendPacket p SMSG_GROUP_DESTROYED []) s else s)
        in Inr (say (HomebindIfInstance p) (notify_group env p s))))"

definition RemoveAllInvites :: "Party \<Rightarrow> Party" where
  "RemoveAllInvites s =
     s\<lparr>m_groupInviteGuid := (\<lambda>p. if p \<in> set (m_invitees s) then 0 else m_groupInviteGuid s p), m_invitees := []\<rparr>"

definition Disband :: "GroupEnv \<Rightarrow> bool \<Rightarrow> Party \<Rightarrow> Party result" where
  "Disband env hideDestroy s =
     bindR (foldR (disband_member env hideDestroy) (map ms_guid (m_memberSlots s)) s) (\<lambda>s.
       let s = RemoveAllInvites (s\<lparr>m_rollIds := [], m_memberSlots := []\<rparr>);
           s = (if IsNeedSave s then say_all [DbDeleteGroup, ResetInstances 0, ResetInstances 0] s else s)
       in Inr (s\<lparr>registered := False, m_leaderGuid := 0, m_leaderName := []\<rparr>))"

definition before_removal :: "ObjectGuid \<Rightarrow> Party \<Rightarrow> Party" where
  "before_removal g s =
     (let s = say_all [BroadcastGroupUpdate, RemoveGroupBuffs g] s in if in_world s g then say (RemoveBots g) s else s)"

definition tell_removed :: "GroupEnv \<Rightarrow> ObjectGuid \<Rightarrow> uint8 \<Rightarrow> Party \<Rightarrow> Party" where
  "tell_removed env g method s =
     (if \<not> in_world s g then s
      else let s = (if isRaidGroup s then say (UpdateForQuestWorldObjects g) s else s);
               s = say (UpdateForRaidMarkers g) s;
               s = (if method = 1 then say (SendPacket g SMSG_GROUP_UNINVITE []) s else s);
               s = say (HomebindIfInstance g) (notify_group env g s)
           in if isLFDGroup s then say (LfgRemoveMember g) s else s)"

definition announce_leader :: "GroupEnv \<Rightarrow> ObjectGuid \<Rightarrow> MemberSlot \<Rightarrow> Party \<Rightarrow> Party" where
  "announce_leader env old front s =
     BroadcastPacket env SMSG_GROUP_SET_LEADER (ms_name front @ [0]) True None 0
       (if in_world s old then SetLeaderFlag old False s else s)"

definition RemoveMember :: "GroupEnv \<Rightarrow> ObjectGuid \<Rightarrow> uint8 \<Rightarrow> bool \<Rightarrow> Party \<Rightarrow> (nat \<times> Party) result" where
  "RemoveMember env g method logout s0 =
     (let s = before_removal g s0
      in if logout \<and> IsLeader s g then Inr (length (m_memberSlots s), s)
         else if (if isBGGroup s \<or> isLFDGroup s then 1 else 2) < GetMembersCount s
         then bindR (removeMember env g s) (\<lambda>(leaderChanged, s).
                let s = tell_removed env g method s
                in bindR (if leaderChanged
                          then (case m_memberSlots s of [] \<Rightarrow> Inl Undefined | front # _ \<Rightarrow> Inr (announce_leader env g front s))
                          else Inr s) (\<lambda>s.
                     let s = SendUpdate env s in Inr (length (m_memberSlots s), s)))
         else bindR (Disband env True s) (\<lambda>s. Inr (length (m_memberSlots s), s)))"

text \<open>The destructor: the references of the players to the group become invalid.\<close>

definition delete_group :: "Party \<Rightarrow> Party" where
  "delete_group s = say DeleteGroup (s\<lparr>registered := False, member_refs := [], m_rollIds := []\<rparr>)"

definition RemoveFromGroup :: "GroupEnv \<Rightarrow> ObjectGuid \<Rightarrow> bool \<Rightarrow> Party \<Rightarrow> Party result" where
  "RemoveFromGroup env p logout s =
     (if in_this_group s p
      then bindR (RemoveMember env p 0 logout s) (\<lambda>(left, s). Inr (if left \<le> 1 then delete_group s else s))
      else if group_exists env s (m_groupGuid s p) then Inr (say (OtherGroupUpdate (m_groupGuid s p)) s)
      else SetGroup env p 0 255 s)"

section \<open>Invitations\<close>

definition RemoveInvite :: "ObjectGuid \<Rightarrow> Party \<Rightarrow> Party" where
  "RemoveInvite p s = SetGroupInvite p 0 (s\<lparr>m_invitees := removeAll p (m_invitees s)\<rparr>)"

text \<open>The group that counts for invitations: not a battleground's, but then the original one.\<close>

definition own_group :: "GroupEnv \<Rightarrow> Party \<Rightarrow> ObjectGuid \<Rightarrow> ObjectGuid option" where
  "own_group env s p =
     (if \<not> group_exists env s (m_groupGuid s p) then None
      else if (if in_this_group s p then isBGGroup s else otherBG env (m_groupGuid s p))
      then (if group_exists env s (m_originalGroupGuid s p) then Some (m_originalGroupGuid s p) else None)
      else Some (m_groupGuid s p))"

definition AddInvite :: "GroupEnv \<Rightarrow> ObjectGuid \<Rightarrow> Party \<Rightarrow> bool \<times> Party" where
  "AddInvite env p s =
     (if m_groupInviteGuid s p \<noteq> 0 \<or> own_group env s p \<noteq> None then (False, s)
      else let s = RemoveInvite p s
           in (True, SetGroupInvite p (m_Guid s) (s\<lparr>m_invitees := p # m_invitees s\<rparr>)))"

definition AddLeaderInvite :: "GroupEnv \<Rightarrow> ObjectGuid \<Rightarrow> Party \<Rightarrow> bool \<times> Party" where
  "AddLeaderInvite env p s =
     (let (ok, s) = AddInvite env p s
      in if \<not> ok then (False, s)
         else let s = (if m_Guid s = 0 then s\<lparr>m_Guid := newGroupGuid env\<rparr> else s);
                  s = s\<lparr>registered := True, m_leaderGuid := p, m_leaderName := playerName env p\<rparr>
              in (True, if in_world s p then SetLeaderFlag p True s else s))"

definition UninviteFromGroup :: "GroupEnv \<Rightarrow> ObjectGuid \<Rightarrow> Party \<Rightarrow> Party result" where
  "UninviteFromGroup env p s =
     (if \<not> (registered s \<and> m_groupInviteGuid s p = m_Guid s) then Inr (SetGroupInvite p 0 s)
      else let s = RemoveInvite p s
           in if GetMembersCount s \<le> 1
              then bindR (Disband env True (RemoveAllInvites s)) (\<lambda>s. Inr (delete_group s))
              else Inr s)"

section \<open>Flags, subgroups, types\<close>

definition SetGroupUniqueFlag :: "GroupEnv \<Rightarrow> ObjectGuid \<Rightarrow> uint8 \<Rightarrow> bool \<Rightarrow> Party \<Rightarrow> Party" where
  "SetGroupUniqueFlag env g assignment applies s =
     (if 3 \<le> assignment \<or> g = 0 then s
      else let mask = (if assignment = 1 then GROUP_MAIN_TANK else if assignment = 0 then GROUP_MAIN_ASSISTANT else GROUP_ASSISTANT);
               excludeMask = (if assignment = 1 then GROUP_MAIN_ASSISTANT else if assignment = 0 then GROUP_MAIN_TANK else GROUP_MEMBER);
               newFlags = (\<lambda>m. if \<not> applies then (if ms_guid m = g then ms_flags m AND NOT mask else ms_flags m)
                               else if ms_guid m \<noteq> g
                               then (if ms_flags m AND mask \<noteq> 0 \<and> raid_flags_unique env then ms_flags m AND NOT mask else ms_flags m)
                               else (ms_flags m OR mask) AND NOT excludeMask);
               changed = filter (\<lambda>m. newFlags m \<noteq> ms_flags m) (m_memberSlots s);
               s' = s\<lparr>m_memberSlots := map (\<lambda>m. m\<lparr>ms_flags := newFlags m\<rparr>) (m_memberSlots s)\<rparr>;
               s' = (if IsNeedSave s then say_all (map (\<lambda>m. DbUpdateMember (ms_guid m) (newFlags m)) changed) s' else s')
           in SendUpdate env s')"

definition setMembersGroup :: "ObjectGuid \<Rightarrow> uint8 \<Rightarrow> Party \<Rightarrow> (bool \<times> Party) result" where
  "setMembersGroup g k s =
     (if \<not> IsMember s g then Inr (False, s)
      else bindR (SubGroupCounterIncrease k (s\<lparr>m_memberSlots := modify_member g (\<lambda>m. m\<lparr>ms_group := k\<rparr>) (m_memberSlots s)\<rparr>)) (\<lambda>s.
             Inr (True, if IsNeedSave s then say (DbUpdateSubgroup g k) s else s)))"

definition ChangeMembersGroup_player :: "GroupEnv \<Rightarrow> ObjectGuid \<Rightarrow> uint8 \<Rightarrow> Party \<Rightarrow> Party result" where
  "ChangeMembersGroup_player env p k s =
     (if \<not> isRaidGroup s \<or> m_subGroup s p = k then Inr s
      else bindR (setMembersGroup p k s) (\<lambda>(ok, s).
             if \<not> ok then Inr s
             else let (prev, s) = (if m_groupGuid s p = m_Guid s
                                   then (m_subGroup s p, s\<lparr>m_subGroup := (m_subGroup s)(p := k)\<rparr>)
                                   else (m_originalSubGroup s p, s\<lparr>m_originalSubGroup := (m_originalSubGroup s)(p := k)\<rparr>))
                  in bindR (SubGroupCounterDecrease prev s) (\<lambda>s. Inr (SendUpdate env s))))"

definition ChangeMembersGroup :: "GroupEnv \<Rightarrow> ObjectGuid \<Rightarrow> uint8 \<Rightarrow> Party \<Rightarrow> Party result" where
  "ChangeMembersGroup env g k s =
     (if \<not> isRaidGroup s then Inr s
      else if in_world s g then ChangeMembersGroup_player env g k s
      else let prev = GetMemberGroup s g
           in if prev = k then Inr s
              else bindR (setMembersGroup g k s) (\<lambda>(ok, s).
                     if ok then bindR (SubGroupCounterDecrease prev s) (\<lambda>s. Inr (SendUpdate env s)) else Inr s))"

definition ConvertToRaid :: "GroupEnv \<Rightarrow> Party \<Rightarrow> Party result" where
  "ConvertToRaid env s =
     bindR (initRaidSubGroupsCounter (s\<lparr>m_groupType := m_groupType s OR GROUPTYPE_RAID\<rparr>)) (\<lambda>s.
       let s = (if IsNeedSave s then say (DbUpdateGroupType (m_groupType s)) s else s)
       in Inr (say_all (map (\<lambda>m. UpdateForQuestWorldObjects (ms_guid m)) (filter (\<lambda>m. in_world s (ms_guid m)) (m_memberSlots s)))
                (SendUpdate env s)))"

definition ConvertToLFG :: "GroupEnv \<Rightarrow> nat \<Rightarrow> Party \<Rightarrow> (bool \<times> Party) result" where
  "ConvertToLFG env ty s =
     (if isBGGroup s \<or> ty = 0 \<or> 7 \<le> ty then Inr (False, s)
      else if ty \<noteq> 2 \<and> isRaidGroup s then Inr (False, s)
      else bindR (if ty = 2 \<and> \<not> isRaidGroup s then ConvertToRaid env s else Inr s) (\<lambda>s.
             let s = s\<lparr>m_groupType := m_groupType s OR (if ty = 6 then GROUPTYPE_LFD OR GROUPTYPE_UNK1 else GROUPTYPE_LFD),
                       m_lootMethod := NEED_BEFORE_GREED\<rparr>;
                 s = SendUpdate env s
             in Inr (True, if IsNeedSave s then say (DbUpdateGroupType (m_groupType s)) s else s)))"

definition SetGroupRoles :: "GroupEnv \<Rightarrow> ObjectGuid \<Rightarrow> uint8 \<Rightarrow> Party \<Rightarrow> Party" where
  "SetGroupRoles env g roles s =
     (if \<not> IsMember s g then s
      else let s = s\<lparr>m_memberSlots := modify_member g (\<lambda>m. m\<lparr>ms_roles := roles\<rparr>) (m_memberSlots s)\<rparr>;
               s = (if IsNeedSave s then say (DbUpdateRoles g roles) s else s)
           in SendUpdate env s)"

definition GetGroupRoles :: "Party \<Rightarrow> ObjectGuid \<Rightarrow> uint8" where
  "GetGroupRoles s g = (case getMemberSlot s g of None \<Rightarrow> 0 | Some m \<Rightarrow> ms_roles m)"

definition SetPlayerMap :: "ObjectGuid \<Rightarrow> uint32 \<Rightarrow> Party \<Rightarrow> bool \<times> Party" where
  "SetPlayerMap g mapid s =
     (if \<not> IsMember s g then (False, s)
      else (True, s\<lparr>m_memberSlots := modify_member g (\<lambda>m. m\<lparr>lastMap := mapid\<rparr>) (m_memberSlots s)\<rparr>))"

definition SameSubGroup :: "Party \<Rightarrow> ObjectGuid \<Rightarrow> ObjectGuid \<Rightarrow> bool" where
  "SameSubGroup s p q \<longleftrightarrow> in_this_group s p \<and> in_this_group s q \<and> m_subGroup s p = m_subGroup s q"

section \<open>Difficulty\<close>

definition set_players_difficulty :: "GroupEnv \<Rightarrow> uint32 \<Rightarrow> Party \<Rightarrow> Party" where
  "set_players_difficulty env d s =
     say_all (map (\<lambda>p. SetPlayerDifficulty p d) (filter (heroic_level env) (online_members s))) s"

definition SetDungeonDifficulty :: "GroupEnv \<Rightarrow> uint32 \<Rightarrow> Party \<Rightarrow> Party" where
  "SetDungeonDifficulty env d s =
     (let s = s\<lparr>m_Difficulty := (m_Difficulty s AND 0xFF00) OR d\<rparr>;
          s = (if IsNeedSave s then say (DbUpdateDifficulty (GetDungeonDifficulty s)) s else s)
      in set_players_difficulty env d s)"

definition SetRaidDifficulty :: "GroupEnv \<Rightarrow> uint32 \<Rightarrow> Party \<Rightarrow> Party" where
  "SetRaidDifficulty env d s =
     (let s = s\<lparr>m_Difficulty := (m_Difficulty s AND 0x00FF) OR push_bit 8 d\<rparr>;
          s = (if IsNeedSave s then say (DbUpdateDifficulty (GetRaidDifficulty s)) s else s)
      in set_players_difficulty env d s)"

section \<open>Icons and markers\<close>

definition set_icon :: "GroupEnv \<Rightarrow> nat \<Rightarrow> ObjectGuid \<Rightarrow> ObjectGuid \<Rightarrow> Party \<Rightarrow> Party" where
  "set_icon env k who target s =
     BroadcastPacket env MSG_RAID_TARGET_UPDATE ([0] @ le_bytes who @ [of_nat k] @ le_bytes target) True None 0
       (s\<lparr>m_targetIcons := (m_targetIcons s)[k := target]\<rparr>)"

definition clean_icon :: "GroupEnv \<Rightarrow> ObjectGuid \<Rightarrow> nat \<Rightarrow> Party \<Rightarrow> Party" where
  "clean_icon env target k s = (if m_targetIcons s ! k = target then set_icon env k 0 0 s else s)"

definition SetTargetIcon :: "GroupEnv \<Rightarrow> uint8 \<Rightarrow> ObjectGuid \<Rightarrow> ObjectGuid \<Rightarrow> Party \<Rightarrow> Party" where
  "SetTargetIcon env k who target s =
     (if TARGET_ICON_COUNT \<le> unat k then s
      else set_icon env (unat k) who target
             (if target = 0 then s else fold (clean_icon env target) [0..<TARGET_ICON_COUNT] s))"

definition SendTargetIconList :: "ObjectGuid \<Rightarrow> Party \<Rightarrow> Party" where
  "SendTargetIconList p s =
     say (SendPacket p MSG_RAID_TARGET_UPDATE
       (1 # concat (map (\<lambda>k. of_nat k # le_bytes (m_targetIcons s ! k)) (filter (\<lambda>k. m_targetIcons s ! k \<noteq> 0) [0..<TARGET_ICON_COUNT])))) s"

definition marker_mask :: "ObjectGuid list \<Rightarrow> uint32" where
  "marker_mask ms = foldl (\<lambda>m k. if ms ! k \<noteq> 0 then m OR push_bit k 1 else m) 0 [0..<RAID_MARKER_COUNT]"

definition SendRaidMarkerUpdate :: "GroupEnv \<Rightarrow> Party \<Rightarrow> Party" where
  "SendRaidMarkerUpdate env s =
     BroadcastPacket env SMSG_RAID_MARKERS_CHANGED (le_bytes (marker_mask (m_raidMarkers s))) False None 0 s"

definition SetRaidMarker :: "GroupEnv \<Rightarrow> uint8 \<Rightarrow> ObjectGuid \<Rightarrow> bool \<Rightarrow> Party \<Rightarrow> Party" where
  "SetRaidMarker env k target update s =
     (let s = (if RAID_MARKER_COUNT \<le> unat k then clear_markers s
               else s\<lparr>m_raidMarkers := (m_raidMarkers s)[unat k := target]\<rparr>)
      in if update then SendRaidMarkerUpdate env s else s)"

definition ClearRaidMarker :: "GroupEnv \<Rightarrow> ObjectGuid \<Rightarrow> Party \<Rightarrow> Party" where
  "ClearRaidMarker env g s =
     (case find (\<lambda>k. m_raidMarkers s ! k = g) [0..<RAID_MARKER_COUNT] of
        None \<Rightarrow> s
      | Some k \<Rightarrow> SendRaidMarkerUpdate env (s\<lparr>m_raidMarkers := (m_raidMarkers s)[k := 0]\<rparr>))"

definition HasRaidMarker :: "Party \<Rightarrow> ObjectGuid \<Rightarrow> bool" where
  "HasRaidMarker s g \<longleftrightarrow> (\<exists>k < RAID_MARKER_COUNT. m_raidMarkers s ! k = g)"

section \<open>Whose turn it is to loot\<close>

definition take_turn :: "GroupEnv \<Rightarrow> ObjectGuid \<Rightarrow> Party \<Rightarrow> Party" where
  "take_turn env p s =
     (let s = SendUpdate env (s\<lparr>m_looterGuid := p\<rparr>) in if opensCorpse env p then say (SendLoot p) s else s)"

definition may_loot :: "GroupEnv \<Rightarrow> Party \<Rightarrow> MemberSlot \<Rightarrow> bool" where
  "may_loot env s m \<longleftrightarrow> in_world s (ms_guid m) \<and> nearCorpse env (ms_guid m)"

definition UpdateLooterGuid :: "GroupEnv \<Rightarrow> bool \<Rightarrow> Party \<Rightarrow> Party" where
  "UpdateLooterGuid env ifneed s =
     (if m_lootMethod s = MASTER_LOOT \<or> m_lootMethod s = FREE_FOR_ALL then s
      else let found = getMemberSlot s (m_looterGuid s)
           in if ifneed \<and> (case found of Some m \<Rightarrow> may_loot env s m | None \<Rightarrow> False) then s
              else let k = (if found = None then length (m_memberSlots s)
                            else Suc (length (takeWhile (\<lambda>m. ms_guid m \<noteq> m_looterGuid s) (m_memberSlots s))))
                   in case find (may_loot env s) (drop k (m_memberSlots s)) of
                        Some m \<Rightarrow> take_turn env (ms_guid m) s
                      | None \<Rightarrow>
                          (case find (may_loot env s) (take k (m_memberSlots s)) of
                             Some m \<Rightarrow> take_turn env (ms_guid m) s
                           | None \<Rightarrow> SendUpdate env (s\<lparr>m_looterGuid := 0\<rparr>)))"

section \<open>Creation, loading, time\<close>

definition Create :: "GroupEnv \<Rightarrow> ObjectGuid \<Rightarrow> cstring \<Rightarrow> Party \<Rightarrow> (bool \<times> Party) result" where
  "Create env g name s =
     (let s = s\<lparr>m_leaderGuid := g, m_leaderName := name, m_groupType := (if isBGGroup s then GROUPTYPE_BGRAID else GROUPTYPE_NORMAL)\<rparr>
      in bindR (if isRaidGroup s then initRaidSubGroupsCounter s else Inr s) (\<lambda>s.
           let s = s\<lparr>m_lootMethod := GROUP_LOOT, m_lootThreshold := 2, m_looterGuid := g\<rparr>;
               s = SetRaidDifficulty env 0 (SetDungeonDifficulty env 0 s);
               s = (if m_Guid s = 0 then s\<lparr>m_Guid := newGroupGuid env\<rparr> else s);
               s = s\<lparr>registered := True\<rparr>;
               s = (if in_world s g then SetLeaderFlag g True s else s);
               s = (if \<not> isBGGroup s
                    then let s = (if in_world s g
                                  then SetRaidDifficulty env (raidDifficultyOf env g)
                                         (SetDungeonDifficulty env (dungeonDifficultyOf env g) s)
                                  else s)
                         in say (ConvertInstances g) s
                    else s);
               s = (if IsNeedSave s then say_all [DbDeleteGroup, DbInsertGroup] s else s)
           in AddMember env g name s))"

definition LoadMemberFromDB :: "GroupEnv \<Rightarrow> uint32 \<Rightarrow> uint8 \<Rightarrow> uint8 \<Rightarrow> uint8 \<Rightarrow> cstring option \<Rightarrow> Party \<Rightarrow> (bool \<times> Party) result" where
  "LoadMemberFromDB env guidLow subgroup flags roles name s =
     (case name of
        None \<Rightarrow> Inr (False, s)
      | Some n \<Rightarrow>
          bindR (SubGroupCounterIncrease subgroup
            (s\<lparr>m_memberSlots := m_memberSlots s
                @ [\<lparr>ms_guid = ObjectGuid_counter HIGHGUID_PLAYER guidLow, ms_name = n, ms_group = subgroup, ms_flags = flags,
                    ms_roles = roles, lastMap = 0\<rparr>]\<rparr>)) (\<lambda>s. Inr (True, s)))"

definition GroupUpdate :: "GroupEnv \<Rightarrow> uint32 \<Rightarrow> Party \<Rightarrow> Party result" where
  "GroupUpdate env diff s =
     (if m_waitLeaderTimer s = 0 then Inr s
      else if diff < m_waitLeaderTimer s then Inr (s\<lparr>m_waitLeaderTimer := m_waitLeaderTimer s - diff\<rparr>)
      else let (changed, s) = ChangeLeaderToFirstSuitableMember env False (s\<lparr>m_waitLeaderTimer := 0\<rparr>)
           in if changed then Inr s
              else bindR (RemoveMember env (m_leaderGuid s) 0 False s) (\<lambda>(left, s).
                     Inr (if left \<le> 1 then delete_group s else s)))"

text \<open>A player of the group's database rows enters the world (\<open>Player::_LoadGroup\<close>).\<close>

definition LoadGroup :: "GroupEnv \<Rightarrow> ObjectGuid \<Rightarrow> Party \<Rightarrow> Party result" where
  "LoadGroup env p s =
     (if \<not> registered s then Inr (SetLeaderFlag p False s)
      else bindR (SetGroup env p (m_Guid s) (GetMemberGroup s p) (if IsLeader s p then SetLeaderFlag p True s else s)) (\<lambda>s.
             let s = (if heroic_level env p
                      then say_all [SetPlayerDifficulty p (GetDungeonDifficulty s), SetPlayerDifficulty p (GetRaidDifficulty s)] s else s)
             in Inr (if IsLeader s p then s else SetLeaderFlag p False s)))"

end
