(* ===== verification/GroupHandlers.thy ===== *)
theory GroupHandlers
  imports GroupRoster
begin

text \<open>
  The handlers of src/src/game/GroupHandler.cpp that act on the roster: what a client may ask of its
  group. \<open>me\<close> is the player of the session. A handler acts on the player's group; it is followed here
  when that is the modelled one (\<open>in_this_group\<close>), and leaves the modelled one alone otherwise.
\<close>

abbreviation (input) ERR_PARTY_RESULT_OK :: uint32 where "ERR_PARTY_RESULT_OK \<equiv> 0"
abbreviation (input) ERR_BAD_PLAYER_NAME_S :: uint32 where "ERR_BAD_PLAYER_NAME_S \<equiv> 1"
abbreviation (input) ERR_TARGET_NOT_IN_GROUP_S :: uint32 where "ERR_TARGET_NOT_IN_GROUP_S \<equiv> 2"
abbreviation (input) ERR_TARGET_NOT_IN_INSTANCE_S :: uint32 where "ERR_TARGET_NOT_IN_INSTANCE_S \<equiv> 3"
abbreviation (input) ERR_GROUP_FULL :: uint32 where "ERR_GROUP_FULL \<equiv> 4"
abbreviation (input) ERR_ALREADY_IN_GROUP_S :: uint32 where "ERR_ALREADY_IN_GROUP_S \<equiv> 5"
abbreviation (input) ERR_NOT_IN_GROUP :: uint32 where "ERR_NOT_IN_GROUP \<equiv> 6"
abbreviation (input) ERR_NOT_LEADER :: uint32 where "ERR_NOT_LEADER \<equiv> 7"
abbreviation (input) ERR_PLAYER_WRONG_FACTION :: uint32 where "ERR_PLAYER_WRONG_FACTION \<equiv> 8"
abbreviation (input) ERR_IGNORING_YOU_S :: uint32 where "ERR_IGNORING_YOU_S \<equiv> 9"
abbreviation (input) ERR_INVITE_RESTRICTED :: uint32 where "ERR_INVITE_RESTRICTED \<equiv> 13"
abbreviation (input) ERR_RAID_DISALLOWED_BY_LEVEL :: uint32 where "ERR_RAID_DISALLOWED_BY_LEVEL \<equiv> 25"

section \<open>Invitation\<close>

text \<open>What the handler asks about the invited player before it looks at groups.\<close>

record InviteQuery =
  invited :: "ObjectGuid option"
  wrong_faction :: bool
  wrong_instance :: bool
  ignores_me :: bool
  low_level :: bool

text \<open>
  When the inviting player has no group yet, a new one is made: the state is then that of the new group.
\<close>

definition invite_new :: "GroupEnv \<Rightarrow> ObjectGuid \<Rightarrow> ObjectGuid \<Rightarrow> Party \<Rightarrow> bool \<times> Party" where
  "invite_new env me p s =
     (let (ok, s) = AddLeaderInvite env me (Group_new GROUPTYPE_NORMAL s)
      in if \<not> ok then (False, delete_group s)
         else let (ok, s) = AddInvite env p s in if \<not> ok then (False, delete_group s) else (True, s))"

definition HandleGroupInvite :: "GroupEnv \<Rightarrow> ObjectGuid \<Rightarrow> InviteQuery \<Rightarrow> Party \<Rightarrow> Party" where
  "HandleGroupInvite env me q s =
     (case invited q of
        None \<Rightarrow> say (PartyResult me ERR_BAD_PLAYER_NAME_S) s
      | Some p \<Rightarrow>
          if wrong_faction q then say (PartyResult me ERR_PLAYER_WRONG_FACTION) s
          else if wrong_instance q then say (PartyResult me ERR_TARGET_NOT_IN_INSTANCE_S) s
          else if ignores_me q then say (PartyResult me ERR_IGNORING_YOU_S) s
          else let grp = own_group env s me; mine = (grp = Some (m_Guid s) \<and> registered s)
               in if mine \<and> isRaidGroup s \<and> low_level q then say (PartyResult me ERR_RAID_DISALLOWED_BY_LEVEL) s
                  else if m_groupInviteGuid s p \<noteq> 0 then say (PartyResult me ERR_ALREADY_IN_GROUP_S) s
                  else if own_group env s p \<noteq> None
                  then say_all [PartyResult me ERR_ALREADY_IN_GROUP_S, GroupInvite p me] s
                  else if mine \<and> \<not> IsLeader s me \<and> \<not> IsAssistant s me then say (PartyResult me ERR_NOT_LEADER) s
                  else if mine \<and> IsFull s then say (PartyResult me ERR_GROUP_FULL) s
                  else let (ok, s) = (if grp = None then invite_new env me p s
                                      else if mine then AddInvite env p s else (False, s))
                       in if ok then say_all [GroupInvite p me, PartyResult me ERR_PARTY_RESULT_OK] s else s)"

definition HandleGroupInviteResponse :: "GroupEnv \<Rightarrow> ObjectGuid \<Rightarrow> bool \<Rightarrow> Party \<Rightarrow> Party result" where
  "HandleGroupInviteResponse env me accepted s =
     (if \<not> (registered s \<and> m_groupInviteGuid s me = m_Guid s) then Inr s
      else let add = (\<lambda>s. bindR (AddMember env me (playerName env me) s) (\<lambda>(ok, s).
                            Inr (if ok then say BroadcastGroupUpdate s else s)))
           in if \<not> accepted then add s
              else let s = RemoveInvite me s
                   in if m_leaderGuid s = me then Inr s
                      else if IsFull s then Inr (say (PartyResult me ERR_GROUP_FULL) s)
                      else if GetMembersCount s = 0
                      then let s = (if in_world s (m_leaderGuid s) then RemoveInvite (m_leaderGuid s) s else s)
                           in bindR (Create env (m_leaderGuid s) (m_leaderName s) s) (\<lambda>(ok, s). if ok then add s else Inr s)
                      else add s)"

section \<open>Leaving and expelling\<close>

definition CanUninviteFromGroup :: "GroupEnv \<Rightarrow> ObjectGuid \<Rightarrow> Party \<Rightarrow> uint32" where
  "CanUninviteFromGroup env me s =
     (if \<not> in_this_group s me then ERR_NOT_IN_GROUP
      else if \<not> IsLeader s me \<and> \<not> IsAssistant s me then ERR_NOT_LEADER
      else if inBattleGround env me then ERR_INVITE_RESTRICTED
      else ERR_PARTY_RESULT_OK)"

definition uninvite_invited :: "GroupEnv \<Rightarrow> ObjectGuid \<Rightarrow> ObjectGuid \<Rightarrow> Party \<Rightarrow> Party result" where
  "uninvite_invited env me g s =
     (if g \<in> set (m_invitees s)
      then if m_leaderGuid s = g then Inr s else UninviteFromGroup env g s
      else Inr (say (PartyResult me ERR_TARGET_NOT_IN_GROUP_S) s))"

definition HandleGroupUninviteGuid :: "GroupEnv \<Rightarrow> ObjectGuid \<Rightarrow> ObjectGuid \<Rightarrow> Party \<Rightarrow> Party result" where
  "HandleGroupUninviteGuid env me g s =
     (if g = me \<or> \<not> in_this_group s me then Inr s
      else if IsMember s g \<and> isLFGGroup s then Inr (say (LfgInitBoot me g) s)
      else if CanUninviteFromGroup env me s \<noteq> ERR_PARTY_RESULT_OK
      then Inr (say (PartyResult me (CanUninviteFromGroup env me s)) s)
      else if IsMember s g
      then if m_leaderGuid s = g then Inr s
           else bindR (RemoveMember env g 0 False s) (\<lambda>(left, s). Inr s)
      else uninvite_invited env me g s)"

text \<open>By name: the invited are searched by their names.\<close>

definition HandleGroupUninvite :: "GroupEnv \<Rightarrow> ObjectGuid \<Rightarrow> cstring option \<Rightarrow> Party \<Rightarrow> Party result" where
  "HandleGroupUninvite env me normalized s =
     (case normalized of
        None \<Rightarrow> Inr s
      | Some name \<Rightarrow>
          if playerName env me = name \<or> \<not> in_this_group s me then Inr s
          else let g = GetMemberGuid s name
               in if IsMember s g \<and> isLFGGroup s then Inr (say (LfgInitBoot me g) s)
                  else if CanUninviteFromGroup env me s \<noteq> ERR_PARTY_RESULT_OK
                  then Inr (say (PartyResult me (CanUninviteFromGroup env me s)) s)
                  else if g \<noteq> 0
                  then if m_leaderGuid s = g then Inr s
                       else bindR (RemoveMember env g 0 False s) (\<lambda>(left, s). Inr s)
                  else case find (\<lambda>p. playerName env p = name) (m_invitees s) of
                         Some p \<Rightarrow> if m_leaderGuid s = p then Inr s else UninviteFromGroup env p s
                       | None \<Rightarrow> Inr (say (PartyResult me ERR_TARGET_NOT_IN_GROUP_S) s))"

definition HandleGroupDisband :: "GroupEnv \<Rightarrow> ObjectGuid \<Rightarrow> Party \<Rightarrow> Party result" where
  "HandleGroupDisband env me s =
     (if m_groupGuid s me = 0 then Inr s
      else if inBattleGround env me then Inr (say (PartyResult me ERR_INVITE_RESTRICTED) s)
      else RemoveFromGroup env me False (say (PartyResult me ERR_PARTY_RESULT_OK) s))"

section \<open>Leading\<close>

definition HandleGroupSetLeader :: "GroupEnv \<Rightarrow> ObjectGuid \<Rightarrow> ObjectGuid \<Rightarrow> Party \<Rightarrow> Party" where
  "HandleGroupSetLeader env me g s =
     (if \<not> in_this_group s me \<or> \<not> in_world s g \<or> \<not> IsLeader s me \<or> \<not> in_this_group s g then s
      else ChangeLeader env g s)"

definition HandleLootMethod :: "GroupEnv \<Rightarrow> ObjectGuid \<Rightarrow> uint32 \<Rightarrow> ObjectGuid \<Rightarrow> uint32 \<Rightarrow> Party \<Rightarrow> Party" where
  "HandleLootMethod env me method master threshold s =
     (if \<not> in_this_group s me \<or> \<not> IsLeader s me then s
      else SendUpdate env (s\<lparr>m_lootMethod := method, m_looterGuid := master, m_lootThreshold := threshold\<rparr>))"

definition HandleRaidTargetUpdate :: "GroupEnv \<Rightarrow> ObjectGuid \<Rightarrow> uint8 \<Rightarrow> ObjectGuid \<Rightarrow> Party \<Rightarrow> Party" where
  "HandleRaidTargetUpdate env me x g s =
     (if \<not> in_this_group s me then s
      else if x = 0xFF then SendTargetIconList me s
      else if isRaidGroup s \<and> \<not> IsLeader s me \<and> \<not> IsAssistant s me then s
      else SetTargetIcon env x me g s)"

definition HandleGroupRaidConvert :: "GroupEnv \<Rightarrow> ObjectGuid \<Rightarrow> Party \<Rightarrow> Party result" where
  "HandleGroupRaidConvert env me s =
     (if \<not> in_this_group s me \<or> inBattleGround env me \<or> \<not> IsLeader s me \<or> GetMembersCount s < 2 \<or> isLFDGroup s then Inr s
      else ConvertToRaid env (say (PartyResult me ERR_PARTY_RESULT_OK) s))"

text \<open>\<open>target\<close>: the player the name belongs to, by \<open>ObjectMgr\<close> when he is in the world, else by the accounts.\<close>

definition HandleGroupChangeSubGroup :: "GroupEnv \<Rightarrow> ObjectGuid \<Rightarrow> ObjectGuid option \<Rightarrow> uint8 \<Rightarrow> Party \<Rightarrow> Party result" where
  "HandleGroupChangeSubGroup env me target k s =
     (if MAX_RAID_SUBGROUPS \<le> unat k \<or> \<not> in_this_group s me \<or> (\<not> IsLeader s me \<and> \<not> IsAssistant s me)
         \<or> \<not> HasFreeSlotSubGroup s k then Inr s
      else case target of
             None \<Rightarrow> Inr s
           | Some p \<Rightarrow> if in_world s p then ChangeMembersGroup_player env p k s else ChangeMembersGroup env p k s)"

definition HandleGroupAssistantLeader :: "GroupEnv \<Rightarrow> ObjectGuid \<Rightarrow> ObjectGuid \<Rightarrow> uint8 \<Rightarrow> Party \<Rightarrow> Party" where
  "HandleGroupAssistantLeader env me g apply_it s =
     (if \<not> in_this_group s me \<or> \<not> isRaidGroup s \<or> \<not> IsLeader s me then s
      else SetGroupUniqueFlag env g 2 (apply_it \<noteq> 0) s)"

definition HandlePartyAssignment :: "GroupEnv \<Rightarrow> ObjectGuid \<Rightarrow> uint8 \<Rightarrow> uint8 \<Rightarrow> ObjectGuid \<Rightarrow> Party \<Rightarrow> Party" where
  "HandlePartyAssignment env me role apply_it g s =
     (if \<not> in_this_group s me \<or> \<not> isRaidGroup s \<or> (\<not> IsLeader s me \<and> \<not> IsAssistant s me) then s
      else SetGroupUniqueFlag env g role (apply_it \<noteq> 0) s)"

section \<open>Ready check\<close>

definition BroadcastReadyCheck :: "GroupOpcode \<Rightarrow> uint8 list \<Rightarrow> Party \<Rightarrow> Party" where
  "BroadcastReadyCheck op data s =
     say_all (map (\<lambda>p. SendPacket p op data) (filter (\<lambda>p. in_world s p \<and> (IsLeader s p \<or> IsAssistant s p)) (online_members s))) s"

definition OfflineReadyCheck :: "Party \<Rightarrow> Party" where
  "OfflineReadyCheck s =
     fold (\<lambda>m s. if in_world s (ms_guid m) then s
                 else BroadcastReadyCheck MSG_RAID_READY_CHECK_CONFIRM (le_bytes (ms_guid m) @ [0]) s) (m_memberSlots s) s"

text \<open>\<open>answer\<close> is the state of an answer; a request has none.\<close>

definition HandleRaidReadyCheck :: "GroupEnv \<Rightarrow> ObjectGuid \<Rightarrow> uint8 option \<Rightarrow> Party \<Rightarrow> Party" where
  "HandleRaidReadyCheck env me answer s =
     (if \<not> in_this_group s me then s
      else case answer of
             None \<Rightarrow> if inBattleGround env me \<or> (\<not> IsLeader s me \<and> \<not> IsAssistant s me) then s
                     else OfflineReadyCheck (BroadcastPacket env MSG_RAID_READY_CHECK (le_bytes me) False None 0 s)
           | Some st \<Rightarrow> BroadcastReadyCheck MSG_RAID_READY_CHECK_CONFIRM (le_bytes me @ [st]) s)"

section \<open>Logging in and out\<close>

text \<open>
  The group's share of \<open>WorldSession::LogoutPlayer\<close>, up to the destruction of the player, and of
  \<open>WorldSession::HandlePlayerLogin\<close>.
\<close>

definition destroy_player :: "ObjectGuid \<Rightarrow> Party \<Rightarrow> Party" where
  "destroy_player p s =
     s\<lparr>in_world := (in_world s)(p := False), known_player := (known_player s)(p := False),
       member_refs := filter (\<lambda>(q, b). q \<noteq> p) (member_refs s),
       m_groupGuid := (m_groupGuid s)(p := 0), m_originalGroupGuid := (m_originalGroupGuid s)(p := 0)\<rparr>"

definition LogoutPlayer :: "GroupEnv \<Rightarrow> bool \<Rightarrow> ObjectGuid \<Rightarrow> Party \<Rightarrow> Party result" where
  "LogoutPlayer env has_socket p s =
     bindR (UninviteFromGroup env p s) (\<lambda>s.
       bindR (if in_this_group s p \<and> \<not> isRaidGroup s \<and> has_socket then RemoveFromGroup env p True s else Inr s) (\<lambda>s.
         let s = (if in_this_group s p then SendUpdate env (CheckLeader env p True s) else s)
         in Inr (destroy_player p s)))"

definition LoginPlayer :: "GroupEnv \<Rightarrow> ObjectGuid \<Rightarrow> Party \<Rightarrow> Party result" where
  "LoginPlayer env p s =
     (let s = s\<lparr>in_world := (in_world s)(p := True), known_player := (known_player s)(p := True),
                m_groupGuid := (m_groupGuid s)(p := 0), m_originalGroupGuid := (m_originalGroupGuid s)(p := 0),
                m_groupInviteGuid := (m_groupInviteGuid s)(p := 0)\<rparr>
      in bindR (if IsMember s p then LoadGroup env p s else Inr s) (\<lambda>s.
           Inr (if in_this_group s p then SendUpdate env (CheckLeader env p False s) else s)))"

end
