(* ===== verification/GroupInvariant.thy ===== *)
theory GroupInvariant
  imports GroupHandlers
begin

text \<open>
  The invariant of a group that is no battleground's, and one lemma per operation that the operation
  succeeds and keeps it: members are distinct, subgroups hold at most five, the counters count, and the
  players' references agree with the list of members. It is stated for groups whose players are not
  between two maps (\<open>known_player s = in_world s\<close>).
\<close>

section \<open>Results that satisfy a condition\<close>

definition okR :: "('a \<Rightarrow> bool) \<Rightarrow> 'a result \<Rightarrow> bool" where
  "okR P r \<longleftrightarrow> (\<exists>x. r = Inr x \<and> P x)"

lemma okR_Inr [simp]: "okR P (Inr x) = P x"
  by (simp add: okR_def)

lemma okR_bind: "okR P r \<Longrightarrow> (\<And>x. P x \<Longrightarrow> okR Q (f x)) \<Longrightarrow> okR Q (bindR r f)"
  by (auto simp: okR_def)

lemma okR_mono: "okR P r \<Longrightarrow> (\<And>x. P x \<Longrightarrow> Q x) \<Longrightarrow> okR Q r"
  by (auto simp: okR_def)

lemma okR_foldR: "P s \<Longrightarrow> (\<And>i s. i \<in> set is \<Longrightarrow> P s \<Longrightarrow> okR P (f i s)) \<Longrightarrow> okR P (foldR f is s)"
  by (induction "is" arbitrary: s) (auto intro: okR_bind)

section \<open>Lists of members\<close>

lemma count_group_append [simp]: "count_group (ms @ ms') k = count_group ms k + count_group ms' k"
  by (simp add: count_group_def)

lemma count_group_Cons: "count_group (m # ms) k = (if unat (ms_group m) = k then 1 else 0) + count_group ms k"
  by (simp add: count_group_def)

lemma count_group_Nil [simp]: "count_group [] k = 0"
  by (simp add: count_group_def)

lemma find_split:
  assumes "distinct (map ms_guid ms)" "find (\<lambda>m. ms_guid m = g) ms = Some m"
  obtains as bs where "ms = as @ m # bs" "ms_guid m = g" "\<forall>x\<in>set as. ms_guid x \<noteq> g" "\<forall>x\<in>set bs. ms_guid x \<noteq> g"
proof -
  obtain i where i: "i < length ms" "m = ms ! i" "ms_guid m = g" using assms(2) by (auto simp: find_Some_iff)
  have ms: "ms = take i ms @ m # drop (Suc i) ms" using i id_take_nth_drop by metis
  have "distinct (map ms_guid (take i ms) @ ms_guid m # map ms_guid (drop (Suc i) ms))"
    using assms(1) ms by (metis list.simps(9) map_append)
  then have "ms_guid m \<notin> ms_guid ` set (take i ms)" "ms_guid m \<notin> ms_guid ` set (drop (Suc i) ms)" by simp_all
  then have "\<forall>x\<in>set (take i ms). ms_guid x \<noteq> g" "\<forall>x\<in>set (drop (Suc i) ms). ms_guid x \<noteq> g" using i(3) by blast+
  then show ?thesis using that ms i(3) by blast
qed

lemma takeWhile_split: "\<forall>x\<in>set as. ms_guid x \<noteq> g \<Longrightarrow> ms_guid m = g \<Longrightarrow> takeWhile (\<lambda>x. ms_guid x \<noteq> g) (as @ m # bs) = as"
  by (subst takeWhile_append2) auto

lemma dropWhile_split: "\<forall>x\<in>set as. ms_guid x \<noteq> g \<Longrightarrow> ms_guid m = g \<Longrightarrow> dropWhile (\<lambda>x. ms_guid x \<noteq> g) (as @ m # bs) = m # bs"
  by (subst dropWhile_append2) auto

lemma member_split:
  assumes "distinct (map ms_guid (m_memberSlots s))" "getMemberSlot s g = Some m"
  obtains as bs where "m_memberSlots s = as @ m # bs" "ms_guid m = g" "\<forall>x\<in>set as. ms_guid x \<noteq> g" "\<forall>x\<in>set bs. ms_guid x \<noteq> g"
    "\<And>f. modify_member g f (m_memberSlots s) = as @ f m # bs" "erase_member g (m_memberSlots s) = as @ bs"
proof -
  obtain as bs where *: "m_memberSlots s = as @ m # bs" "ms_guid m = g" "\<forall>x\<in>set as. ms_guid x \<noteq> g" "\<forall>x\<in>set bs. ms_guid x \<noteq> g"
    using find_split assms unfolding getMemberSlot_def by metis
  then have "modify_member g f (m_memberSlots s) = as @ f m # bs" "erase_member g (m_memberSlots s) = as @ bs" for f
    by (simp_all add: modify_member_def erase_member_def takeWhile_split dropWhile_split)
  then show ?thesis using that * by blast
qed

lemma getMemberSlot_None: "getMemberSlot s g = None \<longleftrightarrow> (\<forall>m\<in>set (m_memberSlots s). ms_guid m \<noteq> g)"
  by (auto simp: getMemberSlot_def find_None_iff)

lemma getMemberSlot_Some: "getMemberSlot s g = Some m \<Longrightarrow> m \<in> set (m_memberSlots s) \<and> ms_guid m = g"
  by (auto simp: getMemberSlot_def find_Some_iff)

lemma getMemberSlot_iff:
  assumes "distinct (map ms_guid (m_memberSlots s))"
  shows "getMemberSlot s g = Some m \<longleftrightarrow> m \<in> set (m_memberSlots s) \<and> ms_guid m = g"
proof
  assume m: "m \<in> set (m_memberSlots s) \<and> ms_guid m = g"
  then obtain n where n: "getMemberSlot s g = Some n" using getMemberSlot_None by (metis not_Some_eq)
  have "inj_on ms_guid (set (m_memberSlots s))" using assms by (simp add: distinct_map)
  then have "n = m" using m getMemberSlot_Some[OF n] by (simp add: inj_on_def)
  then show "getMemberSlot s g = Some m" using n by simp
qed (rule getMemberSlot_Some)

lemma IsMember_iff: "IsMember s g \<longleftrightarrow> g \<in> ms_guid ` set (m_memberSlots s)"
  by (auto simp: IsMember_def getMemberSlot_None)

section \<open>The invariant\<close>

definition counters :: "MemberSlot list \<Rightarrow> uint8 list" where
  "counters ms = map (\<lambda>k. of_nat (count_group ms k)) [0..<MAX_RAID_SUBGROUPS]"

definition slots_ok :: "MemberSlot list \<Rightarrow> bool" where
  "slots_ok ms \<longleftrightarrow>
     distinct (map ms_guid ms) \<and> (\<forall>m\<in>set ms. ms_guid m \<noteq> 0 \<and> unat (ms_group m) < MAX_RAID_SUBGROUPS)
     \<and> (\<forall>k. count_group ms k \<le> MAX_GROUP_SIZE)"

definition roster_ok :: "Party \<Rightarrow> bool" where
  "roster_ok s \<longleftrightarrow>
     slots_ok (m_memberSlots s)
     \<and> (if isRaidGroup s then m_subGroupsCounts s = Some (counters (m_memberSlots s))
        else m_subGroupsCounts s = None \<and> (m_groupType s = GROUPTYPE_NORMAL \<or> isLFDGroup s)
             \<and> (\<forall>m\<in>set (m_memberSlots s). ms_group m = 0))"

definition links_ok :: "Party \<Rightarrow> bool" where
  "links_ok s \<longleftrightarrow>
     distinct (map fst (member_refs s))
     \<and> (\<forall>p. (p, False) \<in> set (member_refs s) \<longleftrightarrow> m_groupGuid s p = m_Guid s)
     \<and> (\<forall>p. (p, True) \<in> set (member_refs s) \<longleftrightarrow> m_originalGroupGuid s p = m_Guid s)
     \<and> (\<forall>p. m_groupGuid s p = m_Guid s \<longrightarrow> (\<exists>m\<in>set (m_memberSlots s). ms_guid m = p \<and> ms_group m = m_subGroup s p))
     \<and> (\<forall>p. m_originalGroupGuid s p = m_Guid s \<longrightarrow> (\<exists>m\<in>set (m_memberSlots s). ms_guid m = p \<and> ms_group m = m_originalSubGroup s p))
     \<and> (\<forall>r\<in>set (member_refs s). in_world s (fst r))
     \<and> (\<forall>m\<in>set (m_memberSlots s). in_world s (ms_guid m) \<longrightarrow> ms_guid m \<in> fst ` set (member_refs s))"

definition plain_group :: "Party \<Rightarrow> bool" where
  "plain_group s \<longleftrightarrow> registered s \<and> m_Guid s \<noteq> 0 \<and> \<not> m_bgGroup s \<and> \<not> m_bfGroup s \<and> known_player s = in_world s"

definition group_ok :: "Party \<Rightarrow> bool" where
  "group_ok s \<longleftrightarrow> plain_group s \<and> roster_ok s \<and> links_ok s"

definition started :: "Party \<Rightarrow> bool" where
  "started s \<longleftrightarrow> (isRaidGroup s \<longrightarrow> m_memberSlots s \<noteq> [])"

text \<open>A group that is gone satisfies everything; a raid has members.\<close>

definition party_ok :: "Party \<Rightarrow> bool" where
  "party_ok s \<longleftrightarrow> (registered s \<longrightarrow> group_ok s \<and> started s)"

lemma roster_ok_cong:
  "m_memberSlots s' = m_memberSlots s \<Longrightarrow> m_subGroupsCounts s' = m_subGroupsCounts s \<Longrightarrow> m_groupType s' = m_groupType s \<Longrightarrow>
     roster_ok s' = roster_ok s"
  by (simp add: roster_ok_def isRaidGroup_def isLFDGroup_def)

text \<open>What the invariant looks at.\<close>

definition view :: "Party \<Rightarrow> _" where
  "view s = ((m_memberSlots s, m_subGroupsCounts s, m_groupType s, m_Guid s, registered s, m_bgGroup s, m_bfGroup s),
     (in_world s, known_player s, m_groupGuid s, m_subGroup s, m_originalGroupGuid s, m_originalSubGroup s, member_refs s))"

lemma group_ok_view: "view s' = view s \<Longrightarrow> group_ok s' = group_ok s"
  by (simp add: view_def group_ok_def plain_group_def roster_ok_def links_ok_def isRaidGroup_def isLFDGroup_def)

lemma started_view: "view s' = view s \<Longrightarrow> started s' = started s"
  by (simp add: view_def started_def isRaidGroup_def)

lemma party_ok_view: "view s' = view s \<Longrightarrow> party_ok s' = party_ok s"
  using group_ok_view[of s' s] started_view[of s' s] by (auto simp: party_ok_def view_def)

lemma view_simps [simp]:
  "view (say e s) = view s" "view (say_all es s) = view s" "view (SendUpdate env s) = view s"
  "view (BroadcastPacket env op d ig grp g s) = view s" "view (SetLeaderFlag p b s) = view s"
  "view (SetGroupInvite p g s) = view s" "view (RemoveInvite p s) = view s" "view (clear_markers s) = view s"
  "view (notify_group env p s) = view s" "view (RemoveAllInvites s) = view s"
  "view (CheckLeader env p b s) = view s" "view (greet_member env p s) = view s"
  "view (setLeader env g s) = view s" "view (set_players_difficulty env df s) = view s"
  by (simp_all add: view_def say_def say_all_def SendUpdate_def BroadcastPacket_def SetLeaderFlag_def SetGroupInvite_def
      RemoveInvite_def clear_markers_def notify_group_def RemoveAllInvites_def CheckLeader_def greet_member_def setLeader_def
      set_players_difficulty_def Let_def split: option.split)

lemma view_more [simp]:
  "view (SetDungeonDifficulty env d s) = view s" "view (SetRaidDifficulty env d s) = view s"
  "view (ChangeLeader env g s) = view s" "view (s\<lparr>out := es\<rparr>) = view s" "view (s\<lparr>m_looterGuid := g\<rparr>) = view s"
  "view (s\<lparr>m_lootMethod := me\<rparr>) = view s" "view (s\<lparr>m_leaderGuid := g\<rparr>) = view s" "view (s\<lparr>m_waitLeaderTimer := t\<rparr>) = view s"
  "view (s\<lparr>m_targetIcons := ic\<rparr>) = view s" "view (s\<lparr>m_rollIds := rs\<rparr>) = view s" "view (s\<lparr>m_leaderName := nm\<rparr>) = view s"
  "view (s\<lparr>m_lootThreshold := th\<rparr>) = view s"
proof -
  show "view (s\<lparr>out := es\<rparr>) = view s" "view (s\<lparr>m_looterGuid := g\<rparr>) = view s"
    "view (s\<lparr>m_lootMethod := me\<rparr>) = view s" "view (s\<lparr>m_leaderGuid := g\<rparr>) = view s" "view (s\<lparr>m_waitLeaderTimer := t\<rparr>) = view s"
    "view (s\<lparr>m_targetIcons := ic\<rparr>) = view s" "view (s\<lparr>m_rollIds := rs\<rparr>) = view s" "view (s\<lparr>m_leaderName := nm\<rparr>) = view s"
    "view (s\<lparr>m_lootThreshold := th\<rparr>) = view s"
    by (simp_all add: view_def)
  have "view (s\<lparr>m_Difficulty := d\<rparr>) = view s" for d and s by (simp add: view_def)
  then show "view (SetDungeonDifficulty env d s) = view s" "view (SetRaidDifficulty env d s) = view s"
    by (simp_all add: SetDungeonDifficulty_def SetRaidDifficulty_def Let_def)
  show "view (ChangeLeader env g s) = view s" by (simp add: ChangeLeader_def Let_def split: option.split)
qed

lemma view_first_suitable [simp]: "view (snd (ChangeLeaderToFirstSuitableMember env b s)) = view s"
  by (simp add: ChangeLeaderToFirstSuitableMember_def split: option.split)

section \<open>Counters\<close>

lemma length_counters [simp]: "length (counters ms) = 8"
  by (simp add: counters_def)

lemma counters_nth [simp]: "k < 8 \<Longrightarrow> counters ms ! k = of_nat (count_group ms k)"
  by (simp add: counters_def del: upt_rec_numeral)

lemma counters_step:
  assumes "unat k < 8" "count_group ms' (unat k) = n" "f (of_nat (count_group ms (unat k))) = of_nat n"
    and "\<And>j. j \<noteq> unat k \<Longrightarrow> count_group ms' j = count_group ms j"
  shows "(counters ms)[unat k := f (counters ms ! unat k)] = counters ms'"
  by (rule nth_equalityI) (use assms in \<open>auto simp: nth_list_update\<close>)

lemma unat_small: "n \<le> 5 \<Longrightarrow> unat (of_nat n :: uint8) = n"
  by (simp add: unat_of_nat take_bit_eq_mod)

lemma slots_ok_append:
  "slots_ok ms \<Longrightarrow> g \<notin> ms_guid ` set ms \<Longrightarrow> g \<noteq> 0 \<Longrightarrow> unat k < 8 \<Longrightarrow> count_group ms (unat k) < 5 \<Longrightarrow>
     ms_guid m = g \<Longrightarrow> ms_group m = k \<Longrightarrow> slots_ok (ms @ [m])"
  by (auto simp: slots_ok_def count_group_Cons)

section \<open>Joining\<close>

lemma not_member_unlinked:
  assumes "group_ok s" "\<not> IsMember s p"
  shows "m_groupGuid s p \<noteq> m_Guid s" "m_originalGroupGuid s p \<noteq> m_Guid s" "(p, b) \<notin> set (member_refs s)" "p \<notin> fst ` set (member_refs s)"
proof -
  show 1: "m_groupGuid s p \<noteq> m_Guid s" "m_originalGroupGuid s p \<noteq> m_Guid s"
    using assms by (auto simp: group_ok_def links_ok_def IsMember_iff)
  then show 2: "(p, b) \<notin> set (member_refs s)" for b
    using assms(1) by (cases b) (auto simp: group_ok_def links_ok_def)
  then show "p \<notin> fst ` set (member_refs s)" by force
qed

text \<open>The state right after a new slot was appended, before the player is linked to the group.\<close>

definition joining :: "ObjectGuid \<Rightarrow> uint8 \<Rightarrow> Party \<Rightarrow> Party \<Rightarrow> bool" where
  "joining p k s s' \<longleftrightarrow> plain_group s' \<and> roster_ok s'
     \<and> (\<exists>m. m_memberSlots s' = m_memberSlots s @ [m] \<and> ms_guid m = p \<and> ms_group m = k)
     \<and> m_Guid s' = m_Guid s \<and> in_world s' = in_world s \<and> m_groupGuid s' = m_groupGuid s \<and> m_subGroup s' = m_subGroup s
     \<and> m_originalGroupGuid s' = m_originalGroupGuid s \<and> m_originalSubGroup s' = m_originalSubGroup s \<and> member_refs s' = member_refs s"

lemma link_new_member_ok:
  assumes ok: "group_ok s" and new: "\<not> IsMember s p" and j: "joining p k s s'" and k: "unat k < 8" and w: "in_world s p"
  shows "okR group_ok (link_new_member env p k s')"
proof -
  note un = not_member_unlinked[OF ok new]
  have links: "links_ok s" and plain: "plain_group s'" and roster: "roster_ok s'" and bg: "\<not> isBGGroup s'"
    using ok j by (auto simp: group_ok_def joining_def plain_group_def isBGGroup_def)
  obtain m where m: "m_memberSlots s' = m_memberSlots s @ [m]" "ms_guid m = p" "ms_group m = k" using j by (auto simp: joining_def)
  have same: "m_Guid s' = m_Guid s" "in_world s' = in_world s" "m_groupGuid s' = m_groupGuid s" "m_subGroup s' = m_subGroup s"
    "m_originalGroupGuid s' = m_originalGroupGuid s" "m_originalSubGroup s' = m_originalSubGroup s" "member_refs s' = member_refs s"
    using j by (simp_all add: joining_def)
  have k128: "\<not> 128 \<le> k" using k by (simp add: word_le_nat_alt)
  have rm: "removeAll (p, b) (member_refs s) = member_refs s" for b using un(3) by simp
  have reg: "registered s'" using plain by (simp add: plain_group_def)
  let ?s = "SetGroupInvite p 0 s'"
  have ex: "group_exists env s1 (m_Guid s1)" if "registered s1" for s1 using that by (simp add: group_exists_def)
  define a where "a = s'\<lparr>m_groupInviteGuid := (m_groupInviteGuid s')(p := 0), m_groupGuid := (m_groupGuid s')(p := m_Guid s),
      member_refs := (p, False) # member_refs s, m_subGroup := (m_subGroup s')(p := k)\<rparr>"
  define b where "b = s'\<lparr>m_groupInviteGuid := (m_groupInviteGuid s')(p := 0), m_originalGroupGuid := (m_originalGroupGuid s')(p := m_Guid s),
      member_refs := (p, True) # member_refs s, m_originalSubGroup := (m_originalSubGroup s')(p := k)\<rparr>"
  have "SetGroup env p (m_Guid s') k ?s = Inr a"
    using k128 reg same rm by (simp add: SetGroup_def SetGroupInvite_def group_exists_def a_def)
  moreover have "SetOriginalGroup env p (m_Guid s') k ?s = Inr b"
    using k128 reg same rm by (simp add: SetOriginalGroup_def SetGroupInvite_def group_exists_def b_def)
  moreover have "\<not> isBGGroup ?s" "m_Guid ?s = m_Guid s'" using bg by (simp_all add: isBGGroup_def SetGroupInvite_def)
  moreover have "plain_group a" "roster_ok a" "plain_group b" "roster_ok b"
    using plain roster roster_ok_cong[of a s'] roster_ok_cong[of b s'] by (simp_all add: a_def b_def plain_group_def)
  moreover have "links_ok a" "links_ok b"
    using links un w m same by (auto simp: links_ok_def a_def b_def)
  ultimately have "group_ok a" "group_ok b" by (simp_all add: group_ok_def)
  then have "group_ok (say e a)" "group_ok (say e b)" for e using group_ok_view view_simps(1) by blast+
  then show ?thesis
    using \<open>group_ok a\<close> \<open>group_ok b\<close> \<open>SetGroup env p (m_Guid s') k ?s = Inr a\<close> \<open>SetOriginalGroup env p (m_Guid s') k ?s = Inr b\<close>
      \<open>\<not> isBGGroup ?s\<close> \<open>m_Guid ?s = m_Guid s'\<close>
    by (auto simp: link_new_member_def Let_def)
qed

lemma increase_ok:
  assumes "roster_ok s" "unat k < 8" "count_group (m_memberSlots s) (unat k) < 5"
    and "\<And>j. count_group ms j = count_group (m_memberSlots s) j + (if j = unat k then 1 else 0)"
    and "\<not> isRaidGroup s \<Longrightarrow> k = 0"
  shows "SubGroupCounterIncrease k (s\<lparr>m_memberSlots := ms\<rparr>)
    = Inr (s\<lparr>m_memberSlots := ms, m_subGroupsCounts := (if isRaidGroup s then Some (counters ms) else None)\<rparr>)"
proof (cases "isRaidGroup s")
  case True
  then have c: "m_subGroupsCounts s = Some (counters (m_memberSlots s))" using assms(1) by (simp add: roster_ok_def)
  have "(counters (m_memberSlots s))[unat k := counters (m_memberSlots s) ! unat k + 1] = counters ms"
  proof (rule counters_step[where f = "\<lambda>n. n + 1"])
    show "count_group ms (unat k) = Suc (count_group (m_memberSlots s) (unat k))" using assms(4)[of "unat k"] by simp
    show "(of_nat (count_group (m_memberSlots s) (unat k)) :: uint8) + 1 = of_nat (Suc (count_group (m_memberSlots s) (unat k)))"
      by (metis of_nat_Suc add.commute)
    show "count_group ms j = count_group (m_memberSlots s) j" if "j \<noteq> unat k" for j using assms(4)[of j] that by simp
  qed (rule assms(2))
  then show ?thesis using True c assms(2) by (simp add: SubGroupCounterIncrease_def count_step_def)
next
  case False
  then have "m_subGroupsCounts s = None" using assms(1) by (simp add: roster_ok_def)
  then show ?thesis using False by (simp add: SubGroupCounterIncrease_def count_step_def)
qed

lemma first_free_room:
  assumes ok: "roster_ok s" and room: "\<not> IsFull s" and k: "first_free_subgroup s = Some k"
  shows "unat k < 8 \<and> count_group (m_memberSlots s) (unat k) < 5 \<and> (\<not> isRaidGroup s \<longrightarrow> k = 0)"
proof (cases "isRaidGroup s")
  case True
  then have c: "m_subGroupsCounts s = Some (counters (m_memberSlots s))" using ok by (simp add: roster_ok_def)
  then obtain j where j: "find (\<lambda>k. unat (counters (m_memberSlots s) ! k) < 5) [0..<8] = Some j" "k = of_nat j"
    using k by (auto simp: first_free_subgroup_def)
  then have "j < 8" "unat (counters (m_memberSlots s) ! j) < 5" by (auto simp: find_Some_iff)
  moreover have "count_group (m_memberSlots s) j \<le> 5" using ok by (simp add: roster_ok_def slots_ok_def)
  moreover have "unat k = j" using j(2) \<open>j < 8\<close> by (simp add: unat_of_nat take_bit_eq_mod)
  ultimately show ?thesis using True by (simp add: unat_small)
next
  case False
  then have n: "m_subGroupsCounts s = None" "m_groupType s = 0 \<or> isLFGGroup s" using ok by (auto simp: roster_ok_def isLFGGroup_def)
  then have "length (m_memberSlots s) < 5" using room by (auto simp: IsFull_def GetMembersCount_def)
  then have "count_group (m_memberSlots s) 0 < 5" using length_filter_le le_less_trans unfolding count_group_def by blast
  then show ?thesis using n(1) k by (simp add: first_free_subgroup_def)
qed

lemma addMember_ok:
  assumes ok: "group_ok s" and new: "\<not> IsMember s g"
  shows "okR (\<lambda>(b, s'). group_ok s') (addMember env g name s)"
proof (cases "first_free_subgroup s")
  case None
  then show ?thesis using ok by (simp add: addMember_def)
next
  case (Some k)
  show ?thesis
  proof (cases "IsFull s \<or> g = 0 \<or> \<not> IsPlayer g")
    case True
    then show ?thesis using ok Some by (simp add: addMember_def addMember_at_def)
  next
    case False
    have ro: "roster_ok s" and pl: "plain_group s" using ok by (simp_all add: group_ok_def)
    note k = first_free_room[OF ro _ Some]
    have k8: "unat k < 8" and room: "count_group (m_memberSlots s) (unat k) < 5" and k0: "\<not> isRaidGroup s \<Longrightarrow> k = 0"
      using k False by simp_all
    define roles where "roles = (if isLFGGroup s \<and> in_world s g then lfgRoles env g else 0)"
    define m where "m = \<lparr>ms_guid = g, ms_name = name, ms_group = k, ms_flags = 0, ms_roles = roles, lastMap = (if known_player s g then mapOf env g else 0)\<rparr>"
    define ms where "ms = m_memberSlots s @ [m]"
    define s1 where "s1 = s\<lparr>m_memberSlots := ms, m_subGroupsCounts := (if isRaidGroup s then Some (counters ms) else None)\<rparr>"
    have mem: "g \<notin> ms_guid ` set (m_memberSlots s)" using new by (simp add: IsMember_iff)
    have inc: "SubGroupCounterIncrease k (s\<lparr>m_memberSlots := ms\<rparr>) = Inr s1"
      unfolding s1_def by (rule increase_ok[OF ro k8 room _ k0]) (simp_all add: ms_def m_def count_group_Cons)
    have "slots_ok ms"
      unfolding ms_def by (rule slots_ok_append[OF _ mem _ k8 room]) (use ro False in \<open>simp_all add: roster_ok_def m_def\<close>)
    then have r1: "roster_ok s1"
      using ro k0 by (auto simp: roster_ok_def s1_def isRaidGroup_def isLFDGroup_def ms_def m_def)
    then have j: "joining g k s s1" using pl by (simp add: joining_def s1_def plain_group_def ms_def m_def)
    have l1: "links_ok s1" if "\<not> in_world s g" using ok that by (auto simp: group_ok_def links_ok_def s1_def ms_def m_def)
    have "okR group_ok (if known_player s1 g then link_new_member env g k s1 else Inr s1)"
    proof (cases "in_world s g")
      case True
      then show ?thesis using link_new_member_ok[OF ok new j k8 True] pl by (simp add: s1_def plain_group_def)
    next
      case False
      then have "group_ok s1" using r1 l1 pl by (simp add: group_ok_def s1_def plain_group_def)
      then show ?thesis using False pl by (simp add: s1_def plain_group_def)
    qed
    then obtain s2 where s2: "(if known_player s1 g then link_new_member env g k s1 else Inr s1) = Inr s2" "group_ok s2"
      by (auto simp: okR_def)
    have fin: "group_ok (if IsNeedSave x then say e x else x)" if "group_ok x" for x e
      using that group_ok_view[of "say e x" x] by simp
    have "group_ok (if \<not> isRaidGroup s2 then s2\<lparr>m_targetIcons := ic\<rparr> else s2)" for ic
      using s2(2) group_ok_view[of "s2\<lparr>m_targetIcons := ic\<rparr>" s2] by simp
    then show ?thesis
      using Some False inc s2(1) fin by (simp add: addMember_def addMember_at_def roles_def[symmetric] m_def[symmetric] ms_def[symmetric] Let_def)
  qed
qed

lemma AddMember_ok: "group_ok s \<Longrightarrow> okR (\<lambda>(b, s'). group_ok s') (AddMember env g name s)"
proof -
  assume ok: "group_ok s"
  show ?thesis
  proof (cases "IsMember s g")
    case False
    obtain b s1 where s1: "addMember env g name s = Inr (b, s1)" "group_ok s1"
      using addMember_ok[OF ok False, of env name] by (auto simp: okR_def)
    have "group_ok (SendUpdate env s1)" "group_ok (say e (SendUpdate env s1))" for e
      using s1(2) group_ok_view[of "SendUpdate env s1" s1] group_ok_view[of "say e (SendUpdate env s1)" s1] by simp_all
    moreover have "group_ok (greet_member env g x)" if "group_ok x" for x using that group_ok_view[of "greet_member env g x" x] by simp
    ultimately show ?thesis using s1 False by (simp add: AddMember_def Let_def)
  qed (simp add: AddMember_def ok)
qed

section \<open>Leaving\<close>

definition unlinked :: "ObjectGuid \<Rightarrow> Party \<Rightarrow> Party \<Rightarrow> bool" where
  "unlinked p s u \<longleftrightarrow> plain_group u \<and> roster_ok u \<and> m_memberSlots u = m_memberSlots s \<and> m_groupType u = m_groupType s
     \<and> m_Guid u = m_Guid s \<and> in_world u = in_world s \<and> m_leaderGuid u = m_leaderGuid s \<and> m_subGroup u = m_subGroup s
     \<and> m_originalSubGroup u = m_originalSubGroup s
     \<and> (\<forall>q. q \<noteq> p \<longrightarrow> m_groupGuid u q = m_groupGuid s q \<and> m_originalGroupGuid u q = m_originalGroupGuid s q)
     \<and> m_groupGuid u p \<noteq> m_Guid s \<and> m_originalGroupGuid u p \<noteq> m_Guid s
     \<and> member_refs u = filter (\<lambda>r. fst r \<noteq> p) (member_refs s)"

lemma no_group_0: "\<not> otherGroup env 0 \<Longrightarrow> m_Guid s \<noteq> 0 \<Longrightarrow> \<not> group_exists env s 0"
  by (simp add: group_exists_def)

lemma refs_without:
  assumes "(p, \<not> b) \<notin> set refs"
  shows "removeAll (p, b) refs = filter (\<lambda>r. fst r \<noteq> p) refs"
  using assms by (induction refs) (auto split: prod.splits)

lemma unlink_ok:
  assumes ok: "group_ok s" and e: "\<not> otherGroup env 0"
  shows "okR (unlinked p s) (if in_world s p then unlink_member env p s else Inr s)"
proof -
  have pl: "plain_group s" and ro: "roster_ok s" and li: "links_ok s" using ok by (simp_all add: group_ok_def)
  have both: "(p, False) \<in> set (member_refs s) \<longleftrightarrow> m_groupGuid s p = m_Guid s"
    "(p, True) \<in> set (member_refs s) \<longleftrightarrow> m_originalGroupGuid s p = m_Guid s" "distinct (map fst (member_refs s))"
    using li by (simp_all add: links_ok_def)
  have not_both: "(p, True) \<in> set (member_refs s) \<Longrightarrow> (p, False) \<notin> set (member_refs s)"
    using both(3) by (metis eq_key_imp_eq_value)
  have g0: "m_Guid s \<noteq> 0" using pl by (simp add: plain_group_def)
  show ?thesis
  proof (cases "in_world s p")
    case False
    then have "(p, b) \<notin> set (member_refs s)" for b using li by (force simp: links_ok_def)
    then have "filter (\<lambda>r. fst r \<noteq> p) (member_refs s) = member_refs s" "m_groupGuid s p \<noteq> m_Guid s" "m_originalGroupGuid s p \<noteq> m_Guid s"
      using both by (auto simp: filter_id_conv)
    then show ?thesis using False pl ro by (simp add: unlinked_def)
  next
    case True
    have bg: "\<not> isBGGroup s" using pl by (simp add: plain_group_def isBGGroup_def)
    define a where "a = s\<lparr>m_originalGroupGuid := (m_originalGroupGuid s)(p := 0), member_refs := removeAll (p, True) (member_refs s)\<rparr>"
    define b where "b = s\<lparr>m_groupGuid := (m_groupGuid s)(p := 0), member_refs := removeAll (p, False) (member_refs s)\<rparr>"
    have e0: "\<not> group_exists env x 0" if "m_Guid x = m_Guid s" for x using no_group_0[OF e, of x] that g0 by simp
    have r: "roster_ok a" "roster_ok b" "plain_group a" "plain_group b"
      using ro pl roster_ok_cong[of a s] roster_ok_cong[of b s] by (simp_all add: a_def b_def plain_group_def)
    show ?thesis
    proof (cases "m_originalGroupGuid s p = m_Guid s")
      case o: True
      then have "unlink_member env p s = Inr a" using bg e0[of a] by (simp add: unlink_member_def SetOriginalGroup_def a_def)
      moreover have "removeAll (p, True) (member_refs s) = filter (\<lambda>r. fst r \<noteq> p) (member_refs s)"
        using refs_without[of p True "member_refs s"] not_both o both by simp
      ultimately show ?thesis using True r not_both both o g0 by (simp add: unlinked_def a_def)
    next
      case o: False
      then have "unlink_member env p s = Inr b" using bg e0[of b] by (simp add: unlink_member_def SetGroup_def b_def)
      moreover have "removeAll (p, False) (member_refs s) = filter (\<lambda>r. fst r \<noteq> p) (member_refs s)"
        using refs_without[of p False "member_refs s"] o both by simp
      ultimately show ?thesis using True r o g0 by (simp add: unlinked_def b_def)
    qed
  qed
qed

lemma slots_ok_erase:
  assumes "slots_ok (as @ m # bs)"
  shows "slots_ok (as @ bs)"
proof -
  have "count_group (as @ bs) k \<le> 5" for k
  proof -
    have "count_group (as @ bs) k \<le> count_group (as @ m # bs) k" by (simp add: count_group_Cons)
    also have "\<dots> \<le> 5" using assms by (simp add: slots_ok_def)
    finally show ?thesis .
  qed
  then show ?thesis using assms by (simp add: slots_ok_def)
qed

lemma links_erase:
  assumes li: "links_ok s" and un: "unlinked p s u"
    and ms: "m_memberSlots s = as @ m # bs" "ms_guid m = p" "\<forall>x\<in>set as. ms_guid x \<noteq> p" "\<forall>x\<in>set bs. ms_guid x \<noteq> p"
    and v: "m_memberSlots v = as @ bs" "view (v\<lparr>m_memberSlots := [], m_subGroupsCounts := None\<rparr>) = view (u\<lparr>m_memberSlots := [], m_subGroupsCounts := None\<rparr>)"
  shows "links_ok v"
proof -
  have same: "m_Guid v = m_Guid s" "in_world v = in_world s" "m_groupGuid v = m_groupGuid u" "m_originalGroupGuid v = m_originalGroupGuid u"
    "m_subGroup v = m_subGroup s" "m_originalSubGroup v = m_originalSubGroup s" "member_refs v = filter (\<lambda>r. fst r \<noteq> p) (member_refs s)"
    using un v(2) by (simp_all add: unlinked_def view_def)
  have mem: "x \<in> set (as @ bs) \<longleftrightarrow> x \<in> set (m_memberSlots s) \<and> ms_guid x \<noteq> p" for x using ms by auto
  have p: "m_groupGuid v p \<noteq> m_Guid s" "m_originalGroupGuid v p \<noteq> m_Guid s" using un same by (simp_all add: unlinked_def)
  have q: "m_groupGuid v q = m_groupGuid s q" "m_originalGroupGuid v q = m_originalGroupGuid s q" if "q \<noteq> p" for q
    using un same that by (simp_all add: unlinked_def)
  have d: "distinct (map fst (filter (\<lambda>r. fst r \<noteq> p) (member_refs s)))"
    using li by (simp add: links_ok_def distinct_map_filter)
  have ex: "\<exists>m\<in>set (m_memberSlots v). ms_guid m = q \<and> P m"
    if "\<exists>m\<in>set (m_memberSlots s). ms_guid m = q \<and> P m" "q \<noteq> p" for q P
    using that mem unfolding v(1) by blast
  show ?thesis
    unfolding links_ok_def
  proof (intro conjI allI)
    show "distinct (map fst (member_refs v))" using d same by simp
    show "(q, False) \<in> set (member_refs v) \<longleftrightarrow> m_groupGuid v q = m_Guid v" for q
      using li p(1) q(1)[of q] same by (cases "q = p") (simp_all add: links_ok_def)
    show "(q, True) \<in> set (member_refs v) \<longleftrightarrow> m_originalGroupGuid v q = m_Guid v" for q
      using li p(2) q(2)[of q] same by (cases "q = p") (simp_all add: links_ok_def)
    show "m_groupGuid v q = m_Guid v \<longrightarrow> (\<exists>m\<in>set (m_memberSlots v). ms_guid m = q \<and> ms_group m = m_subGroup v q)" for q
      using li p(1) q(1)[of q] same ex[of q "\<lambda>m. ms_group m = m_subGroup s q"] by (cases "q = p") (simp_all add: links_ok_def)
    show "m_originalGroupGuid v q = m_Guid v \<longrightarrow> (\<exists>m\<in>set (m_memberSlots v). ms_guid m = q \<and> ms_group m = m_originalSubGroup v q)" for q
      using li p(2) q(2)[of q] same ex[of q "\<lambda>m. ms_group m = m_originalSubGroup s q"] by (cases "q = p") (simp_all add: links_ok_def)
    show "\<forall>r\<in>set (member_refs v). in_world v (fst r)" using li same by (simp add: links_ok_def)
    show "\<forall>m\<in>set (m_memberSlots v). in_world v (ms_guid m) \<longrightarrow> ms_guid m \<in> fst ` set (member_refs v)"
    proof (intro ballI impI)
      fix x assume "x \<in> set (m_memberSlots v)" "in_world v (ms_guid x)"
      then have "ms_guid x \<in> fst ` set (member_refs s)" "ms_guid x \<noteq> p" using li mem v(1) same by (auto simp: links_ok_def)
      then show "ms_guid x \<in> fst ` set (member_refs v)" using same(7) by force
    qed
  qed
qed

lemma decrease_ok:
  assumes "roster_ok s" "m_memberSlots s = as @ m # bs" "m_memberSlots u = as @ m # bs"
    and "m_groupType u = m_groupType s" "roster_ok u"
  shows "\<exists>c. SubGroupCounterDecrease (ms_group m) u = Inr (u\<lparr>m_subGroupsCounts := c\<rparr>)
    \<and> c = (if isRaidGroup u then Some (counters (as @ bs)) else None)"
proof -
  have k8: "unat (ms_group m) < 8" using assms(5,3) by (simp add: roster_ok_def slots_ok_def)
  show ?thesis
  proof (cases "isRaidGroup u")
    case True
    then have c: "m_subGroupsCounts u = Some (counters (as @ m # bs))" using assms(3,5) by (simp add: roster_ok_def)
    have "(counters (as @ m # bs))[unat (ms_group m) := counters (as @ m # bs) ! unat (ms_group m) - 1] = counters (as @ bs)"
      by (rule counters_step[where f = "\<lambda>n. n - 1" and n = "count_group (as @ bs) (unat (ms_group m))"]) (use k8 in \<open>simp_all add: count_group_Cons\<close>)
    then show ?thesis using True c k8 by (simp add: SubGroupCounterDecrease_def count_step_def)
  next
    case False
    then have "m_subGroupsCounts u = None" using assms(5) by (simp add: roster_ok_def)
    then show ?thesis using False by (simp add: SubGroupCounterDecrease_def count_step_def)
  qed
qed

lemma erase_slot_ok:
  assumes ok: "group_ok s" and un: "unlinked p s u"
  shows "okR (\<lambda>v. group_ok v \<and> m_Guid v = m_Guid s \<and> in_world v = in_world s
           \<and> (if IsMember s p then Suc (GetMembersCount v) = GetMembersCount s else m_memberSlots v = m_memberSlots s)) (erase_slot p u)"
proof (cases "getMemberSlot u p")
  case None
  have ms: "m_memberSlots u = m_memberSlots s" using un by (simp add: unlinked_def)
  then have no: "\<not> IsMember s p" using None by (simp add: IsMember_def getMemberSlot_def)
  have "filter (\<lambda>r. fst r \<noteq> p) (member_refs s) = member_refs s"
    using not_member_unlinked(4)[OF ok no] by (auto simp: filter_id_conv)
  then have "links_ok u" using ok un not_member_unlinked(1,2)[OF ok no]
    by (simp add: group_ok_def links_ok_def unlinked_def) metis
  then have "group_ok u" using un by (simp add: group_ok_def unlinked_def)
  then show ?thesis using None no ms un by (auto simp: erase_slot_def unlinked_def)
next
  case (Some m)
  have ro: "roster_ok s" and li: "links_ok s" and ms: "m_memberSlots u = m_memberSlots s" and ru: "roster_ok u"
    using ok un by (simp_all add: group_ok_def unlinked_def)
  have d: "distinct (map ms_guid (m_memberSlots u))" using ru by (simp add: roster_ok_def slots_ok_def)
  obtain as bs where sp: "m_memberSlots u = as @ m # bs" "ms_guid m = p" "\<forall>x\<in>set as. ms_guid x \<noteq> p" "\<forall>x\<in>set bs. ms_guid x \<noteq> p"
    "erase_member p (m_memberSlots u) = as @ bs"
    using member_split[OF d Some] by metis
  obtain c where c: "SubGroupCounterDecrease (ms_group m) u = Inr (u\<lparr>m_subGroupsCounts := c\<rparr>)"
    "c = (if isRaidGroup u then Some (counters (as @ bs)) else None)"
    using decrease_ok[OF ro _ sp(1) _ ru] ms sp(1) un by (auto simp: unlinked_def)
  define v where "v = u\<lparr>m_subGroupsCounts := c, m_memberSlots := as @ bs\<rparr>"
  have so: "slots_ok (as @ bs)" using ru sp(1) slots_ok_erase[of as m bs] by (simp add: roster_ok_def)
  have flags: "isRaidGroup v = isRaidGroup u" "isLFDGroup v = isLFDGroup u" "m_groupType v = m_groupType u"
    "m_memberSlots v = as @ bs" "m_subGroupsCounts v = c"
    by (simp_all add: v_def isRaidGroup_def isLFDGroup_def)
  have "roster_ok v" using ru so c(2) sp(1) unfolding roster_ok_def flags by auto
  moreover have "plain_group v" using un by (auto simp: unlinked_def v_def plain_group_def)
  moreover have "links_ok v"
    by (rule links_erase[OF li un _ sp(2-4)]) (use sp(1) ms in \<open>simp_all add: v_def view_def\<close>)
  ultimately have "group_ok v" by (simp add: group_ok_def)
  moreover have "erase_slot p u = Inr v" using Some c(1) sp(5) by (simp add: erase_slot_def v_def)
  moreover have "IsMember s p" using Some ms by (simp add: IsMember_def getMemberSlot_def)
  moreover have "length (m_memberSlots s) = Suc (length (as @ bs))" using arg_cong[OF sp(1)[unfolded ms], of length] by simp
  moreover have "m_Guid v = m_Guid s" "in_world v = in_world s" "m_memberSlots v = as @ bs" using un by (simp_all add: v_def unlinked_def)
  ultimately show ?thesis by (simp add: GetMembersCount_def)
qed

lemma unlinked_rolls: "unlinked p s u \<Longrightarrow> unlinked p s (u\<lparr>m_rollIds := rs\<rparr>)"
  using roster_ok_cong[of "u\<lparr>m_rollIds := rs\<rparr>" u] by (auto simp: unlinked_def plain_group_def)

lemma removeMember_ok:
  assumes ok: "group_ok s" and e: "\<not> otherGroup env 0"
  shows "okR (\<lambda>(b, v). group_ok v \<and> m_Guid v = m_Guid s
           \<and> (if IsMember s p then Suc (GetMembersCount v) = GetMembersCount s else m_memberSlots v = m_memberSlots s)) (removeMember env p s)"
proof -
  obtain u where u: "(if in_world s p then unlink_member env p s else Inr s) = Inr u" "unlinked p s u"
    using unlink_ok[OF ok e] by (auto simp: okR_def)
  define r where "r = u\<lparr>m_rollIds := map (drop_vote p) (m_rollIds u)\<rparr>"
  have r: "removeRolls (lootEnv env) p u = Inr r" "unlinked p s r" using u(2) by (simp_all add: removeRolls_eq r_def unlinked_rolls)
  obtain v where v: "erase_slot p r = Inr v" "group_ok v" "m_Guid v = m_Guid s"
    "if IsMember s p then Suc (GetMembersCount v) = GetMembersCount s else m_memberSlots v = m_memberSlots s"
    using erase_slot_ok[OF ok r(2)] by (auto simp: okR_def)
  define w where "w = (if IsNeedSave v then say (DbDeleteMember p) v else v)"
  have vw: "group_ok x \<and> m_Guid x = m_Guid s
      \<and> (if IsMember s p then Suc (GetMembersCount x) = GetMembersCount s else m_memberSlots x = m_memberSlots s)"
    if "view x = view v" for x
    using v group_ok_view[OF that] that unfolding view_def GetMembersCount_def by simp
  have "view w = view v" "view (snd (ChangeLeaderToFirstSuitableMember env True w)) = view v" by (simp_all add: w_def)
  note w = vw[OF this(1)] vw[OF this(2)]
  have "removeMember env p s = Inr (m_leaderGuid w = p, if m_leaderGuid w = p \<and> 0 < GetMembersCount w
      then snd (ChangeLeaderToFirstSuitableMember env True w) else w)"
    using u(1) r(1) v(1) by (simp add: removeMember_def w_def[symmetric] Let_def)
  then show ?thesis using w by simp
qed

section \<open>The end of a group\<close>

lemma unlink_total:
  assumes "\<not> otherGroup env 0" "m_Guid s \<noteq> 0" "\<not> isBGGroup s"
  shows "okR (\<lambda>u. m_Guid u = m_Guid s \<and> \<not> isBGGroup u \<and> m_memberSlots u = m_memberSlots s) (unlink_member env p s)"
  using assms by (simp add: unlink_member_def SetOriginalGroup_def SetGroup_def group_exists_def isBGGroup_def Let_def)

lemma disband_member_ok:
  assumes "\<not> otherGroup env 0" "m_Guid s \<noteq> 0" "\<not> isBGGroup s"
  shows "okR (\<lambda>u. m_Guid u \<noteq> 0 \<and> \<not> isBGGroup u) (disband_member env h p s)"
proof (cases "in_world s p")
  case True
  have "m_Guid (clear_markers s) \<noteq> 0" "\<not> isBGGroup (clear_markers s)"
    using assms by (simp_all add: clear_markers_def isBGGroup_def)
  from unlink_total[OF assms(1) this, of p] obtain u where u: "unlink_member env p (clear_markers s) = Inr u" "m_Guid u \<noteq> 0" "\<not> isBGGroup u"
    using assms(2) by (auto simp: okR_def clear_markers_def)
  have v: "m_Guid x \<noteq> 0 \<and> \<not> isBGGroup x" if "view x = view u" for x
    using u that by (simp add: view_def isBGGroup_def)
  show ?thesis using True u(1) by (simp add: disband_member_def Let_def v)
qed (simp add: disband_member_def assms)

lemma Disband_ok:
  assumes "\<not> otherGroup env 0" "m_Guid s \<noteq> 0" "\<not> isBGGroup s"
  shows "okR (\<lambda>u. \<not> registered u \<and> m_memberSlots u = []) (Disband env h s)"
proof -
  have "okR (\<lambda>u. m_Guid u \<noteq> 0 \<and> \<not> isBGGroup u) (foldR (disband_member env h) (map ms_guid (m_memberSlots s)) s)"
    by (rule okR_foldR) (use assms disband_member_ok in auto)
  then obtain u where "foldR (disband_member env h) (map ms_guid (m_memberSlots s)) s = Inr u" by (auto simp: okR_def)
  then show ?thesis by (simp add: Disband_def Let_def RemoveAllInvites_def say_all_def)
qed

lemma party_ok_gone: "\<not> registered s \<Longrightarrow> party_ok s"
  by (simp add: party_ok_def)

lemma group_party: "group_ok s \<Longrightarrow> started s \<Longrightarrow> party_ok s"
  by (simp add: party_ok_def)

lemma group_ok_no_bg: "group_ok s \<Longrightarrow> m_Guid s \<noteq> 0 \<and> \<not> isBGGroup s"
  by (simp add: group_ok_def plain_group_def isBGGroup_def)

lemma view_removal [simp]:
  "view (before_removal p s) = view s" "view (tell_removed env p me s) = view s" "view (announce_leader env p f s) = view s"
  by (simp_all add: before_removal_def tell_removed_def announce_leader_def Let_def)

lemma RemoveMember_ok:
  assumes ok: "group_ok s" and st: "started s" and e: "\<not> otherGroup env 0"
  shows "okR (\<lambda>(n, v). party_ok v \<and> n = length (m_memberSlots v)) (RemoveMember env p method logout s)"
proof -
  define s1 where "s1 = before_removal p s"
  have "view s1 = view s" by (simp add: s1_def)
  then have ok1: "group_ok s1" and st1: "started s1" using ok st group_ok_view started_view by blast+
  show ?thesis
  proof (cases "logout \<and> IsLeader s1 p")
    case True
    then show ?thesis using group_party[OF ok1 st1] by (simp add: RemoveMember_def s1_def[symmetric])
  next
    case False
    show ?thesis
    proof (cases "(if isBGGroup s1 \<or> isLFDGroup s1 then 1 else 2) < GetMembersCount s1")
      case many: True
      obtain b v where v: "removeMember env p s1 = Inr (b, v)" "group_ok v"
        "if IsMember s1 p then Suc (GetMembersCount v) = GetMembersCount s1 else m_memberSlots v = m_memberSlots s1"
        using removeMember_ok[OF ok1 e, of p] by (auto simp: okR_def)
      have "1 < GetMembersCount s1" using many by (simp split: if_splits)
      then have "m_memberSlots v \<noteq> []" using v(3) by (auto simp: GetMembersCount_def split: if_splits)
      then obtain front rest where fr: "m_memberSlots v = front # rest" by (cases "m_memberSlots v") auto
      have x: "party_ok x \<and> m_memberSlots x = front # rest" if "view x = view v" for x
        using v(2) fr group_party[of x] group_ok_view[OF that] that by (simp add: view_def started_def)
      have "\<not> (logout \<and> IsLeader s1 p)" using False .
      then show ?thesis
        using many v(1) x[of "tell_removed env p method v"] by (simp only: RemoveMember_def s1_def[symmetric] Let_def if_False if_True) (simp add: x)
    next
      case few: False
      obtain u where "Disband env True s1 = Inr u" "\<not> registered u" using Disband_ok[OF e] group_ok_no_bg[OF ok1] by (auto simp: okR_def)
      then show ?thesis using False few
        by (simp only: RemoveMember_def s1_def[symmetric] Let_def if_False) (simp add: party_ok_gone)
    qed
  qed
qed

lemma delete_group_ok [simp]: "party_ok (delete_group s)"
  by (rule party_ok_gone) (simp add: delete_group_def say_def)

lemma RemoveFromGroup_ok:
  assumes ok: "group_ok s" and st: "started s" and e: "\<not> otherGroup env 0" and i: "in_this_group s p"
  shows "okR party_ok (RemoveFromGroup env p logout s)"
proof -
  obtain n v where "RemoveMember env p 0 logout s = Inr (n, v)" "party_ok v" using RemoveMember_ok[OF ok st e, of p 0 logout] by (auto simp: okR_def)
  then show ?thesis using i by (simp add: RemoveFromGroup_def)
qed

lemma UninviteFromGroup_ok:
  assumes ok: "group_ok s" and st: "started s" and e: "\<not> otherGroup env 0"
  shows "okR party_ok (UninviteFromGroup env p s)"
proof -
  have v: "group_ok x" "started x" if "view x = view s" for x using that ok st group_ok_view started_view by blast+
  have "group_ok (RemoveAllInvites (RemoveInvite p s))" by (rule v(1)) simp
  then obtain u where "Disband env True (RemoveAllInvites (RemoveInvite p s)) = Inr u"
    using Disband_ok[OF e, of "RemoveAllInvites (RemoveInvite p s)" True] group_ok_no_bg by (auto simp: okR_def)
  then show ?thesis using v by (simp add: UninviteFromGroup_def Let_def group_party)
qed

section \<open>Slots that change nothing but flags, roles and maps\<close>

definition placing :: "MemberSlot list \<Rightarrow> (ObjectGuid \<times> uint8) list" where
  "placing ms = map (\<lambda>m. (ms_guid m, ms_group m)) ms"

lemma placing_facts:
  "map ms_guid ms = map fst (placing ms)" "count_group ms k = length (filter (\<lambda>x. unat (snd x) = k) (placing ms))"
  "(\<exists>m\<in>set ms. ms_guid m = p \<and> ms_group m = g) \<longleftrightarrow> (p, g) \<in> set (placing ms)"
  "(\<forall>m\<in>set ms. P (ms_guid m) (ms_group m)) \<longleftrightarrow> (\<forall>x\<in>set (placing ms). P (fst x) (snd x))"
  by (auto simp: placing_def count_group_def filter_map comp_def)

lemma placing_group_ok:
  assumes pl: "placing ms = placing (m_memberSlots s)"
  shows "group_ok (s\<lparr>m_memberSlots := ms\<rparr>) = group_ok s"
proof -
  let ?ms = "m_memberSlots s"
  have c: "count_group ms = count_group ?ms" by (rule ext) (simp add: placing_facts(2) pl)
  have q: "(\<forall>m\<in>set ms. P (ms_guid m) (ms_group m)) = (\<forall>m\<in>set ?ms. P (ms_guid m) (ms_group m))" for P
    by (simp add: placing_facts(4) pl)
  have ex: "(\<exists>m\<in>set ms. ms_guid m = p \<and> ms_group m = g) = (\<exists>m\<in>set ?ms. ms_guid m = p \<and> ms_group m = g)" for p g
    by (simp add: placing_facts(3) pl)
  have d: "distinct (map ms_guid ms) = distinct (map ms_guid ?ms)" by (simp add: placing_facts(1) pl)
  have so: "slots_ok ms = slots_ok ?ms" unfolding slots_ok_def d c q[of "\<lambda>g k. g \<noteq> 0 \<and> unat k < 8"] ..
  have k: "counters ms = counters ?ms" by (simp add: counters_def c)
  have r: "roster_ok (s\<lparr>m_memberSlots := ms\<rparr>) = roster_ok s"
    using so k q[of "\<lambda>g k. k = 0"] by (simp add: roster_ok_def isRaidGroup_def isLFDGroup_def)
  have l: "links_ok (s\<lparr>m_memberSlots := ms\<rparr>) = links_ok s"
    using ex q[of "\<lambda>g k. in_world s g \<longrightarrow> g \<in> fst ` set (member_refs s)"] by (simp add: links_ok_def)
  have "plain_group (s\<lparr>m_memberSlots := ms\<rparr>) = plain_group s" by (simp add: plain_group_def)
  then show ?thesis unfolding group_ok_def r l by simp
qed

lemma placing_modify:
  "(\<And>m. ms_guid (f m) = ms_guid m \<and> ms_group (f m) = ms_group m) \<Longrightarrow> placing (modify_member g f ms) = placing ms"
proof -
  assume f: "\<And>m. ms_guid (f m) = ms_guid m \<and> ms_group (f m) = ms_group m"
  define tw dw where "tw = takeWhile (\<lambda>m. ms_guid m \<noteq> g) ms" and "dw = dropWhile (\<lambda>m. ms_guid m \<noteq> g) ms"
  then have "ms = tw @ dw" "modify_member g f ms = tw @ (case dw of [] \<Rightarrow> [] | m # rest \<Rightarrow> f m # rest)"
    by (simp_all add: modify_member_def)
  then show ?thesis using f by (cases dw) (simp_all add: placing_def)
qed

lemma flags_ok: "group_ok s \<Longrightarrow> group_ok (SetGroupUniqueFlag env g a b s)"
proof -
  assume ok: "group_ok s"
  have "placing (map (\<lambda>m. m\<lparr>ms_flags := F m\<rparr>) (m_memberSlots s)) = placing (m_memberSlots s)" for F
    by (simp add: placing_def)
  then have g: "group_ok (s\<lparr>m_memberSlots := map (\<lambda>m. m\<lparr>ms_flags := F m\<rparr>) (m_memberSlots s)\<rparr>)" for F
    using placing_group_ok ok by blast
  have v: "group_ok x" if "view x = view (s\<lparr>m_memberSlots := map (\<lambda>m. m\<lparr>ms_flags := F m\<rparr>) (m_memberSlots s)\<rparr>)" for x F
    using g group_ok_view[OF that] by simp
  show ?thesis
  proof (cases "3 \<le> a \<or> g = 0")
    case False
    show ?thesis unfolding SetGroupUniqueFlag_def Let_def if_not_P[OF False] by (rule v) simp
  qed (auto simp: SetGroupUniqueFlag_def ok)
qed

lemma modify_ok:
  assumes "group_ok s" "\<And>m. ms_guid (f m) = ms_guid m \<and> ms_group (f m) = ms_group m"
    and "view x = view (s\<lparr>m_memberSlots := modify_member g f (m_memberSlots s)\<rparr>)"
  shows "group_ok x"
proof -
  have "placing (modify_member g f (m_memberSlots s)) = placing (m_memberSlots s)" by (rule placing_modify) (rule assms(2))
  then show ?thesis using placing_group_ok group_ok_view[OF assms(3)] assms(1) by simp
qed

lemma roles_ok: "group_ok s \<Longrightarrow> group_ok (SetGroupRoles env g r s)"
  using modify_ok[of s "\<lambda>m. m\<lparr>ms_roles := r\<rparr>" "SetGroupRoles env g r s" g]
  by (cases "IsMember s g") (simp_all add: SetGroupRoles_def Let_def)

lemma map_ok: "group_ok s \<Longrightarrow> group_ok (snd (SetPlayerMap g k s))"
  using modify_ok[of s "\<lambda>m. m\<lparr>lastMap := k\<rparr>" "snd (SetPlayerMap g k s)" g]
  by (cases "IsMember s g") (simp_all add: SetPlayerMap_def)

section \<open>Another subgroup\<close>

lemma counters_move:
  fixes as bs :: "MemberSlot list"
  assumes k: "unat k < 8" and p: "unat (ms_group m) < 8"
  defines "c \<equiv> (counters (as @ m # bs))[unat k := counters (as @ m # bs) ! unat k + 1]"
  shows "c[unat (ms_group m) := c ! unat (ms_group m) - 1] = counters (as @ m\<lparr>ms_group := k\<rparr> # bs)"
proof -
  let ?x = "m\<lparr>ms_group := k\<rparr>"
  have c: "c = counters (?x # as @ m # bs)"
    unfolding c_def
  proof (rule counters_step[where f = "\<lambda>n. n + 1"])
    show "count_group (?x # as @ m # bs) (unat k) = Suc (count_group (as @ m # bs) (unat k))" by (simp add: count_group_Cons)
    show "(of_nat (count_group (as @ m # bs) (unat k)) :: uint8) + 1 = of_nat (Suc (count_group (as @ m # bs) (unat k)))"
      by (metis of_nat_Suc add.commute)
  qed (simp_all add: k count_group_Cons)
  show ?thesis
    unfolding c
    by (rule counters_step[where f = "\<lambda>n. n - 1" and n = "count_group (as @ ?x # bs) (unat (ms_group m))"])
      (use p in \<open>simp_all add: count_group_Cons\<close>)
qed

lemma slots_ok_move:
  assumes "slots_ok (as @ m # bs)" "unat k < 8" "count_group (as @ m # bs) (unat k) < 5"
  shows "slots_ok (as @ m\<lparr>ms_group := k\<rparr> # bs)"
proof -
  have "count_group (as @ m\<lparr>ms_group := k\<rparr> # bs) j \<le> 5" for j
  proof (cases "j = unat k")
    case True
    then show ?thesis using assms(3) by (simp add: count_group_Cons split: if_splits)
  next
    case False
    then have "count_group (as @ m\<lparr>ms_group := k\<rparr> # bs) j \<le> count_group (as @ m # bs) j" by (simp add: count_group_Cons)
    also have "\<dots> \<le> 5" using assms(1) by (simp add: slots_ok_def)
    finally show ?thesis .
  qed
  then show ?thesis using assms(1,2) by (simp add: slots_ok_def)
qed

lemma regroup_ok:
  assumes ok: "group_ok s" and raid: "isRaidGroup s" and k: "unat k < 8" and room: "count_group (m_memberSlots s) (unat k) < 5"
    and sp: "m_memberSlots s = as @ m # bs" "ms_guid m = p" "\<forall>x\<in>set as. ms_guid x \<noteq> p" "\<forall>x\<in>set bs. ms_guid x \<noteq> p"
    and sg: "\<forall>q. q \<noteq> p \<longrightarrow> sg q = m_subGroup s q \<and> osg q = m_originalSubGroup s q"
      "m_groupGuid s p = m_Guid s \<longrightarrow> sg p = k" "m_originalGroupGuid s p = m_Guid s \<longrightarrow> osg p = k"
  shows "group_ok (s\<lparr>m_memberSlots := as @ m\<lparr>ms_group := k\<rparr> # bs, m_subGroupsCounts := Some (counters (as @ m\<lparr>ms_group := k\<rparr> # bs)),
            m_subGroup := sg, m_originalSubGroup := osg\<rparr>)" (is "group_ok ?s")
proof -
  have ro: "roster_ok s" and li: "links_ok s" and pl: "plain_group s" using ok by (simp_all add: group_ok_def)
  have "slots_ok (as @ m\<lparr>ms_group := k\<rparr> # bs)" using slots_ok_move ro room k sp(1) by (simp add: roster_ok_def)
  then have "roster_ok ?s" using raid by (simp add: roster_ok_def isRaidGroup_def)
  note ro' = this
  have ex: "\<exists>x\<in>set (as @ m\<lparr>ms_group := k\<rparr> # bs). ms_guid x = q \<and> ms_group x = j"
    if "\<exists>x\<in>set (m_memberSlots s). ms_guid x = q \<and> ms_group x = j'" "if q = p then j = k else j' = j" for q j j'
    using that sp by (cases "q = p") auto
  have g1: "\<exists>x\<in>set (m_memberSlots s). ms_guid x = q \<and> ms_group x = m_subGroup s q" if "m_groupGuid s q = m_Guid s" for q
    using li that by (simp add: links_ok_def)
  have g2: "\<exists>x\<in>set (m_memberSlots s). ms_guid x = q \<and> ms_group x = m_originalSubGroup s q" if "m_originalGroupGuid s q = m_Guid s" for q
    using li that by (simp add: links_ok_def)
  have h1: "\<exists>x\<in>set (as @ m\<lparr>ms_group := k\<rparr> # bs). ms_guid x = q \<and> ms_group x = sg q" if "m_groupGuid s q = m_Guid s" for q
    by (rule ex[OF g1[OF that]]) (use sg(1,2) that in \<open>cases "q = p"; force\<close>)
  have h2: "\<exists>x\<in>set (as @ m\<lparr>ms_group := k\<rparr> # bs). ms_guid x = q \<and> ms_group x = osg q" if "m_originalGroupGuid s q = m_Guid s" for q
    by (rule ex[OF g2[OF that]]) (use sg(1,3) that in \<open>cases "q = p"; force\<close>)
  have mem: "\<forall>x\<in>set (as @ m\<lparr>ms_group := k\<rparr> # bs). in_world s (ms_guid x) \<longrightarrow> ms_guid x \<in> fst ` set (member_refs s)"
    using li sp(1) by (simp add: links_ok_def)
  have sel: "m_memberSlots ?s = as @ m\<lparr>ms_group := k\<rparr> # bs" "m_groupGuid ?s = m_groupGuid s" "m_originalGroupGuid ?s = m_originalGroupGuid s"
    "m_Guid ?s = m_Guid s" "m_subGroup ?s = sg" "m_originalSubGroup ?s = osg" "in_world ?s = in_world s" "member_refs ?s = member_refs s"
    by simp_all
  have "links_ok ?s"
    unfolding links_ok_def sel
  proof (intro conjI)
    show "\<forall>q. m_groupGuid s q = m_Guid s \<longrightarrow> (\<exists>x\<in>set (as @ m\<lparr>ms_group := k\<rparr> # bs). ms_guid x = q \<and> ms_group x = sg q)"
      by (intro allI impI) (rule h1)
    show "\<forall>q. m_originalGroupGuid s q = m_Guid s \<longrightarrow> (\<exists>x\<in>set (as @ m\<lparr>ms_group := k\<rparr> # bs). ms_guid x = q \<and> ms_group x = osg q)"
      by (intro allI impI) (rule h2)
    show "\<forall>x\<in>set (as @ m\<lparr>ms_group := k\<rparr> # bs). in_world s (ms_guid x) \<longrightarrow> ms_guid x \<in> fst ` set (member_refs s)" by (rule mem)
  qed (use li in \<open>simp_all add: links_ok_def\<close>)
  moreover have "plain_group ?s" using pl by (simp add: plain_group_def)
  ultimately show ?thesis using ro' by (simp add: group_ok_def)
qed

lemma setMembersGroup_eq:
  fixes as bs :: "MemberSlot list"
  assumes ok: "group_ok s" and raid: "isRaidGroup s" and k: "unat k < 8"
    and sp: "m_memberSlots s = as @ m # bs" "modify_member p (\<lambda>m. m\<lparr>ms_group := k\<rparr>) (m_memberSlots s) = as @ m\<lparr>ms_group := k\<rparr> # bs" "IsMember s p"
  defines "c \<equiv> (counters (as @ m # bs))[unat k := counters (as @ m # bs) ! unat k + 1]"
  shows "\<exists>es. setMembersGroup p k s = Inr (True, say_all es (s\<lparr>m_memberSlots := as @ m\<lparr>ms_group := k\<rparr> # bs, m_subGroupsCounts := Some c\<rparr>))"
proof -
  have "m_subGroupsCounts s = Some (counters (as @ m # bs))" using ok raid sp(1) by (simp add: group_ok_def roster_ok_def)
  then have "setMembersGroup p k s = Inr (True, let s = s\<lparr>m_memberSlots := as @ m\<lparr>ms_group := k\<rparr> # bs, m_subGroupsCounts := Some c\<rparr>
      in if IsNeedSave s then say (DbUpdateSubgroup p k) s else s)"
    using k sp by (simp add: setMembersGroup_def SubGroupCounterIncrease_def count_step_def c_def)
  moreover have "say e x = say_all [e] x" "x = say_all [] x" for e and x :: Party by (simp_all add: say_def say_all_def)
  ultimately show ?thesis unfolding Let_def by (cases "IsNeedSave (s\<lparr>m_memberSlots := as @ m\<lparr>ms_group := k\<rparr> # bs, m_subGroupsCounts := Some c\<rparr>)") (simp, metis, simp, metis)
qed

lemma ChangeMembersGroup_player_ok:
  assumes ok: "group_ok s" and k: "unat k < 8" and room: "isRaidGroup s \<Longrightarrow> count_group (m_memberSlots s) (unat k) < 5"
    and w: "in_world s p"
  shows "okR group_ok (ChangeMembersGroup_player env p k s)"
proof (cases "isRaidGroup s \<and> m_subGroup s p \<noteq> k \<and> IsMember s p")
  case False
  then show ?thesis using ok by (auto simp: ChangeMembersGroup_player_def setMembersGroup_def)
next
  case True
  have ro: "roster_ok s" and li: "links_ok s" using ok by (simp_all add: group_ok_def)
  have d: "distinct (map ms_guid (m_memberSlots s))" using ro by (simp add: roster_ok_def slots_ok_def)
  obtain m where m: "getMemberSlot s p = Some m" using True by (auto simp: IsMember_def)
  obtain as bs where sp: "m_memberSlots s = as @ m # bs" "ms_guid m = p" "\<forall>x\<in>set as. ms_guid x \<noteq> p" "\<forall>x\<in>set bs. ms_guid x \<noteq> p"
    "modify_member p (\<lambda>m. m\<lparr>ms_group := k\<rparr>) (m_memberSlots s) = as @ m\<lparr>ms_group := k\<rparr> # bs"
    using member_split[OF d m] by metis
  define c where "c = (counters (as @ m # bs))[unat k := counters (as @ m # bs) ! unat k + 1]"
  obtain es where set: "setMembersGroup p k s = Inr (True, say_all es (s\<lparr>m_memberSlots := as @ m\<lparr>ms_group := k\<rparr> # bs, m_subGroupsCounts := Some c\<rparr>))"
    using setMembersGroup_eq[OF ok _ k sp(1,5)] True by (auto simp: c_def)
  have m8: "unat (ms_group m) < 8" using ro sp(1) by (simp add: roster_ok_def slots_ok_def)
  note mv = counters_move[OF k m8, of as bs, folded c_def]
  have uniq: "x = m" if "x \<in> set (m_memberSlots s)" "ms_guid x = p" for x using that sp by auto
  define sg where "sg = (if m_groupGuid s p = m_Guid s then (m_subGroup s)(p := k) else m_subGroup s)"
  define osg where "osg = (if m_groupGuid s p = m_Guid s then m_originalSubGroup s else (m_originalSubGroup s)(p := k))"
  have not_both: "m_groupGuid s p = m_Guid s \<Longrightarrow> m_originalGroupGuid s p \<noteq> m_Guid s"
    using li unfolding links_ok_def by (metis eq_key_imp_eq_value)
  define x where "x = s\<lparr>m_memberSlots := as @ m\<lparr>ms_group := k\<rparr> # bs, m_subGroupsCounts := Some (counters (as @ m\<lparr>ms_group := k\<rparr> # bs)),
      m_subGroup := sg, m_originalSubGroup := osg\<rparr>"
  have gx: "group_ok x"
    unfolding x_def by (rule regroup_ok[OF ok _ k _ sp(1-4)]) (use True room not_both in \<open>auto simp: sg_def osg_def\<close>)
  have linked: "m_groupGuid s p = m_Guid s \<or> m_originalGroupGuid s p = m_Guid s"
  proof -
    have "p \<in> fst ` set (member_refs s)" using li w sp(1,2) by (auto simp: links_ok_def)
    then obtain b where "(p, b) \<in> set (member_refs s)" by auto
    then show ?thesis using li by (cases b) (auto simp: links_ok_def)
  qed
  have prev: "(if m_groupGuid s p = m_Guid s then m_subGroup s p else m_originalSubGroup s p) = ms_group m"
    using linked li uniq unfolding links_ok_def by metis
  have vx: "group_ok y" if "view y = view x" for y using gx group_ok_view[OF that] by simp
  show ?thesis
    using True set prev m8 by (cases "m_groupGuid s p = m_Guid s")
      (auto simp: ChangeMembersGroup_player_def SubGroupCounterDecrease_def count_step_def say_all_def c_def[symmetric] mv
        intro!: vx, simp_all add: view_def x_def sg_def osg_def c_def)
qed

end
