(* ===== verification/GroupSteps.thy ===== *)
theory GroupSteps
  imports GroupInvariant
begin

text \<open>
  The life of a group as a transition system: what clients ask (GroupHandlers), what the dungeon finder,
  the maps and the world's clock ask, and players that log in and out, in any order and any environment.
  Every admissible request succeeds and keeps the invariant of GroupInvariant.
\<close>

section \<open>Subgroups and types\<close>

lemma resize_started:
  "length (m_memberSlots s') = length (m_memberSlots s) \<Longrightarrow> m_groupType s' = m_groupType s \<Longrightarrow> started s' = started s"
  by (auto simp: started_def isRaidGroup_def)

lemma ChangeMembersGroup_ok:
  assumes ok: "group_ok s" and k: "unat k < 8" and room: "isRaidGroup s \<Longrightarrow> count_group (m_memberSlots s) (unat k) < 5"
  shows "okR group_ok (ChangeMembersGroup env p k s)"
proof (cases "isRaidGroup s \<and> \<not> in_world s p \<and> GetMemberGroup s p \<noteq> k \<and> IsMember s p")
  case False
  then show ?thesis using ok ChangeMembersGroup_player_ok[OF ok k room] by (auto simp: ChangeMembersGroup_def setMembersGroup_def Let_def)
next
  case True
  have ro: "roster_ok s" and li: "links_ok s" using ok by (simp_all add: group_ok_def)
  have d: "distinct (map ms_guid (m_memberSlots s))" using ro by (simp add: roster_ok_def slots_ok_def)
  obtain m where m: "getMemberSlot s p = Some m" using True by (auto simp: IsMember_def)
  obtain as bs where sp: "m_memberSlots s = as @ m # bs" "ms_guid m = p" "\<forall>x\<in>set as. ms_guid x \<noteq> p" "\<forall>x\<in>set bs. ms_guid x \<noteq> p"
    "modify_member p (\<lambda>m. m\<lparr>ms_group := k\<rparr>) (m_memberSlots s) = as @ m\<lparr>ms_group := k\<rparr> # bs"
    using member_split[OF d m] by metis
  define c where "c = (counters (as @ m # bs))[unat k := counters (as @ m # bs) ! unat k + 1]"
  obtain es where set: "setMembersGroup p k s = Inr (True, say_all es (s\<lparr>m_memberSlots := as @ m\<lparr>ms_group := k\<rparr> # bs, m_subGroupsCounts := Some c\<rparr>))"
    using setMembersGroup_eq[OF ok _ k sp(1,5)] True by (auto simp: c_def)
  have m8: "unat (ms_group m) < 8" using ro sp(1) by (simp add: roster_ok_def slots_ok_def)
  note mv = counters_move[OF k m8, of as bs, folded c_def]
  define x where "x = s\<lparr>m_memberSlots := as @ m\<lparr>ms_group := k\<rparr> # bs, m_subGroupsCounts := Some (counters (as @ m\<lparr>ms_group := k\<rparr> # bs)),
      m_subGroup := m_subGroup s, m_originalSubGroup := m_originalSubGroup s\<rparr>"
  have away: "m_groupGuid s p \<noteq> m_Guid s" "m_originalGroupGuid s p \<noteq> m_Guid s"
    using li True unfolding links_ok_def by (metis fst_conv)+
  have gx: "group_ok x"
    unfolding x_def by (rule regroup_ok[OF ok _ k _ sp(1-4)]) (use True room away in auto)
  have vx: "group_ok y" if "view y = view x" for y using gx group_ok_view[OF that] by simp
  show ?thesis
    using True set m m8
    by (auto simp: ChangeMembersGroup_def GetMemberGroup_def SubGroupCounterDecrease_def count_step_def say_all_def Let_def c_def[symmetric] mv
        intro!: vx) (simp_all add: view_def x_def c_def)
qed

lemma or_and_self: "(t OR k) AND k = (k :: uint8)"
  by (simp add: bit_eq_iff bit_simps)

lemma slots_nonraid: "roster_ok s \<Longrightarrow> slots_ok (m_memberSlots s)"
  by (simp add: roster_ok_def)

lemma retyped_ok:
  assumes "group_ok s" "m_memberSlots x = m_memberSlots s"
    and "(if isRaidGroup x then m_subGroupsCounts x = Some (counters (m_memberSlots x))
        else m_subGroupsCounts x = None \<and> (m_groupType x = 0 \<or> isLFDGroup x) \<and> (\<forall>m\<in>set (m_memberSlots x). ms_group m = 0))"
    and "view (x\<lparr>m_groupType := 0, m_subGroupsCounts := None\<rparr>) = view (s\<lparr>m_groupType := 0, m_subGroupsCounts := None\<rparr>)"
  shows "group_ok x"
proof -
  have "roster_ok x" using assms(1-3) by (simp add: group_ok_def roster_ok_def)
  moreover have "plain_group x" "links_ok x" using assms(1,4) by (simp_all add: group_ok_def view_def plain_group_def links_ok_def)
  ultimately show ?thesis by (simp add: group_ok_def)
qed

lemma ConvertToRaid_ok:
  assumes ok: "group_ok s" and ms: "m_memberSlots s \<noteq> []"
  shows "okR (\<lambda>x. group_ok x \<and> started x \<and> isRaidGroup x \<and> m_memberSlots x \<noteq> []) (ConvertToRaid env s)"
proof -
  let ?t = "m_groupType s OR 2"
  define x where "x = s\<lparr>m_groupType := ?t, m_subGroupsCounts := Some (counters (m_memberSlots s))\<rparr>"
  have "\<forall>m\<in>set (m_memberSlots s). unat (ms_group m) < 8" using ok by (simp add: group_ok_def roster_ok_def slots_ok_def)
  then have init: "initRaidSubGroupsCounter (s\<lparr>m_groupType := ?t\<rparr>) = Inr x"
    by (simp add: initRaidSubGroupsCounter_def x_def counters_def del: upt_rec_numeral)
  have raid: "isRaidGroup x" by (simp add: x_def isRaidGroup_def or_and_self)
  have gx: "group_ok x" by (rule retyped_ok[OF ok]) (use raid in \<open>simp_all add: x_def view_def\<close>)
  have v: "group_ok y \<and> started y \<and> isRaidGroup y \<and> m_memberSlots y \<noteq> []" if "view y = view x" for y
    using gx raid ms that group_ok_view[OF that] by (simp add: view_def started_def isRaidGroup_def x_def)
  show ?thesis unfolding ConvertToRaid_def init bindR_simps Let_def okR_Inr by (rule v) simp
qed

lemma lfd_bits: "(t OR 8) AND 8 \<noteq> (0 :: uint8)" "(t OR (8 OR 4)) AND 8 \<noteq> (0 :: uint8)"
  "((t OR 8) AND 2 = 0) = (t AND 2 = (0 :: uint8))" "((t OR (8 OR 4)) AND 2 = 0) = (t AND 2 = (0 :: uint8))"
proof -
  have "(t OR 8) AND 2 = t AND 2" "(t OR (8 OR 4)) AND 2 = t AND 2"
    by (simp_all add: bit.conj_disj_distrib2)
  then show "((t OR 8) AND 2 = 0) = (t AND 2 = (0 :: uint8))" "((t OR (8 OR 4)) AND 2 = 0) = (t AND 2 = (0 :: uint8))"
    by simp_all
  show "(t OR 8) AND 8 \<noteq> (0 :: uint8)" by (simp add: or_and_self)
  have "bit ((t OR (8 OR 4)) AND 8 :: uint8) 3" by (simp add: bit_simps)
  then show "(t OR (8 OR 4)) AND 8 \<noteq> (0 :: uint8)" by (metis bit_0_eq bot_apply bot_bool_def)
qed

lemma ConvertToLFG_ok:
  assumes ok: "group_ok s" and ms: "m_memberSlots s \<noteq> []"
  shows "okR (\<lambda>(b, x). group_ok x \<and> started x) (ConvertToLFG env ty s)"
proof -
  have st: "started s" using ms by (simp add: started_def)
  have conv: "group_ok y \<and> started y"
    if x: "group_ok x" "m_memberSlots x \<noteq> []" and f: "f = 8 \<or> f = 8 OR 4"
      and y: "view y = view (x\<lparr>m_groupType := m_groupType x OR f\<rparr>)" for x y f
  proof -
    have "isLFDGroup (x\<lparr>m_groupType := m_groupType x OR f\<rparr>)" "isRaidGroup (x\<lparr>m_groupType := m_groupType x OR f\<rparr>) = isRaidGroup x"
      using f lfd_bits by (auto simp: isLFDGroup_def isRaidGroup_def)
    then have "group_ok (x\<lparr>m_groupType := m_groupType x OR f\<rparr>)"
      by (intro retyped_ok[OF x(1)]) (use x(1) in \<open>simp_all add: group_ok_def roster_ok_def view_def\<close>)
    then show ?thesis using group_ok_view[OF y] y x(2) by (simp add: view_def started_def)
  qed
  define tail where "tail = (\<lambda>x. (let s = x\<lparr>m_groupType := m_groupType x OR (if ty = 6 then 8 OR 4 else 8), m_lootMethod := NEED_BEFORE_GREED\<rparr>;
                 s = SendUpdate env s
             in (True, if IsNeedSave s then say (DbUpdateGroupType (m_groupType s)) s else s)))"
  have tail: "case tail x of (b, y) \<Rightarrow> group_ok y \<and> started y" if "group_ok x" "m_memberSlots x \<noteq> []" for x
    unfolding tail_def Let_def prod.case by (rule conv[OF that, of "if ty = 6 then 8 OR 4 else 8"]) simp_all
  have eq: "ConvertToLFG env ty s =
     (if isBGGroup s \<or> ty = 0 \<or> 7 \<le> ty then Inr (False, s)
      else if ty \<noteq> 2 \<and> isRaidGroup s then Inr (False, s)
      else bindR (if ty = 2 \<and> \<not> isRaidGroup s then ConvertToRaid env s else Inr s) (\<lambda>x. Inr (tail x)))"
    by (simp add: ConvertToLFG_def tail_def Let_def)
  have "okR (\<lambda>x. group_ok x \<and> m_memberSlots x \<noteq> []) (if ty = 2 \<and> \<not> isRaidGroup s then ConvertToRaid env s else Inr s)"
    using okR_mono[OF ConvertToRaid_ok[OF ok ms, of env], of "\<lambda>x. group_ok x \<and> m_memberSlots x \<noteq> []"] ok ms by simp
  then have "okR (\<lambda>(b, x). group_ok x \<and> started x)
      (bindR (if ty = 2 \<and> \<not> isRaidGroup s then ConvertToRaid env s else Inr s) (\<lambda>x. Inr (tail x)))"
    by (rule okR_bind) (use tail in simp)
  then show ?thesis unfolding eq using ok st by simp
qed

section \<open>Operations that leave the roster alone\<close>

lemma party_view: "party_ok s \<Longrightarrow> view x = view s \<Longrightarrow> party_ok x"
  using party_ok_view by blast

lemma live: "party_ok s \<Longrightarrow> registered s \<Longrightarrow> group_ok s \<and> started s"
  by (simp add: party_ok_def)

lemma live_member: "party_ok s \<Longrightarrow> in_this_group s p \<Longrightarrow> group_ok s \<and> started s"
  by (simp add: live in_this_group_def)

lemma view_fold: "(\<And>x s. view (f x s) = view s) \<Longrightarrow> view (fold f xs s) = view s"
  by (induction xs arbitrary: s) simp_all

lemma view_icons [simp]:
  "view (SetTargetIcon env k who g s) = view s" "view (SendTargetIconList p s) = view s"
  "view (SetRaidMarker env k g u s) = view s" "view (ClearRaidMarker env g s) = view s"
proof -
  have "view (s\<lparr>m_raidMarkers := ms\<rparr>) = view s" for ms and s by (simp add: view_def)
  then show "view (SetRaidMarker env k g u s) = view s" "view (ClearRaidMarker env g s) = view s"
    by (simp_all add: SetRaidMarker_def ClearRaidMarker_def SendRaidMarkerUpdate_def Let_def split: option.split)
  have set: "view (set_icon env k who g s) = view s" for k who g s by (simp add: set_icon_def)
  have "view (fold (clean_icon env g) ks s) = view s" for ks by (rule view_fold) (simp add: clean_icon_def set)
  then show "view (SetTargetIcon env k who g s) = view s" by (simp add: SetTargetIcon_def set)
qed (simp add: SendTargetIconList_def)

lemma view_loot [simp]: "view (UpdateLooterGuid env b s) = view s"
  by (simp add: UpdateLooterGuid_def take_turn_def Let_def split: option.split)

lemma view_ready [simp]: "view (HandleRaidReadyCheck env me answer s) = view s"
proof -
  have ready: "view (BroadcastReadyCheck op d s) = view s" for op d s by (simp add: BroadcastReadyCheck_def)
  have "view (OfflineReadyCheck s) = view s" for s unfolding OfflineReadyCheck_def by (rule view_fold) (simp add: ready)
  then show ?thesis by (simp add: HandleRaidReadyCheck_def ready split: option.split)
qed

lemma view_requests [simp]:
  "view (HandleGroupSetLeader env me g s) = view s" "view (HandleLootMethod env me method g th s) = view s"
  "view (HandleRaidTargetUpdate env me x g s) = view s"
  by (simp_all add: HandleGroupSetLeader_def HandleLootMethod_def HandleRaidTargetUpdate_def)

section \<open>Members that change\<close>

lemma length_modify [simp]: "length (modify_member g f ms) = length ms"
proof -
  have "length ms = length (takeWhile (\<lambda>m. ms_guid m \<noteq> g) ms) + length (dropWhile (\<lambda>m. ms_guid m \<noteq> g) ms)"
    by (metis length_append takeWhile_dropWhile_id)
  then show ?thesis by (simp add: modify_member_def split: list.split)
qed

lemma started_slots: "started s \<Longrightarrow> view x = view (s\<lparr>m_memberSlots := ms\<rparr>) \<Longrightarrow> length ms = length (m_memberSlots s) \<Longrightarrow> started x"
  by (auto simp: view_def started_def isRaidGroup_def)

lemma started_modify:
  "started s \<Longrightarrow> view x = view (s\<lparr>m_memberSlots := modify_member g f (m_memberSlots s)\<rparr>) \<Longrightarrow> started x"
  using started_slots[of s x "modify_member g f (m_memberSlots s)"] by simp

lemma flags_view: "\<exists>F. view (SetGroupUniqueFlag env g a b s) = view (s\<lparr>m_memberSlots := map (\<lambda>m. m\<lparr>ms_flags := F m\<rparr>) (m_memberSlots s)\<rparr>)"
proof (cases "3 \<le> a \<or> g = 0")
  case True
  then show ?thesis by (intro exI[of _ ms_flags]) (auto simp: SetGroupUniqueFlag_def)
next
  case False
  have v: "\<exists>F. view x = view (s\<lparr>m_memberSlots := map (\<lambda>m. m\<lparr>ms_flags := F m\<rparr>) (m_memberSlots s)\<rparr>)"
    if "view x = view (s\<lparr>m_memberSlots := map (\<lambda>m. m\<lparr>ms_flags := F m\<rparr>) (m_memberSlots s)\<rparr>)" for x F
    using that by blast
  show ?thesis unfolding SetGroupUniqueFlag_def Let_def if_not_P[OF False] by (rule v) simp
qed

lemma flags_party: "party_ok s \<Longrightarrow> party_ok (SetGroupUniqueFlag env g a b s)"
proof -
  assume ok: "party_ok s"
  obtain F where F: "view (SetGroupUniqueFlag env g a b s) = view (s\<lparr>m_memberSlots := map (\<lambda>m. m\<lparr>ms_flags := F m\<rparr>) (m_memberSlots s)\<rparr>)"
    using flags_view by blast
  then have "registered (SetGroupUniqueFlag env g a b s) = registered s" by (simp add: view_def)
  then show ?thesis using ok flags_ok started_slots[OF _ F] by (simp add: party_ok_def)
qed

lemma roles_party: "party_ok s \<Longrightarrow> party_ok (SetGroupRoles env g r s)"
proof -
  assume ok: "party_ok s"
  have "started (SetGroupRoles env g r s)" if "started s"
    using that started_modify[of s "SetGroupRoles env g r s" g "\<lambda>m. m\<lparr>ms_roles := r\<rparr>"]
    by (cases "IsMember s g") (simp_all add: SetGroupRoles_def Let_def)
  moreover have "registered (SetGroupRoles env g r s) = registered s"
    by (simp add: SetGroupRoles_def Let_def SendUpdate_def say_all_def say_def)
  ultimately show ?thesis using ok roles_ok by (simp add: party_ok_def)
qed

lemma map_party: "party_ok s \<Longrightarrow> party_ok (snd (SetPlayerMap g k s))"
proof -
  assume ok: "party_ok s"
  have "started (snd (SetPlayerMap g k s))" if "started s"
    using that started_modify[of s "snd (SetPlayerMap g k s)" g "\<lambda>m. m\<lparr>lastMap := k\<rparr>"]
    by (cases "IsMember s g") (simp_all add: SetPlayerMap_def)
  moreover have "registered (snd (SetPlayerMap g k s)) = registered s" by (simp add: SetPlayerMap_def)
  ultimately show ?thesis using ok map_ok by (simp add: party_ok_def)
qed

lemma assistants_party:
  "party_ok s \<Longrightarrow> party_ok (HandleGroupAssistantLeader env me g a s)" "party_ok s \<Longrightarrow> party_ok (HandlePartyAssignment env me role a g s)"
  by (simp_all add: HandleGroupAssistantLeader_def HandlePartyAssignment_def flags_party)

section \<open>Joining\<close>

lemma core_link:
  assumes "link_new_member env p k s = Inr x"
  shows "m_groupType x = m_groupType s \<and> m_memberSlots x = m_memberSlots s \<and> registered x = registered s"
proof -
  have set: "SetGroup env p g k y = Inr z \<Longrightarrow> m_groupType z = m_groupType y \<and> m_memberSlots z = m_memberSlots y \<and> registered z = registered y"
    "SetOriginalGroup env p g k y = Inr z \<Longrightarrow> m_groupType z = m_groupType y \<and> m_memberSlots z = m_memberSlots y \<and> registered z = registered y" for g k y z
    by (auto simp: SetGroup_def SetOriginalGroup_def Let_def split: if_splits)
  then have "SetBattleGroundRaid env p g k y = Inr z \<Longrightarrow> m_groupType z = m_groupType y \<and> m_memberSlots z = m_memberSlots y \<and> registered z = registered y" for g k y z
    by (auto simp: SetBattleGroundRaid_def split: if_splits)
  note set = set this
  let ?s = "SetGroupInvite p 0 s"
  obtain y where y: "(if group_exists env ?s (m_groupGuid ?s p) \<and> isBGGroup ?s then SetBattleGroundRaid env p (m_Guid ?s) k ?s
      else if group_exists env ?s (m_groupGuid ?s p) then SetOriginalGroup env p (m_Guid ?s) k ?s else SetGroup env p (m_Guid ?s) k ?s) = Inr y"
    and x: "x = (if in_world y p then say (CheckInstanceBind p) y else y)"
    using assms unfolding link_new_member_def Let_def by auto
  have "m_groupType y = m_groupType ?s \<and> m_memberSlots y = m_memberSlots ?s \<and> registered y = registered ?s" using y set by (meson)
  then show ?thesis using x by (simp add: say_def SetGroupInvite_def)
qed

definition grown :: "Party \<Rightarrow> Party \<Rightarrow> bool" where
  "grown s x \<longleftrightarrow> m_groupType x = m_groupType s \<and> registered x = registered s \<and> length (m_memberSlots s) \<le> length (m_memberSlots x)"

lemma grown_started: "grown s x \<Longrightarrow> started s \<Longrightarrow> started x"
  by (auto simp: grown_def started_def isRaidGroup_def)

lemma grown_trans: "grown s x \<Longrightarrow> grown x y \<Longrightarrow> grown s y"
  by (simp add: grown_def)

lemma grown_view: "view x = view s \<Longrightarrow> grown s x"
  by (simp add: grown_def view_def)

lemma grown_addMember_at:
  assumes "addMember_at env g name grp flags roles s = Inr (b, x)"
  shows "grown s x"
proof (cases "IsFull s \<or> g = 0 \<or> \<not> IsPlayer g")
  case True
  then show ?thesis using assms by (auto simp: addMember_at_def grown_def)
next
  case False
  define s1 where "s1 = s\<lparr>m_memberSlots := m_memberSlots s @ [\<lparr>ms_guid = g, ms_name = name, ms_group = grp, ms_flags = flags,
     ms_roles = roles, lastMap = (if known_player s g then mapOf env g else 0)\<rparr>]\<rparr>"
  obtain s2 s3 where s: "SubGroupCounterIncrease grp s1 = Inr s2"
      "(if known_player s2 g then link_new_member env g grp s2 else Inr s2) = Inr s3"
    and x: "(let s = (if \<not> isRaidGroup s3 then s3\<lparr>m_targetIcons := replicate TARGET_ICON_COUNT 0\<rparr> else s3)
        in if IsNeedSave s then say (DbInsertMember g flags grp roles) s else s) = x"
    using assms False by (auto simp: addMember_at_def s1_def[symmetric] Let_def)
  have "grown s s1" by (simp add: grown_def s1_def)
  moreover have "grown s1 s2" using s(1) by (auto simp: SubGroupCounterIncrease_def count_step_def grown_def split: option.splits if_splits)
  moreover have "grown s2 s3" using s(2) core_link by (auto simp: grown_def split: if_splits)
  moreover have "grown s3 x" by (rule grown_view) (simp add: x[symmetric] Let_def)
  ultimately show ?thesis using grown_trans by blast
qed

lemma grown_AddMember: "AddMember env g name s = Inr (b, x) \<Longrightarrow> grown s x"
proof -
  assume a: "AddMember env g name s = Inr (b, x)"
  show ?thesis
  proof (cases "IsMember s g")
    case False
    then obtain c y where y: "addMember env g name s = Inr (c, y)"
      "view x = view y"
      using a by (auto simp: AddMember_def Let_def split: if_splits)
    then have "grown s y" using grown_addMember_at by (auto simp: addMember_def Let_def grown_def split: option.splits)
    then show ?thesis using grown_view[OF y(2)] grown_trans by blast
  qed (use a in \<open>simp add: AddMember_def grown_def\<close>)
qed

lemma AddMember_live: "group_ok s \<Longrightarrow> started s \<Longrightarrow> okR (\<lambda>(b, x). group_ok x \<and> started x) (AddMember env g name s)"
  using AddMember_ok[of s env g name] grown_AddMember[of env g name s] grown_started[of s] by (auto simp: okR_def)

lemma Create_ok:
  assumes ok: "group_ok s" and st: "started s" and ms: "m_memberSlots s = []"
  shows "okR (\<lambda>(b, x). group_ok x \<and> started x) (Create env g name s)"
proof -
  define c where "c = s\<lparr>m_leaderGuid := g, m_leaderName := name, m_groupType := 0\<rparr>"
  have nraid: "\<not> isRaidGroup s" using st ms by (simp add: started_def)
  have c: "group_ok c"
    by (rule retyped_ok[OF ok]) (use ok nraid ms in \<open>simp_all add: c_def view_def isRaidGroup_def group_ok_def roster_ok_def\<close>)
  have nr: "\<not> isRaidGroup c" "\<not> isBGGroup c" "\<not> isBGGroup s" "m_Guid c \<noteq> 0" "registered c"
    using c group_ok_no_bg[OF c] group_ok_no_bg[OF ok] by (simp_all add: c_def isRaidGroup_def group_ok_def plain_group_def)
  have v: "group_ok x \<and> started x" if "view x = view c" for x
    using group_ok_view[OF that] started_view[OF that] c nr(1) by (simp add: started_def)
  have r: "view (y\<lparr>registered := True\<rparr>) = view c" if "view y = view c" for y using that nr(5) by (simp add: view_def)
  have gd: "m_Guid y \<noteq> 0" "\<not> isBGGroup y" if "view y = view c" for y
    using that nr by (simp_all add: view_def isBGGroup_def)
  define d where "d = SetRaidDifficulty env 0 (SetDungeonDifficulty env 0 (c\<lparr>m_lootMethod := GROUP_LOOT, m_lootThreshold := 2, m_looterGuid := g\<rparr>))"
  have d: "view d = view c" by (simp add: d_def)
  define e where "e = (if in_world (d\<lparr>registered := True\<rparr>) g then SetLeaderFlag g True (d\<lparr>registered := True\<rparr>) else d\<lparr>registered := True\<rparr>)"
  have e: "view e = view c" using r[OF d] by (simp add: e_def)
  define h where "h = (if \<not> isBGGroup e then say (ConvertInstances g) (if in_world e g
      then SetRaidDifficulty env (raidDifficultyOf env g) (SetDungeonDifficulty env (dungeonDifficultyOf env g) e) else e) else e)"
  define f where "f = (if IsNeedSave h then say_all [DbDeleteGroup, DbInsertGroup] h else h)"
  have f: "view f = view c" using e by (simp add: f_def h_def)
  have "Create env g name s = AddMember env g name f"
    unfolding Create_def Let_def if_not_P[OF nr(3)] c_def[symmetric] if_not_P[OF nr(1)] bindR_simps d_def[symmetric] if_not_P[OF gd(1)[OF d]]
      e_def[symmetric] h_def[symmetric] f_def[symmetric] by (rule refl)
  then show ?thesis using AddMember_live v[OF f] by simp
qed

section \<open>Invitations\<close>

lemma view_invited: "view (s\<lparr>m_invitees := is\<rparr>) = view s"
  by (simp add: view_def)

lemma view_AddInvite [simp]: "view (snd (AddInvite env p s)) = view s"
  by (simp add: AddInvite_def Let_def view_invited)

definition fresh_group :: "GroupEnv \<Rightarrow> Party \<Rightarrow> bool" where
  "fresh_group env s \<longleftrightarrow> newGroupGuid env \<noteq> 0
     \<and> (\<forall>p. m_groupGuid s p \<noteq> newGroupGuid env \<and> m_originalGroupGuid s p \<noteq> newGroupGuid env)
     \<and> \<not> m_bfGroup s \<and> known_player s = in_world s"

lemma invite_new_ok:
  assumes "fresh_group env s"
  shows "party_ok (snd (invite_new env me p s))"
proof -
  define x where "x = (Group_new GROUPTYPE_NORMAL s)\<lparr>m_Guid := newGroupGuid env, registered := True\<rparr>"
  have gx: "group_ok x" "started x"
    using assms by (simp_all add: x_def Group_new_def fresh_group_def group_ok_def plain_group_def roster_ok_def slots_ok_def
        links_ok_def isRaidGroup_def started_def)
  have new: "party_ok y" if "view (y\<lparr>m_Guid := newGroupGuid env, registered := True\<rparr>) = view x" "registered y" "m_Guid y = newGroupGuid env" for y
  proof (rule party_view[of x])
    show "party_ok x" using gx by (simp add: group_party)
    show "view y = view x" using that by (simp add: view_def)
  qed
  define z where "z = snd (AddInvite env me (Group_new GROUPTYPE_NORMAL s))"
  have "view z = view (Group_new GROUPTYPE_NORMAL s)" by (simp add: z_def)
  then have z: "m_Guid z = 0" "view (z\<lparr>m_Guid := newGroupGuid env, registered := True\<rparr>) = view x"
    by (simp_all add: view_def x_def Group_new_def)
  define l where "l = (let s = z\<lparr>m_Guid := newGroupGuid env, registered := True, m_leaderGuid := me, m_leaderName := playerName env me\<rparr>
     in if in_world s me then SetLeaderFlag me True s else s)"
  have l: "view l = view x" using z(2) by (simp add: l_def Let_def)
  have al: "AddLeaderInvite env me (Group_new GROUPTYPE_NORMAL s) = (True, l) \<or> fst (AddLeaderInvite env me (Group_new GROUPTYPE_NORMAL s)) = False"
    using z(1) by (cases "AddInvite env me (Group_new GROUPTYPE_NORMAL s)") (auto simp: AddLeaderInvite_def z_def l_def Let_def)
  have "party_ok l" by (rule new) (use l in \<open>simp_all add: view_def x_def\<close>)
  then have "party_ok (snd (AddInvite env p l))" by (rule party_view) simp
  then show ?thesis using al by (auto simp: invite_new_def Let_def split: prod.splits)
qed

lemma HandleGroupInvite_ok:
  assumes ok: "party_ok s" and f: "fresh_group env s"
  shows "party_ok (HandleGroupInvite env me q s)"
proof -
  have v: "party_ok x" if "view x = view s" for x using party_view[OF ok that] .
  have new: "party_ok (say_all es (snd (invite_new env me p s)))" "party_ok (snd (invite_new env me p s))" for es p
    using invite_new_ok[OF f] party_view by (blast intro: view_simps)+
  have add: "party_ok (say_all es (snd (AddInvite env p s)))" "party_ok (snd (AddInvite env p s))" for es p by (rule v; simp)+
  have say: "party_ok (say e s)" "party_ok (say_all es s)" for e es by (rule v; simp)+
  show ?thesis
    using new add say ok by (simp add: HandleGroupInvite_def Let_def case_prod_beta split: option.split)
qed

lemma HandleGroupInviteResponse_ok:
  assumes ok: "party_ok s"
  shows "okR party_ok (HandleGroupInviteResponse env me accepted s)"
proof (cases "registered s \<and> m_groupInviteGuid s me = m_Guid s")
  case False
  then show ?thesis using ok by (simp add: HandleGroupInviteResponse_def)
next
  case True
  have gs: "group_ok s" "started s" using live[OF ok] True by simp_all
  have v: "group_ok x" "started x" if "view x = view s" for x
    using gs group_ok_view[OF that] started_view[OF that] by simp_all
  define add where "add = (\<lambda>s. bindR (AddMember env me (playerName env me) s) (\<lambda>(ok, s). Inr (if ok then say BroadcastGroupUpdate s else s)))"
  have add: "okR party_ok (add x)" if x: "group_ok x" "started x" for x
  proof -
    obtain b y where y: "AddMember env me (playerName env me) x = Inr (b, y)" "group_ok y" "started y"
      using AddMember_live[OF x, of env me "playerName env me"] by (auto simp: okR_def)
    have "party_ok (say e y)" for e by (rule party_view[of y]) (simp_all add: y group_party)
    then show ?thesis by (simp add: add_def y group_party)
  qed
  define r where "r = RemoveInvite me s"
  define l where "l = (if in_world r (m_leaderGuid r) then RemoveInvite (m_leaderGuid r) r else r)"
  have r: "view r = view s" and l: "view l = view s" by (simp_all add: r_def l_def)
  have create: "okR party_ok (bindR (Create env (m_leaderGuid l) (m_leaderName l) l) (\<lambda>(ok, s). if ok then add s else Inr s))"
    if "m_memberSlots l = []"
    by (rule okR_bind[OF Create_ok[OF v[OF l] that]]) (auto simp: add group_party)
  have "m_memberSlots l = m_memberSlots r" using l r by (simp add: view_def)
  moreover have "okR party_ok (add r)" "okR party_ok (add s)" using add v[OF r] gs by simp_all
  moreover have "party_ok r" "party_ok (say e r)" for e by (rule party_view[OF ok]; simp add: r)+
  ultimately show ?thesis
    using True create by (simp add: HandleGroupInviteResponse_def add_def[symmetric] r_def[symmetric] l_def[symmetric] Let_def GetMembersCount_def)
qed

section \<open>Leaving\<close>

lemma removal_ok:
  assumes "party_ok s" "registered s" "\<not> otherGroup env 0"
  shows "okR party_ok (bindR (RemoveMember env g 0 logout s) (\<lambda>(left, s). Inr s))"
    and "okR party_ok (bindR (RemoveMember env g 0 logout s) (\<lambda>(left, s). Inr (if left \<le> 1 then delete_group s else s)))"
proof -
  obtain v where "RemoveMember env g 0 logout s = Inr (length (m_memberSlots v), v)" "party_ok v"
    using RemoveMember_ok[of s env g 0 logout] live[OF assms(1,2)] assms(3) by (auto simp: okR_def)
  then show "okR party_ok (bindR (RemoveMember env g 0 logout s) (\<lambda>(left, s). Inr s))"
    "okR party_ok (bindR (RemoveMember env g 0 logout s) (\<lambda>(left, s). Inr (if left \<le> 1 then delete_group s else s)))"
    by simp_all
qed

lemma invited_removal_ok:
  assumes "party_ok s" "\<not> otherGroup env 0"
  shows "okR party_ok (UninviteFromGroup env p s)"
proof (cases "registered s")
  case True
  then show ?thesis using UninviteFromGroup_ok live[OF assms(1)] assms(2) by blast
next
  case False
  then show ?thesis by (simp add: UninviteFromGroup_def party_ok_gone SetGroupInvite_def)
qed

lemma uninvite_ok:
  assumes ok: "party_ok s" and e: "\<not> otherGroup env 0"
  shows "okR party_ok (HandleGroupUninviteGuid env me g s)" "okR party_ok (HandleGroupUninvite env me name s)"
proof -
  have v: "party_ok (say x s)" for x by (rule party_view[OF ok]) simp
  have rm: "okR party_ok (bindR (RemoveMember env h 0 False s) (\<lambda>(left, s). Inr s))" if "in_this_group s me" for h
    using removal_ok(1)[OF ok _ e] that by (simp add: in_this_group_def)
  note inv = invited_removal_ok[OF ok e]
  show "okR party_ok (HandleGroupUninviteGuid env me g s)"
    using ok v rm inv by (simp add: HandleGroupUninviteGuid_def uninvite_invited_def)
  show "okR party_ok (HandleGroupUninvite env me name s)"
    using ok v rm inv by (simp add: HandleGroupUninvite_def Let_def split: option.split)
qed

lemma leave_ok:
  assumes ok: "party_ok s" and e: "\<not> otherGroup env 0"
  shows "okR party_ok (RemoveFromGroup env p logout s)"
proof (cases "in_this_group s p")
  case True
  then show ?thesis using removal_ok(2)[OF ok _ e] by (simp add: RemoveFromGroup_def in_this_group_def)
next
  case False
  have "party_ok (say x s)" for x by (rule party_view[OF ok]) simp
  moreover have "okR party_ok (SetGroup env p 0 255 s)" if none: "\<not> group_exists env s (m_groupGuid s p)"
  proof -
    define u where "u = s\<lparr>m_groupGuid := (m_groupGuid s)(p := 0), member_refs := removeAll (p, False) (member_refs s)\<rparr>"
    have "party_ok u"
    proof (cases "registered s")
      case True
      then have gs: "group_ok s" "started s" using live[OF ok] by simp_all
      have away: "m_groupGuid s p \<noteq> m_Guid s" using False True by (simp add: in_this_group_def)
      have "(p, False) \<notin> set (member_refs s)" using gs away by (simp add: group_ok_def links_ok_def)
      then have "removeAll (p, False) (member_refs s) = member_refs s" by simp
      then have "links_ok u" using gs away group_ok_no_bg[OF gs(1)] by (simp add: u_def group_ok_def links_ok_def)
      moreover have "roster_ok u" "started u" using gs roster_ok_cong[of u s] by (simp_all add: u_def group_ok_def started_def isRaidGroup_def)
      moreover have "plain_group u" using gs by (simp add: u_def group_ok_def plain_group_def)
      ultimately show ?thesis by (simp add: party_ok_def group_ok_def)
    qed (simp add: u_def party_ok_gone)
    moreover have "SetGroup env p 0 255 s = Inr u"
      using none e ok by (cases "registered s") (auto simp: SetGroup_def u_def group_exists_def dest!: live group_ok_no_bg)
    ultimately show ?thesis by simp
  qed
  ultimately show ?thesis using False by (simp add: RemoveFromGroup_def)
qed

lemma HandleGroupDisband_ok:
  assumes ok: "party_ok s" and e: "\<not> otherGroup env 0"
  shows "okR party_ok (HandleGroupDisband env me s)"
proof -
  have "party_ok (say x s)" for x by (rule party_view[OF ok]) simp
  then show ?thesis using ok leave_ok[OF _ e] by (simp add: HandleGroupDisband_def)
qed

section \<open>Clock, subgroups, conversions\<close>

lemma GroupUpdate_ok:
  assumes ok: "party_ok s" and r: "registered s" and e: "\<not> otherGroup env 0"
  shows "okR party_ok (GroupUpdate env diff s)"
proof -
  have t: "party_ok (s\<lparr>m_waitLeaderTimer := t\<rparr>)" for t by (rule party_view[OF ok]) simp
  define c where "c = ChangeLeaderToFirstSuitableMember env False (s\<lparr>m_waitLeaderTimer := 0\<rparr>)"
  have vc: "view (snd c) = view s" by (simp add: c_def)
  then have "party_ok (snd c)" "registered (snd c)" using party_view[OF ok] r by (simp_all add: view_def)
  then show ?thesis using ok t removal_ok(2)[of "snd c" env, OF _ _ e]
    by (simp add: GroupUpdate_def c_def[symmetric] case_prod_beta)
qed

lemma HandleGroupRaidConvert_ok:
  assumes ok: "party_ok s"
  shows "okR party_ok (HandleGroupRaidConvert env me s)"
proof -
  have "okR party_ok (ConvertToRaid env (say x s))" if i: "in_this_group s me" "\<not> GetMembersCount s < 2" for x
  proof -
    have "view (say x s) = view s" by simp
    then have "group_ok (say x s)" using live_member[OF ok i(1)] group_ok_view by blast
    moreover have "m_memberSlots (say x s) \<noteq> []" using i(2) by (auto simp: GetMembersCount_def say_def)
    ultimately show ?thesis by (rule okR_mono[OF ConvertToRaid_ok]) (simp add: group_party)
  qed
  then show ?thesis using ok by (simp add: HandleGroupRaidConvert_def)
qed

lemma free_slot: "roster_ok s \<Longrightarrow> unat k < 8 \<Longrightarrow> HasFreeSlotSubGroup s k \<Longrightarrow> isRaidGroup s \<and> count_group (m_memberSlots s) (unat k) < 5"
proof -
  assume ok: "roster_ok s" and k: "unat k < 8" and f: "HasFreeSlotSubGroup s k"
  have raid: "isRaidGroup s" using ok f by (simp add: roster_ok_def HasFreeSlotSubGroup_def split: if_splits)
  have "count_group (m_memberSlots s) (unat k) \<le> 5" using ok by (simp add: roster_ok_def slots_ok_def)
  then show ?thesis using ok f k raid unat_small by (simp add: roster_ok_def HasFreeSlotSubGroup_def)
qed

lemma grown_change:
  "ChangeMembersGroup_player env p k s = Inr x \<Longrightarrow> grown s x" "ChangeMembersGroup env p k s = Inr x \<Longrightarrow> grown s x"
proof -
  have set: "grown s y" if "setMembersGroup p k s = Inr (b, y)" for b y
    using that by (auto simp: setMembersGroup_def SubGroupCounterIncrease_def count_step_def grown_def say_def split: if_splits option.splits)
  have dec: "grown y z" if "SubGroupCounterDecrease n y = Inr z" for n y z
    using that by (auto simp: SubGroupCounterDecrease_def count_step_def grown_def split: if_splits option.splits)
  have upd: "grown y (SendUpdate env y)" for y by (rule grown_view) simp
  have sub: "grown y (y\<lparr>m_subGroup := f\<rparr>)" "grown y (y\<lparr>m_originalSubGroup := f\<rparr>)" for y f by (simp_all add: grown_def)
  have refl: "grown y y" for y by (simp add: grown_def)
  have tail: "grown s z" if "grown s y" "bindR (SubGroupCounterDecrease n y) (\<lambda>s. Inr (SendUpdate env s)) = Inr z" for n y z
    using that dec upd grown_trans by (auto simp: Let_def) blast
  show one: "grown s x" if c: "ChangeMembersGroup_player env p k s = Inr x" for x
  proof (cases "\<not> isRaidGroup s \<or> m_subGroup s p = k")
    case False
    then obtain b y where y: "setMembersGroup p k s = Inr (b, y)" using c by (auto simp: ChangeMembersGroup_player_def)
    have "grown s y" "grown s (y\<lparr>m_subGroup := f\<rparr>)" "grown s (y\<lparr>m_originalSubGroup := f\<rparr>)" for f
      using set[OF y] sub grown_trans by blast+
    then show ?thesis using c False y
      by (cases b) (auto simp: ChangeMembersGroup_player_def Let_def simp del: bindR_eq_Inr elim!: tail[rotated] split: if_splits)
  qed (use c refl in \<open>simp add: ChangeMembersGroup_player_def\<close>)
  show "grown s x" if c: "ChangeMembersGroup env p k s = Inr x" for x
  proof (cases "\<not> isRaidGroup s \<or> in_world s p \<or> GetMemberGroup s p = k")
    case False
    then obtain b y where y: "setMembersGroup p k s = Inr (b, y)" using c by (auto simp: ChangeMembersGroup_def Let_def)
    then show ?thesis using c False tail[OF set[OF y]] set[OF y]
      by (cases b) (simp_all add: ChangeMembersGroup_def Let_def del: bindR_eq_Inr)
  qed (use c refl one in \<open>auto simp: ChangeMembersGroup_def Let_def split: if_splits\<close>)
qed

lemma HandleGroupChangeSubGroup_ok:
  assumes ok: "party_ok s"
  shows "okR party_ok (HandleGroupChangeSubGroup env me target k s)"
proof (cases "MAX_RAID_SUBGROUPS \<le> unat k \<or> \<not> in_this_group s me \<or> (\<not> IsLeader s me \<and> \<not> IsAssistant s me) \<or> \<not> HasFreeSlotSubGroup s k")
  case True
  then show ?thesis using ok by (simp add: HandleGroupChangeSubGroup_def)
next
  case False
  then have gs: "group_ok s" "started s" using live_member[OF ok] by blast+
  have room: "unat k < 8" "count_group (m_memberSlots s) (unat k) < 5"
    using False free_slot[of s k] gs(1) by (auto simp: group_ok_def)
  have fin: "okR party_ok r" if "okR group_ok r" "\<And>x. r = Inr x \<Longrightarrow> grown s x" for r
    using that grown_started[OF _ gs(2)] group_party by (auto simp: okR_def)
  have "okR party_ok (ChangeMembersGroup_player env p k s)" if "in_world s p" for p
    by (rule fin[OF ChangeMembersGroup_player_ok[OF gs(1) room(1) _ that] grown_change(1)]) (use room in auto)
  moreover have "okR party_ok (ChangeMembersGroup env p k s)" for p
    by (rule fin[OF ChangeMembersGroup_ok[OF gs(1) room(1)] grown_change(2)]) (use room in auto)
  ultimately show ?thesis using ok by (simp add: HandleGroupChangeSubGroup_def split: option.split)
qed

section \<open>Logging in and out\<close>

lemma destroy_ok:
  assumes ok: "party_ok s"
  shows "party_ok (destroy_player p s)"
proof (cases "registered s")
  case False
  then show ?thesis by (simp add: party_ok_gone destroy_player_def)
next
  case True
  let ?d = "destroy_player p s"
  have gs: "group_ok s" "started s" using live[OF ok True] by simp_all
  have li: "links_ok s" and nz: "m_Guid s \<noteq> 0" using gs(1) group_ok_no_bg by (auto simp: group_ok_def)
  have refs: "(q, b) \<in> set (member_refs ?d) \<longleftrightarrow> q \<noteq> p \<and> (q, b) \<in> set (member_refs s)" for q b by (auto simp: destroy_player_def)
  have dist: "distinct (map fst (member_refs ?d))" using li by (simp add: destroy_player_def links_ok_def distinct_map_filter)
  have dom: "q \<in> fst ` set (member_refs ?d) \<longleftrightarrow> q \<noteq> p \<and> q \<in> fst ` set (member_refs s)" for q
    using refs by (force simp: image_iff)
  have sel: "m_memberSlots ?d = m_memberSlots s" "m_Guid ?d = m_Guid s" "in_world ?d = (in_world s)(p := False)"
    "m_groupGuid ?d = (m_groupGuid s)(p := 0)" "m_originalGroupGuid ?d = (m_originalGroupGuid s)(p := 0)"
    "m_subGroup ?d = m_subGroup s" "m_originalSubGroup ?d = m_originalSubGroup s"
    by (simp_all add: destroy_player_def)
  have "links_ok ?d"
    unfolding links_ok_def
  proof (intro conjI)
    show "\<forall>r\<in>set (member_refs ?d). in_world ?d (fst r)" using li refs by (auto simp: links_ok_def sel)
    show "\<forall>m\<in>set (m_memberSlots ?d). in_world ?d (ms_guid m) \<longrightarrow> ms_guid m \<in> fst ` set (member_refs ?d)"
      using li by (simp add: dom links_ok_def sel)
  qed (use li nz dist in \<open>simp_all add: refs links_ok_def sel\<close>)
  moreover have "roster_ok ?d" "started ?d"
    using gs roster_ok_cong[of ?d s] by (simp_all add: destroy_player_def group_ok_def started_def isRaidGroup_def)
  moreover have "plain_group ?d" using gs by (simp add: destroy_player_def group_ok_def plain_group_def)
  ultimately show ?thesis by (simp add: party_ok_def group_ok_def)
qed

lemma LogoutPlayer_ok:
  assumes ok: "party_ok s" and e: "\<not> otherGroup env 0"
  shows "okR party_ok (LogoutPlayer env sock p s)"
  unfolding LogoutPlayer_def
proof (rule okR_bind[OF invited_removal_ok[OF ok e]], rule okR_bind)
  fix u
  assume u: "party_ok u"
  show "okR party_ok (if in_this_group u p \<and> \<not> isRaidGroup u \<and> sock then RemoveFromGroup env p True u else Inr u)"
    using u leave_ok[OF u e] by simp
next
  fix v
  assume v: "party_ok v"
  have "party_ok (SendUpdate env (CheckLeader env p True v))" by (rule party_view[OF v]) simp
  then show "okR party_ok (let s = (if in_this_group v p then SendUpdate env (CheckLeader env p True v) else v) in Inr (destroy_player p s))"
    using v destroy_ok by simp
qed

text \<open>A player who enters the world, before and after he is linked to his group.\<close>

definition enter :: "ObjectGuid \<Rightarrow> Party \<Rightarrow> Party" where
  "enter p s = s\<lparr>in_world := (in_world s)(p := True), known_player := (known_player s)(p := True),
      m_groupGuid := (m_groupGuid s)(p := 0), m_originalGroupGuid := (m_originalGroupGuid s)(p := 0),
      m_groupInviteGuid := (m_groupInviteGuid s)(p := 0)\<rparr>"

definition relink :: "ObjectGuid \<Rightarrow> uint8 \<Rightarrow> Party \<Rightarrow> Party" where
  "relink p k s = s\<lparr>m_groupGuid := (m_groupGuid s)(p := m_Guid s), member_refs := (p, False) # member_refs s, m_subGroup := (m_subGroup s)(p := k)\<rparr>"

lemma absent_unlinked:
  assumes "group_ok s" "\<not> in_world s p"
  shows "m_groupGuid s p \<noteq> m_Guid s" "m_originalGroupGuid s p \<noteq> m_Guid s" "(p, b) \<notin> set (member_refs s)" "p \<notin> fst ` set (member_refs s)"
  using assms unfolding group_ok_def links_ok_def by (metis fst_conv, metis fst_conv, metis fst_conv, metis imageE)

lemma enter_ok:
  assumes ok: "group_ok s" and out: "\<not> in_world s p" and no: "\<not> IsMember s p"
  shows "group_ok (enter p s)"
proof -
  note ab = absent_unlinked[OF ok out]
  have li: "links_ok s" and nz: "m_Guid s \<noteq> 0" using ok group_ok_no_bg by (auto simp: group_ok_def)
  have "links_ok (enter p s)" using li nz ab no by (auto simp: links_ok_def enter_def IsMember_iff)
  moreover have "roster_ok (enter p s)" using ok roster_ok_cong[of "enter p s" s] by (simp add: enter_def group_ok_def)
  moreover have "plain_group (enter p s)" using ok by (simp add: enter_def group_ok_def plain_group_def)
  ultimately show ?thesis by (simp add: group_ok_def)
qed

lemma relink_ok:
  assumes ok: "group_ok s" and out: "\<not> in_world s p" and m: "getMemberSlot s p = Some m"
  shows "group_ok (relink p (ms_group m) (enter p s))" (is "group_ok ?r")
proof -
  note ab = absent_unlinked[OF ok out]
  have li: "links_ok s" and nz: "m_Guid s \<noteq> 0" using ok group_ok_no_bg by (auto simp: group_ok_def)
  have sel: "m_memberSlots ?r = m_memberSlots s" "m_Guid ?r = m_Guid s" "in_world ?r = (in_world s)(p := True)"
    "m_groupGuid ?r = (m_groupGuid s)(p := m_Guid s)" "m_originalGroupGuid ?r = (m_originalGroupGuid s)(p := 0)"
    "m_subGroup ?r = (m_subGroup s)(p := ms_group m)" "m_originalSubGroup ?r = m_originalSubGroup s" "member_refs ?r = (p, False) # member_refs s"
    by (simp_all add: relink_def enter_def)
  have "\<exists>x\<in>set (m_memberSlots s). ms_guid x = p \<and> ms_group x = ms_group m" using getMemberSlot_Some[OF m] by blast
  then have "links_ok ?r" using li nz ab unfolding links_ok_def sel by auto
  moreover have "roster_ok ?r" using ok roster_ok_cong[of ?r s] by (simp add: relink_def enter_def group_ok_def)
  moreover have "plain_group ?r" using ok by (simp add: relink_def enter_def group_ok_def plain_group_def)
  ultimately show ?thesis by (simp add: group_ok_def)
qed

lemma LoadGroup_relinks:
  assumes ok: "group_ok s" and out: "\<not> in_world s p" and m: "getMemberSlot s p = Some m"
  shows "okR (\<lambda>x. view x = view (relink p (ms_group m) (enter p s))) (LoadGroup env p (enter p s))"
proof -
  let ?r = "relink p (ms_group m) (enter p s)"
  have reg: "registered s" and k: "unat (ms_group m) < 8"
    using ok getMemberSlot_Some[OF m] by (simp_all add: group_ok_def plain_group_def roster_ok_def slots_ok_def)
  have k128: "\<not> 128 \<le> ms_group m" using k by (simp add: word_le_nat_alt)
  define f where "f = (if IsLeader s p then (leader_flag s)(p := True) else leader_flag s)"
  have g: "GetMemberGroup (enter p s) p = ms_group m" using m by (simp add: GetMemberGroup_def getMemberSlot_def enter_def)
  have lead: "(if IsLeader (enter p s) p then SetLeaderFlag p True (enter p s) else enter p s) = (enter p s)\<lparr>leader_flag := f\<rparr>"
    by (simp add: f_def enter_def SetLeaderFlag_def IsLeader_def)
  have "removeAll (p, False) (member_refs s) = member_refs s" using absent_unlinked(3)[OF ok out] by simp
  then have set: "SetGroup env p (m_Guid (enter p s)) (ms_group m) ((enter p s)\<lparr>leader_flag := f\<rparr>) = Inr (?r\<lparr>leader_flag := f\<rparr>)"
    using reg k128 by (simp add: SetGroup_def group_exists_def enter_def relink_def)
  have "view (?r\<lparr>leader_flag := f\<rparr>) = view ?r" by (simp add: view_def)
  then show ?thesis using reg by (simp add: LoadGroup_def lead g set Let_def) (simp add: enter_def)
qed

lemma LoginPlayer_ok:
  assumes ok: "party_ok s" and out: "\<not> in_world s p"
  shows "okR party_ok (LoginPlayer env p s)"
proof -
  have fin: "party_ok (if in_this_group x p then SendUpdate env (CheckLeader env p False x) else x)" if "party_ok x" for x
    using that party_view[OF that, of "SendUpdate env (CheckLeader env p False x)"] by simp
  have "okR party_ok (if IsMember (enter p s) p then LoadGroup env p (enter p s) else Inr (enter p s))"
  proof (cases "registered s")
    case False
    then show ?thesis by (simp add: LoadGroup_def enter_def SetLeaderFlag_def party_ok_gone)
  next
    case True
    note gs = live[OF ok True]
    have same: "IsMember (enter p s) p = IsMember s p" by (simp add: enter_def IsMember_def getMemberSlot_def)
    show ?thesis
    proof (cases "getMemberSlot s p")
      case None
      then have no: "\<not> IsMember s p" by (simp add: IsMember_def)
      moreover have "started (enter p s)" using gs by (simp add: enter_def started_def isRaidGroup_def)
      ultimately show ?thesis using same enter_ok[OF _ out no] gs by (simp add: group_party)
    next
      case (Some m)
      let ?r = "relink p (ms_group m) (enter p s)"
      have "started ?r" using gs by (simp add: relink_def enter_def started_def isRaidGroup_def)
      then have "party_ok ?r" using relink_ok[OF _ out Some] gs by (simp add: group_party)
      then have "okR party_ok (LoadGroup env p (enter p s))"
        using okR_mono[OF LoadGroup_relinks[OF _ out Some]] gs party_view by blast
      then show ?thesis using same Some by (simp add: IsMember_def)
    qed
  qed
  then show ?thesis unfolding LoginPlayer_def Let_def enter_def[symmetric] by (rule okR_bind) (simp add: fin)
qed

section \<open>The life of a group\<close>

text \<open>What can be asked of a group. The first argument of a client's request is the player of the session.\<close>

datatype GroupRequest =
    Invite ObjectGuid InviteQuery
  | InviteResponse ObjectGuid bool
  | UninviteGuid ObjectGuid ObjectGuid
  | Uninvite ObjectGuid "cstring option"
  | Leave ObjectGuid
  | MakeLeader ObjectGuid ObjectGuid
  | LootMethod ObjectGuid uint32 ObjectGuid uint32
  | TargetUpdate ObjectGuid uint8 ObjectGuid
  | RaidConvert ObjectGuid
  | ChangeSubGroup ObjectGuid "ObjectGuid option" uint8
  | AssistantLeader ObjectGuid ObjectGuid uint8
  | Assignment ObjectGuid uint8 uint8 ObjectGuid
  | ReadyCheck ObjectGuid "uint8 option"
  | Logout bool ObjectGuid
  | Login ObjectGuid
  | Elapse uint32
  | EnterMap ObjectGuid uint32
  | Roles ObjectGuid uint8
  | MakeLFG nat
  | JoinLFG ObjectGuid cstring
  | Looted bool
  | Difficulty uint32 uint32

fun serve :: "GroupEnv \<Rightarrow> GroupRequest \<Rightarrow> Party \<Rightarrow> Party result" where
  "serve env (Invite me q) s = Inr (HandleGroupInvite env me q s)"
| "serve env (InviteResponse me accepted) s = HandleGroupInviteResponse env me accepted s"
| "serve env (UninviteGuid me g) s = HandleGroupUninviteGuid env me g s"
| "serve env (Uninvite me name) s = HandleGroupUninvite env me name s"
| "serve env (Leave me) s = HandleGroupDisband env me s"
| "serve env (MakeLeader me g) s = Inr (HandleGroupSetLeader env me g s)"
| "serve env (LootMethod me method g th) s = Inr (HandleLootMethod env me method g th s)"
| "serve env (TargetUpdate me x g) s = Inr (HandleRaidTargetUpdate env me x g s)"
| "serve env (RaidConvert me) s = HandleGroupRaidConvert env me s"
| "serve env (ChangeSubGroup me target k) s = HandleGroupChangeSubGroup env me target k s"
| "serve env (AssistantLeader me g apply_it) s = Inr (HandleGroupAssistantLeader env me g apply_it s)"
| "serve env (Assignment me role apply_it g) s = Inr (HandlePartyAssignment env me role apply_it g s)"
| "serve env (ReadyCheck me answer) s = Inr (HandleRaidReadyCheck env me answer s)"
| "serve env (Logout sock p) s = LogoutPlayer env sock p s"
| "serve env (Login p) s = LoginPlayer env p s"
| "serve env (Elapse diff) s = GroupUpdate env diff s"
| "serve env (EnterMap g mapid) s = Inr (snd (SetPlayerMap g mapid s))"
| "serve env (Roles g r) s = Inr (SetGroupRoles env g r s)"
| "serve env (MakeLFG ty) s = bindR (ConvertToLFG env ty s) (\<lambda>(ok, s). Inr s)"
| "serve env (JoinLFG g name) s = bindR (AddMember env g name s) (\<lambda>(ok, s). Inr s)"
| "serve env (Looted ifneed) s = Inr (UpdateLooterGuid env ifneed s)"
| "serve env (Difficulty d r) s = Inr (SetRaidDifficulty env r (SetDungeonDifficulty env d s))"

text \<open>
  What the rest of the server guarantees: no group has the guid 0, a new group gets a guid nobody refers
  to, only a player who is not in the world logs in, and the calls from outside the client handlers reach
  a group that \<open>ObjectMgr\<close> knows (the dungeon finder one that has members).
\<close>

fun admissible :: "GroupEnv \<Rightarrow> GroupRequest \<Rightarrow> Party \<Rightarrow> bool" where
  "admissible env (Invite me q) s \<longleftrightarrow> \<not> otherGroup env 0 \<and> fresh_group env s"
| "admissible env (Login p) s \<longleftrightarrow> \<not> otherGroup env 0 \<and> \<not> in_world s p"
| "admissible env (Elapse diff) s \<longleftrightarrow> \<not> otherGroup env 0 \<and> registered s"
| "admissible env (MakeLFG ty) s \<longleftrightarrow> \<not> otherGroup env 0 \<and> registered s \<and> m_memberSlots s \<noteq> []"
| "admissible env (JoinLFG g name) s \<longleftrightarrow> \<not> otherGroup env 0 \<and> registered s"
| "admissible env r s \<longleftrightarrow> \<not> otherGroup env 0"

lemma admissible_env: "admissible env r s \<Longrightarrow> \<not> otherGroup env 0"
  by (cases r) simp_all

lemma serve_ok:
  assumes ok: "party_ok s" and a: "admissible env r s"
  shows "okR party_ok (serve env r s)"
proof -
  note e = admissible_env[OF a]
  have v: "party_ok x" if "view x = view s" for x using party_view[OF ok that] .
  show ?thesis
  proof (cases r)
    case (MakeLFG ty)
    then have "group_ok s" "m_memberSlots s \<noteq> []" using a live[OF ok] by simp_all
    then show ?thesis using ConvertToLFG_ok[of s env ty] group_party by (auto simp: MakeLFG okR_def)
  next
    case (JoinLFG g name)
    then have "group_ok s" "started s" using a live[OF ok] by simp_all
    then show ?thesis using AddMember_live[of s env g name] group_party by (auto simp: JoinLFG okR_def)
  qed (use a ok e v in \<open>simp_all add: HandleGroupInvite_ok HandleGroupInviteResponse_ok uninvite_ok HandleGroupDisband_ok
      HandleGroupRaidConvert_ok HandleGroupChangeSubGroup_ok assistants_party LogoutPlayer_ok LoginPlayer_ok GroupUpdate_ok
      map_party roles_party\<close>)
qed

text \<open>
  A server of requests in general: what is admissible is served and keeps an invariant. Its histories are
  the states it can come to by admissible requests, in any environment each.
\<close>

inductive history :: "('e \<Rightarrow> 'r \<Rightarrow> 's \<Rightarrow> bool) \<Rightarrow> ('e \<Rightarrow> 'r \<Rightarrow> 's \<Rightarrow> 's result) \<Rightarrow> 's \<Rightarrow> 's \<Rightarrow> bool" for allowed served where
  history_refl: "history allowed served s s"
| history_step: "history allowed served s t \<Longrightarrow> allowed env r t \<Longrightarrow> served env r t = Inr u \<Longrightarrow> history allowed served s u"

locale request_server =
  fixes inv :: "'s \<Rightarrow> bool" and allowed :: "'e \<Rightarrow> 'r \<Rightarrow> 's \<Rightarrow> bool" and served :: "'e \<Rightarrow> 'r \<Rightarrow> 's \<Rightarrow> 's result"
  assumes keeps: "inv s \<Longrightarrow> allowed env r s \<Longrightarrow> okR inv (served env r s)"
begin

lemma history_inv: "history allowed served s t \<Longrightarrow> inv s \<Longrightarrow> inv t"
proof (induction rule: history.induct)
  case (history_step s t env r u)
  then show ?case using keeps[of t env r] by (simp add: okR_def)
qed

lemma history_serves: "history allowed served s t \<Longrightarrow> inv s \<Longrightarrow> allowed env r t \<Longrightarrow> \<exists>u. served env r t = Inr u"
  using keeps[of t env r] history_inv by (auto simp: okR_def)

end

interpretation group_server: request_server party_ok admissible serve
  by unfold_locales (rule serve_ok)

abbreviation group_life :: "Party \<Rightarrow> Party \<Rightarrow> bool" where
  "group_life \<equiv> history admissible serve"

end
