(* ===== verification/GroupClaims.thy ===== *)
theory GroupClaims
  imports GroupSteps
begin

text \<open>
  The properties of groups: what holds in every history of a group, who may change it, whose turn it is
  to loot, and what goes wrong. The lemmas before them are the consequences of the invariant they rest on.
\<close>

section \<open>How many members there are\<close>

lemma length_count_group: "\<forall>m\<in>set ms. unat (ms_group m) < n \<Longrightarrow> length ms = (\<Sum>k<n. count_group ms k)"
proof (induction ms)
  case (Cons m ms)
  have "(\<Sum>k<n. count_group (m # ms) k) = (\<Sum>k<n. if unat (ms_group m) = k then 1 else 0) + (\<Sum>k<n. count_group ms k)"
    by (simp only: count_group_Cons sum.distrib)
  also have "(\<Sum>k<n. if unat (ms_group m) = k then 1 else (0::nat)) = 1" using Cons.prems by simp
  finally show ?case using Cons by simp
qed simp

lemma roster_size: "roster_ok s \<Longrightarrow> GetMembersCount s \<le> (if isRaidGroup s then MAX_RAID_SIZE else MAX_GROUP_SIZE)"
proof -
  assume ok: "roster_ok s"
  let ?ms = "m_memberSlots s"
  have c: "count_group ?ms k \<le> 5" for k using ok by (simp add: roster_ok_def slots_ok_def)
  show ?thesis
  proof (cases "isRaidGroup s")
    case True
    have "length ?ms = (\<Sum>k<8. count_group ?ms k)" by (rule length_count_group) (use ok in \<open>simp add: roster_ok_def slots_ok_def\<close>)
    also have "\<dots> \<le> (\<Sum>k<(8::nat). 5)" by (rule sum_mono) (rule c)
    finally show ?thesis using True by (simp add: GetMembersCount_def)
  next
    case False
    have "length ?ms = (\<Sum>k<1. count_group ?ms k)" by (rule length_count_group) (use ok False in \<open>simp add: roster_ok_def\<close>)
    then show ?thesis using False c[of 0] by (simp add: GetMembersCount_def)
  qed
qed

section \<open>What the invariant says\<close>

lemma group_ok_facts:
  assumes ok: "group_ok t"
  shows "distinct (map ms_guid (m_memberSlots t))" "count_group (m_memberSlots t) k \<le> MAX_GROUP_SIZE"
    and "isRaidGroup t \<Longrightarrow> m_subGroupsCounts t = Some (map (\<lambda>k. of_nat (count_group (m_memberSlots t) k)) [0..<MAX_RAID_SUBGROUPS])"
    and "in_world t p \<Longrightarrow> p \<in> set (online_members t) \<longleftrightarrow> IsMember t p"
    and "in_this_group t p \<Longrightarrow> IsMember t p \<and> GetMemberGroup t p = m_subGroup t p"
proof -
  have ro: "roster_ok t" and li: "links_ok t" using ok by (simp_all add: group_ok_def)
  show d: "distinct (map ms_guid (m_memberSlots t))" "count_group (m_memberSlots t) k \<le> MAX_GROUP_SIZE"
    using ro by (simp_all add: roster_ok_def slots_ok_def)
  show "isRaidGroup t \<Longrightarrow> m_subGroupsCounts t = Some (map (\<lambda>k. of_nat (count_group (m_memberSlots t) k)) [0..<MAX_RAID_SUBGROUPS])"
    using ro by (simp add: roster_ok_def counters_def del: upt_rec_numeral)
  show "in_this_group t p \<Longrightarrow> IsMember t p \<and> GetMemberGroup t p = m_subGroup t p"
  proof -
    assume "in_this_group t p"
    then obtain m where m: "m \<in> set (m_memberSlots t)" "ms_guid m = p" "ms_group m = m_subGroup t p"
      using li by (auto simp: in_this_group_def links_ok_def)
    then have "getMemberSlot t p = Some m" using getMemberSlot_iff[OF d(1)] by simp
    then show ?thesis using m(3) by (simp add: IsMember_def GetMemberGroup_def)
  qed
  show "in_world t p \<Longrightarrow> p \<in> set (online_members t) \<longleftrightarrow> IsMember t p"
  proof
    assume "p \<in> set (online_members t)"
    then obtain b where "(p, b) \<in> set (member_refs t)" by auto
    then show "IsMember t p" using li by (cases b) (auto simp: links_ok_def IsMember_iff)
  qed (use li in \<open>auto simp: links_ok_def IsMember_iff\<close>)
qed

section \<open>Members who may not\<close>

text \<open>The requests that are orders: they act on others or on the group, and who gives them.\<close>

fun order_of :: "GroupRequest \<Rightarrow> ObjectGuid option" where
  "order_of (UninviteGuid me g) = Some me"
| "order_of (Uninvite me name) = Some me"
| "order_of (MakeLeader me g) = Some me"
| "order_of (LootMethod me how g th) = Some me"
| "order_of (RaidConvert me) = Some me"
| "order_of (ChangeSubGroup me target k) = Some me"
| "order_of (AssistantLeader me g a) = Some me"
| "order_of (Assignment me role a g) = Some me"
| "order_of r = None"

lemma order_ignored:
  assumes "order_of r = Some me" "\<not> IsLeader s me" "\<not> IsAssistant s me" "serve env r s = Inr t"
  shows "\<exists>es. t = say_all es s"
proof -
  have 1: "s = say_all [] s" "say e s = say_all [e] s" for e by (simp_all add: say_all_def say_def)
  have "CanUninviteFromGroup env me s \<noteq> ERR_PARTY_RESULT_OK" using assms(2,3) by (simp add: CanUninviteFromGroup_def)
  then show ?thesis using assms 1
    by (cases r) (auto simp: HandleGroupUninviteGuid_def HandleGroupUninvite_def HandleGroupSetLeader_def HandleLootMethod_def
        HandleGroupRaidConvert_def HandleGroupChangeSubGroup_def HandleGroupAssistantLeader_def HandlePartyAssignment_def Let_def
        split: option.splits if_splits)
qed

section \<open>Turns at looting\<close>

lemma looter_simps [simp]: "m_looterGuid (say e s) = m_looterGuid s" "m_looterGuid (SendUpdate env s) = m_looterGuid s"
  "m_looterGuid (take_turn env p s) = p"
  by (simp_all add: say_def say_all_def SendUpdate_def take_turn_def Let_def)

lemma next_looter:
  assumes m: "m_lootMethod s \<noteq> MASTER_LOOT" "m_lootMethod s \<noteq> FREE_FOR_ALL"
    and d: "distinct (map ms_guid (m_memberSlots s))" and i: "i < length (m_memberSlots s)" "m_looterGuid s = ms_guid (m_memberSlots s ! i)"
  shows "m_looterGuid (UpdateLooterGuid env False s)
    = (case find (may_loot env s) (rotate (Suc i) (m_memberSlots s)) of Some m \<Rightarrow> ms_guid m | None \<Rightarrow> 0)"
proof -
  let ?ms = "m_memberSlots s"
  have "?ms ! i \<in> set ?ms" using i by simp
  then have found: "getMemberSlot s (m_looterGuid s) = Some (?ms ! i)" using getMemberSlot_iff[OF d] i(2) by simp
  have ms: "?ms = take i ?ms @ ?ms ! i # drop (Suc i) ?ms" by (rule id_take_nth_drop[OF i(1)])
  have "\<forall>x\<in>set (take i ?ms). ms_guid x \<noteq> m_looterGuid s"
  proof
    fix x
    assume "x \<in> set (take i ?ms)"
    then obtain j where "j < i" "x = ?ms ! j" using i(1) by (auto simp: in_set_conv_nth)
    then show "ms_guid x \<noteq> m_looterGuid s" using d i by (simp add: distinct_conv_nth)
  qed
  then have "takeWhile (\<lambda>m. ms_guid m \<noteq> m_looterGuid s) (take i ?ms @ ?ms ! i # drop (Suc i) ?ms) = take i ?ms"
    by (rule takeWhile_split) (rule i(2)[symmetric])
  then have tw: "takeWhile (\<lambda>m. ms_guid m \<noteq> m_looterGuid s) ?ms = take i ?ms" by (simp only: ms[symmetric])
  have rot: "rotate (Suc i) ?ms = drop (Suc i) ?ms @ take (Suc i) ?ms"
    using i(1) by (cases "Suc i = length ?ms") (simp_all add: rotate_drop_take del: rotate_Suc)
  have f: "find P (xs @ ys) = (case find P xs of None \<Rightarrow> find P ys | Some x \<Rightarrow> Some x)" for P and xs ys :: "MemberSlot list"
    by (induction xs) simp_all
  show ?thesis
    using m found tw i(1) unfolding rot by (simp add: UpdateLooterGuid_def f Let_def split: option.split)
qed

lemma loot_kept [simp]: "m_lootMethod (UpdateLooterGuid env b s) = m_lootMethod s" "may_loot env (UpdateLooterGuid env b s) = may_loot env s"
  "m_memberSlots (UpdateLooterGuid env b s) = m_memberSlots s"
proof -
  have "m_lootMethod (SendUpdate env s) = m_lootMethod s" "m_lootMethod (take_turn env p s) = m_lootMethod s" for p s
    by (simp_all add: SendUpdate_def take_turn_def say_all_def say_def Let_def)
  then show "m_lootMethod (UpdateLooterGuid env b s) = m_lootMethod s" by (simp add: UpdateLooterGuid_def Let_def split: option.split)
  have "view (UpdateLooterGuid env b s) = view s" by simp
  then show "may_loot env (UpdateLooterGuid env b s) = may_loot env s" "m_memberSlots (UpdateLooterGuid env b s) = m_memberSlots s"
    by (simp_all add: view_def may_loot_def fun_eq_iff)
qed

lemma filter_split: "j < length (filter P xs) \<Longrightarrow> \<exists>as x bs. xs = as @ x # bs \<and> P x \<and> length (filter P as) = j"
proof (induction xs arbitrary: j)
  case (Cons y ys)
  show ?case
  proof (cases "P y \<and> j = 0")
    case True
    then show ?thesis by (intro exI[of _ "[]"]) auto
  next
    case False
    then have "(if P y then j - 1 else j) < length (filter P ys)" using Cons.prems by (cases "P y") auto
    then obtain as x bs where "ys = as @ x # bs" "P x" "length (filter P as) = (if P y then j - 1 else j)"
      using Cons.IH by blast
    then show ?thesis using False by (intro exI[of _ "y # as"] exI[of _ x] exI[of _ bs]) (auto split: if_splits)
  qed
qed simp

lemma find_filter: "find P xs = (case filter P xs of [] \<Rightarrow> None | x # _ \<Rightarrow> Some x)"
  by (induction xs) simp_all

lemma next_of: "E = A @ x # B \<Longrightarrow> \<exists>zs. B @ A @ [x] = E ! (Suc (length A) mod length E) # zs"
  by (cases B; cases A) (auto simp: nth_append)

lemma next_turn:
  assumes m: "m_lootMethod s \<noteq> MASTER_LOOT" "m_lootMethod s \<noteq> FREE_FOR_ALL" and d: "distinct (map ms_guid (m_memberSlots s))"
    and E: "E = filter (may_loot env s) (m_memberSlots s)" and j: "j < length E" "m_looterGuid s = ms_guid (E ! j)"
  shows "m_looterGuid (UpdateLooterGuid env False s) = ms_guid (E ! (Suc j mod length E))"
proof -
  obtain as x bs where ms: "m_memberSlots s = as @ x # bs" "may_loot env s x" "length (filter (may_loot env s) as) = j"
    using filter_split j(1) E by metis
  let ?A = "filter (may_loot env s) as" and ?B = "filter (may_loot env s) bs"
  have E': "E = ?A @ x # ?B" using ms by (simp add: E)
  then have "E ! j = x" using ms(3) by (metis nth_append_length)
  then have at: "length as < length (m_memberSlots s)" "m_looterGuid s = ms_guid (m_memberSlots s ! length as)"
    using ms j(2) by simp_all
  have "rotate (Suc (length as)) (m_memberSlots s) = bs @ as @ [x]"
    using rotate_append[of "as @ [x]" bs] ms(1) by simp
  moreover obtain zs where "?B @ ?A @ [x] = E ! (Suc (length ?A) mod length E) # zs" using next_of[OF E'] by blast
  ultimately show ?thesis
    using next_looter[OF m d at] ms(2,3) by (simp add: find_filter)
qed

section \<open>Target icons\<close>

definition icons_unique :: "Party \<Rightarrow> bool" where
  "icons_unique s \<longleftrightarrow> length (m_targetIcons s) = TARGET_ICON_COUNT
     \<and> (\<forall>i<TARGET_ICON_COUNT. \<forall>j<TARGET_ICON_COUNT. i \<noteq> j \<and> m_targetIcons s ! i = m_targetIcons s ! j \<longrightarrow> m_targetIcons s ! i = 0)"

lemma set_icon_icons: "m_targetIcons (set_icon env k who g s) = (m_targetIcons s)[k := g]"
  by (simp add: set_icon_def BroadcastPacket_def say_all_def)

lemma cleaned_icons:
  assumes "length (m_targetIcons s) = 8" "n \<le> 8"
  shows "length (m_targetIcons (fold (clean_icon env g) [0..<n] s)) = 8
    \<and> (\<forall>i<8. m_targetIcons (fold (clean_icon env g) [0..<n] s) ! i
         = (if i < n \<and> m_targetIcons s ! i = g then 0 else m_targetIcons s ! i))"
  using assms(2)
proof (induction n)
  case (Suc n)
  then show ?case by (auto simp: clean_icon_def set_icon_icons nth_list_update less_Suc_eq)
qed (simp add: assms(1))

lemma SetTargetIcon_icons:
  assumes u: "icons_unique s" and k: "unat k < 8"
  shows "icons_unique (SetTargetIcon env k who g s) \<and> m_targetIcons (SetTargetIcon env k who g s) ! unat k = g"
proof -
  define c where "c = (if g = 0 then s else fold (clean_icon env g) [0..<8] s)"
  have len: "length (m_targetIcons s) = 8" using u by (simp add: icons_unique_def)
  have c: "length (m_targetIcons c) = 8" "\<forall>i<8. m_targetIcons c ! i = (if m_targetIcons s ! i = g then 0 else m_targetIcons s ! i)"
    using cleaned_icons[OF len, of 8 env g] len by (auto simp: c_def simp del: upt_rec_numeral)
  have "m_targetIcons (SetTargetIcon env k who g s) = (m_targetIcons c)[unat k := g]"
    using k by (simp add: SetTargetIcon_def set_icon_icons c_def del: upt_rec_numeral)
  then show ?thesis using c k u by (auto simp: icons_unique_def nth_list_update)
qed

section \<open>Appointments\<close>

lemma find_map_slots: "(\<And>m. ms_guid (f m) = ms_guid m) \<Longrightarrow> find (\<lambda>m. ms_guid m = g) (map f ms) = map_option f (find (\<lambda>m. ms_guid m = g) ms)"
  by (induction ms) simp_all

lemma assistant_flag:
  assumes "g \<noteq> 0"
  shows "\<exists>F. view (SetGroupUniqueFlag env g 2 True s) = view (s\<lparr>m_memberSlots := map (\<lambda>m. m\<lparr>ms_flags := F m\<rparr>) (m_memberSlots s)\<rparr>)
    \<and> (\<forall>m. ms_guid m = g \<longrightarrow> F m = ms_flags m OR 1)"
proof -
  have no: "\<not> (3 \<le> (2::uint8) \<or> g = 0)" using assms by simp
  have v: "\<exists>F. view x = view (s\<lparr>m_memberSlots := map (\<lambda>m. m\<lparr>ms_flags := F m\<rparr>) (m_memberSlots s)\<rparr>) \<and> (\<forall>m. ms_guid m = g \<longrightarrow> F m = ms_flags m OR 1)"
    if "view x = view (s\<lparr>m_memberSlots := map (\<lambda>m. m\<lparr>ms_flags := F m\<rparr>) (m_memberSlots s)\<rparr>)" "\<forall>m. ms_guid m = g \<longrightarrow> F m = ms_flags m OR 1" for x F
    using that by blast
  show ?thesis unfolding SetGroupUniqueFlag_def Let_def if_not_P[OF no] by (rule v, simp, simp)
qed

lemma appointed: "g \<noteq> 0 \<Longrightarrow> IsMember s g \<Longrightarrow> IsAssistant (SetGroupUniqueFlag env g 2 True s) g"
proof -
  assume g: "g \<noteq> 0" "IsMember s g"
  obtain F where F: "view (SetGroupUniqueFlag env g 2 True s) = view (s\<lparr>m_memberSlots := map (\<lambda>m. m\<lparr>ms_flags := F m\<rparr>) (m_memberSlots s)\<rparr>)"
    "\<forall>m. ms_guid m = g \<longrightarrow> F m = ms_flags m OR 1"
    using assistant_flag[OF g(1)] by blast
  obtain m where m: "getMemberSlot s g = Some m" using g(2) by (auto simp: IsMember_def)
  have "m_memberSlots (SetGroupUniqueFlag env g 2 True s) = map (\<lambda>m. m\<lparr>ms_flags := F m\<rparr>) (m_memberSlots s)"
    using F(1) by (simp add: view_def)
  then have "getMemberSlot (SetGroupUniqueFlag env g 2 True s) g = Some (m\<lparr>ms_flags := F m\<rparr>)"
    using m by (simp add: getMemberSlot_def find_map_slots)
  then show ?thesis using F(2) getMemberSlot_Some[OF m] or_and_self[of "ms_flags m" 1] by (simp add: IsAssistant_def IsGroupRole_def)
qed

section \<open>Members who are away\<close>

lemma removeMember_absent:
  assumes ro: "roster_ok s" and m: "getMemberSlot s p = Some m" and out: "\<not> in_world s p"
  shows "\<exists>c es rs. removeMember env p s
    = (let v = say_all es (s\<lparr>m_rollIds := rs, m_subGroupsCounts := c, m_memberSlots := erase_member p (m_memberSlots s)\<rparr>)
       in Inr (if m_leaderGuid s = p
               then (True, if 0 < GetMembersCount v then snd (ChangeLeaderToFirstSuitableMember env True v) else v)
               else (False, v)))"
proof -
  have d: "distinct (map ms_guid (m_memberSlots s))" using ro by (simp add: roster_ok_def slots_ok_def)
  obtain as bs where sp: "m_memberSlots s = as @ m # bs" using member_split[OF d m] by metis
  define u where "u = s\<lparr>m_rollIds := map (drop_vote p) (m_rollIds s)\<rparr>"
  have "roster_ok u" using ro roster_ok_cong[of u s] by (simp add: u_def)
  then obtain c where c: "SubGroupCounterDecrease (ms_group m) u = Inr (u\<lparr>m_subGroupsCounts := c\<rparr>)"
    using decrease_ok[OF ro sp, of u] sp by (auto simp: u_def)
  define v where "v = u\<lparr>m_subGroupsCounts := c, m_memberSlots := erase_member p (m_memberSlots s)\<rparr>"
  have "getMemberSlot u p = Some m" using m by (simp add: u_def getMemberSlot_def)
  then have "erase_slot p u = Inr v" using c by (simp add: erase_slot_def v_def u_def)
  moreover obtain es where es: "(if IsNeedSave v then say (DbDeleteMember p) v else v) = say_all es v"
  proof -
    have "say e v = say_all [e] v" "v = say_all [] v" for e by (simp_all add: say_def say_all_def)
    then show ?thesis using that by (cases "IsNeedSave v") force+
  qed
  moreover have "m_leaderGuid (say_all es v) = m_leaderGuid s" by (simp add: say_all_def v_def u_def)
  ultimately have "removeMember env p s
    = Inr (if m_leaderGuid s = p
           then (True, if 0 < GetMembersCount (say_all es v) then snd (ChangeLeaderToFirstSuitableMember env True (say_all es v)) else say_all es v)
           else (False, say_all es v))"
    using out by (simp add: removeMember_def removeRolls_eq u_def[symmetric] Let_def)
  then show ?thesis unfolding v_def u_def Let_def by blast
qed

lemma erased_gone:
  assumes d: "distinct (map ms_guid ms)" and m: "find (\<lambda>m. ms_guid m = p) ms = Some m"
  shows "p \<notin> ms_guid ` set (erase_member p ms)" "Suc (length (erase_member p ms)) = length ms"
proof -
  obtain as bs where sp: "ms = as @ m # bs" "ms_guid m = p" "\<forall>x\<in>set as. ms_guid x \<noteq> p" "\<forall>x\<in>set bs. ms_guid x \<noteq> p"
    using find_split[OF d m] by metis
  then have "erase_member p ms = as @ bs" by (simp add: erase_member_def takeWhile_split dropWhile_split)
  then show "p \<notin> ms_guid ` set (erase_member p ms)" "Suc (length (erase_member p ms)) = length ms" using sp by auto
qed

lemma view_tell: "\<not> in_world s g \<Longrightarrow> tell_removed env g how s = s"
  by (simp add: tell_removed_def)

lemma nobody_linked: "group_ok s \<Longrightarrow> \<forall>m\<in>set (m_memberSlots s). \<not> in_world s (ms_guid m) \<Longrightarrow> member_refs s = []"
proof -
  assume ok: "group_ok s" and out: "\<forall>m\<in>set (m_memberSlots s). \<not> in_world s (ms_guid m)"
  have "False" if r: "r \<in> set (member_refs s)" for r
  proof -
    have w: "in_world s (fst r)" using ok r by (simp add: group_ok_def links_ok_def)
    then have "IsMember s (fst r)" using group_ok_facts(4)[OF ok w] r by auto
    then show False using out w by (auto simp: IsMember_iff)
  qed
  then show ?thesis by (cases "member_refs s") auto
qed

lemma no_candidate: "member_refs s = [] \<Longrightarrow> ChangeLeaderToFirstSuitableMember env b s = (False, s)"
  by (simp add: ChangeLeaderToFirstSuitableMember_def suitable_leader_def GetMemberWithRole_def Let_def)

lemma only_candidate:
  assumes "online_members s = [p]" "in_world s p" "p \<noteq> m_leaderGuid s" "IsMember s p" "\<not> isBot env p"
  shows "ChangeLeaderToFirstSuitableMember env False s = (True, SetLeaderFlag p True (ChangeLeader env p s))"
proof -
  have "GetMemberWithRole env s r = (if IsGroupRole s p r then Some p else None)" for r
    using assms by (simp add: GetMemberWithRole_def)
  moreover have "IsGroupRole s p GROUP_MEMBER" using assms(4) by (auto simp: IsGroupRole_def IsMember_def)
  ultimately show ?thesis by (simp add: ChangeLeaderToFirstSuitableMember_def suitable_leader_def Let_def split: option.split)
qed

lemma ChangeLeader_leads: "IsMember s p \<Longrightarrow> m_leaderGuid (ChangeLeader env p s) = p"
proof -
  assume "IsMember s p"
  then obtain m where m: "getMemberSlot s p = Some m" by (auto simp: IsMember_def)
  then have "getMemberSlot (say LfgLeave s) p = Some m" by (simp add: getMemberSlot_def say_def)
  then have "m_leaderGuid (setLeader env p (say LfgLeave s)) = p" using getMemberSlot_Some[OF m] by (simp add: setLeader_def Let_def)
  moreover have "m_leaderGuid (SendUpdate env x) = m_leaderGuid x" "m_leaderGuid (BroadcastPacket env op d b k g x) = m_leaderGuid x"
    for x op d b k g by (simp_all add: SendUpdate_def BroadcastPacket_def say_all_def)
  ultimately show ?thesis using m by (simp add: ChangeLeader_def Let_def)
qed

lemma LoadGroup_leader: "LoadGroup env p s = Inr x \<Longrightarrow> m_leaderGuid x = m_leaderGuid s \<and> m_waitLeaderTimer x = m_waitLeaderTimer s"
proof -
  assume a: "LoadGroup env p s = Inr x"
  have "SetGroup env p g k y = Inr z \<Longrightarrow> m_leaderGuid z = m_leaderGuid y \<and> m_waitLeaderTimer z = m_waitLeaderTimer y" for g k y z
    by (auto simp: SetGroup_def Let_def split: if_splits)
  note set = this
  show ?thesis
  proof (cases "registered s")
    case True
    define y where "y = (if IsLeader s p then SetLeaderFlag p True s else s)"
    obtain z where z: "SetGroup env p (m_Guid s) (GetMemberGroup s p) y = Inr z"
      and x: "(let s = (if heroic_level env p then say_all [SetPlayerDifficulty p (GetDungeonDifficulty z), SetPlayerDifficulty p (GetRaidDifficulty z)] z else z)
        in (if IsLeader s p then s else SetLeaderFlag p False s)) = x"
      using a True unfolding LoadGroup_def y_def by (auto simp: Let_def)
    have "m_leaderGuid y = m_leaderGuid s \<and> m_waitLeaderTimer y = m_waitLeaderTimer s" by (simp add: y_def SetLeaderFlag_def)
    then show ?thesis using set[OF z] x by (auto simp: Let_def SetLeaderFlag_def say_all_def split: if_splits)
  qed (use a in \<open>auto simp: LoadGroup_def SetLeaderFlag_def\<close>)
qed

lemma added_member:
  assumes a: "addMember_at env g name grp flags roles s = Inr (b, x)" and g: "\<not> (IsFull s \<or> g = 0 \<or> \<not> IsPlayer g)"
  shows "b \<and> IsMember x g"
proof -
  define s1 where "s1 = s\<lparr>m_memberSlots := m_memberSlots s @ [\<lparr>ms_guid = g, ms_name = name, ms_group = grp, ms_flags = flags,
     ms_roles = roles, lastMap = (if known_player s g then mapOf env g else 0)\<rparr>]\<rparr>"
  obtain s2 s3 where s: "SubGroupCounterIncrease grp s1 = Inr s2"
      "(if known_player s2 g then link_new_member env g grp s2 else Inr s2) = Inr s3"
    and x: "(let s = (if \<not> isRaidGroup s3 then s3\<lparr>m_targetIcons := replicate TARGET_ICON_COUNT 0\<rparr> else s3)
        in if IsNeedSave s then say (DbInsertMember g flags grp roles) s else s) = x" and b: b
    using a g by (auto simp: addMember_at_def s1_def[symmetric] Let_def)
  have "view x = view s3" by (simp add: x[symmetric] Let_def)
  then have "m_memberSlots x = m_memberSlots s3" by (simp add: view_def)
  moreover have "m_memberSlots s3 = m_memberSlots s2" using s(2) core_link by (auto split: if_splits)
  moreover have "m_memberSlots s2 = m_memberSlots s1"
    using s(1) by (auto simp: SubGroupCounterIncrease_def count_step_def split: option.splits if_splits)
  ultimately show ?thesis using b by (simp add: IsMember_iff s1_def)
qed

lemma AddMember_joins:
  assumes ok: "group_ok s" and p: "\<not> IsMember s p" "IsPlayer p" "\<not> IsFull s" and r: "\<not> isRaidGroup s"
  shows "\<exists>x. AddMember env p name s = Inr (True, x) \<and> IsMember x p"
proof -
  obtain b x where x: "AddMember env p name s = Inr (b, x)" using AddMember_ok[OF ok, of env p name] by (auto simp: okR_def)
  have "first_free_subgroup s = Some 0" using ok r by (simp add: first_free_subgroup_def group_ok_def roster_ok_def)
  then have am: "addMember env p name s
      = addMember_at env p name 0 GROUP_MEMBER (if isLFGGroup s \<and> in_world s p then lfgRoles env p else 0) s"
    by (simp add: addMember_def)
  obtain c y where y: "addMember env p name s = Inr (c, y)"
    using x p(1) by (cases "addMember env p name s") (auto simp: AddMember_def)
  have "p \<noteq> 0" using p(2) by (auto simp: IsPlayer_def IsEmpty_def)
  then have c: "c \<and> IsMember y p" using added_member[OF y[unfolded am]] p by simp
  have "(True, (let s = SendUpdate env y; s = (if isLFDGroup s then say (LfgAddMember p) s else s)
      in if in_world s p then greet_member env p s else s)) = (b, x)"
    using x y c p(1) by (simp add: AddMember_def Let_def)
  then have "b" "view x = view y" by (simp_all add: Let_def) (auto simp: Let_def)
  then show ?thesis using x c by (simp add: view_def IsMember_iff)
qed

section \<open>The properties\<close>

text \<open>
  C9. In every history of a group founded by an invitation, that is no battleground's and none of whose
  players is ever between two maps, as long as \<open>ObjectMgr\<close> knows it: no player is a member twice, a party has at most five members and a raid forty, no subgroup has more than five, a raid's
  counters of its subgroups are exact, the players in the world who refer to the group are exactly its members
  in the world, and a player's own note of his subgroup is the group's. Groups loaded from the database are not covered,
  and between two maps references and roster can part (\<open>expelled_between_maps\<close>).
\<close>
theorem group_invariant:
  assumes "fresh_group env s" "group_life (snd (invite_new env me q s)) t" "registered t"
  shows "distinct (map ms_guid (m_memberSlots t))
    \<and> GetMembersCount t \<le> (if isRaidGroup t then MAX_RAID_SIZE else MAX_GROUP_SIZE)
    \<and> (\<forall>k. count_group (m_memberSlots t) k \<le> MAX_GROUP_SIZE)
    \<and> (isRaidGroup t \<longrightarrow> m_subGroupsCounts t = Some (map (\<lambda>k. of_nat (count_group (m_memberSlots t) k)) [0..<MAX_RAID_SUBGROUPS]))
    \<and> (\<forall>p. in_world t p \<longrightarrow> (p \<in> set (online_members t) \<longleftrightarrow> IsMember t p))
    \<and> (\<forall>p. in_this_group t p \<longrightarrow> IsMember t p \<and> GetMemberGroup t p = m_subGroup t p)"
proof -
  have "party_ok t" using group_server.history_inv[OF assms(2)] invite_new_ok[OF assms(1)] by blast
  then have ok: "group_ok t" using live assms(3) by blast
  then have "roster_ok t" by (simp add: group_ok_def)
  note size = roster_size[OF this]
  show ?thesis
    by (intro conjI allI impI group_ok_facts[OF ok] size | use group_ok_facts[OF ok] in blast)+
qed

text \<open>
  C10. In every history of a group founded by an invitation, that is no battleground's and none of whose
  players is ever between two maps, a request that is possible at all is served without a failed assertion,
  an index out of range or the use of a member that is not there. The requests are those of the clients,
  logins and logouts, the clock, changes of map, the dungeon finder and looting; the calls by which
  battlegrounds take over a group, and groups loaded from the database, are not among them.
\<close>
theorem group_requests_served:
  assumes "fresh_group env s" "group_life (snd (invite_new env me q s)) t" "admissible env' r t"
  shows "\<exists>u. serve env' r t = Inr u"
  using group_server.history_serves[OF assms(2) invite_new_ok[OF assms(1)] assms(3)] .

text \<open>
  C11. A member who neither leads nor assists changes nothing by giving orders: whatever he asks (to expel, to
  appoint, to convert, to move members, to set the loot how), the group stays as it is and only messages
  are sent.
\<close>
theorem plain_members_powerless:
  assumes "order_of r = Some me" "\<not> IsLeader s me" "\<not> IsAssistant s me" "serve env r s = Inr t"
  shows "t\<lparr>out := out s\<rparr> = s"
  using order_ignored[OF assms] by (auto simp: say_all_def)

text \<open>
  C12. The members who are near a corpse take turns at looting: with \<open>E\<close> the members near, in the order of the
  roster, \<open>k\<close> calls of \<open>UpdateLooterGuid\<close> move the turn \<open>k\<close> places on, round and round.
\<close>
theorem round_robin_turns:
  assumes "m_lootMethod s \<noteq> MASTER_LOOT" "m_lootMethod s \<noteq> FREE_FOR_ALL" "distinct (map ms_guid (m_memberSlots s))"
    and "E = filter (may_loot env s) (m_memberSlots s)" "j < length E" "m_looterGuid s = ms_guid (E ! j)"
  shows "m_looterGuid ((UpdateLooterGuid env False ^^ k) s) = ms_guid (E ! ((j + k) mod length E))"
proof -
  let ?u = "\<lambda>k. (UpdateLooterGuid env False ^^ k) s"
  have "m_looterGuid (?u k) = ms_guid (E ! ((j + k) mod length E)) \<and> m_lootMethod (?u k) = m_lootMethod s
      \<and> m_memberSlots (?u k) = m_memberSlots s \<and> may_loot env (?u k) = may_loot env s"
  proof (induction k)
    case (Suc k)
    have "0 < length E" using assms(5) by (rule le_less_trans[OF le0])
    then have "(j + k) mod length E < length E" by (rule mod_less_divisor)
    then have "m_looterGuid (UpdateLooterGuid env False (?u k)) = ms_guid (E ! (Suc ((j + k) mod length E) mod length E))"
      by (intro next_turn) (use assms Suc in simp_all)
    then show ?case using Suc by (simp add: mod_Suc_eq)
  qed (use assms in simp)
  then show ?thesis by simp
qed

text \<open>C30. No two target icons mark the same target, and the icon that was set marks the target it was set on.\<close>
theorem one_icon_per_target:
  assumes "icons_unique s" "unat k < TARGET_ICON_COUNT"
  shows "icons_unique (SetTargetIcon env k who target s) \<and> m_targetIcons (SetTargetIcon env k who target s) ! unat k = target"
  by (rule SetTargetIcon_icons[OF assms])

text \<open>
  C29. An assistant may not appoint assistants by the order for it, which only the leader may give, but does it
  by the order that is meant for tanks: role 2 of a party assignment is the assistant.
\<close>
theorem assistant_appoints_assistants:
  assumes "in_this_group s me" "isRaidGroup s" "IsAssistant s me" "\<not> IsLeader s me" "IsMember s g" "g \<noteq> 0"
  shows "HandleGroupAssistantLeader env me g 1 s = s \<and> IsAssistant (HandlePartyAssignment env me 2 1 g s) g"
  using assms appointed[of g s env] by (simp add: HandleGroupAssistantLeader_def HandlePartyAssignment_def)

text \<open>
  C28. Who is expelled while he is between two maps is no member any more, but his reference stays in the
  group's list and he still refers to the group.
\<close>
theorem expelled_between_maps:
  assumes "roster_ok s" "\<not> isBGGroup s" "IsMember s p" "known_player s p" "\<not> in_world s p" "\<not> IsLeader s p"
    and "2 < GetMembersCount s" "in_this_group s p" "(p, False) \<in> set (member_refs s)"
  shows "\<exists>n t. RemoveMember env p how False s = Inr (n, t) \<and> \<not> IsMember t p \<and> in_this_group t p \<and> (p, False) \<in> set (member_refs t)"
proof -
  define s1 where "s1 = before_removal p s"
  have v1: "view s1 = view s" by (simp add: s1_def)
  have lead: "m_leaderGuid s1 \<noteq> p" using assms(5,6) by (simp add: s1_def before_removal_def IsLeader_def say_all_def)
  obtain m where m: "getMemberSlot s1 p = Some m" using v1 assms(3) by (auto simp: view_def IsMember_def getMemberSlot_def)
  have ro: "roster_ok s1" using v1 assms(1) roster_ok_cong[of s1 s] by (simp add: view_def)
  have out: "\<not> in_world s1 p" using v1 assms(5) by (simp add: view_def)
  obtain c es rs where rm: "removeMember env p s1
      = Inr (False, say_all es (s1\<lparr>m_rollIds := rs, m_subGroupsCounts := c, m_memberSlots := erase_member p (m_memberSlots s1)\<rparr>))"
    using removeMember_absent[OF ro m out, of env] lead by (auto simp: Let_def)
  define u where "u = say_all es (s1\<lparr>m_rollIds := rs, m_subGroupsCounts := c, m_memberSlots := erase_member p (m_memberSlots s1)\<rparr>)"
  have u: "in_world u = in_world s" "m_memberSlots u = erase_member p (m_memberSlots s1)" "member_refs u = member_refs s"
    "m_groupGuid u = m_groupGuid s" "m_Guid u = m_Guid s" "registered u = registered s"
    using v1 by (simp_all add: u_def say_all_def view_def)
  have "(if isBGGroup s1 \<or> isLFDGroup s1 then 1 else 2) < GetMembersCount s1" using v1 assms(7) by (auto simp: view_def GetMembersCount_def)
  then have r: "RemoveMember env p how False s = Inr (length (m_memberSlots u), SendUpdate env u)"
    using rm view_tell[of u p env how] u(1) assms(5)
    by (simp add: RemoveMember_def s1_def[symmetric] u_def[symmetric] Let_def) (simp add: SendUpdate_def say_all_def)
  have vt: "view (SendUpdate env u) = view u" by simp
  have d: "distinct (map ms_guid (m_memberSlots s1))" using ro by (simp add: roster_ok_def slots_ok_def)
  have "p \<notin> ms_guid ` set (m_memberSlots u)" using erased_gone(1)[OF d] m u(2) by (simp add: getMemberSlot_def)
  then show ?thesis using r vt u assms(8,9) by (auto simp: view_def IsMember_iff in_this_group_def)
qed

text \<open>
  C27. When the leader of more than two has been away for the whole reconnection time and nobody else is there
  either, he is thrown out of the group, and the group goes on under his guid as the leader's.
\<close>
theorem leader_thrown_out_still_leads:
  assumes "party_ok s" "registered s" "\<forall>m\<in>set (m_memberSlots s). \<not> in_world s (ms_guid m)" "IsMember s (m_leaderGuid s)"
    and "m_waitLeaderTimer s \<noteq> 0" "m_waitLeaderTimer s \<le> diff" "2 < GetMembersCount s"
  shows "\<exists>t. GroupUpdate env diff s = Inr t \<and> registered t \<and> m_leaderGuid t = m_leaderGuid s \<and> \<not> IsMember t (m_leaderGuid s)"
proof -
  define p where "p = m_leaderGuid s"
  have ok: "group_ok s" "started s" using live[OF assms(1,2)] by simp_all
  define s1 where "s1 = before_removal p (s\<lparr>m_waitLeaderTimer := 0\<rparr>)"
  have v1: "view s1 = view s" by (simp add: s1_def)
  have lead: "m_leaderGuid s1 = p" by (simp add: s1_def before_removal_def say_all_def say_def p_def Let_def)
  have ok1: "group_ok s1" using ok(1) group_ok_view[OF v1] by simp
  have out: "\<not> in_world s1 p" using v1 assms(3,4) by (auto simp: view_def p_def IsMember_iff)
  obtain m where m: "getMemberSlot s1 p = Some m" using v1 assms(4) by (auto simp: view_def IsMember_def getMemberSlot_def p_def)
  have ro: "roster_ok s1" using ok1 by (simp add: group_ok_def)
  have refs: "member_refs s = []" "member_refs s1 = []" using nobody_linked[OF ok(1) assms(3)] v1 by (simp_all add: view_def)
  obtain c es rs where rm: "removeMember env p s1
      = (let v = say_all es (s1\<lparr>m_rollIds := rs, m_subGroupsCounts := c, m_memberSlots := erase_member p (m_memberSlots s1)\<rparr>)
         in Inr (True, if 0 < GetMembersCount v then snd (ChangeLeaderToFirstSuitableMember env True v) else v))"
    using removeMember_absent[OF ro m out, of env] lead by auto
  define u where "u = say_all es (s1\<lparr>m_rollIds := rs, m_subGroupsCounts := c, m_memberSlots := erase_member p (m_memberSlots s1)\<rparr>)"
  have u: "in_world u = in_world s1" "m_memberSlots u = erase_member p (m_memberSlots s1)" "member_refs u = []" "m_leaderGuid u = p"
    "registered u = registered s1"
    using refs(2) lead by (simp_all add: u_def say_all_def)
  have rm: "removeMember env p s1 = Inr (True, u)" using rm no_candidate[OF u(3)] by (simp add: u_def[symmetric] Let_def)
  have d: "distinct (map ms_guid (m_memberSlots s1))" using ro by (simp add: roster_ok_def slots_ok_def)
  have gone: "p \<notin> ms_guid ` set (m_memberSlots u)" and len: "2 \<le> length (m_memberSlots u)"
    using erased_gone[OF d m[unfolded getMemberSlot_def]] u(2) arg_cong[OF v1, of "\<lambda>v. length (fst (fst v))"] assms(7)
    by (simp_all add: view_def GetMembersCount_def)
  obtain front rest where fr: "m_memberSlots u = front # rest" using len by (cases "m_memberSlots u") auto
  define t where "t = SendUpdate env (announce_leader env p front u)"
  have vt: "view t = view u" by (simp add: t_def)
  have lt: "m_leaderGuid t = p"
    using u(1,4) out by (simp add: t_def SendUpdate_def announce_leader_def BroadcastPacket_def say_all_def)
  have "(if isBGGroup s1 \<or> isLFDGroup s1 then 1 else 2) < GetMembersCount s1" using v1 assms(7) by (auto simp: view_def GetMembersCount_def)
  then have "RemoveMember env p 0 False (s\<lparr>m_waitLeaderTimer := 0\<rparr>) = Inr (length (m_memberSlots t), t)"
    using rm view_tell[of u p env 0] u(1) out fr
    by (simp add: RemoveMember_def s1_def[symmetric] Let_def t_def[symmetric] del: view_simps)
  moreover have "ChangeLeaderToFirstSuitableMember env False (s\<lparr>m_waitLeaderTimer := 0\<rparr>) = (False, s\<lparr>m_waitLeaderTimer := 0\<rparr>)"
    by (rule no_candidate) (simp add: refs)
  ultimately have "GroupUpdate env diff s = Inr t"
    using assms(5,6) vt len by (simp add: GroupUpdate_def p_def view_def linorder_not_less)
  then show ?thesis using lt vt gone u(5) v1 assms(2) by (auto simp: view_def IsMember_iff p_def)
qed

text \<open>
  C25. When a leader is away and nobody is there, the first member who comes back is the leader after the
  reconnection time.
\<close>
theorem first_back_leads:
  assumes "party_ok s" "registered s" "\<forall>m\<in>set (m_memberSlots s). \<not> in_world s (ms_guid m)" "IsMember s p"
    and "m_leaderGuid s \<noteq> p" "\<not> isBot env p" "m_waitLeaderTimer s = 0" "reconnect_period env * 1000 \<noteq> 0" "reconnect_period env * 1000 \<le> diff"
  shows "\<exists>t u. LoginPlayer env p s = Inr t \<and> GroupUpdate env diff t = Inr u \<and> m_leaderGuid u = p \<and> IsMember u p"
proof -
  have ok: "group_ok s" "started s" using live[OF assms(1,2)] by simp_all
  have out: "\<not> in_world s p" using assms(3,4) by (auto simp: IsMember_iff)
  have refs: "member_refs s = []" by (rule nobody_linked[OF ok(1) assms(3)])
  obtain m where m: "getMemberSlot s p = Some m" using assms(4) by (auto simp: IsMember_def)
  let ?r = "relink p (ms_group m) (enter p s)"
  obtain x where x: "LoadGroup env p (enter p s) = Inr x" "view x = view ?r" using LoadGroup_relinks[OF ok(1) out m] by (auto simp: okR_def)
  have sel: "registered x" "m_groupGuid x p = m_Guid x" "member_refs x = [(p, False)]" "in_world x p" "m_memberSlots x = m_memberSlots s"
    using x(2) refs assms(2) by (simp_all add: view_def relink_def enter_def)
  have lead: "m_leaderGuid x = m_leaderGuid s" "m_waitLeaderTimer x = 0" using LoadGroup_leader[OF x(1)] assms(7) by (simp_all add: enter_def)
  define T where "T = reconnect_period env * 1000"
  define t where "t = SendUpdate env (x\<lparr>m_waitLeaderTimer := T\<rparr>)"
  have "IsMember (enter p s) p" using assms(4) by (simp add: enter_def IsMember_def getMemberSlot_def)
  then have login: "LoginPlayer env p s = Inr t"
    using x(1) sel lead assms(5) by (simp add: LoginPlayer_def enter_def[symmetric] in_this_group_def CheckLeader_def IsLeader_def T_def t_def)
  define w where "w = t\<lparr>m_waitLeaderTimer := 0\<rparr>"
  have vw: "view w = view x" and lw: "m_leaderGuid w = m_leaderGuid s" "m_waitLeaderTimer t = T"
    using lead by (simp_all add: w_def t_def SendUpdate_def say_all_def)
  have mem: "IsMember w p" using vw sel(5) assms(4) by (simp add: view_def IsMember_iff)
  have "ChangeLeaderToFirstSuitableMember env False w = (True, SetLeaderFlag p True (ChangeLeader env p w))"
    by (rule only_candidate) (use vw sel lw mem assms(5,6) in \<open>simp_all add: view_def\<close>)
  then have upd: "GroupUpdate env diff t = Inr (SetLeaderFlag p True (ChangeLeader env p w))"
    using lw(2) assms(8,9) by (simp add: GroupUpdate_def T_def w_def[symmetric] linorder_not_less)
  have "view (SetLeaderFlag p True (ChangeLeader env p w)) = view w" by simp
  then have "IsMember (SetLeaderFlag p True (ChangeLeader env p w)) p" using mem by (simp add: view_def IsMember_iff)
  then show ?thesis using login upd ChangeLeader_leads[OF mem] by (auto simp: SetLeaderFlag_def)
qed

text \<open>C26. Who declines the invitation of a group that has room is made a member of it.\<close>
theorem declining_joins:
  assumes "party_ok s" "registered s" "m_groupInviteGuid s p = m_Guid s" "\<not> IsMember s p" "IsPlayer p" "\<not> IsFull s" "\<not> isRaidGroup s"
  shows "\<exists>t. HandleGroupInviteResponse env p False s = Inr t \<and> IsMember t p"
proof -
  obtain x where x: "AddMember env p (playerName env p) s = Inr (True, x)" "IsMember x p"
    using AddMember_joins[OF _ assms(4-7)] live[OF assms(1,2)] by blast
  then have "IsMember (say e x) p" for e by (simp add: IsMember_iff say_def)
  then show ?thesis using x assms(2,3) by (simp add: HandleGroupInviteResponse_def)
qed

section \<open>Witnesses\<close>

text \<open>A world of the players 1, 2, 3 and 4, of whom those up to \<open>n\<close> are there, and the servers around it.\<close>

definition roster_env :: GroupEnv where
  "roster_env = \<lparr>lootEnv = \<lparr>itemProto = (\<lambda>i. None), hasSession = (\<lambda>g. True), CanUseItem = (\<lambda>g i. True), CanStoreNewItem = (\<lambda>g i n. 0),
       AllowedForPlayer = (\<lambda>g l k. True), isNear = (\<lambda>g. True), enchanting = (\<lambda>g. 0), lootable_type = True, lootTargetGuid = 100,
       lootMapId = 0, bucket = (\<lambda>g gs. 0)\<rparr>,
     otherGroup = (\<lambda>g. False), otherBG = (\<lambda>g. False), isBot = (\<lambda>g. False), playerName = (\<lambda>g. [ucast g]), mapOf = (\<lambda>g. 0),
     heroic_level = (\<lambda>g. False), dungeonDifficultyOf = (\<lambda>g. 0), raidDifficultyOf = (\<lambda>g. 0), loggingOut = (\<lambda>g. False),
     playerLoading = (\<lambda>g. False), inBattleGround = (\<lambda>g. False), lfgRoles = (\<lambda>g. 0), lfgDungeonId = 0, lfgFinished = False,
     raid_flags_unique = True, reconnect_period = 120, newGroupGuid = 500, nearCorpse = (\<lambda>g. g \<noteq> 2), opensCorpse = (\<lambda>g. False)\<rparr>"

definition roster_slot :: "ObjectGuid \<Rightarrow> uint8 \<Rightarrow> MemberSlot" where
  "roster_slot g fl = \<lparr>ms_guid = g, ms_name = [ucast g], ms_group = 0, ms_flags = fl, ms_roles = 0, lastMap = 0\<rparr>"

definition roster :: "uint8 \<Rightarrow> MemberSlot list \<Rightarrow> ObjectGuid list \<Rightarrow> Party" where
  "roster ty ms here = \<lparr>m_rollIds = [], loots = (\<lambda>l. None), member_refs = map (\<lambda>p. (p, False)) here, m_lootThreshold = 2, draws = (\<lambda>i. i), out = [],
     m_Guid = (if ms = [] then 0 else 500), m_memberSlots = ms, m_invitees = [], m_leaderGuid = (if ms = [] then 0 else 1), m_leaderName = [1],
     m_groupType = ty, m_Difficulty = 0, m_bgGroup = False, m_bfGroup = False, m_targetIcons = replicate 8 0, m_raidMarkers = replicate 5 0,
     m_lootMethod = GROUP_LOOT, m_looterGuid = 1, m_subGroupsCounts = (if ty = 0 then None else Some (counters ms)), m_waitLeaderTimer = 0,
     registered = (ms \<noteq> []), in_world = (\<lambda>p. p \<in> set here), known_player = (\<lambda>p. p \<in> set here),
     m_groupGuid = (\<lambda>p. if p \<in> set here \<and> ms \<noteq> [] then 500 else 0), m_subGroup = (\<lambda>p. 0), m_originalGroupGuid = (\<lambda>p. 0),
     m_originalSubGroup = (\<lambda>p. 0), m_groupInviteGuid = (\<lambda>p. 0), leader_flag = (\<lambda>p. False)\<rparr>"

lemmas roster_defs = roster_env_def roster_slot_def roster_def

lemma roster_group_ok:
  assumes "slots_ok ms" "ms \<noteq> []" "\<forall>m\<in>set ms. ms_group m = 0" "distinct here" "set here \<subseteq> ms_guid ` set ms" "ty = 0 \<or> ty = 2"
  shows "group_ok (roster ty ms here)" "party_ok (roster ty ms here)"
proof -
  have "plain_group (roster ty ms here)" using assms(2) by (simp add: plain_group_def roster_def)
  moreover have "roster_ok (roster ty ms here)" using assms by (auto simp: roster_ok_def roster_def isRaidGroup_def)
  moreover have "links_ok (roster ty ms here)"
    using assms(2-5) by (auto simp: links_ok_def roster_def distinct_map inj_on_def image_iff subset_iff)
  ultimately show g: "group_ok (roster ty ms here)" by (simp add: group_ok_def)
  have "started (roster ty ms here)" using assms(2) by (simp add: started_def roster_def)
  then show "party_ok (roster ty ms here)" using g by (simp add: group_party)
qed

lemma three_slots: "slots_ok [roster_slot 1 a, roster_slot 2 b, roster_slot 3 c]"
  by (auto simp: slots_ok_def roster_slot_def count_group_def)

text \<open>The group that 1 founds by inviting 2.\<close>

lemma roster_fresh: "fresh_group roster_env (roster 0 [] [1, 2])"
  by (simp add: fresh_group_def roster_defs)

definition founded :: Party where
  "founded = snd (invite_new roster_env 1 2 (roster 0 [] [1, 2]))"

lemma founded_facts: "registered founded" "m_memberSlots founded = []" "m_groupType founded = 0" "group_ok founded"
proof -
  show r: "registered founded" "m_memberSlots founded = []" "m_groupType founded = 0"
    by (simp_all add: founded_def invite_new_def AddLeaderInvite_def AddInvite_def Group_new_def own_group_def group_exists_def
        RemoveInvite_def SetGroupInvite_def SetLeaderFlag_def roster_defs Let_def)
  show "group_ok founded" using live[OF invite_new_ok[OF roster_fresh] r(1)[unfolded founded_def]] by (simp add: founded_def)
qed

lemma IsPlayer_1: "IsPlayer 1"
  by (simp add: IsPlayer_def IsEmpty_def GetHigh_def IsLargeHigh_def)

lemma group_invariant_witness:
  "\<exists>t. serve roster_env (JoinLFG 1 [1]) (snd (invite_new roster_env 1 2 (roster 0 [] [1, 2]))) = Inr t
     \<and> IsMember t 1 \<and> GetMembersCount t \<le> 5"
proof -
  obtain t where t: "AddMember roster_env 1 [1] founded = Inr (True, t)" "IsMember t 1"
    using AddMember_joins[OF founded_facts(4), of 1 roster_env "[1]"] founded_facts
    by (auto simp: IsMember_iff IsPlayer_1 IsFull_def GetMembersCount_def isRaidGroup_def)
  have g: "registered t" "\<not> isRaidGroup t" using grown_AddMember[OF t(1)] founded_facts by (simp_all add: grown_def isRaidGroup_def)
  have "group_life founded t"
    by (rule history_step[where env = roster_env and r = "JoinLFG 1 [1]", OF history_refl]) (use t founded_facts in \<open>simp_all add: roster_env_def\<close>)
  then have "GetMembersCount t \<le> 5"
    using group_invariant[OF roster_fresh, of 1 2 t] g by (simp add: founded_def)
  then show ?thesis using t by (simp add: founded_def)
qed

lemma group_requests_served_witness:
  "\<exists>u. serve roster_env (Leave 1) (snd (invite_new roster_env 1 2 (roster 0 [] [1, 2]))) = Inr u"
  by (rule group_requests_served[OF roster_fresh history_refl]) (simp add: roster_env_def)

lemma plain_members_powerless_witness:
  "\<exists>t. serve roster_env (UninviteGuid 2 3) (roster 0 [roster_slot 1 0, roster_slot 2 0, roster_slot 3 0] [1, 2, 3]) = Inr t
     \<and> t\<lparr>out := []\<rparr> = roster 0 [roster_slot 1 0, roster_slot 2 0, roster_slot 3 0] [1, 2, 3]"
proof -
  let ?s = "roster 0 [roster_slot 1 0, roster_slot 2 0, roster_slot 3 0] [1, 2, 3]"
  have nl: "\<not> IsLeader ?s 2" "\<not> IsAssistant ?s 2"
    by (simp_all add: roster_defs IsLeader_def IsAssistant_def IsGroupRole_def getMemberSlot_def)
  have "party_ok ?s" by (rule roster_group_ok(2)[OF three_slots]) (simp_all add: roster_slot_def)
  then obtain t where t: "serve roster_env (UninviteGuid 2 3) ?s = Inr t"
    using serve_ok[of ?s roster_env "UninviteGuid 2 3"] by (auto simp: okR_def roster_env_def)
  show ?thesis using t plain_members_powerless[OF _ nl t] by (simp add: roster_def)
qed

lemma round_robin_turns_witness:
  "m_looterGuid ((UpdateLooterGuid roster_env False ^^ 3) (roster 0 [roster_slot 1 0, roster_slot 2 0, roster_slot 3 0] [1, 2, 3])) = 3"
proof -
  let ?s = "roster 0 [roster_slot 1 0, roster_slot 2 0, roster_slot 3 0] [1, 2, 3]"
  have E: "[roster_slot 1 0, roster_slot 3 0] = filter (may_loot roster_env ?s) (m_memberSlots ?s)"
    by (simp add: roster_defs may_loot_def)
  have m: "3 mod Suc (Suc 0) = Suc 0" by (simp add: numeral_2_eq_2[symmetric])
  show ?thesis using round_robin_turns[OF _ _ _ E, of 0 3] by (simp add: roster_def roster_slot_def m)
qed

lemma one_icon_per_target_witness:
  "icons_unique (SetTargetIcon roster_env 7 1 90 (roster 0 [roster_slot 1 0] [1]))"
  using one_icon_per_target[of "roster 0 [roster_slot 1 0] [1]" 7 roster_env 1 90] by (simp add: icons_unique_def roster_def)

lemma assistant_appoints_assistants_witness:
  "IsAssistant (HandlePartyAssignment roster_env 2 2 1 3 (roster 2 [roster_slot 1 0, roster_slot 2 1, roster_slot 3 0] [1, 2, 3])) 3"
  using assistant_appoints_assistants[of "roster 2 [roster_slot 1 0, roster_slot 2 1, roster_slot 3 0] [1, 2, 3]" 2 3 roster_env]
  by (simp add: roster_defs in_this_group_def isRaidGroup_def IsAssistant_def IsGroupRole_def getMemberSlot_def IsLeader_def IsMember_def)

lemma expelled_between_maps_witness:
  "\<exists>n t. RemoveMember roster_env 3 0 False ((roster 0 [roster_slot 1 0, roster_slot 2 0, roster_slot 3 0] [1, 2, 3])\<lparr>in_world := (\<lambda>p. p < 3)\<rparr>) = Inr (n, t)
     \<and> \<not> IsMember t 3 \<and> in_this_group t 3"
proof -
  let ?s = "(roster 0 [roster_slot 1 0, roster_slot 2 0, roster_slot 3 0] [1, 2, 3])\<lparr>in_world := (\<lambda>p. p < 3)\<rparr>"
  have "roster_ok ?s" using three_slots by (auto simp: roster_ok_def roster_def isRaidGroup_def roster_slot_def)
  then show ?thesis
    using expelled_between_maps[of ?s 3 roster_env 0]
    by (auto simp: roster_defs isBGGroup_def IsMember_def getMemberSlot_def IsLeader_def GetMembersCount_def in_this_group_def)
qed

lemma leader_thrown_out_still_leads_witness:
  "\<exists>t. GroupUpdate roster_env 50 ((roster 0 [roster_slot 1 0, roster_slot 2 0, roster_slot 3 0] [])\<lparr>m_waitLeaderTimer := 20\<rparr>) = Inr t
     \<and> m_leaderGuid t = 1 \<and> \<not> IsMember t 1"
proof -
  let ?r = "roster 0 [roster_slot 1 0, roster_slot 2 0, roster_slot 3 0] []"
  have "party_ok ?r" by (rule roster_group_ok(2)[OF three_slots]) (simp_all add: roster_slot_def)
  then have "party_ok (?r\<lparr>m_waitLeaderTimer := 20\<rparr>)" by (rule party_view) simp
  then show ?thesis
    using leader_thrown_out_still_leads[of "?r\<lparr>m_waitLeaderTimer := 20\<rparr>" 50 roster_env]
    by (auto simp: roster_defs IsMember_def getMemberSlot_def GetMembersCount_def)
qed

lemma first_back_leads_witness:
  "\<exists>t u. LoginPlayer roster_env 3 (roster 0 [roster_slot 1 0, roster_slot 2 0, roster_slot 3 0] []) = Inr t
     \<and> GroupUpdate roster_env 200000 t = Inr u \<and> m_leaderGuid u = 3"
proof -
  let ?r = "roster 0 [roster_slot 1 0, roster_slot 2 0, roster_slot 3 0] []"
  have "party_ok ?r" by (rule roster_group_ok(2)[OF three_slots]) (simp_all add: roster_slot_def)
  then show ?thesis
    using first_back_leads[of ?r 3 roster_env 200000] by (auto simp: roster_defs IsMember_def getMemberSlot_def)
qed

lemma declining_joins_witness:
  "\<exists>t. HandleGroupInviteResponse roster_env 4 False
      ((roster 0 [roster_slot 1 0, roster_slot 2 0, roster_slot 3 0] [1, 2, 3])\<lparr>m_groupInviteGuid := (\<lambda>p. if p = 4 then 500 else 0)\<rparr>) = Inr t
     \<and> IsMember t 4"
proof -
  let ?r = "roster 0 [roster_slot 1 0, roster_slot 2 0, roster_slot 3 0] [1, 2, 3]"
  let ?s = "?r\<lparr>m_groupInviteGuid := (\<lambda>p. if p = 4 then 500 else 0)\<rparr>"
  have "party_ok ?r" by (rule roster_group_ok(2)[OF three_slots]) (simp_all add: roster_slot_def)
  then have "party_ok ?s" by (rule party_view) (simp add: view_def)
  then show ?thesis
    using declining_joins[of ?s 4 roster_env]
    by (auto simp: roster_defs IsMember_def getMemberSlot_def IsPlayer_def IsEmpty_def GetHigh_def IsFull_def GetMembersCount_def isRaidGroup_def)
qed

end
