(* ===== verification/Spec2Isabelle.thy ===== *)
theory Spec2Isabelle
  imports ReadSafety UpdateMask ChannelClaims EventClaims Timers ReputationClaims AuthClaims LinkedList LootClaims GroupClaims
begin

text \<open>
  A verification library for MaNGOS, a game server in C++: a login daemon (src/src/realmd) admits
  clients and tells them the realms, a world daemon (src/src/mangosd with src/src/game) runs the game,
  and both rest on src/src/shared and src/src/framework. What is modelled here is the logic with a
  state of its own and a contract one can state: the packet layer, the identifiers, the movement
  codec, the login server, chat channels, groups and their loot rolls, reputation, timers, timed
  events and the intrusive lists under many of them. The models are
  executable definitions that follow the code statement by statement, with its names.

  \<^bold>\<open>Failures.\<close> A method that throws, fails an assertion or runs into undefined behaviour returns
  \<open>Inl\<close> of the failure (type \<open>result\<close> of Prelude); \<open>bindR\<close> sequences. Machine integers are words, and
  \<open>std::map\<close> is the sorted association list of StdMap, which the locale \<open>ordered_map\<close> specifies.

  \<^bold>\<open>Theories and code.\<close>

  \<^item> Prelude, StdMap, Util: word types, byte representation, ordered maps; Util.h and Util.cpp.
  \<^item> ByteBuffer, WireCodecs, BitWire: class \<open>ByteBuffer\<close> (shared/ByteBuffer.h). Locales \<open>byte_codec\<close>
    (an encoder and a decoder that undo each other, instantiated for integers, strings, vectors,
    packed guids) and \<open>bit_wire\<close> (bits and bytes in any order, with the specification \<open>wire_bytes\<close> of
    the bytes they occupy).
  \<^item> ObjectGuid, GuidWire: identifiers and their three wire forms (game/ObjectGuid.h).
  \<^item> UpdateMask: class \<open>UpdateMask\<close>, refined to a set of field numbers by the locale \<open>field_set\<close>.
  \<^item> MovementTables, MovementInfo, MovementCodec, MovementRoundtrip: the packet layouts of
    game/MovementStructures.h and \<open>MovementInfo::Read\<close> and \<open>Write\<close> of game/Unit.cpp. The loops run
    over \<open>MSE_COUNT\<close> entries as in the code; every table ends in \<open>MSEEnd\<close> before that
    (\<open>sequences_terminated\<close>), so the fuel is the code's own bound.
  \<^item> ReadSafety: the locale \<open>safe_reader\<close>: whatever the bytes, a reader returns or throws the exception
    its callers catch.
  \<^item> Channel, ChannelSteps, ChannelProps, ChannelClaims: chat channels (game/Channel.cpp), every
    handler, and the transition system of the handler calls in any environment, without the calls by
    which an owner kicks or bans himself (\<open>self_kick_leaves_ghost\<close> shows what those break).
  \<^item> EventProcessor, WorldObjectEvents, EventClaims: timed events. The events are a parameter; \<open>Update\<close>
    is a \<open>partial_function\<close>, because an event may put itself back for ever (\<open>update_starves\<close>), and is
    shown to return under the locales \<open>timely_events\<close> and \<open>quiet_events\<close>, which the world object events
    satisfy.
  \<^item> Timers: shared/Timer.h.
  \<^item> Reputation, ReputationProps, ReputationClaims: class \<open>ReputationMgr\<close> (game/ReputationMgr.cpp).
  \<^item> BigNumber, RealmList, AuthSocket, AuthClaims: the login daemon (realmd/AuthSocket.cpp,
    realmd/RealmList.cpp, shared/Auth/BigNumber.cpp). \<open>OnRead\<close> terminates because every handler that
    succeeds takes bytes from the input (\<open>handler_shrinks\<close>).

  \<^item> LinkedList: the intrusive lists of framework/Utilities/LinkedList.h over a store of elements, and
    the references of framework/Utilities/LinkedReference that live in them. The locale
    \<open>cursor_list\<close> is interpreted for both directions of traversal. Any sequence of operations on
    references refines the same sequence on lists (\<open>ref_run\<close>, \<open>list_step\<close>).
  \<^item> LootRoll, LootClaims: rolls for loot in a group (class \<open>Roll\<close> and the loot half of game/Group.cpp):
    how a roll starts for several members, one or none, that its totals count the votes from its start
    to its last vote while nobody votes twice (\<open>cast_in_turn\<close>), and what the count decides then.
  \<^item> GroupRoster, GroupHandlers: the roster half of class \<open>Group\<close> with the players' side of a membership
    (game/Player.cpp), and the handlers of game/GroupHandler.cpp. The state \<open>Party\<close> extends that of the
    rolls: it is one group, the players' references to it, and who is in the world.
  \<^item> GroupInvariant, GroupSteps, GroupClaims: the invariant of a group, one lemma per operation that keeps
    it, the histories of a group (every request of a client, logins, logouts and the clock, in any order)
    as an instance of the locale \<open>request_server\<close>, and the properties. Invariant and histories are for
    groups founded by an invitation, that are no battleground's, were not loaded from the database and
    whose players are not between two maps (\<open>expelled_between_maps\<close> shows what happens there).

  \<^bold>\<open>How the parts interact.\<close> A packet arrives in the socket's buffer. The login daemon reads it byte
  by byte (\<open>OnRead\<close> looks up the command and calls the handler); its numbers go through \<open>BigNumber\<close>, its
  realm list through \<open>RealmList\<close>. In the world daemon a packet is a \<open>ByteBuffer\<close>; handlers read guids
  and movement from it and call, for instance, the channel. Channels answer with packets again, which
  are modelled as the list of what is sent to whom. Object changes are collected in an \<open>UpdateMask\<close>.
  The update loop of the world measures time with the timers and lets the event processors run.

  \<^bold>\<open>Parameters.\<close> What lies outside the repository, or is only data, is an argument of the definitions:
  \<open>OpenSSL\<close> (with the hypothesis \<open>openssl_ok\<close> from its manual pages), the database's answers, the
  configuration and random numbers (\<open>AuthEnv\<close>, \<open>ChannelEnv\<close>, \<open>RepEnv\<close>), the client's data tables, the
  events of an event processor. Floating point numbers are their bit patterns; arithmetic on them is
  a parameter.

  \<^bold>\<open>What the lemmas show.\<close> Round trips of every codec; safety of reading bytes that come from the peer;
  invariants of the channel, the group, the reputation manager and the event queue over all histories
  of calls; who may do what on a channel or in a group; termination of the event loop and of reading; agreement of the
  session key between client and login server. And, where the code does not do what it means to, the
  theorem that says so, with a concrete run.

  \<^bold>\<open>Not modelled.\<close> Network and database I/O, threads and locks, logging, configuration; the object
  model (Object, Unit, Player), spells, auras and combat, whose rules are data of the client and
  floating point arithmetic; path finding and map geometry; scripts; bots, warden and anticheat; the
  tools and vendored libraries. Of groups, the binding of instances, the sharing of experience and the
  queues of battlegrounds are left out, which need maps and battlegrounds. Candidates for an extension
  are game event schedules, guild ranks and the auction house.
\<close>

end
